(* ===== verification/Prelude.thy ===== *)
theory Prelude
  imports Main Complex_Main "HOL-Library.Char_ord" "HOL-Library.List_Lexorder"
begin

text \<open>
  Shared vocabulary of the development: Python exceptions as values, the results
  of fallible operations, time, the string operations the code uses, SQL tables as
  lists of rows, and the collections of facts the component theories share.

  \<^bold>\<open>Time.\<close> An \<open>instant\<close> is a timezone-aware datetime, read as microseconds since
  the epoch.  Fields of dataclasses that are validated to be timezone-aware hold
  instants, so a naive value is not a value of the type; operations that check
  awareness of an argument themselves take a \<open>pytime\<close>, which may be naive.

  \<^bold>\<open>Numbers.\<close> Python integers are \<open>int\<close>.  Python floats (prices, costs, profit and
  loss) are read as exact rationals: rounding errors, infinities and NaN are outside
  the model.

  \<^bold>\<open>Strings.\<close> A \<open>string\<close> is a list of characters, one per code point below 256.
  Messages of exceptions are the source's literals, in English where the source has them in
  Chinese; a part formatted from an object's \<open>repr\<close> is left out of the message.
\<close>

section \<open>Errors and results\<close>

datatype err =
    ValueError string
  | InvalidOrderTransition string
  | RuntimeError string
  | KeyError string
  | TypeError string
  | AssertionError
  | IntegrityError string
  | PermissionError string
  | LookupError string
  | NameError string
  | ZeroDivisionError string
  | OperationalError string

type_synonym 'a res = "err + 'a"

text \<open>A state-changing operation returns its result and the state it leaves behind;
  an exception does not undo the changes already committed.\<close>

type_synonym ('s, 'a) prog = "'s \<Rightarrow> 'a res \<times> 's"

definition exc_str :: "err \<Rightarrow> string" where
  "exc_str e = (case e of ValueError m \<Rightarrow> m | InvalidOrderTransition m \<Rightarrow> m | RuntimeError m \<Rightarrow> m
     | KeyError m \<Rightarrow> CHR 39 # m @ [CHR 39] | TypeError m \<Rightarrow> m | AssertionError \<Rightarrow> []
     | IntegrityError m \<Rightarrow> m | PermissionError m \<Rightarrow> m | LookupError m \<Rightarrow> m | NameError m \<Rightarrow> m
     | ZeroDivisionError m \<Rightarrow> m | OperationalError m \<Rightarrow> m)"

definition is_ok :: "'a res \<Rightarrow> bool" where
  "is_ok r = (case r of Inl _ \<Rightarrow> False | Inr _ \<Rightarrow> True)"

lemma is_ok_simps [simp]: "\<not> is_ok (Inl e)" "is_ok (Inr x)"
  by (simp_all add: is_ok_def)

lemma is_ok_iff: "is_ok r \<longleftrightarrow> (\<exists>x. r = Inr x)"
  by (cases r) simp_all

text \<open>Continue with the value of a result; an exception ends the computation.\<close>

definition res_then :: "'a res \<Rightarrow> ('a \<Rightarrow> 'b res) \<Rightarrow> 'b res" where
  "res_then r f = (case r of Inl e \<Rightarrow> Inl e | Inr x \<Rightarrow> f x)"

lemma res_then_Inr: "res_then r f = Inr y \<longleftrightarrow> (\<exists>x. r = Inr x \<and> f x = Inr y)"
  by (auto simp: res_then_def split: sum.split)

lemma res_then_Inl: "res_then r f = Inl e \<longleftrightarrow> r = Inl e \<or> (\<exists>x. r = Inr x \<and> f x = Inl e)"
  by (auto simp: res_then_def split: sum.split)

text \<open>The first failing check of a sequence of guarded \<open>raise\<close> statements.\<close>

fun first_error :: "(bool \<times> err) list \<Rightarrow> 'a \<Rightarrow> 'a res" where
  "first_error [] x = Inr x"
| "first_error ((b, e) # cs) x = (if b then Inl e else first_error cs x)"

lemma first_error_Inr: "first_error cs x = Inr y \<longleftrightarrow> y = x \<and> (\<forall>c \<in> set cs. \<not> fst c)"
  by (induction cs x rule: first_error.induct) auto

declare first_error.simps [simp del]

lemma first_error_Inl: "first_error cs x = Inl e \<Longrightarrow> (True, e) \<in> set cs"
  by (induction cs x rule: first_error.induct) (auto simp: first_error.simps split: if_splits)

text \<open>The first reason of a sequence of guarded early returns.\<close>

fun first_reason :: "(bool \<times> string) list \<Rightarrow> string option" where
  "first_reason [] = None"
| "first_reason ((b, r) # cs) = (if b then Some r else first_reason cs)"

lemma first_reason_None: "first_reason cs = None \<longleftrightarrow> (\<forall>c \<in> set cs. \<not> fst c)"
  by (induction cs rule: first_reason.induct) auto

declare first_reason.simps [simp del]

text \<open>A loop over a list whose body may raise.\<close>

fun mapM :: "('a \<Rightarrow> 'b res) \<Rightarrow> 'a list \<Rightarrow> 'b list res" where
  "mapM f [] = Inr []"
| "mapM f (x # xs) = (case f x of Inl e \<Rightarrow> Inl e | Inr y \<Rightarrow>
     (case mapM f xs of Inl e \<Rightarrow> Inl e | Inr ys \<Rightarrow> Inr (y # ys)))"

lemma mapM_Inr_length: "mapM f xs = Inr ys \<Longrightarrow> length ys = length xs"
  by (induction xs arbitrary: ys) (auto split: sum.splits)

lemma mapM_Inr_set: "mapM f xs = Inr ys \<Longrightarrow> y \<in> set ys \<Longrightarrow> \<exists>x \<in> set xs. f x = Inr y"
  by (induction xs arbitrary: ys) (auto split: sum.splits)

lemma mapM_Inr_all: "(\<And>x. x \<in> set xs \<Longrightarrow> \<exists>y. f x = Inr y) \<Longrightarrow> \<exists>ys. mapM f xs = Inr ys"
proof (induction xs)
  case (Cons x xs)
  then obtain y ys where "f x = Inr y" "mapM f xs = Inr ys" by (metis list.set_intros)
  then show ?case by simp
qed simp

fun foldM :: "('a \<Rightarrow> 's \<Rightarrow> 's res) \<Rightarrow> 'a list \<Rightarrow> 's \<Rightarrow> 's res" where
  "foldM f [] s = Inr s"
| "foldM f (x # xs) s = (case f x s of Inl e \<Rightarrow> Inl e | Inr s' \<Rightarrow> foldM f xs s')"

lemma foldM_inv:
  assumes "foldM f xs s = Inr s'" and "P s"
    and "\<And>x s s'. x \<in> set xs \<Longrightarrow> f x s = Inr s' \<Longrightarrow> P s \<Longrightarrow> P s'"
  shows "P s'"
  using assms
proof (induction xs arbitrary: s)
  case (Cons x xs)
  then obtain t where t: "f x s = Inr t" "foldM f xs t = Inr s'"
    by (auto split: sum.splits)
  with Cons.prems have "P t" by (metis list.set_intros(1))
  with t Cons show ?case by (metis list.set_intros(2))
qed simp

lemma foldM_each:
  assumes "foldM f xs s = Inr s'"
    and "\<And>x s s'. x \<in> set xs \<Longrightarrow> f x s = Inr s' \<Longrightarrow> Q x s'"
    and "\<And>x y s s'. f x s = Inr s' \<Longrightarrow> Q y s \<Longrightarrow> Q y s'"
  shows "\<forall>x \<in> set xs. Q x s'"
  using assms(1,2)
proof (induction xs arbitrary: s)
  case (Cons x xs)
  then obtain t where t: "f x s = Inr t" "foldM f xs t = Inr s'"
    by (auto split: sum.splits)
  have "Q x t" using Cons.prems(2) t(1) by simp
  then have "Q x s'" by (rule foldM_inv [OF t(2)]) (rule assms(3))
  moreover have "\<forall>y \<in> set xs. Q y s'" using Cons.IH [OF t(2)] Cons.prems(2) by simp
  ultimately show ?case by simp
qed simp

lemma foldM_total:
  assumes "P s" and "\<And>x s. x \<in> set xs \<Longrightarrow> P s \<Longrightarrow> \<exists>s'. f x s = Inr s' \<and> P s'"
  shows "\<exists>s'. foldM f xs s = Inr s' \<and> P s'"
  using assms
proof (induction xs arbitrary: s)
  case (Cons x xs)
  then obtain t where "f x s = Inr t" "P t" by (metis list.set_intros(1))
  with Cons show ?case by (metis foldM.simps(2) list.set_intros(2) sum.case(2))
qed simp

text \<open>State-changing steps in sequence, and a loop of them: an exception stops the rest and
  keeps the state reached.\<close>

definition and_then :: "('s, 'a) prog \<Rightarrow> ('a \<Rightarrow> ('s, 'b) prog) \<Rightarrow> ('s, 'b) prog" where
  "and_then m f s = (case m s of (Inl e, s') \<Rightarrow> (Inl e, s') | (Inr x, s') \<Rightarrow> f x s')"

definition give :: "'a \<Rightarrow> ('s, 'a) prog" where
  "give x s = (Inr x, s)"

definition fail :: "err \<Rightarrow> ('s, 'a) prog" where
  "fail e s = (Inl e, s)"

definition lift_res :: "'a res \<Rightarrow> ('s, 'a) prog" where
  "lift_res r s = (r, s)"

fun fold_prog :: "('a \<Rightarrow> 'b \<Rightarrow> ('s, 'b) prog) \<Rightarrow> 'a list \<Rightarrow> 'b \<Rightarrow> ('s, 'b) prog" where
  "fold_prog f [] b s = (Inr b, s)"
| "fold_prog f (x # xs) b s = (case f x b s of (Inl e, s') \<Rightarrow> (Inl e, s')
     | (Inr b', s') \<Rightarrow> fold_prog f xs b' s')"

lemma and_then_Inr: "and_then m f s = (Inr y, s'') \<longleftrightarrow>
    (\<exists>x s'. m s = (Inr x, s') \<and> f x s' = (Inr y, s''))"
  by (auto simp: and_then_def split: prod.splits sum.splits)

lemma prog_simps [simp]: "give x s = (Inr x, s)" "fail e s = (Inl e, s)" "lift_res r s = (r, s)"
  by (simp_all add: give_def fail_def lift_res_def)

lemma fold_prog_rel:
  assumes "\<And>x b s r s'. x \<in> set xs \<Longrightarrow> f x b s = (r, s') \<Longrightarrow> rel s s'"
    and "\<And>s. rel s s" and "\<And>a b c. rel a b \<Longrightarrow> rel b c \<Longrightarrow> rel a c"
    and "fold_prog f xs b s = (r, s')"
  shows "rel s s'"
  using assms(1,4)
proof (induction xs arbitrary: b s)
  case (Cons x xs)
  obtain q t where q: "f x b s = (q, t)" by fastforce
  have t: "rel s t" by (rule Cons.prems(1) [OF _ q]) simp
  show ?case
  proof (cases q)
    case (Inr b')
    with q Cons.prems(2) have "fold_prog f xs b' t = (r, s')" by simp
    from Cons.IH [OF _ this] Cons.prems(1) t show ?thesis by (meson assms(3) list.set_intros(2))
  qed (use q t Cons.prems(2) in simp)
qed (simp add: assms(2))

section \<open>Time\<close>

type_synonym instant = int

datatype pytime = Aware instant | Naive instant

definition seconds :: "int \<Rightarrow> int" where
  "seconds n = n * 1000000"

text \<open>\<open>timedelta.total_seconds()\<close>.\<close>

definition total_seconds :: "int \<Rightarrow> rat" where
  "total_seconds d = of_int d / 1000000"

section \<open>Strings\<close>

definition is_space :: "char \<Rightarrow> bool" where
  "is_space c = (let n = of_char c :: nat in (9 \<le> n \<and> n \<le> 13) \<or> (28 \<le> n \<and> n \<le> 32) \<or> n = 133 \<or> n = 160)"

definition strip :: "string \<Rightarrow> string" where
  "strip s = rev (dropWhile is_space (rev (dropWhile is_space s)))"

text \<open>\<open>str.lower\<close> on the code points below 256: the capitals of ASCII and of Latin-1, which
  lie 32 below their small letters (215 is the multiplication sign).\<close>

definition to_lower :: "char \<Rightarrow> char" where
  "to_lower c = (let n = of_char c :: nat in
     if (65 \<le> n \<and> n \<le> 90) \<or> (192 \<le> n \<and> n \<le> 222 \<and> n \<noteq> 215) then char_of (n + 32) else c)"

definition lower :: "string \<Rightarrow> string" where
  "lower s = map to_lower s"

abbreviation blank :: "string \<Rightarrow> bool" where
  "blank s \<equiv> strip s = []"

text \<open>Truth of an optional string: \<open>None\<close> and the empty string are false.\<close>

definition truthy :: "string option \<Rightarrow> bool" where
  "truthy x = (x \<noteq> None \<and> x \<noteq> Some [])"

definition py_or :: "string option \<Rightarrow> string option \<Rightarrow> string option" where
  "py_or x y = (if truthy x then x else y)"

text \<open>\<open>sep.join(xs)\<close>.\<close>

fun join :: "string \<Rightarrow> string list \<Rightarrow> string" where
  "join sep [] = []"
| "join sep [x] = x"
| "join sep (x # y # ys) = x @ sep @ join sep (y # ys)"

text \<open>\<open>tuple(dict.fromkeys(xs))\<close>: the first occurrences, in order.\<close>

definition dedup :: "'a list \<Rightarrow> 'a list" where
  "dedup xs = rev (remdups (rev xs))"

lemma set_dedup [simp]: "set (dedup xs) = set xs"
  by (simp add: dedup_def)

lemma dedup_Nil_iff [simp]: "dedup xs = [] \<longleftrightarrow> xs = []"
  by (simp add: dedup_def)

lemma truthy_simps [simp]: "\<not> truthy None" "truthy (Some s) \<longleftrightarrow> s \<noteq> []"
  by (auto simp: truthy_def)

lemma blank_all: "blank s \<longleftrightarrow> (\<forall>c \<in> set s. is_space c)"
proof
  assume "blank s"
  then have *: "\<forall>c \<in> set (dropWhile is_space s). is_space c"
    by (simp add: strip_def dropWhile_eq_Nil_conv)
  show "\<forall>c \<in> set s. is_space c"
  proof (cases "dropWhile is_space s")
    case Nil
    then show ?thesis by (simp add: dropWhile_eq_Nil_conv)
  next
    case (Cons a as)
    then show ?thesis using * hd_dropWhile [of is_space s] by simp
  qed
next
  assume "\<forall>c \<in> set s. is_space c"
  then have d: "dropWhile is_space s = []" by (simp only: dropWhile_eq_Nil_conv)
  show "blank s" unfolding strip_def d by simp
qed

section \<open>Numbers\<close>

type_synonym price = rat

definition sum_int :: "int list \<Rightarrow> int" where
  "sum_int xs = sum_list xs"

text \<open>Python's \<open>round\<close> of a float to an integer: ties go to the even neighbour.\<close>

definition py_round :: "rat \<Rightarrow> int" where
  "py_round x = (let f = \<lfloor>x\<rfloor>; d = x - of_int f in
     if d < 1 / 2 then f else if d > 1 / 2 then f + 1 else if even f then f else f + 1)"

lemma py_round_of_int [simp]: "py_round (of_int n) = n"
  by (simp add: py_round_def Let_def)

lemma py_round_near: "\<bar>of_int (py_round x) - x\<bar> \<le> 1 / 2"
proof -
  have "of_int \<lfloor>x\<rfloor> \<le> x" "x < of_int \<lfloor>x\<rfloor> + 1" by (auto simp: of_int_floor_le floor_less_cancel)
  then show ?thesis by (auto simp: py_round_def Let_def abs_le_iff)
qed

lemma py_round_nonneg: "0 \<le> x \<Longrightarrow> 0 \<le> py_round x"
  by (auto simp: py_round_def Let_def)

section \<open>Tables\<close>

text \<open>
  A table is the list of its rows in insertion (rowid) order.  \<open>UPDATE \<dots> WHERE p\<close> is
  \<open>tbl_update\<close>; \<open>SELECT \<dots> WHERE p\<close> with \<open>fetchone\<close> is \<open>List.find p\<close>; an \<open>ORDER BY\<close> is a
  stable \<open>sort_key\<close>.
\<close>

definition tbl_update :: "('r \<Rightarrow> bool) \<Rightarrow> ('r \<Rightarrow> 'r) \<Rightarrow> 'r list \<Rightarrow> 'r list" where
  "tbl_update p f rs = map (\<lambda>r. if p r then f r else r) rs"

lemma tbl_update_length [simp]: "length (tbl_update p f rs) = length rs"
  by (simp add: tbl_update_def)

lemma tbl_update_Nil [simp]: "tbl_update p f [] = []"
  by (simp add: tbl_update_def)

lemma tbl_update_key [simp]:
  assumes "\<And>r. k (f r) = k r"
  shows "map k (tbl_update p f rs) = map k rs"
  using assms by (simp add: tbl_update_def)

lemma set_tbl_update: "set (tbl_update p f rs) = (\<lambda>r. if p r then f r else r) ` set rs"
  by (simp add: tbl_update_def)

lemma tbl_update_origin: "q \<in> set (tbl_update p f rs) \<Longrightarrow>
    \<exists>r. r \<in> set rs \<and> q = (if p r then f r else r)"
  by (auto simp: set_tbl_update)

lemma ball_tbl_update:
  "(\<forall>r \<in> set (tbl_update p f rs). Q r) \<longleftrightarrow> (\<forall>r \<in> set rs. if p r then Q (f r) else Q r)"
  by (auto simp: set_tbl_update)

lemma bex_tbl_update:
  "(\<exists>r \<in> set (tbl_update p f rs). Q r) \<longleftrightarrow> (\<exists>r \<in> set rs. if p r then Q (f r) else Q r)"
  by (auto simp: set_tbl_update)

lemma find_tbl_update_key:
  assumes "\<And>r. k (f r) = k r"
  shows "find (\<lambda>r. k r = x) (tbl_update p f rs)
    = map_option (\<lambda>r. if p r then f r else r) (find (\<lambda>r. k r = x) rs)"
  using assms by (induction rs) (auto simp: tbl_update_def)

lemma find_SomeD: "find p rs = Some r \<Longrightarrow> p r \<and> r \<in> set rs"
  by (metis find_Some_iff nth_mem)

lemma find_NoneD: "find p rs = None \<Longrightarrow> r \<in> set rs \<Longrightarrow> \<not> p r"
  by (simp add: find_None_iff)

lemma find_distinct_key:
  "distinct (map k rs) \<Longrightarrow> r \<in> set rs \<Longrightarrow> find (\<lambda>q. k q = k r) rs = Some r"
  by (induction rs) (auto simp: rev_image_eqI)

lemma find_append: "find p (xs @ ys) = (case find p xs of None \<Rightarrow> find p ys | Some x \<Rightarrow> Some x)"
  by (induction xs) auto

lemma distinct_key_inj:
  "distinct (map k rs) \<Longrightarrow> r \<in> set rs \<Longrightarrow> q \<in> set rs \<Longrightarrow> k r = k q \<Longrightarrow> r = q"
  by (metis find_distinct_key option.inject)

text \<open>The first row of \<open>ORDER BY key LIMIT 1\<close>: the least key, the oldest row among equals.\<close>

definition first_by :: "('r \<Rightarrow> 'k::linorder) \<Rightarrow> 'r list \<Rightarrow> 'r option" where
  "first_by k rs = (case sort_key k rs of [] \<Rightarrow> None | r # _ \<Rightarrow> Some r)"

lemma first_by_SomeD:
  assumes "first_by k rs = Some r"
  shows "r \<in> set rs \<and> (\<forall>q \<in> set rs. k r \<le> k q)"
proof -
  from assms obtain qs where qs: "sort_key k rs = r # qs"
    by (auto simp: first_by_def split: list.splits)
  then have "set rs = set (r # qs)" by (metis set_sort)
  moreover have "sorted (map k (r # qs))" by (metis qs sorted_sort_key)
  ultimately show ?thesis by auto
qed

lemma first_by_None [simp]: "first_by k rs = None \<longleftrightarrow> rs = []"
proof -
  have "sort_key k rs = [] \<longleftrightarrow> rs = []" by (metis length_0_conv length_sort)
  then show ?thesis by (auto simp: first_by_def split: list.splits)
qed

section \<open>Dictionaries\<close>

text \<open>A Python dict is the list of its items in insertion order; assigning to a present
  key keeps the key's place.  Lookup is \<open>map_of\<close>.\<close>

fun dict_put :: "'k \<Rightarrow> 'v \<Rightarrow> ('k \<times> 'v) list \<Rightarrow> ('k \<times> 'v) list" where
  "dict_put k v [] = [(k, v)]"
| "dict_put k v ((k', v') # d) = (if k' = k then (k, v) # d else (k', v') # dict_put k v d)"

lemma dict_put_absent: "k \<notin> fst ` set d \<Longrightarrow> dict_put k v d = d @ [(k, v)]"
  by (induction d) (auto simp: image_iff)

lemma map_of_dict_put [simp]: "map_of (dict_put k v d) = (map_of d)(k \<mapsto> v)"
  by (induction d) (auto simp: fun_eq_iff)

lemma keys_dict_put [simp]: "fst ` set (dict_put k v d) = insert k (fst ` set d)"
proof (induction d)
  case (Cons p d)
  then show ?case by (cases p; cases "fst p = k") (simp_all add: insert_commute)
qed simp

lemma distinct_dict_put: "distinct (map fst d) \<Longrightarrow> distinct (map fst (dict_put k v d))"
proof (induction d)
  case (Cons p d)
  then have "fst p \<notin> fst ` set (dict_put k v d)" if "fst p \<noteq> k" using that by simp
  with Cons show ?case by (cases p) auto
qed simp

text \<open>\<open>d.get(k, 0)\<close> and \<open>d[k] = d.get(k, 0) + v\<close>.\<close>

definition dict_get0 :: "('k \<times> int) list \<Rightarrow> 'k \<Rightarrow> int" where
  "dict_get0 d k = (case map_of d k of None \<Rightarrow> 0 | Some v \<Rightarrow> v)"

definition dict_add :: "'k \<Rightarrow> int \<Rightarrow> ('k \<times> int) list \<Rightarrow> ('k \<times> int) list" where
  "dict_add k v d = dict_put k (dict_get0 d k + v) d"

lemma dict_get0_add [simp]: "dict_get0 (dict_add k v d) x = (if x = k then dict_get0 d x + v else dict_get0 d x)"
  by (simp add: dict_get0_def dict_add_def)

lemma dict_get0_absent: "x \<notin> fst ` set d \<Longrightarrow> dict_get0 d x = 0"
  by (simp add: dict_get0_def map_of_eq_None_iff [THEN iffD2])

lemma dict_get0_Nil [simp]: "dict_get0 [] x = 0"
  by (simp add: dict_get0_def)

lemma keys_dict_add [simp]: "fst ` set (dict_add k v d) = insert k (fst ` set d)"
  by (simp add: dict_add_def)

lemma dict_get0_fold: "dict_get0 (fold (\<lambda>x. dict_add (k x) (v x)) xs d) c
    = dict_get0 d c + sum_list (map v (filter (\<lambda>x. k x = c) xs))"
  by (induction xs arbitrary: d) auto

text \<open>The values of a JSON detail object.\<close>

datatype json_value = JStr string | JInt int | JTime instant | JNull

section \<open>Decimal text\<close>

fun show_nat :: "nat \<Rightarrow> string" where
  "show_nat n = (if n < 10 then [char_of (48 + n)] else show_nat (n div 10) @ [char_of (48 + n mod 10)])"

declare show_nat.simps [simp del]

definition show_int :: "int \<Rightarrow> string" where
  "show_int i = (if i < 0 then ''-'' @ show_nat (nat (- i)) else show_nat (nat i))"

section \<open>Runs of operations\<close>

text \<open>A component's operations, run one after another from a state; the locale carries
  a one-step invariant to every state of every run.\<close>

fun run :: "('s \<Rightarrow> 'op \<Rightarrow> 's) \<Rightarrow> 's \<Rightarrow> 'op list \<Rightarrow> 's" where
  "run step s [] = s"
| "run step s (x # xs) = run step (step s x) xs"

lemma run_append: "run step s (xs @ ys) = run step (run step s xs) ys"
  by (induction xs arbitrary: s) auto

locale step_invariant =
  fixes step :: "'s \<Rightarrow> 'op \<Rightarrow> 's"
    and inv :: "'s \<Rightarrow> bool"
  assumes step_inv: "inv s \<Longrightarrow> inv (step s x)"
begin

lemma run_inv: "inv s \<Longrightarrow> inv (run step s xs)"
  by (induction xs arbitrary: s) (auto intro: step_inv)

end

locale step_monotone =
  fixes step :: "'s \<Rightarrow> 'op \<Rightarrow> 's"
    and inv :: "'s \<Rightarrow> bool"
    and rel :: "'s \<Rightarrow> 's \<Rightarrow> bool"
  assumes inv_step: "inv s \<Longrightarrow> inv (step s x)"
    and rel_step: "inv s \<Longrightarrow> rel s (step s x)"
    and rel_refl: "rel s s"
    and rel_trans: "rel s t \<Longrightarrow> rel t u \<Longrightarrow> rel s u"
begin

sublocale step_invariant step inv
  by unfold_locales (rule inv_step)

lemma run_rel: "inv s \<Longrightarrow> rel s (run step s xs)"
  by (induction xs arbitrary: s) (auto intro: rel_refl rel_trans rel_step inv_step)

end

section \<open>Queues that hand out each key once\<close>

text \<open>How often the steps of a run hand out a key, and the contract under which that is
  at most once: a claim takes an open key and closes it, and a key once known is never
  opened again.\<close>

fun claim_count :: "('s \<Rightarrow> 'op \<Rightarrow> 's) \<Rightarrow> ('s \<Rightarrow> 'op \<Rightarrow> 'k option) \<Rightarrow> 'k \<Rightarrow> 's \<Rightarrow> 'op list \<Rightarrow> nat" where
  "claim_count step claimed k s [] = 0"
| "claim_count step claimed k s (x # xs) =
     (if claimed s x = Some k then 1 else 0) + claim_count step claimed k (step s x) xs"

locale one_shot_queue =
  fixes step :: "'s \<Rightarrow> 'op \<Rightarrow> 's"
    and claimed :: "'s \<Rightarrow> 'op \<Rightarrow> 'k option"
    and opened :: "'s \<Rightarrow> 'k \<Rightarrow> bool"
    and known :: "'s \<Rightarrow> 'k \<Rightarrow> bool"
    and inv :: "'s \<Rightarrow> bool"
  assumes inv_step: "inv s \<Longrightarrow> inv (step s x)"
    and claim_open: "inv s \<Longrightarrow> claimed s x = Some k \<Longrightarrow> opened s k"
    and claim_closes: "inv s \<Longrightarrow> claimed s x = Some k \<Longrightarrow> \<not> opened (step s x) k"
    and known_step: "inv s \<Longrightarrow> known s k \<Longrightarrow> known (step s x) k"
    and open_known: "opened s k \<Longrightarrow> known s k"
    and stays_closed: "inv s \<Longrightarrow> known s k \<Longrightarrow> \<not> opened s k \<Longrightarrow> \<not> opened (step s x) k"
begin

sublocale step_invariant step inv
  by unfold_locales (rule inv_step)

lemma closed_never_claimed:
  "inv s \<Longrightarrow> known s k \<Longrightarrow> \<not> opened s k \<Longrightarrow> claim_count step claimed k s xs = 0"
proof (induction xs arbitrary: s)
  case (Cons x xs)
  then have "claimed s x \<noteq> Some k" by (metis claim_open)
  with Cons show ?case by (simp add: inv_step known_step stays_closed)
qed simp

lemma claimed_at_most_once: "inv s \<Longrightarrow> claim_count step claimed k s xs \<le> 1"
proof (induction xs arbitrary: s)
  case (Cons x xs)
  show ?case
  proof (cases "claimed s x = Some k")
    case True
    with Cons.prems have "known (step s x) k" "\<not> opened (step s x) k"
      by (auto intro: known_step open_known claim_open dest: claim_closes)
    with Cons.prems True show ?thesis by (simp add: closed_never_claimed inv_step)
  next
    case False
    with Cons show ?thesis by (simp add: inv_step)
  qed
qed simp

end

end
