(* ===== verification/Broker_Models.thy ===== *)
theory Broker_Models
  imports Prelude
begin

text \<open>
  The broker contract of \<open>tw_quant/broker\<close>: account identity (\<open>identity.py\<close>), order
  requests and orders with their validation (\<open>models.py\<close>), the routed envelopes
  (\<open>routing.py\<close>), adapter capabilities (\<open>capabilities.py\<close>) and the account safety
  policy (\<open>safety.py\<close>).  String literals of a fixed set are constructors of a
  datatype, so the checks that a value is one of the literals hold by typing.
  The validating \<open>__post_init__\<close> of a dataclass is a function from the candidate
  value to the value or the error it raises.
\<close>

section \<open>Account identity\<close>

text \<open>\<open>@dataclass(frozen=True, order=True)\<close>: compared by broker name, then account.\<close>

datatype account_ref = AccountRef (broker_name: string) (account_id: string)

definition mk_account_ref :: "string \<Rightarrow> string \<Rightarrow> account_ref res" where
  "mk_account_ref bn acc =
     (let bn' = lower (strip bn); acc' = strip acc in
      if bn' = [] \<or> acc' = [] then Inl (ValueError ''broker_name and account_id are required'')
      else Inr (AccountRef bn' acc'))"

instantiation account_ref :: linorder
begin

definition less_eq_account_ref :: "account_ref \<Rightarrow> account_ref \<Rightarrow> bool" where
  "less_eq_account_ref a b \<longleftrightarrow> broker_name a < broker_name b \<or>
     (broker_name a = broker_name b \<and> account_id a \<le> account_id b)"

definition less_account_ref :: "account_ref \<Rightarrow> account_ref \<Rightarrow> bool" where
  "less_account_ref a b \<longleftrightarrow> broker_name a < broker_name b \<or>
     (broker_name a = broker_name b \<and> account_id a < account_id b)"

instance
  by intro_classes (auto simp: less_eq_account_ref_def less_account_ref_def account_ref.expand)

end

section \<open>Order requests\<close>

datatype order_side = Buy | Sell
datatype order_type = Market | Limit | Stop
datatype order_purpose = Entry | Exit | Liquidation
datatype time_in_force = Rod | Ioc | Fok
datatype execution_mode = Paper | Live

datatype broker_order_status =
    CREATED | RISK_APPROVED | SUBMITTING | ACCEPTED | PARTIALLY_FILLED | FILLED
  | CANCEL_PENDING | CANCELLED | REJECTED | EXPIRED | UNKNOWN

definition status_terminal :: "broker_order_status \<Rightarrow> bool" where
  "status_terminal s \<longleftrightarrow> s \<in> {FILLED, CANCELLED, REJECTED, EXPIRED}"

definition status_value :: "broker_order_status \<Rightarrow> string" where
  "status_value s = (case s of CREATED \<Rightarrow> ''created'' | RISK_APPROVED \<Rightarrow> ''risk_approved''
     | SUBMITTING \<Rightarrow> ''submitting'' | ACCEPTED \<Rightarrow> ''accepted''
     | PARTIALLY_FILLED \<Rightarrow> ''partially_filled'' | FILLED \<Rightarrow> ''filled''
     | CANCEL_PENDING \<Rightarrow> ''cancel_pending'' | CANCELLED \<Rightarrow> ''cancelled''
     | REJECTED \<Rightarrow> ''rejected'' | EXPIRED \<Rightarrow> ''expired'' | UNKNOWN \<Rightarrow> ''unknown'')"

definition canonical_paper_status :: "string \<Rightarrow> broker_order_status res" where
  "canonical_paper_status s =
     (if s = ''pending_risk'' then Inr CREATED
      else if s = ''approved'' then Inr RISK_APPROVED
      else if s = ''rejected'' then Inr REJECTED
      else if s = ''filled'' then Inr FILLED
      else Inl (ValueError (''unknown paper order status: '' @ s)))"

record broker_order_request =
  req_client_order_id :: string
  req_owner_id :: string
  req_strategy_id :: string
  req_strategy_version :: int
  req_symbol :: string
  req_contract :: string
  req_side :: order_side
  req_quantity :: int
  req_mode :: execution_mode
  req_order_type :: order_type
  req_time_in_force :: time_in_force
  req_limit_price :: "price option"
  req_stop_price :: "price option"
  req_reference_price :: "price option"
  req_risk_stop_price :: "price option"
  req_reduce_only :: bool
  req_purpose :: order_purpose
  req_reason :: string
  req_correlation_id :: "string option"
  req_causation_id :: "string option"
  req_source :: string
  req_arm_id :: "string option"

definition price_truthy :: "price option \<Rightarrow> bool" where
  "price_truthy p \<longleftrightarrow> p \<noteq> None \<and> p \<noteq> Some 0"

definition nonpositive :: "price option \<Rightarrow> bool" where
  "nonpositive p = (case p of None \<Rightarrow> False | Some x \<Rightarrow> x \<le> 0)"

definition request_post_init :: "broker_order_request \<Rightarrow> broker_order_request res" where
  "request_post_init q = first_error
     [(\<exists>v \<in> set [req_client_order_id q, req_owner_id q, req_strategy_id q, req_symbol q, req_contract q]. blank v,
        ValueError ''order identifiers, owner, strategy, and contract are required''),
      (length (req_client_order_id q) > 128,
        ValueError ''client_order_id cannot exceed 128 characters''),
      (req_strategy_version q < 1 \<or> req_quantity q < 1,
        ValueError ''strategy_version and quantity must be positive''),
      (blank (req_reason q), ValueError ''order reason is required''),
      (blank (req_source q), ValueError ''order source is required''),
      (req_source q = ''manual_live_canary'' \<and> \<not> truthy (req_arm_id q),
        ValueError ''manual live canary orders require arm_id''),
      (req_reduce_only q \<and> req_purpose q = Entry,
        ValueError ''reduce_only orders cannot have entry purpose''),
      (req_order_type q = Limit \<and> \<not> price_truthy (req_limit_price q),
        ValueError ''limit orders require limit_price''),
      (req_order_type q = Stop \<and> \<not> price_truthy (req_stop_price q),
        ValueError ''stop orders require stop_price''),
      (\<exists>p \<in> set [req_limit_price q, req_stop_price q, req_reference_price q, req_risk_stop_price q]. nonpositive p,
        ValueError ''order prices must be positive'')] q"

abbreviation valid_request :: "broker_order_request \<Rightarrow> bool" where
  "valid_request q \<equiv> request_post_init q = Inr q"

lemma valid_request_quantity: "valid_request q \<Longrightarrow> 1 \<le> req_quantity q"
  by (auto simp: request_post_init_def first_error_Inr)

lemma valid_request_reduce_only: "valid_request q \<Longrightarrow> req_reduce_only q \<Longrightarrow> req_purpose q \<noteq> Entry"
  by (auto simp: request_post_init_def first_error_Inr)

section \<open>Orders\<close>

record broker_order =
  bo_request :: broker_order_request
  bo_status :: broker_order_status
  bo_updated_at :: instant
  bo_broker_order_id :: "string option"
  bo_filled_quantity :: int
  bo_average_fill_price :: "price option"
  bo_status_reason :: "string option"

definition order_post_init :: "broker_order \<Rightarrow> broker_order res" where
  "order_post_init b = first_error
     [(\<not> (0 \<le> bo_filled_quantity b \<and> bo_filled_quantity b \<le> req_quantity (bo_request b)),
        ValueError ''filled_quantity must be within requested quantity''),
      (nonpositive (bo_average_fill_price b), ValueError ''average_fill_price must be positive''),
      (bo_filled_quantity b \<noteq> 0 \<and> bo_average_fill_price b = None,
        ValueError ''filled orders require average_fill_price''),
      (bo_status b = FILLED \<and> bo_filled_quantity b \<noteq> req_quantity (bo_request b),
        ValueError ''filled status requires the full requested quantity'')] b"

abbreviation valid_order :: "broker_order \<Rightarrow> bool" where
  "valid_order b \<equiv> order_post_init b = Inr b"

lemma order_post_init_same: "order_post_init b = Inr c \<Longrightarrow> c = b"
  by (simp add: order_post_init_def first_error_Inr)

lemma valid_order_iff: "valid_order b \<longleftrightarrow>
    0 \<le> bo_filled_quantity b \<and> bo_filled_quantity b \<le> req_quantity (bo_request b) \<and>
    \<not> nonpositive (bo_average_fill_price b) \<and>
    (bo_filled_quantity b \<noteq> 0 \<longrightarrow> bo_average_fill_price b \<noteq> None) \<and>
    (bo_status b = FILLED \<longrightarrow> bo_filled_quantity b = req_quantity (bo_request b))"
  by (auto simp: order_post_init_def first_error_Inr)

section \<open>Routing envelopes\<close>

record routed_request =
  rq_target :: account_ref
  rq_request :: broker_order_request

record routed_order =
  ro_target :: account_ref
  ro_order :: broker_order

definition mk_routed_request :: "account_ref \<Rightarrow> broker_order_request \<Rightarrow> routed_request res" where
  "mk_routed_request t q = (if req_mode q \<noteq> Live
     then Inl (ValueError ''routed broker orders must use live execution mode'')
     else Inr \<lparr>rq_target = t, rq_request = q\<rparr>)"

definition mk_routed_order :: "account_ref \<Rightarrow> broker_order \<Rightarrow> routed_order res" where
  "mk_routed_order t b = (if req_mode (bo_request b) \<noteq> Live
     then Inl (ValueError ''routed broker orders must use live execution mode'')
     else Inr \<lparr>ro_target = t, ro_order = b\<rparr>)"

section \<open>Capabilities\<close>

datatype capability = SupportsMarketOrders | SupportsLimitOrders | SupportsIoc | SupportsFok
  | SupportsCancel | SupportsReplace | SupportsNativeStop | SupportsOco | SupportsClientOrderId
  | SupportsOrderCallback | SupportsFillCallback | SupportsPartialFills

text \<open>A frozen dataclass of twelve booleans, all false by default: the features held.\<close>

type_synonym broker_capabilities = "capability list"

definition require_capability :: "broker_capabilities \<Rightarrow> capability \<Rightarrow> unit res" where
  "require_capability cs c = (if c \<notin> set cs
     then Inl (RuntimeError ''broker capability is unavailable'') else Inr ())"

section \<open>Account safety\<close>

definition LIVE_TRADING_CONFIRMATION :: string where
  "LIVE_TRADING_CONFIRMATION = ''I_UNDERSTAND_LIVE_ORDERS''"

record broker_account_safety =
  sf_account :: account_ref
  sf_enabled :: bool
  sf_confirmation :: string
  sf_allowed_accounts :: "account_ref list"

definition safety_assert_ordering_allowed :: "broker_account_safety \<Rightarrow> unit res" where
  "safety_assert_ordering_allowed s =
     (if \<not> sf_enabled s then Inl (RuntimeError ''live order execution is disabled'')
      else if sf_confirmation s \<noteq> LIVE_TRADING_CONFIRMATION
        then Inl (RuntimeError ''live trading confirmation is invalid'')
      else if sf_account s \<notin> set (sf_allowed_accounts s)
        then Inl (RuntimeError ''live broker account is not allowlisted'')
      else Inr ())"

section \<open>Lemmas\<close>

lemma strip_idem: "strip (strip s) = strip s"
proof -
  have last_ok: "t \<noteq> [] \<Longrightarrow> \<not> is_space (hd t) \<Longrightarrow> dropWhile is_space t = t" for t
    by (cases t) auto
  let ?d = "dropWhile is_space (rev (dropWhile is_space s))"
  show ?thesis
  proof (cases "?d = []")
    case True
    have e: "strip s = []" unfolding strip_def True by simp
    show ?thesis unfolding e by (simp add: strip_def)
  next
    case False
    then have hd: "\<not> is_space (hd ?d)" by (rule hd_dropWhile)
    obtain u where u: "rev (dropWhile is_space s) = u @ ?d"
      by (metis takeWhile_dropWhile_id)
    then have e: "dropWhile is_space s = rev ?d @ rev u" by (metis rev_append rev_rev_ident)
    have "hd (dropWhile is_space s) = hd (rev ?d)" using False by (metis e hd_append rev_is_Nil_conv)
    moreover have "dropWhile is_space s \<noteq> []" using False by (metis dropWhile.simps(1) rev.simps(1))
    ultimately have "\<not> is_space (hd (rev ?d))" using hd_dropWhile [of is_space s] by simp
    then have "dropWhile is_space (rev ?d) = rev ?d" using False by (intro last_ok) simp_all
    then show ?thesis using last_ok [OF False hd] by (simp add: strip_def)
  qed
qed

definition capital_code :: "nat \<Rightarrow> bool" where
  "capital_code n \<longleftrightarrow> (65 \<le> n \<and> n \<le> 90) \<or> (192 \<le> n \<and> n \<le> 222 \<and> n \<noteq> 215)"

lemma of_char_to_lower: "(of_char (to_lower c) :: nat) =
    (if capital_code (of_char c) then of_char c + 32 else of_char c)"
  by (simp add: to_lower_def capital_code_def Let_def of_char_of take_bit_eq_mod)

lemma is_space_to_lower [simp]: "is_space (to_lower c) = is_space c"
  by (simp add: is_space_def of_char_to_lower capital_code_def Let_def)

lemma to_lower_idem [simp]: "to_lower (to_lower c) = to_lower c"
proof -
  have "\<not> capital_code (of_char (to_lower c))"
    by (simp add: of_char_to_lower capital_code_def)
  then have "(of_char (to_lower (to_lower c)) :: nat) = of_char (to_lower c)"
    by (simp add: of_char_to_lower)
  then show ?thesis by simp
qed

lemma lower_idem [simp]: "lower (lower s) = lower s"
  by (simp add: lower_def)

lemma dropWhile_lower: "dropWhile is_space (map to_lower s) = map to_lower (dropWhile is_space s)"
  by (simp add: dropWhile_map comp_def)

lemma strip_lower: "strip (lower s) = lower (strip s)"
  by (simp add: strip_def lower_def dropWhile_lower rev_map)

subsection \<open>What a canonical identity is\<close>

text \<open>Stated without the code's string methods.  A string is a bare text between spaces; two
  bare texts are spelled alike when they have the same letters up to capitals.\<close>

definition all_spaces :: "string \<Rightarrow> bool" where
  "all_spaces s = (\<forall>c \<in> set s. is_space c)"

definition bare_text :: "string \<Rightarrow> string \<Rightarrow> bool" where
  "bare_text s t \<longleftrightarrow> (\<exists>u v. s = u @ t @ v \<and> all_spaces u \<and> all_spaces v)
     \<and> (t \<noteq> [] \<longrightarrow> \<not> is_space (hd t) \<and> \<not> is_space (last t))"

definition capital_of :: "char \<Rightarrow> char \<Rightarrow> bool" where
  "capital_of d c \<longleftrightarrow> capital_code (of_char d) \<and> of_char c = (of_char d + 32 :: nat)"

definition same_letter :: "char \<Rightarrow> char \<Rightarrow> bool" where
  "same_letter c d \<longleftrightarrow> c = d \<or> capital_of c d \<or> capital_of d c"

definition spelled_alike :: "string \<Rightarrow> string \<Rightarrow> bool" where
  "spelled_alike s t = list_all2 same_letter s t"

lemma dropWhile_spaces: "all_spaces u \<Longrightarrow> dropWhile is_space (u @ s) = dropWhile is_space s"
  by (induction u) (auto simp: all_spaces_def)

lemma dropWhile_bare: "s \<noteq> [] \<Longrightarrow> \<not> is_space (hd s) \<Longrightarrow> dropWhile is_space s = s"
  by (cases s) auto

lemma dropWhile_all: "all_spaces u \<Longrightarrow> dropWhile is_space u = []"
  by (simp add: all_spaces_def)

lemma strip_bare: "bare_text s t \<Longrightarrow> strip s = t"
proof -
  assume "bare_text s t"
  then obtain u v where s: "s = u @ t @ v" and sp: "all_spaces u" "all_spaces v"
    and t: "t \<noteq> [] \<longrightarrow> \<not> is_space (hd t) \<and> \<not> is_space (last t)" by (auto simp: bare_text_def)
  have rv: "all_spaces (rev v)" using sp(2) by (simp add: all_spaces_def)
  show "strip s = t"
  proof (cases "t = []")
    case True
    then show ?thesis using s sp by (simp add: strip_def dropWhile_spaces dropWhile_all)
  next
    case False
    have "dropWhile is_space s = t @ v"
      using s sp False t dropWhile_bare [of "t @ v"] by (simp add: dropWhile_spaces)
    moreover have "dropWhile is_space (rev t) = rev t"
      using False t by (intro dropWhile_bare) (simp_all add: hd_rev)
    ultimately show ?thesis by (simp add: strip_def dropWhile_spaces [OF rv])
  qed
qed

lemma same_letter_iff: "same_letter c d \<longleftrightarrow> to_lower c = to_lower d"
proof -
  have eq: "x = y \<longleftrightarrow> (of_char x :: nat) = of_char y" for x y :: char by simp
  show ?thesis
    unfolding same_letter_def capital_of_def eq [of c d] eq [of "to_lower c"] of_char_to_lower
    by (auto simp: capital_code_def)
qed

lemma spelled_alike_iff: "spelled_alike s t \<longleftrightarrow> lower s = lower t"
  by (auto simp: spelled_alike_def lower_def same_letter_iff list_all2_conv_all_nth list_eq_iff_nth_eq)

text \<open>C1. One account has one key.  Whatever spaces surround the broker name and the account
  number, an identity is built exactly when both have a text between the spaces; two identities
  are the same exactly when their broker names are spelled alike up to capitals and their account
  numbers are the same texts, capitals included; and building an identity again from its own
  parts gives it back.\<close>

theorem account_ref_canonical:
  assumes "bare_text bn b" and "bare_text acc a" and "bare_text bn' b'" and "bare_text acc' a'"
  shows "(is_ok (mk_account_ref bn acc) \<longleftrightarrow> b \<noteq> [] \<and> a \<noteq> []) \<and>
    (is_ok (mk_account_ref bn acc) \<longrightarrow> is_ok (mk_account_ref bn' acc') \<longrightarrow>
      (mk_account_ref bn acc = mk_account_ref bn' acc' \<longleftrightarrow> spelled_alike b b' \<and> a = a')) \<and>
    (\<forall>r. mk_account_ref bn acc = Inr r \<longrightarrow> mk_account_ref (broker_name r) (account_id r) = Inr r)"
proof -
  note bare = assms [THEN strip_bare]
  have empty: "lower s = [] \<longleftrightarrow> s = []" for s by (simp add: lower_def)
  have again: "mk_account_ref (broker_name r) (account_id r) = Inr r"
    if "mk_account_ref bn acc = Inr r" for r
  proof -
    from that have r: "r = AccountRef (lower (strip bn)) (strip acc)"
      and ne: "lower (strip bn) \<noteq> []" "strip acc \<noteq> []"
      by (auto simp: mk_account_ref_def Let_def split: if_splits)
    then show ?thesis by (simp add: mk_account_ref_def strip_lower strip_idem)
  qed
  show ?thesis
    using again by (simp add: mk_account_ref_def Let_def bare empty spelled_alike_iff)
qed

theorem account_ref_canonical_witness:
  "mk_account_ref '' Shioaji'' ''A1 '' = mk_account_ref ''SHIOAJI'' ''A1''
    \<and> mk_account_ref '' Shioaji'' ''A1 '' \<noteq> mk_account_ref ''SHIOAJI'' ''a1''
    \<and> \<not> is_ok (mk_account_ref '' Shioaji'' ''  '')"
proof -
  have sp: "is_space CHR '' ''" by code_simp
  have bare: "bare_text '' Shioaji'' ''Shioaji''" "bare_text ''A1 '' ''A1''" "bare_text ''  '' []"
    unfolding bare_text_def all_spaces_def
    by (rule conjI, rule exI [of _ "'' ''"], rule exI [of _ "[]"], simp add: sp, code_simp,
        rule conjI, rule exI [of _ "[]"], rule exI [of _ "'' ''"], simp add: sp, code_simp,
        rule conjI, rule exI [of _ "''  ''"], rule exI [of _ "[]"], simp_all add: sp)
  have own: "bare_text t t" if "t \<noteq> []" "\<not> is_space (hd t)" "\<not> is_space (last t)" for t
    unfolding bare_text_def all_spaces_def using that
    by (intro conjI exI [of _ "[]"]) simp_all
  have plain: "bare_text ''SHIOAJI'' ''SHIOAJI''" "bare_text ''A1'' ''A1''" "bare_text ''a1'' ''a1''"
    by (rule own; code_simp)+
  have ok: "is_ok (mk_account_ref '' Shioaji'' ''A1 '')" "is_ok (mk_account_ref ''SHIOAJI'' ''A1'')"
    "is_ok (mk_account_ref ''SHIOAJI'' ''a1'')" by code_simp+
  have alike: "spelled_alike ''Shioaji'' ''SHIOAJI''" by code_simp
  show ?thesis
    using account_ref_canonical [OF bare(1,2) plain(1,2)] account_ref_canonical [OF bare(1,2) plain(1,3)]
      account_ref_canonical [OF bare(1,3) plain(1,2)] ok alike by simp
qed

end
