(* ===== verification/Guardian_Store.thy ===== *)
theory Guardian_Store
  imports Broker_Models
begin

text \<open>
  Managed live positions (\<open>tw_quant/broker/guardian_models.py\<close>) and their durable store
  (\<open>guardian_repository.py\<close>): the position table with its two unique keys, the audit log,
  and the atomic reservation of one exit per position.  A method that opens with
  \<open>BEGIN IMMEDIATE\<close> and raises before its commit without a rollback leaves the transaction of
  the store's connection open (\<open>gs_in_txn\<close>), and the next \<open>BEGIN\<close> raises; \<open>audit\<close> has no
  \<open>BEGIN\<close> and commits.  \<open>Reopen\<close> is a new store on the same file.
\<close>

section \<open>Positions\<close>

datatype position_state = ActivePos | ExitPending | UnknownPos | LockedPos | FlatPos

datatype exit_reason = ContractRoll | SessionEnd | StrategyExit | TakeProfit | StopLoss | EmergencyFlatten

definition exit_priority :: "exit_reason \<Rightarrow> int" where
  "exit_priority r = (case r of ContractRoll \<Rightarrow> 10 | SessionEnd \<Rightarrow> 10 | StrategyExit \<Rightarrow> 20
     | TakeProfit \<Rightarrow> 30 | StopLoss \<Rightarrow> 40 | EmergencyFlatten \<Rightarrow> 50)"

definition exit_value :: "exit_reason \<Rightarrow> string" where
  "exit_value r = (case r of ContractRoll \<Rightarrow> ''contract_roll'' | SessionEnd \<Rightarrow> ''session_end''
     | StrategyExit \<Rightarrow> ''strategy_exit'' | TakeProfit \<Rightarrow> ''take_profit'' | StopLoss \<Rightarrow> ''stop_loss''
     | EmergencyFlatten \<Rightarrow> ''emergency_flatten'')"

definition state_value :: "position_state \<Rightarrow> string" where
  "state_value s = (case s of ActivePos \<Rightarrow> ''active'' | ExitPending \<Rightarrow> ''exit_pending''
     | UnknownPos \<Rightarrow> ''unknown'' | LockedPos \<Rightarrow> ''locked'' | FlatPos \<Rightarrow> ''flat'')"

record managed_position =
  mp_id :: string
  mp_owner :: string
  mp_account :: account_ref
  mp_symbol :: string
  mp_contract :: string
  mp_quantity :: int
  mp_average :: price
  mp_protection :: int
  mp_stop :: price
  mp_take :: price
  mp_strategy :: string
  mp_version :: int
  mp_state :: position_state
  mp_generation :: int
  mp_exit_order :: "string option"
  mp_exit_reason :: "exit_reason option"
  mp_pending :: "exit_reason option"
  mp_updated_at :: instant
  mp_issue :: "string option"

definition position_post_init :: "managed_position \<Rightarrow> managed_position res" where
  "position_post_init p = first_error
     [(mp_id p = [] \<or> mp_owner p = [] \<or> mp_symbol p = [] \<or> mp_contract p = [],
        ValueError ''managed position identity is required''),
      (mp_quantity p = 0 \<and> mp_state p \<noteq> FlatPos, ValueError ''zero managed position must be flat''),
      (mp_quantity p \<noteq> 0 \<and> mp_protection p \<noteq> \<bar>mp_quantity p\<bar>,
        ValueError ''protection quantity must equal broker-confirmed quantity''),
      (min (min (mp_average p) (mp_stop p)) (mp_take p) \<le> 0,
        ValueError ''managed position prices must be positive''),
      (mp_generation p < 1 \<or> mp_version p < 1,
        ValueError ''managed position generations must be positive'')] p"

abbreviation valid_position :: "managed_position \<Rightarrow> bool" where
  "valid_position p \<equiv> position_post_init p = Inr p"

lemma position_post_init_same: "position_post_init p = Inr q \<Longrightarrow> q = p"
  by (simp add: position_post_init_def first_error_Inr)

lemma valid_position_iff: "valid_position p \<longleftrightarrow>
    mp_id p \<noteq> [] \<and> mp_owner p \<noteq> [] \<and> mp_symbol p \<noteq> [] \<and> mp_contract p \<noteq> [] \<and>
    (mp_quantity p = 0 \<longrightarrow> mp_state p = FlatPos) \<and>
    (mp_quantity p \<noteq> 0 \<longrightarrow> mp_protection p = \<bar>mp_quantity p\<bar>) \<and>
    0 < mp_average p \<and> 0 < mp_stop p \<and> 0 < mp_take p \<and> 1 \<le> mp_generation p \<and> 1 \<le> mp_version p"
  by (auto simp: position_post_init_def first_error_Inr min_def)

section \<open>The store\<close>

record guardian_audit_row =
  ga_position :: string
  ga_action :: string
  ga_detail :: "(string \<times> json_value) list"
  ga_occurred_at :: instant

record guardian_store =
  gs_positions :: "managed_position list"
  gs_audit :: "guardian_audit_row list"
  gs_in_txn :: bool

definition empty_guardian_store :: guardian_store where
  "empty_guardian_store = \<lparr>gs_positions = [], gs_audit = [], gs_in_txn = False\<rparr>"

definition guardian_begin :: "(guardian_store, 'a) prog \<Rightarrow> (guardian_store, 'a) prog" where
  "guardian_begin body s = (if gs_in_txn s
     then (Inl (OperationalError ''cannot start a transaction within a transaction''), s)
     else body s)"

text \<open>An exception that leaves the transaction open.\<close>

definition guardian_open :: "err \<Rightarrow> (guardian_store, 'a) prog" where
  "guardian_open e s = (Inl e, s\<lparr>gs_in_txn := True\<rparr>)"

definition position_key :: "managed_position \<Rightarrow> string \<times> account_ref \<times> string" where
  "position_key p = (mp_owner p, mp_account p, mp_contract p)"

text \<open>The columns overwritten on a conflict of \<open>position_id\<close>.\<close>

definition overwrite_position :: "managed_position \<Rightarrow> managed_position \<Rightarrow> managed_position" where
  "overwrite_position p r = r\<lparr>mp_quantity := mp_quantity p, mp_average := mp_average p,
     mp_protection := mp_protection p, mp_stop := mp_stop p, mp_take := mp_take p,
     mp_strategy := mp_strategy p, mp_version := mp_version p, mp_state := mp_state p,
     mp_generation := mp_generation p, mp_exit_order := mp_exit_order p,
     mp_exit_reason := mp_exit_reason p, mp_pending := mp_pending p, mp_issue := mp_issue p,
     mp_updated_at := mp_updated_at p\<rparr>"

definition save_position :: "managed_position \<Rightarrow> guardian_store \<Rightarrow> guardian_store res" where
  "save_position p s = (if \<exists>r \<in> set (gs_positions s). mp_id r = mp_id p
     then Inr (s\<lparr>gs_positions := tbl_update (\<lambda>r. mp_id r = mp_id p) (overwrite_position p) (gs_positions s)\<rparr>)
     else if \<exists>r \<in> set (gs_positions s). position_key r = position_key p
       then Inl (IntegrityError ''UNIQUE constraint failed'')
     else Inr (s\<lparr>gs_positions := gs_positions s @ [p]\<rparr>))"

definition guardian_audit :: "string \<Rightarrow> string \<Rightarrow> (string \<times> json_value) list \<Rightarrow> instant \<Rightarrow> guardian_store \<Rightarrow> guardian_store" where
  "guardian_audit i act detail t s = s\<lparr>gs_audit := gs_audit s @
     [\<lparr>ga_position = i, ga_action = act, ga_detail = detail, ga_occurred_at = t\<rparr>]\<rparr>"

text \<open>Save, audit and commit; a failing save writes nothing and leaves the transaction open.\<close>

definition save_audited :: "managed_position \<Rightarrow> string \<Rightarrow> (string \<times> json_value) list \<Rightarrow> instant
    \<Rightarrow> 'a \<Rightarrow> (guardian_store, 'a) prog" where
  "save_audited p act detail t x s = (case save_position p s of Inl e \<Rightarrow> guardian_open e s
     | Inr s' \<Rightarrow> (Inr x, guardian_audit (mp_id p) act detail t s'))"

definition managed_row :: "string \<Rightarrow> guardian_store \<Rightarrow> managed_position option" where
  "managed_row i s = find (\<lambda>r. mp_id r = i) (gs_positions s)"

definition synchronize_position :: "managed_position \<Rightarrow> (guardian_store, managed_position) prog" where
  "synchronize_position p = guardian_begin (save_audited p ''position.synchronized''
     [(''quantity'', JInt (mp_quantity p)), (''state'', JStr (state_value (mp_state p))),
      (''generation'', JInt (mp_generation p))] (mp_updated_at p) p)"

definition with_row :: "string \<Rightarrow> (guardian_store, 'a) prog \<Rightarrow> (managed_position \<Rightarrow> (guardian_store, 'a) prog)
    \<Rightarrow> (guardian_store, 'a) prog" where
  "with_row i none f = guardian_begin (\<lambda>s. case managed_row i s of None \<Rightarrow> none s
     | Some r \<Rightarrow> (case position_post_init r of Inl e \<Rightarrow> guardian_open e s | Inr p \<Rightarrow> f p s))"

definition replaced :: "managed_position \<Rightarrow> (managed_position \<Rightarrow> (guardian_store, 'a) prog) \<Rightarrow> (guardian_store, 'a) prog" where
  "replaced q f s = (case position_post_init q of Inl e \<Rightarrow> guardian_open e s | Inr p \<Rightarrow> f p s)"

definition mark_flat :: "string \<Rightarrow> instant \<Rightarrow> (guardian_store, managed_position) prog" where
  "mark_flat i t = with_row i (fail (KeyError ''unknown managed live position'')) (\<lambda>p.
     replaced (p\<lparr>mp_quantity := 0, mp_protection := 0, mp_state := FlatPos, mp_exit_order := None,
       mp_exit_reason := None, mp_pending := None, mp_issue := None, mp_updated_at := t\<rparr>) (\<lambda>flat.
     save_audited flat ''position.flat'' [] t flat))"

definition get_position :: "string \<Rightarrow> guardian_store \<Rightarrow> managed_position option res" where
  "get_position i s = (case managed_row i s of None \<Rightarrow> Inr None
     | Some r \<Rightarrow> (case position_post_init r of Inl e \<Rightarrow> Inl e | Inr p \<Rightarrow> Inr (Some p)))"

definition guardian_positions :: "account_ref \<Rightarrow> guardian_store \<Rightarrow> managed_position list res" where
  "guardian_positions t s = mapM position_post_init
     (sort_key mp_id (filter (\<lambda>r. mp_account r = t) (gs_positions s)))"

definition outranks :: "exit_reason \<Rightarrow> exit_reason option \<Rightarrow> bool" where
  "outranks r cur = (case cur of None \<Rightarrow> False | Some c \<Rightarrow> exit_priority r > exit_priority c)"

definition reserved_position :: "string \<Rightarrow> exit_reason \<Rightarrow> instant \<Rightarrow> managed_position \<Rightarrow> managed_position" where
  "reserved_position cid reason t p = p\<lparr>mp_state := ExitPending, mp_exit_order := Some cid,
     mp_exit_reason := Some reason, mp_pending := None, mp_issue := None, mp_updated_at := t\<rparr>"

lemma reserved_position_simps [simp]: "mp_id (reserved_position cid reason t p) = mp_id p"
  "mp_exit_order (reserved_position cid reason t p) = Some cid"
  "mp_state (reserved_position cid reason t p) = ExitPending"
  by (simp_all add: reserved_position_def)

definition reserve_exit :: "string \<Rightarrow> exit_reason \<Rightarrow> string \<Rightarrow> instant \<Rightarrow> (guardian_store, managed_position \<times> bool) prog" where
  "reserve_exit i reason cid t = with_row i (fail (KeyError ''unknown managed live position'')) (\<lambda>p.
     if mp_state p = FlatPos then fail (RuntimeError ''guardian_position_flat'')
     else if truthy (mp_exit_order p) then
       (if outranks reason (mp_exit_reason p)
        then replaced (p\<lparr>mp_pending := Some reason, mp_updated_at := t\<rparr>) (\<lambda>q.
          save_audited q ''exit.priority_deferred''
            [(''active'', case mp_exit_reason q of None \<Rightarrow> JNull | Some r \<Rightarrow> JStr (exit_value r)),
             (''pending'', JStr (exit_value reason))] t (q, False))
        else give (p, False))
     else replaced (reserved_position cid reason t p) (\<lambda>q.
       save_audited q ''exit.reserved''
         [(''reason'', JStr (exit_value reason)), (''client_order_id'', JStr cid),
          (''quantity'', JInt (mp_protection p))] t (q, True)))"

definition release_exit :: "string \<Rightarrow> string \<Rightarrow> string \<Rightarrow> instant \<Rightarrow> (guardian_store, unit) prog" where
  "release_exit i cid why now = with_row i (give ()) (\<lambda>p.
     if mp_exit_order p = Some cid
     then replaced (p\<lparr>mp_state := ActivePos, mp_exit_order := None, mp_exit_reason := None,
         mp_updated_at := now, mp_issue := Some why\<rparr>) (\<lambda>q.
       save_audited q ''exit.released'' [(''reason'', JStr why)] now ())
     else give ())"

definition lock_position :: "string \<Rightarrow> string \<Rightarrow> instant \<Rightarrow> (guardian_store, unit) prog" where
  "lock_position i code t = with_row i (give ()) (\<lambda>p.
     replaced (p\<lparr>mp_state := LockedPos, mp_issue := Some code, mp_updated_at := t\<rparr>) (\<lambda>q.
       save_audited q ''position.locked'' [(''issue_code'', JStr code)] t ()))"

definition mark_exit_unknown :: "string \<Rightarrow> instant \<Rightarrow> (guardian_store, bool) prog" where
  "mark_exit_unknown cid t = guardian_begin (\<lambda>s.
     case find (\<lambda>r. mp_exit_order r = Some cid) (gs_positions s) of None \<Rightarrow> (Inr False, s)
     | Some r \<Rightarrow> (case position_post_init r of Inl e \<Rightarrow> guardian_open e s
       | Inr p \<Rightarrow> replaced (p\<lparr>mp_state := UnknownPos, mp_issue := Some ''guardian_exit_unknown'', mp_updated_at := t\<rparr>)
           (\<lambda>q. save_audited q ''exit.unknown'' [(''client_order_id'', JStr cid)] t True) s))"

definition guardian_audit_events :: "string \<Rightarrow> guardian_store \<Rightarrow> guardian_audit_row list" where
  "guardian_audit_events i s = filter (\<lambda>r. ga_position r = i) (gs_audit s)"

section \<open>Operations\<close>

datatype guardian_op =
    Synchronize managed_position
  | MarkFlat string instant
  | ReserveExit string exit_reason string instant
  | ReleaseExit string string string instant
  | LockPosition string string instant
  | MarkExitUnknown string instant
  | AuditPosition string string "(string \<times> json_value) list" instant
  | Reopen

fun guardian_step :: "guardian_store \<Rightarrow> guardian_op \<Rightarrow> guardian_store" where
  "guardian_step s (Synchronize p) = (case position_post_init p of Inl _ \<Rightarrow> s
     | Inr q \<Rightarrow> snd (synchronize_position q s))"
| "guardian_step s (MarkFlat i t) = snd (mark_flat i t s)"
| "guardian_step s (ReserveExit i r cid t) = snd (reserve_exit i r cid t s)"
| "guardian_step s (ReleaseExit i cid why t) = snd (release_exit i cid why t s)"
| "guardian_step s (LockPosition i code t) = snd (lock_position i code t s)"
| "guardian_step s (MarkExitUnknown cid t) = snd (mark_exit_unknown cid t s)"
| "guardian_step s (AuditPosition i act d t) = (guardian_audit i act d t s)\<lparr>gs_in_txn := False\<rparr>"
| "guardian_step s Reopen = s\<lparr>gs_in_txn := False\<rparr>"

definition guardian_ok :: "guardian_store \<Rightarrow> bool" where
  "guardian_ok s \<longleftrightarrow> distinct (map mp_id (gs_positions s)) \<and> distinct (map position_key (gs_positions s))
     \<and> (\<forall>p \<in> set (gs_positions s). valid_position p)"

lemma guardian_ok_txn [simp]: "guardian_ok (s\<lparr>gs_in_txn := b\<rparr>) = guardian_ok s"
  by (simp add: guardian_ok_def)

lemma guardian_open_simps [simp]: "guardian_open e s = (Inl e, s\<lparr>gs_in_txn := True\<rparr>)"
  by (simp add: guardian_open_def)

lemma guardian_begin_kept: "P s \<Longrightarrow> P (snd (body s)) \<Longrightarrow> P (snd (guardian_begin body s))"
  by (simp add: guardian_begin_def)

section \<open>One save\<close>

lemma overwrite_keys [simp]: "mp_id (overwrite_position p r) = mp_id r"
  "position_key (overwrite_position p r) = position_key r"
  by (simp_all add: overwrite_position_def position_key_def)

lemma gs_positions_audit [simp]: "gs_positions (guardian_audit i a d t s) = gs_positions s"
  by (simp add: guardian_audit_def)

text \<open>A save of a valid position keeps the store well formed; the saved row carries the
  position's exit and the other rows are untouched.\<close>

lemma overwrite_valid: "valid_position p \<Longrightarrow> valid_position r \<Longrightarrow> valid_position (overwrite_position p r)"
  unfolding valid_position_iff by (simp add: overwrite_position_def)

lemma save_position_ok:
  assumes "guardian_ok s" "valid_position p" "save_position p s = Inr s'"
  shows "guardian_ok s'"
proof (cases "\<exists>r \<in> set (gs_positions s). mp_id r = mp_id p")
  case True
  with assms(3) have s': "gs_positions s' = tbl_update (\<lambda>r. mp_id r = mp_id p) (overwrite_position p) (gs_positions s)"
    by (auto simp: save_position_def)
  show ?thesis using assms(1,2) overwrite_valid
    by (simp add: guardian_ok_def s' ball_tbl_update)
next
  case False
  with assms(3) have s': "gs_positions s' = gs_positions s @ [p]"
    and k: "\<forall>r \<in> set (gs_positions s). position_key r \<noteq> position_key p"
    by (auto simp: save_position_def split: if_splits)
  have "mp_id p \<notin> mp_id ` set (gs_positions s)" using False by force
  moreover have "position_key p \<notin> position_key ` set (gs_positions s)" using k by force
  ultimately show ?thesis using assms(1,2) by (simp add: guardian_ok_def s')
qed

lemma save_audited_ok:
  assumes "guardian_ok s" "valid_position p"
  shows "guardian_ok (snd (save_audited p act d t x s))"
  using save_position_ok [OF assms] assms(1)
  by (auto simp: save_audited_def guardian_ok_def split: sum.split)

lemma replaced_ok:
  assumes "\<And>p. p = q \<Longrightarrow> valid_position p \<Longrightarrow> guardian_ok (snd (f p s))" "guardian_ok s"
  shows "guardian_ok (snd (replaced q f s))"
  using assms position_post_init_same [of q] by (auto simp: replaced_def split: sum.split)

lemma with_row_ok:
  assumes "guardian_ok (snd (none s))" "\<And>p. guardian_ok (snd (f p s))" "guardian_ok s"
  shows "guardian_ok (snd (with_row i none f s))"
  unfolding with_row_def
  by (rule guardian_begin_kept) (use assms in \<open>auto split: option.split sum.split\<close>)

lemma guardian_step_ok: "guardian_ok s \<Longrightarrow> guardian_ok (guardian_step s x)"
proof (cases x)
  case (MarkExitUnknown cid t)
  assume "guardian_ok s"
  then show ?thesis using MarkExitUnknown
    by (auto simp: mark_exit_unknown_def intro!: guardian_begin_kept [of guardian_ok] replaced_ok
        save_audited_ok split: option.split sum.split)
next
  case (Synchronize p)
  assume "guardian_ok s"
  then show ?thesis using Synchronize
    by (auto simp: synchronize_position_def intro!: guardian_begin_kept [of guardian_ok] save_audited_ok
        dest: position_post_init_same split: sum.split)
next
  case (AuditPosition i act d t)
  assume "guardian_ok s"
  then show ?thesis using AuditPosition by (simp add: guardian_ok_def)
qed (auto simp: synchronize_position_def mark_flat_def reserve_exit_def release_exit_def lock_position_def
    intro!: with_row_ok replaced_ok save_audited_ok)

interpretation guardian_store: step_invariant guardian_step guardian_ok
  by unfold_locales (rule guardian_step_ok)

section \<open>One exit per position\<close>

definition exit_of :: "string \<Rightarrow> guardian_store \<Rightarrow> string option" where
  "exit_of i s = (case managed_row i s of None \<Rightarrow> None | Some p \<Rightarrow> mp_exit_order p)"

definition exit_created :: "guardian_store \<Rightarrow> guardian_op \<Rightarrow> string option" where
  "exit_created s x = (case x of ReserveExit i r cid t \<Rightarrow>
     (case fst (reserve_exit i r cid t s) of Inr (p, True) \<Rightarrow> Some i | _ \<Rightarrow> None) | _ \<Rightarrow> None)"

text \<open>The operations that may end the exit of a position.\<close>

definition ends_exit :: "string \<Rightarrow> guardian_op \<Rightarrow> bool" where
  "ends_exit i x = (case x of Synchronize p \<Rightarrow> mp_id p = i | MarkFlat j _ \<Rightarrow> j = i
     | ReleaseExit j _ _ _ \<Rightarrow> j = i | _ \<Rightarrow> False)"

lemma managed_row_txn [simp]: "managed_row i (s\<lparr>gs_in_txn := b\<rparr>) = managed_row i s"
  by (simp add: managed_row_def)

lemma exit_of_txn [simp]: "exit_of i (s\<lparr>gs_in_txn := b\<rparr>) = exit_of i s"
  by (simp add: exit_of_def)

lemma managed_row_save:
  assumes "save_position p s = Inr s'"
  shows "managed_row i s' = (if i = mp_id p
    then Some (case managed_row i s of None \<Rightarrow> p | Some r \<Rightarrow> overwrite_position p r) else managed_row i s)"
proof (cases "\<exists>r \<in> set (gs_positions s). mp_id r = mp_id p")
  case True
  with assms have s': "gs_positions s' = tbl_update (\<lambda>r. mp_id r = mp_id p) (overwrite_position p) (gs_positions s)"
    by (auto simp: save_position_def)
  have "managed_row i s' = map_option (\<lambda>r. if mp_id r = mp_id p then overwrite_position p r else r) (managed_row i s)"
    unfolding managed_row_def s' by (rule find_tbl_update_key) simp
  moreover have "managed_row (mp_id p) s \<noteq> None" using True by (auto simp: managed_row_def find_None_iff)
  moreover have "mp_id r = i" if "managed_row i s = Some r" for r
    using that by (auto simp: managed_row_def dest: find_SomeD)
  ultimately show ?thesis by (cases "managed_row i s") auto
next
  case False
  with assms have s': "gs_positions s' = gs_positions s @ [p]"
    by (auto simp: save_position_def split: if_splits)
  have "managed_row (mp_id p) s = None" using False by (auto simp: managed_row_def find_None_iff)
  then show ?thesis unfolding managed_row_def s' by (auto simp: find_append split: option.split)
qed

lemma exit_of_save_audited:
  assumes "i \<noteq> mp_id p \<or> mp_exit_order p = exit_of i s"
  shows "exit_of i (snd (save_audited p act d t x s)) = exit_of i s"
proof (cases "save_position p s")
  case (Inr s')
  from managed_row_save [OF Inr, of i] assms show ?thesis
    by (auto simp: save_audited_def Inr exit_of_def managed_row_def overwrite_position_def split: option.splits)
qed (simp add: save_audited_def)

lemma exit_of_replaced:
  assumes "i \<noteq> mp_id q \<or> mp_exit_order q = exit_of i s"
  shows "exit_of i (snd (replaced q (\<lambda>p. save_audited p act (d p) (t p) (x p)) s)) = exit_of i s"
  using exit_of_save_audited [OF assms] position_post_init_same [of q]
  by (auto simp: replaced_def split: sum.split)

lemma managed_row_id: "managed_row i s = Some r \<Longrightarrow> mp_id r = i"
  by (auto simp: managed_row_def dest: find_SomeD)

lemma exit_of_row: "managed_row i s = Some r \<Longrightarrow> mp_exit_order r = exit_of i s"
  by (simp add: exit_of_def)

lemma row_post_init: "position_post_init r = Inr p \<Longrightarrow> p = r"
  by (rule position_post_init_same)

lemma exit_of_with_row:
  assumes "snd (none s) = s"
    and "\<And>p. managed_row j s = Some p \<Longrightarrow> mp_id p = j \<Longrightarrow> exit_of i (snd (f p s)) = exit_of i s"
  shows "exit_of i (snd (with_row j none f s)) = exit_of i s"
  unfolding with_row_def
  by (rule guardian_begin_kept [where P = "\<lambda>s'. exit_of i s' = exit_of i s"])
    (use assms row_post_init managed_row_id in \<open>auto split: option.split sum.split\<close>)

lemma exit_stays:
  assumes ok: "guardian_ok s" and act: "truthy (exit_of i s)" and no: "\<not> ends_exit i x"
  shows "exit_of i (guardian_step s x) = exit_of i s"
proof (cases x)
  case (ReserveExit j r cid t)
  show ?thesis unfolding ReserveExit guardian_step.simps reserve_exit_def
  proof (rule exit_of_with_row)
    fix p assume p: "managed_row j s = Some p" "mp_id p = j"
    then show "exit_of i (snd ((if mp_state p = FlatPos then fail (RuntimeError ''guardian_position_flat'')
     else if truthy (mp_exit_order p) then
       (if outranks r (mp_exit_reason p)
        then replaced (p\<lparr>mp_pending := Some r, mp_updated_at := t\<rparr>) (\<lambda>q.
          save_audited q ''exit.priority_deferred''
            [(''active'', case mp_exit_reason q of None \<Rightarrow> JNull | Some r \<Rightarrow> JStr (exit_value r)),
             (''pending'', JStr (exit_value r))] t (q, False))
        else give (p, False))
     else replaced (reserved_position cid r t p) (\<lambda>q.
       save_audited q ''exit.reserved''
         [(''reason'', JStr (exit_value r)), (''client_order_id'', JStr cid),
          (''quantity'', JInt (mp_protection p))] t (q, True))) s)) = exit_of i s"
      using act exit_of_row [OF p(1)] by (auto intro!: exit_of_replaced)
  qed simp
next
  case (MarkExitUnknown cid t)
  show ?thesis
  proof (cases "find (\<lambda>r. mp_exit_order r = Some cid) (gs_positions s)")
    case (Some r)
    then have r: "r \<in> set (gs_positions s)" by (auto dest: find_SomeD)
    have "distinct (map mp_id (gs_positions s))" using ok by (simp add: guardian_ok_def)
    from find_distinct_key [OF this r] have "managed_row (mp_id r) s = Some r"
      by (simp only: managed_row_def)
    then show ?thesis using exit_of_row [of "mp_id r" s r] MarkExitUnknown Some
      by (auto simp: mark_exit_unknown_def dest!: row_post_init split: sum.split
          intro!: exit_of_replaced guardian_begin_kept [where P = "\<lambda>s'. exit_of i s' = exit_of i s"])
  qed (simp add: MarkExitUnknown mark_exit_unknown_def guardian_begin_def)
next
  case (Synchronize p)
  with no have "i \<noteq> mp_id p" by (simp add: ends_exit_def)
  then show ?thesis
    by (auto simp: Synchronize synchronize_position_def dest!: row_post_init split: sum.split
        intro!: exit_of_save_audited guardian_begin_kept [where P = "\<lambda>s'. exit_of i s' = exit_of i s"])
next
  case (AuditPosition j act' d t)
  then show ?thesis by (simp add: exit_of_def managed_row_def)
qed (use no in \<open>auto simp: ends_exit_def mark_flat_def release_exit_def lock_position_def exit_of_row
    intro!: exit_of_with_row exit_of_replaced\<close>)

lemma active_not_created: "truthy (exit_of i s) \<Longrightarrow> exit_created s x \<noteq> Some i"
  by (auto simp: exit_created_def reserve_exit_def with_row_def guardian_begin_def replaced_def save_audited_def exit_of_def
      dest!: row_post_init split: guardian_op.splits option.splits sum.splits if_splits prod.splits bool.splits)

section \<open>Properties\<close>

text \<open>Every operation of the guardian store keeps it well formed: one row per position
  id and per owner, account and contract, and in every row a zero quantity only when
  flat, protection equal to the confirmed quantity, and positive prices.\<close>

theorem guardian_store_well_formed:
  assumes "guardian_ok s"
  shows "guardian_ok (run guardian_step s ops)"
  using assms by (rule guardian_store.run_inv)

definition position1 :: managed_position where
  "position1 = \<lparr>mp_id = ''p1'', mp_owner = ''u1'', mp_account = AccountRef ''shioaji'' ''A1'', mp_symbol = ''TMF'',
     mp_contract = ''TMFR1'', mp_quantity = 2, mp_average = 100, mp_protection = 2, mp_stop = 80, mp_take = 140,
     mp_strategy = ''s1'', mp_version = 1, mp_state = ActivePos, mp_generation = 1, mp_exit_order = None,
     mp_exit_reason = None, mp_pending = None, mp_updated_at = 5, mp_issue = None\<rparr>"

definition gstore1 :: guardian_store where
  "gstore1 = run guardian_step empty_guardian_store
     [Synchronize position1, ReserveExit ''p1'' TakeProfit ''x1'' 6]"

lemma guardian_ok_empty: "guardian_ok empty_guardian_store"
  by (simp add: guardian_ok_def empty_guardian_store_def)

text \<open>C25. A position has one exit at a time: while an exit order is reserved for it, no run
  of operations without a release, a flat mark or a re-synchronization of that position
  replaces the exit order or reserves a second one, whatever the priority of the request.\<close>

theorem one_exit_at_a_time:
  assumes "guardian_ok s" and "truthy (exit_of i s)" and "\<forall>x \<in> set ops. \<not> ends_exit i x"
  shows "exit_of i (run guardian_step s ops) = exit_of i s \<and> claim_count guardian_step exit_created i s ops = 0"
  using assms
proof (induction ops arbitrary: s)
  case (Cons x xs)
  have e: "exit_of i (guardian_step s x) = exit_of i s" using exit_stays Cons.prems by simp
  with Cons.IH [OF guardian_step_ok [OF Cons.prems(1), of x]] Cons.prems active_not_created [of i s x]
  show ?case by simp
qed simp

theorem one_exit_at_a_time_witness:
  "exit_of ''p1'' (run guardian_step gstore1 [ReserveExit ''p1'' EmergencyFlatten ''x2'' 7]) = Some ''x1''"
proof -
  have e: "exit_of ''p1'' gstore1 = Some ''x1''" by code_simp
  have "guardian_ok gstore1"
    unfolding gstore1_def by (rule guardian_store.run_inv [OF guardian_ok_empty])
  from one_exit_at_a_time [OF this, of "''p1''" "[ReserveExit ''p1'' EmergencyFlatten ''x2'' 7]"] e
  show ?thesis by (simp add: ends_exit_def)
qed

end
