(* ===== verification/Market_Quotes.thy ===== *)
theory Market_Quotes
  imports Prelude
begin

text \<open>
  Executable quotes (\<open>tw_quant/market/quotes.py\<close>) and their durable store
  (\<open>quote_store.py\<close>).  The in-memory cache and the SQLite table keep, per instrument,
  the quote received last; the interface \<open>latest_store\<close> states what both promise and is
  interpreted on each.
\<close>

record quote =
  qt_symbol :: string
  qt_contract :: string
  qt_best_bid :: "price option"
  qt_best_ask :: "price option"
  qt_last_price :: "price option"
  qt_exchange_time :: instant
  qt_received_at :: instant
  qt_source :: string

definition quote_post_init :: "quote \<Rightarrow> quote res" where
  "quote_post_init q = first_error
     [(blank (qt_symbol q) \<or> blank (qt_contract q) \<or> blank (qt_source q),
        ValueError ''quote symbol, contract, and source are required''),
      (\<exists>p \<in> set [qt_best_bid q, qt_best_ask q, qt_last_price q]. (case p of None \<Rightarrow> False | Some x \<Rightarrow> x \<le> 0),
        ValueError ''quote prices must be positive''),
      ((case (qt_best_bid q, qt_best_ask q) of (Some b, Some a) \<Rightarrow> b > a | _ \<Rightarrow> False),
        ValueError ''best bid cannot exceed best ask'')] q"

definition quote_complete :: "quote \<Rightarrow> bool" where
  "quote_complete q \<longleftrightarrow> qt_best_bid q \<noteq> None \<and> qt_best_ask q \<noteq> None"

definition quote_key :: "quote \<Rightarrow> string \<times> string" where
  "quote_key q = (qt_symbol q, qt_contract q)"

section \<open>The cache\<close>

type_synonym quote_cache = "((string \<times> string) \<times> quote) list"

definition cache_update :: "quote_cache \<Rightarrow> quote \<Rightarrow> quote_cache" where
  "cache_update c q = (case map_of c (quote_key q) of None \<Rightarrow> dict_put (quote_key q) q c
     | Some cur \<Rightarrow> if qt_received_at cur \<le> qt_received_at q then dict_put (quote_key q) q c else c)"

definition cache_get :: "quote_cache \<Rightarrow> string \<times> string \<Rightarrow> quote option" where
  "cache_get c k = map_of c k"

section \<open>The table\<close>

definition quote_save :: "quote list \<Rightarrow> quote \<Rightarrow> quote list" where
  "quote_save rows q = (if \<exists>r \<in> set rows. quote_key r = quote_key q
     then tbl_update (\<lambda>r. quote_key r = quote_key q \<and> qt_received_at r \<le> qt_received_at q)
       (\<lambda>r. r\<lparr>qt_best_bid := qt_best_bid q, qt_best_ask := qt_best_ask q, qt_last_price := qt_last_price q,
          qt_exchange_time := qt_exchange_time q, qt_received_at := qt_received_at q, qt_source := qt_source q\<rparr>) rows
     else rows @ [q])"

definition quote_get :: "quote list \<Rightarrow> string \<times> string \<Rightarrow> quote option res" where
  "quote_get rows k = (case find (\<lambda>r. quote_key r = k) rows of None \<Rightarrow> Inr None
     | Some r \<Rightarrow> (case quote_post_init r of Inl e \<Rightarrow> Inl e | Inr q \<Rightarrow> Inr (Some q)))"

definition quote_row :: "quote list \<Rightarrow> string \<times> string \<Rightarrow> quote option" where
  "quote_row rows k = find (\<lambda>r. quote_key r = k) rows"

section \<open>The interface: the quote received last\<close>

text \<open>The reference: of the quotes of a key, the last one whose reception time is not
  exceeded by an earlier one.\<close>

fun latest :: "(string \<times> string) \<Rightarrow> quote option \<Rightarrow> quote list \<Rightarrow> quote option" where
  "latest k cur [] = cur"
| "latest k cur (q # qs) = latest k (if quote_key q = k \<and>
     (case cur of None \<Rightarrow> True | Some c \<Rightarrow> qt_received_at c \<le> qt_received_at q) then Some q else cur) qs"

locale latest_store =
  fixes upd :: "'s \<Rightarrow> quote \<Rightarrow> 's" and look :: "'s \<Rightarrow> string \<times> string \<Rightarrow> quote option"
  assumes look_upd: "look (upd s q) k = (if quote_key q = k \<and>
     (case look s k of None \<Rightarrow> True | Some c \<Rightarrow> qt_received_at c \<le> qt_received_at q) then Some q else look s k)"
begin

lemma look_fold: "look (run upd s qs) k = latest k (look s k) qs"
  by (induction qs arbitrary: s) (simp_all add: look_upd)

end

lemma latest_mono:
  "latest k cur qs = Some q \<Longrightarrow>
     (\<forall>c. cur = Some c \<longrightarrow> qt_received_at c \<le> qt_received_at q) \<and>
     (\<forall>p \<in> set qs. quote_key p = k \<longrightarrow> qt_received_at p \<le> qt_received_at q) \<and>
     (cur = Some q \<or> (q \<in> set qs \<and> quote_key q = k))"
proof (induction qs arbitrary: cur)
  case (Cons p qs)
  then show ?case by (fastforce split: if_splits option.splits)
qed simp

lemma latest_None: "latest k cur qs = None \<longleftrightarrow> cur = None \<and> (\<forall>p \<in> set qs. quote_key p \<noteq> k)"
  by (induction qs arbitrary: cur) (auto split: option.splits)

interpretation cache: latest_store cache_update cache_get
  by unfold_locales (auto simp: cache_update_def cache_get_def split: option.splits)

lemma quote_overwrite:
  assumes "quote_key r = quote_key q"
  shows "r\<lparr>qt_best_bid := qt_best_bid q, qt_best_ask := qt_best_ask q, qt_last_price := qt_last_price q,
     qt_exchange_time := qt_exchange_time q, qt_received_at := qt_received_at q, qt_source := qt_source q\<rparr> = (q :: quote)"
  using assms by (cases r; cases q) (simp add: quote_key_def)

lemma quote_row_save:
  "quote_row (quote_save rows q) k = (if quote_key q = k \<and>
     (case quote_row rows k of None \<Rightarrow> True | Some c \<Rightarrow> qt_received_at c \<le> qt_received_at q)
     then Some q else quote_row rows k)"
proof (cases "\<exists>r \<in> set rows. quote_key r = quote_key q")
  case True
  let ?f = "\<lambda>r. r\<lparr>qt_best_bid := qt_best_bid q, qt_best_ask := qt_best_ask q, qt_last_price := qt_last_price q,
          qt_exchange_time := qt_exchange_time q, qt_received_at := qt_received_at q, qt_source := qt_source q\<rparr>"
  have "quote_row (quote_save rows q) k = map_option (\<lambda>r. if quote_key r = quote_key q
      \<and> qt_received_at r \<le> qt_received_at q then ?f r else r) (quote_row rows k)"
    using True unfolding quote_save_def quote_row_def
    by (simp only: if_True) (rule find_tbl_update_key, simp add: quote_key_def)
  moreover have "quote_row rows k \<noteq> None" if "quote_key q = k"
    using True that by (auto simp: quote_row_def find_None_iff)
  moreover have "quote_key r = k" if "quote_row rows k = Some r" for r
    using that by (auto simp: quote_row_def dest: find_SomeD)
  ultimately show ?thesis
    by (cases "quote_row rows k") (auto simp: quote_overwrite)
next
  case False
  then have "quote_row rows k = None" if "quote_key q = k"
    using that by (auto simp: quote_row_def find_None_iff)
  with False show ?thesis by (auto simp: quote_save_def quote_row_def find_append split: option.split)
qed

interpretation table: latest_store quote_save quote_row
  by unfold_locales (rule quote_row_save)

section \<open>Properties\<close>

text \<open>The quote cache and the quote table are the same map: after the same quotes, in
  any order of arrival, both return for every instrument the same quote, and it is one of
  those quotes that no other quote of the instrument was received after.\<close>

theorem quote_stores_agree_on_latest:
  "cache_get (run cache_update [] qs) k = quote_row (run quote_save [] qs) k \<and>
   (case cache_get (run cache_update [] qs) k of
      None \<Rightarrow> \<forall>p \<in> set qs. quote_key p \<noteq> k
    | Some q \<Rightarrow> q \<in> set qs \<and> quote_key q = k \<and>
        (\<forall>p \<in> set qs. quote_key p = k \<longrightarrow> qt_received_at p \<le> qt_received_at q))"
proof -
  have c: "cache_get (run cache_update [] qs) k = latest k None qs"
    by (simp add: cache.look_fold) (simp add: cache_get_def)
  have t: "quote_row (run quote_save [] qs) k = latest k None qs"
    by (simp add: table.look_fold) (simp add: quote_row_def)
  show ?thesis unfolding c t
    using latest_mono [of k None qs] latest_None [of k None qs] by (auto split: option.split)
qed

definition quote1 :: quote where
  "quote1 = \<lparr>qt_symbol = ''TMF'', qt_contract = ''TMFR1'', qt_best_bid = Some 100, qt_best_ask = Some 102,
     qt_last_price = None, qt_exchange_time = 10, qt_received_at = 11, qt_source = ''feed''\<rparr>"

end
