(* ===== verification/Live_Risk.thy ===== *)
theory Live_Risk
  imports Broker_Models Market_Quotes
begin

text \<open>
  The live candidates of \<open>tw_quant/execution/live_models.py\<close> and the admission
  calculation \<open>LiveRiskService.evaluate\<close> of \<open>risk/live.py\<close>.  A context carries the local
  calendar date of its time (\<open>now.date()\<close>) as a day number beside the instant; the policy
  version, a digest of the configuration, is an argument.
\<close>

section \<open>Instruments and candidates\<close>

record instrument_spec =
  in_symbol :: string
  in_contract :: string
  in_tick_size :: rat
  in_multiplier :: rat
  in_expiry_date :: "int option"
  in_commission :: rat
  in_tax_rate :: rat

definition instrument_post_init :: "instrument_spec \<Rightarrow> instrument_spec res" where
  "instrument_post_init i = first_error
     [(blank (in_symbol i) \<or> blank (in_contract i), ValueError ''instrument symbol and contract are required''),
      (in_tick_size i \<le> 0 \<or> in_multiplier i \<le> 0,
        ValueError ''instrument tick size and multiplier must be positive''),
      (in_commission i < 0 \<or> in_tax_rate i < 0, ValueError ''instrument costs cannot be negative'')] i"

datatype candidate_action = EntryAction | ExitAction
datatype direction = LongDir | ShortDir
datatype trading_session = DaySession | NightSession

record live_candidate =
  ca_owner_id :: string
  ca_runtime_id :: string
  ca_decision_id :: string
  ca_target :: account_ref
  ca_strategy_id :: string
  ca_strategy_version :: int
  ca_symbol :: string
  ca_contract :: string
  ca_trigger_time :: instant
  ca_action :: candidate_action
  ca_direction :: direction
  ca_quantity :: int
  ca_reason :: string
  ca_planned_stop :: "price option"
  ca_session :: trading_session

definition candidate_post_init :: "live_candidate \<Rightarrow> live_candidate res" where
  "candidate_post_init c = first_error
     [(\<exists>v \<in> set [ca_owner_id c, ca_runtime_id c, ca_decision_id c, ca_strategy_id c, ca_symbol c,
          ca_contract c, ca_reason c]. blank v, ValueError ''live candidate identity fields are required''),
      (ca_strategy_version c < 1 \<or> ca_quantity c < 1,
        ValueError ''strategy version and quantity must be positive'')] c"

definition candidate_reduce_only :: "live_candidate \<Rightarrow> bool" where
  "candidate_reduce_only c \<longleftrightarrow> ca_action c = ExitAction"

definition candidate_side :: "live_candidate \<Rightarrow> order_side" where
  "candidate_side c = (if candidate_reduce_only c
     then (if ca_direction c = LongDir then Sell else Buy)
     else (if ca_direction c = LongDir then Buy else Sell))"

definition candidate_signed :: "live_candidate \<Rightarrow> int" where
  "candidate_signed c = (if candidate_side c = Buy then ca_quantity c else - ca_quantity c)"

section \<open>Configuration and context\<close>

datatype kill_switch_action = HaltEntry | CancelWorking | Flatten
datatype kill_switch_scope = GlobalScope | OwnerScope | BrokerAccountScope | ExecutionTargetScope

definition kill_action_value :: "kill_switch_action \<Rightarrow> string" where
  "kill_action_value a = (case a of HaltEntry \<Rightarrow> ''halt_entry'' | CancelWorking \<Rightarrow> ''cancel_working''
     | Flatten \<Rightarrow> ''flatten'')"

record kill_switch_state =
  ks_action :: kill_switch_action
  ks_scope :: kill_switch_scope
  ks_scope_key :: string
  ks_reason :: string
  ks_activated_at :: instant

definition kill_switch_post_init :: "kill_switch_state \<Rightarrow> kill_switch_state res" where
  "kill_switch_post_init k = (if blank (ks_scope_key k) \<or> blank (ks_reason k)
     then Inl (ValueError ''kill switch scope key and reason are required'') else Inr k)"

record live_risk_config =
  rk_allowed_symbols :: "string list"
  rk_allowed_contracts :: "string list"
  rk_max_order_quantity :: int
  rk_max_account_position :: int
  rk_max_portfolio_position :: int
  rk_max_risk_per_trade :: rat
  rk_max_daily_loss :: rat
  rk_max_daily_trades :: int
  rk_max_pending_orders :: int
  rk_max_quote_age :: rat
  rk_max_slippage_ticks :: int
  rk_max_spread_ticks :: int
  rk_allowed_sessions :: "trading_session list"
  rk_expiry_guard_days :: int
  rk_max_active_runtimes :: int
  rk_reservation_seconds :: rat

definition live_risk_config_post_init :: "live_risk_config \<Rightarrow> live_risk_config res" where
  "live_risk_config_post_init c = first_error
     [(rk_allowed_symbols c = [] \<or> rk_allowed_contracts c = [],
        ValueError ''live symbol and contract allowlists are required''),
      (rk_max_order_quantity c < 1, ValueError ''max_order_quantity must be positive''),
      (rk_max_account_position c < 1, ValueError ''max_account_position_contracts must be positive''),
      (rk_max_portfolio_position c < 1, ValueError ''max_owner_portfolio_position_contracts must be positive''),
      (rk_max_daily_trades c < 1, ValueError ''max_daily_trades must be positive''),
      (rk_max_pending_orders c < 1, ValueError ''max_pending_orders must be positive''),
      (rk_max_active_runtimes c < 1, ValueError ''max_active_live_runtimes must be positive''),
      (rk_max_risk_per_trade c \<le> 0, ValueError ''max_risk_per_trade must be positive''),
      (rk_max_daily_loss c \<le> 0, ValueError ''max_daily_loss must be positive''),
      (rk_max_quote_age c \<le> 0, ValueError ''max_quote_age_seconds must be positive''),
      (rk_reservation_seconds c \<le> 0, ValueError ''reservation_seconds must be positive''),
      (rk_max_slippage_ticks c < 0 \<or> rk_max_spread_ticks c < 0,
        ValueError ''slippage and spread limits cannot be negative''),
      (rk_expiry_guard_days c < 0, ValueError ''expiry_guard_days cannot be negative''),
      (rk_allowed_sessions c = [], ValueError ''allowed_sessions must contain day and/or night'')] c"

record live_risk_context =
  cx_now :: instant
  cx_today :: int
  cx_recovery_status :: string
  cx_broker_connected :: bool
  cx_truth_captured_at :: "instant option"
  cx_market_status :: string
  cx_account_position :: "int option"
  cx_portfolio_position :: "int option"
  cx_working_quantity :: "int option"
  cx_owner_working_quantity :: "int option"
  cx_pending_orders :: "int option"
  cx_daily_pnl :: "rat option"
  cx_daily_trades :: "int option"
  cx_active_runtimes :: int
  cx_account_reserved :: int
  cx_portfolio_reserved :: int
  cx_kill_switches :: "kill_switch_state list"

record live_risk_approval =
  ap_approved :: bool
  ap_reason :: string
  ap_policy_version :: string
  ap_estimated_risk :: "rat option"
  ap_warnings :: "string list"

section \<open>Evaluation\<close>

definition reject :: "string \<Rightarrow> string \<Rightarrow> live_risk_approval" where
  "reject ver why = \<lparr>ap_approved = False, ap_reason = why, ap_policy_version = ver,
     ap_estimated_risk = None, ap_warnings = []\<rparr>"

definition the_quote :: "quote option \<Rightarrow> (quote \<Rightarrow> bool) \<Rightarrow> bool" where
  "the_quote q p = (case q of None \<Rightarrow> False | Some x \<Rightarrow> p x)"

definition opt_test :: "'a option \<Rightarrow> ('a \<Rightarrow> bool) \<Rightarrow> bool" where
  "opt_test x p = (case x of None \<Rightarrow> False | Some v \<Rightarrow> p v)"

definition common_checks :: "live_risk_config \<Rightarrow> live_candidate \<Rightarrow> live_risk_context \<Rightarrow> quote option
    \<Rightarrow> instrument_spec \<Rightarrow> (bool \<times> string) list" where
  "common_checks cfg c x q i =
     [(cx_recovery_status x \<noteq> ''ready'', ''recovery_not_ready''),
      (cx_truth_captured_at x = None, ''broker_truth_unavailable''),
      (opt_test (cx_truth_captured_at x) (\<lambda>t. total_seconds (cx_now x - t) > rk_max_quote_age cfg * 2),
        ''broker_truth_stale''),
      (ca_symbol c \<noteq> in_symbol i \<or> ca_contract c \<noteq> in_contract i, ''instrument_spec_mismatch''),
      (\<not> opt_test q quote_complete, ''execution_quote_incomplete''),
      (opt_test q (\<lambda>q. let age = total_seconds (cx_now x - qt_received_at q) in
          age < 0 \<or> age > rk_max_quote_age cfg), ''stale_execution_quote'')]"

definition closes_position :: "live_candidate \<Rightarrow> int \<Rightarrow> bool" where
  "closes_position c p \<longleftrightarrow> (p > 0 \<and> candidate_side c = Sell) \<or> (p < 0 \<and> candidate_side c = Buy)"

definition exit_checks :: "live_candidate \<Rightarrow> live_risk_context \<Rightarrow> (bool \<times> string) list" where
  "exit_checks c x =
     [(cx_account_position x = None, ''position_unavailable''),
      (opt_test (cx_account_position x) (\<lambda>p. \<not> closes_position c p \<or> ca_quantity c > \<bar>p\<bar>),
        ''reduce_only_position_unavailable'')]"

definition exit_warnings :: "live_risk_context \<Rightarrow> string list" where
  "exit_warnings x = (if \<not> cx_broker_connected x then [''broker_unavailable''] else []) @
     (if cx_market_status x \<noteq> ''healthy''
      then [if cx_market_status x = [] then ''market_unhealthy'' else cx_market_status x] else [])"

definition account_projected :: "live_candidate \<Rightarrow> live_risk_context \<Rightarrow> int" where
  "account_projected c x = (case (cx_account_position x, cx_working_quantity x) of
     (Some p, Some w) \<Rightarrow> p + w + cx_account_reserved x + candidate_signed c | _ \<Rightarrow> 0)"

definition portfolio_projected :: "live_candidate \<Rightarrow> live_risk_context \<Rightarrow> int" where
  "portfolio_projected c x = (case (cx_portfolio_position x, cx_owner_working_quantity x) of
     (Some p, Some w) \<Rightarrow> p + w + cx_portfolio_reserved x + candidate_signed c | _ \<Rightarrow> 0)"

definition reference_price :: "live_candidate \<Rightarrow> quote option \<Rightarrow> price" where
  "reference_price c q = (case q of None \<Rightarrow> 0 | Some q \<Rightarrow>
     (case (if candidate_side c = Buy then qt_best_ask q else qt_best_bid q) of None \<Rightarrow> 0 | Some p \<Rightarrow> p))"

definition stop_price :: "live_candidate \<Rightarrow> price" where
  "stop_price c = (case ca_planned_stop c of None \<Rightarrow> 0 | Some s \<Rightarrow> s)"

definition entry_checks :: "live_risk_config \<Rightarrow> live_candidate \<Rightarrow> live_risk_context \<Rightarrow> quote option
    \<Rightarrow> instrument_spec \<Rightarrow> (bool \<times> string) list" where
  "entry_checks cfg c x q i =
     [(\<not> cx_broker_connected x, ''target_unavailable''),
      (cx_market_status x \<in> {''market_stale'', ''provider_disconnected'', ''trading_halted''}, cx_market_status x),
      (ca_symbol c \<notin> set (rk_allowed_symbols cfg), ''symbol_not_allowed''),
      (ca_contract c \<notin> set (rk_allowed_contracts cfg), ''contract_not_allowed''),
      (ca_quantity c > rk_max_order_quantity cfg, ''max_order_quantity_exceeded''),
      (ca_session c \<notin> set (rk_allowed_sessions cfg), ''session_not_allowed''),
      (in_expiry_date i = None, ''expiry_metadata_unavailable''),
      (opt_test (in_expiry_date i) (\<lambda>d. d - cx_today x \<le> rk_expiry_guard_days cfg), ''expiry_guard''),
      (ca_planned_stop c = None, ''stop_required''),
      (cx_kill_switches x \<noteq> [], case cx_kill_switches x of [] \<Rightarrow> []
         | k # _ \<Rightarrow> ''kill_switch_'' @ kill_action_value (ks_action k)),
      (cx_active_runtimes x > rk_max_active_runtimes cfg, ''max_active_live_runtimes_exceeded''),
      (cx_pending_orders x = None \<or> cx_working_quantity x = None \<or> cx_owner_working_quantity x = None,
        ''working_orders_unavailable''),
      (opt_test (cx_pending_orders x) (\<lambda>n. n \<ge> rk_max_pending_orders cfg), ''max_pending_orders_exceeded''),
      (cx_daily_pnl x = None, ''daily_loss_unavailable''),
      (opt_test (cx_daily_pnl x) (\<lambda>p. p \<le> - rk_max_daily_loss cfg), ''daily_loss_exceeded''),
      (cx_daily_trades x = None, ''daily_trade_count_unavailable''),
      (opt_test (cx_daily_trades x) (\<lambda>n. n \<ge> rk_max_daily_trades cfg), ''daily_trades_exceeded''),
      (cx_account_position x = None \<or> cx_portfolio_position x = None, ''position_unavailable''),
      (\<bar>account_projected c x\<bar> > rk_max_account_position cfg, ''account_position_limit''),
      (\<bar>portfolio_projected c x\<bar> > rk_max_portfolio_position cfg, ''portfolio_position_limit''),
      ((candidate_side c = Buy \<and> stop_price c \<ge> reference_price c q)
        \<or> (candidate_side c = Sell \<and> stop_price c \<le> reference_price c q), ''invalid_stop_direction'')]"

definition estimated_risk :: "live_risk_config \<Rightarrow> live_candidate \<Rightarrow> quote option \<Rightarrow> instrument_spec \<Rightarrow> rat" where
  "estimated_risk cfg c q i = (let ref = reference_price c q; stop = stop_price c; n = of_int (ca_quantity c) in
     \<bar>ref - stop\<bar> * in_multiplier i * n
     + in_commission i * 2 * n
     + (ref + stop) * in_multiplier i * in_tax_rate i * n
     + of_int (rk_max_slippage_ticks cfg) * in_tick_size i * in_multiplier i * n)"

definition live_risk_evaluate :: "string \<Rightarrow> live_risk_config \<Rightarrow> live_candidate \<Rightarrow> live_risk_context
    \<Rightarrow> quote option \<Rightarrow> instrument_spec \<Rightarrow> live_risk_approval" where
  "live_risk_evaluate ver cfg c x q i =
     (case first_reason (common_checks cfg c x q i) of Some r \<Rightarrow> reject ver r
      | None \<Rightarrow>
        if candidate_reduce_only c then
          (case first_reason (exit_checks c x) of Some r \<Rightarrow> reject ver r
           | None \<Rightarrow> \<lparr>ap_approved = True, ap_reason = ''risk_reducing_approved'', ap_policy_version = ver,
               ap_estimated_risk = None, ap_warnings = exit_warnings x\<rparr>)
        else
          (case first_reason (entry_checks cfg c x q i) of Some r \<Rightarrow> reject ver r
           | None \<Rightarrow> (let est = estimated_risk cfg c q i in
               if est > rk_max_risk_per_trade cfg
               then (reject ver ''max_risk_per_trade'')\<lparr>ap_estimated_risk := Some est\<rparr>
               else \<lparr>ap_approved = True, ap_reason = ''approved'', ap_policy_version = ver,
                 ap_estimated_risk = Some est, ap_warnings = []\<rparr>)))"

section \<open>Properties\<close>

lemma reject_simps [simp]: "\<not> ap_approved (reject ver r)"
  by (simp add: reject_def)

lemma opt_test_simps [simp]: "opt_test None p = False" "opt_test (Some v) p = p v"
  by (simp_all add: opt_test_def)

lemma approved_common:
  "ap_approved (live_risk_evaluate ver cfg c x q i) \<Longrightarrow> first_reason (common_checks cfg c x q i) = None"
  by (auto simp: live_risk_evaluate_def split: option.splits)

lemma approved_entry:
  assumes "ap_approved (live_risk_evaluate ver cfg c x q i)" "\<not> candidate_reduce_only c"
  shows "first_reason (entry_checks cfg c x q i) = None \<and> estimated_risk cfg c q i \<le> rk_max_risk_per_trade cfg"
  using assms by (auto simp: live_risk_evaluate_def Let_def split: option.splits if_splits)

text \<open>The risk estimate covers the loss at the stop when costs are not negative.\<close>

lemma estimated_covers_stop:
  assumes "instrument_post_init i = Inr i" "1 \<le> ca_quantity c" "0 \<le> rk_max_slippage_ticks cfg"
    "0 \<le> reference_price c q" "0 \<le> stop_price c"
  shows "\<bar>reference_price c q - stop_price c\<bar> * in_multiplier i * of_int (ca_quantity c) \<le> estimated_risk cfg c q i"
proof -
  have i: "0 < in_tick_size i" "0 < in_multiplier i" "0 \<le> in_commission i" "0 \<le> in_tax_rate i"
    using assms(1) by (auto simp: instrument_post_init_def first_error_Inr)
  have "0 \<le> (of_int (ca_quantity c) :: rat)" "0 \<le> (of_int (rk_max_slippage_ticks cfg) :: rat)"
    using assms(2,3) by simp_all
  with i assms(4,5) show ?thesis unfolding estimated_risk_def Let_def
    by (simp add: add_nonneg_nonneg)
qed

text \<open>C18. An approved entry is inside every limit: recovery is ready, no kill switch is
  active, the quote is complete and fresh, the stop is on the protective side, the daily
  loss and trade limits are not reached, and account and portfolio positions, with
  working orders and reservations and the whole order filled, stay within their limits,
  as does the loss at the stop.\<close>

theorem approved_entry_within_limits:
  assumes "ap_approved (live_risk_evaluate ver cfg c x (Some q) i)" and "\<not> candidate_reduce_only c"
    and "instrument_post_init i = Inr i" and "candidate_post_init c = Inr c"
    and "quote_post_init q = Inr q" and "live_risk_config_post_init cfg = Inr cfg"
    and "0 \<le> stop_price c"
  shows "cx_recovery_status x = ''ready'' \<and> cx_kill_switches x = [] \<and> quote_complete q
    \<and> 0 \<le> total_seconds (cx_now x - qt_received_at q)
    \<and> total_seconds (cx_now x - qt_received_at q) \<le> rk_max_quote_age cfg
    \<and> ca_quantity c \<le> rk_max_order_quantity cfg
    \<and> (\<exists>p w r. cx_account_position x = Some p \<and> cx_working_quantity x = Some w
        \<and> r = cx_account_reserved x \<and> \<bar>p + w + r + candidate_signed c\<bar> \<le> rk_max_account_position cfg)
    \<and> (\<exists>p w r. cx_portfolio_position x = Some p \<and> cx_owner_working_quantity x = Some w
        \<and> r = cx_portfolio_reserved x \<and> \<bar>p + w + r + candidate_signed c\<bar> \<le> rk_max_portfolio_position cfg)
    \<and> (\<exists>l. cx_daily_pnl x = Some l \<and> - rk_max_daily_loss cfg < l)
    \<and> (\<exists>n. cx_daily_trades x = Some n \<and> n < rk_max_daily_trades cfg)
    \<and> (\<exists>s. ca_planned_stop c = Some s \<and> (if candidate_side c = Buy then s < the (qt_best_ask q) else the (qt_best_bid q) < s)
        \<and> \<bar>reference_price c (Some q) - s\<bar> * in_multiplier i * of_int (ca_quantity c) \<le> rk_max_risk_per_trade cfg)"
proof -
  note common = approved_common [OF assms(1), unfolded first_reason_None common_checks_def]
  note entry = approved_entry [OF assms(1,2), unfolded first_reason_None entry_checks_def]
  have complete: "quote_complete q" using common by simp
  then obtain b a where ba: "qt_best_bid q = Some b" "qt_best_ask q = Some a"
    by (auto simp: quote_complete_def)
  have "0 < b" "0 < a" using assms(5) ba by (auto simp: quote_post_init_def first_error_Inr)
  then have ref: "0 \<le> reference_price c (Some q)" by (simp add: reference_price_def ba)
  have q1: "1 \<le> ca_quantity c" using assms(4) by (auto simp: candidate_post_init_def first_error_Inr)
  have slip: "0 \<le> rk_max_slippage_ticks cfg"
    using assms(6) by (auto simp: live_risk_config_post_init_def first_error_Inr)
  note est = estimated_covers_stop [OF assms(3) q1 slip ref assms(7)]
  obtain s where s: "ca_planned_stop c = Some s" using entry by auto
  have side: "candidate_side c = Buy \<or> candidate_side c = Sell" using order_side.exhaust by blast
  have stop: "if candidate_side c = Buy then s < a else b < s"
    using entry s ba side by (auto simp: reference_price_def stop_price_def)
  have risk: "\<bar>reference_price c (Some q) - s\<bar> * in_multiplier i * of_int (ca_quantity c) \<le> rk_max_risk_per_trade cfg"
    using est entry s by (simp add: stop_price_def)
  have acc: "\<exists>p w r. cx_account_position x = Some p \<and> cx_working_quantity x = Some w
      \<and> r = cx_account_reserved x \<and> \<bar>p + w + r + candidate_signed c\<bar> \<le> rk_max_account_position cfg"
    using entry by (auto simp: account_projected_def)
  have port: "\<exists>p w r. cx_portfolio_position x = Some p \<and> cx_owner_working_quantity x = Some w
      \<and> r = cx_portfolio_reserved x \<and> \<bar>p + w + r + candidate_signed c\<bar> \<le> rk_max_portfolio_position cfg"
    using entry by (auto simp: portfolio_projected_def)
  show ?thesis using common entry complete acc port s stop risk ba
    by (auto simp: Let_def not_le not_less)
qed

definition instr1 :: instrument_spec where
  "instr1 = \<lparr>in_symbol = ''TMF'', in_contract = ''TMFR1'', in_tick_size = 1, in_multiplier = 10,
     in_expiry_date = Some 100, in_commission = 20, in_tax_rate = 1 / 50000\<rparr>"

definition cfg1 :: live_risk_config where
  "cfg1 = \<lparr>rk_allowed_symbols = [''TMF''], rk_allowed_contracts = [''TMFR1''], rk_max_order_quantity = 1,
     rk_max_account_position = 1, rk_max_portfolio_position = 1, rk_max_risk_per_trade = 5000,
     rk_max_daily_loss = 10000, rk_max_daily_trades = 10, rk_max_pending_orders = 1, rk_max_quote_age = 2,
     rk_max_slippage_ticks = 2, rk_max_spread_ticks = 4, rk_allowed_sessions = [DaySession, NightSession],
     rk_expiry_guard_days = 2, rk_max_active_runtimes = 1, rk_reservation_seconds = 5\<rparr>"

definition cand1 :: live_candidate where
  "cand1 = \<lparr>ca_owner_id = ''u1'', ca_runtime_id = ''r1'', ca_decision_id = ''d1'',
     ca_target = AccountRef ''shioaji'' ''A1'', ca_strategy_id = ''s1'', ca_strategy_version = 1,
     ca_symbol = ''TMF'', ca_contract = ''TMFR1'', ca_trigger_time = 10, ca_action = EntryAction,
     ca_direction = LongDir, ca_quantity = 1, ca_reason = ''signal'', ca_planned_stop = Some 90,
     ca_session = DaySession\<rparr>"

definition ctx1 :: live_risk_context where
  "ctx1 = \<lparr>cx_now = 12, cx_today = 50, cx_recovery_status = ''ready'', cx_broker_connected = True,
     cx_truth_captured_at = Some 10, cx_market_status = ''healthy'', cx_account_position = Some 0,
     cx_portfolio_position = Some 0, cx_working_quantity = Some 0, cx_owner_working_quantity = Some 0,
     cx_pending_orders = Some 0, cx_daily_pnl = Some 0, cx_daily_trades = Some 0, cx_active_runtimes = 1,
     cx_account_reserved = 0, cx_portfolio_reserved = 0, cx_kill_switches = []\<rparr>"

theorem approved_entry_within_limits_witness:
  "ap_approved (live_risk_evaluate ''v'' cfg1 cand1 ctx1 (Some quote1) instr1)
   \<and> \<bar>reference_price cand1 (Some quote1) - 90\<bar> * in_multiplier instr1 * of_int (ca_quantity cand1) \<le> 5000"
proof -
  have a: "ap_approved (live_risk_evaluate ''v'' cfg1 cand1 ctx1 (Some quote1) instr1)" by code_simp
  have b: "\<not> candidate_reduce_only cand1" "instrument_post_init instr1 = Inr instr1"
    "candidate_post_init cand1 = Inr cand1" "quote_post_init quote1 = Inr quote1"
    "live_risk_config_post_init cfg1 = Inr cfg1" "0 \<le> stop_price cand1" by code_simp+
  show ?thesis using approved_entry_within_limits [OF a b] a by (auto simp: cand1_def cfg1_def)
qed



end
