(* ===== verification/Live_Policy.thy ===== *)
theory Live_Policy
  imports Live_Risk
begin

text \<open>
  The execution policies of \<open>tw_quant/execution/live_policy.py\<close>: from a candidate, a quote,
  an instrument, the broker's capabilities and a risk approval to an order request or a
  reason not to submit.  The client order id, a SHA-256 digest, is a function argument
  \<open>cid\<close> of the decision, the target and the policy version.
\<close>

record policy_result =
  pr_policy_name :: string
  pr_policy_version :: string
  pr_request :: "broker_order_request option"
  pr_result_reason :: string
  pr_reference_price :: "price option"
  pr_limit_price :: "price option"

type_synonym order_id_fun = "live_candidate \<Rightarrow> string \<Rightarrow> string"

datatype policy_kind = MarketableLimit int int | MarketPrice | EmergencyExit

definition policy_name :: "policy_kind \<Rightarrow> string" where
  "policy_name k = (case k of MarketableLimit _ _ \<Rightarrow> ''marketable_limit_ioc''
     | MarketPrice \<Rightarrow> ''market_price_ioc'' | EmergencyExit \<Rightarrow> ''emergency_exit'')"

definition policy_version :: "policy_kind \<Rightarrow> string" where
  "policy_version k = (case k of MarketableLimit _ _ \<Rightarrow> ''marketable-limit-ioc:v1''
     | MarketPrice \<Rightarrow> ''market-price-ioc:v1'' | EmergencyExit \<Rightarrow> ''emergency-exit:v1'')"

definition marketable_limit_init :: "int \<Rightarrow> int \<Rightarrow> policy_kind res" where
  "marketable_limit_init slip spread = (if slip < 0 \<or> spread < 0
     then Inl (ValueError ''policy tick limits cannot be negative'') else Inr (MarketableLimit slip spread))"

definition policy_reject :: "policy_kind \<Rightarrow> string \<Rightarrow> policy_result" where
  "policy_reject k why = \<lparr>pr_policy_name = policy_name k, pr_policy_version = policy_version k,
     pr_request = None, pr_result_reason = why, pr_reference_price = None, pr_limit_price = None\<rparr>"

definition has_capabilities :: "broker_capabilities \<Rightarrow> capability list \<Rightarrow> bool" where
  "has_capabilities caps cs \<longleftrightarrow> (\<forall>c \<in> set cs. is_ok (require_capability caps c))"

definition candidate_request :: "order_id_fun \<Rightarrow> policy_kind \<Rightarrow> live_candidate \<Rightarrow> order_type
    \<Rightarrow> price option \<Rightarrow> price option \<Rightarrow> broker_order_request" where
  "candidate_request cid k c ty lmt ref =
     \<lparr>req_client_order_id = cid c (policy_version k), req_owner_id = ca_owner_id c,
      req_strategy_id = ca_strategy_id c, req_strategy_version = ca_strategy_version c,
      req_symbol = ca_symbol c, req_contract = ca_contract c, req_side = candidate_side c,
      req_quantity = ca_quantity c, req_mode = Live, req_order_type = ty, req_time_in_force = Ioc,
      req_limit_price = lmt, req_stop_price = None, req_reference_price = ref,
      req_risk_stop_price = (if k = EmergencyExit then None else ca_planned_stop c),
      req_reduce_only = (if k = EmergencyExit then True else candidate_reduce_only c),
      req_purpose = (if k = EmergencyExit then Liquidation
        else if candidate_reduce_only c then Exit else Entry),
      req_reason = ca_reason c, req_correlation_id = Some (ca_decision_id c), req_causation_id = None,
      req_source = ''unspecified'', req_arm_id = None\<rparr>"

definition would_submit :: "policy_kind \<Rightarrow> broker_order_request \<Rightarrow> price option \<Rightarrow> price option \<Rightarrow> policy_result res" where
  "would_submit k r ref lmt = (case request_post_init r of Inl e \<Rightarrow> Inl e
     | Inr q \<Rightarrow> Inr \<lparr>pr_policy_name = policy_name k, pr_policy_version = policy_version k,
         pr_request = Some q, pr_result_reason = ''would_submit'', pr_reference_price = ref, pr_limit_price = lmt\<rparr>)"

definition top_of_book :: "live_candidate \<Rightarrow> quote \<Rightarrow> price option" where
  "top_of_book c q = (if candidate_side c = Buy then qt_best_ask q else qt_best_bid q)"

definition crossed_price :: "live_candidate \<Rightarrow> price \<Rightarrow> price \<Rightarrow> price" where
  "crossed_price c bid ask = (if candidate_side c = Buy then ask else bid)"

definition slipped_price :: "int \<Rightarrow> instrument_spec \<Rightarrow> live_candidate \<Rightarrow> price \<Rightarrow> price" where
  "slipped_price slip i c ref = (let movement = of_int slip * in_tick_size i in
     if candidate_side c = Buy then ref + movement else ref - movement)"

definition on_tick :: "instrument_spec \<Rightarrow> price \<Rightarrow> price" where
  "on_tick i x = of_int (py_round (x / in_tick_size i)) * in_tick_size i"

definition marketable_limit :: "order_id_fun \<Rightarrow> int \<Rightarrow> int \<Rightarrow> live_candidate \<Rightarrow> quote option
    \<Rightarrow> instrument_spec \<Rightarrow> broker_capabilities \<Rightarrow> live_risk_approval \<Rightarrow> policy_result res" where
  "marketable_limit cid slip spread c quote i caps risk =
     (let k = MarketableLimit slip spread in
      if \<not> ap_approved risk then Inr (policy_reject k (ap_reason risk))
      else case quote of None \<Rightarrow> Inr (policy_reject k ''execution_quote_incomplete'')
      | Some q \<Rightarrow> (case (qt_best_bid q, qt_best_ask q) of
          (Some bid, Some ask) \<Rightarrow>
            if \<not> has_capabilities caps [SupportsLimitOrders, SupportsIoc]
              then Inr (policy_reject k ''execution_policy_unsupported'')
            else if (ask - bid) / in_tick_size i > of_int spread + 1 / 1000000000
              then Inr (policy_reject k ''spread_limit_exceeded'')
            else (let ref = crossed_price c bid ask; lmt = slipped_price slip i c ref in
              if lmt \<le> 0 then Inr (policy_reject k ''slippage_limit_exceeded'')
              else would_submit k (candidate_request cid k c Limit (Some (on_tick i lmt)) (Some ref))
                (Some ref) (Some (on_tick i lmt)))
        | _ \<Rightarrow> Inr (policy_reject k ''execution_quote_incomplete'')))"

definition market_price :: "order_id_fun \<Rightarrow> live_candidate \<Rightarrow> quote option \<Rightarrow> instrument_spec
    \<Rightarrow> broker_capabilities \<Rightarrow> live_risk_approval \<Rightarrow> policy_result res" where
  "market_price cid c quote i caps risk =
     (let k = MarketPrice in
      if \<not> ap_approved risk then Inr (policy_reject k (ap_reason risk))
      else if \<not> has_capabilities caps [SupportsMarketOrders, SupportsIoc]
        then Inr (policy_reject k ''execution_policy_unsupported'')
      else if \<not> opt_test quote quote_complete then Inr (policy_reject k ''execution_quote_incomplete'')
      else (let ref = (case quote of None \<Rightarrow> None | Some q \<Rightarrow> top_of_book c q) in
        would_submit k (candidate_request cid k c Market None ref) ref None))"

definition emergency_exit :: "order_id_fun \<Rightarrow> live_candidate \<Rightarrow> quote option \<Rightarrow> instrument_spec
    \<Rightarrow> broker_capabilities \<Rightarrow> live_risk_approval \<Rightarrow> policy_result res" where
  "emergency_exit cid c quote i caps risk =
     (let k = EmergencyExit in
      if \<not> candidate_reduce_only c then Inr (policy_reject k ''emergency_exit_requires_reduce_only'')
      else if \<not> ap_approved risk then Inr (policy_reject k (ap_reason risk))
      else if \<not> has_capabilities caps [SupportsMarketOrders, SupportsIoc]
        then Inr (policy_reject k ''execution_policy_unsupported'')
      else (let ref = (case quote of None \<Rightarrow> None | Some q \<Rightarrow> top_of_book c q) in
        would_submit k (candidate_request cid k c Market None ref) ref None))"

definition policy_evaluate :: "policy_kind \<Rightarrow> order_id_fun \<Rightarrow> live_candidate \<Rightarrow> quote option
    \<Rightarrow> instrument_spec \<Rightarrow> broker_capabilities \<Rightarrow> live_risk_approval \<Rightarrow> policy_result res" where
  "policy_evaluate k cid c quote i caps risk = (case k of
       MarketableLimit slip spread \<Rightarrow> marketable_limit cid slip spread c quote i caps risk
     | MarketPrice \<Rightarrow> market_price cid c quote i caps risk
     | EmergencyExit \<Rightarrow> emergency_exit cid c quote i caps risk)"

section \<open>Properties\<close>

lemma request_post_init_same: "request_post_init r = Inr q \<Longrightarrow> q = r"
  by (simp add: request_post_init_def first_error_Inr)

lemma would_submitD: "would_submit k r ref lmt = Inr res \<Longrightarrow> pr_request res = Some r \<and> valid_request r
    \<and> pr_limit_price res = lmt \<and> pr_reference_price res = ref"
  by (auto simp: would_submit_def dest: request_post_init_same split: sum.splits)

lemma policy_reject_simps [simp]: "pr_request (policy_reject k why) = None"
  by (simp add: policy_reject_def)

lemma marketable_limitD:
  assumes "marketable_limit cid slip spread c quote i caps risk = Inr res" and "pr_request res = Some r"
  shows "\<exists>q bid ask. quote = Some q \<and> qt_best_bid q = Some bid \<and> qt_best_ask q = Some ask
    \<and> ap_approved risk \<and> has_capabilities caps [SupportsLimitOrders, SupportsIoc]
    \<and> (ask - bid) / in_tick_size i \<le> of_int spread + 1 / 1000000000
    \<and> r = candidate_request cid (MarketableLimit slip spread) c Limit
        (Some (on_tick i (slipped_price slip i c (crossed_price c bid ask)))) (Some (crossed_price c bid ask))
    \<and> valid_request r"
proof -
  from assms obtain q bid ask where q: "quote = Some q" "qt_best_bid q = Some bid" "qt_best_ask q = Some ask"
    and a: "ap_approved risk"
    by (auto simp: marketable_limit_def Let_def split: if_splits option.splits)
  then show ?thesis using assms
    by (auto simp: marketable_limit_def Let_def not_less not_le split: if_splits dest!: would_submitD)
qed

lemma on_tick_near:
  assumes "0 < in_tick_size i"
  shows "\<bar>on_tick i x - x\<bar> \<le> in_tick_size i / 2"
proof -
  let ?t = "in_tick_size i"
  have "on_tick i x - x = (of_int (py_round (x / ?t)) - x / ?t) * ?t"
    using assms by (simp add: field_simps on_tick_def)
  then have "\<bar>on_tick i x - x\<bar> = \<bar>of_int (py_round (x / ?t)) - x / ?t\<bar> * ?t"
    using assms by (simp add: abs_mult)
  also have "\<dots> \<le> 1 / 2 * ?t" using assms py_round_near [of "x / ?t"] by (intro mult_right_mono) simp_all
  finally show ?thesis by simp
qed

lemma on_tick_grid: "0 < in_tick_size i \<Longrightarrow> on_tick i (of_int n * in_tick_size i) = of_int n * in_tick_size i"
  by (simp add: on_tick_def)

text \<open>C20. A marketable limit order is bounded: it is submitted only for an approved risk and
  a two-sided quote whose spread is within the limit; side, quantity and reduce-only are the
  candidate's; and it is immediate-or-cancel.  Its price is on the tick grid: the one next to the
  price that is worse than the top of the book it crosses by exactly the allowed slippage (above the
  ask for a purchase, below the bid for a sale), at most half a tick away from it, and that price
  itself when the top of the book is on the grid.\<close>

theorem limit_order_bounded_slippage:
  assumes "marketable_limit cid slip spread c quote i caps risk = Inr res" and "pr_request res = Some r"
    and "0 < in_tick_size i"
  shows "ap_approved risk \<and> valid_request r \<and> req_time_in_force r = Ioc \<and> req_order_type r = Limit
    \<and> req_side r = candidate_side c \<and> req_quantity r = ca_quantity c
    \<and> req_reduce_only r = candidate_reduce_only c
    \<and> (\<exists>q bid ask p n worst. quote = Some q \<and> qt_best_bid q = Some bid \<and> qt_best_ask q = Some ask
        \<and> ask - bid \<le> (of_int spread + 1 / 1000000000) * in_tick_size i
        \<and> worst = (if req_side r = Buy then ask + of_int slip * in_tick_size i else bid - of_int slip * in_tick_size i)
        \<and> req_limit_price r = Some p \<and> p = of_int n * in_tick_size i \<and> \<bar>p - worst\<bar> \<le> in_tick_size i / 2
        \<and> (\<forall>m. (if req_side r = Buy then ask else bid) = of_int m * in_tick_size i \<longrightarrow> p = worst))"
proof -
  from marketable_limitD [OF assms(1,2)] obtain q bid ask where
    q: "quote = Some q" "qt_best_bid q = Some bid" "qt_best_ask q = Some ask" "ap_approved risk"
    and sp: "(ask - bid) / in_tick_size i \<le> of_int spread + 1 / 1000000000"
    and r: "r = candidate_request cid (MarketableLimit slip spread) c Limit
        (Some (on_tick i (slipped_price slip i c (crossed_price c bid ask)))) (Some (crossed_price c bid ask))"
      "valid_request r" by blast
  define worst where "worst = (if candidate_side c = Buy then ask + of_int slip * in_tick_size i
    else bid - of_int slip * in_tick_size i)"
  have w: "slipped_price slip i c (crossed_price c bid ask) = worst"
    by (simp add: slipped_price_def crossed_price_def worst_def Let_def)
  let ?p = "on_tick i worst"
  have grid: "?p = worst" if "(if candidate_side c = Buy then ask else bid) = of_int m * in_tick_size i" for m
  proof -
    have "worst = of_int (if candidate_side c = Buy then m + slip else m - slip) * in_tick_size i"
      using that by (auto simp: worst_def algebra_simps split: if_splits)
    then show ?thesis using on_tick_grid [OF assms(3)] by metis
  qed
  have "ask - bid \<le> (of_int spread + 1 / 1000000000) * in_tick_size i"
    using sp assms(3) by (simp add: pos_divide_le_eq)
  moreover have "?p = of_int (py_round (worst / in_tick_size i)) * in_tick_size i"
    by (simp add: on_tick_def)
  moreover have "req_limit_price r = Some ?p" "req_time_in_force r = Ioc" "req_order_type r = Limit"
    "req_side r = candidate_side c" "req_quantity r = ca_quantity c" "req_reduce_only r = candidate_reduce_only c"
    by (simp_all add: r(1) candidate_request_def w)
  ultimately show ?thesis using q r(2) on_tick_near [OF assms(3), of worst] grid worst_def by metis
qed

theorem limit_order_bounded_slippage_witness:
  "\<exists>res r. marketable_limit (\<lambda>c v. ''cid'') 2 4 cand1 (Some quote1) instr1 [SupportsLimitOrders, SupportsIoc]
      (live_risk_evaluate ''v'' cfg1 cand1 ctx1 (Some quote1) instr1) = Inr res \<and> pr_request res = Some r
    \<and> req_limit_price r = Some 104 \<and> req_quantity r = 1"
proof -
  let ?m = "marketable_limit (\<lambda>c v. ''cid'') 2 4 cand1 (Some quote1) instr1 [SupportsLimitOrders, SupportsIoc]
      (live_risk_evaluate ''v'' cfg1 cand1 ctx1 (Some quote1) instr1)"
  have "case ?m of Inr res \<Rightarrow> (case pr_request res of Some r \<Rightarrow> req_limit_price r = Some 104 | None \<Rightarrow> False)
      | Inl _ \<Rightarrow> False" by code_simp
  then obtain res r where m: "?m = Inr res" "pr_request res = Some r" "req_limit_price r = Some 104"
    by (auto split: sum.splits option.splits)
  have "0 < in_tick_size instr1" by code_simp
  from limit_order_bounded_slippage [OF m(1,2) this] have "req_quantity r = ca_quantity cand1" by blast
  with m show ?thesis by (auto simp: cand1_def)
qed

text \<open>An emergency exit always reduces: whatever is approved, quoted or supported, the
  policy submits only a reduce-only liquidation at the market of exactly the candidate's
  quantity on its closing side; and when risk approves, the capabilities are there and
  the request is well formed, it does submit, with or without a quote.\<close>

lemma emergency_exit_reduces:
  assumes "emergency_exit cid c quote i caps risk = Inr res"
  shows "(case pr_request res of Some r \<Rightarrow> req_reduce_only r \<and> req_purpose r = Liquidation \<and> req_order_type r = Market
        \<and> req_quantity r = ca_quantity c \<and> req_side r = candidate_side c \<and> candidate_reduce_only c \<and> ap_approved risk
      | None \<Rightarrow> \<not> (candidate_reduce_only c \<and> ap_approved risk \<and> has_capabilities caps [SupportsMarketOrders, SupportsIoc]))"
proof (cases "candidate_reduce_only c \<and> ap_approved risk \<and> has_capabilities caps [SupportsMarketOrders, SupportsIoc]")
  case True
  then have "\<exists>ref. would_submit EmergencyExit (candidate_request cid EmergencyExit c Market None ref) ref None = Inr res"
    using assms unfolding emergency_exit_def Let_def by auto
  then obtain ref where "pr_request res = Some (candidate_request cid EmergencyExit c Market None ref)"
    by (auto dest: would_submitD)
  with True show ?thesis by (simp add: candidate_request_def)
next
  case False
  then have "pr_request res = None" using assms by (auto simp: emergency_exit_def Let_def split: if_splits)
  with False show ?thesis by simp
qed

end
