(* ===== verification/Order_Lifecycle.thy ===== *)
theory Order_Lifecycle
  imports Broker_Models
begin

text \<open>
  The canonical order lifecycle of \<open>tw_quant/broker/lifecycle.py\<close>: the table of
  allowed transitions and \<open>transition_order\<close>, then the facts every client of the
  lifecycle rests on: results are valid orders, fills and time never run backwards,
  terminal statuses absorb, and an order that left the pre-submission statuses never
  returns to them.
\<close>

definition allowed_transitions :: "broker_order_status \<Rightarrow> broker_order_status list" where
  "allowed_transitions s = (case s of
     CREATED \<Rightarrow> [RISK_APPROVED, REJECTED]
   | RISK_APPROVED \<Rightarrow> [SUBMITTING, REJECTED, UNKNOWN]
   | SUBMITTING \<Rightarrow> [ACCEPTED, PARTIALLY_FILLED, FILLED, REJECTED, UNKNOWN]
   | ACCEPTED \<Rightarrow> [PARTIALLY_FILLED, FILLED, CANCEL_PENDING, CANCELLED, REJECTED, EXPIRED, UNKNOWN]
   | PARTIALLY_FILLED \<Rightarrow> [PARTIALLY_FILLED, FILLED, CANCEL_PENDING, CANCELLED, EXPIRED, UNKNOWN]
   | CANCEL_PENDING \<Rightarrow> [CANCELLED, PARTIALLY_FILLED, FILLED, UNKNOWN]
   | UNKNOWN \<Rightarrow> [ACCEPTED, PARTIALLY_FILLED, FILLED, CANCELLED, REJECTED, EXPIRED]
   | _ \<Rightarrow> [])"

definition transition_order ::
  "broker_order \<Rightarrow> broker_order_status \<Rightarrow> instant \<Rightarrow> string option \<Rightarrow> int option \<Rightarrow> price option
     \<Rightarrow> string option \<Rightarrow> broker_order res" where
  "transition_order b s updated_at bid filled avg why =
     (if updated_at < bo_updated_at b
        then Inl (InvalidOrderTransition ''order lifecycle time cannot move backwards'')
      else if (case filled of None \<Rightarrow> False | Some q \<Rightarrow> q < bo_filled_quantity b)
        then Inl (InvalidOrderTransition ''filled quantity cannot decrease'')
      else if s = bo_status b \<and> s \<noteq> PARTIALLY_FILLED then Inr b
      else if s \<notin> set (allowed_transitions (bo_status b))
        then Inl (InvalidOrderTransition (status_value (bo_status b) @ '' -> '' @ status_value s))
      else order_post_init (b\<lparr>bo_status := s, bo_updated_at := updated_at,
             bo_broker_order_id := py_or bid (bo_broker_order_id b),
             bo_filled_quantity := (case filled of None \<Rightarrow> bo_filled_quantity b | Some q \<Rightarrow> q),
             bo_average_fill_price := (case avg of None \<Rightarrow> bo_average_fill_price b | Some p \<Rightarrow> Some p),
             bo_status_reason := why\<rparr>))"

section \<open>One transition\<close>

lemma terminal_no_transitions: "status_terminal s \<Longrightarrow> allowed_transitions s = []"
  by (cases s) (auto simp: status_terminal_def allowed_transitions_def)

lemma transition_InrD:
  assumes "transition_order b s t bid filled avg why = Inr c"
  shows "c = b \<or> (s \<in> set (allowed_transitions (bo_status b)) \<and> valid_order c \<and> bo_status c = s
    \<and> bo_updated_at c = t \<and> bo_request c = bo_request b
    \<and> bo_filled_quantity b \<le> bo_filled_quantity c \<and> bo_updated_at b \<le> t
    \<and> bo_broker_order_id c = py_or bid (bo_broker_order_id b))"
  using assms order_post_init_same
  by (auto simp: transition_order_def split: if_splits option.splits) fastforce+

lemma transition_unknown:
  assumes "valid_order b" "bo_updated_at b \<le> t" "UNKNOWN \<in> set (allowed_transitions (bo_status b))"
    and "bo_status b \<noteq> UNKNOWN"
  shows "transition_order b UNKNOWN t None None None why
    = Inr (b\<lparr>bo_status := UNKNOWN, bo_updated_at := t, bo_status_reason := why\<rparr>)"
  using assms by (simp add: transition_order_def py_or_def valid_order_iff)

section \<open>Runs of transitions\<close>

record order_update =
  ou_status :: broker_order_status
  ou_updated_at :: instant
  ou_broker_order_id :: "string option"
  ou_filled :: "int option"
  ou_average :: "price option"
  ou_reason :: "string option"

text \<open>An update that is rejected leaves the order as it was.\<close>

definition lifecycle_step :: "broker_order \<Rightarrow> order_update \<Rightarrow> broker_order" where
  "lifecycle_step b u = (case transition_order b (ou_status u) (ou_updated_at u)
       (ou_broker_order_id u) (ou_filled u) (ou_average u) (ou_reason u) of
     Inl _ \<Rightarrow> b | Inr c \<Rightarrow> c)"

definition pre_submission :: "broker_order_status \<Rightarrow> bool" where
  "pre_submission s \<longleftrightarrow> s \<in> {CREATED, RISK_APPROVED, SUBMITTING}"

definition order_advances :: "broker_order \<Rightarrow> broker_order \<Rightarrow> bool" where
  "order_advances b c \<longleftrightarrow> bo_request c = bo_request b \<and> bo_updated_at b \<le> bo_updated_at c
     \<and> bo_filled_quantity b \<le> bo_filled_quantity c
     \<and> (status_terminal (bo_status b) \<longrightarrow> c = b)
     \<and> (\<not> pre_submission (bo_status b) \<longrightarrow> \<not> pre_submission (bo_status c))"

lemma post_submission_closed:
  "\<not> pre_submission s \<Longrightarrow> t \<in> set (allowed_transitions s) \<Longrightarrow> \<not> pre_submission t"
  by (cases s) (auto simp: pre_submission_def allowed_transitions_def)

lemma transition_advances:
  assumes "transition_order b s t bid filled avg why = Inr c"
  shows "order_advances b c"
proof (cases "c = b")
  case True
  then show ?thesis by (simp add: order_advances_def)
next
  case False
  with transition_InrD [OF assms] have c: "s \<in> set (allowed_transitions (bo_status b))"
    "bo_status c = s" "bo_request c = bo_request b" "bo_updated_at b \<le> bo_updated_at c"
    "bo_filled_quantity b \<le> bo_filled_quantity c" by auto
  have "\<not> status_terminal (bo_status b)" using c(1) terminal_no_transitions by fastforce
  with c post_submission_closed show ?thesis by (auto simp: order_advances_def)
qed

interpretation lifecycle: step_monotone lifecycle_step valid_order order_advances
proof
  fix b u assume "valid_order b"
  then show "valid_order (lifecycle_step b u)"
    by (auto simp: lifecycle_step_def split: sum.splits dest!: transition_InrD)
next
  fix b u
  show "order_advances b (lifecycle_step b u)"
    using transition_advances by (auto simp: lifecycle_step_def order_advances_def split: sum.splits)
next
  fix b c d assume "order_advances b c" "order_advances c d"
  then show "order_advances b d" by (auto simp: order_advances_def)
qed (simp add: order_advances_def)

section \<open>Properties\<close>

definition example_request :: broker_order_request where
  "example_request = \<lparr>req_client_order_id = ''c1'', req_owner_id = ''u1'', req_strategy_id = ''s1'',
     req_strategy_version = 1, req_symbol = ''TMF'', req_contract = ''TMFR1'', req_side = Buy,
     req_quantity = 2, req_mode = Live, req_order_type = Market, req_time_in_force = Ioc,
     req_limit_price = None, req_stop_price = None, req_reference_price = None,
     req_risk_stop_price = None, req_reduce_only = False, req_purpose = Entry, req_reason = ''r'',
     req_correlation_id = None, req_causation_id = None, req_source = ''unspecified'',
     req_arm_id = None\<rparr>"

definition example_order :: broker_order where
  "example_order = \<lparr>bo_request = example_request, bo_status = RISK_APPROVED, bo_updated_at = 10,
     bo_broker_order_id = None, bo_filled_quantity = 0, bo_average_fill_price = None,
     bo_status_reason = None\<rparr>"

text \<open>C2. Whatever sequence of updates an order receives, accepted or rejected, the
  order stays valid, keeps its request, its time and its filled quantity never run
  backwards, a terminal order never changes again, and an order that reached the broker
  never becomes submittable again.\<close>

theorem lifecycle_run_safe:
  assumes "valid_order b"
  shows "valid_order (run lifecycle_step b us) \<and> order_advances b (run lifecycle_step b us)"
  using lifecycle.run_inv [OF assms] lifecycle.run_rel [OF assms] by blast

theorem lifecycle_run_safe_witness:
  "valid_order (run lifecycle_step example_order
     [\<lparr>ou_status = SUBMITTING, ou_updated_at = 11, ou_broker_order_id = None, ou_filled = None,
        ou_average = None, ou_reason = None\<rparr>])
   \<and> order_advances example_order (run lifecycle_step example_order
     [\<lparr>ou_status = SUBMITTING, ou_updated_at = 11, ou_broker_order_id = None, ou_filled = None,
        ou_average = None, ou_reason = None\<rparr>])"
proof -
  have "valid_order example_order"
    by (simp add: valid_order_iff example_order_def example_request_def nonpositive_def)
  then show ?thesis by (rule lifecycle_run_safe)
qed

end
