(* ===== verification/Broker_Snapshot.thy ===== *)
theory Broker_Snapshot
  imports Order_Lifecycle
begin

text \<open>
  Broker truth as \<open>tw_quant/broker/reconciliation.py\<close> receives it: the order, fill and
  position snapshots with their validation, and the snapshot of one account.
\<close>

record order_snapshot =
  os_broker_order_id :: "string option"
  os_status :: broker_order_status
  os_filled :: int

definition order_snapshot_post_init :: "order_snapshot \<Rightarrow> order_snapshot res" where
  "order_snapshot_post_init x = (if os_filled x < 0
     then Inl (ValueError ''order filled_quantity cannot be negative'') else Inr x)"

record fill_snapshot =
  fs_fill_id :: string
  fs_broker_order_id :: string
  fs_contract :: string
  fs_side :: order_side
  fs_quantity :: int
  fs_price :: price
  fs_occurred_at :: instant

definition fill_snapshot_post_init :: "fill_snapshot \<Rightarrow> fill_snapshot res" where
  "fill_snapshot_post_init f = first_error
     [(fs_fill_id f = [] \<or> fs_broker_order_id f = [] \<or> fs_contract f = [],
        ValueError ''fill identity and contract are required''),
      (fs_quantity f < 1 \<or> fs_price f \<le> 0,
        ValueError ''fill quantity and price must be positive'')] f"

record position_snapshot =
  ps_contract :: string
  ps_quantity :: int

definition position_snapshot_post_init :: "position_snapshot \<Rightarrow> position_snapshot res" where
  "position_snapshot_post_init p = (if ps_contract p = []
     then Inl (ValueError ''position contract is required'') else Inr p)"

record reconciliation_snapshot =
  rs_broker_name :: string
  rs_account_id :: string
  rs_captured_at :: instant
  rs_orders :: "order_snapshot list"
  rs_fills :: "fill_snapshot list"
  rs_positions :: "position_snapshot list"

definition reconciliation_snapshot_post_init ::
  "reconciliation_snapshot \<Rightarrow> reconciliation_snapshot res" where
  "reconciliation_snapshot_post_init x = (if rs_broker_name x = [] \<or> rs_account_id x = []
     then Inl (ValueError ''snapshot broker and account are required'') else Inr x)"

definition snapshot_account_ref :: "reconciliation_snapshot \<Rightarrow> account_ref res" where
  "snapshot_account_ref x = mk_account_ref (rs_broker_name x) (rs_account_id x)"

definition signed_quantity :: "order_side \<Rightarrow> int \<Rightarrow> int" where
  "signed_quantity d q = (case d of Buy \<Rightarrow> q | Sell \<Rightarrow> - q)"

end
