(* ===== verification/Live_Outbox.thy ===== *)
theory Live_Outbox
  imports Broker_Snapshot
begin

text \<open>
  The durable order and outbox store of \<open>tw_quant/broker/repository.py\<close>: the rows of
  \<open>live_orders\<close>, the dispatch outbox \<open>live_order_outbox\<close>, the cancel outbox
  \<open>live_cancel_outbox\<close>, and the fill and position ledgers.  Every method is a function
  from the tables to its result and the tables it leaves.  JSON columns hold the value
  they encode; \<open>ORDER BY created_at LIMIT 1\<close> takes the oldest row, the earlier one
  among equals.  The two outboxes share a row type.  An instant is stored as the ISO
  text of a UTC time, whose order is the order of the instants.

  \<^bold>\<open>Transactions.\<close>  The store owns one connection.  A method that opens with
  \<open>BEGIN IMMEDIATE\<close> and raises before its commit without a rollback leaves the transaction
  open, and the next \<open>BEGIN\<close> on the connection raises: \<open>lr_in_txn\<close> is the connection's
  \<open>in_transaction\<close>.  The two restart loops have no \<open>BEGIN\<close>: they join the open transaction,
  if there is one, and commit it.  A new connection (\<open>Migrate\<close>) starts outside a transaction.
  The tables hold what is committed.  That is also what the connection reads, except after an
  error of \<open>reserve\<close>, of \<open>block_pending_dispatches\<close> or of \<open>recover_interrupted_dispatches\<close>
  behind a statement that had written: an outbox row without its order, or a stored order row
  that does not validate, which the store's own operations never leave.
\<close>

section \<open>Tables\<close>

record order_row =
  or_client_order_id :: string
  or_owner :: string
  or_broker_name :: "string option"
  or_account_id :: "string option"
  or_request :: broker_order_request
  or_status :: broker_order_status
  or_broker_order_id :: "string option"
  or_filled :: int
  or_average :: "price option"
  or_reason :: "string option"
  or_updated_at :: instant

datatype outbox_state = Pending | Processing | Completed | Blocked | Resolved

record outbox_row =
  ob_client_order_id :: string
  ob_broker_name :: "string option"
  ob_account_id :: "string option"
  ob_state :: outbox_state
  ob_attempts :: int
  ob_created_at :: instant
  ob_updated_at :: instant

record fill_row =
  fr_broker_name :: string
  fr_account_id :: string
  fr_fill_id :: string
  fr_owner :: string
  fr_broker_order_id :: string
  fr_contract :: string
  fr_side :: order_side
  fr_quantity :: int
  fr_price :: price
  fr_occurred_at :: instant

record position_row =
  pr_owner :: string
  pr_broker_name :: string
  pr_account_id :: string
  pr_contract :: string
  pr_quantity :: int
  pr_updated_at :: instant

record live_repo =
  lr_orders :: "order_row list"
  lr_outbox :: "outbox_row list"
  lr_cancels :: "outbox_row list"
  lr_fills :: "fill_row list"
  lr_positions :: "position_row list"
  lr_in_txn :: bool

definition empty_repo :: live_repo where
  "empty_repo = \<lparr>lr_orders = [], lr_outbox = [], lr_cancels = [], lr_fills = [], lr_positions = [],
    lr_in_txn = False\<rparr>"

text \<open>The constructor: a new connection, and the data step of \<open>_migrate\<close>, where open outbox
  rows without a target are blocked.\<close>

definition migrate_outbox :: "live_repo \<Rightarrow> live_repo" where
  "migrate_outbox s = s\<lparr>lr_in_txn := False, lr_outbox := tbl_update
     (\<lambda>r. ob_state r \<in> {Pending, Processing} \<and> (ob_broker_name r = None \<or> ob_account_id r = None))
     (\<lambda>r. r\<lparr>ob_state := Blocked\<rparr>) (lr_outbox s)\<rparr>"

section \<open>Transactions\<close>

definition begin_immediate :: "(live_repo, 'a) prog \<Rightarrow> (live_repo, 'a) prog" where
  "begin_immediate body s = (if lr_in_txn s
     then (Inl (OperationalError ''cannot start a transaction within a transaction''), s)
     else body s)"

text \<open>An exception that leaves the transaction open.\<close>

definition leave_open :: "err \<Rightarrow> (live_repo, 'a) prog" where
  "leave_open e s = (Inl e, s\<lparr>lr_in_txn := True\<rparr>)"

declare begin_immediate_def [simp] leave_open_def [simp]

section \<open>Reading rows\<close>

definition order_of_row :: "order_row \<Rightarrow> broker_order res" where
  "order_of_row r = (case request_post_init (or_request r) of Inl e \<Rightarrow> Inl e | Inr q \<Rightarrow>
     order_post_init \<lparr>bo_request = q, bo_status = or_status r, bo_updated_at = or_updated_at r,
       bo_broker_order_id = (if truthy (or_broker_order_id r) then or_broker_order_id r else None),
       bo_filled_quantity = or_filled r, bo_average_fill_price = or_average r,
       bo_status_reason = (if truthy (or_reason r) then or_reason r else None)\<rparr>)"

definition target_of_row :: "order_row \<Rightarrow> account_ref option res" where
  "target_of_row r = (case (or_broker_name r, or_account_id r) of
     (Some bn, Some acc) \<Rightarrow> (case mk_account_ref bn acc of Inl e \<Rightarrow> Inl e | Inr t \<Rightarrow> Inr (Some t))
   | _ \<Rightarrow> Inr None)"

definition at_target :: "account_ref \<Rightarrow> order_row \<Rightarrow> bool" where
  "at_target t r \<longleftrightarrow> or_broker_name r = Some (broker_name t) \<and> or_account_id r = Some (account_id t)"

definition ob_at_target :: "account_ref \<Rightarrow> outbox_row \<Rightarrow> bool" where
  "ob_at_target t r \<longleftrightarrow> ob_broker_name r = Some (broker_name t) \<and> ob_account_id r = Some (account_id t)"

definition repo_get :: "string \<Rightarrow> string \<Rightarrow> live_repo \<Rightarrow> broker_order option res" where
  "repo_get owner cid s =
     (case find (\<lambda>r. or_owner r = owner \<and> or_client_order_id r = cid) (lr_orders s) of
        None \<Rightarrow> Inr None
      | Some r \<Rightarrow> (case order_of_row r of Inl e \<Rightarrow> Inl e | Inr b \<Rightarrow> Inr (Some b)))"

definition get_routed :: "string \<Rightarrow> string \<Rightarrow> live_repo \<Rightarrow> routed_order option res" where
  "get_routed owner cid s =
     (case find (\<lambda>r. or_owner r = owner \<and> or_client_order_id r = cid) (lr_orders s) of
        None \<Rightarrow> Inr None
      | Some r \<Rightarrow> (case target_of_row r of Inl e \<Rightarrow> Inl e | Inr None \<Rightarrow> Inr None
          | Inr (Some t) \<Rightarrow> (case order_of_row r of Inl e \<Rightarrow> Inl e | Inr b \<Rightarrow>
             (case mk_routed_order t b of Inl e \<Rightarrow> Inl e | Inr ro \<Rightarrow> Inr (Some ro)))))"

definition get_by_broker_order_id ::
  "account_ref \<Rightarrow> string \<Rightarrow> live_repo \<Rightarrow> broker_order option res" where
  "get_by_broker_order_id t bid s =
     (if blank bid then Inl (ValueError ''broker_order_id is required'')
      else (case find (\<lambda>r. at_target t r \<and> or_broker_order_id r = Some bid) (lr_orders s) of
        None \<Rightarrow> Inr None
      | Some r \<Rightarrow> (case order_of_row r of Inl e \<Rightarrow> Inl e | Inr b \<Rightarrow> Inr (Some b))))"

text \<open>\<open>ORDER BY updated_at, client_order_id\<close>.\<close>

definition by_updated :: "order_row list \<Rightarrow> order_row list" where
  "by_updated rs = sort_key or_updated_at (sort_key or_client_order_id rs)"

definition repo_orders :: "string option \<Rightarrow> account_ref option \<Rightarrow> live_repo \<Rightarrow> broker_order list res" where
  "repo_orders owner t s = mapM order_of_row (by_updated (filter
     (\<lambda>r. (case owner of None \<Rightarrow> True | Some u \<Rightarrow> or_owner r = u) \<and>
          (case t of None \<Rightarrow> True | Some a \<Rightarrow> at_target a r)) (lr_orders s)))"

definition reconciliation_candidates ::
  "account_ref \<Rightarrow> string option \<Rightarrow> live_repo \<Rightarrow> broker_order list res" where
  "reconciliation_candidates t owner s = mapM order_of_row (by_updated (filter
     (\<lambda>r. or_status r \<in> {SUBMITTING, ACCEPTED, PARTIALLY_FILLED, CANCEL_PENDING, UNKNOWN} \<and>
          at_target t r \<and> (case owner of None \<Rightarrow> True | Some u \<Rightarrow> or_owner r = u)) (lr_orders s)))"

definition find_outbox :: "string \<Rightarrow> outbox_row list \<Rightarrow> outbox_row option" where
  "find_outbox cid obs = find (\<lambda>r. ob_client_order_id r = cid) obs"

definition outbox_state_of :: "string \<Rightarrow> live_repo \<Rightarrow> outbox_state option" where
  "outbox_state_of cid s = map_option ob_state (find_outbox cid (lr_outbox s))"

definition cancel_outbox_state_of :: "string \<Rightarrow> live_repo \<Rightarrow> outbox_state option" where
  "cancel_outbox_state_of cid s = map_option ob_state (find_outbox cid (lr_cancels s))"

section \<open>Writing orders\<close>

text \<open>The partial unique index on (broker, account, broker order id), checked by every
  update that writes a broker order id.\<close>

definition unique_conflict :: "broker_order \<Rightarrow> order_row \<Rightarrow> order_row list \<Rightarrow> bool" where
  "unique_conflict b r rs \<longleftrightarrow> bo_broker_order_id b \<noteq> None \<and> or_broker_name r \<noteq> None
     \<and> or_account_id r \<noteq> None
     \<and> (\<exists>q \<in> set rs. or_client_order_id q \<noteq> or_client_order_id r
          \<and> or_broker_name q = or_broker_name r \<and> or_account_id q = or_account_id r
          \<and> or_broker_order_id q = bo_broker_order_id b)"

definition write_order :: "broker_order \<Rightarrow> order_row \<Rightarrow> order_row" where
  "write_order b r = r\<lparr>or_status := bo_status b, or_broker_order_id := bo_broker_order_id b,
     or_filled := bo_filled_quantity b, or_average := bo_average_fill_price b,
     or_reason := bo_status_reason b, or_updated_at := bo_updated_at b\<rparr>"

definition row_of_order :: "broker_order \<Rightarrow> order_row \<Rightarrow> bool" where
  "row_of_order b r \<longleftrightarrow> or_client_order_id r = req_client_order_id (bo_request b)
     \<and> or_owner r = req_owner_id (bo_request b)"

definition update_order :: "broker_order \<Rightarrow> live_repo \<Rightarrow> live_repo res" where
  "update_order b s =
     (if \<exists>r \<in> set (lr_orders s). row_of_order b r \<and> unique_conflict b r (lr_orders s)
      then Inl (IntegrityError ''UNIQUE constraint failed'')
      else Inr (s\<lparr>lr_orders := tbl_update (row_of_order b) (write_order b) (lr_orders s)\<rparr>))"

definition set_outbox :: "string \<Rightarrow> (outbox_row \<Rightarrow> outbox_row) \<Rightarrow> live_repo \<Rightarrow> live_repo" where
  "set_outbox cid f s = s\<lparr>lr_outbox := tbl_update (\<lambda>r. ob_client_order_id r = cid) f (lr_outbox s)\<rparr>"

definition set_cancel :: "string \<Rightarrow> (outbox_row \<Rightarrow> outbox_row) \<Rightarrow> live_repo \<Rightarrow> live_repo" where
  "set_cancel cid f s = s\<lparr>lr_cancels := tbl_update (\<lambda>r. ob_client_order_id r = cid) f (lr_cancels s)\<rparr>"

definition settle :: "outbox_state \<Rightarrow> instant \<Rightarrow> outbox_row \<Rightarrow> outbox_row" where
  "settle st t r = r\<lparr>ob_state := st, ob_updated_at := t\<rparr>"

definition start_attempt :: "instant \<Rightarrow> outbox_row \<Rightarrow> outbox_row" where
  "start_attempt t r = r\<lparr>ob_state := Processing, ob_attempts := ob_attempts r + 1, ob_updated_at := t\<rparr>"

section \<open>The dispatch outbox\<close>

definition new_order_row :: "routed_request \<Rightarrow> instant \<Rightarrow> order_row" where
  "new_order_row rq now = \<lparr>or_client_order_id = req_client_order_id (rq_request rq),
     or_owner = req_owner_id (rq_request rq), or_broker_name = Some (broker_name (rq_target rq)),
     or_account_id = Some (account_id (rq_target rq)), or_request = rq_request rq,
     or_status = RISK_APPROVED, or_broker_order_id = None, or_filled = 0, or_average = None,
     or_reason = Some ''durably_reserved'', or_updated_at = now\<rparr>"

definition new_outbox_row :: "string \<Rightarrow> account_ref \<Rightarrow> instant \<Rightarrow> outbox_row" where
  "new_outbox_row cid t now = \<lparr>ob_client_order_id = cid, ob_broker_name = Some (broker_name t),
     ob_account_id = Some (account_id t), ob_state = Pending, ob_attempts = 0,
     ob_created_at = now, ob_updated_at = now\<rparr>"

definition reserve_insert :: "routed_request \<Rightarrow> instant \<Rightarrow> live_repo \<Rightarrow> live_repo" where
  "reserve_insert rq now s = s\<lparr>lr_orders := lr_orders s @ [new_order_row rq now],
     lr_outbox := lr_outbox s @
       [new_outbox_row (req_client_order_id (rq_request rq)) (rq_target rq) now]\<rparr>"

text \<open>An existing order row without its outbox row cannot be the case of a store built by
  \<open>reserve\<close>: the primary key of the outbox is then free and the insert succeeds.\<close>

definition reserve :: "routed_request \<Rightarrow> instant \<Rightarrow> (live_repo, broker_order \<times> bool) prog" where
  "reserve rq now s =
     (let q = rq_request rq; cid = req_client_order_id q in
      if req_mode q \<noteq> Live
        then (Inl (ValueError ''live order repository only accepts live orders''), s)
      else case order_post_init \<lparr>bo_request = q, bo_status = RISK_APPROVED, bo_updated_at = now,
          bo_broker_order_id = None, bo_filled_quantity = 0, bo_average_fill_price = None,
          bo_status_reason = Some ''durably_reserved''\<rparr> of Inl e \<Rightarrow> (Inl e, s)
      | Inr _ \<Rightarrow> begin_immediate (\<lambda>s.
       (let created = (find (\<lambda>r. or_client_order_id r = cid) (lr_orders s) = None) in
        if created \<and> find_outbox cid (lr_outbox s) \<noteq> None
          then leave_open (IntegrityError ''UNIQUE constraint failed'') s
        else let s' = (if created then reserve_insert rq now s else s) in
        case find (\<lambda>r. or_client_order_id r = cid) (lr_orders s') of
          None \<Rightarrow> (Inl AssertionError, s')
        | Some row \<Rightarrow> (case order_of_row row of Inl e \<Rightarrow> (Inl e, s')
          | Inr existing \<Rightarrow>
            if req_owner_id (bo_request existing) \<noteq> req_owner_id q
              then (Inl (ValueError ''client_order_id already belongs to another owner''), s')
            else case target_of_row row of Inl e \<Rightarrow> (Inl e, s')
            | Inr t \<Rightarrow> if t \<noteq> Some (rq_target rq)
                then (Inl (ValueError ''client_order_id already belongs to another target''), s')
                else (Inr (existing, created), s')))) s)"

definition claim_candidates :: "account_ref \<Rightarrow> live_repo \<Rightarrow> (outbox_row \<times> order_row) list" where
  "claim_candidates t s = filter (\<lambda>(ob, r). ob_state ob = Pending \<and> ob_at_target t ob \<and>
       or_client_order_id r = ob_client_order_id ob \<and>
       or_broker_name r = ob_broker_name ob \<and> or_account_id r = ob_account_id ob)
     (List.product (lr_outbox s) (lr_orders s))"

definition routed_of_row :: "order_row \<Rightarrow> routed_order res" where
  "routed_of_row r = (case target_of_row r of Inl e \<Rightarrow> Inl e | Inr None \<Rightarrow> Inl AssertionError
     | Inr (Some t) \<Rightarrow> (case order_of_row r of Inl e \<Rightarrow> Inl e | Inr b \<Rightarrow> mk_routed_order t b))"

definition claim_next :: "account_ref \<Rightarrow> instant \<Rightarrow> (live_repo, routed_order option) prog" where
  "claim_next t now = begin_immediate (\<lambda>s.
     (case first_by (ob_created_at \<circ> fst) (claim_candidates t s) of
        None \<Rightarrow> (Inr None, s)
      | Some (ob, r) \<Rightarrow>
          (let s' = set_outbox (or_client_order_id r) (start_attempt now) s in
           case routed_of_row r of Inl e \<Rightarrow> (Inl e, s') | Inr ro \<Rightarrow> (Inr (Some ro), s'))))"

definition finish_dispatch :: "broker_order \<Rightarrow> (live_repo, unit) prog" where
  "finish_dispatch b = begin_immediate (\<lambda>s. case update_order b s of Inl e \<Rightarrow> leave_open e s
     | Inr s' \<Rightarrow> (Inr (), set_outbox (req_client_order_id (bo_request b))
         (settle (if bo_status b = UNKNOWN then Blocked else Completed) (bo_updated_at b)) s'))"

definition block_dispatch :: "broker_order \<Rightarrow> string \<Rightarrow> instant \<Rightarrow> (live_repo, unit) prog" where
  "block_dispatch b why now = begin_immediate (\<lambda>s.
     case update_order (b\<lparr>bo_status_reason := Some why, bo_updated_at := now\<rparr>) s of
        Inl e \<Rightarrow> leave_open e s
      | Inr s' \<Rightarrow> (Inr (), set_outbox (req_client_order_id (bo_request b)) (settle Blocked now) s'))"

text \<open>Rows of the joined tables in outbox order, as the two restart routines read them.\<close>

definition joined_rows :: "(outbox_row \<Rightarrow> bool) \<Rightarrow> outbox_row list \<Rightarrow> order_row list \<Rightarrow> order_row list" where
  "joined_rows p obs rs = map snd (filter (\<lambda>(ob, r). p ob \<and> or_client_order_id r = ob_client_order_id ob)
     (List.product obs rs))"

definition block_row :: "string \<Rightarrow> instant \<Rightarrow> order_row \<Rightarrow> live_repo \<Rightarrow> live_repo res" where
  "block_row why now r s = (case order_of_row r of Inl e \<Rightarrow> Inl e
     | Inr b \<Rightarrow> update_order (b\<lparr>bo_status_reason := Some why, bo_updated_at := now\<rparr>) s)"

definition block_pending_dispatches ::
  "account_ref \<Rightarrow> string \<Rightarrow> instant \<Rightarrow> (live_repo, nat) prog" where
  "block_pending_dispatches t why now s =
     (let open_ob = (\<lambda>ob. ob_state ob = Pending \<and> ob_at_target t ob);
          rows = joined_rows open_ob (lr_outbox s) (lr_orders s);
          cancel_rows = joined_rows open_ob (lr_cancels s) (lr_orders s) in
      case foldM (block_row why now) (rows @ cancel_rows) s of Inl e \<Rightarrow> leave_open e s
      | Inr s' \<Rightarrow> (Inr (length rows + length cancel_rows),
          s'\<lparr>lr_in_txn := False, lr_outbox := tbl_update open_ob (settle Blocked now) (lr_outbox s'),
             lr_cancels := tbl_update open_ob (settle Blocked now) (lr_cancels s')\<rparr>))"

section \<open>The cancel outbox\<close>

definition reserve_cancel ::
  "account_ref \<Rightarrow> string \<Rightarrow> string \<Rightarrow> instant \<Rightarrow> (live_repo, broker_order \<times> bool) prog" where
  "reserve_cancel t owner cid now = begin_immediate (\<lambda>s.
     case find (\<lambda>r. or_owner r = owner \<and> or_client_order_id r = cid \<and> at_target t r) (lr_orders s) of
        None \<Rightarrow> (Inl (KeyError ''unknown platform live order''), s)
      | Some row \<Rightarrow> (case order_of_row row of Inl e \<Rightarrow> leave_open e s
        | Inr b \<Rightarrow>
          if status_terminal (bo_status b) then (Inr (b, False), s)
          else if \<not> truthy (bo_broker_order_id b)
            then (Inl (RuntimeError ''live_order_requires_reconciliation_before_cancel''), s)
          else if find_outbox cid (lr_cancels s) \<noteq> None then (Inr (b, False), s)
          else case transition_order b CANCEL_PENDING (max now (bo_updated_at b)) None None None
              (Some ''cancel_durably_reserved'') of Inl e \<Rightarrow> leave_open e s
          | Inr pending \<Rightarrow> (case update_order pending s of Inl e \<Rightarrow> leave_open e s
            | Inr s' \<Rightarrow> (Inr (pending, True),
                s'\<lparr>lr_cancels := lr_cancels s' @ [new_outbox_row cid t now]\<rparr>))))"

definition cancel_candidates :: "account_ref \<Rightarrow> live_repo \<Rightarrow> (outbox_row \<times> order_row) list" where
  "cancel_candidates t s = filter (\<lambda>(ob, r). ob_state ob = Pending \<and> ob_at_target t ob \<and>
       or_client_order_id r = ob_client_order_id ob)
     (List.product (lr_cancels s) (lr_orders s))"

definition claim_next_cancel :: "account_ref \<Rightarrow> instant \<Rightarrow> (live_repo, routed_order option) prog" where
  "claim_next_cancel t now = begin_immediate (\<lambda>s.
     (case first_by (ob_created_at \<circ> fst) (cancel_candidates t s) of
        None \<Rightarrow> (Inr None, s)
      | Some (ob, r) \<Rightarrow>
          (let s' = set_cancel (or_client_order_id r) (start_attempt now) s in
           case routed_of_row r of Inl e \<Rightarrow> (Inl e, s') | Inr ro \<Rightarrow> (Inr (Some ro), s'))))"

definition finish_cancel :: "broker_order \<Rightarrow> (live_repo, unit) prog" where
  "finish_cancel b = begin_immediate (\<lambda>s. case update_order b s of Inl e \<Rightarrow> leave_open e s
     | Inr s' \<Rightarrow> (Inr (), set_cancel (req_client_order_id (bo_request b))
         (settle (if bo_status b = UNKNOWN then Blocked else Completed) (bo_updated_at b)) s'))"

definition block_cancel :: "broker_order \<Rightarrow> string \<Rightarrow> instant \<Rightarrow> (live_repo, unit) prog" where
  "block_cancel b why now = begin_immediate (\<lambda>s.
     case update_order (b\<lparr>bo_status_reason := Some why, bo_updated_at := now\<rparr>) s of
        Inl e \<Rightarrow> leave_open e s
      | Inr s' \<Rightarrow> (Inr (), set_cancel (req_client_order_id (bo_request b)) (settle Blocked now) s'))"

section \<open>Reconciliation and restart\<close>

definition save_reconciliation :: "broker_order \<Rightarrow> (live_repo, unit) prog" where
  "save_reconciliation b = begin_immediate (\<lambda>s. case update_order b s of Inl e \<Rightarrow> leave_open e s
     | Inr s' \<Rightarrow> (Inr (), if bo_status b = UNKNOWN then s' else
         s'\<lparr>lr_outbox := tbl_update (\<lambda>r. ob_client_order_id r = req_client_order_id (bo_request b)
              \<and> ob_state r = Blocked) (settle Resolved (bo_updated_at b)) (lr_outbox s')\<rparr>))"

definition interrupted_order :: "instant \<Rightarrow> broker_order \<Rightarrow> broker_order" where
  "interrupted_order now b = b\<lparr>bo_status := UNKNOWN, bo_updated_at := now,
     bo_status_reason := Some ''dispatch_interrupted_reconciliation_required''\<rparr>"

definition interrupt_row ::
  "(string \<Rightarrow> (outbox_row \<Rightarrow> outbox_row) \<Rightarrow> live_repo \<Rightarrow> live_repo) \<Rightarrow> instant \<Rightarrow> order_row
     \<Rightarrow> live_repo \<Rightarrow> live_repo res" where
  "interrupt_row set_table now r s = (case order_of_row r of Inl e \<Rightarrow> Inl e
     | Inr b \<Rightarrow> (case order_post_init (interrupted_order now b) of Inl e \<Rightarrow> Inl e
       | Inr u \<Rightarrow> (case update_order u s of Inl e \<Rightarrow> Inl e
         | Inr s' \<Rightarrow> Inr (set_table (req_client_order_id (bo_request b)) (settle Blocked now) s'))))"

definition recover_interrupted_dispatches :: "instant \<Rightarrow> (live_repo, nat) prog" where
  "recover_interrupted_dispatches now s =
     (let busy = (\<lambda>ob. ob_state ob = Processing);
          rows = joined_rows busy (lr_outbox s) (lr_orders s);
          cancel_rows = joined_rows busy (lr_cancels s) (lr_orders s) in
      case foldM (interrupt_row set_outbox now) rows s of Inl e \<Rightarrow> leave_open e s
      | Inr s1 \<Rightarrow> (case foldM (interrupt_row set_cancel now) cancel_rows s1 of Inl e \<Rightarrow> leave_open e s
        | Inr s2 \<Rightarrow> (Inr (length rows + length cancel_rows), s2\<lparr>lr_in_txn := False\<rparr>)))"

section \<open>Fills and positions\<close>

definition fill_row_of :: "account_ref \<Rightarrow> order_row \<Rightarrow> fill_snapshot \<Rightarrow> fill_row" where
  "fill_row_of t r f = \<lparr>fr_broker_name = broker_name t, fr_account_id = account_id t,
     fr_fill_id = fs_fill_id f, fr_owner = or_owner r, fr_broker_order_id = fs_broker_order_id f,
     fr_contract = fs_contract f, fr_side = fs_side f, fr_quantity = fs_quantity f,
     fr_price = fs_price f, fr_occurred_at = fs_occurred_at f\<rparr>"

definition fill_key :: "fill_row \<Rightarrow> string \<times> string \<times> string" where
  "fill_key f = (fr_broker_name f, fr_account_id f, fr_fill_id f)"

definition insert_fill :: "account_ref \<Rightarrow> order_row list \<Rightarrow> fill_snapshot \<Rightarrow> fill_row list
    \<Rightarrow> fill_row list res" where
  "insert_fill t rs f fills =
     (case find (\<lambda>r. at_target t r \<and> or_broker_order_id r = Some (fs_broker_order_id f)) rs of
        None \<Rightarrow> Inl (RuntimeError ''orphan_broker_fill'')
      | Some r \<Rightarrow> (let row = fill_row_of t r f in
          Inr (if fill_key row \<in> fill_key ` set fills then fills else fills @ [row])))"

definition fill_at :: "account_ref \<Rightarrow> fill_row \<Rightarrow> bool" where
  "fill_at t f \<longleftrightarrow> fr_broker_name f = broker_name t \<and> fr_account_id f = account_id t"

definition fills_total :: "account_ref \<Rightarrow> string \<Rightarrow> string \<Rightarrow> fill_row list \<Rightarrow> int" where
  "fills_total t owner c fills = sum_list (map (\<lambda>f. signed_quantity (fr_side f) (fr_quantity f))
     (filter (\<lambda>f. fr_owner f = owner \<and> fill_at t f \<and> fr_contract f = c) fills))"

definition position_at :: "account_ref \<Rightarrow> string \<Rightarrow> string \<Rightarrow> position_row \<Rightarrow> bool" where
  "position_at t owner c p \<longleftrightarrow> pr_owner p = owner \<and> pr_broker_name p = broker_name t
     \<and> pr_account_id p = account_id t \<and> pr_contract p = c"

definition upsert_position :: "account_ref \<Rightarrow> instant \<Rightarrow> fill_row list \<Rightarrow> string \<times> string
    \<Rightarrow> position_row list \<Rightarrow> position_row list" where
  "upsert_position t now fills k ps = (case k of (owner, c) \<Rightarrow>
     (let total = fills_total t owner c fills in
      if \<exists>p \<in> set ps. position_at t owner c p
      then tbl_update (position_at t owner c) (\<lambda>p. p\<lparr>pr_quantity := total, pr_updated_at := now\<rparr>) ps
      else ps @ [\<lparr>pr_owner = owner, pr_broker_name = broker_name t, pr_account_id = account_id t,
             pr_contract = c, pr_quantity = total, pr_updated_at = now\<rparr>]))"

definition apply_reconciled_snapshot ::
  "account_ref \<Rightarrow> reconciliation_snapshot \<Rightarrow> (live_repo, unit) prog" where
  "apply_reconciled_snapshot t snap s =
     (case snapshot_account_ref snap of Inl e \<Rightarrow> (Inl e, s)
      | Inr a \<Rightarrow>
        if a \<noteq> t then (Inl (ValueError ''broker snapshot target mismatch''), s)
        else begin_immediate (\<lambda>s.
          case foldM (insert_fill t (lr_orders s)) (rs_fills snap) (lr_fills s) of
          Inl e \<Rightarrow> (Inl e, s)
        | Inr fills \<Rightarrow>
          (let keys = remdups (map (\<lambda>f. (fr_owner f, fr_contract f)) (filter (fill_at t) fills)) in
           (Inr (), s\<lparr>lr_fills := fills,
              lr_positions := fold (upsert_position t (rs_captured_at snap) fills) keys
                (lr_positions s)\<rparr>))) s)"

definition live_positions :: "string \<Rightarrow> account_ref \<Rightarrow> live_repo \<Rightarrow> (string \<times> int \<times> instant) list" where
  "live_positions owner t s = map (\<lambda>p. (pr_contract p, pr_quantity p, pr_updated_at p))
     (sort_key pr_contract (filter (\<lambda>p. pr_owner p = owner \<and> pr_broker_name p = broker_name t
        \<and> pr_account_id p = account_id t) (lr_positions s)))"

section \<open>Operations\<close>

datatype repo_op =
    Reserve routed_request instant
  | ClaimNext account_ref instant
  | FinishDispatch broker_order
  | BlockDispatch broker_order string instant
  | BlockPending account_ref string instant
  | ReserveCancel account_ref string string instant
  | ClaimNextCancel account_ref instant
  | FinishCancel broker_order
  | BlockCancel broker_order string instant
  | SaveReconciliation broker_order
  | ApplySnapshot account_ref reconciliation_snapshot
  | RecoverInterrupted instant
  | Migrate

fun repo_step :: "live_repo \<Rightarrow> repo_op \<Rightarrow> live_repo" where
  "repo_step s (Reserve rq now) = snd (reserve rq now s)"
| "repo_step s (ClaimNext t now) = snd (claim_next t now s)"
| "repo_step s (FinishDispatch b) = snd (finish_dispatch b s)"
| "repo_step s (BlockDispatch b why now) = snd (block_dispatch b why now s)"
| "repo_step s (BlockPending t why now) = snd (block_pending_dispatches t why now s)"
| "repo_step s (ReserveCancel t owner cid now) = snd (reserve_cancel t owner cid now s)"
| "repo_step s (ClaimNextCancel t now) = snd (claim_next_cancel t now s)"
| "repo_step s (FinishCancel b) = snd (finish_cancel b s)"
| "repo_step s (BlockCancel b why now) = snd (block_cancel b why now s)"
| "repo_step s (SaveReconciliation b) = snd (save_reconciliation b s)"
| "repo_step s (ApplySnapshot t snap) = snd (apply_reconciled_snapshot t snap s)"
| "repo_step s (RecoverInterrupted now) = snd (recover_interrupted_dispatches now s)"
| "repo_step s Migrate = migrate_outbox s"

text \<open>The order handed out by a claim: what is submitted to, or cancelled at, the broker.\<close>

definition handed_out :: "routed_order option res \<Rightarrow> string option" where
  "handed_out r = (case r of Inr (Some ro) \<Rightarrow> Some (req_client_order_id (bo_request (ro_order ro)))
     | _ \<Rightarrow> None)"

fun dispatched :: "live_repo \<Rightarrow> repo_op \<Rightarrow> string option" where
  "dispatched s (ClaimNext t now) = handed_out (fst (claim_next t now s))"
| "dispatched s _ = None"

fun cancel_dispatched :: "live_repo \<Rightarrow> repo_op \<Rightarrow> string option" where
  "cancel_dispatched s (ClaimNextCancel t now) = handed_out (fst (claim_next_cancel t now s))"
| "cancel_dispatched s _ = None"

end
