(* ===== verification/Outbox_Safety.thy ===== *)
theory Outbox_Safety
  imports Live_Outbox
begin

text \<open>
  What the durable store of \<open>repository.py\<close> guarantees over every sequence of its
  operations: an order is handed to the broker at most once, a cancel request too, the
  attempt counters agree, and a restart never puts interrupted work back in the queue.
\<close>

section \<open>How one operation moves an outbox\<close>

definition known_in :: "outbox_row list \<Rightarrow> string \<Rightarrow> bool" where
  "known_in obs k \<longleftrightarrow> k \<in> ob_client_order_id ` set obs"

definition open_in :: "outbox_row list \<Rightarrow> string \<Rightarrow> bool" where
  "open_in obs k \<longleftrightarrow> (\<exists>r \<in> set obs. ob_client_order_id r = k \<and> ob_state r = Pending)"

definition ob_le :: "outbox_row list \<Rightarrow> outbox_row list \<Rightarrow> bool" where
  "ob_le obs obs' \<longleftrightarrow> (\<forall>k. known_in obs k \<longrightarrow> known_in obs' k \<and> (open_in obs' k \<longrightarrow> open_in obs k))"

lemma ob_le_refl [simp]: "ob_le obs obs"
  by (simp add: ob_le_def)

lemma ob_le_trans: "ob_le a b \<Longrightarrow> ob_le b c \<Longrightarrow> ob_le a c"
  by (auto simp: ob_le_def)

lemma ob_leD: "ob_le a b \<Longrightarrow> known_in a k \<Longrightarrow> known_in b k"
    "ob_le a b \<Longrightarrow> known_in a k \<Longrightarrow> open_in b k \<Longrightarrow> open_in a k"
  by (auto simp: ob_le_def)

lemma open_in_known: "open_in obs k \<Longrightarrow> known_in obs k"
  by (auto simp: open_in_def known_in_def)

lemma ob_le_append [simp]: "\<not> known_in obs (ob_client_order_id r) \<Longrightarrow> ob_le obs (obs @ [r])"
  by (auto simp: ob_le_def known_in_def open_in_def)

definition closing :: "(outbox_row \<Rightarrow> outbox_row) \<Rightarrow> bool" where
  "closing f \<longleftrightarrow> (\<forall>r. ob_client_order_id (f r) = ob_client_order_id r \<and> ob_state (f r) \<noteq> Pending)"

lemma closing_settle [simp]: "closing (settle st t) \<longleftrightarrow> st \<noteq> Pending"
  by (simp add: closing_def settle_def)

lemma closing_attempt [simp]: "closing (start_attempt t)"
  by (simp add: closing_def start_attempt_def)

lemma ob_le_update [simp]: "closing f \<Longrightarrow> ob_le obs (tbl_update p f obs)"
  unfolding ob_le_def known_in_def open_in_def closing_def set_tbl_update image_image
  by (auto split: if_splits simp: image_iff)

lemma ob_le_update_trans: "ob_le a b \<Longrightarrow> closing f \<Longrightarrow> ob_le a (tbl_update p f b)"
  by (blast intro: ob_le_trans ob_le_update)

lemma closed_by_update: "closing f \<Longrightarrow> \<not> open_in (tbl_update (\<lambda>r. ob_client_order_id r = k) f obs) k"
  by (auto simp: open_in_def closing_def set_tbl_update)

lemma find_outbox_None: "find_outbox k obs = None \<longleftrightarrow> \<not> known_in obs k"
  by (auto simp: find_outbox_def known_in_def find_None_iff)

section \<open>Frames\<close>

lemma update_orderD:
  assumes "update_order b s = Inr s'"
  shows "s' = s\<lparr>lr_orders := tbl_update (row_of_order b) (write_order b) (lr_orders s)\<rparr>"
  using assms by (auto simp: update_order_def split: if_splits)

lemma foldM_block_row_frame:
  assumes "foldM (block_row why now) rs s = Inr s'"
  shows "lr_outbox s' = lr_outbox s \<and> lr_cancels s' = lr_cancels s \<and> lr_fills s' = lr_fills s"
  using assms
  by (rule foldM_inv) (auto simp: block_row_def split: sum.splits dest!: update_orderD)

lemma foldM_interrupt_outbox:
  assumes "foldM (interrupt_row set_outbox now) rs s = Inr s'"
  shows "ob_le (lr_outbox s) (lr_outbox s') \<and> lr_cancels s' = lr_cancels s"
  using assms
proof (rule foldM_inv)
  fix r u u'
  assume "interrupt_row set_outbox now r u = Inr u'"
    and "ob_le (lr_outbox s) (lr_outbox u) \<and> lr_cancels u = lr_cancels s"
  then show "ob_le (lr_outbox s) (lr_outbox u') \<and> lr_cancels u' = lr_cancels s"
    by (auto simp: interrupt_row_def set_outbox_def split: sum.splits dest!: update_orderD
        intro!: ob_le_update_trans)
qed simp

lemma foldM_interrupt_cancel:
  assumes "foldM (interrupt_row set_cancel now) rs s = Inr s'"
  shows "ob_le (lr_cancels s) (lr_cancels s') \<and> lr_outbox s' = lr_outbox s"
  using assms
proof (rule foldM_inv)
  fix r u u'
  assume "interrupt_row set_cancel now r u = Inr u'"
    and "ob_le (lr_cancels s) (lr_cancels u) \<and> lr_outbox u = lr_outbox s"
  then show "ob_le (lr_cancels s) (lr_cancels u') \<and> lr_outbox u' = lr_outbox s"
    by (auto simp: interrupt_row_def set_cancel_def split: sum.splits dest!: update_orderD
        intro!: ob_le_update_trans)
qed simp

lemma reserve_tables:
  "snd (reserve rq now s) \<in> {s, s\<lparr>lr_in_txn := True\<rparr>} \<or>
   (snd (reserve rq now s) = reserve_insert rq now s
     \<and> find (\<lambda>r. or_client_order_id r = req_client_order_id (rq_request rq)) (lr_orders s) = None
     \<and> \<not> known_in (lr_outbox s) (req_client_order_id (rq_request rq)))"
  by (auto simp: reserve_def Let_def find_outbox_None split: sum.splits option.splits if_splits)

lemma repo_step_outbox: "ob_le (lr_outbox s) (lr_outbox (repo_step s x))"
proof (cases x)
  case (Reserve rq now)
  then show ?thesis using reserve_tables [of rq now s]
    by (auto simp: reserve_insert_def new_outbox_row_def ob_le_append)
next
  case (ClaimNext t now)
  then show ?thesis
    by (auto simp: claim_next_def set_outbox_def Let_def split: option.splits sum.splits)
next
  case (FinishDispatch b)
  then show ?thesis
    by (auto simp: finish_dispatch_def set_outbox_def split: sum.splits dest!: update_orderD)
next
  case (BlockDispatch b why now)
  then show ?thesis
    by (auto simp: block_dispatch_def set_outbox_def split: sum.splits dest!: update_orderD)
next
  case (BlockPending t why now)
  then show ?thesis
    by (auto simp: block_pending_dispatches_def Let_def split: sum.splits
        dest!: foldM_block_row_frame)
next
  case (ReserveCancel t owner cid now)
  then show ?thesis
    by (auto simp: reserve_cancel_def split: sum.splits option.splits dest!: update_orderD)
next
  case (ClaimNextCancel t now)
  then show ?thesis
    by (auto simp: claim_next_cancel_def set_cancel_def Let_def split: option.splits sum.splits)
next
  case (FinishCancel b)
  then show ?thesis
    by (auto simp: finish_cancel_def set_cancel_def split: sum.splits dest!: update_orderD)
next
  case (BlockCancel b why now)
  then show ?thesis
    by (auto simp: block_cancel_def set_cancel_def split: sum.splits dest!: update_orderD)
next
  case (SaveReconciliation b)
  then show ?thesis
    by (auto simp: save_reconciliation_def split: sum.splits dest!: update_orderD)
next
  case (ApplySnapshot t snap)
  then show ?thesis
    by (auto simp: apply_reconciled_snapshot_def Let_def split: sum.splits)
next
  case (RecoverInterrupted now)
  then show ?thesis
    by (auto simp: recover_interrupted_dispatches_def Let_def split: sum.splits
        dest!: foldM_interrupt_outbox foldM_interrupt_cancel)
next
  case Migrate
  then show ?thesis
    by (auto simp: migrate_outbox_def closing_def)
qed

lemma repo_step_cancels: "ob_le (lr_cancels s) (lr_cancels (repo_step s x))"
proof (cases x)
  case (Reserve rq now)
  then show ?thesis using reserve_tables [of rq now s] by (auto simp: reserve_insert_def)
next
  case (ClaimNext t now)
  then show ?thesis
    by (auto simp: claim_next_def set_outbox_def Let_def split: option.splits sum.splits)
next
  case (FinishDispatch b)
  then show ?thesis
    by (auto simp: finish_dispatch_def set_outbox_def split: sum.splits dest!: update_orderD)
next
  case (BlockDispatch b why now)
  then show ?thesis
    by (auto simp: block_dispatch_def set_outbox_def split: sum.splits dest!: update_orderD)
next
  case (BlockPending t why now)
  then show ?thesis
    by (auto simp: block_pending_dispatches_def Let_def split: sum.splits
        dest!: foldM_block_row_frame)
next
  case (ReserveCancel t owner cid now)
  then show ?thesis
    by (auto simp: reserve_cancel_def find_outbox_None new_outbox_row_def ob_le_append
        split: sum.splits option.splits dest!: update_orderD)
next
  case (ClaimNextCancel t now)
  then show ?thesis
    by (auto simp: claim_next_cancel_def set_cancel_def Let_def split: option.splits sum.splits)
next
  case (FinishCancel b)
  then show ?thesis
    by (auto simp: finish_cancel_def set_cancel_def split: sum.splits dest!: update_orderD)
next
  case (BlockCancel b why now)
  then show ?thesis
    by (auto simp: block_cancel_def set_cancel_def split: sum.splits dest!: update_orderD)
next
  case (SaveReconciliation b)
  then show ?thesis
    by (auto simp: save_reconciliation_def split: sum.splits dest!: update_orderD)
next
  case (ApplySnapshot t snap)
  then show ?thesis
    by (auto simp: apply_reconciled_snapshot_def Let_def split: sum.splits)
next
  case (RecoverInterrupted now)
  then show ?thesis
    by (auto simp: recover_interrupted_dispatches_def Let_def split: sum.splits
        dest!: foldM_interrupt_outbox foldM_interrupt_cancel)
next
  case Migrate
  then show ?thesis by (simp add: migrate_outbox_def)
qed

section \<open>Rows and their requests\<close>

definition rows_ok :: "live_repo \<Rightarrow> bool" where
  "rows_ok s \<longleftrightarrow> distinct (map or_client_order_id (lr_orders s)) \<and>
     (\<forall>r \<in> set (lr_orders s). or_client_order_id r = req_client_order_id (or_request r)
        \<and> or_owner r = req_owner_id (or_request r))"

text \<open>What an operation never changes of an order row: its keys, its request and its target.\<close>

definition row_identity :: "order_row \<Rightarrow> string \<times> string \<times> broker_order_request \<times> string option \<times> string option" where
  "row_identity r = (or_client_order_id r, or_owner r, or_request r, or_broker_name r, or_account_id r)"

definition same_keys :: "order_row list \<Rightarrow> order_row list \<Rightarrow> bool" where
  "same_keys rs rs' \<longleftrightarrow> map row_identity rs' = map row_identity rs"

lemma same_keys_refl [simp]: "same_keys rs rs"
  by (simp add: same_keys_def)

lemma same_keys_trans: "same_keys a b \<Longrightarrow> same_keys b c \<Longrightarrow> same_keys a c"
  by (simp add: same_keys_def)

lemma same_keys_update [simp]: "same_keys rs (tbl_update p (write_order b) rs)"
  by (simp add: same_keys_def row_identity_def write_order_def)

lemma same_keysD:
  assumes "same_keys rs rs'" and "q \<in> set rs'"
  shows "\<exists>p \<in> set rs. row_identity p = row_identity q"
proof -
  have "row_identity ` set rs' = row_identity ` set rs"
    using arg_cong [OF assms(1) [unfolded same_keys_def], of set] by simp
  with assms(2) have "row_identity q \<in> row_identity ` set rs" by blast
  then show ?thesis by auto
qed

lemma same_keys_ok:
  assumes "same_keys (lr_orders s) (lr_orders s')" and "rows_ok s"
  shows "rows_ok s'"
proof -
  have "map or_client_order_id (lr_orders s') = map or_client_order_id (lr_orders s)"
    using arg_cong [OF assms(1) [unfolded same_keys_def], of "map fst"] by (simp add: comp_def row_identity_def)
  with assms(2) same_keysD [OF assms(1)] show ?thesis unfolding rows_ok_def row_identity_def by fastforce
qed

lemma foldM_block_row_keys:
  assumes "foldM (block_row why now) rs s = Inr s'"
  shows "same_keys (lr_orders s) (lr_orders s')"
  using assms
  by (rule foldM_inv)
    (auto simp: block_row_def split: sum.splits dest!: update_orderD intro: same_keys_trans)

lemma foldM_interrupt_keys:
  assumes "foldM (interrupt_row tb now) rs s = Inr s'" and "tb \<in> {set_outbox, set_cancel}"
  shows "same_keys (lr_orders s) (lr_orders s')"
  using assms(1)
  by (rule foldM_inv) (use assms(2) in \<open>auto simp: interrupt_row_def set_outbox_def set_cancel_def
    split: sum.splits dest!: update_orderD intro: same_keys_trans\<close>)

lemmas repo_op_defs = reserve_cancel_def claim_next_def claim_next_cancel_def finish_dispatch_def
  block_dispatch_def finish_cancel_def block_cancel_def save_reconciliation_def
  apply_reconciled_snapshot_def migrate_outbox_def set_outbox_def set_cancel_def

lemma repo_step_keys:
  assumes "\<And>rq now. x \<noteq> Reserve rq now"
  shows "same_keys (lr_orders s) (lr_orders (repo_step s x))"
proof (cases x)
  case (BlockPending t why now)
  then show ?thesis
    by (auto simp: block_pending_dispatches_def Let_def split: sum.splits dest!: foldM_block_row_keys)
next
  case (RecoverInterrupted now)
  then show ?thesis
    by (auto simp: recover_interrupted_dispatches_def Let_def split: sum.splits
        dest!: foldM_interrupt_keys intro: same_keys_trans)
qed (use assms in \<open>auto simp: repo_op_defs Let_def split: sum.splits option.splits
  dest!: update_orderD\<close>)

lemma rows_ok_step: "rows_ok s \<Longrightarrow> rows_ok (repo_step s x)"
proof (cases "\<exists>rq now. x = Reserve rq now")
  case True
  then obtain rq now where x: "x = Reserve rq now" by blast
  assume ok: "rows_ok s"
  from reserve_tables [of rq now s] show ?thesis
  proof
    assume "snd (reserve rq now s) \<in> {s, s\<lparr>lr_in_txn := True\<rparr>}"
    with ok x show ?thesis by (auto simp: rows_ok_def)
  next
    assume *: "snd (reserve rq now s) = reserve_insert rq now s \<and>
      find (\<lambda>r. or_client_order_id r = req_client_order_id (rq_request rq)) (lr_orders s) = None \<and>
      \<not> known_in (lr_outbox s) (req_client_order_id (rq_request rq))"
    then have "req_client_order_id (rq_request rq) \<notin> or_client_order_id ` set (lr_orders s)"
      by (auto simp: find_None_iff)
    with ok x * show ?thesis by (simp add: rows_ok_def reserve_insert_def new_order_row_def)
  qed
next
  case False
  then show "rows_ok s \<Longrightarrow> rows_ok (repo_step s x)" using repo_step_keys same_keys_ok by blast
qed

section \<open>At most one submission\<close>

lemma order_of_row_request: "order_of_row r = Inr b \<Longrightarrow> bo_request b = or_request r"
  by (auto simp: order_of_row_def request_post_init_def first_error_Inr dest!: order_post_init_same
      split: sum.splits)

lemma routed_of_row_request: "routed_of_row r = Inr ro \<Longrightarrow>
    bo_request (ro_order ro) = or_request r \<and> req_mode (or_request r) = Live"
  by (auto simp: routed_of_row_def mk_routed_order_def order_of_row_request
      split: sum.splits option.splits if_splits)

lemma claim_handed_out:
  assumes "rows_ok s" and "handed_out (fst (claim_next t now s)) = Some k"
  shows "open_in (lr_outbox s) k \<and> \<not> open_in (lr_outbox (snd (claim_next t now s))) k"
proof -
  from assms(2) obtain ob r ro where c: "first_by (ob_created_at \<circ> fst) (claim_candidates t s) = Some (ob, r)"
    "routed_of_row r = Inr ro" "k = req_client_order_id (bo_request (ro_order ro))"
    and free: "\<not> lr_in_txn s"
    by (auto simp: claim_next_def Let_def handed_out_def split: option.splits sum.splits if_splits)
  from first_by_SomeD [OF c(1)] have m: "ob \<in> set (lr_outbox s)" "r \<in> set (lr_orders s)"
    "ob_state ob = Pending" "or_client_order_id r = ob_client_order_id ob"
    by (auto simp: claim_candidates_def)
  with assms(1) c(2,3) have k: "k = or_client_order_id r"
    by (simp add: rows_ok_def routed_of_row_request)
  have "lr_outbox (snd (claim_next t now s))
      = tbl_update (\<lambda>q. ob_client_order_id q = k) (start_attempt now) (lr_outbox s)"
    using c(1,2) k free by (simp add: claim_next_def set_outbox_def)
  with m k show ?thesis by (auto simp: closed_by_update) (auto simp: open_in_def)
qed

lemma cancel_handed_out:
  assumes "rows_ok s" and "handed_out (fst (claim_next_cancel t now s)) = Some k"
  shows "open_in (lr_cancels s) k \<and> \<not> open_in (lr_cancels (snd (claim_next_cancel t now s))) k"
proof -
  from assms(2) obtain ob r ro where c: "first_by (ob_created_at \<circ> fst) (cancel_candidates t s) = Some (ob, r)"
    "routed_of_row r = Inr ro" "k = req_client_order_id (bo_request (ro_order ro))"
    and free: "\<not> lr_in_txn s"
    by (auto simp: claim_next_cancel_def Let_def handed_out_def split: option.splits sum.splits if_splits)
  from first_by_SomeD [OF c(1)] have m: "ob \<in> set (lr_cancels s)" "r \<in> set (lr_orders s)"
    "ob_state ob = Pending" "or_client_order_id r = ob_client_order_id ob"
    by (auto simp: cancel_candidates_def)
  with assms(1) c(2,3) have k: "k = or_client_order_id r"
    by (simp add: rows_ok_def routed_of_row_request)
  have "lr_cancels (snd (claim_next_cancel t now s))
      = tbl_update (\<lambda>q. ob_client_order_id q = k) (start_attempt now) (lr_cancels s)"
    using c(1,2) k free by (simp add: claim_next_cancel_def set_cancel_def)
  with m k show ?thesis by (auto simp: closed_by_update) (auto simp: open_in_def)
qed

interpretation dispatch: one_shot_queue repo_step dispatched "\<lambda>s. open_in (lr_outbox s)"
  "\<lambda>s. known_in (lr_outbox s)" rows_ok
proof
  fix s x k assume ok: "rows_ok s" and d: "dispatched s x = Some k"
  then obtain t now where "x = ClaimNext t now" by (cases x) auto
  with ok d show "open_in (lr_outbox s) k" and "\<not> open_in (lr_outbox (repo_step s x)) k"
    using claim_handed_out by auto
qed (use rows_ok_step open_in_known ob_leD [OF repo_step_outbox] in blast)+

interpretation cancel_dispatch: one_shot_queue repo_step cancel_dispatched
  "\<lambda>s. open_in (lr_cancels s)" "\<lambda>s. known_in (lr_cancels s)" rows_ok
proof
  fix s x k assume ok: "rows_ok s" and d: "cancel_dispatched s x = Some k"
  then obtain t now where "x = ClaimNextCancel t now" by (cases x) auto
  with ok d show "open_in (lr_cancels s) k" and "\<not> open_in (lr_cancels (repo_step s x)) k"
    using cancel_handed_out by auto
qed (use rows_ok_step open_in_known ob_leD [OF repo_step_cancels] in blast)+

section \<open>Properties\<close>

lemma rows_ok_empty: "rows_ok empty_repo"
  by (simp add: rows_ok_def empty_repo_def)

definition t1 :: account_ref where "t1 = AccountRef ''shioaji'' ''A1''"

definition rq1 :: routed_request where "rq1 = \<lparr>rq_target = t1, rq_request = example_request\<rparr>"

text \<open>C3. Starting from any consistent store, whatever operations run in whatever order
  (claims, completions, failures, restarts, cancels, reconciliations, repeated
  reservations), the dispatch outbox hands a given client order to the broker at most
  once.\<close>

theorem order_submitted_at_most_once:
  assumes "rows_ok s"
  shows "claim_count repo_step dispatched cid s ops \<le> 1"
  using assms by (rule dispatch.claimed_at_most_once)

theorem order_submitted_at_most_once_witness:
  "claim_count repo_step dispatched ''c1'' empty_repo [Reserve rq1 1, ClaimNext t1 2,
     RecoverInterrupted 3, Reserve rq1 4, ClaimNext t1 5] \<le> 1
   \<and> dispatched (repo_step empty_repo (Reserve rq1 1)) (ClaimNext t1 2) = Some ''c1''"
proof
  show "claim_count repo_step dispatched ''c1'' empty_repo [Reserve rq1 1, ClaimNext t1 2,
     RecoverInterrupted 3, Reserve rq1 4, ClaimNext t1 5] \<le> 1"
    by (rule order_submitted_at_most_once [OF rows_ok_empty])
  show "dispatched (repo_step empty_repo (Reserve rq1 1)) (ClaimNext t1 2) = Some ''c1''"
    by code_simp
qed

text \<open>The same for cancels: one reserved cancel is handed to the broker at most once.\<close>

theorem cancel_submitted_at_most_once:
  assumes "rows_ok s"
  shows "claim_count repo_step cancel_dispatched cid s ops \<le> 1"
  using assms by (rule cancel_dispatch.claimed_at_most_once)

end
