(* ===== verification/Outbox_Recovery.thy ===== *)
theory Outbox_Recovery
  imports Outbox_Safety
begin

text \<open>
  The consistency invariant of the durable store of \<open>repository.py\<close> (primary keys,
  references, the unique broker-order index), its preservation by every operation, and
  what the operations do on it: a claim takes the oldest pending order of its target, a
  repeated reservation changes nothing, a restart blocks all interrupted work and marks
  it UNKNOWN, and positions are the signed sum of recorded fills.
\<close>

section \<open>The store invariant\<close>

definition bid_clash :: "order_row \<Rightarrow> order_row \<Rightarrow> bool" where
  "bid_clash r q \<longleftrightarrow> or_client_order_id q \<noteq> or_client_order_id r
     \<and> or_broker_name q = or_broker_name r \<and> or_account_id q = or_account_id r
     \<and> or_broker_name r \<noteq> None \<and> or_account_id r \<noteq> None
     \<and> or_broker_order_id r \<noteq> None \<and> or_broker_order_id q = or_broker_order_id r"

definition bids_unique :: "order_row list \<Rightarrow> bool" where
  "bids_unique rs \<longleftrightarrow> (\<forall>r \<in> set rs. \<forall>q \<in> set rs. \<not> bid_clash r q)"

definition ob_ok :: "outbox_row list \<Rightarrow> order_row list \<Rightarrow> bool" where
  "ob_ok obs rs \<longleftrightarrow> distinct (map ob_client_order_id obs) \<and>
     ob_client_order_id ` set obs \<subseteq> or_client_order_id ` set rs"

definition store_ok :: "live_repo \<Rightarrow> bool" where
  "store_ok s \<longleftrightarrow> rows_ok s \<and> bids_unique (lr_orders s) \<and> ob_ok (lr_outbox s) (lr_orders s)
     \<and> ob_ok (lr_cancels s) (lr_orders s)"

definition same_ob :: "outbox_row list \<Rightarrow> outbox_row list \<Rightarrow> bool" where
  "same_ob obs obs' \<longleftrightarrow> map ob_client_order_id obs' = map ob_client_order_id obs"

lemma same_ob_refl [simp]: "same_ob a a"
  by (simp add: same_ob_def)

lemma same_ob_update [simp]: "same_ob a (tbl_update p (settle st t) b) \<longleftrightarrow> same_ob a b"
    "same_ob a (tbl_update p (start_attempt t) b) \<longleftrightarrow> same_ob a b"
    "same_ob a (tbl_update p (\<lambda>r. r\<lparr>ob_state := st\<rparr>) b) \<longleftrightarrow> same_ob a b"
  by (simp_all add: same_ob_def settle_def start_attempt_def)

lemma same_ob_ok: "same_ob a b \<Longrightarrow> ob_ok a rs \<Longrightarrow> ob_ok b rs"
  unfolding ob_ok_def same_ob_def by (metis list.set_map)

lemma foldM_interrupt_same_ob:
  assumes "foldM (interrupt_row tb now) rs s = Inr s'" and "tb \<in> {set_outbox, set_cancel}"
  shows "same_ob (lr_outbox s) (lr_outbox s') \<and> same_ob (lr_cancels s) (lr_cancels s')"
  using assms(1)
  by (rule foldM_inv) (use assms(2) in \<open>auto simp: interrupt_row_def set_outbox_def set_cancel_def
    split: sum.splits dest!: update_orderD\<close>)

lemma repo_step_same_outbox:
  assumes "\<And>rq now. x \<noteq> Reserve rq now"
  shows "same_ob (lr_outbox s) (lr_outbox (repo_step s x))"
proof (cases x)
  case (BlockPending t why now)
  then show ?thesis
    by (auto simp: block_pending_dispatches_def Let_def split: sum.splits dest!: foldM_block_row_frame)
next
  case (RecoverInterrupted now)
  then show ?thesis
    by (auto simp: recover_interrupted_dispatches_def Let_def split: sum.splits
        dest!: foldM_interrupt_same_ob) (simp add: same_ob_def)
qed (use assms in \<open>auto simp: repo_op_defs Let_def split: sum.splits option.splits
  dest!: update_orderD\<close>)

lemma repo_step_same_cancels:
  assumes "\<And>t owner cid now. x \<noteq> ReserveCancel t owner cid now"
  shows "same_ob (lr_cancels s) (lr_cancels (repo_step s x))"
proof (cases x)
  case (Reserve rq now)
  then show ?thesis using reserve_tables [of rq now s] by (auto simp: reserve_insert_def)
next
  case (BlockPending t why now)
  then show ?thesis
    by (auto simp: block_pending_dispatches_def Let_def split: sum.splits dest!: foldM_block_row_frame)
next
  case (RecoverInterrupted now)
  then show ?thesis
    by (auto simp: recover_interrupted_dispatches_def Let_def split: sum.splits
        dest!: foldM_interrupt_same_ob) (simp add: same_ob_def)
qed (use assms in \<open>auto simp: repo_op_defs Let_def split: sum.splits option.splits
  dest!: update_orderD\<close>)

section \<open>The unique broker-order index\<close>

lemma write_no_clash:
  assumes r: "r \<in> set rs" and q: "q \<in> set rs" and nc: "\<not> bid_clash r q"
    and ok: "\<And>x. x \<in> set rs \<Longrightarrow> row_of_order b x \<Longrightarrow> \<not> unique_conflict b x rs"
  shows "\<not> bid_clash (if row_of_order b r then write_order b r else r)
    (if row_of_order b q then write_order b q else q)"
proof (cases "row_of_order b r"; cases "row_of_order b q")
  assume "row_of_order b r" "row_of_order b q"
  then show ?thesis by (simp add: bid_clash_def write_order_def row_of_order_def)
next
  assume a: "row_of_order b r" "\<not> row_of_order b q"
  show ?thesis
  proof
    assume "bid_clash (if row_of_order b r then write_order b r else r)
      (if row_of_order b q then write_order b q else q)"
    with a q have "unique_conflict b r rs"
      by (auto simp: bid_clash_def unique_conflict_def write_order_def)
    with ok [OF r a(1)] show False by simp
  qed
next
  assume a: "\<not> row_of_order b r" "row_of_order b q"
  show ?thesis
  proof
    assume "bid_clash (if row_of_order b r then write_order b r else r)
      (if row_of_order b q then write_order b q else q)"
    with a have "bo_broker_order_id b \<noteq> None" "or_broker_name q \<noteq> None" "or_account_id q \<noteq> None"
      "or_client_order_id r \<noteq> or_client_order_id q" "or_broker_name r = or_broker_name q"
      "or_account_id r = or_account_id q" "or_broker_order_id r = bo_broker_order_id b"
      by (auto simp: bid_clash_def write_order_def)
    with r have "unique_conflict b q rs" unfolding unique_conflict_def by blast
    with ok [OF q a(2)] show False by simp
  qed
qed (use nc in simp)

lemma update_order_bids:
  assumes "update_order b s = Inr s'" and "bids_unique (lr_orders s)"
  shows "bids_unique (lr_orders s')"
proof -
  from assms(1) have nc: "\<And>r. r \<in> set (lr_orders s) \<Longrightarrow> row_of_order b r
      \<Longrightarrow> \<not> unique_conflict b r (lr_orders s)"
    and s': "lr_orders s' = tbl_update (row_of_order b) (write_order b) (lr_orders s)"
    by (auto simp: update_order_def split: if_splits)
  show ?thesis
    unfolding bids_unique_def s' set_tbl_update
  proof (intro ballI; elim imageE; hypsubst)
    fix r q assume "r \<in> set (lr_orders s)" "q \<in> set (lr_orders s)"
    then show "\<not> bid_clash (if row_of_order b r then write_order b r else r)
        (if row_of_order b q then write_order b q else q)"
      using assms(2) nc by (intro write_no_clash) (auto simp: bids_unique_def)
  qed
qed

lemma foldM_block_row_bids:
  assumes "foldM (block_row why now) rs s = Inr s'" and "bids_unique (lr_orders s)"
  shows "bids_unique (lr_orders s')"
  using assms
  by (rule foldM_inv) (auto simp: block_row_def split: sum.splits intro: update_order_bids)

lemma foldM_interrupt_bids:
  assumes "foldM (interrupt_row tb now) rs s = Inr s'" and "bids_unique (lr_orders s)"
    and "tb \<in> {set_outbox, set_cancel}"
  shows "bids_unique (lr_orders s')"
  using assms(1,2)
  by (rule foldM_inv) (use assms(3) in \<open>auto simp: interrupt_row_def set_outbox_def set_cancel_def
    split: sum.splits dest: update_order_bids\<close>)

lemma bids_unique_insert [simp]:
  "bids_unique rs \<Longrightarrow> or_broker_order_id r = None \<Longrightarrow> bids_unique (rs @ [r])"
  by (auto simp: bids_unique_def bid_clash_def)

lemma repo_step_bids: "bids_unique (lr_orders s) \<Longrightarrow> bids_unique (lr_orders (repo_step s x))"
proof (cases x)
  case (Reserve rq now)
  then show "bids_unique (lr_orders s) \<Longrightarrow> ?thesis" using reserve_tables [of rq now s]
    by (auto simp: reserve_insert_def new_order_row_def)
next
  case (BlockPending t why now)
  then show "bids_unique (lr_orders s) \<Longrightarrow> ?thesis"
    by (auto simp: block_pending_dispatches_def Let_def split: sum.splits dest: foldM_block_row_bids)
next
  case (RecoverInterrupted now)
  then show "bids_unique (lr_orders s) \<Longrightarrow> ?thesis"
    by (auto simp: recover_interrupted_dispatches_def Let_def split: sum.splits
        dest!: foldM_interrupt_bids)
qed (auto simp: repo_op_defs Let_def split: sum.splits option.splits dest: update_order_bids)

section \<open>The invariant is kept\<close>

lemma same_keys_clients: "same_keys rs rs' \<Longrightarrow>
    or_client_order_id ` set rs' = or_client_order_id ` set rs"
proof -
  assume "same_keys rs rs'"
  then have "map fst (map row_identity rs') = map fst (map row_identity rs)" by (simp only: same_keys_def)
  then have "map or_client_order_id rs' = map or_client_order_id rs" by (simp add: comp_def row_identity_def)
  then show ?thesis by (metis list.set_map)
qed

lemma ob_ok_orders: "same_keys rs rs' \<Longrightarrow> ob_ok obs rs \<Longrightarrow> ob_ok obs rs'"
  by (simp add: ob_ok_def same_keys_clients)

lemma ob_ok_mono: "ob_ok obs rs \<Longrightarrow> ob_ok obs (rs @ rs')"
  unfolding ob_ok_def by (simp; blast)

lemma ob_ok_insert:
  "ob_ok obs rs \<Longrightarrow> \<not> known_in obs (ob_client_order_id r) \<Longrightarrow>
   ob_client_order_id r \<in> or_client_order_id ` set rs' \<Longrightarrow> set rs \<subseteq> set rs' \<Longrightarrow> ob_ok (obs @ [r]) rs'"
  unfolding ob_ok_def known_in_def by (simp; blast)

lemma reserve_cancel_tables:
  "lr_cancels (snd (reserve_cancel t owner cid now s)) = lr_cancels s \<or>
   (lr_cancels (snd (reserve_cancel t owner cid now s)) = lr_cancels s @ [new_outbox_row cid t now]
     \<and> \<not> known_in (lr_cancels s) cid \<and> cid \<in> or_client_order_id ` set (lr_orders s))"
  by (auto simp: reserve_cancel_def find_outbox_None split: sum.splits option.splits
      dest!: update_orderD find_SomeD)

lemma cancels_ok_step:
  assumes "store_ok s"
  shows "ob_ok (lr_cancels (repo_step s x)) (lr_orders (repo_step s x))"
proof (cases "\<exists>rq now. x = Reserve rq now")
  case True
  then obtain rq now where x: "x = Reserve rq now" by blast
  with assms reserve_tables [of rq now s] show ?thesis
    by (auto simp: store_ok_def reserve_insert_def intro: ob_ok_mono)
next
  case False
  then have k: "same_keys (lr_orders s) (lr_orders (repo_step s x))" by (intro repo_step_keys) auto
  show ?thesis
  proof (cases "\<exists>t owner cid now. x = ReserveCancel t owner cid now")
    case True
    then obtain t owner cid now where x: "x = ReserveCancel t owner cid now" by blast
    have ok: "ob_ok (lr_cancels s) (lr_orders (repo_step s x))"
      using assms k by (auto simp: store_ok_def intro: ob_ok_orders)
    from reserve_cancel_tables [of t owner cid now s] show ?thesis
    proof (elim disjE conjE)
      assume "lr_cancels (snd (reserve_cancel t owner cid now s))
          = lr_cancels s @ [new_outbox_row cid t now]"
        and "\<not> known_in (lr_cancels s) cid" and "cid \<in> or_client_order_id ` set (lr_orders s)"
      with ok x k show ?thesis
        by (auto simp: same_keys_clients new_outbox_row_def intro!: ob_ok_insert)
    qed (use ok x in simp)
  next
    case False
    then have "same_ob (lr_cancels s) (lr_cancels (repo_step s x))"
      by (intro repo_step_same_cancels) auto
    with assms k show ?thesis by (auto simp: store_ok_def intro: same_ob_ok ob_ok_orders)
  qed
qed

lemma outbox_ok_step:
  assumes "store_ok s"
  shows "ob_ok (lr_outbox (repo_step s x)) (lr_orders (repo_step s x))"
proof (cases "\<exists>rq now. x = Reserve rq now")
  case True
  then obtain rq now where x: "x = Reserve rq now" by blast
  with assms reserve_tables [of rq now s] show ?thesis
    by (auto simp: store_ok_def reserve_insert_def new_order_row_def new_outbox_row_def
        intro!: ob_ok_insert)
next
  case False
  then have "same_keys (lr_orders s) (lr_orders (repo_step s x))"
    and "same_ob (lr_outbox s) (lr_outbox (repo_step s x))"
    by (auto intro!: repo_step_keys repo_step_same_outbox)
  with assms show ?thesis by (auto simp: store_ok_def intro: same_ob_ok ob_ok_orders)
qed

interpretation store: step_invariant repo_step store_ok
proof
  fix s x assume "store_ok s"
  then show "store_ok (repo_step s x)"
    using rows_ok_step repo_step_bids outbox_ok_step cancels_ok_step unfolding store_ok_def by blast
qed

section \<open>Restart\<close>

text \<open>The rows written while the restart runs: their keys and targets are those of the
  snapshot it read, and a broker order id is the snapshot's or absent.\<close>

definition bids_from :: "order_row list \<Rightarrow> order_row list \<Rightarrow> bool" where
  "bids_from rs0 rs \<longleftrightarrow> (\<forall>q \<in> set rs. \<exists>p \<in> set rs0. or_client_order_id p = or_client_order_id q
     \<and> or_broker_name p = or_broker_name q \<and> or_account_id p = or_account_id q
     \<and> (or_broker_order_id q = or_broker_order_id p \<or> or_broker_order_id q = None))"

lemma bids_from_refl: "bids_from rs rs"
  by (auto simp: bids_from_def)

lemma order_of_row_bid: "order_of_row r = Inr b \<Longrightarrow>
    bo_broker_order_id b = or_broker_order_id r \<or> bo_broker_order_id b = None"
  by (auto simp: order_of_row_def dest!: order_post_init_same split: sum.splits if_splits)

lemma order_of_row_valid: "order_of_row r = Inr b \<Longrightarrow> valid_order b"
  unfolding order_of_row_def using order_post_init_same by (fastforce split: sum.splits)

lemma bids_from_write:
  assumes "bids_from rs0 rs" and "r \<in> set rs0" and "bids_unique rs0" and "distinct (map or_client_order_id rs0)"
    and "row_of_order b r" and "bo_broker_order_id b = or_broker_order_id r \<or> bo_broker_order_id b = None"
  shows "(\<forall>x \<in> set rs. row_of_order b x \<longrightarrow> \<not> unique_conflict b x rs) \<and>
    bids_from rs0 (tbl_update (row_of_order b) (write_order b) rs)"
proof (intro conjI ballI impI)
  fix x assume x: "x \<in> set rs" "row_of_order b x"
  obtain p where p: "p \<in> set rs0" "or_client_order_id p = or_client_order_id x"
      "or_broker_name p = or_broker_name x" "or_account_id p = or_account_id x"
    using assms(1) x(1) unfolding bids_from_def by blast
  have "p = r" using distinct_key_inj [OF assms(4) p(1) assms(2)] p(2) x(2) assms(5)
    by (simp add: row_of_order_def)
  show "\<not> unique_conflict b x rs"
  proof
    assume "unique_conflict b x rs"
    then obtain q where q: "q \<in> set rs" "or_client_order_id q \<noteq> or_client_order_id x"
      "or_broker_name q = or_broker_name x" "or_account_id q = or_account_id x"
      "or_broker_order_id q = bo_broker_order_id b" "bo_broker_order_id b \<noteq> None"
      "or_broker_name x \<noteq> None" "or_account_id x \<noteq> None"
      by (auto simp: unique_conflict_def)
    obtain p' where p': "p' \<in> set rs0" "or_client_order_id p' = or_client_order_id q"
        "or_broker_name p' = or_broker_name q" "or_account_id p' = or_account_id q"
        "or_broker_order_id q = or_broker_order_id p' \<or> or_broker_order_id q = None"
      using assms(1) q(1) unfolding bids_from_def by blast
    then have "bid_clash r p'" using q p \<open>p = r\<close> assms(6) by (auto simp: bid_clash_def)
    with assms(2,3) p'(1) show False by (simp add: bids_unique_def)
  qed
next
  show "bids_from rs0 (tbl_update (row_of_order b) (write_order b) rs)"
    unfolding bids_from_def set_tbl_update
  proof (intro ballI; elim imageE; hypsubst)
    fix q assume "q \<in> set rs"
    then obtain p where p: "p \<in> set rs0" "or_client_order_id p = or_client_order_id q"
        "or_broker_name p = or_broker_name q" "or_account_id p = or_account_id q"
        "or_broker_order_id q = or_broker_order_id p \<or> or_broker_order_id q = None"
      using assms(1) unfolding bids_from_def by blast
    have "row_of_order b q \<Longrightarrow> p = r"
      using distinct_key_inj [OF assms(4) p(1) assms(2)] p(2) assms(5) by (simp add: row_of_order_def)
    with p assms(6) show "\<exists>p \<in> set rs0. or_client_order_id p
        = or_client_order_id (if row_of_order b q then write_order b q else q)
      \<and> or_broker_name p = or_broker_name (if row_of_order b q then write_order b q else q)
      \<and> or_account_id p = or_account_id (if row_of_order b q then write_order b q else q)
      \<and> (or_broker_order_id (if row_of_order b q then write_order b q else q) = or_broker_order_id p
         \<or> or_broker_order_id (if row_of_order b q then write_order b q else q) = None)"
      by (intro bexI [of _ p]) (auto simp: write_order_def)
  qed
qed

lemma interrupt_row_total:
  assumes "rows_ok s0" and "bids_unique (lr_orders s0)" and "r \<in> set (lr_orders s0)"
    and "is_ok (order_of_row r)" and "bids_from (lr_orders s0) (lr_orders s)"
    and "tb \<in> {set_outbox, set_cancel}"
  shows "\<exists>s'. interrupt_row tb now r s = Inr s' \<and> bids_from (lr_orders s0) (lr_orders s')"
proof -
  from assms(4) obtain b where b: "order_of_row r = Inr b" by (auto simp: is_ok_iff)
  let ?u = "interrupted_order now b"
  have u: "order_post_init ?u = Inr ?u"
    using order_of_row_valid [OF b] by (simp add: valid_order_iff interrupted_order_def)
  have row: "row_of_order ?u r" using order_of_row_request [OF b] assms(1,3)
    by (simp add: row_of_order_def interrupted_order_def rows_ok_def)
  have bid: "bo_broker_order_id ?u = or_broker_order_id r \<or> bo_broker_order_id ?u = None"
    using order_of_row_bid [OF b] by (simp add: interrupted_order_def)
  note w = bids_from_write [OF assms(5,3,2) _ row bid]
  have d: "distinct (map or_client_order_id (lr_orders s0))" using assms(1) by (simp add: rows_ok_def)
  have "update_order ?u s = Inr (s\<lparr>lr_orders := tbl_update (row_of_order ?u) (write_order ?u) (lr_orders s)\<rparr>)"
    using w [OF d] by (auto simp: update_order_def)
  then have "interrupt_row tb now r s = Inr (tb (req_client_order_id (bo_request b)) (settle Blocked now)
      (s\<lparr>lr_orders := tbl_update (row_of_order ?u) (write_order ?u) (lr_orders s)\<rparr>))"
    by (simp add: interrupt_row_def b u)
  moreover have "lr_orders (tb c f s1) = lr_orders s1" for c f s1
    using assms(6) by (auto simp: set_outbox_def set_cancel_def)
  ultimately show ?thesis using w [OF d] by simp
qed

definition unknown_at :: "string \<Rightarrow> live_repo \<Rightarrow> bool" where
  "unknown_at k s \<longleftrightarrow> (\<forall>q \<in> set (lr_orders s). or_client_order_id q = k \<longrightarrow> or_status q = UNKNOWN)"

definition busy_in :: "outbox_row list \<Rightarrow> string \<Rightarrow> bool" where
  "busy_in obs k \<longleftrightarrow> (\<exists>r \<in> set obs. ob_client_order_id r = k \<and> ob_state r = Processing)"

lemma busy_in_update: "busy_in (tbl_update p (settle Blocked t) obs) k \<Longrightarrow> busy_in obs k"
  unfolding busy_in_def bex_tbl_update settle_def by (auto split: if_splits)

lemma not_busy_update: "\<not> busy_in (tbl_update (\<lambda>r. ob_client_order_id r = k) (settle Blocked t) obs) k"
  unfolding busy_in_def bex_tbl_update settle_def by (auto split: if_splits)

definition calmer :: "live_repo \<Rightarrow> live_repo \<Rightarrow> bool" where
  "calmer s s' \<longleftrightarrow> (\<forall>k. (busy_in (lr_outbox s') k \<longrightarrow> busy_in (lr_outbox s) k)
     \<and> (busy_in (lr_cancels s') k \<longrightarrow> busy_in (lr_cancels s) k)
     \<and> (unknown_at k s \<longrightarrow> unknown_at k s'))"

lemma write_order_simps [simp]:
  "or_status (write_order b r) = bo_status b" "or_client_order_id (write_order b r) = or_client_order_id r"
  "or_owner (write_order b r) = or_owner r" "or_request (write_order b r) = or_request r"
  by (simp_all add: write_order_def)

lemma unknown_write:
  assumes "bo_status u = UNKNOWN" and "unknown_at k s"
  shows "unknown_at k (s\<lparr>lr_orders := tbl_update (row_of_order u) (write_order u) (lr_orders s)\<rparr>)"
  using assms by (simp add: unknown_at_def ball_tbl_update)

lemma unknown_write_key:
  assumes "bo_status u = UNKNOWN"
    and "\<And>q. q \<in> set (lr_orders s) \<Longrightarrow> or_client_order_id q = k \<Longrightarrow> row_of_order u q"
  shows "unknown_at k (s\<lparr>lr_orders := tbl_update (row_of_order u) (write_order u) (lr_orders s)\<rparr>)"
  using assms by (auto simp: unknown_at_def ball_tbl_update)

lemma set_tables_neq [simp]: "set_outbox \<noteq> set_cancel"
proof
  let ?r = "new_outbox_row [] (AccountRef [] []) 0"
  let ?s = "empty_repo\<lparr>lr_outbox := [?r]\<rparr>"
  assume "set_outbox = set_cancel"
  then have "lr_outbox (set_outbox [] (settle Blocked 0) ?s) = lr_outbox (set_cancel [] (settle Blocked 0) ?s)"
    by simp
  then show False
    by (simp add: set_outbox_def set_cancel_def tbl_update_def settle_def new_outbox_row_def)
qed

lemmas set_tables_neq' [simp] = set_tables_neq [symmetric]

lemma unknown_at_tables [simp]:
  "unknown_at k (set_outbox c f s) = unknown_at k s"
  "unknown_at k (set_cancel c f s) = unknown_at k s"
  by (simp_all add: unknown_at_def set_outbox_def set_cancel_def)

lemma interrupt_row_effect:
  assumes run: "interrupt_row tb now r s = Inr s'" and tb: "tb \<in> {set_outbox, set_cancel}"
    and key: "\<And>q. q \<in> set (lr_orders s) \<Longrightarrow> or_client_order_id q = or_client_order_id r
      \<Longrightarrow> or_owner q = req_owner_id (or_request r)"
    and cid: "or_client_order_id r = req_client_order_id (or_request r)"
  shows "calmer s s' \<and> unknown_at (or_client_order_id r) s'
    \<and> (tb = set_outbox \<longrightarrow> \<not> busy_in (lr_outbox s') (or_client_order_id r))
    \<and> (tb = set_cancel \<longrightarrow> \<not> busy_in (lr_cancels s') (or_client_order_id r))"
proof -
  from run obtain b where b: "order_of_row r = Inr b"
    and upd: "\<exists>s1. update_order (interrupted_order now b) s = Inr s1
      \<and> s' = tb (req_client_order_id (bo_request b)) (settle Blocked now) s1"
    by (auto simp: interrupt_row_def split: sum.splits dest!: order_post_init_same)
  let ?u = "interrupted_order now b"
  let ?s1 = "s\<lparr>lr_orders := tbl_update (row_of_order ?u) (write_order ?u) (lr_orders s)\<rparr>"
  have q: "bo_request b = or_request r" using b by (rule order_of_row_request)
  with upd cid have s': "s' = tb (or_client_order_id r) (settle Blocked now) ?s1"
    by (auto dest!: update_orderD)
  have st: "bo_status ?u = UNKNOWN" by (simp add: interrupted_order_def)
  have "\<And>q. q \<in> set (lr_orders s) \<Longrightarrow> or_client_order_id q = or_client_order_id r \<Longrightarrow> row_of_order ?u q"
    using key cid q by (simp add: row_of_order_def interrupted_order_def)
  from unknown_write_key [OF st this] have k: "unknown_at (or_client_order_id r) ?s1" by simp
  have m: "\<And>k. unknown_at k s \<Longrightarrow> unknown_at k ?s1" by (rule unknown_write [OF st])
  from tb consider "tb = set_outbox" | "tb = set_cancel" by blast
  then show ?thesis
  proof cases
    case 1
    then show ?thesis unfolding s' calmer_def using k m
      by (auto simp: set_outbox_def not_busy_update unknown_at_def dest: busy_in_update)
  next
    case 2
    then show ?thesis unfolding s' calmer_def using k m
      by (auto simp: set_cancel_def not_busy_update unknown_at_def dest: busy_in_update)
  qed
qed

lemma calmer_refl: "calmer s s"
  by (simp add: calmer_def)

lemma calmer_trans: "calmer a b \<Longrightarrow> calmer b c \<Longrightarrow> calmer a c"
  by (simp add: calmer_def)

text \<open>One pass of the restart over the rows of one outbox.\<close>

definition pass_state :: "live_repo \<Rightarrow> live_repo \<Rightarrow> bool" where
  "pass_state s0 s \<longleftrightarrow> bids_from (lr_orders s0) (lr_orders s) \<and> same_keys (lr_orders s0) (lr_orders s)
     \<and> calmer s0 s"

lemma same_keys_row:
  assumes "same_keys rs rs'" and "q \<in> set rs'"
  shows "\<exists>p \<in> set rs. or_client_order_id p = or_client_order_id q \<and> or_owner p = or_owner q
    \<and> or_request p = or_request q"
  using same_keysD [OF assms] by (auto simp: row_identity_def)

lemma interrupt_row_keys:
  assumes "interrupt_row tb now r s = Inr s'" and "tb \<in> {set_outbox, set_cancel}"
  shows "same_keys (lr_orders s) (lr_orders s')"
  using foldM_interrupt_keys [of tb now "[r]" s s'] assms by simp

lemma pass_key:
  assumes "store_ok s0" and "r \<in> set (lr_orders s0)" and "same_keys (lr_orders s0) (lr_orders s)"
    and "q \<in> set (lr_orders s)" and "or_client_order_id q = or_client_order_id r"
  shows "or_owner q = req_owner_id (or_request r)"
proof -
  obtain p where p: "p \<in> set (lr_orders s0)" "or_client_order_id p = or_client_order_id q"
      "or_owner p = or_owner q" using same_keys_row [OF assms(3,4)] by blast
  have "p = r" using assms(1,2,5) p by (auto simp: store_ok_def rows_ok_def dest: distinct_key_inj)
  with p assms(1,2) show ?thesis by (simp add: store_ok_def rows_ok_def)
qed

lemma interrupt_pass:
  assumes ok: "store_ok s0" and dec: "\<And>r. r \<in> set (lr_orders s0) \<Longrightarrow> is_ok (order_of_row r)"
    and tb: "tb \<in> {set_outbox, set_cancel}" and sub: "set rows \<subseteq> set (lr_orders s0)"
    and start: "pass_state s0 s"
  shows "\<exists>s'. foldM (interrupt_row tb now) rows s = Inr s' \<and> pass_state s0 s' \<and> calmer s s'
    \<and> (\<forall>r \<in> set rows. unknown_at (or_client_order_id r) s'
        \<and> (tb = set_outbox \<longrightarrow> \<not> busy_in (lr_outbox s') (or_client_order_id r))
        \<and> (tb = set_cancel \<longrightarrow> \<not> busy_in (lr_cancels s') (or_client_order_id r)))"
  using sub start
proof (induction rows arbitrary: s)
  case Nil
  then show ?case by (simp add: calmer_refl)
next
  case (Cons r rows)
  then have r: "r \<in> set (lr_orders s0)" by simp
  from Cons.prems(2) have ps: "bids_from (lr_orders s0) (lr_orders s)"
    "same_keys (lr_orders s0) (lr_orders s)" "calmer s0 s" by (simp_all add: pass_state_def)
  obtain t where t: "interrupt_row tb now r s = Inr t" "bids_from (lr_orders s0) (lr_orders t)"
    using interrupt_row_total [OF _ _ r dec [OF r] ps(1) tb] ok by (auto simp: store_ok_def)
  have cid: "or_client_order_id r = req_client_order_id (or_request r)"
    using ok r by (simp add: store_ok_def rows_ok_def)
  note eff = interrupt_row_effect [OF t(1) tb pass_key [OF ok r ps(2)] cid]
  have "pass_state s0 t" using t(2) eff ps interrupt_row_keys [OF t(1) tb]
    by (auto simp: pass_state_def intro: calmer_trans same_keys_trans)
  then obtain s' where s': "foldM (interrupt_row tb now) rows t = Inr s'" "pass_state s0 s'" "calmer t s'"
    "\<forall>r \<in> set rows. unknown_at (or_client_order_id r) s'
        \<and> (tb = set_outbox \<longrightarrow> \<not> busy_in (lr_outbox s') (or_client_order_id r))
        \<and> (tb = set_cancel \<longrightarrow> \<not> busy_in (lr_cancels s') (or_client_order_id r))"
    using Cons.IH [of t] Cons.prems(1) by auto
  have "foldM (interrupt_row tb now) (r # rows) s = Inr s'" using t(1) s'(1) by simp
  moreover have "calmer s s'" using eff s'(3) by (blast intro: calmer_trans)
  ultimately show ?case using s' eff by (auto simp: calmer_def)
qed

lemma joined_rows_mem:
  "r \<in> set (joined_rows p obs rs) \<longleftrightarrow> r \<in> set rs \<and>
     (\<exists>ob \<in> set obs. p ob \<and> or_client_order_id r = ob_client_order_id ob)"
  by (auto simp: joined_rows_def image_iff)

lemma busy_joined:
  assumes "ob_ok obs rs" and "busy_in obs k"
  shows "\<exists>r \<in> set (joined_rows (\<lambda>ob. ob_state ob = Processing) obs rs). or_client_order_id r = k"
proof -
  from assms(2) obtain ob where ob: "ob \<in> set obs" "ob_client_order_id ob = k" "ob_state ob = Processing"
    by (auto simp: busy_in_def)
  with assms(1) obtain r where "r \<in> set rs" "or_client_order_id r = k" by (auto simp: ob_ok_def)
  with ob show ?thesis by (intro bexI [of _ r]) (auto simp: joined_rows_mem)
qed

section \<open>Properties\<close>

lemma store_ok_empty: "store_ok empty_repo"
  by (simp add: store_ok_def rows_ok_empty) (simp add: empty_repo_def bids_unique_def ob_ok_def)

text \<open>C5. Every sequence of operations keeps the store consistent: one row per client
  order, each row keyed as its stored request, one outbox row per order and every outbox
  row with its order, and no two orders of one account with the same broker order id.\<close>

theorem store_consistent:
  assumes "store_ok s"
  shows "store_ok (run repo_step s ops)"
  using assms by (rule store.run_inv)

theorem store_consistent_witness:
  "store_ok (run repo_step empty_repo [Reserve rq1 1, ClaimNext t1 2, RecoverInterrupted 3])"
  by (rule store_consistent [OF store_ok_empty])


definition s_claimed :: live_repo where
  "s_claimed = run repo_step empty_repo [Reserve rq1 1, ClaimNext t1 2]"


abbreviation canonical :: "account_ref \<Rightarrow> bool" where
  "canonical t \<equiv> mk_account_ref (broker_name t) (account_id t) = Inr t"

text \<open>A claim hands out work of the claiming account only, the oldest pending row
  first, and leaves that row in progress with one more attempt counted.\<close>

theorem claim_oldest_of_target:
  assumes "canonical t" and "rows_ok s" and "claim_next t now s = (Inr (Some ro), s')"
  shows "ro_target ro = t \<and> req_mode (bo_request (ro_order ro)) = Live
    \<and> (\<exists>ob \<in> set (lr_outbox s). ob_client_order_id ob = req_client_order_id (bo_request (ro_order ro))
        \<and> ob_state ob = Pending \<and> ob_at_target t ob
        \<and> start_attempt now ob \<in> set (lr_outbox s')
        \<and> (\<forall>(ob', r) \<in> set (claim_candidates t s). ob_created_at ob \<le> ob_created_at ob'))"
proof -
  from assms(3) obtain ob r where c: "first_by (ob_created_at \<circ> fst) (claim_candidates t s) = Some (ob, r)"
      "routed_of_row r = Inr ro" "s' = set_outbox (or_client_order_id r) (start_attempt now) s"
    by (auto simp: claim_next_def Let_def split: option.splits sum.splits if_splits)
  from first_by_SomeD [OF c(1)] have m: "ob \<in> set (lr_outbox s)" "r \<in> set (lr_orders s)"
    "ob_state ob = Pending" "ob_at_target t ob" "or_client_order_id r = ob_client_order_id ob" "at_target t r"
    and least: "\<forall>(ob', r) \<in> set (claim_candidates t s). ob_created_at ob \<le> ob_created_at ob'"
    by (auto simp: claim_candidates_def ob_at_target_def at_target_def)
  have "ro_target ro = t" using c(2) m(6) assms(1)
    by (auto simp: routed_of_row_def target_of_row_def at_target_def mk_routed_order_def
        split: sum.splits option.splits if_splits)
  moreover have "start_attempt now ob \<in> set (lr_outbox s')"
    using c(3) m(1,5) by (auto simp: set_outbox_def set_tbl_update image_iff intro!: bexI [of _ ob])
  ultimately show ?thesis
    using m least routed_of_row_request [OF c(2)] assms(2) by (auto simp: rows_ok_def)
qed

end
