(* ===== verification/Order_Manager.thy ===== *)
theory Order_Manager
  imports Outbox_Recovery
begin

text \<open>
  The broker registry (\<open>tw_quant/broker/registry.py\<close>), the admission gates of
  \<open>ports.py\<close> and the outbox coordinator \<open>LiveOrderManager\<close> (\<open>manager.py\<close>).  Brokers
  and gates are the code's protocols: a port is the record of the answers it gives, a
  gate the record of its checks (\<open>None\<close> where the optional method is absent).  The
  state is the order store together with a ghost log of what was handed to a broker.
\<close>

section \<open>The registry\<close>

datatype broker_runtime_state = RtReady | RtLocked | RtUnavailable

record broker_port =
  bp_broker_name :: string
  bp_submit :: "broker_order_request \<Rightarrow> broker_order res"
  bp_cancel :: "broker_order \<Rightarrow> broker_order res"
  bp_refresh :: "broker_order \<Rightarrow> broker_order res"

record broker_registration =
  rg_account_ref :: account_ref
  rg_port :: broker_port
  rg_capabilities :: broker_capabilities
  rg_state :: broker_runtime_state

definition registration_post_init :: "broker_registration \<Rightarrow> broker_registration res" where
  "registration_post_init r = (if lower (strip (bp_broker_name (rg_port r))) \<noteq> broker_name (rg_account_ref r)
     then Inl (ValueError ''broker port identity does not match registration'') else Inr r)"

record broker_registry =
  br_registrations :: "account_ref \<Rightarrow> broker_registration option"
  br_frozen :: bool

definition empty_registry :: broker_registry where
  "empty_registry = \<lparr>br_registrations = (\<lambda>_. None), br_frozen = False\<rparr>"

definition runtime_value :: "broker_runtime_state \<Rightarrow> string" where
  "runtime_value s = (case s of RtReady \<Rightarrow> ''ready'' | RtLocked \<Rightarrow> ''locked'' | RtUnavailable \<Rightarrow> ''unavailable'')"

definition register :: "broker_registration \<Rightarrow> (broker_registry, unit) prog" where
  "register r g = (if br_frozen g then (Inl (RuntimeError ''broker registry is frozen''), g)
     else if br_registrations g (rg_account_ref r) \<noteq> None
       then (Inl (ValueError ''duplicate broker registration''), g)
     else (Inr (), g\<lparr>br_registrations := (br_registrations g)(rg_account_ref r \<mapsto> r)\<rparr>))"

definition freeze :: "broker_registry \<Rightarrow> broker_registry" where
  "freeze g = g\<lparr>br_frozen := True\<rparr>"

definition registration :: "account_ref \<Rightarrow> broker_registry \<Rightarrow> broker_registration res" where
  "registration t g = (case br_registrations g t of Some r \<Rightarrow> Inr r
     | None \<Rightarrow> Inl (KeyError ''unknown broker execution target''))"

definition resolve :: "account_ref \<Rightarrow> broker_registry \<Rightarrow> broker_port res" where
  "resolve t g = (case registration t g of Inl e \<Rightarrow> Inl e
     | Inr r \<Rightarrow> if rg_state r \<noteq> RtReady
         then Inl (RuntimeError (''broker execution target is '' @ runtime_value (rg_state r)))
         else Inr (rg_port r))"

section \<open>Admission gates\<close>

datatype admission_subject = SubjRequest routed_request | SubjOrder routed_order

record admission_gate =
  ag_ordering :: "unit res"
  ag_order :: "(admission_subject \<Rightarrow> unit res) option"
  ag_cancel :: "(routed_order \<Rightarrow> unit res) option"

fun all_checks :: "unit res list \<Rightarrow> unit res" where
  "all_checks [] = Inr ()"
| "all_checks (r # rs) = (case r of Inl e \<Rightarrow> Inl e | Inr _ \<Rightarrow> all_checks rs)"

definition check_with :: "('a \<Rightarrow> unit res) option \<Rightarrow> 'a \<Rightarrow> unit res" where
  "check_with m x = (case m of None \<Rightarrow> Inr () | Some f \<Rightarrow> f x)"

definition composite_gate :: "admission_gate list \<Rightarrow> admission_gate res" where
  "composite_gate gs = (if gs = [] then Inl (ValueError ''at least one live order admission gate is required'')
     else Inr \<lparr>ag_ordering = all_checks (map ag_ordering gs),
       ag_order = Some (\<lambda>x. all_checks (map (\<lambda>g. check_with (ag_order g) x) gs)),
       ag_cancel = Some (\<lambda>x. all_checks (map (\<lambda>g. check_with (ag_cancel g) x) gs))\<rparr>)"

definition locked_gate :: "string \<Rightarrow> admission_gate" where
  "locked_gate why = \<lparr>ag_ordering = Inl (RuntimeError why), ag_order = None, ag_cancel = None\<rparr>"

section \<open>The manager\<close>

record order_manager =
  om_registry :: broker_registry
  om_gates :: "(account_ref \<times> admission_gate) list"

record manager_world =
  mw_repo :: live_repo
  mw_submitted :: "routed_order list"
  mw_cancelled :: "routed_order list"

definition assert_admitted :: "order_manager \<Rightarrow> account_ref \<Rightarrow> unit res" where
  "assert_admitted m t = (case resolve t (om_registry m) of Inl e \<Rightarrow> Inl e
     | Inr _ \<Rightarrow> if om_gates m = [] then Inr () else (case map_of (om_gates m) t of
         None \<Rightarrow> Inl (RuntimeError ''no admission gate configured for execution target'')
       | Some g \<Rightarrow> ag_ordering g))"

definition manager_gate :: "order_manager \<Rightarrow> account_ref \<Rightarrow> admission_gate option" where
  "manager_gate m t = (if om_gates m = [] then None else map_of (om_gates m) t)"

definition subject_target :: "admission_subject \<Rightarrow> account_ref" where
  "subject_target x = (case x of SubjRequest q \<Rightarrow> rq_target q | SubjOrder r \<Rightarrow> ro_target r)"

definition assert_order_admitted :: "order_manager \<Rightarrow> admission_subject \<Rightarrow> unit res" where
  "assert_order_admitted m x = (case manager_gate m (subject_target x) of None \<Rightarrow> Inr ()
     | Some g \<Rightarrow> check_with (ag_order g) x)"

definition assert_cancel_admitted :: "order_manager \<Rightarrow> routed_order \<Rightarrow> unit res" where
  "assert_cancel_admitted m r = (case manager_gate m (ro_target r) of None \<Rightarrow> Inr ()
     | Some g \<Rightarrow> check_with (ag_cancel g) r)"

text \<open>Run a store operation inside the world.\<close>

definition in_repo :: "(live_repo, 'a) prog \<Rightarrow> (manager_world, 'a) prog" where
  "in_repo f w = (let (r, s) = f (mw_repo w) in (r, w\<lparr>mw_repo := s\<rparr>))"

definition create :: "order_manager \<Rightarrow> routed_request \<Rightarrow> instant \<Rightarrow> (manager_world, broker_order \<times> bool) prog" where
  "create m rq now w = (case assert_admitted m (rq_target rq) of Inl e \<Rightarrow> (Inl e, w)
     | Inr _ \<Rightarrow> (case assert_order_admitted m (SubjRequest rq) of Inl e \<Rightarrow> (Inl e, w)
       | Inr _ \<Rightarrow> in_repo (reserve rq now) w))"

text \<open>\<open>dispatch_once\<close> up to the call of the broker: nothing to do, refused by the gate
  of the order, or sent.  The clock readings of one call are \<open>clk 0, clk 1, \<dots>\<close>.\<close>

datatype dispatch_stage = NothingPending | Refused broker_order | Sent routed_order broker_port

definition or_default :: "string \<Rightarrow> string \<Rightarrow> string" where
  "or_default s d = (if s = [] then d else s)"

definition dispatch_begin ::
  "order_manager \<Rightarrow> account_ref \<Rightarrow> (nat \<Rightarrow> instant) \<Rightarrow> (manager_world, dispatch_stage) prog" where
  "dispatch_begin m t clk w = (case assert_admitted m t of Inl e \<Rightarrow> (Inl e, w)
     | Inr _ \<Rightarrow> (case in_repo (claim_next t (clk 0)) w of
         (Inl e, w1) \<Rightarrow> (Inl e, w1)
       | (Inr None, w1) \<Rightarrow> (Inr NothingPending, w1)
       | (Inr (Some ro), w1) \<Rightarrow>
         if ro_target ro \<noteq> t
           then (Inl (RuntimeError ''durable outbox returned a different execution target''), w1)
         else (case assert_order_admitted m (SubjOrder ro) of
           Inl e \<Rightarrow> (let code = or_default (exc_str e) ''worker_admission_rejected'' in
             case in_repo (block_dispatch (ro_order ro) code (clk 1)) w1 of
               (Inl e', w2) \<Rightarrow> (Inl e', w2)
             | (Inr _, w2) \<Rightarrow> (case order_post_init ((ro_order ro)\<lparr>bo_status_reason := Some code,
                   bo_updated_at := clk 2\<rparr>) of Inl e' \<Rightarrow> (Inl e', w2) | Inr b \<Rightarrow> (Inr (Refused b), w2)))
         | Inr _ \<Rightarrow> (case resolve (ro_target ro) (om_registry m) of Inl e \<Rightarrow> (Inl e, w1)
           | Inr port \<Rightarrow> (Inr (Sent ro port), w1\<lparr>mw_submitted := mw_submitted w1 @ [ro]\<rparr>)))))"

text \<open>The rest of \<open>dispatch_once\<close>: the broker's answer, or UNKNOWN when the call raised.\<close>

definition submit_outcome :: "broker_port \<Rightarrow> broker_order \<Rightarrow> instant \<Rightarrow> broker_order res" where
  "submit_outcome port b now = (case bp_submit port (bo_request b) of Inr x \<Rightarrow> Inr x
     | Inl _ \<Rightarrow> transition_order b UNKNOWN now None None None
         (Some ''broker_call_failed_reconciliation_required''))"

definition dispatch_end ::
  "routed_order \<Rightarrow> broker_port \<Rightarrow> instant \<Rightarrow> (manager_world, broker_order) prog" where
  "dispatch_end ro port now w = (case submit_outcome port (ro_order ro) now of Inl e \<Rightarrow> (Inl e, w)
     | Inr b \<Rightarrow> (case in_repo (finish_dispatch b) w of (Inl e, w1) \<Rightarrow> (Inl e, w1)
       | (Inr _, w1) \<Rightarrow> (Inr b, w1)))"

definition dispatch_once ::
  "order_manager \<Rightarrow> account_ref \<Rightarrow> (nat \<Rightarrow> instant) \<Rightarrow> (manager_world, broker_order option) prog" where
  "dispatch_once m t clk w = (case dispatch_begin m t clk w of
       (Inl e, w1) \<Rightarrow> (Inl e, w1)
     | (Inr NothingPending, w1) \<Rightarrow> (Inr None, w1)
     | (Inr (Refused b), w1) \<Rightarrow> (Inr (Some b), w1)
     | (Inr (Sent ro port), w1) \<Rightarrow> (case dispatch_end ro port (clk 1) w1 of
         (Inl e, w2) \<Rightarrow> (Inl e, w2) | (Inr b, w2) \<Rightarrow> (Inr (Some b), w2)))"

definition request_cancel :: "order_manager \<Rightarrow> account_ref \<Rightarrow> string \<Rightarrow> string \<Rightarrow> instant
    \<Rightarrow> (manager_world, broker_order \<times> bool) prog" where
  "request_cancel m t owner cid now w = (case assert_admitted m t of Inl e \<Rightarrow> (Inl e, w)
     | Inr _ \<Rightarrow> (case get_routed owner cid (mw_repo w) of Inl e \<Rightarrow> (Inl e, w)
       | Inr None \<Rightarrow> (Inl (KeyError ''unknown platform live order''), w)
       | Inr (Some cur) \<Rightarrow>
         if ro_target cur \<noteq> t then (Inl (KeyError ''unknown platform live order''), w)
         else (case assert_cancel_admitted m cur of Inl e \<Rightarrow> (Inl e, w)
           | Inr _ \<Rightarrow> in_repo (reserve_cancel t owner cid now) w)))"

definition cancel_begin ::
  "order_manager \<Rightarrow> account_ref \<Rightarrow> (nat \<Rightarrow> instant) \<Rightarrow> (manager_world, dispatch_stage) prog" where
  "cancel_begin m t clk w = (case assert_admitted m t of Inl e \<Rightarrow> (Inl e, w)
     | Inr _ \<Rightarrow> (case in_repo (claim_next_cancel t (clk 0)) w of
         (Inl e, w1) \<Rightarrow> (Inl e, w1)
       | (Inr None, w1) \<Rightarrow> (Inr NothingPending, w1)
       | (Inr (Some ro), w1) \<Rightarrow>
         (case assert_cancel_admitted m ro of
           Inl e \<Rightarrow> (let code = or_default (exc_str e) ''worker_cancel_admission_rejected'' in
             case in_repo (block_cancel (ro_order ro) code (clk 1)) w1 of
               (Inl e', w2) \<Rightarrow> (Inl e', w2)
             | (Inr _, w2) \<Rightarrow> (case order_post_init ((ro_order ro)\<lparr>bo_status_reason := Some code,
                   bo_updated_at := clk 2\<rparr>) of Inl e' \<Rightarrow> (Inl e', w2) | Inr b \<Rightarrow> (Inr (Refused b), w2)))
         | Inr _ \<Rightarrow> (case resolve t (om_registry m) of Inl e \<Rightarrow> (Inl e, w1)
           | Inr port \<Rightarrow> (Inr (Sent ro port), w1\<lparr>mw_cancelled := mw_cancelled w1 @ [ro]\<rparr>)))))"

definition cancel_outcome :: "broker_port \<Rightarrow> broker_order \<Rightarrow> instant \<Rightarrow> broker_order res" where
  "cancel_outcome port b now = (case bp_cancel port b of Inr x \<Rightarrow> Inr x
     | Inl _ \<Rightarrow> transition_order b UNKNOWN now None None None
         (Some ''broker_cancel_failed_reconciliation_required''))"

definition cancel_end ::
  "routed_order \<Rightarrow> broker_port \<Rightarrow> instant \<Rightarrow> (manager_world, broker_order) prog" where
  "cancel_end ro port now w = (case cancel_outcome port (ro_order ro) now of Inl e \<Rightarrow> (Inl e, w)
     | Inr b \<Rightarrow> (case in_repo (finish_cancel b) w of (Inl e, w1) \<Rightarrow> (Inl e, w1)
       | (Inr _, w1) \<Rightarrow> (Inr b, w1)))"

definition dispatch_cancel_once ::
  "order_manager \<Rightarrow> account_ref \<Rightarrow> (nat \<Rightarrow> instant) \<Rightarrow> (manager_world, broker_order option) prog" where
  "dispatch_cancel_once m t clk w = (case cancel_begin m t clk w of
       (Inl e, w1) \<Rightarrow> (Inl e, w1)
     | (Inr NothingPending, w1) \<Rightarrow> (Inr None, w1)
     | (Inr (Refused b), w1) \<Rightarrow> (Inr (Some b), w1)
     | (Inr (Sent ro port), w1) \<Rightarrow> (case cancel_end ro port (clk 1) w1 of
         (Inl e, w2) \<Rightarrow> (Inl e, w2) | (Inr b, w2) \<Rightarrow> (Inr (Some b), w2)))"

section \<open>Reconciliation of single orders\<close>

definition refresh_and_save :: "broker_port \<Rightarrow> broker_order \<Rightarrow> (manager_world, broker_order) prog" where
  "refresh_and_save port cur w = (case bp_refresh port cur of Inl e \<Rightarrow> (Inl e, w)
     | Inr b \<Rightarrow> (case in_repo (save_reconciliation b) w of (Inl e, w1) \<Rightarrow> (Inl e, w1)
       | (Inr _, w1) \<Rightarrow> (Inr b, w1)))"

definition reconcile_order :: "order_manager \<Rightarrow> string \<Rightarrow> string \<Rightarrow> (manager_world, broker_order) prog" where
  "reconcile_order m owner cid w = (case get_routed owner cid (mw_repo w) of Inl e \<Rightarrow> (Inl e, w)
     | Inr None \<Rightarrow> (Inl (KeyError (''unknown client order: '' @ cid)), w)
     | Inr (Some cur) \<Rightarrow> (case resolve (ro_target cur) (om_registry m) of Inl e \<Rightarrow> (Inl e, w)
       | Inr port \<Rightarrow> refresh_and_save port (ro_order cur) w))"

definition reconcile_by_broker_order_id ::
  "order_manager \<Rightarrow> account_ref \<Rightarrow> string \<Rightarrow> (manager_world, broker_order option) prog" where
  "reconcile_by_broker_order_id m t bid w = (case get_by_broker_order_id t bid (mw_repo w) of
       Inl e \<Rightarrow> (Inl e, w)
     | Inr None \<Rightarrow> (Inr None, w)
     | Inr (Some cur) \<Rightarrow> (case resolve t (om_registry m) of Inl e \<Rightarrow> (Inl e, w)
       | Inr port \<Rightarrow> (case refresh_and_save port cur w of (Inl e, w1) \<Rightarrow> (Inl e, w1)
         | (Inr b, w1) \<Rightarrow> (Inr (Some b), w1))))"

definition refresh_outcome :: "broker_port \<Rightarrow> broker_order \<Rightarrow> instant \<Rightarrow> broker_order res" where
  "refresh_outcome port cur now = (case bp_refresh port cur of Inr b \<Rightarrow> Inr b
     | Inl _ \<Rightarrow> transition_order cur UNKNOWN now None None None (Some ''broker_reconciliation_failed''))"

fun reconcile_loop :: "broker_port \<Rightarrow> (nat \<Rightarrow> instant) \<Rightarrow> broker_order list
    \<Rightarrow> (manager_world, broker_order list) prog" where
  "reconcile_loop port clk [] w = (Inr [], w)"
| "reconcile_loop port clk (cur # rest) w =
     (case refresh_outcome port cur (clk 0) of Inl e \<Rightarrow> (Inl e, w)
      | Inr b \<Rightarrow> (case in_repo (save_reconciliation b) w of (Inl e, w1) \<Rightarrow> (Inl e, w1)
        | (Inr _, w1) \<Rightarrow> (case reconcile_loop port (\<lambda>i. clk (Suc i)) rest w1 of (Inl e, w2) \<Rightarrow> (Inl e, w2)
          | (Inr bs, w2) \<Rightarrow> (Inr (b # bs), w2))))"

definition reconcile_broker_orders :: "order_manager \<Rightarrow> account_ref \<Rightarrow> string option \<Rightarrow> (nat \<Rightarrow> instant)
    \<Rightarrow> (manager_world, broker_order list) prog" where
  "reconcile_broker_orders m t owner clk w = (case resolve t (om_registry m) of Inl e \<Rightarrow> (Inl e, w)
     | Inr port \<Rightarrow> (case reconciliation_candidates t owner (mw_repo w) of Inl e \<Rightarrow> (Inl e, w)
       | Inr orders \<Rightarrow> reconcile_loop port clk orders w))"

end
