(* ===== verification/Recovery_Lock.thy ===== *)
theory Recovery_Lock
  imports Broker_Models
begin

text \<open>
  The persistent startup gate of \<open>tw_quant/broker/recovery.py\<close>: one row per account with
  a status and a generation, and the operations \<open>state\<close>, \<open>begin\<close>, \<open>force_lock\<close>,
  \<open>complete\<close> and \<open>assert_ready\<close>.  The contract a client relies on (\<open>RecoveryLockStore\<close>)
  is the locale \<open>recovery_lock\<close>, interpreted on the table at the end.
\<close>

datatype recovery_status = Locked | Reconciling | Ready

record recovery_state =
  rl_broker_name :: string
  rl_account_id :: string
  rl_status :: recovery_status
  rl_updated_at :: instant
  rl_generation :: int
  rl_issue_codes :: "string list"

type_synonym recovery_table = "recovery_state list"

definition recovery_ready :: "recovery_state \<Rightarrow> bool" where
  "recovery_ready r \<longleftrightarrow> rl_status r = Ready"

definition lock_row :: "string \<Rightarrow> string \<Rightarrow> recovery_table \<Rightarrow> recovery_state option" where
  "lock_row bn acc tb = find (\<lambda>r. rl_broker_name r = bn \<and> rl_account_id r = acc) tb"

definition validate_identity :: "string \<Rightarrow> string \<Rightarrow> unit res" where
  "validate_identity bn acc = (if blank bn \<or> blank acc
     then Inl (ValueError ''broker_name and account_id are required'') else Inr ())"

definition validate_time :: "pytime \<Rightarrow> instant res" where
  "validate_time t = (case t of Aware i \<Rightarrow> Inr i
     | Naive _ \<Rightarrow> Inl (ValueError ''recovery lock updated_at must be timezone-aware''))"

definition recovery_state_of :: "string \<Rightarrow> string \<Rightarrow> instant \<Rightarrow> (recovery_table, recovery_state) prog" where
  "recovery_state_of bn acc now tb =
     (case validate_identity bn acc of Inl e \<Rightarrow> (Inl e, tb)
      | Inr _ \<Rightarrow> (case lock_row bn acc tb of Some r \<Rightarrow> (Inr r, tb)
        | None \<Rightarrow> (let r = \<lparr>rl_broker_name = bn, rl_account_id = acc, rl_status = Locked,
              rl_updated_at = now, rl_generation = 0, rl_issue_codes = [''reconciliation_required'']\<rparr>
            in (Inr r, tb @ [r]))))"

text \<open>The upsert of \<open>begin\<close> and \<open>force_lock\<close>: a new row has generation 1, an existing
  one the next generation.\<close>

definition lock_upsert ::
  "string \<Rightarrow> string \<Rightarrow> recovery_status \<Rightarrow> string list \<Rightarrow> instant \<Rightarrow> recovery_table \<Rightarrow> recovery_table" where
  "lock_upsert bn acc st codes t tb = (if lock_row bn acc tb = None
     then tb @ [\<lparr>rl_broker_name = bn, rl_account_id = acc, rl_status = st, rl_updated_at = t,
                 rl_generation = 1, rl_issue_codes = codes\<rparr>]
     else tbl_update (\<lambda>r. rl_broker_name r = bn \<and> rl_account_id r = acc)
       (\<lambda>r. r\<lparr>rl_status := st, rl_issue_codes := codes, rl_updated_at := t,
              rl_generation := rl_generation r + 1\<rparr>) tb)"

definition locked_write ::
  "string \<Rightarrow> string \<Rightarrow> recovery_status \<Rightarrow> string list \<Rightarrow> pytime \<Rightarrow> (recovery_table, recovery_state) prog" where
  "locked_write bn acc st codes t tb =
     (case validate_identity bn acc of Inl e \<Rightarrow> (Inl e, tb)
      | Inr _ \<Rightarrow> (case validate_time t of Inl e \<Rightarrow> (Inl e, tb)
        | Inr i \<Rightarrow> (let tb' = lock_upsert bn acc st codes i tb in
            case lock_row bn acc tb' of None \<Rightarrow> (Inl AssertionError, tb') | Some r \<Rightarrow> (Inr r, tb'))))"

definition recovery_begin :: "string \<Rightarrow> string \<Rightarrow> pytime \<Rightarrow> (recovery_table, recovery_state) prog" where
  "recovery_begin bn acc t tb = locked_write bn acc Reconciling [''reconciliation_in_progress''] t tb"

definition force_lock ::
  "string \<Rightarrow> string \<Rightarrow> string list \<Rightarrow> pytime \<Rightarrow> (recovery_table, recovery_state) prog" where
  "force_lock bn acc codes t tb = locked_write bn acc Locked
     (if dedup codes = [] then [''reconciliation_required''] else dedup codes) t tb"

text \<open>The update of \<open>complete\<close>, restricted to the expected generation.\<close>

definition complete_update ::
  "string \<Rightarrow> string \<Rightarrow> string list \<Rightarrow> int \<Rightarrow> instant \<Rightarrow> recovery_table \<Rightarrow> recovery_table" where
  "complete_update bn acc codes g i tb =
     tbl_update (\<lambda>r. rl_broker_name r = bn \<and> rl_account_id r = acc \<and> rl_generation r = g)
       (\<lambda>r. r\<lparr>rl_status := (if codes = [] then Ready else Locked),
              rl_issue_codes := dedup codes, rl_updated_at := i\<rparr>) tb"

definition recovery_complete ::
  "string \<Rightarrow> string \<Rightarrow> string list \<Rightarrow> int \<Rightarrow> pytime \<Rightarrow> (recovery_table, recovery_state) prog" where
  "recovery_complete bn acc codes g t tb =
     (case validate_identity bn acc of Inl e \<Rightarrow> (Inl e, tb)
      | Inr _ \<Rightarrow> (case validate_time t of Inl e \<Rightarrow> (Inl e, tb)
        | Inr i \<Rightarrow>
          if g < 1 then (Inl (ValueError ''expected_generation must be positive''), tb)
          else if \<not> (\<exists>r \<in> set tb. rl_broker_name r = bn \<and> rl_account_id r = acc \<and> rl_generation r = g)
            then (Inl (RuntimeError ''stale recovery reconciliation cannot change lock''), tb)
          else (let tb' = complete_update bn acc codes g i tb in
            case lock_row bn acc tb' of None \<Rightarrow> (Inl AssertionError, tb') | Some r \<Rightarrow> (Inr r, tb'))))"

definition assert_ready :: "string \<Rightarrow> string \<Rightarrow> instant \<Rightarrow> (recovery_table, unit) prog" where
  "assert_ready bn acc now tb = (case recovery_state_of bn acc now tb of (Inl e, tb') \<Rightarrow> (Inl e, tb')
     | (Inr r, tb') \<Rightarrow> if recovery_ready r then (Inr (), tb')
         else (Inl (RuntimeError (''live recovery lock is active: '' @
           (let m = join '','' (rl_issue_codes r) in
            if m = [] then ''reconciliation_required'' else m))), tb'))"

datatype recovery_op =
    ReadState string string instant
  | BeginRec string string pytime
  | ForceLock string string "string list" pytime
  | CompleteRec string string "string list" int pytime

fun recovery_step :: "recovery_table \<Rightarrow> recovery_op \<Rightarrow> recovery_table" where
  "recovery_step tb (ReadState bn acc now) = snd (recovery_state_of bn acc now tb)"
| "recovery_step tb (BeginRec bn acc t) = snd (recovery_begin bn acc t tb)"
| "recovery_step tb (ForceLock bn acc codes t) = snd (force_lock bn acc codes t tb)"
| "recovery_step tb (CompleteRec bn acc codes g t) = snd (recovery_complete bn acc codes g t tb)"

section \<open>The interface\<close>

text \<open>What a client knows of a recovery lock: generations only grow, a step that keeps
  the generation of an account makes it ready only by completing that very generation
  without issues.\<close>

locale recovery_lock =
  fixes step :: "'s \<Rightarrow> 'op \<Rightarrow> 's"
    and gen :: "'s \<Rightarrow> 'k \<Rightarrow> int"
    and ready :: "'s \<Rightarrow> 'k \<Rightarrow> bool"
    and clean :: "'op \<Rightarrow> 'k \<Rightarrow> int \<Rightarrow> bool"
  assumes gen_mono: "gen s k \<le> gen (step s x) k"
    and ready_cause: "ready (step s x) k \<Longrightarrow>
      gen (step s x) k = gen s k \<and> (ready s k \<or> clean x k (gen s k))"
begin

lemma run_gen_mono: "gen s k \<le> gen (run step s xs) k"
  by (induction xs arbitrary: s) (auto intro: order_trans gen_mono)

text \<open>A ready account was ready from the start, or became ready by a clean completion of
  the generation it still has.\<close>

lemma run_ready_cause:
  assumes "ready (run step s xs) k"
  shows "(ready s k \<and> gen (run step s xs) k = gen s k) \<or>
    (\<exists>ys x zs. xs = ys @ x # zs \<and> clean x k (gen (run step s ys) k)
       \<and> gen (run step s xs) k = gen (run step s ys) k)"
  using assms
proof (induction xs rule: rev_induct)
  case (snoc x xs)
  let ?t = "run step s xs"
  have r: "run step s (xs @ [x]) = step ?t x" by (simp add: run_append)
  with snoc.prems have "gen (step ?t x) k = gen ?t k" "ready ?t k \<or> clean x k (gen ?t k)"
    using ready_cause by auto
  then show ?case
  proof (elim disjE)
    assume g: "gen (step ?t x) k = gen ?t k" and "ready ?t k"
    from snoc.IH [OF this(2)] show ?thesis
    proof (elim disjE exE conjE)
      fix ys y zs assume "xs = ys @ y # zs" "clean y k (gen (run step s ys) k)"
        "gen ?t k = gen (run step s ys) k"
      with g r have "xs @ [x] = ys @ y # (zs @ [x]) \<and> clean y k (gen (run step s ys) k) \<and>
          gen (run step s (xs @ [x])) k = gen (run step s ys) k" by simp
      then show ?thesis by blast
    qed (use g r in simp)
  next
    assume "gen (step ?t x) k = gen ?t k" and "clean x k (gen ?t k)"
    with r show ?thesis by (metis append_Nil2)
  qed
qed simp

text \<open>A completion that refers to an older generation is powerless: after any step that
  raised the generation, the account is not made ready by completing the old one.\<close>

lemma stale_never_readies:
  assumes "gen s k < gen (step s x) k" and "ready (run step (step s x) xs) k"
  shows "\<exists>ys y zs. xs = ys @ y # zs \<and> clean y k (gen (run step (step s x) ys) k)
    \<and> gen s k < gen (run step (step s x) ys) k"
proof -
  have "\<not> ready (step s x) k" using ready_cause assms(1) by fastforce
  with run_ready_cause [OF assms(2)] obtain ys y zs where *: "xs = ys @ y # zs"
    "clean y k (gen (run step (step s x) ys) k)" by blast
  have "gen (step s x) k \<le> gen (run step (step s x) ys) k" by (rule run_gen_mono)
  with * assms(1) show ?thesis by force
qed

end

section \<open>The table keeps the contract\<close>

definition lock_gen :: "recovery_table \<Rightarrow> string \<times> string \<Rightarrow> int" where
  "lock_gen tb k = (case lock_row (fst k) (snd k) tb of None \<Rightarrow> 0 | Some r \<Rightarrow> rl_generation r)"

definition lock_ready :: "recovery_table \<Rightarrow> string \<times> string \<Rightarrow> bool" where
  "lock_ready tb k = (case lock_row (fst k) (snd k) tb of None \<Rightarrow> False | Some r \<Rightarrow> recovery_ready r)"

fun clean_completion :: "recovery_op \<Rightarrow> string \<times> string \<Rightarrow> int \<Rightarrow> bool" where
  "clean_completion (CompleteRec bn acc codes g t) k n = ((bn, acc) = k \<and> codes = [] \<and> g = n)"
| "clean_completion _ k n = False"

lemma clean_completion_cases: "clean_completion x k n \<Longrightarrow>
    \<exists>bn acc g t. x = CompleteRec bn acc [] g t \<and> k = (bn, acc) \<and> g = n"
  by (cases x) auto

lemma lock_row_append: "lock_row bn acc (tb @ [r]) = (case lock_row bn acc tb of Some q \<Rightarrow> Some q
    | None \<Rightarrow> if rl_broker_name r = bn \<and> rl_account_id r = acc then Some r else None)"
  by (simp add: lock_row_def find_append split: option.split)

lemma lock_row_update:
  assumes "\<And>r. rl_broker_name (f r) = rl_broker_name r \<and> rl_account_id (f r) = rl_account_id r"
  shows "lock_row bn acc (tbl_update p f tb) = map_option (\<lambda>r. if p r then f r else r) (lock_row bn acc tb)"
  using assms by (induction tb) (auto simp: lock_row_def tbl_update_def)

lemma lock_row_keys: "lock_row bn acc tb = Some r \<Longrightarrow> rl_broker_name r = bn \<and> rl_account_id r = acc"
  by (auto simp: lock_row_def dest: find_SomeD)

lemma lock_row_upsert_other:
  assumes "(bn', acc') \<noteq> (bn, acc)"
  shows "lock_row bn' acc' (lock_upsert bn acc st codes i tb) = lock_row bn' acc' tb"
  using assms
  by (auto simp: lock_upsert_def lock_row_append lock_row_update map_option_case
      split: option.split dest: lock_row_keys)

lemma lock_row_upsert_same:
  "\<exists>q. lock_row bn acc (lock_upsert bn acc st codes i tb) = Some q \<and> rl_status q = st
     \<and> rl_generation q = lock_gen tb (bn, acc) + 1"
proof (cases "lock_row bn acc tb")
  case None
  then show ?thesis by (simp add: lock_upsert_def lock_row_append lock_gen_def)
next
  case (Some r)
  then show ?thesis using lock_row_keys [OF Some]
    by (simp add: lock_upsert_def lock_row_update lock_gen_def)
qed

lemma lock_gen_upsert: "lock_gen (lock_upsert bn acc st codes i tb) k =
    (if k = (bn, acc) then lock_gen tb k + 1 else lock_gen tb k)"
proof (cases "k = (bn, acc)")
  case True
  with lock_row_upsert_same [of bn acc st codes i tb] show ?thesis by (auto simp: lock_gen_def)
next
  case False
  then show ?thesis using lock_row_upsert_other [of "fst k" "snd k" bn acc st codes i tb]
    by (auto simp: lock_gen_def)
qed

lemma lock_ready_upsert: "lock_ready (lock_upsert bn acc st codes i tb) k =
    (if k = (bn, acc) then st = Ready else lock_ready tb k)"
proof (cases "k = (bn, acc)")
  case True
  with lock_row_upsert_same [of bn acc st codes i tb] show ?thesis
    by (auto simp: lock_ready_def recovery_ready_def)
next
  case False
  then show ?thesis using lock_row_upsert_other [of "fst k" "snd k" bn acc st codes i tb]
    by (auto simp: lock_ready_def)
qed

lemma locked_write_table:
  "snd (locked_write bn acc st codes t tb) = tb \<or>
   (\<exists>i. snd (locked_write bn acc st codes t tb) = lock_upsert bn acc st codes i tb)"
  by (auto simp: locked_write_def Let_def split: sum.splits option.splits)

lemma recovery_state_of_table:
  "lock_gen (snd (recovery_state_of bn acc now tb)) k = lock_gen tb k \<and>
   lock_ready (snd (recovery_state_of bn acc now tb)) k = lock_ready tb k"
  by (cases k) (auto simp: recovery_state_of_def Let_def lock_gen_def lock_ready_def lock_row_append
      recovery_ready_def split: sum.splits option.splits)

lemma lock_row_complete:
  "lock_row bn' acc' (complete_update bn acc codes g i tb) = map_option (\<lambda>r.
      if rl_broker_name r = bn \<and> rl_account_id r = acc \<and> rl_generation r = g
      then r\<lparr>rl_status := (if codes = [] then Ready else Locked), rl_issue_codes := dedup codes,
             rl_updated_at := i\<rparr> else r) (lock_row bn' acc' tb)"
  unfolding complete_update_def by (rule lock_row_update) simp

lemma lock_gen_complete: "lock_gen (complete_update bn acc codes g i tb) k = lock_gen tb k"
  by (cases "lock_row (fst k) (snd k) tb") (simp_all add: lock_gen_def lock_row_complete)

lemma lock_ready_complete:
  assumes "lock_ready (complete_update bn acc codes g i tb) k"
  shows "lock_ready tb k \<or> (k = (bn, acc) \<and> codes = [] \<and> g = lock_gen tb k)"
proof (cases "lock_row (fst k) (snd k) tb")
  case (Some r)
  note lock_row_keys [OF Some]
  with Some assms show ?thesis
    by (cases k) (simp add: lock_ready_def lock_gen_def lock_row_complete recovery_ready_def
        split: if_splits)
qed (use assms in \<open>simp add: lock_ready_def lock_row_complete\<close>)

lemma recovery_complete_table:
  "snd (recovery_complete bn acc codes g t tb) = tb \<or>
   (\<exists>i. snd (recovery_complete bn acc codes g t tb) = complete_update bn acc codes g i tb)"
  by (auto simp: recovery_complete_def Let_def split: sum.splits option.splits)

interpretation sqlite_lock: recovery_lock recovery_step lock_gen lock_ready clean_completion
proof
  fix tb x k
  show "lock_gen tb k \<le> lock_gen (recovery_step tb x) k"
  proof (cases x)
    case (ReadState bn acc now)
    then show ?thesis by (simp add: recovery_state_of_table)
  next
    case (BeginRec bn acc t)
    then show ?thesis
      using locked_write_table [of bn acc Reconciling "[''reconciliation_in_progress'']" t tb]
      by (auto simp: recovery_begin_def lock_gen_upsert)
  next
    case (ForceLock bn acc codes t)
    let ?codes = "if dedup codes = [] then [''reconciliation_required''] else dedup codes"
    from ForceLock show ?thesis using locked_write_table [of bn acc Locked ?codes t tb]
      by (auto simp: force_lock_def lock_gen_upsert)
  next
    case (CompleteRec bn acc codes g t)
    then show ?thesis using recovery_complete_table [of bn acc codes g t tb]
      by (auto simp: lock_gen_complete)
  qed
next
  fix tb x k assume r: "lock_ready (recovery_step tb x) k"
  show "lock_gen (recovery_step tb x) k = lock_gen tb k \<and> (lock_ready tb k \<or> clean_completion x k (lock_gen tb k))"
  proof (cases x)
    case (ReadState bn acc now)
    with r show ?thesis by (simp add: recovery_state_of_table)
  next
    case (BeginRec bn acc t)
    with r show ?thesis
      using locked_write_table [of bn acc Reconciling "[''reconciliation_in_progress'']" t tb]
      by (auto simp: recovery_begin_def lock_ready_upsert lock_gen_upsert split: if_splits)
  next
    case (ForceLock bn acc codes t)
    let ?codes = "if dedup codes = [] then [''reconciliation_required''] else dedup codes"
    from ForceLock r show ?thesis
      using locked_write_table [of bn acc Locked ?codes t tb]
      by (auto simp: force_lock_def lock_ready_upsert lock_gen_upsert split: if_splits)
  next
    case (CompleteRec bn acc codes g t)
    with r show ?thesis
      using recovery_complete_table [of bn acc codes g t tb]
      by (auto simp: lock_gen_complete dest: lock_ready_complete)
  qed
qed

section \<open>Properties\<close>

text \<open>C10. Trading on an account is unlocked only by evidence: if, after any sequence of
  operations on an empty lock table, an account is ready, then some completion without
  issues referred to exactly the generation the account still has, so no reconciliation
  was started and no lock was forced since.\<close>

theorem ready_needs_current_clean_completion:
  assumes "lock_ready (run recovery_step [] ops) k"
  shows "\<exists>ys bn acc g t zs. ops = ys @ CompleteRec bn acc [] g t # zs \<and> k = (bn, acc)
    \<and> g = lock_gen (run recovery_step [] ys) k \<and> lock_gen (run recovery_step [] ops) k = g"
proof -
  have "\<not> lock_ready [] k" by (simp add: lock_ready_def lock_row_def)
  with sqlite_lock.run_ready_cause [OF assms] obtain ys x zs where *: "ops = ys @ x # zs"
    "clean_completion x k (lock_gen (run recovery_step [] ys) k)"
    "lock_gen (run recovery_step [] ops) k = lock_gen (run recovery_step [] ys) k" by blast
  obtain bn acc g t where x: "x = CompleteRec bn acc [] g t" "k = (bn, acc)"
    "g = lock_gen (run recovery_step [] ys) k"
    using clean_completion_cases [OF *(2)] by blast
  have ops: "ops = ys @ CompleteRec bn acc [] g t # zs" using *(1) x(1) by simp
  have g: "lock_gen (run recovery_step [] ops) k = g" using *(3) x(3) by simp
  show ?thesis by (intro exI conjI) (rule ops, rule x(2), rule x(3), rule g)
qed

theorem ready_needs_current_clean_completion_witness:
  "\<exists>ys bn acc g t zs. [BeginRec ''b'' ''a'' (Aware 1), CompleteRec ''b'' ''a'' [] 1 (Aware 2)]
      = ys @ CompleteRec bn acc [] g t # zs \<and> (''b'', ''a'') = (bn, acc)"
proof -
  have "lock_ready (run recovery_step [] [BeginRec ''b'' ''a'' (Aware 1),
      CompleteRec ''b'' ''a'' [] 1 (Aware 2)]) (''b'', ''a'')" by code_simp
  from ready_needs_current_clean_completion [OF this] show ?thesis by blast
qed

text \<open>A stale reconciliation cannot unlock: when a reconciliation began with some
  generation and the account was locked by force afterwards, completing with that
  generation fails and leaves the table as it is.\<close>

theorem stale_completion_rejected:
  assumes "force_lock bn acc codes t tb = (Inr r, tb')" and "g \<le> lock_gen tb (bn, acc)" and "1 \<le> g"
    and "\<not> blank bn" and "\<not> blank acc"
    and "distinct (map (\<lambda>q. (rl_broker_name q, rl_account_id q)) tb)"
  shows "recovery_complete bn acc issues g (Aware i) tb'
    = (Inl (RuntimeError ''stale recovery reconciliation cannot change lock''), tb')"
proof -
  obtain j cs where tb': "tb' = lock_upsert bn acc Locked cs j tb"
    using assms(1) by (auto simp: force_lock_def locked_write_def Let_def split: sum.splits option.splits)
  have "rl_generation q = lock_gen tb (bn, acc) + 1"
    if q: "q \<in> set tb'" and qk: "rl_broker_name q = bn" "rl_account_id q = acc" for q
  proof (cases "lock_row bn acc tb")
    case None
    then have "q = \<lparr>rl_broker_name = bn, rl_account_id = acc, rl_status = Locked, rl_updated_at = j,
        rl_generation = 1, rl_issue_codes = cs\<rparr>"
      using q qk find_NoneD [OF None [unfolded lock_row_def], of q] by (auto simp: tb' lock_upsert_def)
    then have "rl_generation q = 1" by (metis recovery_state.select_convs(5))
    with None show ?thesis by (simp add: lock_gen_def)
  next
    case (Some p)
    with q have "q \<in> set (tbl_update (\<lambda>r. rl_broker_name r = bn \<and> rl_account_id r = acc)
       (\<lambda>r. r\<lparr>rl_status := Locked, rl_issue_codes := cs, rl_updated_at := j,
              rl_generation := rl_generation r + 1\<rparr>) tb)" by (simp add: tb' lock_upsert_def)
    from tbl_update_origin [OF this] obtain q0 where "q0 \<in> set tb"
      and e: "q = (if rl_broker_name q0 = bn \<and> rl_account_id q0 = acc
         then q0\<lparr>rl_status := Locked, rl_issue_codes := cs, rl_updated_at := j,
                 rl_generation := rl_generation q0 + 1\<rparr> else q0)" by blast
    moreover from e qk have "rl_broker_name q0 = bn \<and> rl_account_id q0 = acc"
      by (cases "rl_broker_name q0 = bn \<and> rl_account_id q0 = acc") simp_all
    ultimately have q0: "q0 \<in> set tb" "rl_broker_name q0 = bn" "rl_account_id q0 = acc"
      "rl_generation q = rl_generation q0 + 1" by simp_all
    have "p \<in> set tb" "rl_broker_name p = bn" "rl_account_id p = acc"
      using Some by (auto simp: lock_row_def dest: find_SomeD)
    then have "p = q0" using assms(6) q0 by (auto dest: distinct_key_inj)
    with q0 Some show ?thesis by (simp add: lock_gen_def)
  qed
  then have "\<not> (\<exists>r \<in> set tb'. rl_broker_name r = bn \<and> rl_account_id r = acc \<and> rl_generation r = g)"
    using assms(2) by force
  then show ?thesis using assms(3-5) by (simp add: recovery_complete_def validate_identity_def validate_time_def)
qed

end
