(* ===== verification/Live_Positions.thy ===== *)
theory Live_Positions
  imports Outbox_Recovery
begin

text \<open>
  Idempotence of \<open>reserve\<close> and \<open>apply_reconciled_snapshot\<close> of \<open>repository.py\<close>, and the
  position ledger as a projection of the recorded fills.
\<close>

section \<open>Reservations\<close>

lemma reserve_row:
  assumes "reserve rq now s = (Inr (b, c), s1)"
  shows "\<exists>row. find (\<lambda>r. or_client_order_id r = req_client_order_id (rq_request rq)) (lr_orders s1) = Some row
    \<and> order_of_row row = Inr b \<and> target_of_row row = Inr (Some (rq_target rq))
    \<and> req_owner_id (bo_request b) = req_owner_id (rq_request rq)
    \<and> req_mode (rq_request rq) = Live \<and> \<not> lr_in_txn s1"
  using assms by (auto simp: reserve_def reserve_insert_def Let_def split: sum.splits option.splits if_splits)

lemma reserve_existing:
  assumes "find (\<lambda>r. or_client_order_id r = req_client_order_id (rq_request rq)) (lr_orders s) = Some row"
    and "order_of_row row = Inr b" and "req_mode (rq_request rq) = Live" and "1 \<le> req_quantity (rq_request rq)"
    and "\<not> lr_in_txn s"
  shows "reserve rq now s =
    (if req_owner_id (bo_request b) \<noteq> req_owner_id (rq_request rq)
     then (Inl (ValueError ''client_order_id already belongs to another owner''), s)
     else case target_of_row row of Inl e \<Rightarrow> (Inl e, s)
     | Inr t \<Rightarrow> if t \<noteq> Some (rq_target rq)
         then (Inl (ValueError ''client_order_id already belongs to another target''), s)
         else (Inr (b, False), s))"
proof -
  let ?o = "\<lparr>bo_request = rq_request rq, bo_status = RISK_APPROVED, bo_updated_at = now,
          bo_broker_order_id = None, bo_filled_quantity = 0, bo_average_fill_price = None,
          bo_status_reason = Some ''durably_reserved''\<rparr>"
  have "order_post_init ?o = Inr ?o" using assms(4) by (simp add: valid_order_iff nonpositive_def)
  then show ?thesis using assms(1-3,5) by (simp add: reserve_def Let_def split: sum.split)
qed

text \<open>Reserving is idempotent: after a reservation succeeded, reserving the same
  request again, at any later time, returns the same stored order, reports that nothing
  was created and leaves the store as it is.\<close>

lemma reserve_idempotent:
  assumes "reserve rq now s = (Inr (b, c), s1)" and "valid_request (rq_request rq)"
  shows "reserve rq now' s1 = (Inr (b, False), s1)"
proof -
  from reserve_row [OF assms(1)] obtain row where row:
    "find (\<lambda>r. or_client_order_id r = req_client_order_id (rq_request rq)) (lr_orders s1) = Some row"
    "order_of_row row = Inr b" "target_of_row row = Inr (Some (rq_target rq))"
    "req_owner_id (bo_request b) = req_owner_id (rq_request rq)" "req_mode (rq_request rq) = Live"
    "\<not> lr_in_txn s1"
    by blast
  from reserve_existing [OF row(1,2,5) valid_request_quantity [OF assms(2)] row(6)] row(3,4)
  show ?thesis by simp
qed

section \<open>Fills\<close>

lemma fill_key_of [simp]: "fill_key (fill_row_of t r f) = (broker_name t, account_id t, fs_fill_id f)"
  by (simp add: fill_key_def fill_row_of_def)

lemma insert_fill_key:
  "insert_fill t rs f fills = Inr fills' \<Longrightarrow>
     (broker_name t, account_id t, fs_fill_id f) \<in> fill_key ` set fills' \<and>
     fill_key ` set fills \<subseteq> fill_key ` set fills' \<and>
     find (\<lambda>r. at_target t r \<and> or_broker_order_id r = Some (fs_broker_order_id f)) rs \<noteq> None"
  by (auto simp: insert_fill_def Let_def split: option.splits if_splits)

lemma insert_fill_distinct:
  "insert_fill t rs f fills = Inr fills' \<Longrightarrow> distinct (map fill_key fills) \<Longrightarrow> distinct (map fill_key fills')"
  by (auto simp: insert_fill_def Let_def split: option.splits if_splits)

lemma insert_fill_again:
  assumes "(broker_name t, account_id t, fs_fill_id f) \<in> fill_key ` set fills"
    and "find (\<lambda>r. at_target t r \<and> or_broker_order_id r = Some (fs_broker_order_id f)) rs \<noteq> None"
  shows "insert_fill t rs f fills = Inr fills"
  using assms by (auto simp: insert_fill_def Let_def split: option.splits)

lemma insert_fills_again:
  assumes "foldM (insert_fill t rs) fs fills = Inr fills'"
  shows "foldM (insert_fill t rs) fs fills' = Inr fills'"
proof -
  have "\<forall>f \<in> set fs. (broker_name t, account_id t, fs_fill_id f) \<in> fill_key ` set fills' \<and>
      find (\<lambda>r. at_target t r \<and> or_broker_order_id r = Some (fs_broker_order_id f)) rs \<noteq> None"
    by (rule foldM_each [OF assms]) (use insert_fill_key in blast)+
  then show ?thesis by (induction fs) (simp_all add: insert_fill_again)
qed

section \<open>Positions\<close>

lemma upsert_position_same:
  "\<forall>p \<in> set (upsert_position t now fills (u, c) ps). position_at t u c p \<longrightarrow>
     pr_quantity p = fills_total t u c fills"
  by (auto simp: upsert_position_def Let_def ball_tbl_update position_at_def)

lemma upsert_position_exists: "\<exists>p \<in> set (upsert_position t now fills (u, c) ps). position_at t u c p"
proof (cases "\<exists>p \<in> set ps. position_at t u c p")
  case True
  then show ?thesis by (auto simp: upsert_position_def Let_def bex_tbl_update position_at_def)
next
  case False
  then show ?thesis by (auto simp: upsert_position_def Let_def position_at_def)
qed

lemma position_at_inj: "position_at t u c p \<Longrightarrow> position_at t u' c' p \<Longrightarrow> u' = u \<and> c' = c"
  by (simp add: position_at_def)

lemma upsert_position_other:
  assumes "(u', c') \<noteq> (u, c)"
  shows "filter (position_at t u' c') (upsert_position t now fills (u, c) ps) = filter (position_at t u' c') ps"
proof -
  have other: "position_at t u c p \<Longrightarrow> \<not> position_at t u' c' p" for p
    using assms position_at_inj by blast
  have "filter (position_at t u' c')
      (tbl_update (position_at t u c) (\<lambda>p. p\<lparr>pr_quantity := q, pr_updated_at := now\<rparr>) ps)
    = filter (position_at t u' c') ps" for q
    using other by (induction ps) (auto simp: tbl_update_def position_at_def)
  then show ?thesis using assms
    by (auto simp: upsert_position_def Let_def position_at_def)
qed

definition position_agrees :: "account_ref \<Rightarrow> fill_row list \<Rightarrow> position_row list \<Rightarrow> string \<times> string \<Rightarrow> bool" where
  "position_agrees t fills ps k = (case k of (u, c) \<Rightarrow>
     (\<exists>p \<in> set ps. position_at t u c p) \<and>
     (\<forall>p \<in> set ps. position_at t u c p \<longrightarrow> pr_quantity p = fills_total t u c fills))"

lemma position_agrees_filter: "position_agrees t fills ps (u, c) \<longleftrightarrow> filter (position_at t u c) ps \<noteq> [] \<and>
    (\<forall>p \<in> set (filter (position_at t u c) ps). pr_quantity p = fills_total t u c fills)"
  by (auto simp: position_agrees_def filter_empty_conv)

lemma upserts_agree:
  "k \<in> set keys \<or> position_agrees t fills ps k \<Longrightarrow>
     position_agrees t fills (fold (upsert_position t now fills) keys ps) k"
proof (induction keys arbitrary: ps)
  case (Cons k' keys)
  obtain u c where k: "k = (u, c)" by (cases k)
  have "position_agrees t fills (upsert_position t now fills k' ps) k" if "k = k' \<or> position_agrees t fills ps k"
  proof (cases "k = k'")
    case True
    then show ?thesis unfolding position_agrees_def k
      using upsert_position_same upsert_position_exists by (auto simp: k)
  next
    case False
    with that have "position_agrees t fills ps (u, c)" by (simp add: k)
    moreover have "filter (position_at t u c) (upsert_position t now fills k' ps) = filter (position_at t u c) ps"
      using False upsert_position_other by (cases k') (auto simp: k)
    ultimately show ?thesis unfolding k position_agrees_filter by simp
  qed
  with Cons show ?case by (cases "k \<in> set keys") auto
qed simp

section \<open>What the ledger must say\<close>

text \<open>Written over the recorded fills alone: what an owner bought of a contract in an account, less
  what it sold there.\<close>

definition traded :: "order_side \<Rightarrow> account_ref \<Rightarrow> string \<Rightarrow> string \<Rightarrow> fill_row list \<Rightarrow> int" where
  "traded side t owner c fills = (\<Sum>f \<leftarrow> fills.
     if fr_side f = side \<and> fr_broker_name f = broker_name t \<and> fr_account_id f = account_id t
        \<and> fr_owner f = owner \<and> fr_contract f = c then fr_quantity f else 0)"

definition holds_net :: "account_ref \<Rightarrow> string \<Rightarrow> string \<Rightarrow> fill_row list \<Rightarrow> position_row list \<Rightarrow> bool" where
  "holds_net t owner c fills ps \<longleftrightarrow>
     (let rows = [p \<leftarrow> ps. pr_owner p = owner \<and> pr_broker_name p = broker_name t
                    \<and> pr_account_id p = account_id t \<and> pr_contract p = c] in
      rows \<noteq> [] \<and> (\<forall>p \<in> set rows. pr_quantity p = traded Buy t owner c fills - traded Sell t owner c fills))"

text \<open>The row that records a fill of a snapshot, under the owner of the order it belongs to.\<close>

definition records_fill :: "account_ref \<Rightarrow> order_row list \<Rightarrow> fill_snapshot \<Rightarrow> fill_row \<Rightarrow> bool" where
  "records_fill t orders f row \<longleftrightarrow>
     fr_broker_name row = broker_name t \<and> fr_account_id row = account_id t
     \<and> fr_fill_id row = fs_fill_id f \<and> fr_broker_order_id row = fs_broker_order_id f
     \<and> fr_contract row = fs_contract f \<and> fr_side row = fs_side f \<and> fr_quantity row = fs_quantity f
     \<and> fr_price row = fs_price f \<and> fr_occurred_at row = fs_occurred_at f
     \<and> (\<exists>r \<in> set orders. or_owner r = fr_owner row \<and> or_broker_name r = Some (broker_name t)
          \<and> or_account_id r = Some (account_id t) \<and> or_broker_order_id r = Some (fs_broker_order_id f))"

lemma fills_total_traded:
  "fills_total t u c fills = traded Buy t u c fills - traded Sell t u c fills"
proof (induction fills)
  case (Cons f fills)
  then show ?case
    by (cases "fr_side f") (auto simp: fills_total_def traded_def fill_at_def signed_quantity_def)
qed (simp add: fills_total_def traded_def)

lemma holds_net_iff: "holds_net t u c fills ps \<longleftrightarrow> position_agrees t fills ps (u, c)"
proof -
  have "(\<lambda>p. pr_owner p = u \<and> pr_broker_name p = broker_name t \<and> pr_account_id p = account_id t
      \<and> pr_contract p = c) = position_at t u c" by (simp add: fun_eq_iff position_at_def)
  then show ?thesis
    by (simp add: holds_net_def position_agrees_filter fills_total_traded [symmetric] Let_def)
qed

lemma insert_fill_records:
  assumes "insert_fill t rs f fills = Inr fills'"
  shows "fills' = fills \<or> (\<exists>row. fills' = fills @ [row] \<and> records_fill t rs f row)"
  using assms
  by (auto simp: insert_fill_def Let_def records_fill_def fill_row_of_def at_target_def
      split: option.splits if_splits dest!: find_SomeD)

lemma insert_fills_record:
  assumes "foldM (insert_fill t rs) fs fills = Inr fills'"
  shows "\<exists>new. fills' = fills @ new \<and> (\<forall>row \<in> set new. \<exists>f \<in> set fs. records_fill t rs f row)"
  using assms
proof (rule foldM_inv)
  fix f fl fl' assume f: "f \<in> set fs" and i: "insert_fill t rs f fl = Inr fl'"
    and "\<exists>new. fl = fills @ new \<and> (\<forall>row \<in> set new. \<exists>f \<in> set fs. records_fill t rs f row)"
  then obtain new where new: "fl = fills @ new" "\<forall>row \<in> set new. \<exists>f \<in> set fs. records_fill t rs f row"
    by blast
  from insert_fill_records [OF i]
  show "\<exists>new. fl' = fills @ new \<and> (\<forall>row \<in> set new. \<exists>f \<in> set fs. records_fill t rs f row)"
  proof
    assume "\<exists>row. fl' = fl @ [row] \<and> records_fill t rs f row"
    then obtain row where "fl' = fills @ (new @ [row])" "records_fill t rs f row" using new(1) by auto
    with new(2) f show ?thesis by (intro exI [of _ "new @ [row]"]) auto
  qed (use new in auto)
qed simp

lemma insert_fills_known:
  assumes "foldM (insert_fill t rs) fs fills = Inr fills'"
  shows "\<forall>f \<in> set fs. (broker_name t, account_id t, fs_fill_id f) \<in> fill_key ` set fills'"
  by (rule foldM_each [OF assms]) (use insert_fill_key in blast)+

text \<open>C9. When a broker snapshot is applied, the fills stored before stay as they are, and every
  fill of the snapshot is recorded under its fill id: a row that is added has the order, contract,
  side, quantity, price and time of its fill, and the owner of the order it belongs to.  Then every owner and contract with a recorded fill at the
  account has its position, and its quantity is what the recorded fills of that account, owner and
  contract bought, less what they sold.  Applying the same snapshot again adds no fill, so nothing is
  counted twice.\<close>

theorem positions_project_fills:
  assumes "apply_reconciled_snapshot t snap s = (Inr (), s')" and "distinct (map fill_key (lr_fills s))"
  shows "(\<forall>f \<in> set (lr_fills s'). fr_broker_name f = broker_name t \<and> fr_account_id f = account_id t \<longrightarrow>
        holds_net t (fr_owner f) (fr_contract f) (lr_fills s') (lr_positions s'))
    \<and> (\<exists>new. lr_fills s' = lr_fills s @ new
        \<and> (\<forall>row \<in> set new. \<exists>f \<in> set (rs_fills snap). records_fill t (lr_orders s) f row))
    \<and> (\<forall>f \<in> set (rs_fills snap). \<exists>row \<in> set (lr_fills s'). fr_broker_name row = broker_name t
        \<and> fr_account_id row = account_id t \<and> fr_fill_id row = fs_fill_id f)
    \<and> distinct (map fill_key (lr_fills s'))
    \<and> (\<exists>s''. apply_reconciled_snapshot t snap s' = (Inr (), s'') \<and> lr_fills s'' = lr_fills s')"
proof -
  from assms(1) obtain fills where a: "snapshot_account_ref snap = Inr t" "\<not> lr_in_txn s"
    and f: "foldM (insert_fill t (lr_orders s)) (rs_fills snap) (lr_fills s) = Inr fills"
    and s': "s' = s\<lparr>lr_fills := fills, lr_positions := fold (upsert_position t (rs_captured_at snap) fills)
        (remdups (map (\<lambda>f. (fr_owner f, fr_contract f)) (filter (fill_at t) fills))) (lr_positions s)\<rparr>"
    by (auto simp: apply_reconciled_snapshot_def Let_def split: sum.splits if_splits)
  have "distinct (map fill_key fills)"
    by (rule foldM_inv [where P = "\<lambda>fl. distinct (map fill_key fl)", OF f assms(2)])
      (rule insert_fill_distinct)
  moreover have "\<forall>f \<in> set fills. fr_broker_name f = broker_name t \<and> fr_account_id f = account_id t \<longrightarrow>
      holds_net t (fr_owner f) (fr_contract f) fills (lr_positions s')"
    unfolding s' holds_net_iff by (auto simp: fill_at_def intro!: upserts_agree)
  moreover have "foldM (insert_fill t (lr_orders s')) (rs_fills snap) (lr_fills s') = Inr fills"
    using insert_fills_again [OF f] by (simp add: s')
  then have "\<exists>s''. apply_reconciled_snapshot t snap s' = (Inr (), s'') \<and> lr_fills s'' = lr_fills s'"
    using a by (simp add: s' apply_reconciled_snapshot_def Let_def)
  moreover have "\<forall>f \<in> set (rs_fills snap). \<exists>row \<in> set fills. fr_broker_name row = broker_name t
        \<and> fr_account_id row = account_id t \<and> fr_fill_id row = fs_fill_id f"
    using insert_fills_known [OF f] by (fastforce simp: fill_key_def)
  moreover have "lr_fills s' = fills" by (simp add: s')
  ultimately show ?thesis using insert_fills_record [OF f] by simp
qed

definition snap1 :: reconciliation_snapshot where
  "snap1 = \<lparr>rs_broker_name = ''shioaji'', rs_account_id = ''A1'', rs_captured_at = 5, rs_orders = [],
     rs_fills = [\<lparr>fs_fill_id = ''f1'', fs_broker_order_id = ''b1'', fs_contract = ''TMFR1'', fs_side = Buy,
       fs_quantity = 2, fs_price = 100, fs_occurred_at = 4\<rparr>], rs_positions = []\<rparr>"

definition s_filled :: live_repo where
  "s_filled = run repo_step empty_repo [Reserve rq1 1, ClaimNext t1 2, FinishDispatch
     (example_order\<lparr>bo_status := FILLED, bo_broker_order_id := Some ''b1'', bo_filled_quantity := 2,
        bo_average_fill_price := Some 100\<rparr>)]"

theorem positions_project_fills_witness:
  "live_positions ''u1'' t1 (snd (apply_reconciled_snapshot t1 snap1 s_filled)) = [(''TMFR1'', 2, 5)]
   \<and> distinct (map fill_key (lr_fills (snd (apply_reconciled_snapshot t1 snap1 s_filled))))"
proof
  show "live_positions ''u1'' t1 (snd (apply_reconciled_snapshot t1 snap1 s_filled)) = [(''TMFR1'', 2, 5)]"
    by code_simp
  have "is_ok (fst (apply_reconciled_snapshot t1 snap1 s_filled))" by code_simp
  then have a: "apply_reconciled_snapshot t1 snap1 s_filled
      = (Inr (), snd (apply_reconciled_snapshot t1 snap1 s_filled))"
    by (cases "apply_reconciled_snapshot t1 snap1 s_filled") (auto simp: is_ok_iff)
  have "lr_fills s_filled = []" by code_simp
  then have "distinct (map fill_key (lr_fills s_filled))" by simp
  from positions_project_fills [OF a this]
  show "distinct (map fill_key (lr_fills (snd (apply_reconciled_snapshot t1 snap1 s_filled))))" by blast
qed

end
