(* ===== verification/Reconciliation.thy ===== *)
theory Reconciliation
  imports Order_Manager Recovery_Lock Live_Positions
begin

text \<open>
  The reconciliation service of \<open>tw_quant/broker/reconciliation.py\<close>
  (\<open>LiveReconciliationService\<close>) with the broker truth table of \<open>truth.py\<close>: the issues
  found between the local orders and a broker snapshot, and the run that begins the
  recovery lock, refreshes the orders, compares, applies the snapshot and completes the
  lock.  The dictionaries of the code are association lists in insertion order.
\<close>

section \<open>The truth table\<close>

record truth_row =
  tr_broker_name :: string
  tr_account_id :: string
  tr_captured_at :: instant
  tr_snapshot :: reconciliation_snapshot

definition truth_at :: "account_ref \<Rightarrow> truth_row \<Rightarrow> bool" where
  "truth_at t r \<longleftrightarrow> tr_broker_name r = broker_name t \<and> tr_account_id r = account_id t"

definition truth_save :: "account_ref \<Rightarrow> reconciliation_snapshot \<Rightarrow> (truth_row list, unit) prog" where
  "truth_save t snap rows = (case snapshot_account_ref snap of Inl e \<Rightarrow> (Inl e, rows)
     | Inr a \<Rightarrow> if a \<noteq> t then (Inl (ValueError ''broker truth identity mismatch''), rows)
       else (Inr (), if \<exists>r \<in> set rows. truth_at t r
         then tbl_update (truth_at t) (\<lambda>r. r\<lparr>tr_captured_at := rs_captured_at snap, tr_snapshot := snap\<rparr>) rows
         else rows @ [\<lparr>tr_broker_name = broker_name t, tr_account_id = account_id t,
                 tr_captured_at = rs_captured_at snap, tr_snapshot = snap\<rparr>]))"

definition truth_get :: "account_ref \<Rightarrow> truth_row list \<Rightarrow> reconciliation_snapshot option" where
  "truth_get t rows = map_option tr_snapshot (find (truth_at t) rows)"

definition truth_targets :: "truth_row list \<Rightarrow> account_ref list res" where
  "truth_targets rows = mapM (\<lambda>r. mk_account_ref (tr_broker_name r) (tr_account_id r))
     (sort_key tr_broker_name (sort_key tr_account_id rows))"

section \<open>Issues\<close>

record reconciliation_issue =
  ri_code :: string
  ri_detail :: string
  ri_broker_order_id :: "string option"
  ri_contract :: "string option"

definition issue :: "string \<Rightarrow> string \<Rightarrow> reconciliation_issue" where
  "issue code detail = \<lparr>ri_code = code, ri_detail = detail, ri_broker_order_id = None, ri_contract = None\<rparr>"

definition order_issue :: "string \<Rightarrow> string \<Rightarrow> string \<Rightarrow> reconciliation_issue" where
  "order_issue code detail bid = (issue code detail)\<lparr>ri_broker_order_id := Some bid\<rparr>"

definition identity_issues :: "account_ref \<Rightarrow> reconciliation_snapshot \<Rightarrow> reconciliation_issue list" where
  "identity_issues t snap =
     (if rs_broker_name snap \<noteq> broker_name t then [issue ''broker_mismatch''
        (''expected '' @ broker_name t @ '', received '' @ rs_broker_name snap)] else []) @
     (if rs_account_id snap \<noteq> account_id t then [issue ''account_mismatch''
        ''broker snapshot belongs to a different account''] else [])"

definition local_by_broker :: "broker_order list \<Rightarrow> (string \<times> broker_order) list" where
  "local_by_broker locals = fold (\<lambda>b d. case bo_broker_order_id b of None \<Rightarrow> d
     | Some k \<Rightarrow> if k = [] then d else dict_put k b d) locals []"

text \<open>The first loop: index the broker's orders, noting missing and repeated ids.\<close>

definition index_order :: "order_snapshot \<Rightarrow> reconciliation_issue list \<times> (string \<times> order_snapshot) list
    \<Rightarrow> reconciliation_issue list \<times> (string \<times> order_snapshot) list" where
  "index_order x acc = (case acc of (iss, d) \<Rightarrow> (case os_broker_order_id x of
       Some (c # k) \<Rightarrow>
         (if map_of d (c # k) \<noteq> None then iss @ [order_issue ''duplicate_broker_order''
            ''broker snapshot contains a duplicate order ID'' (c # k)] else iss,
          dict_put (c # k) x d)
     | _ \<Rightarrow> (iss @ [issue ''broker_order_without_id'' ''broker returned an order without a durable ID''], d)))"

definition local_issues :: "(string \<times> order_snapshot) list \<Rightarrow> broker_order \<Rightarrow> reconciliation_issue list" where
  "local_issues d b =
     (if bo_status b = UNKNOWN \<and> \<not> truthy (bo_broker_order_id b)
        then [issue ''ambiguous_local_order'' ''UNKNOWN local order has no broker order ID'']
      else case bo_broker_order_id b of None \<Rightarrow> []
      | Some k \<Rightarrow> if k = [] \<or> status_terminal (bo_status b) then []
          else if map_of d k = None then [order_issue ''local_order_missing_at_broker''
            ''nonterminal local order is absent from broker snapshot'' k] else [])"

definition broker_issues :: "(string \<times> broker_order) list \<Rightarrow> string \<times> order_snapshot \<Rightarrow> reconciliation_issue list" where
  "broker_issues locals p = (case p of (k, x) \<Rightarrow> (case map_of locals k of
       None \<Rightarrow> [order_issue ''unknown_broker_order'' ''broker order has no local record'' k]
     | Some b \<Rightarrow>
        (if bo_status b \<noteq> os_status x then [order_issue ''order_status_mismatch''
           (''local='' @ status_value (bo_status b) @ '', broker='' @ status_value (os_status x)) k] else []) @
        (if bo_filled_quantity b \<noteq> os_filled x then [order_issue ''order_fill_quantity_mismatch''
           ''local and broker cumulative fill quantities differ'' k] else [])))"

fun fill_loop :: "(string \<times> order_snapshot) list \<Rightarrow> fill_snapshot list \<Rightarrow> string list \<Rightarrow> reconciliation_issue list" where
  "fill_loop d [] seen = []"
| "fill_loop d (f # fs) seen =
     (if fs_fill_id f \<in> set seen then [order_issue ''duplicate_broker_fill''
        ''broker snapshot contains a duplicate fill ID'' (fs_broker_order_id f)] else []) @
     (if map_of d (fs_broker_order_id f) = None then [order_issue ''orphan_broker_fill''
        ''broker fill has no matching broker order'' (fs_broker_order_id f)] else []) @
     fill_loop d fs (fs_fill_id f # seen)"

definition fill_quantities :: "fill_snapshot list \<Rightarrow> (string \<times> int) list" where
  "fill_quantities fs = fold (\<lambda>f. dict_add (fs_broker_order_id f) (fs_quantity f)) fs []"

definition fill_issues :: "reconciliation_snapshot \<Rightarrow> (string \<times> order_snapshot) list \<Rightarrow> reconciliation_issue list" where
  "fill_issues snap d = fill_loop d (rs_fills snap) [] @
     concat (map (\<lambda>(k, x). if dict_get0 (fill_quantities (rs_fills snap)) k \<noteq> os_filled x
        then [order_issue ''broker_deal_quantity_mismatch''
          ''broker deals do not equal broker cumulative fill quantity'' k] else []) d)"

definition order_contract :: "broker_order \<Rightarrow> string" where
  "order_contract b = req_contract (bo_request b)"

definition order_signed :: "broker_order \<Rightarrow> int" where
  "order_signed b = (if req_side (bo_request b) = Buy then 1 else -1) * bo_filled_quantity b"

definition position_issues :: "broker_order list \<Rightarrow> reconciliation_snapshot \<Rightarrow> reconciliation_issue list" where
  "position_issues locals snap =
     (let l = fold (\<lambda>b. dict_add (order_contract b) (order_signed b)) locals [];
          k = fold (\<lambda>p. dict_add (ps_contract p) (ps_quantity p)) (rs_positions snap) [] in
      concat (map (\<lambda>c. if dict_get0 l c \<noteq> dict_get0 k c
          then [(issue ''position_mismatch'' (''local='' @ show_int (dict_get0 l c) @ '', broker=''
             @ show_int (dict_get0 k c)))\<lparr>ri_contract := Some c\<rparr>] else [])
        (sorted_list_of_set (fst ` set l \<union> fst ` set k))))"

definition reconcile_issues :: "account_ref \<Rightarrow> broker_order list \<Rightarrow> reconciliation_snapshot
    \<Rightarrow> reconciliation_issue list" where
  "reconcile_issues t locals snap =
     (let lb = local_by_broker locals; (iss, d) = fold index_order (rs_orders snap) (identity_issues t snap, []) in
      iss @ concat (map (local_issues d) locals) @ concat (map (broker_issues lb) d)
        @ fill_issues snap d @ position_issues locals snap)"

section \<open>The service\<close>

text \<open>The snapshot source answers, or raises an exception with its optional \<open>code\<close>.\<close>

datatype snapshot_source = SourceOk reconciliation_snapshot | SourceRaises "string option"

record recon_world =
  rw_lock :: recovery_table
  rw_manager :: manager_world
  rw_truth :: "truth_row list"

record recon_config =
  rc_account :: account_ref
  rc_manager :: order_manager
  rc_truth :: bool

record recon_report =
  rp_state :: recovery_state
  rp_captured_at :: instant
  rp_local_orders :: nat
  rp_broker_orders :: nat
  rp_broker_fills :: nat
  rp_broker_positions :: nat
  rp_issues :: "reconciliation_issue list"

text \<open>The \<open>try\<close> block: the local orders read so far, and the snapshot with its issues or
  the \<open>code\<close> of the exception.\<close>

definition recon_try :: "recon_config \<Rightarrow> snapshot_source \<Rightarrow> (nat \<Rightarrow> instant) \<Rightarrow> recon_world
    \<Rightarrow> broker_order list \<times> (string option + reconciliation_snapshot \<times> reconciliation_issue list) \<times> recon_world" where
  "recon_try c src clk w =
     (let t = rc_account c in
      case reconcile_broker_orders (rc_manager c) t None clk (rw_manager w) of
        (Inl e, m) \<Rightarrow> ([], Inl None, w\<lparr>rw_manager := m\<rparr>)
      | (Inr _, m) \<Rightarrow> (let w1 = w\<lparr>rw_manager := m\<rparr> in
         case repo_orders None (Some t) (mw_repo m) of Inl e \<Rightarrow> ([], Inl None, w1)
         | Inr locals \<Rightarrow> (case src of SourceRaises code \<Rightarrow> (locals, Inl code, w1)
           | SourceOk snap \<Rightarrow>
             (case (if rc_truth c then snapshot_account_ref snap else Inr t) of Inl e \<Rightarrow> (locals, Inl None, w1)
              | Inr a \<Rightarrow>
                (let w2 = (if rc_truth c \<and> a = t
                     then w1\<lparr>rw_truth := snd (truth_save t snap (rw_truth w1))\<rparr> else w1);
                     iss = reconcile_issues t locals snap in
                 if iss \<noteq> [] then (locals, Inr (snap, iss), w2)
                 else (case in_repo (apply_reconciled_snapshot t snap) (rw_manager w2) of
                     (Inl e, m2) \<Rightarrow> (locals, Inl None, w2\<lparr>rw_manager := m2\<rparr>)
                   | (Inr _, m2) \<Rightarrow> (locals, Inr (snap, []), w2\<lparr>rw_manager := m2\<rparr>)))))))"

definition failed_issue :: "string option \<Rightarrow> reconciliation_issue" where
  "failed_issue code = issue ''reconciliation_failed''
     (case code of Some (c # cs) \<Rightarrow> c # cs | _ \<Rightarrow> ''broker reconciliation source failed'')"

text \<open>The clock is read at \<open>begin\<close> (\<open>began\<close>), while orders are refreshed (\<open>clk\<close>) and at the end (\<open>ended\<close>).\<close>

definition complete_lock :: "recon_config \<Rightarrow> reconciliation_issue list \<Rightarrow> int \<Rightarrow> instant
    \<Rightarrow> (recon_world, recovery_state) prog" where
  "complete_lock c iss g t w = (case recovery_complete (broker_name (rc_account c)) (account_id (rc_account c))
       (map ri_code iss) g (Aware t) (rw_lock w) of (r, tb) \<Rightarrow> (r, w\<lparr>rw_lock := tb\<rparr>))"

definition reconcile_account :: "recon_config \<Rightarrow> snapshot_source \<Rightarrow> instant \<Rightarrow> (nat \<Rightarrow> instant) \<Rightarrow> instant
    \<Rightarrow> (recon_world, recon_report) prog" where
  "reconcile_account c src began clk ended w =
     (case recovery_begin (broker_name (rc_account c)) (account_id (rc_account c)) (Aware began) (rw_lock w) of
        (Inl e, tb) \<Rightarrow> (Inl e, w\<lparr>rw_lock := tb\<rparr>)
      | (Inr attempt, tb) \<Rightarrow>
        (case recon_try c src clk (w\<lparr>rw_lock := tb\<rparr>) of
           (locals, Inl code, w1) \<Rightarrow> (let iss = [failed_issue code] in
             case complete_lock c iss (rl_generation attempt) ended w1 of (Inl e, w2) \<Rightarrow> (Inl e, w2)
             | (Inr st, w2) \<Rightarrow> (Inr \<lparr>rp_state = st, rp_captured_at = ended, rp_local_orders = length locals,
                 rp_broker_orders = 0, rp_broker_fills = 0, rp_broker_positions = 0, rp_issues = iss\<rparr>, w2))
         | (locals, Inr (snap, iss), w1) \<Rightarrow>
             (case complete_lock c iss (rl_generation attempt) ended w1 of (Inl e, w2) \<Rightarrow> (Inl e, w2)
             | (Inr st, w2) \<Rightarrow> (Inr \<lparr>rp_state = st, rp_captured_at = rs_captured_at snap,
                 rp_local_orders = length locals, rp_broker_orders = length (rs_orders snap),
                 rp_broker_fills = length (rs_fills snap), rp_broker_positions = length (rs_positions snap),
                 rp_issues = iss\<rparr>, w2))))"

section \<open>What the absence of issues means\<close>

definition books_agree :: "account_ref \<Rightarrow> broker_order list \<Rightarrow> reconciliation_snapshot \<Rightarrow> bool" where
  "books_agree t locals snap \<longleftrightarrow>
     rs_broker_name snap = broker_name t \<and> rs_account_id snap = account_id t \<and>
     (\<forall>x \<in> set (rs_orders snap). truthy (os_broker_order_id x)) \<and>
     distinct (map os_broker_order_id (rs_orders snap)) \<and>
     (\<forall>b \<in> set locals. (bo_status b = UNKNOWN \<longrightarrow> truthy (bo_broker_order_id b)) \<and>
        (truthy (bo_broker_order_id b) \<and> \<not> status_terminal (bo_status b) \<longrightarrow>
           bo_broker_order_id b \<in> os_broker_order_id ` set (rs_orders snap))) \<and>
     (\<forall>x \<in> set (rs_orders snap). \<exists>b \<in> set locals. bo_broker_order_id b = os_broker_order_id x
        \<and> bo_status b = os_status x \<and> bo_filled_quantity b = os_filled x) \<and>
     distinct (map fs_fill_id (rs_fills snap)) \<and>
     (\<forall>f \<in> set (rs_fills snap). Some (fs_broker_order_id f) \<in> os_broker_order_id ` set (rs_orders snap)) \<and>
     (\<forall>x \<in> set (rs_orders snap). sum_list (map fs_quantity (filter
        (\<lambda>f. Some (fs_broker_order_id f) = os_broker_order_id x) (rs_fills snap))) = os_filled x) \<and>
     (\<forall>c. sum_list (map order_signed (filter (\<lambda>b. order_contract b = c) locals))
        = sum_list (map ps_quantity (filter (\<lambda>p. ps_contract p = c) (rs_positions snap))))"

abbreviation keyed :: "order_snapshot list \<Rightarrow> (string \<times> order_snapshot) list" where
  "keyed xs \<equiv> map (\<lambda>x. (the (os_broker_order_id x), x)) xs"

lemma index_clean:
  assumes "\<forall>x \<in> set xs. truthy (os_broker_order_id x)" "distinct (map os_broker_order_id xs)"
    "\<forall>x \<in> set xs. the (os_broker_order_id x) \<notin> fst ` set d"
  shows "fold index_order xs (iss, d) = (iss, d @ keyed xs)"
  using assms
proof (induction xs arbitrary: d)
  case (Cons x xs)
  then obtain k where k: "os_broker_order_id x = Some k" "k \<noteq> []" by (auto simp: truthy_def)
  have "k \<notin> fst ` set d" using Cons.prems(3) k by simp
  then have n: "map_of d k = None" by (simp add: map_of_eq_None_iff)
  have i: "index_order x (iss, d) = (iss, d @ [(k, x)])"
    using k n dict_put_absent [OF \<open>k \<notin> fst ` set d\<close>, of x]
    by (cases k) (simp_all add: index_order_def)
  have "the (os_broker_order_id y) \<noteq> k" if "y \<in> set xs" for y
  proof
    assume "the (os_broker_order_id y) = k"
    with that Cons.prems(1) k have "os_broker_order_id y = os_broker_order_id x"
      by (auto simp: truthy_def)
    with that have "os_broker_order_id x \<in> os_broker_order_id ` set xs" by (metis imageI)
    with Cons.prems(2) show False by simp
  qed
  then have "\<forall>y \<in> set xs. the (os_broker_order_id y) \<notin> fst ` set (d @ [(k, x)])"
    using Cons.prems(3) by auto
  with Cons i k show ?case by simp
qed simp

lemma index_dirty:
  assumes "fst (fold index_order xs (iss, d)) = []"
  shows "iss = [] \<and> (\<forall>x \<in> set xs. truthy (os_broker_order_id x)) \<and> distinct (map os_broker_order_id xs)
    \<and> (\<forall>x \<in> set xs. the (os_broker_order_id x) \<notin> fst ` set d)"
  using assms
proof (induction xs arbitrary: iss d)
  case (Cons x xs)
  obtain iss' d' where i: "index_order x (iss, d) = (iss', d')" by fastforce
  with Cons have ih: "iss' = []" "\<forall>y \<in> set xs. truthy (os_broker_order_id y)"
    "distinct (map os_broker_order_id xs)" "\<forall>y \<in> set xs. the (os_broker_order_id y) \<notin> fst ` set d'"
    by auto
  from i ih(1) obtain k where k: "os_broker_order_id x = Some k" "k \<noteq> []" "iss = []"
    "map_of d k = None" "d' = dict_put k x d"
    by (auto simp: index_order_def split: option.splits list.splits if_splits)
  then have "k \<notin> fst ` set d" by (simp add: map_of_eq_None_iff)
  moreover have "os_broker_order_id x \<notin> os_broker_order_id ` set xs"
    using ih(4) k by force
  ultimately show ?case using ih k by auto
qed simp

lemma local_by_broker_lookup:
  "map_of (local_by_broker locals) k = find (\<lambda>b. bo_broker_order_id b = Some k \<and> k \<noteq> []) (rev locals)"
proof -
  have "map_of (fold (\<lambda>b d. case bo_broker_order_id b of None \<Rightarrow> d
       | Some k \<Rightarrow> if k = [] then d else dict_put k b d) locals d) k
     = (case find (\<lambda>b. bo_broker_order_id b = Some k \<and> k \<noteq> []) (rev locals) of Some b \<Rightarrow> Some b
        | None \<Rightarrow> map_of d k)" for d
    by (induction locals arbitrary: d) (auto simp: find_append split: option.split)
  from this [of "[]"] show ?thesis by (simp add: local_by_broker_def split: option.split)
qed

definition local_ids_unique :: "broker_order list \<Rightarrow> bool" where
  "local_ids_unique locals \<longleftrightarrow>
     distinct (map bo_broker_order_id (filter (\<lambda>b. truthy (bo_broker_order_id b)) locals))"

lemma local_by_broker_unique:
  assumes "local_ids_unique locals"
  shows "map_of (local_by_broker locals) k = Some b \<longleftrightarrow>
    b \<in> set locals \<and> bo_broker_order_id b = Some k \<and> k \<noteq> []"
proof
  assume "map_of (local_by_broker locals) k = Some b"
  then show "b \<in> set locals \<and> bo_broker_order_id b = Some k \<and> k \<noteq> []"
    unfolding local_by_broker_lookup by (auto dest: find_SomeD)
next
  assume b: "b \<in> set locals \<and> bo_broker_order_id b = Some k \<and> k \<noteq> []"
  then obtain c where c: "map_of (local_by_broker locals) k = Some c"
    unfolding local_by_broker_lookup
    by (cases "find (\<lambda>b. bo_broker_order_id b = Some k \<and> k \<noteq> []) (rev locals)") (auto dest: find_NoneD)
  then have "c \<in> set locals" "bo_broker_order_id c = Some k"
    unfolding local_by_broker_lookup by (auto dest: find_SomeD)
  with b have "b = c"
    by (intro distinct_key_inj [OF assms [unfolded local_ids_unique_def]]) auto
  with c show "map_of (local_by_broker locals) k = Some b" by simp
qed

lemma fill_loop_Nil: "fill_loop d fs seen = [] \<longleftrightarrow> distinct (map fs_fill_id fs) \<and>
    (\<forall>f \<in> set fs. fs_fill_id f \<notin> set seen \<and> map_of d (fs_broker_order_id f) \<noteq> None)"
  by (induction fs arbitrary: seen) (auto simp: image_iff)

lemma concat_map_Nil: "concat (map f xs) = [] \<longleftrightarrow> (\<forall>x \<in> set xs. f x = [])"
  by auto

lemma concat_if_Nil: "concat (map (\<lambda>x. if P x then [h x] else []) xs) = [] \<longleftrightarrow> (\<forall>x \<in> set xs. \<not> P x)"
  by auto

lemma covering_ball: "(\<And>c. c \<notin> A \<Longrightarrow> P c) \<Longrightarrow> (\<forall>c \<in> A. P c) \<longleftrightarrow> (\<forall>c. P c)"
  by blast

lemma position_issues_Nil: "position_issues locals snap = [] \<longleftrightarrow>
    (\<forall>c. sum_list (map order_signed (filter (\<lambda>b. order_contract b = c) locals))
        = sum_list (map ps_quantity (filter (\<lambda>p. ps_contract p = c) (rs_positions snap))))"
proof -
  let ?l = "fold (\<lambda>b. dict_add (order_contract b) (order_signed b)) locals []"
  let ?k = "fold (\<lambda>p. dict_add (ps_contract p) (ps_quantity p)) (rs_positions snap) []"
  have fin: "finite (fst ` set ?l \<union> fst ` set ?k)" by blast
  have "position_issues locals snap = [] \<longleftrightarrow>
      (\<forall>c \<in> fst ` set ?l \<union> fst ` set ?k. dict_get0 ?l c = dict_get0 ?k c)"
    unfolding position_issues_def Let_def concat_if_Nil set_sorted_list_of_set [OF fin] not_not ..
  also have "\<dots> \<longleftrightarrow> (\<forall>c. dict_get0 ?l c = dict_get0 ?k c)"
    by (rule covering_ball) (auto simp: dict_get0_absent)
  finally show ?thesis by (simp add: dict_get0_fold)
qed

lemma map_of_keyed: "\<forall>x \<in> set xs. truthy (os_broker_order_id x) \<Longrightarrow>
    map_of (keyed xs) k = None \<longleftrightarrow> Some k \<notin> os_broker_order_id ` set xs"
  by (force simp: map_of_eq_None_iff truthy_def image_iff)

lemma fill_issues_Nil:
  assumes "\<forall>x \<in> set xs. truthy (os_broker_order_id x)"
  shows "fill_issues snap (keyed xs) = [] \<longleftrightarrow> distinct (map fs_fill_id (rs_fills snap)) \<and>
    (\<forall>f \<in> set (rs_fills snap). Some (fs_broker_order_id f) \<in> os_broker_order_id ` set xs) \<and>
    (\<forall>x \<in> set xs. sum_list (map fs_quantity (filter
        (\<lambda>f. Some (fs_broker_order_id f) = os_broker_order_id x) (rs_fills snap))) = os_filled x)"
proof -
  have q: "dict_get0 (fill_quantities (rs_fills snap)) (the (os_broker_order_id x)) = sum_list (map fs_quantity
      (filter (\<lambda>f. Some (fs_broker_order_id f) = os_broker_order_id x) (rs_fills snap)))"
    if x: "x \<in> set xs" for x
  proof -
    obtain k where "os_broker_order_id x = Some k" using assms x by (auto simp: truthy_def)
    then show ?thesis by (simp add: fill_quantities_def dict_get0_fold)
  qed
  have "(\<forall>p \<in> set (keyed xs). (case p of (k, x) \<Rightarrow> if dict_get0 (fill_quantities (rs_fills snap)) k \<noteq> os_filled x
        then [order_issue ''broker_deal_quantity_mismatch''
          ''broker deals do not equal broker cumulative fill quantity'' k] else []) = [])
     \<longleftrightarrow> (\<forall>x \<in> set xs. sum_list (map fs_quantity (filter
        (\<lambda>f. Some (fs_broker_order_id f) = os_broker_order_id x) (rs_fills snap))) = os_filled x)"
    by (auto simp: q)
  then show ?thesis
    unfolding fill_issues_def append_is_Nil_conv concat_map_Nil fill_loop_Nil map_of_keyed [OF assms]
    by auto
qed

lemma local_issues_Nil:
  assumes "\<forall>x \<in> set xs. truthy (os_broker_order_id x)"
  shows "local_issues (keyed xs) b = [] \<longleftrightarrow> (bo_status b = UNKNOWN \<longrightarrow> truthy (bo_broker_order_id b)) \<and>
        (truthy (bo_broker_order_id b) \<and> \<not> status_terminal (bo_status b) \<longrightarrow>
           bo_broker_order_id b \<in> os_broker_order_id ` set xs)"
  using map_of_keyed [OF assms]
  by (auto simp: local_issues_def truthy_def split: option.splits if_splits)

lemma broker_issues_Nil:
  assumes "local_ids_unique locals" and "os_broker_order_id x = Some k" and "k \<noteq> []"
  shows "broker_issues (local_by_broker locals) (k, x) = [] \<longleftrightarrow>
    (\<exists>b \<in> set locals. bo_broker_order_id b = os_broker_order_id x
        \<and> bo_status b = os_status x \<and> bo_filled_quantity b = os_filled x)"
proof (cases "map_of (local_by_broker locals) k")
  case None
  then have "b \<notin> set locals \<or> bo_broker_order_id b \<noteq> Some k" for b
    using local_by_broker_unique [OF assms(1)] assms(3) by (metis option.distinct(1))
  with None assms(2) show ?thesis by (auto simp: broker_issues_def)
next
  case (Some c)
  then have c: "c \<in> set locals" "bo_broker_order_id c = Some k"
    using local_by_broker_unique [OF assms(1)] by auto
  have "b = c" if "b \<in> set locals" "bo_broker_order_id b = Some k" for b
    using local_by_broker_unique [OF assms(1), of k b] that assms(3) Some by simp
  then have "(\<exists>b \<in> set locals. bo_broker_order_id b = Some k \<and> bo_status b = os_status x
      \<and> bo_filled_quantity b = os_filled x) \<longleftrightarrow> bo_status c = os_status x \<and> bo_filled_quantity c = os_filled x"
    using c by blast
  then show ?thesis by (simp add: broker_issues_def Some assms(2))
qed

text \<open>C15. Reconciliation finds no issue exactly when the two books agree: the snapshot is
  the account's own; broker orders have distinct ids, each with a local order of the same
  status and filled quantity; no local order is lost or ambiguous; fills are distinct,
  belong to broker orders and add up to their filled quantities; and the local orders'
  signed fills add up to the broker's position in every contract.\<close>

theorem no_issues_iff_books_agree:
  assumes "local_ids_unique locals"
  shows "reconcile_issues t locals snap = [] \<longleftrightarrow> books_agree t locals snap"
proof -
  let ?xs = "rs_orders snap"
  let ?clean = "(\<forall>x \<in> set ?xs. truthy (os_broker_order_id x)) \<and> distinct (map os_broker_order_id ?xs)"
  have id: "identity_issues t snap = [] \<longleftrightarrow> rs_broker_name snap = broker_name t \<and> rs_account_id snap = account_id t"
    by (simp add: identity_issues_def)
  show ?thesis
  proof (cases ?clean)
    case True
    then have f: "fold index_order ?xs (identity_issues t snap, []) = (identity_issues t snap, keyed ?xs)"
      using index_clean [of ?xs "[]"] by simp
    have b: "(\<forall>p \<in> set (keyed ?xs). broker_issues (local_by_broker locals) p = []) \<longleftrightarrow>
        (\<forall>x \<in> set ?xs. \<exists>b \<in> set locals. bo_broker_order_id b = os_broker_order_id x
          \<and> bo_status b = os_status x \<and> bo_filled_quantity b = os_filled x)"
    proof -
      have "broker_issues (local_by_broker locals) (the (os_broker_order_id x), x) = [] \<longleftrightarrow>
          (\<exists>b \<in> set locals. bo_broker_order_id b = os_broker_order_id x
            \<and> bo_status b = os_status x \<and> bo_filled_quantity b = os_filled x)" if x: "x \<in> set ?xs" for x
      proof -
        obtain k where k: "os_broker_order_id x = Some k" "k \<noteq> []"
          using True x by (auto simp: truthy_def)
        then have "the (os_broker_order_id x) = k" by simp
        then show ?thesis using broker_issues_Nil [OF assms k] by (simp only:)
      qed
      then show ?thesis by simp
    qed
    have xs: "\<forall>x \<in> set ?xs. truthy (os_broker_order_id x)"
      and ds: "distinct (map os_broker_order_id ?xs)" using True by simp_all
    show ?thesis
      unfolding reconcile_issues_def Let_def f split_conv append_is_Nil_conv concat_map_Nil b
        fill_issues_Nil [OF xs] position_issues_Nil local_issues_Nil [OF xs] id books_agree_def
      by (simp only: xs [THEN eqTrueI] ds [THEN eqTrueI] conj_ac simp_thms)
  next
    case False
    then have "fst (fold index_order ?xs (identity_issues t snap, [])) \<noteq> []"
      using index_dirty by blast
    then have "reconcile_issues t locals snap \<noteq> []"
      by (auto simp: reconcile_issues_def Let_def split: prod.split)
    with False show ?thesis by (auto simp: books_agree_def)
  qed
qed

definition local1 :: broker_order where
  "local1 = example_order\<lparr>bo_status := FILLED, bo_broker_order_id := Some ''b1'', bo_filled_quantity := 2,
     bo_average_fill_price := Some 100\<rparr>"

definition snap2 :: reconciliation_snapshot where
  "snap2 = snap1\<lparr>rs_orders := [\<lparr>os_broker_order_id = Some ''b1'', os_status = FILLED, os_filled = 2\<rparr>],
     rs_positions := [\<lparr>ps_contract = ''TMFR1'', ps_quantity = 2\<rparr>]\<rparr>"

theorem no_issues_iff_books_agree_witness:
  "books_agree t1 [local1] snap2 \<and> \<not> books_agree t1 [local1] (snap2\<lparr>rs_positions := []\<rparr>)"
proof -
  have u: "local_ids_unique [local1]" by (simp add: local_ids_unique_def)
  have "reconcile_issues t1 [local1] snap2 = []" by code_simp
  moreover have "reconcile_issues t1 [local1] (snap2\<lparr>rs_positions := []\<rparr>) \<noteq> []" by code_simp
  ultimately show ?thesis using no_issues_iff_books_agree [OF u, of t1] by simp
qed

section \<open>When trading is released\<close>

lemma recon_try_lock: "recon_try c src clk w = (l, r, w1) \<Longrightarrow> rw_lock w1 = rw_lock w"
  unfolding recon_try_def Let_def
  by (auto split: prod.splits sum.splits snapshot_source.splits if_splits)

lemma recon_try_clean:
  assumes "recon_try c src clk w = (locals, Inr (snap, []), w1)"
  shows "src = SourceOk snap \<and> reconcile_issues (rc_account c) locals snap = []
    \<and> (\<exists>bs m. reconcile_broker_orders (rc_manager c) (rc_account c) None clk (rw_manager w) = (Inr bs, m)
        \<and> repo_orders None (Some (rc_account c)) (mw_repo m) = Inr locals
        \<and> apply_reconciled_snapshot (rc_account c) snap (mw_repo m) = (Inr (), mw_repo (rw_manager w1)))"
  using assms unfolding recon_try_def Let_def in_repo_def
  by (auto split: prod.splits sum.splits snapshot_source.splits if_splits)

lemma recon_try_issues: "recon_try c src clk w = (locals, Inr (snap, iss), w1) \<Longrightarrow>
    iss = reconcile_issues (rc_account c) locals snap"
  unfolding recon_try_def Let_def
  by (auto split: prod.splits sum.splits snapshot_source.splits if_splits)

lemma begin_row: "recovery_begin bn acc t tb = (Inr r, tb') \<Longrightarrow> lock_row bn acc tb' = Some r"
  by (auto simp: recovery_begin_def locked_write_def Let_def split: sum.splits option.splits)

lemma complete_ready:
  assumes "lock_row bn acc tb = Some r"
    and "recovery_complete bn acc codes (rl_generation r) t tb = (Inr st, tb')"
  shows "lock_row bn acc tb' = Some st \<and> (recovery_ready st \<longleftrightarrow> codes = [])"
  using assms lock_row_keys [OF assms(1)]
  by (auto simp: recovery_complete_def Let_def lock_row_complete recovery_ready_def
      split: sum.splits option.splits if_splits)

lemma reconcile_report:
  assumes "reconcile_account c src began clk ended w = (Inr rep, w')"
  shows "\<exists>w0 r w1. recon_try c src clk w0 = (fst r, snd r, w1) \<and> rw_manager w0 = rw_manager w
    \<and> rw_manager w' = rw_manager w1
    \<and> rp_issues rep = (case snd r of Inl code \<Rightarrow> [failed_issue code] | Inr p \<Rightarrow> snd p)
    \<and> (recovery_ready (rp_state rep) \<longleftrightarrow> rp_issues rep = [])
    \<and> lock_row (broker_name (rc_account c)) (account_id (rc_account c)) (rw_lock w') = Some (rp_state rep)"
proof -
  let ?bn = "broker_name (rc_account c)" and ?acc = "account_id (rc_account c)"
  obtain attempt tb where b: "recovery_begin ?bn ?acc (Aware began) (rw_lock w) = (Inr attempt, tb)"
    using assms by (auto simp: reconcile_account_def split: prod.splits sum.splits)
  obtain l r w1 where t: "recon_try c src clk (w\<lparr>rw_lock := tb\<rparr>) = (l, r, w1)" by (metis prod_cases3)
  define iss where "iss = (case r of Inl code \<Rightarrow> [failed_issue code] | Inr p \<Rightarrow> snd p)"
  obtain st w2 where cl: "complete_lock c iss (rl_generation attempt) ended w1 = (Inr st, w2)"
      "rp_state rep = st" "w' = w2" "rp_issues rep = iss"
    using assms b t by (auto simp: reconcile_account_def iss_def Let_def split: prod.splits sum.splits)
  have row: "lock_row ?bn ?acc (rw_lock w1) = Some attempt"
    using begin_row [OF b] recon_try_lock [OF t] by simp
  from cl(1) obtain tb2 where
    "recovery_complete ?bn ?acc (map ri_code iss) (rl_generation attempt) (Aware ended) (rw_lock w1) = (Inr st, tb2)"
    "w2 = w1\<lparr>rw_lock := tb2\<rparr>" by (auto simp: complete_lock_def split: prod.splits)
  with complete_ready [OF row this(1)] cl t show ?thesis
    by (intro exI [of _ "w\<lparr>rw_lock := tb\<rparr>"] exI [of _ "(l, r)"] exI [of _ w1]) (simp add: iss_def)
qed

text \<open>C16. The recovery lock is released by agreement and by nothing else: a reconciliation
  that leaves the account ready refreshed every open order, read the broker's snapshot,
  found that it agrees with the refreshed local orders, and recorded its fills and
  positions; with any issue the account stays locked.\<close>

theorem ready_only_when_books_agree:
  assumes "reconcile_account c src began clk ended w = (Inr rep, w')"
  shows "recovery_ready (rp_state rep) = (rp_issues rep = []) \<and>
    lock_ready (rw_lock w') (broker_name (rc_account c), account_id (rc_account c)) = (rp_issues rep = []) \<and>
    (rp_issues rep = [] \<longrightarrow> (\<exists>bs m locals snap. src = SourceOk snap
      \<and> reconcile_broker_orders (rc_manager c) (rc_account c) None clk (rw_manager w) = (Inr bs, m)
      \<and> repo_orders None (Some (rc_account c)) (mw_repo m) = Inr locals
      \<and> reconcile_issues (rc_account c) locals snap = []
      \<and> apply_reconciled_snapshot (rc_account c) snap (mw_repo m) = (Inr (), mw_repo (rw_manager w'))))"
proof -
  obtain w0 r w1 where r: "recon_try c src clk w0 = (fst r, snd r, w1)" "rw_manager w0 = rw_manager w"
    "rw_manager w' = rw_manager w1"
    "rp_issues rep = (case snd r of Inl code \<Rightarrow> [failed_issue code] | Inr p \<Rightarrow> snd p)"
    "recovery_ready (rp_state rep) \<longleftrightarrow> rp_issues rep = []"
    "lock_row (broker_name (rc_account c)) (account_id (rc_account c)) (rw_lock w') = Some (rp_state rep)"
    using reconcile_report [OF assms] by blast
  have clean: "\<exists>bs m locals snap. src = SourceOk snap
      \<and> reconcile_broker_orders (rc_manager c) (rc_account c) None clk (rw_manager w) = (Inr bs, m)
      \<and> repo_orders None (Some (rc_account c)) (mw_repo m) = Inr locals
      \<and> reconcile_issues (rc_account c) locals snap = []
      \<and> apply_reconciled_snapshot (rc_account c) snap (mw_repo m) = (Inr (), mw_repo (rw_manager w'))"
    if none: "rp_issues rep = []"
  proof -
    obtain snap where "snd r = Inr (snap, [])" using r(4) none by (cases "snd r") auto
    with r(1) have "recon_try c src clk w0 = (fst r, Inr (snap, []), w1)" by simp
    from recon_try_clean [OF this] r(2,3) show ?thesis by auto
  qed
  with r(5,6) show ?thesis by (simp add: lock_ready_def)
qed

definition refreshing_port :: broker_port where
  "refreshing_port = \<lparr>bp_broker_name = ''shioaji'', bp_submit = (\<lambda>_. Inl (RuntimeError ''down'')),
     bp_cancel = (\<lambda>b. Inr b), bp_refresh = (\<lambda>b. Inr b)\<rparr>"

definition recon1 :: recon_config where
  "recon1 = \<lparr>rc_account = t1, rc_manager = \<lparr>om_registry = snd (register \<lparr>rg_account_ref = t1,
     rg_port = refreshing_port, rg_capabilities = [], rg_state = RtReady\<rparr> empty_registry), om_gates = []\<rparr>,
     rc_truth = True\<rparr>"

definition recon_world1 :: recon_world where
  "recon_world1 = \<lparr>rw_lock = [], rw_manager = \<lparr>mw_repo = s_filled, mw_submitted = [], mw_cancelled = []\<rparr>,
     rw_truth = []\<rparr>"

theorem ready_only_when_books_agree_witness:
  "\<exists>rep w'. reconcile_account recon1 (SourceOk snap2) 10 (\<lambda>i. 11) 12 recon_world1 = (Inr rep, w')
     \<and> rp_issues rep = [] \<and> lock_ready (rw_lock w') (''shioaji'', ''A1'')"
proof -
  have "case reconcile_account recon1 (SourceOk snap2) 10 (\<lambda>i. 11) 12 recon_world1 of
      (Inr rep, w') \<Rightarrow> rp_issues rep = [] | _ \<Rightarrow> False" by code_simp
  then obtain rep w' where r: "reconcile_account recon1 (SourceOk snap2) 10 (\<lambda>i. 11) 12 recon_world1 = (Inr rep, w')"
    "rp_issues rep = []" by (auto split: prod.splits sum.splits)
  have "rc_account recon1 = t1" by (simp add: recon1_def)
  then have "lock_ready (rw_lock w') (''shioaji'', ''A1'')"
    using ready_only_when_books_agree [OF r(1)] r(2) by (simp add: t1_def)
  with r show ?thesis by blast
qed

end
