(* ===== verification/Order_Manager_Safety.thy ===== *)
theory Order_Manager_Safety
  imports Order_Manager
begin

text \<open>
  What the outbox coordinator guarantees: over any run of its operations, with claims
  and completions interleaved and processes stopped between them, an order is handed to
  a broker at most once; nothing is sent without admission; a call that failed leaves the
  order UNKNOWN and blocked.
\<close>

section \<open>Operations\<close>

text \<open>\<open>DispatchBegin\<close> without its \<open>DispatchEnd\<close> is a process that stopped after the broker
  call; \<open>RepoOp\<close> is any other use of the store.\<close>

datatype manager_op =
    Create order_manager routed_request instant
  | DispatchOnce order_manager account_ref "nat \<Rightarrow> instant"
  | DispatchBegin order_manager account_ref "nat \<Rightarrow> instant"
  | DispatchEnd routed_order broker_port instant
  | RequestCancel order_manager account_ref string string instant
  | DispatchCancelOnce order_manager account_ref "nat \<Rightarrow> instant"
  | CancelBegin order_manager account_ref "nat \<Rightarrow> instant"
  | CancelEnd routed_order broker_port instant
  | ReconcileOrder order_manager string string
  | ReconcileByBrokerId order_manager account_ref string
  | ReconcileAll order_manager account_ref "string option" "nat \<Rightarrow> instant"
  | RepoOp repo_op

fun manager_step :: "manager_world \<Rightarrow> manager_op \<Rightarrow> manager_world" where
  "manager_step w (Create m rq now) = snd (create m rq now w)"
| "manager_step w (DispatchOnce m t clk) = snd (dispatch_once m t clk w)"
| "manager_step w (DispatchBegin m t clk) = snd (dispatch_begin m t clk w)"
| "manager_step w (DispatchEnd ro port now) = snd (dispatch_end ro port now w)"
| "manager_step w (RequestCancel m t owner cid now) = snd (request_cancel m t owner cid now w)"
| "manager_step w (DispatchCancelOnce m t clk) = snd (dispatch_cancel_once m t clk w)"
| "manager_step w (CancelBegin m t clk) = snd (cancel_begin m t clk w)"
| "manager_step w (CancelEnd ro port now) = snd (cancel_end ro port now w)"
| "manager_step w (ReconcileOrder m owner cid) = snd (reconcile_order m owner cid w)"
| "manager_step w (ReconcileByBrokerId m t bid) = snd (reconcile_by_broker_order_id m t bid w)"
| "manager_step w (ReconcileAll m t owner clk) = snd (reconcile_broker_orders m t owner clk w)"
| "manager_step w (RepoOp x) = w\<lparr>mw_repo := repo_step (mw_repo w) x\<rparr>"

definition empty_world :: manager_world where
  "empty_world = \<lparr>mw_repo = empty_repo, mw_submitted = [], mw_cancelled = []\<rparr>"

definition sent_id :: "routed_order \<Rightarrow> string" where
  "sent_id ro = req_client_order_id (bo_request (ro_order ro))"

definition times_sent :: "string \<Rightarrow> routed_order list \<Rightarrow> nat" where
  "times_sent k ros = length (filter (\<lambda>ro. sent_id ro = k) ros)"

lemma times_sent_simps [simp]: "times_sent k [] = 0"
  "times_sent k (xs @ ys) = times_sent k xs + times_sent k ys"
  "times_sent k [ro] = (if sent_id ro = k then 1 else 0)"
  by (simp_all add: times_sent_def)

section \<open>Every step is explained by store operations\<close>

lemma claim_count_append: "claim_count step claimed k s (xs @ ys) =
    claim_count step claimed k s xs + claim_count step claimed k (run step s xs) ys"
  by (induction xs arbitrary: s) auto

definition explained_by :: "repo_op list \<Rightarrow> manager_world \<Rightarrow> manager_world \<Rightarrow> bool" where
  "explained_by ops w w' \<longleftrightarrow> mw_repo w' = run repo_step (mw_repo w) ops \<and>
     (\<forall>k. times_sent k (mw_submitted w')
            \<le> times_sent k (mw_submitted w) + claim_count repo_step dispatched k (mw_repo w) ops) \<and>
     (\<forall>k. times_sent k (mw_cancelled w')
            \<le> times_sent k (mw_cancelled w) + claim_count repo_step cancel_dispatched k (mw_repo w) ops)"

definition explained :: "manager_world \<Rightarrow> manager_world \<Rightarrow> bool" where
  "explained w w' \<longleftrightarrow> (\<exists>ops. explained_by ops w w')"

lemma explained_refl [simp]: "explained w w"
proof -
  have "explained_by [] w w" by (simp add: explained_by_def)
  then show ?thesis unfolding explained_def by (rule exI)
qed

lemma explained_trans:
  assumes "explained u v" "explained v w" shows "explained u w"
proof -
  from assms obtain xs ys where xs: "explained_by xs u v" and ys: "explained_by ys v w"
    by (auto simp: explained_def)
  have "explained_by (xs @ ys) u w"
    unfolding explained_by_def
  proof (intro conjI allI)
    show "mw_repo w = run repo_step (mw_repo u) (xs @ ys)"
      using xs ys by (simp add: explained_by_def run_append)
    fix k
    have v: "mw_repo v = run repo_step (mw_repo u) xs" using xs by (simp add: explained_by_def)
    have "times_sent k (mw_submitted v) \<le> times_sent k (mw_submitted u)
        + claim_count repo_step dispatched k (mw_repo u) xs" using xs by (simp add: explained_by_def)
    moreover have "times_sent k (mw_submitted w) \<le> times_sent k (mw_submitted v)
        + claim_count repo_step dispatched k (mw_repo v) ys" using ys by (simp add: explained_by_def)
    ultimately show "times_sent k (mw_submitted w) \<le> times_sent k (mw_submitted u)
        + claim_count repo_step dispatched k (mw_repo u) (xs @ ys)"
      unfolding claim_count_append v by linarith
    have "times_sent k (mw_cancelled v) \<le> times_sent k (mw_cancelled u)
        + claim_count repo_step cancel_dispatched k (mw_repo u) xs" using xs by (simp add: explained_by_def)
    moreover have "times_sent k (mw_cancelled w) \<le> times_sent k (mw_cancelled v)
        + claim_count repo_step cancel_dispatched k (mw_repo v) ys" using ys by (simp add: explained_by_def)
    ultimately show "times_sent k (mw_cancelled w) \<le> times_sent k (mw_cancelled u)
        + claim_count repo_step cancel_dispatched k (mw_repo u) (xs @ ys)"
      unfolding claim_count_append v by linarith
  qed
  then show ?thesis unfolding explained_def by (rule exI)
qed

lemma explained_op:
  assumes "mw_repo w' = repo_step (mw_repo w) x" "mw_submitted w' = mw_submitted w"
    "mw_cancelled w' = mw_cancelled w"
  shows "explained w w'"
proof -
  have "explained_by [x] w w'" using assms by (simp add: explained_by_def)
  then show ?thesis unfolding explained_def by (rule exI)
qed

lemma in_repo_explained:
  assumes "in_repo f w = (r, w')" and "snd (f (mw_repo w)) = repo_step (mw_repo w) x"
  shows "explained w w'"
  by (rule explained_op [of _ _ x]) (use assms in \<open>auto simp: in_repo_def split: prod.splits\<close>)

lemma claim_explained:
  assumes "in_repo (claim_next t now) w = (Inr (Some ro), w1)"
  shows "explained w (w1\<lparr>mw_submitted := mw_submitted w1 @ [ro]\<rparr>)"
proof -
  have "explained_by [ClaimNext t now] w (w1\<lparr>mw_submitted := mw_submitted w1 @ [ro]\<rparr>)"
    using assms by (auto simp: explained_by_def in_repo_def handed_out_def sent_id_def split: prod.splits)
  then show ?thesis unfolding explained_def by (rule exI)
qed

lemma cancel_claim_explained:
  assumes "in_repo (claim_next_cancel t now) w = (Inr (Some ro), w1)"
  shows "explained w (w1\<lparr>mw_cancelled := mw_cancelled w1 @ [ro]\<rparr>)"
proof -
  have "explained_by [ClaimNextCancel t now] w (w1\<lparr>mw_cancelled := mw_cancelled w1 @ [ro]\<rparr>)"
    using assms by (auto simp: explained_by_def in_repo_def handed_out_def sent_id_def split: prod.splits)
  then show ?thesis unfolding explained_def by (rule exI)
qed

lemma dispatch_begin_explained: "explained w (snd (dispatch_begin m t clk w))"
proof (cases "in_repo (claim_next t (clk 0)) w")
  case (Pair r w1)
  have e1: "explained w w1" by (rule in_repo_explained [OF Pair, of "ClaimNext t (clk 0)"]) simp
  show ?thesis
  proof (cases r)
    case (Inl e)
    with e1 show ?thesis by (simp add: dispatch_begin_def Pair split: sum.split)
  next
    case (Inr ro)
    show ?thesis
    proof (cases ro)
      case None
      with e1 Inr show ?thesis by (simp add: dispatch_begin_def Pair split: sum.split)
    next
      case (Some ro')
      have sent: "explained w (w1\<lparr>mw_submitted := mw_submitted w1 @ [ro']\<rparr>)"
        by (rule claim_explained [of t "clk 0"]) (simp add: Pair Inr Some)
      have block: "explained w w2" if "in_repo (block_dispatch b code n) w1 = (r2, w2)" for b code n r2 w2
        by (rule explained_trans [OF e1 in_repo_explained [OF that, of "BlockDispatch b code n"]]) simp
      show ?thesis using sent e1
        by (auto simp: dispatch_begin_def Pair Inr Some Let_def split: sum.split prod.split elim: block)
    qed
  qed
qed

lemma cancel_begin_explained: "explained w (snd (cancel_begin m t clk w))"
proof (cases "in_repo (claim_next_cancel t (clk 0)) w")
  case (Pair r w1)
  have e1: "explained w w1" by (rule in_repo_explained [OF Pair, of "ClaimNextCancel t (clk 0)"]) simp
  show ?thesis
  proof (cases r)
    case (Inl e)
    with e1 show ?thesis by (simp add: cancel_begin_def Pair split: sum.split)
  next
    case (Inr ro)
    show ?thesis
    proof (cases ro)
      case None
      with e1 Inr show ?thesis by (simp add: cancel_begin_def Pair split: sum.split)
    next
      case (Some ro')
      have sent: "explained w (w1\<lparr>mw_cancelled := mw_cancelled w1 @ [ro']\<rparr>)"
        by (rule cancel_claim_explained [of t "clk 0"]) (simp add: Pair Inr Some)
      have block: "explained w w2" if "in_repo (block_cancel b code n) w1 = (r2, w2)" for b code n r2 w2
        by (rule explained_trans [OF e1 in_repo_explained [OF that, of "BlockCancel b code n"]]) simp
      show ?thesis using sent e1
        by (auto simp: cancel_begin_def Pair Inr Some Let_def split: sum.split prod.split elim: block)
    qed
  qed
qed

lemma dispatch_end_explained: "explained w (snd (dispatch_end ro port now w))"
proof -
  have "explained w w2" if "in_repo (finish_dispatch b) w = (r2, w2)" for b r2 w2
    by (rule in_repo_explained [OF that, of "FinishDispatch b"]) simp
  then show ?thesis by (auto simp: dispatch_end_def split: sum.split prod.split)
qed

lemma cancel_end_explained: "explained w (snd (cancel_end ro port now w))"
proof -
  have "explained w w2" if "in_repo (finish_cancel b) w = (r2, w2)" for b r2 w2
    by (rule in_repo_explained [OF that, of "FinishCancel b"]) simp
  then show ?thesis by (auto simp: cancel_end_def split: sum.split prod.split)
qed

lemma dispatch_once_explained: "explained w (snd (dispatch_once m t clk w))"
proof (cases "dispatch_begin m t clk w")
  case (Pair r w1)
  with dispatch_begin_explained [of w m t clk] have e: "explained w w1" by simp
  have "explained w w2" if "dispatch_end ro port now w1 = (r2, w2)" for ro port now r2 w2
    using explained_trans [OF e dispatch_end_explained [of w1 ro port now]] that by simp
  then show ?thesis using e Pair
    by (auto simp: dispatch_once_def split: sum.split prod.split dispatch_stage.split)
qed

lemma dispatch_cancel_once_explained: "explained w (snd (dispatch_cancel_once m t clk w))"
proof (cases "cancel_begin m t clk w")
  case (Pair r w1)
  with cancel_begin_explained [of w m t clk] have e: "explained w w1" by simp
  have "explained w w2" if "cancel_end ro port now w1 = (r2, w2)" for ro port now r2 w2
    using explained_trans [OF e cancel_end_explained [of w1 ro port now]] that by simp
  then show ?thesis using e Pair
    by (auto simp: dispatch_cancel_once_def split: sum.split prod.split dispatch_stage.split)
qed

lemma save_explained: "in_repo (save_reconciliation b) w = (r, w') \<Longrightarrow> explained w w'"
  by (rule in_repo_explained [of _ _ _ _ "SaveReconciliation b"]) simp_all

lemma refresh_explained: "refresh_and_save port cur w = (r, w') \<Longrightarrow> explained w w'"
  by (auto simp: refresh_and_save_def split: sum.splits prod.splits elim: save_explained)

lemma reconcile_loop_explained: "explained w (snd (reconcile_loop port clk curs w))"
proof (induction curs arbitrary: clk w)
  case (Cons cur curs)
  have step: "explained w (snd (reconcile_loop port clk' curs w1))"
    if "in_repo (save_reconciliation b) w = (r, w1)" for b r w1 clk'
    by (rule explained_trans [OF save_explained [OF that] Cons.IH])
  have step': "explained w w2"
    if "in_repo (save_reconciliation b) w = (r, w1)" "reconcile_loop port clk' curs w1 = (r2, w2)"
    for b r w1 clk' r2 w2 using step [OF that(1), of clk'] that(2) by simp
  show ?case
    by (auto split: sum.split prod.split elim: save_explained step')
qed simp

lemma manager_step_explained: "explained w (manager_step w x)"
proof (cases x)
  case (Create m rq now)
  have "explained w w'" if "in_repo (reserve rq now) w = (r, w')" for r w'
    by (rule in_repo_explained [OF that, of "Reserve rq now"]) simp
  then show ?thesis unfolding Create
    by (cases "in_repo (reserve rq now) w") (auto simp: create_def split: sum.split)
next
  case (RequestCancel m t owner cid now)
  have "explained w w'" if "in_repo (reserve_cancel t owner cid now) w = (r, w')" for r w'
    by (rule in_repo_explained [OF that, of "ReserveCancel t owner cid now"]) simp
  then show ?thesis unfolding RequestCancel
    by (cases "in_repo (reserve_cancel t owner cid now) w")
      (auto simp: request_cancel_def split: sum.split option.split)
next
  case (ReconcileAll m t owner clk)
  show ?thesis unfolding ReconcileAll using reconcile_loop_explained
    by (auto simp: reconcile_broker_orders_def split: sum.split)
next
  case (RepoOp y)
  show ?thesis unfolding RepoOp by (rule explained_op [of _ _ y]) simp_all
qed (auto simp: dispatch_begin_explained dispatch_end_explained dispatch_once_explained
      dispatch_cancel_once_explained cancel_begin_explained cancel_end_explained
      reconcile_order_def reconcile_by_broker_order_id_def
      split: sum.split option.split prod.split dest: refresh_explained
      intro: refresh_explained [OF surjective_pairing])

lemma manager_run_explained: "explained w (run manager_step w xs)"
  by (induction xs arbitrary: w) (auto intro: explained_trans manager_step_explained)

section \<open>Properties\<close>

lemma sent_at_most_once:
  "times_sent cid (mw_submitted (run manager_step empty_world ops)) \<le> 1 \<and>
   times_sent cid (mw_cancelled (run manager_step empty_world ops)) \<le> 1"
proof -
  obtain xs where x: "explained_by xs empty_world (run manager_step empty_world ops)"
    using manager_run_explained [of empty_world ops] by (auto simp: explained_def)
  have "claim_count repo_step dispatched cid empty_repo xs \<le> 1"
    "claim_count repo_step cancel_dispatched cid empty_repo xs \<le> 1"
    by (rule dispatch.claimed_at_most_once [OF rows_ok_empty],
        rule cancel_dispatch.claimed_at_most_once [OF rows_ok_empty])
  moreover have "times_sent cid (mw_submitted (run manager_step empty_world ops))
      \<le> claim_count repo_step dispatched cid empty_repo xs"
    "times_sent cid (mw_cancelled (run manager_step empty_world ops))
      \<le> claim_count repo_step cancel_dispatched cid empty_repo xs"
    using x by (simp_all add: explained_by_def empty_world_def)
  ultimately show ?thesis by linarith
qed

text \<open>C12. Over any run of the manager's operations from an empty store, with dispatches
  stopped after the broker call, interleaved claims and completions, restarts and any
  other use of the store, no order is submitted to a broker twice and no order is
  cancelled at a broker twice.\<close>

theorem no_duplicate_broker_call:
  "times_sent cid (mw_submitted (run manager_step empty_world ops)) \<le> 1 \<and>
   times_sent cid (mw_cancelled (run manager_step empty_world ops)) \<le> 1"
  by (rule sent_at_most_once)

lemma dispatch_begin_sentD:
  assumes "dispatch_begin m t clk w = (Inr (Sent ro port), w')"
  shows "assert_admitted m t = Inr () \<and> ro_target ro = t \<and> assert_order_admitted m (SubjOrder ro) = Inr ()
    \<and> resolve t (om_registry m) = Inr port
    \<and> claim_next t (clk 0) (mw_repo w) = (Inr (Some ro), mw_repo w')
    \<and> mw_submitted w' = mw_submitted w @ [ro] \<and> mw_cancelled w' = mw_cancelled w"
  using assms
  by (auto simp: dispatch_begin_def in_repo_def Let_def split: sum.splits prod.splits option.splits if_splits)

lemma dispatch_begin_submits:
  assumes "dispatch_begin m t clk w = (r, w')"
  shows "mw_submitted w' = mw_submitted w \<or> (\<exists>ro port. r = Inr (Sent ro port))"
  using assms
  by (auto simp: dispatch_begin_def in_repo_def Let_def split: sum.splits prod.splits option.splits if_splits)

lemma dispatch_end_submits [simp]: "dispatch_end ro port now w = (r, w') \<Longrightarrow> mw_submitted w' = mw_submitted w"
  by (auto simp: dispatch_end_def in_repo_def split: sum.splits prod.splits)

lemma dispatch_once_sent:
  assumes "dispatch_once m t clk w = (r, w')" and "mw_submitted w' \<noteq> mw_submitted w"
  shows "\<exists>ro port w1. dispatch_begin m t clk w = (Inr (Sent ro port), w1) \<and> mw_submitted w' = mw_submitted w1"
proof -
  obtain r1 w1 where b: "dispatch_begin m t clk w = (r1, w1)" by fastforce
  show ?thesis
  proof (cases "\<exists>ro port. r1 = Inr (Sent ro port)")
    case True
    then obtain ro port where "r1 = Inr (Sent ro port)" by blast
    with b assms(1) have "mw_submitted w' = mw_submitted w1"
      by (auto simp: dispatch_once_def split: sum.splits prod.splits)
    with b \<open>r1 = Inr (Sent ro port)\<close> show ?thesis by blast
  next
    case False
    with assms(1) b have "w' = w1"
      by (auto simp: dispatch_once_def split: sum.splits dispatch_stage.splits)
    moreover from dispatch_begin_submits [OF b] False have "mw_submitted w1 = mw_submitted w" by simp
    ultimately show ?thesis using assms(2) by simp
  qed
qed


lemma outbox_state_settled:
  assumes "known_in (lr_outbox s) k"
  shows "outbox_state_of k (set_outbox k (settle st t) s) = Some st"
proof -
  obtain ob where f: "find (\<lambda>r. ob_client_order_id r = k) (lr_outbox s) = Some ob"
    using assms find_outbox_None [of k "lr_outbox s"] by (auto simp: find_outbox_def)
  then have "ob_client_order_id ob = k" by (auto dest: find_SomeD)
  moreover have "find (\<lambda>r. ob_client_order_id r = k)
      (tbl_update (\<lambda>r. ob_client_order_id r = k) (settle st t) (lr_outbox s))
      = map_option (\<lambda>r. if ob_client_order_id r = k then settle st t r else r)
          (find (\<lambda>r. ob_client_order_id r = k) (lr_outbox s))"
    by (rule find_tbl_update_key) (simp add: settle_def)
  ultimately show ?thesis by (simp add: outbox_state_of_def set_outbox_def find_outbox_def f settle_def)
qed

text \<open>C14. An ambiguous submission is never retried and never forgotten: when the broker
  call raises, the dispatch returns the order as UNKNOWN, stores it so, and leaves its
  outbox row blocked for reconciliation.\<close>

theorem failed_call_blocks_order:
  assumes ok: "store_ok (mw_repo w)"
    and sent: "dispatch_begin m t clk w = (Inr (Sent ro port), w1)"
    and raised: "bp_submit port (bo_request (ro_order ro)) = Inl e"
    and pre: "UNKNOWN \<in> set (allowed_transitions (bo_status (ro_order ro)))" "bo_updated_at (ro_order ro) \<le> clk 1"
  shows "\<exists>b w2. dispatch_once m t clk w = (Inr (Some b), w2) \<and> bo_status b = UNKNOWN
    \<and> unknown_at (sent_id ro) (mw_repo w2)
    \<and> outbox_state_of (sent_id ro) (mw_repo w2) = Some Blocked
    \<and> mw_submitted w2 = mw_submitted w @ [ro]"
proof -
  note d = dispatch_begin_sentD [OF sent]
  then obtain ob r where c: "first_by (ob_created_at \<circ> fst) (claim_candidates t (mw_repo w)) = Some (ob, r)"
    "routed_of_row r = Inr ro" "mw_repo w1 = set_outbox (or_client_order_id r) (start_attempt (clk 0)) (mw_repo w)"
    and free: "\<not> lr_in_txn (mw_repo w)"
    by (auto simp: claim_next_def Let_def split: option.splits sum.splits if_splits)
  from first_by_SomeD [OF c(1)] have m: "ob \<in> set (lr_outbox (mw_repo w))" "r \<in> set (lr_orders (mw_repo w))"
    "or_client_order_id r = ob_client_order_id ob" by (auto simp: claim_candidates_def)
  from c(2) have dec: "order_of_row r = Inr (ro_order ro)"
    by (auto simp: routed_of_row_def mk_routed_order_def split: sum.splits option.splits if_splits)
  have st: "bo_status (ro_order ro) \<noteq> UNKNOWN" using pre(1) by (auto simp: allowed_transitions_def)
  let ?why = "Some ''broker_call_failed_reconciliation_required''"
  define b where "b = (ro_order ro)\<lparr>bo_status := UNKNOWN, bo_updated_at := clk 1, bo_status_reason := ?why\<rparr>"
  have out: "submit_outcome port (ro_order ro) (clk 1) = Inr b" unfolding submit_outcome_def b_def raised
    using transition_unknown [OF order_of_row_valid [OF dec] pre(2,1) st, of ?why] by simp
  have rows: "rows_ok (mw_repo w)" and bids: "bids_unique (lr_orders (mw_repo w))"
    using ok by (simp_all add: store_ok_def)
  have req: "bo_request b = or_request r" using order_of_row_request [OF dec] by (simp add: b_def)
  have key: "row_of_order b r" "sent_id ro = or_client_order_id r"
    using rows m(2) req order_of_row_request [OF dec] by (auto simp: rows_ok_def row_of_order_def sent_id_def)
  have orders: "lr_orders (mw_repo w1) = lr_orders (mw_repo w)" using c(3) by (simp add: set_outbox_def)
  have "bo_broker_order_id b = or_broker_order_id r \<or> bo_broker_order_id b = None"
    using order_of_row_bid [OF dec] by (simp add: b_def)
  with bids_from_write [OF bids_from_refl m(2) bids _ key(1)] rows
  have nc: "\<forall>x \<in> set (lr_orders (mw_repo w)). row_of_order b x \<longrightarrow> \<not> unique_conflict b x (lr_orders (mw_repo w))"
    by (simp add: rows_ok_def)
  define s1 where "s1 = (mw_repo w1)\<lparr>lr_orders := tbl_update (row_of_order b) (write_order b) (lr_orders (mw_repo w1))\<rparr>"
  have upd: "update_order b (mw_repo w1) = Inr s1" using nc by (auto simp: update_order_def orders s1_def)
  have fin: "finish_dispatch b (mw_repo w1) = (Inr (), set_outbox (sent_id ro) (settle Blocked (clk 1)) s1)"
  proof -
    have "req_client_order_id (bo_request b) = sent_id ro" "bo_status b = UNKNOWN" "bo_updated_at b = clk 1"
      by (simp_all add: b_def sent_id_def)
    moreover have "\<not> lr_in_txn (mw_repo w1)" using free c(3) by (simp add: set_outbox_def)
    ultimately show ?thesis by (simp add: finish_dispatch_def upd)
  qed
  have unk: "unknown_at (sent_id ro) s1" unfolding s1_def
  proof (rule unknown_write_key)
    show "bo_status b = UNKNOWN" by (simp add: b_def)
    fix q assume "q \<in> set (lr_orders (mw_repo w1))" "or_client_order_id q = sent_id ro"
    then have "q = r" using rows m(2) key(2) orders
      by (auto simp: rows_ok_def intro: distinct_key_inj [of or_client_order_id])
    with key(1) show "row_of_order b q" by simp
  qed
  have "known_in (lr_outbox (mw_repo w)) (sent_id ro)" using m(1,3) key(2) by (auto simp: known_in_def)
  then have "known_in (lr_outbox s1) (sent_id ro)"
    using ob_leD [OF ob_le_update [OF closing_attempt]] by (simp add: s1_def c(3) set_outbox_def)
  then have blocked: "outbox_state_of (sent_id ro) (set_outbox (sent_id ro) (settle Blocked (clk 1)) s1) = Some Blocked"
    by (rule outbox_state_settled)
  have "dispatch_once m t clk w = (Inr (Some b), w1\<lparr>mw_repo := set_outbox (sent_id ro) (settle Blocked (clk 1)) s1\<rparr>)"
    by (simp add: dispatch_once_def sent dispatch_end_def out in_repo_def fin del: One_nat_def)
  then show ?thesis using unk blocked d by (simp add: b_def)
qed

section \<open>Witnesses\<close>

definition flaky_port :: broker_port where
  "flaky_port = \<lparr>bp_broker_name = ''shioaji'', bp_submit = (\<lambda>_. Inl (RuntimeError ''timeout'')),
     bp_cancel = (\<lambda>_. Inl (RuntimeError ''timeout'')), bp_refresh = (\<lambda>b. Inr b)\<rparr>"

definition open_gate :: admission_gate where
  "open_gate = \<lparr>ag_ordering = Inr (), ag_order = None, ag_cancel = None\<rparr>"

definition manager1 :: order_manager where
  "manager1 = \<lparr>om_registry = snd (register \<lparr>rg_account_ref = t1, rg_port = flaky_port,
     rg_capabilities = [], rg_state = RtReady\<rparr> empty_registry), om_gates = [(t1, open_gate)]\<rparr>"

definition world1 :: manager_world where
  "world1 = empty_world\<lparr>mw_repo := repo_step empty_repo (Reserve rq1 1)\<rparr>"

lemma dispatch_world1: "dispatch_once manager1 t1 (\<lambda>i. 2 + int i) world1 =
    (fst (dispatch_once manager1 t1 (\<lambda>i. 2 + int i) world1), snd (dispatch_once manager1 t1 (\<lambda>i. 2 + int i) world1))"
  by simp


theorem failed_call_blocks_order_witness:
  "\<exists>b w2. dispatch_once manager1 t1 (\<lambda>i. 2 + int i) world1 = (Inr (Some b), w2) \<and> bo_status b = UNKNOWN
    \<and> outbox_state_of ''c1'' (mw_repo w2) = Some Blocked"
proof -
  define stage where "stage = dispatch_begin manager1 t1 (\<lambda>i. 2 + int i) world1"
  have "case stage of (Inr (Sent ro port), w1) \<Rightarrow>
      is_ok (bp_submit port (bo_request (ro_order ro))) = False \<and> sent_id ro = ''c1''
      \<and> UNKNOWN \<in> set (allowed_transitions (bo_status (ro_order ro))) \<and> bo_updated_at (ro_order ro) \<le> 2 + int 1
    | _ \<Rightarrow> False" unfolding stage_def by code_simp
  then obtain ro port w1 e where s: "stage = (Inr (Sent ro port), w1)"
    "bp_submit port (bo_request (ro_order ro)) = Inl e" "sent_id ro = ''c1''"
    "UNKNOWN \<in> set (allowed_transitions (bo_status (ro_order ro)))" "bo_updated_at (ro_order ro) \<le> 2 + int 1"
    by (auto simp: is_ok_def split: prod.splits sum.splits dispatch_stage.splits)
  have "store_ok (mw_repo world1)" unfolding world1_def
    using store.step_inv [OF store_ok_empty, of "Reserve rq1 1"] by simp
  from failed_call_blocks_order [OF this s(1) [unfolded stage_def] s(2,4,5)] s(3) show ?thesis by auto
qed

end
