(* ===== verification/Guardian.thy ===== *)
theory Guardian
  imports Guardian_Store Live_Policy Reconciliation Order_Manager_Safety
begin

text \<open>
  The position guardian (\<open>tw_quant/execution/guardian.py\<close>): it rebuilds protection from
  broker truth, turns quotes and kill switches into reduce-only exits, and reserves every
  exit through the order manager.  The digests of ids are functions of the record
  \<open>guardian\<close>; what it reads from outside (readiness, kill switches, quotes) are its
  fields.  A clock argument gives the successive readings of one call.
\<close>

section \<open>Configuration and state\<close>

record guardian_config =
  gc_enabled :: bool
  gc_stop_ticks :: int
  gc_take_ticks :: int
  gc_stale_seconds :: rat
  gc_poll_seconds :: rat

definition guardian_config_post_init :: "guardian_config \<Rightarrow> guardian_config res" where
  "guardian_config_post_init c = first_error
     [(gc_stop_ticks c < 1 \<or> gc_take_ticks c < 1, ValueError ''guardian protection ticks must be positive''),
      (\<not> (1 / 10 \<le> gc_stale_seconds c \<and> gc_stale_seconds c \<le> 30),
        ValueError ''guardian quote stale threshold is invalid''),
      (\<not> (1 / 20 \<le> gc_poll_seconds c \<and> gc_poll_seconds c \<le> 5),
        ValueError ''guardian poll interval is invalid'')] c"

record guardian =
  gu_account :: account_ref
  gu_config :: guardian_config
  gu_registry :: broker_registry
  gu_manager :: order_manager
  gu_instrument :: instrument_spec
  gu_normal :: policy_kind
  gu_emergency :: policy_kind
  gu_connected :: bool
  gu_ca_ready :: bool
  gu_kill_switches :: "(string \<Rightarrow> kill_switch_action list) option"
  gu_owner_ids :: "string list"
  gu_quotes :: "string \<Rightarrow> string \<Rightarrow> quote option"
  gu_position_id :: "string \<Rightarrow> string \<Rightarrow> string"
  gu_exit_id :: "managed_position \<Rightarrow> exit_reason \<Rightarrow> string"
  gu_order_id :: order_id_fun

record guardian_world =
  gw_store :: guardian_store
  gw_manager :: manager_world
  gw_lock :: recovery_table

definition in_store :: "(guardian_store, 'a) prog \<Rightarrow> (guardian_world, 'a) prog" where
  "in_store f w = (let (r, s) = f (gw_store w) in (r, w\<lparr>gw_store := s\<rparr>))"

definition in_manager :: "(manager_world, 'a) prog \<Rightarrow> (guardian_world, 'a) prog" where
  "in_manager f w = (let (r, s) = f (gw_manager w) in (r, w\<lparr>gw_manager := s\<rparr>))"

definition in_lock :: "(recovery_table, 'a) prog \<Rightarrow> (guardian_world, 'a) prog" where
  "in_lock f w = (let (r, s) = f (gw_lock w) in (r, w\<lparr>gw_lock := s\<rparr>))"

definition reading :: "(guardian_world \<Rightarrow> 'a res) \<Rightarrow> (guardian_world, 'a) prog" where
  "reading f w = (f w, w)"

definition guardian_repo :: "guardian_world \<Rightarrow> live_repo" where
  "guardian_repo w = mw_repo (gw_manager w)"

definition guardian_ready :: "guardian \<Rightarrow> instant \<Rightarrow> (guardian_world, unit) prog" where
  "guardian_ready g now = (if \<not> gc_enabled (gu_config g) then fail (RuntimeError ''live_position_guardian_disabled'')
     else and_then (in_lock (assert_ready (broker_name (gu_account g)) (account_id (gu_account g)) now)) (\<lambda>_.
       if \<not> gu_connected g \<or> \<not> gu_ca_ready g then fail (RuntimeError ''guardian_broker_unavailable'')
       else give ()))"

section \<open>Average cost\<close>

fun open_position_from :: "int \<Rightarrow> price option \<Rightarrow> (int \<times> price) list \<Rightarrow> (int \<times> price option) res" where
  "open_position_from q avg [] = Inr (q, avg)"
| "open_position_from q avg ((s, p) # fs) =
     (if s = 0 \<or> p \<le> 0 then Inl (ValueError ''invalid broker fill'')
      else if q = 0 \<or> (q > 0) = (s > 0) then
        open_position_from (q + s)
          (Some (((case avg of None \<Rightarrow> 0 | Some a \<Rightarrow> a) * of_int \<bar>q\<bar> + p * of_int \<bar>s\<bar>) / of_int (\<bar>q\<bar> + \<bar>s\<bar>))) fs
      else if \<bar>s\<bar> > \<bar>q\<bar> then Inl (RuntimeError ''guardian_position_reversal_detected'')
      else open_position_from (q + s) (if q + s = 0 then None else avg) fs)"

definition open_position :: "(int \<times> price) list \<Rightarrow> (int \<times> price option) res" where
  "open_position fs = open_position_from 0 None fs"

section \<open>Synchronization from broker truth\<close>

record fill_entry =
  fe_occurred_at :: instant
  fe_fill_id :: string
  fe_signed :: int
  fe_price :: price
  fe_order :: broker_order

type_synonym fill_groups = "((string \<times> string) \<times> fill_entry list) list"

definition group_fill :: "guardian \<Rightarrow> live_repo \<Rightarrow> fill_snapshot \<Rightarrow> fill_groups \<Rightarrow> fill_groups res" where
  "group_fill g repo f d = (case get_by_broker_order_id (gu_account g) (fs_broker_order_id f) repo of
       Inl e \<Rightarrow> Inl e
     | Inr None \<Rightarrow> Inl (RuntimeError ''guardian_orphan_broker_fill'')
     | Inr (Some b) \<Rightarrow>
        (let k = (req_owner_id (bo_request b), fs_contract f);
             x = \<lparr>fe_occurred_at = fs_occurred_at f, fe_fill_id = fs_fill_id f,
               fe_signed = signed_quantity (fs_side f) (fs_quantity f), fe_price = fs_price f, fe_order = b\<rparr> in
         Inr (dict_put k ((case map_of d k of None \<Rightarrow> [] | Some xs \<Rightarrow> xs) @ [x]) d)))"

definition protection_state :: "guardian \<Rightarrow> string \<Rightarrow> live_repo \<Rightarrow> managed_position option
    \<Rightarrow> (position_state \<times> string option \<times> exit_reason option \<times> exit_reason option \<times> string option) res" where
  "protection_state g owner repo existing = (case existing of
       None \<Rightarrow> Inr (ActivePos, None, None, None, None)
     | Some p \<Rightarrow> if \<not> truthy (mp_exit_order p) then Inr (ActivePos, None, None, None, None)
         else (case repo_get owner (the (mp_exit_order p)) repo of
             Inl e \<Rightarrow> Inl e
           | Inr None \<Rightarrow> Inr (LockedPos, mp_exit_order p, mp_exit_reason p, mp_pending p,
               Some ''guardian_exit_reservation_without_order'')
           | Inr (Some b) \<Rightarrow>
               if bo_status b = UNKNOWN then Inr (UnknownPos, mp_exit_order p, mp_exit_reason p, mp_pending p,
                 Some ''guardian_exit_unknown'')
               else if status_terminal (bo_status b) then Inr (ActivePos, None, None, mp_pending p, None)
               else Inr (ExitPending, mp_exit_order p, mp_exit_reason p, mp_pending p, None)))"

definition next_generation :: "managed_position option \<Rightarrow> int \<Rightarrow> price \<Rightarrow> int" where
  "next_generation existing q avg = (case existing of None \<Rightarrow> 1
     | Some p \<Rightarrow> if mp_quantity p = q \<and> \<bar>mp_average p - avg\<bar> < 1 / 1000000000
         then mp_generation p else mp_generation p + 1)"

definition rebuilt_position :: "guardian \<Rightarrow> instant \<Rightarrow> string \<Rightarrow> string \<Rightarrow> int \<Rightarrow> price \<Rightarrow> fill_entry list
    \<Rightarrow> managed_position option \<Rightarrow> live_repo \<Rightarrow> managed_position res" where
  "rebuilt_position g now owner c q avg vs existing repo =
     (case protection_state g owner repo existing of Inl e \<Rightarrow> Inl e
      | Inr (st, active_id, active_reason, pending, code) \<Rightarrow>
        (let r = bo_request (fe_order (last vs));
             mstop = of_int (gc_stop_ticks (gu_config g)) * in_tick_size (gu_instrument g);
             mtake = of_int (gc_take_ticks (gu_config g)) * in_tick_size (gu_instrument g) in
         position_post_init \<lparr>mp_id = gu_position_id g owner c, mp_owner = owner, mp_account = gu_account g,
           mp_symbol = req_symbol r, mp_contract = c, mp_quantity = q, mp_average = avg, mp_protection = \<bar>q\<bar>,
           mp_stop = (if q > 0 then avg - mstop else avg + mstop),
           mp_take = (if q > 0 then avg + mtake else avg - mtake),
           mp_strategy = req_strategy_id r, mp_version = req_strategy_version r, mp_state = st,
           mp_generation = next_generation existing q avg, mp_exit_order = active_id,
           mp_exit_reason = active_reason, mp_pending = pending, mp_updated_at = now, mp_issue = code\<rparr>))"

definition sync_group :: "guardian \<Rightarrow> instant \<Rightarrow> (string \<times> string) \<times> fill_entry list
    \<Rightarrow> (string \<times> int) list \<times> managed_position list
    \<Rightarrow> (guardian_world, (string \<times> int) list \<times> managed_position list) prog" where
  "sync_group g now kv acc = (case (kv, acc) of (((owner, c), values), (calc, synced)) \<Rightarrow>
     (let vs = sort_key fe_occurred_at (sort_key fe_fill_id values) in
      and_then (lift_res (open_position (map (\<lambda>v. (fe_signed v, fe_price v)) vs))) (\<lambda>(q, average).
      (let calc' = dict_add c q calc; i = gu_position_id g owner c in
       and_then (in_store (\<lambda>s. (get_position i s, s))) (\<lambda>existing.
       if q = 0 then (case existing of None \<Rightarrow> give (calc', synced)
         | Some _ \<Rightarrow> and_then (in_store (mark_flat i now)) (\<lambda>p. give (calc', synced @ [p])))
       else (case average of None \<Rightarrow> fail (RuntimeError ''guardian_instrument_mismatch'')
         | Some avg \<Rightarrow> if c \<noteq> in_contract (gu_instrument g) then fail (RuntimeError ''guardian_instrument_mismatch'')
             else and_then (reading (\<lambda>w. rebuilt_position g now owner c q avg vs existing (guardian_repo w))) (\<lambda>p.
               and_then (in_store (synchronize_position p)) (\<lambda>p'. give (calc', synced @ [p'])))))))))"

definition nonzero :: "(string \<times> int) list \<Rightarrow> (string \<times> int) list" where
  "nonzero d = filter (\<lambda>(_, v). v \<noteq> 0) d"

definition flatten_missing :: "guardian \<Rightarrow> instant \<Rightarrow> (string \<times> int) list \<Rightarrow> managed_position \<Rightarrow> managed_position list
    \<Rightarrow> (guardian_world, managed_position list) prog" where
  "flatten_missing g now broker p synced = (if mp_contract p \<notin> fst ` set broker \<and> mp_state p \<noteq> FlatPos
     then and_then (in_store (mark_flat (mp_id p) now)) (\<lambda>q. give (synced @ [q])) else give synced)"

definition guardian_synchronize :: "guardian \<Rightarrow> truth_row list \<Rightarrow> instant \<Rightarrow> (guardian_world, managed_position list) prog" where
  "guardian_synchronize g truth now = and_then (guardian_ready g now) (\<lambda>_.
     case truth_get (gu_account g) truth of None \<Rightarrow> fail (RuntimeError ''guardian_broker_truth_unavailable'')
     | Some snap \<Rightarrow> and_then (lift_res (snapshot_account_ref snap)) (\<lambda>a.
        if a \<noteq> gu_account g then fail (RuntimeError ''guardian_broker_truth_unavailable'')
        else and_then (reading (\<lambda>w. foldM (group_fill g (guardian_repo w)) (rs_fills snap) [])) (\<lambda>groups.
        and_then (fold_prog (sync_group g now) groups ([], [])) (\<lambda>(calc, synced).
        (let broker = nonzero (fold (\<lambda>p. dict_put (ps_contract p) (ps_quantity p)) (rs_positions snap) []) in
         if set (nonzero calc) \<noteq> set broker then fail (RuntimeError ''guardian_broker_position_mismatch'')
         else and_then (in_store (\<lambda>s. (guardian_positions (gu_account g) s, s))) (\<lambda>ps.
           fold_prog (flatten_missing g now broker) ps synced))))))"

section \<open>Exits\<close>

definition guardian_sink_reserve :: "order_manager \<Rightarrow> account_ref \<Rightarrow> broker_order_request \<Rightarrow> instant
    \<Rightarrow> (manager_world, broker_order \<times> bool) prog" where
  "guardian_sink_reserve m t q now w = (if req_source q \<noteq> ''live_position_guardian'' \<or> \<not> req_reduce_only q
       \<or> req_purpose q \<notin> {Exit, Liquidation}
     then (Inl (RuntimeError ''guardian_reduce_only_required''), w)
     else (case mk_routed_request t q of Inl e \<Rightarrow> (Inl e, w) | Inr rq \<Rightarrow> create m rq now w))"

definition exit_candidate :: "guardian \<Rightarrow> managed_position \<Rightarrow> exit_reason \<Rightarrow> string \<Rightarrow> instant \<Rightarrow> live_candidate" where
  "exit_candidate g p reason cid now = \<lparr>ca_owner_id = mp_owner p, ca_runtime_id = ''live-position-guardian'',
     ca_decision_id = cid, ca_target = gu_account g, ca_strategy_id = mp_strategy p,
     ca_strategy_version = mp_version p, ca_symbol = mp_symbol p, ca_contract = mp_contract p,
     ca_trigger_time = now, ca_action = ExitAction,
     ca_direction = (if mp_quantity p > 0 then LongDir else ShortDir), ca_quantity = mp_protection p,
     ca_reason = ''guardian_'' @ exit_value reason, ca_planned_stop = None, ca_session = DaySession\<rparr>"

definition exit_approval :: live_risk_approval where
  "exit_approval = \<lparr>ap_approved = True, ap_reason = ''guardian_reduce_only_approved'',
     ap_policy_version = ''live-guardian:v1'', ap_estimated_risk = None, ap_warnings = []\<rparr>"

definition exit_request :: "managed_position \<Rightarrow> exit_reason \<Rightarrow> string \<Rightarrow> broker_order_request \<Rightarrow> broker_order_request" where
  "exit_request p reason cid q = q\<lparr>req_client_order_id := cid, req_source := ''live_position_guardian'',
     req_arm_id := None, req_reduce_only := True,
     req_purpose := (if reason = EmergencyFlatten then Liquidation else Exit),
     req_reason := ''guardian_'' @ exit_value reason, req_correlation_id := Some (mp_id p),
     req_causation_id := Some (''guardian-generation:'' @ show_int (mp_generation p))\<rparr>"

text \<open>The \<open>try\<close> block of \<open>request_exit\<close>: the request the policy gives, then its reservation.\<close>

definition exit_policy :: "guardian \<Rightarrow> exit_reason \<Rightarrow> policy_kind" where
  "exit_policy g reason = (if reason = EmergencyFlatten then gu_emergency g else gu_normal g)"

definition exit_order :: "guardian \<Rightarrow> managed_position \<Rightarrow> exit_reason \<Rightarrow> string \<Rightarrow> quote option \<Rightarrow> instant
    \<Rightarrow> broker_order_request res" where
  "exit_order g p reason cid quote now =
     (case candidate_post_init (exit_candidate g p reason cid now) of Inl e \<Rightarrow> Inl e
      | Inr c \<Rightarrow> (case registration (gu_account g) (gu_registry g) of Inl e \<Rightarrow> Inl e
        | Inr r \<Rightarrow> (case policy_evaluate (exit_policy g reason)
            (gu_order_id g) c quote (gu_instrument g) (rg_capabilities r) exit_approval of Inl e \<Rightarrow> Inl e
          | Inr res \<Rightarrow> (case pr_request res of None \<Rightarrow> Inl (RuntimeError (pr_result_reason res))
            | Some q \<Rightarrow> request_post_init (exit_request p reason cid q)))))"

definition place_exit :: "guardian \<Rightarrow> managed_position \<Rightarrow> exit_reason \<Rightarrow> string \<Rightarrow> quote option \<Rightarrow> instant \<Rightarrow> instant
    \<Rightarrow> (guardian_world, broker_order \<times> bool) prog" where
  "place_exit g p reason cid quote now now' = and_then (lift_res (exit_order g p reason cid quote now)) (\<lambda>q.
     in_manager (guardian_sink_reserve (gu_manager g) (gu_account g) q now'))"

text \<open>\<open>except Exception: h; raise\<close>.\<close>

definition on_error :: "('s, 'a) prog \<Rightarrow> ('s, unit) prog \<Rightarrow> ('s, 'a) prog" where
  "on_error m h s = (case m s of (Inr x, s') \<Rightarrow> (Inr x, s')
     | (Inl e, s') \<Rightarrow> (case h s' of (Inl e', s'') \<Rightarrow> (Inl e', s'') | (Inr _, s'') \<Rightarrow> (Inl e, s'')))"

definition request_exit :: "guardian \<Rightarrow> string \<Rightarrow> exit_reason \<Rightarrow> quote option \<Rightarrow> (nat \<Rightarrow> instant)
    \<Rightarrow> (guardian_world, broker_order \<times> bool) prog" where
  "request_exit g i reason quote clk = and_then (guardian_ready g (clk 0)) (\<lambda>_.
     and_then (in_store (\<lambda>s. (get_position i s, s))) (\<lambda>pos.
     case pos of None \<Rightarrow> fail (KeyError ''unknown managed live position'')
     | Some p \<Rightarrow> if mp_account p \<noteq> gu_account g then fail (KeyError ''unknown managed live position'')
       else if mp_state p \<in> {FlatPos, UnknownPos, LockedPos}
         then fail (RuntimeError ''guardian_position_not_exitable'')
       else and_then (in_store (reserve_exit i reason (gu_exit_id g p reason) (clk 1))) (\<lambda>(reserved, created).
         if \<not> created then
           and_then (reading (\<lambda>w. repo_get (mp_owner p)
             (case mp_exit_order reserved of None \<Rightarrow> [] | Some x \<Rightarrow> x) (guardian_repo w))) (\<lambda>b.
           case b of None \<Rightarrow> fail (RuntimeError ''guardian_exit_already_reserved'')
           | Some b \<Rightarrow> give (b, False))
         else on_error (place_exit g p reason (gu_exit_id g p reason) quote (clk 2) (clk 3))
           (in_store (release_exit i (gu_exit_id g p reason) ''exit_reservation_failed'' (clk 4))))))"

text \<open>The reason a quote gives to leave a position.\<close>

definition exit_trigger :: "managed_position \<Rightarrow> quote \<Rightarrow> exit_reason option" where
  "exit_trigger p q = (case (if mp_quantity p > 0 then qt_best_bid q else qt_best_ask q) of None \<Rightarrow> None
     | Some x \<Rightarrow>
       if (mp_quantity p > 0 \<and> x \<le> mp_stop p) \<or> (mp_quantity p < 0 \<and> x \<ge> mp_stop p) then Some StopLoss
       else if (mp_quantity p > 0 \<and> x \<ge> mp_take p) \<or> (mp_quantity p < 0 \<and> x \<le> mp_take p) then Some TakeProfit
       else None)"

definition quote_exit :: "guardian \<Rightarrow> quote \<Rightarrow> (nat \<Rightarrow> nat \<Rightarrow> instant) \<Rightarrow> nat \<times> managed_position \<Rightarrow> broker_order list
    \<Rightarrow> (guardian_world, broker_order list) prog" where
  "quote_exit g q clk np created = (case np of (n, p) \<Rightarrow>
     if mp_state p \<noteq> ActivePos \<or> \<not> quote_complete q then give created
     else (case exit_trigger p q of None \<Rightarrow> give created
       | Some reason \<Rightarrow> and_then (request_exit g (mp_id p) reason (Some q) (clk n)) (\<lambda>(b, new).
           give (if new then created @ [b] else created))))"

definition on_quote :: "guardian \<Rightarrow> quote \<Rightarrow> instant \<Rightarrow> (nat \<Rightarrow> nat \<Rightarrow> instant) \<Rightarrow> (guardian_world, broker_order list) prog" where
  "on_quote g q now clk =
     (if qt_symbol q \<noteq> in_symbol (gu_instrument g) \<or> qt_contract q \<noteq> in_contract (gu_instrument g) then give []
      else if total_seconds (now - qt_received_at q) > gc_stale_seconds (gu_config g) then give []
      else and_then (in_store (\<lambda>s. (guardian_positions (gu_account g) s, s))) (\<lambda>ps.
        fold_prog (quote_exit g q clk) (enumerate 0 ps) []))"

definition evaluate_latest_quotes :: "guardian \<Rightarrow> instant \<Rightarrow> (nat \<Rightarrow> nat \<Rightarrow> instant) \<Rightarrow> (guardian_world, broker_order list) prog" where
  "evaluate_latest_quotes g now clk = (case gu_quotes g (in_symbol (gu_instrument g)) (in_contract (gu_instrument g)) of
       None \<Rightarrow> give [] | Some q \<Rightarrow> on_quote g q now clk)"

text \<open>\<open>request_strategy_exit\<close>, \<open>request_session_end\<close> and \<open>request_contract_roll\<close>.\<close>

definition request_exit_now :: "guardian \<Rightarrow> exit_reason \<Rightarrow> string \<Rightarrow> (nat \<Rightarrow> instant) \<Rightarrow> (guardian_world, broker_order \<times> bool) prog" where
  "request_exit_now g reason i clk = and_then (in_store (\<lambda>s. (get_position i s, s))) (\<lambda>pos.
     request_exit g i reason (case pos of None \<Rightarrow> None | Some p \<Rightarrow> gu_quotes g (mp_symbol p) (mp_contract p)) clk)"

definition mark_order_unknown :: "string \<Rightarrow> instant \<Rightarrow> (guardian_world, bool) prog" where
  "mark_order_unknown cid now = in_store (mark_exit_unknown cid now)"

section \<open>Kill switches\<close>

definition cancel_entry :: "guardian \<Rightarrow> string \<Rightarrow> instant \<Rightarrow> broker_order \<Rightarrow> nat \<Rightarrow> (guardian_world, nat) prog" where
  "cancel_entry g owner now b n = (let r = bo_request b in
     if req_source r \<in> {''manual_live_canary'', ''strategy_live_auto''} \<and> \<not> req_reduce_only r
       \<and> \<not> status_terminal (bo_status b) \<and> truthy (bo_broker_order_id b)
     then and_then (in_manager (request_cancel (gu_manager g) (gu_account g) owner (req_client_order_id r) now))
       (\<lambda>(_, reserved). give (if reserved then n + 1 else n))
     else give n)"

definition cancel_working_entries :: "guardian \<Rightarrow> string \<Rightarrow> instant \<Rightarrow> (guardian_world, nat) prog" where
  "cancel_working_entries g owner now =
     and_then (reading (\<lambda>w. repo_orders (Some owner) (Some (gu_account g)) (guardian_repo w))) (\<lambda>bs.
       fold_prog (cancel_entry g owner now) bs 0)"

definition has_working_entry :: "guardian \<Rightarrow> string \<Rightarrow> guardian_world \<Rightarrow> bool res" where
  "has_working_entry g owner w = (case repo_orders (Some owner) (Some (gu_account g)) (guardian_repo w) of
       Inl e \<Rightarrow> Inl e
     | Inr bs \<Rightarrow> Inr (\<exists>b \<in> set bs. \<not> req_reduce_only (bo_request b) \<and> \<not> status_terminal (bo_status b)))"

definition kill_position :: "guardian \<Rightarrow> (string \<Rightarrow> kill_switch_action list) \<Rightarrow> (nat \<Rightarrow> nat \<Rightarrow> instant)
    \<Rightarrow> nat \<times> managed_position \<Rightarrow> broker_order list \<Rightarrow> (guardian_world, broker_order list) prog" where
  "kill_position g actions clk np created = (case np of (n, p) \<Rightarrow>
     if Flatten \<in> set (actions (mp_owner p)) \<and> mp_quantity p \<noteq> 0 then
       and_then (reading (has_working_entry g (mp_owner p))) (\<lambda>working.
       if working then give created
       else and_then (request_exit g (mp_id p) EmergencyFlatten (gu_quotes g (mp_symbol p) (mp_contract p)) (clk n))
         (\<lambda>(b, new). give (if new then created @ [b] else created)))
     else if Flatten \<in> set (actions (mp_owner p)) then
       and_then (in_lock (force_lock (broker_name (gu_account g)) (account_id (gu_account g))
          [''emergency_flatten_completed_operator_review_required''] (Aware (clk n 0)))) (\<lambda>_. give created)
     else give created)"

text \<open>The set of owners is visited in the order of first occurrence.\<close>

definition process_kill_switches :: "guardian \<Rightarrow> instant \<Rightarrow> (nat \<Rightarrow> nat \<Rightarrow> instant) \<Rightarrow> (guardian_world, broker_order list) prog" where
  "process_kill_switches g now clk = (case gu_kill_switches g of None \<Rightarrow> give []
     | Some actions \<Rightarrow> and_then (in_store (\<lambda>s. (guardian_positions (gu_account g) s, s))) (\<lambda>ps.
        and_then (fold_prog (\<lambda>owner (_ :: nat). if \<exists>a \<in> set (actions owner). a = CancelWorking \<or> a = Flatten
            then cancel_working_entries g owner now else give 0) (dedup (gu_owner_ids g @ map mp_owner ps)) 0) (\<lambda>_.
        fold_prog (kill_position g actions clk) (enumerate 0 ps) [])))"

section \<open>Average cost: facts\<close>

lemma open_position_from_sum:
  "open_position_from q avg fs = Inr (q', avg') \<Longrightarrow> q' = q + sum_list (map fst fs)"
  by (induction q avg fs rule: open_position_from.induct) (auto split: if_splits)

lemma weighted_between:
  assumes "lo \<le> a" "a \<le> hi" "lo \<le> p" "p \<le> hi" "0 \<le> (m::rat)" "0 < n"
  shows "lo \<le> (a * m + p * n) / (m + n) \<and> (a * m + p * n) / (m + n) \<le> hi"
proof
  have "lo * m \<le> a * m" "lo * n \<le> p * n" "a * m \<le> hi * m" "p * n \<le> hi * n"
    using assms by (simp_all add: mult_right_mono)
  then have "lo * (m + n) \<le> a * m + p * n" "a * m + p * n \<le> hi * (m + n)"
    by (simp_all add: distrib_left)
  then show "lo \<le> (a * m + p * n) / (m + n)" "(a * m + p * n) / (m + n) \<le> hi"
    using assms(5,6) by (simp_all add: pos_le_divide_eq pos_divide_le_eq)
qed

definition avg_ok :: "price \<Rightarrow> price \<Rightarrow> int \<Rightarrow> price option \<Rightarrow> bool" where
  "avg_ok lo hi q avg \<longleftrightarrow> (case avg of None \<Rightarrow> q = 0 | Some a \<Rightarrow> q \<noteq> 0 \<and> lo \<le> a \<and> a \<le> hi)"

lemma avg_ok_add:
  assumes "avg_ok lo hi q avg" "lo \<le> p" "p \<le> hi" "s \<noteq> 0" "q = 0 \<or> (q > 0) = (s > 0)"
  shows "avg_ok lo hi (q + s) (Some (((case avg of None \<Rightarrow> 0 | Some a \<Rightarrow> a) * of_int \<bar>q\<bar> + p * of_int \<bar>s\<bar>)
    / of_int (\<bar>q\<bar> + \<bar>s\<bar>)))"
proof -
  have ne: "q + s \<noteq> 0" using assms(4,5) by auto
  have s: "0 < (of_int \<bar>s\<bar> :: rat)" using assms(4) by simp
  show ?thesis
  proof (cases avg)
    case None
    then have "q = 0" using assms(1) by (simp add: avg_ok_def)
    with None ne assms(2,3) s show ?thesis by (simp add: avg_ok_def)
  next
    case (Some a)
    with assms(1) have "lo \<le> a" "a \<le> hi" by (simp_all add: avg_ok_def)
    from weighted_between [OF this assms(2,3), of "of_int \<bar>q\<bar>" "of_int \<bar>s\<bar>"] s ne Some
    show ?thesis by (simp add: avg_ok_def)
  qed
qed

lemma open_position_from_avg:
  assumes "open_position_from q avg fs = Inr (q', avg')" "avg_ok lo hi q avg"
    and "\<forall>f \<in> set fs. lo \<le> snd f \<and> snd f \<le> hi"
  shows "avg_ok lo hi q' avg'"
  using assms
proof (induction q avg fs rule: open_position_from.induct)
  case (2 q avg s p fs)
  have p: "lo \<le> p" "p \<le> hi" and fs: "\<forall>f \<in> set fs. lo \<le> snd f \<and> snd f \<le> hi" using "2.prems"(3) by auto
  have s: "\<not> (s = 0 \<or> p \<le> 0)" using "2.prems"(1) by auto
  show ?case
  proof (cases "q = 0 \<or> (q > 0) = (s > 0)")
    case True
    with "2.prems"(1) s have r: "open_position_from (q + s) (Some (((case avg of None \<Rightarrow> 0 | Some a \<Rightarrow> a) * of_int \<bar>q\<bar>
        + p * of_int \<bar>s\<bar>) / of_int (\<bar>q\<bar> + \<bar>s\<bar>))) fs = Inr (q', avg')" by (simp only: open_position_from.simps if_False if_True)
    show ?thesis by (rule "2.IH"(1) [OF s True r avg_ok_add [OF "2.prems"(2) p _ True] fs]) (use s in blast)
  next
    case False
    then have "\<not> \<bar>q\<bar> < \<bar>s\<bar>" using "2.prems"(1) s by (auto split: if_splits)
    with "2.prems"(1) s False have r: "open_position_from (q + s) (if q + s = 0 then None else avg) fs = Inr (q', avg')"
      by (simp only: open_position_from.simps if_False)
    have "avg_ok lo hi (q + s) (if q + s = 0 then None else avg)"
      using "2.prems"(2) False by (auto simp: avg_ok_def split: option.splits)
    from "2.IH"(2) [OF s False \<open>\<not> \<bar>q\<bar> < \<bar>s\<bar>\<close> r this fs] show ?thesis .
  qed
qed simp

text \<open>The open position of a sequence of fills is their signed sum, it has an average
  cost exactly when it is not flat, and that average lies within any range that holds all
  the fill prices.\<close>

theorem open_position_sum_and_average:
  assumes "open_position fs = Inr (q, avg)" and "\<forall>f \<in> set fs. lo \<le> snd f \<and> snd f \<le> hi"
  shows "q = sum_list (map fst fs) \<and> (avg = None \<longleftrightarrow> q = 0) \<and> (\<forall>a. avg = Some a \<longrightarrow> lo \<le> a \<and> a \<le> hi)"
proof -
  have "avg_ok lo hi q avg"
    using open_position_from_avg [OF assms(1) [unfolded open_position_def] _ assms(2)] by (simp add: avg_ok_def)
  with open_position_from_sum [OF assms(1) [unfolded open_position_def]] show ?thesis
    by (auto simp: avg_ok_def split: option.splits)
qed

section \<open>Exit orders: facts\<close>

lemma policy_request:
  assumes "policy_evaluate k cid c quote i caps risk = Inr res" and "pr_request res = Some q"
  shows "req_side q = candidate_side c \<and> req_quantity q = ca_quantity c \<and> req_contract q = ca_contract c
    \<and> req_owner_id q = ca_owner_id c \<and> req_symbol q = ca_symbol c"
proof (cases k)
  case (MarketableLimit slip spread)
  with assms marketable_limitD [of cid slip spread c quote i caps risk res q] show ?thesis
    by (auto simp: policy_evaluate_def candidate_request_def)
next
  case MarketPrice
  with assms have "\<exists>r. q = candidate_request cid MarketPrice c Market None r"
    by (auto simp: policy_evaluate_def market_price_def Let_def split: if_splits dest!: would_submitD)
  then show ?thesis by (auto simp: candidate_request_def)
next
  case EmergencyExit
  with assms have "\<exists>r. q = candidate_request cid EmergencyExit c Market None r"
    by (auto simp: policy_evaluate_def emergency_exit_def Let_def split: if_splits dest!: would_submitD)
  then show ?thesis by (auto simp: candidate_request_def)
qed

lemma reserve_created:
  assumes "reserve rq now s = (Inr (b, True), s')"
  shows "bo_request b = rq_request rq"
proof -
  have none: "find (\<lambda>r. or_client_order_id r = req_client_order_id (rq_request rq)) (lr_orders s) = None"
    using assms by (auto simp: reserve_def Let_def split: sum.splits option.splits if_splits)
  then have "find (\<lambda>r. or_client_order_id r = req_client_order_id (rq_request rq)) (lr_orders (reserve_insert rq now s))
      = Some (new_order_row rq now)"
    by (simp add: reserve_insert_def find_append new_order_row_def)
  with assms none have "order_of_row (new_order_row rq now) = Inr b"
    by (auto simp: reserve_def Let_def split: sum.splits option.splits if_splits)
  from order_of_row_request [OF this] show ?thesis by (simp add: new_order_row_def)
qed

lemma create_created: "create m rq now w = (Inr (b, True), w') \<Longrightarrow> bo_request b = rq_request rq"
  by (auto simp: create_def in_repo_def split: sum.splits prod.splits dest: reserve_created)

lemma sink_created: "guardian_sink_reserve m t q now w = (Inr (b, True), w') \<Longrightarrow> bo_request b = q"
  by (auto simp: guardian_sink_reserve_def mk_routed_request_def split: if_splits dest!: create_created)

lemma in_manager_Inr: "in_manager f w = (Inr x, w') \<Longrightarrow> f (gw_manager w) = (Inr x, gw_manager w') \<and>
    gw_store w' = gw_store w \<and> gw_lock w' = gw_lock w"
  by (auto simp: in_manager_def split: prod.splits)

lemma in_manager_store [simp]: "gw_store (snd (in_manager f w)) = gw_store w"
  by (simp add: in_manager_def split: prod.split)

lemma exit_orderD:
  assumes "exit_order g p reason cid quote now = Inr q'"
  shows "\<exists>c (r :: broker_registration) res q. candidate_post_init (exit_candidate g p reason cid now) = Inr c \<and>
    policy_evaluate (exit_policy g reason)
        (gu_order_id g) c quote (gu_instrument g) (rg_capabilities r) exit_approval = Inr res \<and>
    pr_request res = Some q \<and> request_post_init (exit_request p reason cid q) = Inr q'"
  using assms unfolding exit_order_def by (simp split: sum.splits option.splits) blast

lemma place_exit_created:
  assumes "place_exit g p reason cid quote now now' w = (Inr (b, True), w')"
  shows "req_reduce_only (bo_request b) \<and> req_purpose (bo_request b) = (if reason = EmergencyFlatten then Liquidation else Exit)
    \<and> req_source (bo_request b) = ''live_position_guardian''
    \<and> req_client_order_id (bo_request b) = cid
    \<and> req_side (bo_request b) = (if mp_quantity p > 0 then Sell else Buy)
    \<and> req_quantity (bo_request b) = mp_protection p \<and> req_contract (bo_request b) = mp_contract p
    \<and> req_owner_id (bo_request b) = mp_owner p"
proof -
  from assms obtain q' where o: "exit_order g p reason cid quote now = Inr q'"
    and m: "in_manager (guardian_sink_reserve (gu_manager g) (gu_account g) q' now') w = (Inr (b, True), w')"
    by (cases "exit_order g p reason cid quote now") (auto simp: place_exit_def and_then_def)
  from o obtain c res q and r :: broker_registration where c: "candidate_post_init (exit_candidate g p reason cid now) = Inr c"
    and res: "policy_evaluate (exit_policy g reason)
        (gu_order_id g) c quote (gu_instrument g) (rg_capabilities r) exit_approval = Inr res"
    and q: "pr_request res = Some q" "request_post_init (exit_request p reason cid q) = Inr q'"
    using exit_orderD [OF o] by blast
  have "c = exit_candidate g p reason cid now" using c by (simp add: candidate_post_init_def first_error_Inr)
  moreover have "q' = exit_request p reason cid q" using q(2) by (rule request_post_init_same)
  moreover have "bo_request b = q'" using in_manager_Inr [OF m] by (auto dest: sink_created)
  ultimately show ?thesis using policy_request [OF res q(1)]
    by (simp add: exit_request_def exit_candidate_def candidate_side_def candidate_reduce_only_def)
qed

lemma guardian_ready_Inr:
  assumes "guardian_ready g now w = (Inr u, w')"
  shows "gw_store w' = gw_store w \<and> gw_manager w' = gw_manager w \<and> gc_enabled (gu_config g)
    \<and> gu_connected g \<and> gu_ca_ready g \<and> lock_ready (gw_lock w) (broker_name (gu_account g), account_id (gu_account g))"
  using assms
  by (auto simp: guardian_ready_def and_then_Inr in_lock_def assert_ready_def recovery_state_of_def lock_ready_def
      recovery_ready_def Let_def split: if_splits prod.splits sum.splits option.splits)

lemma in_store_Inr: "in_store f w = (Inr x, w') \<Longrightarrow> f (gw_store w) = (Inr x, gw_store w')"
  by (auto simp: in_store_def split: prod.splits)

lemma on_error_Inr: "on_error m h s = (Inr x, s') \<longleftrightarrow> m s = (Inr x, s')"
  by (auto simp: on_error_def split: prod.splits sum.splits)

lemma request_exitD:
  assumes "request_exit g i reason quote clk w = (Inr (b, True), w')"
  shows "\<exists>u w1 p w2 w3. guardian_ready g (clk 0) w = (Inr u, w1) \<and>
    in_store (\<lambda>s. (get_position i s, s)) w1 = (Inr (Some p), w2) \<and>
    mp_account p = gu_account g \<and> mp_state p \<notin> {FlatPos, UnknownPos, LockedPos} \<and>
    place_exit g p reason (gu_exit_id g p reason) quote (clk 2) (clk 3) w3 = (Inr (b, True), w')"
proof -
  obtain u w1 where r: "guardian_ready g (clk 0) w = (Inr u, w1)"
    using assms unfolding request_exit_def and_then_Inr [of _ _ w] by blast
  obtain x w2 where x: "in_store (\<lambda>s. (get_position i s, s)) w1 = (Inr x, w2)"
    using assms r by (auto simp: request_exit_def and_then_def split: prod.splits sum.splits)
  note rest = assms [unfolded request_exit_def and_then_def [of _ _ w] r, simplified,
      unfolded and_then_def [of _ _ w1] x, simplified]
  obtain p where p: "x = Some p" "mp_account p = gu_account g" "mp_state p \<notin> {FlatPos, UnknownPos, LockedPos}"
    using rest by (auto split: option.splits if_splits)
  then have "and_then (in_store (reserve_exit i reason (gu_exit_id g p reason) (clk 1))) (\<lambda>(reserved, created).
         if \<not> created then
           and_then (reading (\<lambda>w. repo_get (mp_owner p)
             (case mp_exit_order reserved of None \<Rightarrow> [] | Some x \<Rightarrow> x) (guardian_repo w))) (\<lambda>b.
           case b of None \<Rightarrow> fail (RuntimeError ''guardian_exit_already_reserved'')
           | Some b \<Rightarrow> give (b, False))
         else on_error (place_exit g p reason (gu_exit_id g p reason) quote (clk 2) (clk 3))
           (in_store (release_exit i (gu_exit_id g p reason) ''exit_reservation_failed'' (clk 4)))) w2 = (Inr (b, True), w')"
    using rest by simp
  then have "\<exists>w3. place_exit g p reason (gu_exit_id g p reason) quote (clk 2) (clk 3) w3 = (Inr (b, True), w')"
    by (auto simp: and_then_Inr on_error_Inr split: if_splits option.splits)
  with r x p show ?thesis by blast
qed

text \<open>C27. Every exit the guardian creates only reduces: it is placed under a ready recovery
  lock for a managed position of the guardian's account that is neither flat, unknown nor
  locked, on the closing side, for exactly the protected quantity, as a reduce-only exit
  or liquidation of the guardian.\<close>

theorem created_exit_only_reduces:
  assumes "request_exit g i reason quote clk w = (Inr (b, True), w')"
  shows "\<exists>p. get_position i (gw_store w) = Inr (Some p) \<and> mp_account p = gu_account g
    \<and> mp_state p \<in> {ActivePos, ExitPending} \<and> mp_quantity p \<noteq> 0
    \<and> req_quantity (bo_request b) = \<bar>mp_quantity p\<bar>
    \<and> req_side (bo_request b) = (if mp_quantity p > 0 then Sell else Buy)
    \<and> req_reduce_only (bo_request b) \<and> req_purpose (bo_request b) \<noteq> Entry
    \<and> req_source (bo_request b) = ''live_position_guardian'' \<and> req_contract (bo_request b) = mp_contract p
    \<and> lock_ready (gw_lock w) (broker_name (gu_account g), account_id (gu_account g))"
proof -
  obtain u w1 p w2 where r: "guardian_ready g (clk 0) w = (Inr u, w1)"
    and p: "in_store (\<lambda>s. (get_position i s, s)) w1 = (Inr (Some p), w2)"
    "mp_account p = gu_account g" "mp_state p \<notin> {FlatPos, UnknownPos, LockedPos}"
    and e: "\<exists>w3. place_exit g p reason (gu_exit_id g p reason) quote (clk 2) (clk 3) w3 = (Inr (b, True), w')"
    using request_exitD [OF assms] by blast
  have gp: "get_position i (gw_store w) = Inr (Some p)"
    using in_store_Inr [OF p(1)] guardian_ready_Inr [OF r] by (metis prod.inject)
  then have "valid_position p"
    by (auto simp: get_position_def dest: position_post_init_same split: option.splits sum.splits)
  moreover have "mp_state p \<in> {ActivePos, ExitPending}" using p(3) by (cases "mp_state p") simp_all
  ultimately have "mp_quantity p \<noteq> 0" "mp_protection p = \<bar>mp_quantity p\<bar>" by (auto simp: valid_position_iff)
  with e guardian_ready_Inr [OF r] gp p(2) \<open>mp_state p \<in> _\<close> show ?thesis
    by (auto dest!: place_exit_created split: if_splits)
qed

text \<open>The store is untouched by placing the order.\<close>

lemma place_exit_store: "gw_store (snd (place_exit g p reason cid quote now now' w)) = gw_store w"
  by (auto simp: place_exit_def and_then_def in_manager_def split: sum.split option.split prod.split)

lemma guardian_ready_store: "gw_store (snd (guardian_ready g now w)) = gw_store w"
  by (auto simp: guardian_ready_def and_then_def in_lock_def split: prod.split sum.split)

lemma reserve_exit_Inl: "reserve_exit i reason cid t s = (Inl e, s') \<Longrightarrow> exit_of j s' = exit_of j s"
  by (auto simp: reserve_exit_def with_row_def guardian_begin_def replaced_def save_audited_def
      split: option.splits sum.splits if_splits)

lemma reserve_exit_False: "reserve_exit i reason cid t s = (Inr (q, False), s') \<Longrightarrow> truthy (exit_of i s)"
  by (auto simp: reserve_exit_def with_row_def guardian_begin_def replaced_def save_audited_def exit_of_def
      dest!: position_post_init_same split: option.splits sum.splits if_splits)

lemma with_rowD: "with_row i (fail e) f s = (Inr x, s') \<Longrightarrow>
    \<not> gs_in_txn s \<and> (\<exists>p. managed_row i s = Some p \<and> f p s = (Inr x, s'))"
  by (auto simp: with_row_def guardian_begin_def split: if_splits dest: position_post_init_same split: option.splits sum.splits)

lemma replaced_saveD:
  assumes "replaced q (\<lambda>p. save_audited p act (d p) t (x p)) s = (Inr y, s')"
  shows "y = x q \<and> gs_in_txn s' = gs_in_txn s \<and> (\<exists>s1. save_position q s = Inr s1 \<and> gs_positions s' = gs_positions s1)"
proof -
  have "case save_position q s of Inl _ \<Rightarrow> True | Inr s1 \<Rightarrow> gs_in_txn s1 = gs_in_txn s"
    by (simp add: save_position_def)
  then show ?thesis using assms position_post_init_same [of q]
    by (cases "position_post_init q"; cases "save_position q s")
      (auto simp: replaced_def save_audited_def guardian_audit_def)
qed

lemma reserve_exit_True:
  assumes "reserve_exit i reason cid t s = (Inr (q, True), s')"
  shows "\<exists>r. managed_row i s' = Some r \<and> mp_exit_order r = Some cid \<and> mp_state r = ExitPending
    \<and> \<not> gs_in_txn s'"
proof -
  from with_rowD [OF assms [unfolded reserve_exit_def]] obtain p where p: "managed_row i s = Some p"
    and free: "\<not> gs_in_txn s" and body: "(if mp_state p = FlatPos then fail (RuntimeError ''guardian_position_flat'')
     else if truthy (mp_exit_order p) then
       (if outranks reason (mp_exit_reason p)
        then replaced (p\<lparr>mp_pending := Some reason, mp_updated_at := t\<rparr>) (\<lambda>q.
          save_audited q ''exit.priority_deferred''
            [(''active'', case mp_exit_reason q of None \<Rightarrow> JNull | Some r \<Rightarrow> JStr (exit_value r)),
             (''pending'', JStr (exit_value reason))] t (q, False))
        else give (p, False))
     else replaced (reserved_position cid reason t p) (\<lambda>q.
       save_audited q ''exit.reserved''
         [(''reason'', JStr (exit_value reason)), (''client_order_id'', JStr cid),
          (''quantity'', JInt (mp_protection p))] t (q, True))) s = (Inr (q, True), s')" by blast
  let ?q = "reserved_position cid reason t p"
  have "\<not> truthy (mp_exit_order p)"
  proof
    assume "truthy (mp_exit_order p)"
    with body have "replaced (p\<lparr>mp_pending := Some reason, mp_updated_at := t\<rparr>) (\<lambda>q.
          save_audited q ''exit.priority_deferred''
            [(''active'', case mp_exit_reason q of None \<Rightarrow> JNull | Some r \<Rightarrow> JStr (exit_value r)),
             (''pending'', JStr (exit_value reason))] t (q, False)) s = (Inr (q, True), s')"
      by (simp only: if_True split: if_splits) simp_all
    from replaced_saveD [OF this] show False by simp
  qed
  then have "replaced ?q (\<lambda>q. save_audited q ''exit.reserved''
         [(''reason'', JStr (exit_value reason)), (''client_order_id'', JStr cid),
          (''quantity'', JInt (mp_protection p))] t (q, True)) s = (Inr (q, True), s')"
    using body by (cases "mp_state p = FlatPos") simp_all
  from replaced_saveD [OF this] obtain s1 where s1: "save_position ?q s = Inr s1" "gs_positions s' = gs_positions s1"
    and "gs_in_txn s' = gs_in_txn s" by blast
  have "mp_id ?q = i" using managed_row_id [OF p] by simp
  with managed_row_save [OF s1(1), of i] s1(2) p free \<open>gs_in_txn s' = gs_in_txn s\<close> show ?thesis
    by (simp add: overwrite_position_def managed_row_def)
qed

lemma save_existing: "r \<in> set (gs_positions s) \<Longrightarrow> mp_id p = mp_id r \<Longrightarrow> \<exists>s'. save_position p s = Inr s'"
  by (auto simp: save_position_def)

lemma release_frees:
  assumes "guardian_ok s" "managed_row i s = Some r" "mp_exit_order r = Some cid" "mp_state r = ExitPending"
    and free: "\<not> gs_in_txn s"
  shows "\<exists>s'. release_exit i cid why now s = (Inr (), s') \<and> exit_of i s' = None"
proof -
  have m: "r \<in> set (gs_positions s)" "mp_id r = i"
    using find_SomeD [OF assms(2) [unfolded managed_row_def]] by simp_all
  with assms(1) have v: "valid_position r" by (simp add: guardian_ok_def)
  let ?q = "r\<lparr>mp_state := ActivePos, mp_exit_order := None, mp_exit_reason := None,
         mp_updated_at := now, mp_issue := Some why\<rparr>"
  have vq: "valid_position ?q" using v assms(4) by (auto simp: valid_position_iff)
  obtain s1 where s1: "save_position ?q s = Inr s1"
    using save_existing [OF m(1), of ?q] by (auto simp: m(2))
  have "exit_of i s1 = None"
    using managed_row_save [OF s1, of i] m(2) assms(2) by (simp add: exit_of_def overwrite_position_def)
  then show ?thesis
    using assms(2,3) v vq s1 free
    by (simp add: release_exit_def with_row_def guardian_begin_def replaced_def save_audited_def exit_of_def managed_row_def)
qed

text \<open>C28. A failed exit leaves no reservation behind: when \<open>request_exit\<close> raises, the
  position has no exit order that it did not have before the call.\<close>

theorem failed_exit_leaves_no_reservation:
  assumes ok: "guardian_ok (gw_store w)" and err: "request_exit g i reason quote clk w = (Inl e, w')"
  shows "\<not> truthy (exit_of i (gw_store w')) \<or> exit_of i (gw_store w') = exit_of i (gw_store w)"
proof -
  obtain r1 w1 where g1: "guardian_ready g (clk 0) w = (r1, w1)" by fastforce
  have s1: "gw_store w1 = gw_store w" using guardian_ready_store [of g "clk 0" w] g1 by simp
  define body where "body = (\<lambda>p. and_then (in_store (reserve_exit i reason (gu_exit_id g p reason) (clk 1))) (\<lambda>(reserved, created).
         if \<not> created then
           and_then (reading (\<lambda>w. repo_get (mp_owner p)
             (case mp_exit_order reserved of None \<Rightarrow> [] | Some x \<Rightarrow> x) (guardian_repo w))) (\<lambda>b.
           case b of None \<Rightarrow> fail (RuntimeError ''guardian_exit_already_reserved'')
           | Some b \<Rightarrow> give (b, False))
         else on_error (place_exit g p reason (gu_exit_id g p reason) quote (clk 2) (clk 3))
           (in_store (release_exit i (gu_exit_id g p reason) ''exit_reservation_failed'' (clk 4)))))"
  have req: "request_exit g i reason quote clk = and_then (guardian_ready g (clk 0)) (\<lambda>_.
     and_then (in_store (\<lambda>s. (get_position i s, s))) (\<lambda>pos.
     case pos of None \<Rightarrow> fail (KeyError ''unknown managed live position'')
     | Some p \<Rightarrow> if mp_account p \<noteq> gu_account g then fail (KeyError ''unknown managed live position'')
       else if mp_state p \<in> {FlatPos, UnknownPos, LockedPos}
         then fail (RuntimeError ''guardian_position_not_exitable'')
       else body p))"
    unfolding request_exit_def body_def ..
  have "gw_store w' = gw_store w \<or> (\<exists>p. body p (w1\<lparr>gw_store := gw_store w\<rparr>) = (Inl e, w'))"
    using err s1 unfolding req and_then_def [of _ _ w] g1
    by (auto simp: and_then_def in_store_def split: sum.splits option.splits if_splits)
  then show ?thesis
  proof
    assume "\<exists>p. body p (w1\<lparr>gw_store := gw_store w\<rparr>) = (Inl e, w')"
    then obtain p where b: "body p (w1\<lparr>gw_store := gw_store w\<rparr>) = (Inl e, w')" by blast
    let ?cid = "gu_exit_id g p reason"
    obtain q s2 where q: "reserve_exit i reason ?cid (clk 1) (gw_store w) = (q, s2)" by fastforce
    show ?thesis
    proof (cases q)
      case (Inl e2)
      with b q have "gw_store w' = s2" by (auto simp: body_def and_then_def in_store_def)
      moreover have "exit_of i s2 = exit_of i (gw_store w)" using q Inl by (simp add: reserve_exit_Inl)
      ultimately show ?thesis by simp
    next
      case (Inr rc)
      obtain r c where rc: "rc = (r, c)" by fastforce
      show ?thesis
      proof (cases c)
        case False
        with b q Inr rc have "gw_store w' = s2"
          by (auto simp: body_def and_then_def in_store_def reading_def split: sum.splits option.splits)
        moreover have "truthy (exit_of i (gw_store w))" using reserve_exit_False q Inr rc False by simp
        ultimately have "exit_of i (gw_store w') = exit_of i (gw_store w)"
          using exit_stays [OF ok, of i "ReserveExit i reason ?cid (clk 1)"] q by (simp add: ends_exit_def)
        then show ?thesis by simp
      next
        case True
        define w2 where "w2 = w1\<lparr>gw_store := s2\<rparr>"
        obtain row where row: "managed_row i s2 = Some row" "mp_exit_order row = Some ?cid" "mp_state row = ExitPending"
          "\<not> gs_in_txn s2"
          using reserve_exit_True [of i reason ?cid "clk 1" "gw_store w" r s2] q Inr rc True by auto
        have ok2: "guardian_ok s2" using guardian_step_ok [OF ok, of "ReserveExit i reason ?cid (clk 1)"] q by simp
        obtain x w3 where x: "place_exit g p reason ?cid quote (clk 2) (clk 3) w2 = (x, w3)" by fastforce
        have "gw_store w3 = s2" using place_exit_store [of g p reason ?cid quote "clk 2" "clk 3" w2] x by (simp add: w2_def)
        with release_frees [OF ok2 row, of "''exit_reservation_failed''" "clk 4"]
        have rel: "\<exists>s4. in_store (release_exit i ?cid ''exit_reservation_failed'' (clk 4)) w3 = (Inr (), w3\<lparr>gw_store := s4\<rparr>)
            \<and> exit_of i s4 = None" by (auto simp: in_store_def)
        have "on_error (place_exit g p reason ?cid quote (clk 2) (clk 3))
           (in_store (release_exit i ?cid ''exit_reservation_failed'' (clk 4))) w2 = (Inl e, w')"
          using b q Inr rc True by (simp add: body_def and_then_def in_store_def w2_def)
        with x rel have "exit_of i (gw_store w') = None"
          by (auto simp: on_error_def split: sum.splits)
        then show ?thesis by simp
      qed
    qed
  qed simp
qed

section \<open>Witnesses\<close>

definition guardian1 :: guardian where
  "guardian1 = \<lparr>gu_account = t1,
     gu_config = \<lparr>gc_enabled = True, gc_stop_ticks = 20, gc_take_ticks = 40, gc_stale_seconds = 2, gc_poll_seconds = 1 / 4\<rparr>,
     gu_registry = snd (register \<lparr>rg_account_ref = t1, rg_port = flaky_port,
       rg_capabilities = [SupportsLimitOrders, SupportsIoc], rg_state = RtReady\<rparr> empty_registry),
     gu_manager = manager1, gu_instrument = instr1, gu_normal = MarketableLimit 2 4, gu_emergency = EmergencyExit,
     gu_connected = True, gu_ca_ready = True, gu_kill_switches = None, gu_owner_ids = [],
     gu_quotes = (\<lambda>_ _. None), gu_position_id = (\<lambda>u c. ''p1''), gu_exit_id = (\<lambda>p r. ''x'' @ exit_value r),
     gu_order_id = (\<lambda>c v. ''o1'')\<rparr>"

definition guardian_world1 :: guardian_world where
  "guardian_world1 = \<lparr>gw_store = empty_guardian_store\<lparr>gs_positions := [position1]\<rparr>, gw_manager = empty_world,
     gw_lock = run recovery_step [] [BeginRec ''shioaji'' ''A1'' (Aware 1), CompleteRec ''shioaji'' ''A1'' [] 1 (Aware 2)]\<rparr>"

theorem created_exit_only_reduces_witness:
  "\<exists>b w'. request_exit guardian1 ''p1'' StopLoss (Some quote1) int guardian_world1 = (Inr (b, True), w')
     \<and> req_quantity (bo_request b) = 2 \<and> req_side (bo_request b) = Sell"
proof -
  have "case request_exit guardian1 ''p1'' StopLoss (Some quote1) int guardian_world1 of
      (Inr (b, c), w') \<Rightarrow> c | _ \<Rightarrow> False" by code_simp
  then obtain b w' where r: "request_exit guardian1 ''p1'' StopLoss (Some quote1) int guardian_world1 = (Inr (b, True), w')"
    by (auto split: prod.splits sum.splits)
  have g: "get_position ''p1'' (gw_store guardian_world1) = Inr (Some position1)" by code_simp
  from created_exit_only_reduces [OF r] g r show ?thesis by (auto simp: position1_def)
qed

theorem failed_exit_leaves_no_reservation_witness:
  "\<exists>e w'. request_exit guardian1 ''p1'' StopLoss None int guardian_world1 = (Inl e, w')
     \<and> \<not> truthy (exit_of ''p1'' (gw_store w'))"
proof -
  have "case request_exit guardian1 ''p1'' StopLoss None int guardian_world1 of
      (Inl e, w') \<Rightarrow> True | _ \<Rightarrow> False" by code_simp
  then obtain e w' where r: "request_exit guardian1 ''p1'' StopLoss None int guardian_world1 = (Inl e, w')"
    by (auto split: prod.splits sum.splits)
  have "valid_position position1" by code_simp
  then have "guardian_ok (gw_store guardian_world1)" by (simp add: guardian_ok_def guardian_world1_def empty_guardian_store_def)
  from failed_exit_leaves_no_reservation [OF this r] r
  show ?thesis by (auto simp: exit_of_def managed_row_def guardian_world1_def position1_def empty_guardian_store_def)
qed

end
