(* ===== verification/Canary.thy ===== *)
theory Canary
  imports Order_Manager
begin

text \<open>
  The narrow live rollout: its server-owned limits, the ARM sessions and the admission
  gate (\<open>tw_quant/broker/canary.py\<close>), the ARM table with its audit log
  (\<open>canary_repository.py\<close>) and the two sinks of \<open>execution/canary.py\<close>.  What a gate reads
  from outside (recovery, broker readiness, kill switches, broker position) are the
  fields of its record.

  The ARM table is what the store's own connection reads.  \<open>arm\<close> deletes before it inserts: when the
  insert raises, the deletion stays in an open transaction (\<open>cs_rollback\<close> holds what is committed),
  the next \<open>arm\<close> of the connection raises, the next commit of any other operation makes the deletion
  final, and a restart (a new connection) finds the committed rows.
\<close>

section \<open>Limits\<close>

record canary_config =
  cc_enabled :: bool
  cc_owners :: "string list"
  cc_accounts :: "account_ref list"
  cc_symbols :: "string list"
  cc_contracts :: "string list"
  cc_max_quantity :: int
  cc_arm_ttl :: int
  cc_stop_ticks :: int
  cc_requests_per_minute :: int

definition one_member :: "'a list \<Rightarrow> bool" where
  "one_member xs \<longleftrightarrow> length (remdups xs) = 1"

definition canary_config_post_init :: "canary_config \<Rightarrow> canary_config res" where
  "canary_config_post_init c = first_error
     [(cc_max_quantity c \<noteq> 1, ValueError ''first live canary rollout requires max_quantity=1''),
      (\<not> (300 \<le> cc_arm_ttl c \<and> cc_arm_ttl c \<le> 900),
        ValueError ''live canary ARM TTL must be between 5 and 15 minutes''),
      (cc_stop_ticks c < 1, ValueError ''live canary protective stop ticks must be positive''),
      (\<not> (1 \<le> cc_requests_per_minute c \<and> cc_requests_per_minute c \<le> 10),
        ValueError ''live canary rate limit must be between 1 and 10''),
      (cc_enabled c \<and> (\<not> one_member (cc_owners c) \<or> \<not> one_member (cc_accounts c)
          \<or> \<not> one_member (cc_symbols c) \<or> \<not> one_member (cc_contracts c)),
        ValueError ''enabled live canary requires exactly one owner, account, symbol, and contract'')] c"

definition canary_assert_request :: "canary_config \<Rightarrow> string \<Rightarrow> account_ref \<Rightarrow> string \<Rightarrow> string \<Rightarrow> int \<Rightarrow> unit res" where
  "canary_assert_request c owner t symb con qty = first_error
     [(\<not> cc_enabled c, RuntimeError ''live_canary_disabled''),
      (owner \<notin> set (cc_owners c), RuntimeError ''live_canary_owner_not_allowed''),
      (t \<notin> set (cc_accounts c), RuntimeError ''live_canary_target_not_allowed''),
      (symb \<notin> set (cc_symbols c), RuntimeError ''live_canary_symbol_not_allowed''),
      (con \<notin> set (cc_contracts c), RuntimeError ''live_canary_contract_not_allowed''),
      (qty < 1 \<or> qty > cc_max_quantity c, RuntimeError ''live_canary_quantity_exceeded'')] ()"

section \<open>ARM sessions\<close>

record arm_session =
  as_arm_id :: string
  as_owner :: string
  as_account :: account_ref
  as_armed_at :: instant
  as_expires_at :: instant
  as_created_by :: string
  as_target_id :: "string option"

definition arm_post_init :: "arm_session \<Rightarrow> arm_session res" where
  "arm_post_init a = first_error
     [(blank (as_arm_id a) \<or> blank (as_owner a) \<or> blank (as_created_by a),
        ValueError ''live canary ARM identity is required''),
      (as_expires_at a \<le> as_armed_at a, ValueError ''live canary ARM expiry must follow armed_at'')] a"

definition arm_live :: "arm_session \<Rightarrow> instant \<Rightarrow> bool" where
  "arm_live a now \<longleftrightarrow> as_armed_at a \<le> now \<and> now < as_expires_at a"

definition arm_expiry :: "canary_config \<Rightarrow> instant \<Rightarrow> instant" where
  "arm_expiry c armed = armed + seconds (cc_arm_ttl c)"

section \<open>The ARM table\<close>

record audit_row =
  au_action :: string
  au_owner :: string
  au_target :: "account_ref option"
  au_arm_id :: "string option"
  au_request_id :: "string option"
  au_detail :: "(string \<times> json_value) list"
  au_occurred_at :: instant

record canary_store =
  cs_arms :: "arm_session list"
  cs_audit :: "audit_row list"
  cs_rollback :: "(arm_session list \<times> audit_row list) option"

definition empty_canary_store :: canary_store where
  "empty_canary_store = \<lparr>cs_arms = [], cs_audit = [], cs_rollback = None\<rparr>"

text \<open>\<open>connection.commit()\<close>, and what a new connection to the file reads.\<close>

definition canary_commit :: "canary_store \<Rightarrow> canary_store" where
  "canary_commit s = s\<lparr>cs_rollback := None\<rparr>"

definition canary_reopen :: "canary_store \<Rightarrow> canary_store" where
  "canary_reopen s = (case cs_rollback s of None \<Rightarrow> s
     | Some (arms, audit) \<Rightarrow> s\<lparr>cs_arms := arms, cs_audit := audit, cs_rollback := None\<rparr>)"

definition arm_audit :: "string \<Rightarrow> string \<Rightarrow> account_ref \<Rightarrow> string \<Rightarrow> (string \<times> json_value) list \<Rightarrow> instant
    \<Rightarrow> canary_store \<Rightarrow> canary_store" where
  "arm_audit act owner t arm detail at_time s = s\<lparr>cs_audit := cs_audit s @
     [\<lparr>au_action = act, au_owner = owner, au_target = Some t, au_arm_id = Some arm, au_request_id = None,
       au_detail = detail, au_occurred_at = at_time\<rparr>]\<rparr>"

definition canary_audit :: "audit_row \<Rightarrow> canary_store \<Rightarrow> canary_store" where
  "canary_audit r s = canary_commit (s\<lparr>cs_audit := cs_audit s @ [r]\<rparr>)"

text \<open>The constructor with \<open>clear_on_start\<close>: no ARM survives a process boot.\<close>

definition canary_restart :: "instant \<Rightarrow> canary_store \<Rightarrow> canary_store" where
  "canary_restart now s0 = (let s = canary_reopen s0 in fold (\<lambda>a. arm_audit ''arm.cleared_restart'' (as_owner a) (as_account a) (as_arm_id a)
     [(''reason'', JStr ''process_restart'')] now) (cs_arms s) s)\<lparr>cs_arms := []\<rparr>"

definition arm_conflict :: "arm_session \<Rightarrow> arm_session list \<Rightarrow> bool" where
  "arm_conflict a rows \<longleftrightarrow> (\<exists>r \<in> set rows. as_arm_id r = as_arm_id a
     \<or> (as_owner r = as_owner a \<and> as_account r = as_account a))"

definition arm :: "arm_session \<Rightarrow> (canary_store, unit) prog" where
  "arm a s = (case cs_rollback s of
     Some _ \<Rightarrow> (Inl (OperationalError ''cannot start a transaction within a transaction''), s)
   | None \<Rightarrow> (let rows = filter (\<lambda>r. as_owner r \<noteq> as_owner a) (cs_arms s) in
     if arm_conflict a rows
       then (Inl (IntegrityError ''UNIQUE constraint failed''),
         s\<lparr>cs_arms := rows, cs_rollback := Some (cs_arms s, cs_audit s)\<rparr>)
     else (Inr (), arm_audit ''arm.activated'' (as_owner a) (as_account a) (as_arm_id a)
       [(''expires_at'', JTime (as_expires_at a))] (as_armed_at a) (s\<lparr>cs_arms := rows @ [a]\<rparr>))))"

definition arm_row :: "string \<Rightarrow> account_ref \<Rightarrow> arm_session list \<Rightarrow> arm_session option" where
  "arm_row owner t rows = find (\<lambda>r. as_owner r = owner \<and> as_account r = t) rows"

definition delete_arm :: "string \<Rightarrow> canary_store \<Rightarrow> canary_store" where
  "delete_arm i s = s\<lparr>cs_arms := filter (\<lambda>r. as_arm_id r \<noteq> i) (cs_arms s)\<rparr>"

definition active :: "string \<Rightarrow> account_ref \<Rightarrow> instant \<Rightarrow> string option \<Rightarrow> (canary_store, arm_session option) prog" where
  "active owner t now target s = (case arm_row owner t (cs_arms s) of None \<Rightarrow> (Inr None, s)
     | Some r \<Rightarrow> (case arm_post_init r of Inl e \<Rightarrow> (Inl e, s)
       | Inr a \<Rightarrow>
         if target \<noteq> None \<and> as_target_id a \<noteq> target then (Inr None, s)
         else if arm_live a now then (Inr (Some a), s)
         else (Inr None, canary_commit (arm_audit ''arm.expired'' owner t (as_arm_id a)
           [(''reason'', JStr ''ttl_expired'')] now (delete_arm (as_arm_id a) s)))))"

definition disarm :: "string \<Rightarrow> account_ref \<Rightarrow> string \<Rightarrow> instant \<Rightarrow> (canary_store, bool) prog" where
  "disarm owner t why now s = (case arm_row owner t (cs_arms s) of None \<Rightarrow> (Inr False, s)
     | Some r \<Rightarrow> (Inr True, canary_commit (arm_audit ''arm.deactivated'' owner t (as_arm_id r)
         [(''reason'', JStr why)] now (delete_arm (as_arm_id r) s))))"

definition mask_tail :: "string \<Rightarrow> string" where
  "mask_tail acc = ''****'' @ rev (take 4 (rev acc))"

definition audit_events :: "string \<Rightarrow> canary_store \<Rightarrow> (audit_row \<times> string option) list" where
  "audit_events owner s = map (\<lambda>r. (r, case au_target r of None \<Rightarrow> None
       | Some t \<Rightarrow> if account_id t = [] then None else Some (mask_tail (account_id t))))
     (filter (\<lambda>r. au_owner r = owner) (cs_audit s))"

section \<open>The gate\<close>

record canary_gate =
  cg_config :: canary_config
  cg_target :: account_ref
  cg_recovery :: "unit res"
  cg_connected :: bool
  cg_ca_ready :: bool
  cg_unknown_orders :: int
  cg_kill_blocks :: "string \<Rightarrow> bool \<Rightarrow> bool"
  cg_broker_position :: "(string \<Rightarrow> int option) option"
  cg_execution_target :: "string option"

definition subject_request :: "admission_subject \<Rightarrow> broker_order_request" where
  "subject_request x = (case x of SubjRequest q \<Rightarrow> rq_request q | SubjOrder r \<Rightarrow> bo_request (ro_order r))"

definition order_sources :: "string list" where
  "order_sources = [''manual_live_canary'', ''strategy_live_auto'', ''live_position_guardian'']"

definition canary_assert_ordering :: "canary_gate \<Rightarrow> unit res" where
  "canary_assert_ordering g = (if \<not> cc_enabled (cg_config g) then Inl (RuntimeError ''live_canary_disabled'')
     else cg_recovery g)"

definition is_guardian :: "broker_order_request \<Rightarrow> bool" where
  "is_guardian q \<longleftrightarrow> req_source q = ''live_position_guardian''"

text \<open>The direction test of \<open>assert_order_allowed\<close> for a known or unknown broker position.\<close>

definition closes :: "broker_order_request \<Rightarrow> int option \<Rightarrow> bool" where
  "closes q pos = (case pos of None \<Rightarrow> False
     | Some p \<Rightarrow> (p > 0 \<and> req_side q = Sell) \<or> (p < 0 \<and> req_side q = Buy))"

definition position_check :: "canary_gate \<Rightarrow> broker_order_request \<Rightarrow> unit res" where
  "position_check g q = (if req_reduce_only q then (case cg_broker_position g of None \<Rightarrow> Inr ()
     | Some f \<Rightarrow> first_error
        [(\<not> closes q (f (req_contract q)), RuntimeError ''reduce_only_position_direction_mismatch''),
         (case f (req_contract q) of None \<Rightarrow> False | Some p \<Rightarrow> req_quantity q > \<bar>p\<bar>,
           RuntimeError ''reduce_only_quantity_exceeds_broker_truth'')] ()) else Inr ())"

definition static_checks :: "canary_gate \<Rightarrow> account_ref \<Rightarrow> broker_order_request \<Rightarrow> unit res" where
  "static_checks g t q = all_checks
     [if t \<noteq> cg_target g then Inl (RuntimeError ''live_canary_target_mismatch'') else Inr (),
      if req_source q \<notin> set order_sources then Inl (RuntimeError ''live_canary_source_not_allowed'') else Inr (),
      if is_guardian q \<and> (\<not> req_reduce_only q \<or> req_purpose q \<notin> {Exit, Liquidation})
        then Inl (RuntimeError ''guardian_reduce_only_required'') else Inr (),
      canary_assert_request (cg_config g) (req_owner_id q) t (req_symbol q) (req_contract q) (req_quantity q),
      cg_recovery g,
      first_error
        [(\<not> cg_connected g, RuntimeError ''live_canary_broker_disconnected''),
         (\<not> cg_ca_ready g, RuntimeError ''live_canary_ca_not_ready''),
         (cg_unknown_orders g > 0, RuntimeError ''live_canary_unknown_order_block'')] (),
      position_check g q,
      if \<not> is_guardian q \<and> cg_kill_blocks g (req_owner_id q) (req_reduce_only q)
        then Inl (RuntimeError ''live_canary_kill_switch_blocked'') else Inr ()]"

definition starts_with :: "string \<Rightarrow> string \<Rightarrow> bool" where
  "starts_with p s \<longleftrightarrow> take (length p) s = p"

lemma starts_withD: "starts_with p s \<Longrightarrow> \<exists>rest. s = p @ rest"
  unfolding starts_with_def by (metis append_take_drop_id)

definition arm_checks :: "broker_order_request \<Rightarrow> arm_session option \<Rightarrow> unit res" where
  "arm_checks q a = (case a of None \<Rightarrow> Inl (RuntimeError ''live_canary_arm_inactive'')
     | Some a \<Rightarrow> first_error
        [(req_arm_id q \<noteq> Some (as_arm_id a), RuntimeError ''live_canary_arm_mismatch''),
         (req_source q = ''strategy_live_auto'' \<and> \<not> starts_with ''live_auto:'' (as_created_by a),
           RuntimeError ''live_auto_arm_scope_mismatch'')] ())"

definition canary_assert_order :: "canary_gate \<Rightarrow> instant \<Rightarrow> admission_subject \<Rightarrow> (canary_store, unit) prog" where
  "canary_assert_order g now x s = (let q = subject_request x; t = subject_target x in
     case static_checks g t q of Inl e \<Rightarrow> (Inl e, s)
     | Inr _ \<Rightarrow> if is_guardian q then (Inr (), s)
         else (case active (req_owner_id q) t now (cg_execution_target g) s of
             (Inl e, s') \<Rightarrow> (Inl e, s')
           | (Inr a, s') \<Rightarrow> (arm_checks q a, s')))"

definition canary_assert_cancel :: "canary_gate \<Rightarrow> routed_order \<Rightarrow> unit res" where
  "canary_assert_cancel g r = (let q = bo_request (ro_order r) in all_checks
     [if ro_target r \<noteq> cg_target g then Inl (RuntimeError ''live_canary_target_mismatch'') else Inr (),
      if req_source q \<notin> set order_sources then Inl (RuntimeError ''live_canary_source_not_allowed'') else Inr (),
      canary_assert_request (cg_config g) (req_owner_id q) (ro_target r) (req_symbol q) (req_contract q) (req_quantity q),
      cg_recovery g,
      if \<not> cg_connected g \<or> \<not> cg_ca_ready g then Inl (RuntimeError ''live_canary_broker_unavailable'') else Inr ()])"

text \<open>The gate as the order manager sees it, over the shared ARM table at some time.\<close>

definition canary_admission :: "canary_gate \<Rightarrow> instant \<Rightarrow> canary_store \<Rightarrow> admission_gate" where
  "canary_admission g now s = \<lparr>ag_ordering = canary_assert_ordering g,
     ag_order = Some (\<lambda>x. fst (canary_assert_order g now x s)), ag_cancel = Some (canary_assert_cancel g)\<rparr>"

section \<open>The sinks\<close>

definition live_sink_reserve :: "order_manager \<Rightarrow> account_ref \<Rightarrow> broker_order_request \<Rightarrow> instant
    \<Rightarrow> (manager_world, broker_order \<times> bool) prog" where
  "live_sink_reserve m t q now w = (if req_source q \<noteq> ''manual_live_canary''
     then (Inl (RuntimeError ''real_execution_source_not_allowed''), w)
     else (case mk_routed_request t q of Inl e \<Rightarrow> (Inl e, w) | Inr rq \<Rightarrow> create m rq now w))"

definition live_sink_cancel :: "order_manager \<Rightarrow> account_ref \<Rightarrow> string \<Rightarrow> string \<Rightarrow> instant
    \<Rightarrow> (manager_world, broker_order \<times> bool) prog" where
  "live_sink_cancel m t owner cid now w = request_cancel m t owner cid now w"

definition strategy_sink_reserve :: "order_manager \<Rightarrow> account_ref \<Rightarrow> broker_order_request \<Rightarrow> instant
    \<Rightarrow> (manager_world, broker_order \<times> bool) prog" where
  "strategy_sink_reserve m t q now w = (if req_source q \<noteq> ''strategy_live_auto'' \<or> req_reduce_only q
       \<or> req_purpose q \<noteq> Entry \<or> \<not> truthy (req_arm_id q)
     then (Inl (RuntimeError ''strategy_live_entry_source_required''), w)
     else (case mk_routed_request t q of Inl e \<Rightarrow> (Inl e, w) | Inr rq \<Rightarrow> create m rq now w))"

section \<open>Runs of the ARM table\<close>

datatype canary_op =
    Arm arm_session
  | Active string account_ref instant "string option"
  | Disarm string account_ref string instant
  | Restart instant
  | Audit audit_row

fun canary_step :: "canary_store \<Rightarrow> canary_op \<Rightarrow> canary_store" where
  "canary_step s (Arm a) = snd (arm a s)"
| "canary_step s (Active owner t now target) = snd (active owner t now target s)"
| "canary_step s (Disarm owner t why now) = snd (disarm owner t why now s)"
| "canary_step s (Restart now) = canary_restart now s"
| "canary_step s (Audit r) = canary_audit r s"

text \<open>The operations that end an ARM session.\<close>

definition ends_arm :: "arm_session \<Rightarrow> canary_op \<Rightarrow> bool" where
  "ends_arm a x = (case x of Arm b \<Rightarrow> False | Active _ _ _ _ \<Rightarrow> False
     | Disarm owner t _ _ \<Rightarrow> owner = as_owner a \<and> t = as_account a
     | Restart _ \<Rightarrow> True | Audit _ \<Rightarrow> False)"

definition one_arm_per_owner :: "canary_store \<Rightarrow> bool" where
  "one_arm_per_owner s \<longleftrightarrow> distinct (map as_owner (cs_arms s)) \<and> distinct (map as_arm_id (cs_arms s))"

lemma arm_audit_arms [simp]: "cs_arms (arm_audit act owner t i d n s) = cs_arms s"
  by (simp add: arm_audit_def)

lemma canary_commit_arms [simp]: "cs_arms (canary_commit s) = cs_arms s"
  by (simp add: canary_commit_def)

lemma canary_restart_arms [simp]: "cs_arms (canary_restart now s) = []"
  by (simp add: canary_restart_def Let_def)

lemma distinct_map_filter: "distinct (map k xs) \<Longrightarrow> distinct (map k (filter p xs))"
  by (simp add: distinct_map_filter)

lemma one_arm_step: "one_arm_per_owner s \<Longrightarrow> one_arm_per_owner (canary_step s x)"
proof (cases x)
  case (Arm a)
  assume s: "one_arm_per_owner s"
  show ?thesis
  proof (cases "arm_conflict a (filter (\<lambda>r. as_owner r \<noteq> as_owner a) (cs_arms s))")
    case True
    with s Arm show ?thesis
      by (auto simp: arm_def Let_def one_arm_per_owner_def distinct_map_filter split: option.split)
  next
    case False
    then have "as_arm_id a \<notin> as_arm_id ` set (filter (\<lambda>r. as_owner r \<noteq> as_owner a) (cs_arms s))"
      by (force simp: arm_conflict_def)
    with s False Arm show ?thesis
      by (auto simp: arm_def Let_def one_arm_per_owner_def distinct_map_filter split: option.split)
  qed
qed (auto simp: active_def disarm_def one_arm_per_owner_def delete_arm_def canary_audit_def
    distinct_map_filter split: option.splits sum.splits if_splits)

interpretation canary_arms: step_invariant canary_step one_arm_per_owner
  by unfold_locales (rule one_arm_step)

lemma arm_row_member: "arm_row owner t rows = Some r \<Longrightarrow> r \<in> set rows \<and> as_owner r = owner \<and> as_account r = t"
  by (auto simp: arm_row_def dest: find_SomeD)

lemma arm_survives:
  assumes "one_arm_per_owner s" and "a \<in> set (cs_arms (canary_step s x))"
  shows "x = Arm a \<or> (a \<in> set (cs_arms s) \<and> \<not> ends_arm a x \<and> (\<forall>b. x = Arm b \<and> fst (arm b s) = Inr () \<longrightarrow> as_owner b \<noteq> as_owner a))"
proof (cases x)
  case (Disarm owner t why now)
  show ?thesis
  proof (cases "owner = as_owner a \<and> t = as_account a")
    case True
    have "a \<in> set (cs_arms s)" using assms(2) Disarm
      by (auto simp: disarm_def delete_arm_def split: option.splits)
    then obtain r where r: "arm_row owner t (cs_arms s) = Some r"
      using True by (cases "arm_row owner t (cs_arms s)") (auto simp: arm_row_def dest: find_NoneD)
    have "r = a" using arm_row_member [OF r] \<open>a \<in> set (cs_arms s)\<close> True assms(1)
      by (intro distinct_key_inj [of as_owner "cs_arms s"]) (auto simp: one_arm_per_owner_def)
    then have "a \<notin> set (cs_arms (canary_step s x))" by (simp add: Disarm disarm_def r delete_arm_def)
    with assms(2) show ?thesis by simp
  qed (use assms Disarm in \<open>auto simp: ends_arm_def disarm_def delete_arm_def split: option.splits\<close>)
qed (use assms in \<open>auto simp: ends_arm_def active_def arm_def Let_def delete_arm_def canary_audit_def
    split: option.splits sum.splits if_splits\<close>)

section \<open>Properties\<close>

text \<open>C22. An ARM is an act of this process and runs out: after any operations following a
  boot, a session that is found active was armed by one of them, was not disarmed and no
  restart happened since, belongs to the asked owner, account and target, is within its
  time window, and is the owner's only session.\<close>

theorem active_arm_is_recent_and_live:
  assumes "cs_arms s0 = []" and "active owner t now target (run canary_step s0 ops) = (Inr (Some a), s')"
  shows "(\<exists>ys zs. ops = ys @ Arm a # zs \<and> (\<forall>x \<in> set zs. \<not> ends_arm a x))
    \<and> as_armed_at a \<le> now \<and> now < as_expires_at a \<and> as_owner a = owner \<and> as_account a = t
    \<and> (target = None \<or> as_target_id a = target)
    \<and> (\<forall>b \<in> set (cs_arms (run canary_step s0 ops)). as_owner b = owner \<longrightarrow> b = a)"
proof -
  have inv: "one_arm_per_owner (run canary_step s0 xs)" for xs
    by (rule canary_arms.run_inv) (simp add: one_arm_per_owner_def assms(1))
  have origin: "\<exists>ys zs. xs = ys @ Arm a # zs \<and> (\<forall>x \<in> set zs. \<not> ends_arm a x)"
    if "a \<in> set (cs_arms (run canary_step s0 xs))" for xs
    using that
  proof (induction xs rule: rev_induct)
    case (snoc x xs)
    from arm_survives [OF inv [of xs], of a x] snoc.prems
    consider "x = Arm a" | "a \<in> set (cs_arms (run canary_step s0 xs))" "\<not> ends_arm a x"
      by (auto simp: run_append)
    then show ?case
    proof cases
      case 1
      then show ?thesis by (intro exI [of _ xs] exI [of _ "[]"]) simp
    next
      case 2
      from snoc.IH [OF 2(1)] obtain ys zs where "xs = ys @ Arm a # zs" "\<forall>x \<in> set zs. \<not> ends_arm a x" by blast
      with 2(2) show ?thesis by (intro exI [of _ ys] exI [of _ "zs @ [x]"]) simp
    qed
  qed (simp add: assms(1))
  obtain r where r: "arm_row owner t (cs_arms (run canary_step s0 ops)) = Some r" "arm_post_init r = Inr a"
    "target = None \<or> as_target_id a = target" "arm_live a now"
    using assms(2) by (auto simp: active_def split: option.splits sum.splits if_splits)
  then have "r = a" by (simp add: arm_post_init_def first_error_Inr)
  with arm_row_member [OF r(1)] have a: "a \<in> set (cs_arms (run canary_step s0 ops))"
    "as_owner a = owner" "as_account a = t" by simp_all
  have "b = a" if "b \<in> set (cs_arms (run canary_step s0 ops))" "as_owner b = owner" for b
    using that a inv [of ops] by (intro distinct_key_inj [of as_owner]) (auto simp: one_arm_per_owner_def)
  then have uniq: "\<forall>b \<in> set (cs_arms (run canary_step s0 ops)). as_owner b = owner \<longrightarrow> b = a" by blast
  have live: "as_armed_at a \<le> now" "now < as_expires_at a" using r(4) by (simp_all add: arm_live_def)
  show ?thesis by (intro conjI origin [OF a(1)] live a(2,3) r(3) uniq)
qed

definition arm1 :: arm_session where
  "arm1 = \<lparr>as_arm_id = ''arm1'', as_owner = ''u1'', as_account = t1, as_armed_at = 100,
     as_expires_at = 100 + seconds 600, as_created_by = ''admin'', as_target_id = None\<rparr>"

theorem active_arm_is_recent_and_live_witness:
  "\<exists>a. active ''u1'' t1 200 None (run canary_step empty_canary_store [Restart 1, Arm arm1])
      = (Inr (Some a), run canary_step empty_canary_store [Restart 1, Arm arm1])
    \<and> as_owner a = ''u1'' \<and> 200 < as_expires_at a"
proof -
  let ?s0 = "empty_canary_store"
  let ?s = "run canary_step ?s0 [Restart 1, Arm arm1]"
  have "case active ''u1'' t1 200 None ?s of (Inr (Some a), s') \<Rightarrow> s' = ?s | _ \<Rightarrow> False" by code_simp
  then obtain a where a: "active ''u1'' t1 200 None ?s = (Inr (Some a), ?s)"
    by (auto split: prod.splits sum.splits option.splits)
  from active_arm_is_recent_and_live [OF _ a] show ?thesis using a by (auto simp: empty_canary_store_def)
qed

lemma active_found:
  assumes "active owner t now target s = (Inr (Some a), s')"
  shows "a \<in> set (cs_arms s) \<and> as_owner a = owner \<and> as_account a = t \<and> (target = None \<or> as_target_id a = target)
    \<and> as_armed_at a \<le> now \<and> now < as_expires_at a"
proof -
  obtain r where r: "arm_row owner t (cs_arms s) = Some r" "arm_post_init r = Inr a"
    "target = None \<or> as_target_id a = target" "arm_live a now"
    using assms by (auto simp: active_def split: option.splits sum.splits if_splits)
  then have "r = a" by (simp add: arm_post_init_def first_error_Inr)
  with arm_row_member [OF r(1)] r(3,4) show ?thesis by (simp add: arm_live_def)
qed

lemma all_checks_Inr: "all_checks rs = Inr () \<longleftrightarrow> (\<forall>r \<in> set rs. r = Inr ())"
  by (induction rs) (auto split: sum.splits)

lemma static_checksD:
  assumes "static_checks g t q = Inr ()"
  shows "t = cg_target g \<and> req_source q \<in> set order_sources
    \<and> (is_guardian q \<longrightarrow> req_reduce_only q \<and> req_purpose q \<in> {Exit, Liquidation})
    \<and> canary_assert_request (cg_config g) (req_owner_id q) t (req_symbol q) (req_contract q) (req_quantity q) = Inr ()
    \<and> cg_recovery g = Inr () \<and> cg_connected g \<and> cg_ca_ready g \<and> cg_unknown_orders g \<le> 0
    \<and> position_check g q = Inr () \<and> (is_guardian q \<or> \<not> cg_kill_blocks g (req_owner_id q) (req_reduce_only q))"
  using assms unfolding static_checks_def all_checks_Inr
  by (simp add: first_error_Inr not_less split: if_splits) blast?

lemma position_checkD:
  assumes "position_check g q = Inr ()" and "req_reduce_only q" and "cg_broker_position g = Some f"
  shows "\<exists>p. f (req_contract q) = Some p \<and> (if p > 0 then req_side q = Sell else req_side q = Buy)
    \<and> p \<noteq> 0 \<and> req_quantity q \<le> \<bar>p\<bar>"
  using assms by (cases "f (req_contract q)") (auto simp: position_check_def first_error_Inr closes_def)

lemma gate_narrow:
  assumes "canary_assert_order g now x s = (Inr (), s')" and "canary_config_post_init (cg_config g) = Inr (cg_config g)"
    and "q = subject_request x"
  shows "subject_target x = cg_target g \<and> cg_target g \<in> set (cc_accounts (cg_config g))
    \<and> req_source q \<in> set order_sources \<and> req_owner_id q \<in> set (cc_owners (cg_config g))
    \<and> req_symbol q \<in> set (cc_symbols (cg_config g)) \<and> req_contract q \<in> set (cc_contracts (cg_config g))
    \<and> req_quantity q = 1 \<and> cg_recovery g = Inr () \<and> cg_connected g \<and> cg_ca_ready g \<and> cg_unknown_orders g \<le> 0
    \<and> (req_reduce_only q \<and> cg_broker_position g \<noteq> None \<longrightarrow> (\<exists>p. the (cg_broker_position g) (req_contract q) = Some p
         \<and> (if p > 0 then req_side q = Sell else req_side q = Buy) \<and> p \<noteq> 0 \<and> req_quantity q \<le> \<bar>p\<bar>))
    \<and> (if is_guardian q then req_reduce_only q \<and> req_purpose q \<in> {Exit, Liquidation}
       else \<not> cg_kill_blocks g (req_owner_id q) (req_reduce_only q)
         \<and> (\<exists>a. active (req_owner_id q) (cg_target g) now (cg_execution_target g) s = (Inr (Some a), s')
              \<and> req_arm_id q = Some (as_arm_id a)
              \<and> (req_source q = ''strategy_live_auto'' \<longrightarrow> (\<exists>rest. as_created_by a = ''live_auto:'' @ rest))))"
proof -
  have st: "static_checks g (subject_target x) q = Inr ()"
    using assms(1,3) by (auto simp: canary_assert_order_def Let_def split: sum.splits)
  note c = static_checksD [OF st]
  have req: "cc_enabled (cg_config g)" "req_owner_id q \<in> set (cc_owners (cg_config g))"
    "subject_target x \<in> set (cc_accounts (cg_config g))" "req_symbol q \<in> set (cc_symbols (cg_config g))"
    "req_contract q \<in> set (cc_contracts (cg_config g))" "1 \<le> req_quantity q"
    "req_quantity q \<le> cc_max_quantity (cg_config g)"
    using c by (auto simp: canary_assert_request_def first_error_Inr)
  have "cc_max_quantity (cg_config g) = 1"
    using assms(2) by (auto simp: canary_config_post_init_def first_error_Inr)
  with req have q1: "req_quantity q = 1" by simp
  have t: "subject_target x = cg_target g" using c by blast
  have pos: "req_reduce_only q \<and> cg_broker_position g \<noteq> None \<longrightarrow> (\<exists>p. the (cg_broker_position g) (req_contract q) = Some p
      \<and> (if p > 0 then req_side q = Sell else req_side q = Buy) \<and> p \<noteq> 0 \<and> req_quantity q \<le> \<bar>p\<bar>)"
    using c position_checkD by fastforce
  have arm: "\<not> cg_kill_blocks g (req_owner_id q) (req_reduce_only q) \<and>
      (\<exists>a. active (req_owner_id q) (cg_target g) now (cg_execution_target g) s = (Inr (Some a), s')
         \<and> req_arm_id q = Some (as_arm_id a)
         \<and> (req_source q = ''strategy_live_auto'' \<longrightarrow> (\<exists>rest. as_created_by a = ''live_auto:'' @ rest)))"
    if "\<not> is_guardian q"
  proof
    show "\<not> cg_kill_blocks g (req_owner_id q) (req_reduce_only q)" using c that by blast
    obtain r s2 where r: "active (req_owner_id q) (cg_target g) now (cg_execution_target g) s = (r, s2)" by fastforce
    with assms(1,3) st that t obtain a where "r = Inr a" "arm_checks q a = Inr ()" "s' = s2"
      by (auto simp: canary_assert_order_def Let_def split: sum.splits)
    with r show "\<exists>a. active (req_owner_id q) (cg_target g) now (cg_execution_target g) s = (Inr (Some a), s')
         \<and> req_arm_id q = Some (as_arm_id a)
         \<and> (req_source q = ''strategy_live_auto'' \<longrightarrow> (\<exists>rest. as_created_by a = ''live_auto:'' @ rest))"
      by (cases a) (auto simp: arm_checks_def first_error_Inr dest!: starts_withD)
  qed
  show ?thesis using req q1 t c pos arm by auto
qed

text \<open>C23. What the canary gate admits is narrow: the order is the gate's account's, from a
  known source, of the allowed owner, symbol and contract and of quantity one; recovery,
  broker and certificate are ready and no order is UNKNOWN; a reduce-only order closes
  within a known broker position; the guardian's orders are reduce-only exits or liquidations; and
  on any other order no kill switch blocks the owner, the order carries the id of the owner's ARM
  that is active for the gate's account and target, and an order of the automatic strategy only
  an ARM that was created for it (\<open>live_auto:\<close>).\<close>

theorem canary_gate_narrow:
  assumes "canary_assert_order g now x s = (Inr (), s')" and "canary_config_post_init (cg_config g) = Inr (cg_config g)"
    and "q = subject_request x"
  shows "subject_target x = cg_target g \<and> cg_target g \<in> set (cc_accounts (cg_config g))
    \<and> req_source q \<in> set order_sources \<and> req_owner_id q \<in> set (cc_owners (cg_config g))
    \<and> req_symbol q \<in> set (cc_symbols (cg_config g)) \<and> req_contract q \<in> set (cc_contracts (cg_config g))
    \<and> req_quantity q = 1 \<and> cg_recovery g = Inr () \<and> cg_connected g \<and> cg_ca_ready g \<and> cg_unknown_orders g \<le> 0
    \<and> (req_reduce_only q \<and> cg_broker_position g \<noteq> None \<longrightarrow> (\<exists>p. the (cg_broker_position g) (req_contract q) = Some p
         \<and> (if p > 0 then req_side q = Sell else req_side q = Buy) \<and> p \<noteq> 0 \<and> req_quantity q \<le> \<bar>p\<bar>))
    \<and> (if is_guardian q then req_reduce_only q \<and> req_purpose q \<in> {Exit, Liquidation}
       else \<not> cg_kill_blocks g (req_owner_id q) (req_reduce_only q)
         \<and> (\<exists>a. active (req_owner_id q) (cg_target g) now (cg_execution_target g) s = (Inr (Some a), s')
              \<and> req_arm_id q = Some (as_arm_id a)
              \<and> (req_source q = ''strategy_live_auto'' \<longrightarrow> (\<exists>rest. as_created_by a = ''live_auto:'' @ rest))))"
  using assms by (rule gate_narrow)

definition canary_cfg1 :: canary_config where
  "canary_cfg1 = \<lparr>cc_enabled = True, cc_owners = [''u1''], cc_accounts = [t1], cc_symbols = [''TMF''],
     cc_contracts = [''TMFR1''], cc_max_quantity = 1, cc_arm_ttl = 600, cc_stop_ticks = 20,
     cc_requests_per_minute = 4\<rparr>"

definition canary_gate1 :: canary_gate where
  "canary_gate1 = \<lparr>cg_config = canary_cfg1, cg_target = t1, cg_recovery = Inr (), cg_connected = True,
     cg_ca_ready = True, cg_unknown_orders = 0, cg_kill_blocks = (\<lambda>_ _. False), cg_broker_position = None,
     cg_execution_target = None\<rparr>"

definition armed_store :: canary_store where
  "armed_store = empty_canary_store\<lparr>cs_arms := [arm1]\<rparr>"

definition canary_rq1 :: routed_request where
  "canary_rq1 = \<lparr>rq_target = t1, rq_request = example_request\<lparr>req_quantity := 1, req_symbol := ''TMF'',
     req_contract := ''TMFR1'', req_owner_id := ''u1'', req_source := ''manual_live_canary'', req_arm_id := Some ''arm1''\<rparr>\<rparr>"

theorem canary_gate_narrow_witness:
  "\<exists>s'. canary_assert_order canary_gate1 200 (SubjRequest canary_rq1) armed_store = (Inr (), s')
     \<and> req_quantity (rq_request canary_rq1) = 1"
proof -
  let ?s = "armed_store"
  have "fst (canary_assert_order canary_gate1 200 (SubjRequest canary_rq1) ?s) = Inr ()" by code_simp
  then obtain s' where s': "canary_assert_order canary_gate1 200 (SubjRequest canary_rq1) ?s = (Inr (), s')"
    by (metis prod.collapse)
  have "canary_config_post_init (cg_config canary_gate1) = Inr (cg_config canary_gate1)" by code_simp
  from canary_gate_narrow [OF s' this refl] s' show ?thesis by (simp add: subject_request_def)
qed

end
