(* ===== verification/Live_Deployment.thy ===== *)
theory Live_Deployment
  imports Canary Order_Manager_Safety Live_Risk
begin

text \<open>
  The live execution service as \<open>execution_service/runtime.py\<close> puts it together: one account with one
  registered port, and one composite gate of the recovery lock, the account's safety policy and the
  canary gate, or the locked gate where no canary is configured.  What such a deployment sends over any
  run of its order manager (\<open>manager.py\<close>).
\<close>

section \<open>Which operations submit\<close>

lemma in_repo_submits: "in_repo f w = (r, w') \<Longrightarrow> mw_submitted w' = mw_submitted w"
  by (auto simp: in_repo_def Let_def split: prod.splits)

lemma dispatch_end_submitted [simp]: "mw_submitted (snd (dispatch_end ro port now w)) = mw_submitted w"
  by (rule dispatch_end_submits [OF surjective_pairing])

lemma cancel_begin_submits [simp]: "mw_submitted (snd (cancel_begin m t clk w)) = mw_submitted w"
proof -
  have "mw_submitted w' = mw_submitted w" if "cancel_begin m t clk w = (r, w')" for r w'
    using that by (auto simp: cancel_begin_def Let_def split: sum.splits prod.splits option.splits dest!: in_repo_submits)
  then show ?thesis by (metis surjective_pairing)
qed

lemma cancel_end_submits [simp]: "mw_submitted (snd (cancel_end ro port now w)) = mw_submitted w"
proof -
  have "mw_submitted w' = mw_submitted w" if "cancel_end ro port now w = (r, w')" for r w'
    using that by (auto simp: cancel_end_def split: sum.splits prod.splits dest!: in_repo_submits)
  then show ?thesis by (metis surjective_pairing)
qed

lemma dispatch_cancel_submits [simp]: "mw_submitted (snd (dispatch_cancel_once m t clk w)) = mw_submitted w"
proof (cases "cancel_begin m t clk w")
  case (Pair r w1)
  with cancel_begin_submits [of m t clk w] have e: "mw_submitted w1 = mw_submitted w" by simp
  have "mw_submitted w2 = mw_submitted w1" if "cancel_end ro port now w1 = (r2, w2)" for ro port now r2 w2
    using cancel_end_submits [of ro port now w1] that by simp
  with e Pair show ?thesis
    by (auto simp: dispatch_cancel_once_def split: sum.split prod.split dispatch_stage.split)
qed

lemma refresh_submits: "refresh_and_save port cur w = (r, w') \<Longrightarrow> mw_submitted w' = mw_submitted w"
  by (auto simp: refresh_and_save_def split: sum.splits prod.splits dest!: in_repo_submits)

lemma reconcile_loop_submits: "reconcile_loop port clk curs w = (r, w') \<Longrightarrow> mw_submitted w' = mw_submitted w"
proof (induction curs arbitrary: clk w r w')
  case (Cons cur curs)
  then show ?case by (auto split: sum.splits prod.splits dest!: in_repo_submits)
qed simp

lemma submits_by_dispatch:
  assumes "\<And>m t clk. x \<noteq> DispatchOnce m t clk" "\<And>m t clk. x \<noteq> DispatchBegin m t clk"
  shows "mw_submitted (manager_step w x) = mw_submitted w"
proof (cases x)
  case (Create m rq now)
  then show ?thesis using in_repo_submits [OF surjective_pairing, of "reserve rq now" w]
    by (auto simp: create_def split: sum.split)
next
  case (RequestCancel m t owner cid now)
  then show ?thesis using in_repo_submits [OF surjective_pairing, of "reserve_cancel t owner cid now" w]
    by (auto simp: request_cancel_def split: sum.split option.split)
next
  case (ReconcileOrder m owner cid)
  then show ?thesis using refresh_submits [OF surjective_pairing, of _ _ w]
    by (auto simp: reconcile_order_def split: sum.split option.split)
next
  case (ReconcileByBrokerId m t bid)
  have "mw_submitted w2 = mw_submitted w" if "refresh_and_save port cur w = (r, w2)" for port cur r w2
    using that by (rule refresh_submits)
  with ReconcileByBrokerId show ?thesis
    by (auto simp: reconcile_by_broker_order_id_def split: sum.split option.split prod.split)
next
  case (ReconcileAll m t owner clk)
  then show ?thesis using reconcile_loop_submits [OF surjective_pairing, of _ clk _ w]
    by (auto simp: reconcile_broker_orders_def split: sum.split)
qed (use assms in simp_all)

text \<open>The manager an operation dispatches with, and what it adds to the orders sent.\<close>

fun dispatches_with :: "manager_op \<Rightarrow> order_manager option" where
  "dispatches_with (DispatchOnce m t clk) = Some m"
| "dispatches_with (DispatchBegin m t clk) = Some m"
| "dispatches_with _ = None"

lemma begin_sends:
  assumes "mw_submitted (snd (dispatch_begin m t clk w)) \<noteq> mw_submitted w"
  obtains ro where "mw_submitted (snd (dispatch_begin m t clk w)) = mw_submitted w @ [ro]"
    "assert_order_admitted m (SubjOrder ro) = Inr ()" "assert_admitted m (ro_target ro) = Inr ()"
proof -
  obtain r w' where b: "dispatch_begin m t clk w = (r, w')" by fastforce
  with dispatch_begin_submits [OF b] assms obtain ro port where "r = Inr (Sent ro port)" by auto
  with dispatch_begin_sentD [of m t clk w ro port w'] b that show thesis by auto
qed

lemma step_sends:
  assumes "mw_submitted (manager_step w x) \<noteq> mw_submitted w"
  obtains m ro where "dispatches_with x = Some m" "mw_submitted (manager_step w x) = mw_submitted w @ [ro]"
    "assert_order_admitted m (SubjOrder ro) = Inr ()" "assert_admitted m (ro_target ro) = Inr ()"
proof -
  consider m t clk where "x = DispatchOnce m t clk" | m t clk where "x = DispatchBegin m t clk"
    using assms submits_by_dispatch [of x w] by blast
  then show thesis
  proof cases
    case 1
    obtain r w' where o: "dispatch_once m t clk w = (r, w')" by fastforce
    with 1 assms have "mw_submitted w' \<noteq> mw_submitted w" by simp
    from dispatch_once_sent [OF o this] obtain ro port w1 where
      b: "dispatch_begin m t clk w = (Inr (Sent ro port), w1)" "mw_submitted w' = mw_submitted w1" by blast
    with dispatch_begin_sentD [OF b(1)] 1 o that [of m ro] show thesis by simp
  next
    case 2
    with assms obtain ro where "mw_submitted (manager_step w x) = mw_submitted w @ [ro]"
      "assert_order_admitted m (SubjOrder ro) = Inr ()" "assert_admitted m (ro_target ro) = Inr ()"
      using begin_sends [of m t clk w] by auto
    with 2 that [of m ro] show thesis by simp
  qed
qed

section \<open>The deployment\<close>

record live_deployment =
  ld_account :: account_ref
  ld_port :: broker_port
  ld_capabilities :: broker_capabilities
  ld_connected_client :: bool
  ld_trading_enabled :: bool
  ld_confirmation :: string
  ld_target_id :: string
  ld_canary :: "canary_config option"

text \<open>What the gates read when they are asked: the recovery lock, the health of the client, the kill
  switches of an owner, the broker's positions, the ARM table, and the clock.\<close>

record gate_readings =
  rd_now :: instant
  rd_recovery :: "unit res"
  rd_connected :: bool
  rd_ca_ready :: bool
  rd_kill_switches :: "string \<Rightarrow> kill_switch_state list"
  rd_position :: "string \<Rightarrow> int option"
  rd_arms :: canary_store

definition kill_switch_blocks :: "kill_switch_state list \<Rightarrow> bool \<Rightarrow> bool" where
  "kill_switch_blocks states reduce_only = (\<exists>k \<in> set states.
     ks_action k \<in> {CancelWorking, Flatten} \<or> (ks_action k = HaltEntry \<and> \<not> reduce_only))"

text \<open>The orders of the account that are UNKNOWN.  (Reading them raises when a stored order does not
  validate, which refuses the order as well.)\<close>

definition unknown_orders :: "account_ref \<Rightarrow> live_repo \<Rightarrow> int" where
  "unknown_orders t s = int (length (filter (\<lambda>r. at_target t r \<and> or_status r = UNKNOWN) (lr_orders s)))"

definition deployed_canary_gate :: "live_deployment \<Rightarrow> canary_config \<Rightarrow> gate_readings \<Rightarrow> live_repo \<Rightarrow> canary_gate" where
  "deployed_canary_gate d c rd repo = \<lparr>cg_config = c, cg_target = ld_account d, cg_recovery = rd_recovery rd,
     cg_connected = rd_connected rd, cg_ca_ready = rd_ca_ready rd,
     cg_unknown_orders = unknown_orders (ld_account d) repo,
     cg_kill_blocks = (\<lambda>owner. kill_switch_blocks (rd_kill_switches rd owner)),
     cg_broker_position = Some (rd_position rd), cg_execution_target = Some (ld_target_id d)\<rparr>"

definition ordering_only :: "unit res \<Rightarrow> admission_gate" where
  "ordering_only r = \<lparr>ag_ordering = r, ag_order = None, ag_cancel = None\<rparr>"

definition deployed_gates :: "live_deployment \<Rightarrow> gate_readings \<Rightarrow> live_repo \<Rightarrow> admission_gate list" where
  "deployed_gates d rd repo =
     [ordering_only (rd_recovery rd),
      ordering_only (safety_assert_ordering_allowed \<lparr>sf_account = ld_account d, sf_enabled = ld_trading_enabled d,
        sf_confirmation = ld_confirmation d, sf_allowed_accounts = [ld_account d]\<rparr>),
      (case ld_canary d of
         Some c \<Rightarrow> if ld_connected_client d
           then canary_admission (deployed_canary_gate d c rd repo) (rd_now rd) (rd_arms rd)
           else locked_gate ''production broker submission is not implemented''
       | None \<Rightarrow> locked_gate ''production broker submission is not implemented'')]"

definition deployed_registry :: "live_deployment \<Rightarrow> broker_registry" where
  "deployed_registry d = freeze (snd (register \<lparr>rg_account_ref = ld_account d, rg_port = ld_port d,
     rg_capabilities = ld_capabilities d,
     rg_state = (if ld_connected_client d then RtReady else RtLocked)\<rparr> empty_registry))"

definition deployed_manager :: "live_deployment \<Rightarrow> gate_readings \<Rightarrow> live_repo \<Rightarrow> order_manager res" where
  "deployed_manager d rd repo = (case composite_gate (deployed_gates d rd repo) of Inl e \<Rightarrow> Inl e
     | Inr g \<Rightarrow> Inr \<lparr>om_registry = deployed_registry d, om_gates = [(ld_account d, g)]\<rparr>)"

text \<open>A step of the deployment: an operation of its order manager, whose gates read \<open>rd\<close>.\<close>

fun with_manager :: "order_manager \<Rightarrow> manager_op \<Rightarrow> manager_op" where
  "with_manager m (Create _ rq now) = Create m rq now"
| "with_manager m (DispatchOnce _ t clk) = DispatchOnce m t clk"
| "with_manager m (DispatchBegin _ t clk) = DispatchBegin m t clk"
| "with_manager m (RequestCancel _ t owner cid now) = RequestCancel m t owner cid now"
| "with_manager m (DispatchCancelOnce _ t clk) = DispatchCancelOnce m t clk"
| "with_manager m (CancelBegin _ t clk) = CancelBegin m t clk"
| "with_manager m (ReconcileOrder _ owner cid) = ReconcileOrder m owner cid"
| "with_manager m (ReconcileByBrokerId _ t bid) = ReconcileByBrokerId m t bid"
| "with_manager m (ReconcileAll _ t owner clk) = ReconcileAll m t owner clk"
| "with_manager m x = x"

definition deployed_step :: "live_deployment \<Rightarrow> manager_world \<Rightarrow> gate_readings \<times> manager_op \<Rightarrow> manager_world" where
  "deployed_step d w y = (case y of (rd, x) \<Rightarrow> (case deployed_manager d rd (mw_repo w) of Inl _ \<Rightarrow> w
     | Inr m \<Rightarrow> manager_step w (with_manager m x)))"

section \<open>What it sends\<close>

text \<open>An order that is inside the canary's limits and, unless the guardian closes a position with it,
  carries the id of the ARM of its owner and account that is running in the table the gate reads.\<close>

definition narrow_order :: "live_deployment \<Rightarrow> canary_config \<Rightarrow> routed_order \<Rightarrow> bool" where
  "narrow_order d c ro \<longleftrightarrow> (let q = bo_request (ro_order ro) in
     ro_target ro = ld_account d \<and> ld_account d \<in> set (cc_accounts c) \<and> req_quantity q = 1
     \<and> req_owner_id q \<in> set (cc_owners c) \<and> req_symbol q \<in> set (cc_symbols c)
     \<and> req_contract q \<in> set (cc_contracts c)
     \<and> req_source q \<in> {''manual_live_canary'', ''strategy_live_auto'', ''live_position_guardian''})"

definition running_arm :: "live_deployment \<Rightarrow> gate_readings \<Rightarrow> broker_order_request \<Rightarrow> arm_session \<Rightarrow> bool" where
  "running_arm d rd q a \<longleftrightarrow> a \<in> set (cs_arms (rd_arms rd)) \<and> req_arm_id q = Some (as_arm_id a)
     \<and> as_owner a = req_owner_id q \<and> as_account a = ld_account d \<and> as_target_id a = Some (ld_target_id d)
     \<and> as_armed_at a \<le> rd_now rd \<and> rd_now rd < as_expires_at a"

definition admitted_order :: "live_deployment \<Rightarrow> gate_readings \<Rightarrow> live_repo \<Rightarrow> canary_config \<Rightarrow> routed_order \<Rightarrow> bool" where
  "admitted_order d rd repo c ro \<longleftrightarrow> (let q = bo_request (ro_order ro) in
     ld_trading_enabled d \<and> ld_confirmation d = LIVE_TRADING_CONFIRMATION \<and> ld_connected_client d
     \<and> rd_recovery rd = Inr () \<and> rd_connected rd \<and> rd_ca_ready rd
     \<and> (\<forall>r \<in> set (lr_orders repo). \<not> (at_target (ld_account d) r \<and> or_status r = UNKNOWN))
     \<and> (req_reduce_only q \<longrightarrow> (\<exists>p. rd_position rd (req_contract q) = Some p \<and> req_quantity q \<le> \<bar>p\<bar>
          \<and> (if p > 0 then req_side q = Sell else p < 0 \<and> req_side q = Buy)))
     \<and> (if req_source q = ''live_position_guardian''
        then req_reduce_only q \<and> req_purpose q \<in> {Exit, Liquidation}
        else \<not> kill_switch_blocks (rd_kill_switches rd (req_owner_id q)) (req_reduce_only q)
          \<and> (\<exists>a. running_arm d rd q a)))"

lemma deployed_managerD:
  assumes "deployed_manager d rd repo = Inr m" and "assert_admitted m t = Inr ()"
    and "assert_order_admitted m (SubjOrder ro) = Inr ()" and "ro_target ro = t"
  shows "t = ld_account d \<and> resolve t (om_registry m) = Inr (ld_port d) \<and> ld_connected_client d
    \<and> ld_trading_enabled d \<and> ld_confirmation d = LIVE_TRADING_CONFIRMATION \<and> rd_recovery rd = Inr ()
    \<and> (\<exists>c. ld_canary d = Some c \<and> cc_enabled c
         \<and> fst (canary_assert_order (deployed_canary_gate d c rd repo) (rd_now rd) (SubjOrder ro) (rd_arms rd)) = Inr ())"
proof -
  let ?gs = "deployed_gates d rd repo"
  have m: "m = \<lparr>om_registry = deployed_registry d,
      om_gates = [(ld_account d, \<lparr>ag_ordering = all_checks (map ag_ordering ?gs),
        ag_order = Some (\<lambda>x. all_checks (map (\<lambda>g. check_with (ag_order g) x) ?gs)),
        ag_cancel = Some (\<lambda>x. all_checks (map (\<lambda>g. check_with (ag_cancel g) x) ?gs))\<rparr>)]\<rparr>"
    using assms(1) by (auto simp: deployed_manager_def composite_gate_def deployed_gates_def)
  have t: "t = ld_account d" and ord: "\<forall>g \<in> set ?gs. ag_ordering g = Inr ()"
    and res: "is_ok (resolve t (om_registry m))"
    using assms(2) unfolding m
    by (auto simp: assert_admitted_def all_checks_Inr split: sum.splits if_splits)
  have each: "\<forall>g \<in> set ?gs. check_with (ag_order g) (SubjOrder ro) = Inr ()"
    using assms(3,4) t unfolding m
    by (auto simp: assert_order_admitted_def manager_gate_def subject_target_def check_with_def all_checks_Inr)
  have conn: "ld_connected_client d" using res unfolding m t
    by (auto simp: resolve_def registration_def deployed_registry_def register_def empty_registry_def freeze_def
        split: if_splits)
  then have port: "resolve t (om_registry m) = Inr (ld_port d)" unfolding m t
    by (simp add: resolve_def registration_def deployed_registry_def register_def empty_registry_def freeze_def)
  obtain c where c: "ld_canary d = Some c"
    using ord by (cases "ld_canary d") (auto simp: deployed_gates_def locked_gate_def)
  have "canary_assert_ordering (deployed_canary_gate d c rd repo) = Inr ()"
    using ord conn c by (simp add: deployed_gates_def canary_admission_def)
  then have en: "cc_enabled c"
    by (auto simp: canary_assert_ordering_def deployed_canary_gate_def split: if_splits)
  show ?thesis using t port conn c en ord each
    by (auto simp: deployed_gates_def ordering_only_def canary_admission_def check_with_def
        safety_assert_ordering_allowed_def split: if_splits)
qed

lemma deployed_admits:
  assumes "deployed_manager d rd repo = Inr m" and "assert_admitted m (ro_target ro) = Inr ()"
    and "assert_order_admitted m (SubjOrder ro) = Inr ()"
    and "\<And>c. ld_canary d = Some c \<Longrightarrow> canary_config_post_init c = Inr c"
  shows "\<exists>c. ld_canary d = Some c \<and> cc_enabled c \<and> narrow_order d c ro \<and> admitted_order d rd repo c ro
    \<and> resolve (ro_target ro) (om_registry m) = Inr (ld_port d)"
proof -
  let ?q = "bo_request (ro_order ro)"
  note dm = deployed_managerD [OF assms(1-3) refl]
  then obtain c where c: "ld_canary d = Some c" "cc_enabled c"
    and ok: "fst (canary_assert_order (deployed_canary_gate d c rd repo) (rd_now rd) (SubjOrder ro) (rd_arms rd)) = Inr ()"
    by blast
  let ?g = "deployed_canary_gate d c rd repo"
  obtain s' where s': "canary_assert_order ?g (rd_now rd) (SubjOrder ro) (rd_arms rd) = (Inr (), s')"
    using ok by (metis prod.collapse)
  have "canary_config_post_init (cg_config ?g) = Inr (cg_config ?g)"
    using assms(4) [OF c(1)] by (simp add: deployed_canary_gate_def)
  note n = gate_narrow [OF s' this refl]
  have subj: "subject_request (SubjOrder ro) = ?q" "subject_target (SubjOrder ro) = ro_target ro"
    by (simp_all add: subject_request_def subject_target_def)
  have arm: "\<exists>a. running_arm d rd ?q a" if "\<not> is_guardian ?q"
  proof -
    from n that obtain a where a: "active (req_owner_id ?q) (ld_account d) (rd_now rd) (Some (ld_target_id d)) (rd_arms rd)
        = (Inr (Some a), s')" "req_arm_id ?q = Some (as_arm_id a)"
      unfolding subj by (auto simp: deployed_canary_gate_def)
    from active_found [OF a(1)] a(2) show ?thesis by (auto simp: running_arm_def)
  qed
  have unk: "\<forall>r \<in> set (lr_orders repo). \<not> (at_target (ld_account d) r \<and> or_status r = UNKNOWN)"
    using n by (auto simp: deployed_canary_gate_def unknown_orders_def filter_empty_conv)
  have "narrow_order d c ro" using n dm unfolding subj
    by (simp add: narrow_order_def Let_def deployed_canary_gate_def order_sources_def)
  moreover have "admitted_order d rd repo c ro" using n dm unk arm unfolding subj
    by (auto simp: admitted_order_def Let_def deployed_canary_gate_def is_guardian_def split: if_splits)
  ultimately show ?thesis using c dm by blast
qed

lemma with_manager_dispatch: "dispatches_with (with_manager m x) = Some m' \<Longrightarrow> m' = m"
  by (cases x) auto

text \<open>A run of the deployment is a run of the manager.\<close>

lemma deployed_run: "\<exists>xs. run (deployed_step d) w ops = run manager_step w xs"
proof (induction ops arbitrary: w)
  case (Cons y ops)
  obtain rd x where y: "y = (rd, x)" by (cases y)
  show ?case
  proof (cases "deployed_manager d rd (mw_repo w)")
    case (Inl e)
    with Cons.IH [of w] y show ?thesis by (simp add: deployed_step_def)
  next
    case (Inr m)
    obtain xs where "run (deployed_step d) (manager_step w (with_manager m x)) ops
        = run manager_step (manager_step w (with_manager m x)) xs" using Cons.IH by blast
    with y Inr have "run (deployed_step d) w (y # ops) = run manager_step w (with_manager m x # xs)"
      by (simp add: deployed_step_def)
    then show ?thesis by blast
  qed
qed (rule exI [of _ "[]"], simp)

lemma deployed_sends:
  assumes "\<And>c. ld_canary d = Some c \<Longrightarrow> canary_config_post_init c = Inr c"
    and "ro \<in> set (mw_submitted (deployed_step d w (rd, x)))" and "ro \<notin> set (mw_submitted w)"
  shows "\<exists>c m. ld_canary d = Some c \<and> cc_enabled c \<and> narrow_order d c ro \<and> admitted_order d rd (mw_repo w) c ro
    \<and> deployed_manager d rd (mw_repo w) = Inr m \<and> resolve (ro_target ro) (om_registry m) = Inr (ld_port d)"
proof -
  obtain m where m: "deployed_manager d rd (mw_repo w) = Inr m"
    using assms(2,3) by (auto simp: deployed_step_def split: sum.splits)
  have "mw_submitted (manager_step w (with_manager m x)) \<noteq> mw_submitted w"
    using assms(2,3) m by (auto simp: deployed_step_def)
  then obtain m' ro' where s: "dispatches_with (with_manager m x) = Some m'"
      "mw_submitted (manager_step w (with_manager m x)) = mw_submitted w @ [ro']"
      "assert_order_admitted m' (SubjOrder ro') = Inr ()" "assert_admitted m' (ro_target ro') = Inr ()"
    by (rule step_sends)
  have "ro' = ro" using assms(2,3) m s(2) by (auto simp: deployed_step_def)
  with s with_manager_dispatch [OF s(1)] deployed_admits [OF m _ _ assms(1), of ro] m
  show ?thesis by blast
qed

lemma deployed_sent:
  assumes "\<forall>c. ld_canary d = Some c \<longrightarrow> canary_config_post_init c = Inr c"
    and "ro \<in> set (mw_submitted (run (deployed_step d) empty_world ops))"
  shows "\<exists>c ys rd x zs m w. ops = ys @ (rd, x) # zs \<and> w = run (deployed_step d) empty_world ys
    \<and> ld_canary d = Some c \<and> cc_enabled c \<and> narrow_order d c ro \<and> admitted_order d rd (mw_repo w) c ro
    \<and> deployed_manager d rd (mw_repo w) = Inr m \<and> resolve (ro_target ro) (om_registry m) = Inr (ld_port d)"
  using assms(2)
proof (induction ops rule: rev_induct)
  case (snoc y ops)
  obtain rd x where y: "y = (rd, x)" by (cases y)
  let ?w = "run (deployed_step d) empty_world ops"
  show ?case
  proof (cases "ro \<in> set (mw_submitted ?w)")
    case True
    from snoc.IH [OF this] obtain c ys rd' x' zs m w where e: "ops = ys @ (rd', x') # zs"
      "w = run (deployed_step d) empty_world ys"
      "ld_canary d = Some c \<and> cc_enabled c \<and> narrow_order d c ro \<and> admitted_order d rd' (mw_repo w) c ro
       \<and> deployed_manager d rd' (mw_repo w) = Inr m \<and> resolve (ro_target ro) (om_registry m) = Inr (ld_port d)"
      by blast
    have "ops @ [y] = ys @ (rd', x') # (zs @ [y])" using e(1) by simp
    with e(2,3) show ?thesis by blast
  next
    case False
    have "ro \<in> set (mw_submitted (deployed_step d ?w (rd, x)))" using snoc.prems y by (simp add: run_append)
    from deployed_sends [OF _ this False] assms(1) y show ?thesis by blast
  qed
qed (simp add: empty_world_def)

lemma one_member_eq: "one_member xs \<Longrightarrow> a \<in> set xs \<Longrightarrow> b \<in> set xs \<Longrightarrow> a = b"
proof -
  assume h: "one_member xs" "a \<in> set xs" "b \<in> set xs"
  then obtain c where "remdups xs = [c]" by (auto simp: one_member_def length_Suc_conv)
  then have "set xs = {c}" by (metis list.simps(15) set_empty2 set_remdups)
  with h show ?thesis by simp
qed

lemma times_sent_distinct: "(\<And>k. times_sent k ros \<le> 1) \<Longrightarrow> distinct (map sent_id ros)"
proof (induction ros)
  case (Cons r ros)
  have "times_sent k ros \<le> 1" for k using Cons.prems [of k] by (auto simp: times_sent_def split: if_splits)
  moreover have "sent_id r \<notin> sent_id ` set ros"
    using Cons.prems [of "sent_id r"] by (auto simp: times_sent_def filter_empty_conv)
  ultimately show ?case using Cons.IH by simp
qed simp

end
