(* ===== verification/Outbox_Roundtrip.thy ===== *)
theory Outbox_Roundtrip
  imports Live_Positions
begin

text \<open>
  What \<open>reserve\<close> writes is what is read back: by \<open>get_routed\<close> and by the claims that hand an order to
  the broker, at once and after any operations of \<open>repository.py\<close>, restarts included.
\<close>

section \<open>A reserved order stays stored\<close>

definition stored_as :: "routed_request \<Rightarrow> live_repo \<Rightarrow> bool" where
  "stored_as rq s \<longleftrightarrow> (\<exists>r \<in> set (lr_orders s). row_identity r = row_identity (new_order_row rq 0))"

lemma same_keys_sym: "same_keys rs rs' \<Longrightarrow> same_keys rs' rs"
  by (simp add: same_keys_def)

lemma stored_as_step: "stored_as rq s \<Longrightarrow> stored_as rq (repo_step s x)"
proof (cases "\<exists>rq' now. x = Reserve rq' now")
  case True
  then obtain rq' now where x: "x = Reserve rq' now" by blast
  assume "stored_as rq s"
  with reserve_tables [of rq' now s] x show ?thesis by (auto simp: stored_as_def reserve_insert_def)
next
  case False
  assume "stored_as rq s"
  moreover from False have "same_keys (lr_orders (repo_step s x)) (lr_orders s)"
    by (blast intro: same_keys_sym repo_step_keys)
  ultimately show ?thesis unfolding stored_as_def by (metis same_keysD)
qed

interpretation stored: step_invariant repo_step "stored_as rq" for rq
  by unfold_locales (rule stored_as_step)

text \<open>The stored row is the only one of its client order id, and reading it gives the reserved
  request and target.\<close>

lemma stored_row:
  assumes "store_ok s" "stored_as rq s" "r \<in> set (lr_orders s)"
    and "or_client_order_id r = req_client_order_id (rq_request rq)"
  shows "row_identity r = row_identity (new_order_row rq 0)"
proof -
  obtain q where q: "q \<in> set (lr_orders s)" "row_identity q = row_identity (new_order_row rq 0)"
    using assms(2) by (auto simp: stored_as_def)
  then have "or_client_order_id q = or_client_order_id r"
    using assms(4) by (simp add: row_identity_def new_order_row_def)
  with assms(1,3) q(1) have "q = r" by (auto simp: store_ok_def rows_ok_def dest: distinct_key_inj)
  with q(2) show ?thesis by simp
qed

lemma stored_find:
  assumes "store_ok s" "stored_as rq s"
  obtains r where "find (\<lambda>r. or_owner r = req_owner_id (rq_request rq)
      \<and> or_client_order_id r = req_client_order_id (rq_request rq)) (lr_orders s) = Some r"
    "row_identity r = row_identity (new_order_row rq 0)"
proof -
  let ?p = "\<lambda>r. or_owner r = req_owner_id (rq_request rq) \<and> or_client_order_id r = req_client_order_id (rq_request rq)"
  have "\<exists>r \<in> set (lr_orders s). ?p r"
    using assms(2) by (auto simp: stored_as_def row_identity_def new_order_row_def)
  then obtain r where r: "find ?p (lr_orders s) = Some r"
    by (cases "find ?p (lr_orders s)") (auto simp: find_None_iff)
  then have "r \<in> set (lr_orders s)" "?p r" by (auto dest: find_SomeD)
  with stored_row [OF assms, of r] r that show thesis by blast
qed

lemma target_read:
  assumes "row_identity r = row_identity (new_order_row rq t)" "target_of_row r = Inr (Some a)"
    and "mk_account_ref (broker_name (rq_target rq)) (account_id (rq_target rq)) = Inr (rq_target rq)"
  shows "a = rq_target rq"
  using assms by (simp add: row_identity_def new_order_row_def target_of_row_def)

lemma routed_read:
  assumes "row_identity r = row_identity (new_order_row rq t)" "routed_of_row r = Inr ro"
    and "mk_account_ref (broker_name (rq_target rq)) (account_id (rq_target rq)) = Inr (rq_target rq)"
  shows "ro_target ro = rq_target rq \<and> bo_request (ro_order ro) = rq_request rq"
proof -
  have "or_request r = rq_request rq" using assms(1) by (simp add: row_identity_def new_order_row_def)
  moreover obtain a where a: "target_of_row r = Inr (Some a)" "ro_target ro = a"
    using assms(2) by (auto simp: routed_of_row_def mk_routed_order_def split: sum.splits option.splits if_splits)
  ultimately show ?thesis
    using routed_of_row_request [OF assms(2)] target_read [OF assms(1) a(1) assms(3)] by simp
qed

section \<open>A reservation\<close>

lemma reservation_created:
  assumes "reserve rq now s = (Inr (b, True), s1)"
  shows "s1 = reserve_insert rq now s \<and> find (\<lambda>r. or_client_order_id r = req_client_order_id (rq_request rq)) (lr_orders s) = None
    \<and> order_of_row (new_order_row rq now) = Inr b
    \<and> target_of_row (new_order_row rq now) = Inr (Some (rq_target rq)) \<and> req_mode (rq_request rq) = Live"
proof -
  let ?p = "\<lambda>r. or_client_order_id r = req_client_order_id (rq_request rq)"
  have f: "find ?p (lr_orders s) = None"
    using assms by (auto simp: reserve_def Let_def split: sum.splits option.splits if_splits)
  then have g: "find ?p (lr_orders (reserve_insert rq now s)) = Some (new_order_row rq now)"
    by (simp add: reserve_insert_def find_append) (simp add: new_order_row_def)
  with f assms have "s1 = reserve_insert rq now s"
    by (auto simp: reserve_def Let_def split: sum.splits option.splits if_splits)
  with f g reserve_row [OF assms] show ?thesis by auto
qed

lemma target_canonical:
  assumes "target_of_row (new_order_row rq now) = Inr (Some (rq_target rq))"
  shows "mk_account_ref (broker_name (rq_target rq)) (account_id (rq_target rq)) = Inr (rq_target rq)"
  using assms by (auto simp: target_of_row_def new_order_row_def split: sum.splits)

lemma get_routed_row:
  assumes "find (\<lambda>r. or_owner r = owner \<and> or_client_order_id r = cid) (lr_orders s) = Some r"
    and "target_of_row r = Inr (Some t)"
  shows "get_routed owner cid s = map_sum id Some (routed_of_row r)"
  using assms by (auto simp: get_routed_def routed_of_row_def split: sum.splits)

lemma claim_row:
  assumes "fst (claim_next t clk s) = Inr (Some ro) \<or> fst (claim_next_cancel t clk s) = Inr (Some ro)"
  shows "\<exists>r \<in> set (lr_orders s). routed_of_row r = Inr ro"
  using assms by (auto simp: claim_next_def claim_next_cancel_def Let_def claim_candidates_def cancel_candidates_def
      split: option.splits sum.splits if_splits dest!: first_by_SomeD)

lemma reserved_now:
  assumes "reserve rq now s = (Inr (b, True), s1)"
  shows "get_routed (req_owner_id (rq_request rq)) (req_client_order_id (rq_request rq)) s1
      = Inr (Some \<lparr>ro_target = rq_target rq, ro_order = b\<rparr>)
    \<and> bo_request b = rq_request rq \<and> bo_status b = RISK_APPROVED \<and> bo_updated_at b = now"
proof -
  note c = reservation_created [OF assms]
  let ?p = "\<lambda>r. or_owner r = req_owner_id (rq_request rq) \<and> or_client_order_id r = req_client_order_id (rq_request rq)"
  have "find ?p (lr_orders s) = None" using c by (auto simp: find_None_iff)
  then have f: "find ?p (lr_orders s1) = Some (new_order_row rq now)"
    using c by (simp add: reserve_insert_def find_append) (simp add: new_order_row_def)
  have b: "bo_request b = rq_request rq \<and> bo_status b = RISK_APPROVED \<and> bo_updated_at b = now"
    using c order_of_row_request [of "new_order_row rq now" b]
    by (auto simp: order_of_row_def new_order_row_def split: sum.splits dest!: order_post_init_same)
  with c get_routed_row [OF f] show ?thesis by (auto simp: routed_of_row_def mk_routed_order_def)
qed

text \<open>At any later time.\<close>

lemma stored_read:
  assumes "store_ok s" "stored_as rq s"
    and m: "mk_account_ref (broker_name (rq_target rq)) (account_id (rq_target rq)) = Inr (rq_target rq)"
    and ro: "get_routed (req_owner_id (rq_request rq)) (req_client_order_id (rq_request rq)) s = Inr (Some ro)
      \<or> (\<exists>t clk. fst (claim_next t clk s) = Inr (Some ro) \<or> fst (claim_next_cancel t clk s) = Inr (Some ro))
        \<and> req_client_order_id (bo_request (ro_order ro)) = req_client_order_id (rq_request rq)"
  shows "ro_target ro = rq_target rq \<and> bo_request (ro_order ro) = rq_request rq"
proof -
  obtain r where r: "row_identity r = row_identity (new_order_row rq 0)" "routed_of_row r = Inr ro"
    using ro
  proof
    assume g: "get_routed (req_owner_id (rq_request rq)) (req_client_order_id (rq_request rq)) s = Inr (Some ro)"
    obtain r where f: "find (\<lambda>r. or_owner r = req_owner_id (rq_request rq)
        \<and> or_client_order_id r = req_client_order_id (rq_request rq)) (lr_orders s) = Some r"
      "row_identity r = row_identity (new_order_row rq 0)" by (rule stored_find [OF assms(1,2)])
    then obtain t where "target_of_row r = Inr (Some t)"
      using g by (auto simp: get_routed_def split: sum.splits option.splits)
    from get_routed_row [OF f(1) this] g have "routed_of_row r = Inr ro"
      by (cases "routed_of_row r") auto
    with f(2) show thesis by (rule that)
  next
    assume h: "(\<exists>t clk. fst (claim_next t clk s) = Inr (Some ro) \<or> fst (claim_next_cancel t clk s) = Inr (Some ro))
        \<and> req_client_order_id (bo_request (ro_order ro)) = req_client_order_id (rq_request rq)"
    then obtain r where r: "r \<in> set (lr_orders s)" "routed_of_row r = Inr ro" using claim_row by blast
    with assms(1) h have "or_client_order_id r = req_client_order_id (rq_request rq)"
      by (auto simp: store_ok_def rows_ok_def dest!: routed_of_row_request)
    from stored_row [OF assms(1,2) r(1) this] r(2) show thesis by (rule that)
  qed
  from routed_read [OF this m] show ?thesis .
qed

lemma stored_never_lost:
  assumes "store_ok s" "stored_as rq s"
    and m: "mk_account_ref (broker_name (rq_target rq)) (account_id (rq_target rq)) = Inr (rq_target rq)"
  shows "get_routed (req_owner_id (rq_request rq)) (req_client_order_id (rq_request rq)) s \<noteq> Inr None"
proof -
  obtain r where f: "find (\<lambda>r. or_owner r = req_owner_id (rq_request rq)
      \<and> or_client_order_id r = req_client_order_id (rq_request rq)) (lr_orders s) = Some r"
    "row_identity r = row_identity (new_order_row rq 0)" by (rule stored_find [OF assms(1,2)])
  then have "target_of_row r = Inr (Some (rq_target rq))"
    using m by (simp add: row_identity_def new_order_row_def target_of_row_def)
  from get_routed_row [OF f(1) this] show ?thesis by (cases "routed_of_row r") auto
qed



end
