(* ===== verification/Events.thy ===== *)
theory Events
  imports Broker_Models
begin

text \<open>
  The typed events of replay and simulation (\<open>events/models.py\<close>): one record per frozen
  dataclass, with its \<open>__post_init__\<close> as a checking constructor, and the deterministic event
  identifiers.

  A \<open>date\<close> is a day number.  \<open>hashing\<close> carries the text functions an identifier is built
  with: the hexadecimal SHA-256 of a text, the ISO form of a time with microseconds and the text
  of a float; nothing here depends on what texts they return.  Fields with a single admissible literal
  (\<open>order_type = "market"\<close>, \<open>status = "rejected"\<close>, \<open>kind\<close>) are not stored.
\<close>

type_synonym date = int

record hashing =
  sha256_hex :: "string \<Rightarrow> string"
  iso_micros :: "instant \<Rightarrow> string"
  float_text :: "rat \<Rightarrow> string"

datatype event_kind = KMarket | KBarClosed | KSignal | KOrderIntent | KOrderStatus
  | KRiskDecision | KFill | KPosition | KSession

definition kind_value :: "event_kind \<Rightarrow> string" where
  "kind_value k = (case k of KMarket \<Rightarrow> ''market'' | KBarClosed \<Rightarrow> ''bar_closed''
     | KSignal \<Rightarrow> ''signal'' | KOrderIntent \<Rightarrow> ''order_intent'' | KOrderStatus \<Rightarrow> ''order_status''
     | KRiskDecision \<Rightarrow> ''risk_decision'' | KFill \<Rightarrow> ''fill'' | KPosition \<Rightarrow> ''position''
     | KSession \<Rightarrow> ''session'')"

datatype signal_direction = LongSide | ShortSide
datatype signal_action = EnterAct | ExitAct
datatype bar_session = DayBar | NightBar
datatype session_action = SessOpened | SessClosing | SessClosed
datatype execution_timing = NextBarOpen | CurrentClose | SignalPrice | BarTrigger
datatype order_source = ManualOrder | StrategyAuto
datatype risk_phase = InitialPhase | PrefillPhase

definition timing_value :: "execution_timing \<Rightarrow> string" where
  "timing_value t = (case t of NextBarOpen \<Rightarrow> ''next_bar_open'' | CurrentClose \<Rightarrow> ''current_close''
     | SignalPrice \<Rightarrow> ''signal_price'' | BarTrigger \<Rightarrow> ''bar_trigger'')"

section \<open>Metadata\<close>

record event_meta =
  em_id :: string
  em_at :: instant
  em_source :: string
  em_correlation :: "string option"
  em_causation :: "string option"
  em_owner :: "string option"

definition deterministic_event_id :: "hashing \<Rightarrow> event_kind \<Rightarrow> instant \<Rightarrow> string \<Rightarrow> string \<Rightarrow> string res" where
  "deterministic_event_id h kind occurred src key =
     (if src = [] \<or> key = [] then Inl (ValueError ''source and source_key are required'')
      else Inr (sha256_hex h (join ''|'' [kind_value kind, iso_micros h occurred, src, key])))"

definition check_meta :: "event_meta \<Rightarrow> event_meta res" where
  "check_meta m = first_error
     [(em_id m = [] \<or> em_source m = [], ValueError ''event_id and source are required'')] m"

text \<open>\<open>EventMetadata.create\<close>.\<close>

definition create_meta :: "hashing \<Rightarrow> event_kind \<Rightarrow> instant \<Rightarrow> string \<Rightarrow> string
    \<Rightarrow> string option \<Rightarrow> string option \<Rightarrow> string option \<Rightarrow> event_meta res" where
  "create_meta h kind occurred src key correlation causation owner =
     (case deterministic_event_id h kind occurred src key of Inl e \<Rightarrow> Inl e
      | Inr i \<Rightarrow> check_meta \<lparr> em_id = i, em_at = occurred, em_source = src,
          em_correlation = py_or correlation (Some i), em_causation = causation, em_owner = owner \<rparr>)"

section \<open>The events\<close>

record market_event =
  mk_meta :: event_meta
  mk_symbol :: string
  mk_contract :: string
  mk_price :: price
  mk_volume :: int

definition check_market :: "market_event \<Rightarrow> market_event res" where
  "check_market e = first_error
     [(mk_symbol e = [] \<or> mk_contract e = [], ValueError ''symbol and contract are required''),
      (mk_price e \<le> 0, ValueError ''price must be positive''),
      (mk_volume e < 0, ValueError ''volume cannot be negative'')] e"

record bar_event =
  be_meta :: event_meta
  be_symbol :: string
  be_contract :: string
  be_timeframe :: string
  be_open :: price
  be_high :: price
  be_low :: price
  be_close :: price
  be_volume :: int
  be_session :: bar_session
  be_trading_date :: date

definition check_bar :: "bar_event \<Rightarrow> bar_event res" where
  "check_bar e = first_error
     [(be_symbol e = [] \<or> be_contract e = [] \<or> be_timeframe e = [],
         ValueError ''symbol, contract, and timeframe are required''),
      (min (min (be_open e) (be_high e)) (min (be_low e) (be_close e)) \<le> 0,
         ValueError ''OHLC prices must be positive''),
      (be_high e < max (be_open e) (be_close e) \<or> be_low e > min (be_open e) (be_close e),
         ValueError ''invalid OHLC range''),
      (be_volume e < 0, ValueError ''volume cannot be negative'')] e"

record signal_event =
  sg_meta :: event_meta
  sg_strategy :: string
  sg_version :: int
  sg_symbol :: string
  sg_contract :: string
  sg_direction :: signal_direction
  sg_action :: signal_action
  sg_reference_price :: price
  sg_reason :: string
  sg_stop_loss_price :: "price option"
  sg_trading_date :: "date option"

definition not_positive :: "price option \<Rightarrow> bool" where
  "not_positive p = (case p of None \<Rightarrow> False | Some v \<Rightarrow> v \<le> 0)"

definition check_signal :: "signal_event \<Rightarrow> signal_event res" where
  "check_signal e = first_error
     [(sg_strategy e = [] \<or> sg_symbol e = [] \<or> sg_contract e = [],
         ValueError ''strategy_id, symbol, and contract are required''),
      (sg_version e < 1, ValueError ''strategy_id and positive strategy_version are required''),
      (sg_reference_price e \<le> 0, ValueError ''reference_price must be positive''),
      (not_positive (sg_stop_loss_price e), ValueError ''stop_loss_price must be positive when provided'')] e"

type_synonym strategy_snapshot = "(string \<times> json_value) list option"

record order_intent =
  oi_meta :: event_meta
  oi_order_id :: string
  oi_strategy :: string
  oi_version :: int
  oi_symbol :: string
  oi_contract :: string
  oi_side :: order_side
  oi_quantity :: int
  oi_purpose :: order_purpose
  oi_timing :: execution_timing
  oi_reduce_only :: bool
  oi_reason :: string
  oi_reference_price :: price
  oi_stop_loss_price :: "price option"
  oi_stop_loss_pct :: "rat option"
  oi_take_profit_pct :: "rat option"
  oi_snapshot :: strategy_snapshot
  oi_trading_date :: "date option"
  oi_client_order_id :: "string option"
  oi_source :: order_source
  oi_runtime :: "string option"
  oi_decision :: "string option"

definition not_fraction :: "rat option \<Rightarrow> bool" where
  "not_fraction p = (case p of None \<Rightarrow> False | Some v \<Rightarrow> \<not> (0 < v \<and> v < 1))"

definition check_order :: "order_intent \<Rightarrow> order_intent res" where
  "check_order e = first_error
     [(oi_order_id e = [] \<or> oi_strategy e = [] \<or> oi_symbol e = [] \<or> oi_contract e = [],
         ValueError ''order_id, strategy_id, symbol, and contract are required''),
      (oi_version e < 1 \<or> oi_quantity e \<le> 0,
         ValueError ''strategy_version and quantity must be positive''),
      (oi_reason e = [], ValueError ''reason is required''),
      (oi_reference_price e < 0, ValueError ''reference_price cannot be negative''),
      (not_positive (oi_stop_loss_price e), ValueError ''stop_loss_price must be positive when provided''),
      (not_fraction (oi_stop_loss_pct e), ValueError ''stop_loss_pct must be between 0 and 1 when provided''),
      (not_fraction (oi_take_profit_pct e), ValueError ''take_profit_pct must be between 0 and 1 when provided''),
      (oi_timing e = BarTrigger \<and> \<not> (oi_reduce_only e \<and> oi_source e = StrategyAuto),
         ValueError ''bar_trigger execution is reserved for strategy_auto reduce-only orders''),
      ((case oi_client_order_id e of None \<Rightarrow> False | Some c \<Rightarrow> blank c \<or> 128 < length c),
         ValueError ''client_order_id must contain 1 to 128 characters''),
      (oi_source e = StrategyAuto \<and> \<not> (truthy (oi_runtime e) \<and> truthy (oi_decision e)),
         ValueError ''strategy_auto orders require runtime_id and decision_id'')] e"

record order_status_event =
  os_meta :: event_meta
  os_order_id :: string
  os_reason :: string

definition check_order_status :: "order_status_event \<Rightarrow> order_status_event res" where
  "check_order_status e = first_error
     [(os_order_id e = [] \<or> os_reason e = [], ValueError ''order_id and reason are required'')] e"

record risk_decision =
  rd_meta :: event_meta
  rd_order_id :: string
  rd_approved :: bool
  rd_approved_quantity :: int
  rd_reason :: string
  rd_estimated_risk :: "rat option"
  rd_reference_price :: "price option"
  rd_phase :: risk_phase

definition check_risk_decision :: "risk_decision \<Rightarrow> risk_decision res" where
  "check_risk_decision e = first_error
     [(rd_order_id e = [] \<or> rd_reason e = [], ValueError ''order_id and reason are required''),
      (rd_approved_quantity e < 0, ValueError ''approved_quantity cannot be negative''),
      (rd_approved e \<and> rd_approved_quantity e = 0,
         ValueError ''approved decisions require a positive quantity''),
      (\<not> rd_approved e \<and> rd_approved_quantity e \<noteq> 0,
         ValueError ''rejected decisions must have zero quantity''),
      ((case rd_estimated_risk e of None \<Rightarrow> False | Some v \<Rightarrow> v < 0),
         ValueError ''estimated_risk cannot be negative''),
      (not_positive (rd_reference_price e), ValueError ''reference_price must be positive when provided'')] e"

record fill_event =
  fe_meta :: event_meta
  fe_fill_id :: string
  fe_order_id :: string
  fe_strategy :: string
  fe_version :: int
  fe_symbol :: string
  fe_contract :: string
  fe_side :: order_side
  fe_quantity :: int
  fe_price :: price
  fe_commission :: rat
  fe_tax :: rat
  fe_slippage :: rat
  fe_purpose :: order_purpose
  fe_reason :: string
  fe_trading_date :: "date option"
  fe_source :: order_source
  fe_runtime :: "string option"
  fe_decision :: "string option"
  fe_stop_loss_price :: "price option"
  fe_take_profit_price :: "price option"
  fe_snapshot :: strategy_snapshot

definition check_fill :: "fill_event \<Rightarrow> fill_event res" where
  "check_fill e = first_error
     [(fe_fill_id e = [] \<or> fe_order_id e = [] \<or> fe_strategy e = [],
         ValueError ''fill_id, order_id, and strategy_id are required''),
      (fe_version e < 1, ValueError ''strategy_version must be positive''),
      (fe_quantity e \<le> 0 \<or> fe_price e \<le> 0, ValueError ''quantity and price must be positive''),
      (min (fe_commission e) (min (fe_tax e) (fe_slippage e)) < 0,
         ValueError ''fill costs cannot be negative''),
      (not_positive (fe_stop_loss_price e), ValueError ''stop_loss_price must be positive when provided''),
      (not_positive (fe_take_profit_price e),
         ValueError ''take_profit_price must be positive when provided'')] e"

record position_event =
  pe_meta :: event_meta
  pe_strategy :: string
  pe_version :: int
  pe_symbol :: string
  pe_contract :: string
  pe_quantity :: int
  pe_average_price :: price
  pe_realized_pnl :: rat
  pe_unrealized_pnl :: rat
  pe_total_cost :: rat
  pe_source :: order_source
  pe_runtime :: "string option"
  pe_decision :: "string option"
  pe_entry_fill_price :: "price option"
  pe_stop_loss_price :: "price option"
  pe_take_profit_price :: "price option"
  pe_snapshot :: strategy_snapshot

definition check_position :: "position_event \<Rightarrow> position_event res" where
  "check_position e = first_error
     [(pe_strategy e = [] \<or> pe_symbol e = [] \<or> pe_contract e = [],
         ValueError ''strategy_id, symbol, and contract are required''),
      (pe_version e < 1, ValueError ''strategy_version must be positive''),
      (pe_quantity e \<noteq> 0 \<and> pe_average_price e \<le> 0,
         ValueError ''open positions require a positive average_price''),
      (pe_quantity e = 0 \<and> pe_average_price e \<noteq> 0,
         ValueError ''flat positions must have zero average_price''),
      (pe_total_cost e < 0, ValueError ''total_cost cannot be negative''),
      (not_positive (pe_entry_fill_price e), ValueError ''entry_fill_price must be positive when provided''),
      (not_positive (pe_stop_loss_price e), ValueError ''stop_loss_price must be positive when provided''),
      (not_positive (pe_take_profit_price e),
         ValueError ''take_profit_price must be positive when provided'')] e"

record session_event =
  se_meta :: event_meta
  se_symbol :: string
  se_contract :: string
  se_session :: bar_session
  se_trading_date :: date
  se_action :: session_action

definition check_session :: "session_event \<Rightarrow> session_event res" where
  "check_session e = first_error
     [(se_symbol e = [] \<or> se_contract e = [], ValueError ''symbol and contract are required'')] e"

text \<open>\<open>DomainEvent\<close>.\<close>

datatype domain_event = EvMarket market_event | EvBar bar_event | EvSignal signal_event
  | EvOrder order_intent | EvStatus order_status_event | EvRisk risk_decision
  | EvFill fill_event | EvPosition position_event | EvSession session_event

fun event_kind_of :: "domain_event \<Rightarrow> event_kind" where
  "event_kind_of (EvMarket _) = KMarket" | "event_kind_of (EvBar _) = KBarClosed"
| "event_kind_of (EvSignal _) = KSignal" | "event_kind_of (EvOrder _) = KOrderIntent"
| "event_kind_of (EvStatus _) = KOrderStatus" | "event_kind_of (EvRisk _) = KRiskDecision"
| "event_kind_of (EvFill _) = KFill" | "event_kind_of (EvPosition _) = KPosition"
| "event_kind_of (EvSession _) = KSession"

fun event_meta_of :: "domain_event \<Rightarrow> event_meta" where
  "event_meta_of (EvMarket e) = mk_meta e" | "event_meta_of (EvBar e) = be_meta e"
| "event_meta_of (EvSignal e) = sg_meta e" | "event_meta_of (EvOrder e) = oi_meta e"
| "event_meta_of (EvStatus e) = os_meta e" | "event_meta_of (EvRisk e) = rd_meta e"
| "event_meta_of (EvFill e) = fe_meta e" | "event_meta_of (EvPosition e) = pe_meta e"
| "event_meta_of (EvSession e) = se_meta e"

abbreviation event_id_of :: "domain_event \<Rightarrow> string" where
  "event_id_of e \<equiv> em_id (event_meta_of e)"

abbreviation event_at :: "domain_event \<Rightarrow> instant" where
  "event_at e \<equiv> em_at (event_meta_of e)"

text \<open>What the constructors guarantee of a value they return.\<close>

lemma create_meta_Inr: "create_meta h kind occurred src key correlation causation owner = Inr m \<Longrightarrow>
    m = \<lparr> em_id = sha256_hex h (join ''|'' [kind_value kind, iso_micros h occurred, src, key]),
          em_at = occurred, em_source = src,
          em_correlation = py_or correlation (Some (sha256_hex h (join ''|'' [kind_value kind, iso_micros h occurred, src, key]))),
          em_causation = causation, em_owner = owner \<rparr> \<and> src \<noteq> [] \<and> key \<noteq> [] \<and> em_id m \<noteq> []"
  by (auto simp: create_meta_def deterministic_event_id_def check_meta_def first_error_Inr
      split: sum.splits if_splits)

lemma check_risk_decision_Inr: "check_risk_decision d = Inr d' \<Longrightarrow>
    d' = d \<and> 0 \<le> rd_approved_quantity d \<and> (rd_approved d \<longleftrightarrow> 0 < rd_approved_quantity d)"
  by (auto simp: check_risk_decision_def first_error_Inr)

lemma check_fill_Inr: "check_fill f = Inr f' \<Longrightarrow>
    f' = f \<and> 0 < fe_quantity f \<and> 0 < fe_price f \<and> 0 \<le> fe_commission f \<and> 0 \<le> fe_tax f"
  by (auto simp: check_fill_def first_error_Inr)

lemma check_order_Inr: "check_order e = Inr e' \<Longrightarrow> e' = e \<and> 0 < oi_quantity e"
  by (auto simp: check_order_def first_error_Inr)

text \<open>An instance for the witnesses.\<close>

definition sample_hashing :: hashing where
  "sample_hashing = \<lparr> sha256_hex = (\<lambda>s. s), iso_micros = show_int,
     float_text = (\<lambda>x. show_int \<lfloor>x\<rfloor>) \<rparr>"

end
