(* ===== verification/Event_Engine.thy ===== *)
theory Event_Engine
  imports Events "HOL-Library.Multiset"
begin

text \<open>
  The deterministic event loop (\<open>events/engine.py\<close>, \<open>events/clock.py\<close>): a queue ordered by event
  time and enqueue sequence, handlers that run in registration order and may emit further
  events, identifiers that are processed once, and an event limit.

  The handlers are closures over the components they belong to; \<open>'w\<close> is the joint state of those
  components, which the engine carries and the handlers change.  The loop is a total function:
  every iteration either processes an event, of which there are at most \<open>max_events\<close> per run, or
  drops a duplicate from the queue.
\<close>

section \<open>The queue\<close>

text \<open>Entries are \<open>(timestamp, enqueue_sequence, event)\<close>; a sequence number is used once, so events
  themselves are never compared.\<close>

type_synonym queue_entry = "instant \<times> nat \<times> domain_event"

definition entry_key :: "queue_entry \<Rightarrow> instant \<times> nat" where
  "entry_key x = (fst x, fst (snd x))"

abbreviation entry_event :: "queue_entry \<Rightarrow> domain_event" where
  "entry_event x \<equiv> snd (snd x)"

definition entry_less :: "queue_entry \<Rightarrow> queue_entry \<Rightarrow> bool" where
  "entry_less x y \<longleftrightarrow> fst x < fst y \<or> fst x = fst y \<and> fst (snd x) < fst (snd y)"

fun heappush :: "queue_entry \<Rightarrow> queue_entry list \<Rightarrow> queue_entry list" where
  "heappush x [] = [x]"
| "heappush x (y # ys) = (if entry_less x y then x # y # ys else y # heappush x ys)"

fun heappop :: "queue_entry list \<Rightarrow> (queue_entry \<times> queue_entry list) option" where
  "heappop [] = None"
| "heappop (x # xs) = Some (x, xs)"

definition entries_sorted :: "queue_entry list \<Rightarrow> bool" where
  "entries_sorted q = sorted_wrt entry_less q"

text \<open>The contract of a priority queue, over the multiset of its entries.\<close>

locale min_queue =
  fixes less :: "'e \<Rightarrow> 'e \<Rightarrow> bool"
    and push :: "'e \<Rightarrow> 'q \<Rightarrow> 'q"
    and pop :: "'q \<Rightarrow> ('e \<times> 'q) option"
    and items :: "'q \<Rightarrow> 'e multiset"
    and invar :: "'q \<Rightarrow> bool"
  assumes less_trans: "less x y \<Longrightarrow> less y z \<Longrightarrow> less x z"
    and items_push: "items (push x q) = add_mset x (items q)"
    and invar_push: "invar q \<Longrightarrow> (\<And>y. y \<in># items q \<Longrightarrow> less x y \<or> less y x) \<Longrightarrow> invar (push x q)"
    and pop_None: "pop q = None \<longleftrightarrow> items q = {#}"
    and items_pop: "pop q = Some (x, q') \<Longrightarrow> items q = add_mset x (items q')"
    and invar_pop: "invar q \<Longrightarrow> pop q = Some (x, q') \<Longrightarrow> invar q'"
    and pop_least: "invar q \<Longrightarrow> pop q = Some (x, q') \<Longrightarrow> y \<in># items q' \<Longrightarrow> less x y"
begin

text \<open>Popping until the queue is empty.\<close>

fun drain :: "nat \<Rightarrow> 'q \<Rightarrow> 'e list" where
  "drain 0 q = []"
| "drain (Suc n) q = (case pop q of None \<Rightarrow> [] | Some (x, q') \<Rightarrow> x # drain n q')"

lemma pop_cases: obtains "pop q = None" "items q = {#}"
  | x q' where "pop q = Some (x, q')" "items q = add_mset x (items q')"
  using pop_None [of q] items_pop [of q] by (cases "pop q") auto

lemma drain_items: "size (items q) \<le> n \<Longrightarrow> mset (drain n q) = items q"
proof (induction n arbitrary: q)
  case (Suc n)
  show ?case by (rule pop_cases [of q]) (use Suc in auto)
qed simp

lemma drain_subset: "x \<in> set (drain n q) \<Longrightarrow> x \<in># items q"
proof (induction n arbitrary: q)
  case (Suc n)
  show ?case by (rule pop_cases [of q]) (use Suc in auto)
qed simp

lemma drain_sorted: "invar q \<Longrightarrow> sorted_wrt less (drain n q)"
proof (induction n arbitrary: q)
  case (Suc n)
  show ?case
  proof (rule pop_cases [of q])
    fix x q' assume p: "pop q = Some (x, q')"
    then show ?thesis
      using Suc.IH [OF invar_pop [OF Suc.prems p]] pop_least [OF Suc.prems p] drain_subset [of _ n q']
      by auto
  qed simp
qed simp

end

lemma mset_heappush: "mset (heappush x q) = add_mset x (mset q)"
  by (induction x q rule: heappush.induct) auto

lemma set_heappush [simp]: "set (heappush x q) = insert x (set q)"
  by (induction x q rule: heappush.induct) auto

lemma length_heappush [simp]: "length (heappush x q) = Suc (length q)"
  by (induction x q rule: heappush.induct) auto

lemma entry_less_trans: "entry_less x y \<Longrightarrow> entry_less y z \<Longrightarrow> entry_less x z"
  by (auto simp: entry_less_def)

lemma heappush_sorted:
  assumes "entries_sorted q" and "\<And>y. y \<in> set q \<Longrightarrow> entry_less x y \<or> entry_less y x"
  shows "entries_sorted (heappush x q)"
  using assms unfolding entries_sorted_def
  by (induction x q rule: heappush.induct) (auto intro: entry_less_trans)

lemma entry_less_total: "fst (snd x) \<noteq> fst (snd y) \<Longrightarrow> entry_less x y \<or> entry_less y x"
  by (auto simp: entry_less_def)

interpretation heapq: min_queue entry_less heappush heappop mset entries_sorted
proof unfold_locales
  show "heappop q = None \<longleftrightarrow> mset q = {#}" for q by (cases q) auto
  show "mset q = add_mset x (mset q')" if "heappop q = Some (x, q')" for q x q'
    using that by (cases q) auto
  show "entries_sorted q'" if "entries_sorted q" "heappop q = Some (x, q')" for q x q'
    using that by (cases q) (auto simp: entries_sorted_def)
  show "entry_less x y" if "entries_sorted q" "heappop q = Some (x, q')" "y \<in># mset q'" for q x q' y
    using that by (cases q) (auto simp: entries_sorted_def)
  show "entries_sorted (heappush x q)"
    if "entries_sorted q" "\<And>y. y \<in># mset q \<Longrightarrow> entry_less x y \<or> entry_less y x" for q x
    using that by (intro heappush_sorted) auto
qed (auto simp: mset_heappush intro: entry_less_trans)

section \<open>The engine\<close>

type_synonym 'w handler = "domain_event \<Rightarrow> ('w, domain_event list) prog"

record processed_event =
  pr_sequence :: nat
  pr_event :: domain_event

record 'w engine =
  en_clock :: "instant option"
  en_max_events :: int
  en_handlers :: "event_kind \<Rightarrow> 'w handler list"
  en_queue :: "queue_entry list"
  en_next_seq :: nat
  en_processed :: "string list"
  en_queued :: "string list"
  en_duplicates :: "string list"
  en_history :: "processed_event list"
  en_world :: 'w

definition new_engine :: "instant option \<Rightarrow> int \<Rightarrow> 'w \<Rightarrow> 'w engine res" where
  "new_engine clock limit w = first_error [(limit < 1, ValueError ''max_events must be positive'')]
     \<lparr> en_clock = clock, en_max_events = limit, en_handlers = (\<lambda>_. []), en_queue = [],
       en_next_seq = 0, en_processed = [], en_queued = [], en_duplicates = [], en_history = [],
       en_world = w \<rparr>"

definition subscribe :: "event_kind \<Rightarrow> 'w handler \<Rightarrow> 'w engine \<Rightarrow> 'w engine" where
  "subscribe k h s = s\<lparr>en_handlers := (en_handlers s)(k := en_handlers s k @ [h])\<rparr>"

text \<open>\<open>VirtualClock.advance_to\<close>.\<close>

definition advance_to :: "instant \<Rightarrow> ('w engine, instant) prog" where
  "advance_to v s = (case en_clock s of
       Some c \<Rightarrow> if v < c then (Inl (ValueError ''virtual clock cannot move backwards''), s)
                 else (Inr v, s\<lparr>en_clock := Some v\<rparr>)
     | None \<Rightarrow> (Inr v, s\<lparr>en_clock := Some v\<rparr>))"

definition note_duplicate :: "string \<Rightarrow> 'w engine \<Rightarrow> 'w engine" where
  "note_duplicate i s = s\<lparr>en_duplicates := en_duplicates s @ [i]\<rparr>"

definition enqueue :: "domain_event \<Rightarrow> 'w engine \<Rightarrow> 'w engine" where
  "enqueue e s = s\<lparr>en_queue := heappush (event_at e, en_next_seq s, e) (en_queue s),
     en_next_seq := en_next_seq s + 1, en_queued := event_id_of e # en_queued s\<rparr>"

definition publish :: "domain_event \<Rightarrow> ('w engine, bool) prog" where
  "publish e s =
     (if event_id_of e \<in> set (en_processed s) \<or> event_id_of e \<in> set (en_queued s)
      then (Inr False, note_duplicate (event_id_of e) s)
      else if (case en_clock s of None \<Rightarrow> False | Some c \<Rightarrow> event_at e < c)
      then (Inl (ValueError ''cannot publish an event before the virtual clock''), s)
      else (Inr True, enqueue e s))"

text \<open>The events a handler returned, published one by one.\<close>

definition emit_one :: "domain_event \<Rightarrow> domain_event \<Rightarrow> unit \<Rightarrow> ('w engine, unit) prog" where
  "emit_one cause e u s =
     (if event_at e < event_at cause
      then (Inl (ValueError (''handler emitted an event before its cause: '' @ event_id_of e)), s)
      else and_then (publish e) (\<lambda>_. give ()) s)"

definition call_handler :: "domain_event \<Rightarrow> 'w handler \<Rightarrow> unit \<Rightarrow> ('w engine, unit) prog" where
  "call_handler e h u s = (case h e (en_world s) of
       (Inl err, w) \<Rightarrow> (Inl err, s\<lparr>en_world := w\<rparr>)
     | (Inr emitted, w) \<Rightarrow> fold_prog (emit_one e) emitted () (s\<lparr>en_world := w\<rparr>))"

definition record_processed :: "domain_event \<Rightarrow> 'w engine \<Rightarrow> 'w engine" where
  "record_processed e s = s\<lparr>en_processed := event_id_of e # en_processed s,
     en_history := en_history s @ [\<lparr> pr_sequence = length (en_history s) + 1, pr_event = e \<rparr>]\<rparr>"

text \<open>One event taken off the queue: the clock, the record, the handlers.\<close>

definition process_event :: "domain_event \<Rightarrow> ('w engine, processed_event) prog" where
  "process_event e s =
     and_then (advance_to (event_at e)) (\<lambda>_ s.
       (case fold_prog (call_handler e) (en_handlers s (event_kind_of e)) () (record_processed e s) of
          (Inl err, s') \<Rightarrow> (Inl err, s')
        | (Inr _, s') \<Rightarrow> (Inr \<lparr> pr_sequence = length (en_history s) + 1, pr_event = e \<rparr>, s'))) s"

definition dequeue :: "queue_entry list \<Rightarrow> string \<Rightarrow> 'w engine \<Rightarrow> 'w engine" where
  "dequeue q i s = s\<lparr>en_queue := q, en_queued := removeAll i (en_queued s)\<rparr>"

text \<open>What handling an event leaves alone.\<close>

lemma publish_frame: "publish e s = (r, s') \<Longrightarrow>
    en_max_events s' = en_max_events s \<and> en_handlers s' = en_handlers s \<and> en_clock s' = en_clock s
    \<and> en_history s' = en_history s \<and> en_processed s' = en_processed s \<and> en_world s' = en_world s"
  by (auto simp: publish_def note_duplicate_def enqueue_def split: if_splits)

definition handling_frame :: "'w engine \<Rightarrow> 'w engine \<Rightarrow> bool" where
  "handling_frame s s' \<longleftrightarrow> en_max_events s' = en_max_events s \<and> en_handlers s' = en_handlers s
     \<and> en_clock s' = en_clock s \<and> en_history s' = en_history s \<and> en_processed s' = en_processed s"

lemma handling_frame_refl [simp]: "handling_frame s s"
  by (simp add: handling_frame_def)

lemma handling_frame_trans: "handling_frame a b \<Longrightarrow> handling_frame b c \<Longrightarrow> handling_frame a c"
  by (simp add: handling_frame_def)

lemma handling_frame_world [simp]: "handling_frame s (s\<lparr>en_world := w\<rparr>)"
  by (simp add: handling_frame_def)

lemma emit_one_frame: "emit_one c e u s = (r, s') \<Longrightarrow> handling_frame s s'"
  by (auto simp: emit_one_def and_then_def handling_frame_def split: if_splits prod.splits sum.splits
      dest: publish_frame)

lemma call_handler_frame: "call_handler e h u s = (r, s') \<Longrightarrow> handling_frame s s'"
proof -
  assume a: "call_handler e h u s = (r, s')"
  obtain q w where h: "h e (en_world s) = (q, w)" by fastforce
  show ?thesis
  proof (cases q)
    case (Inr es)
    with a h have "fold_prog (emit_one e) es () (s\<lparr>en_world := w\<rparr>) = (r, s')"
      by (simp add: call_handler_def)
    from fold_prog_rel [where rel = handling_frame, OF emit_one_frame handling_frame_refl
        handling_frame_trans this]
    have "handling_frame (s\<lparr>en_world := w\<rparr>) s'" .
    then show ?thesis by (rule handling_frame_trans [OF handling_frame_world])
  qed (use a h in \<open>auto simp: call_handler_def\<close>)
qed

lemma handlers_frame: "fold_prog (call_handler e) hs u s = (r, s') \<Longrightarrow> handling_frame s s'"
  by (rule fold_prog_rel [where rel = handling_frame, OF call_handler_frame handling_frame_refl
        handling_frame_trans])

lemma advance_to_cases: "advance_to v s = (r, s') \<Longrightarrow>
    (\<exists>e. r = Inl e \<and> s' = s) \<or> (r = Inr v \<and> s' = s\<lparr>en_clock := Some v\<rparr>)"
  by (auto simp: advance_to_def split: option.splits if_splits)

lemma process_event_max: "process_event e s = (r, s') \<Longrightarrow> en_max_events s' = en_max_events s"
proof -
  assume a: "process_event e s = (r, s')"
  obtain q t where q: "advance_to (event_at e) s = (q, t)" by fastforce
  obtain q2 t2 where q2: "fold_prog (call_handler e) (en_handlers t (event_kind_of e)) () (record_processed e t) = (q2, t2)"
    by fastforce
  have "en_max_events t = en_max_events s" using advance_to_cases [OF q] by auto
  moreover have "en_max_events t2 = en_max_events t"
    using handlers_frame [OF q2] by (simp add: handling_frame_def record_processed_def)
  ultimately show ?thesis using a q q2
    by (auto simp: process_event_def and_then_def split: sum.splits prod.splits)
qed

definition limit_exceeded :: "int \<Rightarrow> err" where
  "limit_exceeded n = RuntimeError (''event limit exceeded ('' @ show_int n @ '')'')"

function engine_loop :: "processed_event list \<Rightarrow> ('w engine, processed_event list) prog" where
  "engine_loop acc s = (case heappop (en_queue s) of
      None \<Rightarrow> (Inr acc, s)
    | Some (x, q) \<Rightarrow>
        let e = entry_event x; i = event_id_of e in
        if en_max_events s \<le> int (length acc)
        then (Inl (limit_exceeded (en_max_events s)), s)
        else if i \<notin> set (en_queued s) then (Inl (KeyError i), s\<lparr>en_queue := q\<rparr>)
        else if i \<in> set (en_processed s) then engine_loop acc (note_duplicate i (dequeue q i s))
        else (case process_event e (dequeue q i s) of
            (Inl err, s') \<Rightarrow> (Inl err, s')
          | (Inr pe, s') \<Rightarrow> engine_loop (acc @ [pe]) s'))"
  by pat_completeness auto

lemma heappop_length: "heappop q = Some (x, q') \<Longrightarrow> length q = Suc (length q')"
  by (cases q) auto

termination engine_loop
  apply (relation "measures [\<lambda>(acc, s). nat (en_max_events s - int (length acc)), \<lambda>(acc, s). length (en_queue s)]")
  apply (auto simp: note_duplicate_def dequeue_def dest: heappop_length process_event_max [OF sym])
  done

declare engine_loop.simps [simp del]

record engine_run =
  er_processed :: "processed_event list"
  er_duplicates :: "string list"

text \<open>\<open>DeterministicEventEngine.run\<close>.\<close>

definition engine_run_all :: "('w engine, engine_run) prog" where
  "engine_run_all s = (case engine_loop [] s of
      (Inl e, s') \<Rightarrow> (Inl e, s')
    | (Inr pes, s') \<Rightarrow> (Inr \<lparr> er_processed = pes, er_duplicates = en_duplicates s' \<rparr>, s'))"

definition history_events :: "'w engine \<Rightarrow> domain_event list" where
  "history_events s = map pr_event (en_history s)"

definition history_of_kind :: "event_kind option \<Rightarrow> 'w engine \<Rightarrow> processed_event list" where
  "history_of_kind k s = (case k of None \<Rightarrow> en_history s
     | Some k \<Rightarrow> filter (\<lambda>r. event_kind_of (pr_event r) = k) (en_history s))"

section \<open>The engine's invariant\<close>

definition clock_reached :: "'w engine \<Rightarrow> instant \<Rightarrow> bool" where
  "clock_reached s t \<longleftrightarrow> (case en_clock s of None \<Rightarrow> False | Some c \<Rightarrow> t \<le> c)"

definition not_before_clock :: "'w engine \<Rightarrow> instant \<Rightarrow> bool" where
  "not_before_clock s t \<longleftrightarrow> (case en_clock s of None \<Rightarrow> True | Some c \<Rightarrow> c \<le> t)"

definition queue_wf :: "'w engine \<Rightarrow> bool" where
  "queue_wf s \<longleftrightarrow> entries_sorted (en_queue s)
     \<and> (\<forall>x \<in> set (en_queue s). fst x = event_at (entry_event x) \<and> fst (snd x) < en_next_seq s
          \<and> not_before_clock s (fst x))
     \<and> distinct (map (\<lambda>x. event_id_of (entry_event x)) (en_queue s))
     \<and> set (en_queued s) = (\<lambda>x. event_id_of (entry_event x)) ` set (en_queue s)
     \<and> set (en_queued s) \<inter> set (en_processed s) = {}"

definition history_wf :: "'w engine \<Rightarrow> bool" where
  "history_wf s \<longleftrightarrow> en_processed s = rev (map event_id_of (history_events s))
     \<and> distinct (en_processed s)
     \<and> sorted (map event_at (history_events s))
     \<and> (\<forall>e \<in> set (history_events s). clock_reached s (event_at e))
     \<and> map pr_sequence (en_history s) = [1..<Suc (length (en_history s))]"

definition engine_wf :: "'w engine \<Rightarrow> bool" where
  "engine_wf s \<longleftrightarrow> queue_wf s \<and> history_wf s"

lemma new_engine_wf: "new_engine c limit w = Inr s \<Longrightarrow> engine_wf s"
  by (auto simp: new_engine_def first_error_Inr engine_wf_def queue_wf_def history_wf_def
      history_events_def entries_sorted_def)

lemma queue_wf_subscribe [simp]: "queue_wf (subscribe k h s) = queue_wf s"
  by (simp add: queue_wf_def not_before_clock_def subscribe_def)

lemma history_wf_subscribe [simp]: "history_wf (subscribe k h s) = history_wf s"
  by (simp add: history_wf_def history_events_def clock_reached_def subscribe_def)

lemma subscribe_wf: "engine_wf s \<Longrightarrow> engine_wf (subscribe k h s)"
  by (simp add: engine_wf_def)

lemma history_wf_frame: "handling_frame s s' \<Longrightarrow> history_wf s' = history_wf s"
  by (simp add: handling_frame_def history_wf_def history_events_def clock_reached_def)

lemma queue_wf_world [simp]: "queue_wf (s\<lparr>en_world := w\<rparr>) = queue_wf s"
  by (simp add: queue_wf_def not_before_clock_def)

lemma history_wf_world [simp]: "history_wf (s\<lparr>en_world := w\<rparr>) = history_wf s"
  by (simp add: history_wf_def history_events_def clock_reached_def)

lemma queue_wf_duplicate [simp]: "queue_wf (note_duplicate i s) = queue_wf s"
  by (simp add: queue_wf_def not_before_clock_def note_duplicate_def)

lemma queue_wf_enqueue:
  assumes "queue_wf s" "event_id_of e \<notin> set (en_processed s)" "event_id_of e \<notin> set (en_queued s)"
    "not_before_clock s (event_at e)"
  shows "queue_wf (enqueue e s)"
proof -
  let ?x = "(event_at e, en_next_seq s, e)"
  have "entries_sorted (heappush ?x (en_queue s))"
    using assms(1) by (intro heappush_sorted entry_less_total) (auto simp: queue_wf_def)
  moreover have "distinct (map (\<lambda>x. event_id_of (entry_event x)) (heappush ?x (en_queue s)))"
  proof -
    have "mset (map (\<lambda>x. event_id_of (entry_event x)) (heappush ?x (en_queue s)))
        = mset (event_id_of e # map (\<lambda>x. event_id_of (entry_event x)) (en_queue s))"
      by (simp add: mset_heappush)
    moreover have "distinct (event_id_of e # map (\<lambda>x. event_id_of (entry_event x)) (en_queue s))"
      using assms(1,3) by (auto simp: queue_wf_def)
    ultimately show ?thesis by (metis mset_eq_imp_distinct_iff)
  qed
  ultimately show ?thesis using assms
    by (cases "en_clock s") (auto simp: queue_wf_def enqueue_def not_before_clock_def)
qed

lemma publish_queue_wf: "publish e s = (r, s') \<Longrightarrow> queue_wf s \<Longrightarrow> queue_wf s'"
  by (auto simp: publish_def not_before_clock_def not_less split: if_splits option.splits
      intro!: queue_wf_enqueue)

lemma publish_wf: "publish e s = (r, s') \<Longrightarrow> engine_wf s \<Longrightarrow> engine_wf s'"
  by (metis engine_wf_def handling_frame_def history_wf_frame publish_frame publish_queue_wf)

lemma emit_one_queue_wf: "emit_one c e u s = (r, s') \<Longrightarrow> queue_wf s \<Longrightarrow> queue_wf s'"
  by (auto simp: emit_one_def and_then_def split: if_splits prod.splits sum.splits
      dest: publish_queue_wf)

lemma fold_prog_inv:
  assumes "\<And>x b s r s'. x \<in> set xs \<Longrightarrow> f x b s = (r, s') \<Longrightarrow> I s \<Longrightarrow> I s'"
    and "fold_prog f xs b s = (r, s')" and "I s"
  shows "I s'"
  using fold_prog_rel [where rel = "\<lambda>s s'. I s \<longrightarrow> I s'" and f = f and xs = xs, OF _ _ _ assms(2)] assms(1,3)
  by blast

lemma call_handler_queue_wf: "call_handler e h u s = (r, s') \<Longrightarrow> queue_wf s \<Longrightarrow> queue_wf s'"
proof -
  assume a: "call_handler e h u s = (r, s')" "queue_wf s"
  obtain q w where h: "h e (en_world s) = (q, w)" by fastforce
  show ?thesis
  proof (cases q)
    case (Inr es)
    with a h have "fold_prog (emit_one e) es () (s\<lparr>en_world := w\<rparr>) = (r, s')"
      by (simp add: call_handler_def)
    from fold_prog_inv [where I = queue_wf, OF emit_one_queue_wf this] a(2) show ?thesis by simp
  qed (use a h in \<open>auto simp: call_handler_def\<close>)
qed

lemma handlers_queue_wf: "fold_prog (call_handler e) hs u s = (r, s') \<Longrightarrow> queue_wf s \<Longrightarrow> queue_wf s'"
  by (rule fold_prog_inv [where I = queue_wf, OF call_handler_queue_wf])

lemma history_wf_dequeue [simp]: "history_wf (dequeue q i s) = history_wf s"
  by (simp add: history_wf_def history_events_def clock_reached_def dequeue_def)

lemma not_before_clock_dequeue [simp]: "not_before_clock (dequeue q i s) = not_before_clock s"
  by (rule ext) (simp add: not_before_clock_def dequeue_def)

lemma dequeue_fields [simp]:
  "en_handlers (dequeue q i s) = en_handlers s" "en_history (dequeue q i s) = en_history s"
  "en_queue (dequeue q i s) = q" "en_max_events (dequeue q i s) = en_max_events s"
  "en_clock (dequeue q i s) = en_clock s" "en_processed (dequeue q i s) = en_processed s"
  "en_world (dequeue q i s) = en_world s" "en_next_seq (dequeue q i s) = en_next_seq s"
  "en_queued (dequeue q i s) = removeAll i (en_queued s)"
  by (simp_all add: dequeue_def)

lemma dequeue_wf:
  assumes "engine_wf s" "en_queue s = x # q"
  shows "engine_wf (dequeue q (event_id_of (entry_event x)) s)"
    and "event_id_of (entry_event x) \<in> set (en_queued s)"
    and "event_id_of (entry_event x) \<notin> set (en_processed s)"
proof -
  have "queue_wf s" "history_wf s" using assms(1) by (simp_all add: engine_wf_def)
  then show "engine_wf (dequeue q (event_id_of (entry_event x)) s)"
    "event_id_of (entry_event x) \<in> set (en_queued s)"
    "event_id_of (entry_event x) \<notin> set (en_processed s)"
    using assms(2) by (auto simp: engine_wf_def queue_wf_def entries_sorted_def)
qed

lemma record_wf:
  assumes "engine_wf s" "event_id_of e \<notin> set (en_processed s)" "event_id_of e \<notin> set (en_queued s)"
    "not_before_clock s (event_at e)" "\<forall>x \<in> set (en_queue s). event_at e \<le> fst x"
  shows "engine_wf (record_processed e (s\<lparr>en_clock := Some (event_at e)\<rparr>))"
proof -
  have le: "\<forall>x \<in> set (history_events s). event_at x \<le> event_at e"
    using assms(1,4) by (auto simp: engine_wf_def history_wf_def clock_reached_def
        not_before_clock_def split: option.splits)
  have "queue_wf (record_processed e (s\<lparr>en_clock := Some (event_at e)\<rparr>))"
    using assms(1-3,5) by (auto simp: engine_wf_def queue_wf_def record_processed_def not_before_clock_def)
  moreover have "history_wf (record_processed e (s\<lparr>en_clock := Some (event_at e)\<rparr>))"
    using assms(1,2) le by (auto simp: engine_wf_def history_wf_def record_processed_def
        history_events_def clock_reached_def sorted_append)
  ultimately show ?thesis by (simp add: engine_wf_def)
qed

text \<open>The state in which the handlers of the least entry start.\<close>

definition popped :: "queue_entry \<Rightarrow> queue_entry list \<Rightarrow> 'w engine \<Rightarrow> 'w engine" where
  "popped x q s = record_processed (entry_event x)
     ((dequeue q (event_id_of (entry_event x)) s)\<lparr>en_clock := Some (event_at (entry_event x))\<rparr>)"

lemma popped_wf:
  assumes "engine_wf s" "en_queue s = x # q"
  shows "engine_wf (popped x q s)"
proof -
  have "entries_sorted (x # q)" "fst x = event_at (entry_event x)" "not_before_clock s (fst x)"
    using assms by (auto simp: engine_wf_def queue_wf_def)
  then show ?thesis unfolding popped_def
    using assms dequeue_wf [OF assms]
    by (intro record_wf) (auto simp: dequeue_def not_before_clock_def entries_sorted_def entry_less_def)
qed

lemma process_event_popped:
  assumes "engine_wf s" "en_queue s = x # q"
  shows "process_event (entry_event x) (dequeue q (event_id_of (entry_event x)) s) =
    (case fold_prog (call_handler (entry_event x)) (en_handlers s (event_kind_of (entry_event x))) () (popped x q s) of
       (Inl err, s') \<Rightarrow> (Inl err, s')
     | (Inr _, s') \<Rightarrow> (Inr \<lparr> pr_sequence = length (en_history s) + 1, pr_event = entry_event x \<rparr>, s'))"
proof -
  have "not_before_clock s (event_at (entry_event x))"
    using assms by (auto simp: engine_wf_def queue_wf_def)
  then have "advance_to (event_at (entry_event x)) (dequeue q (event_id_of (entry_event x)) s)
      = (Inr (event_at (entry_event x)), (dequeue q (event_id_of (entry_event x)) s)\<lparr>en_clock := Some (event_at (entry_event x))\<rparr>)"
    by (auto simp: advance_to_def not_before_clock_def dequeue_def split: option.splits)
  then show ?thesis
    unfolding process_event_def and_then_def popped_def
    by (auto split: prod.splits sum.splits)
qed

text \<open>One turn of the loop from a well-formed state.\<close>

lemma engine_loop_step:
  assumes "engine_wf s" "en_queue s = x # q" "int (length acc) < en_max_events s"
  shows "engine_loop acc s =
    (case fold_prog (call_handler (entry_event x)) (en_handlers s (event_kind_of (entry_event x))) () (popped x q s) of
       (Inl err, s') \<Rightarrow> (Inl err, s')
     | (Inr _, s') \<Rightarrow> engine_loop (acc @ [\<lparr> pr_sequence = length (en_history s) + 1, pr_event = entry_event x \<rparr>]) s')"
  using assms dequeue_wf(2,3) [OF assms(1,2)]
  by (subst engine_loop.simps) (auto simp: process_event_popped [OF assms(1,2)] Let_def
      split: prod.splits sum.splits)

lemma engine_loop_stop:
  "en_queue s = [] \<Longrightarrow> engine_loop acc s = (Inr acc, s)"
  "en_queue s = x # q \<Longrightarrow> en_max_events s \<le> int (length acc) \<Longrightarrow>
    engine_loop acc s = (Inl (limit_exceeded (en_max_events s)), s)"
  by (subst engine_loop.simps; simp add: Let_def)+

text \<open>Induction over the turns of the loop.\<close>

lemma engine_loop_induct [consumes 1, case_names empty limit raise turn]:
  assumes "engine_wf s"
    and empty: "\<And>acc s. engine_wf s \<Longrightarrow> en_queue s = [] \<Longrightarrow> P acc s (Inr acc, s)"
    and limit: "\<And>acc s x q. engine_wf s \<Longrightarrow> en_queue s = x # q \<Longrightarrow> en_max_events s \<le> int (length acc) \<Longrightarrow>
      P acc s (Inl (limit_exceeded (en_max_events s)), s)"
    and raise: "\<And>acc s x q err s'. engine_wf s \<Longrightarrow> en_queue s = x # q \<Longrightarrow> int (length acc) < en_max_events s \<Longrightarrow>
      fold_prog (call_handler (entry_event x)) (en_handlers s (event_kind_of (entry_event x))) () (popped x q s) = (Inl err, s') \<Longrightarrow>
      engine_wf s' \<Longrightarrow> P acc s (Inl err, s')"
    and turn: "\<And>acc s x q s' r. engine_wf s \<Longrightarrow> en_queue s = x # q \<Longrightarrow> int (length acc) < en_max_events s \<Longrightarrow>
      fold_prog (call_handler (entry_event x)) (en_handlers s (event_kind_of (entry_event x))) () (popped x q s) = (Inr (), s') \<Longrightarrow>
      engine_wf s' \<Longrightarrow>
      P (acc @ [\<lparr> pr_sequence = length (en_history s) + 1, pr_event = entry_event x \<rparr>]) s' r \<Longrightarrow>
      P acc s r"
  shows "P acc s (engine_loop acc s)"
  using assms(1)
proof (induction "nat (en_max_events s - int (length acc))" arbitrary: acc s rule: less_induct)
  case less
  show ?case
  proof (cases "en_queue s")
    case Nil
    with less.prems show ?thesis by (simp add: engine_loop_stop(1) empty)
  next
    case (Cons x q)
    show ?thesis
    proof (cases "int (length acc) < en_max_events s")
      case False
      with limit [OF less.prems Cons] Cons show ?thesis by (simp add: engine_loop_stop(2))
    next
      case True
      obtain r s' where f: "fold_prog (call_handler (entry_event x)) (en_handlers s (event_kind_of (entry_event x))) () (popped x q s) = (r, s')"
        by fastforce
      have pw: "engine_wf (popped x q s)" by (rule popped_wf [OF less.prems Cons])
      have fr: "handling_frame (popped x q s) s'" by (rule handlers_frame [OF f])
      have wf': "engine_wf s'"
        using pw handlers_queue_wf [OF f] history_wf_frame [OF fr] by (simp add: engine_wf_def)
      show ?thesis
      proof (cases r)
        case (Inl err)
        with f less.prems Cons True wf' show ?thesis by (simp add: engine_loop_step raise)
      next
        case (Inr u)
        let ?acc = "acc @ [\<lparr> pr_sequence = length (en_history s) + 1, pr_event = entry_event x \<rparr>]"
        have "en_max_events s' = en_max_events s"
          using fr by (simp add: handling_frame_def popped_def record_processed_def dequeue_def)
        then have "P ?acc s' (engine_loop ?acc s')"
          using True wf' by (intro less.hyps) auto
        with f less.prems Cons True wf' Inr show ?thesis
          by (simp add: engine_loop_step turn)
      qed
    qed
  qed
qed

end
