(* ===== verification/Event_Order.thy ===== *)
theory Event_Order
  imports Event_Engine "HOL-Library.Sublist"
begin

text \<open>
  What the event loop guarantees: the history of every run is ordered by event time and holds
  each identifier once; a run that returns has processed everything that was accepted; without
  emissions it is a stable sort by event time; and when the events a run can cause are bounded by
  a potential within the limit, the run returns.
\<close>

section \<open>Known identifiers\<close>

definition known_ids :: "'w engine \<Rightarrow> string set" where
  "known_ids s = set (en_processed s) \<union> set (en_queued s)"

lemma known_ids_world [simp]: "known_ids (s\<lparr>en_world := w\<rparr>) = known_ids s"
  by (simp add: known_ids_def)

lemma known_ids_duplicate [simp]: "known_ids (note_duplicate i s) = known_ids s"
  by (simp add: known_ids_def note_duplicate_def)

lemma known_ids_enqueue [simp]: "known_ids (enqueue e s) = insert (event_id_of e) (known_ids s)"
  by (simp add: known_ids_def enqueue_def)

lemma publish_known: "publish e s = (r, s') \<Longrightarrow> known_ids s \<subseteq> known_ids s'"
  by (auto simp: publish_def split: if_splits)

lemma emit_one_known: "emit_one c e u s = (r, s') \<Longrightarrow> known_ids s \<subseteq> known_ids s'"
  by (simp add: emit_one_def and_then_def split: if_splits prod.splits sum.splits)
    (use publish_known in blast)+

lemma call_handler_known: "call_handler e h u s = (r, s') \<Longrightarrow> known_ids s \<subseteq> known_ids s'"
proof -
  assume a: "call_handler e h u s = (r, s')"
  obtain q w where h: "h e (en_world s) = (q, w)" by fastforce
  show ?thesis
  proof (cases q)
    case (Inr es)
    with a h have "fold_prog (emit_one e) es () (s\<lparr>en_world := w\<rparr>) = (r, s')"
      by (simp add: call_handler_def)
    from fold_prog_rel [where rel = "\<lambda>s s'. known_ids s \<subseteq> known_ids s'", OF emit_one_known _ _ this]
    show ?thesis by auto
  qed (use a h in \<open>auto simp: call_handler_def\<close>)
qed

lemma handlers_known: "fold_prog (call_handler e) hs u s = (r, s') \<Longrightarrow> known_ids s \<subseteq> known_ids s'"
  by (rule fold_prog_rel [where rel = "\<lambda>s s'. known_ids s \<subseteq> known_ids s'", OF call_handler_known])
    auto

lemma known_ids_popped: "engine_wf s \<Longrightarrow> en_queue s = x # q \<Longrightarrow> known_ids (popped x q s) = known_ids s"
  using dequeue_wf(2) [of s x q] by (auto simp: known_ids_def popped_def record_processed_def)

lemma history_popped: "en_history (popped x q s) = en_history s
    @ [\<lparr> pr_sequence = length (en_history s) + 1, pr_event = entry_event x \<rparr>]"
  by (simp add: popped_def record_processed_def)

section \<open>Every sequence of operations\<close>

datatype 'w engine_op = OpSubscribe event_kind "'w handler" | OpPublish domain_event | OpRun

fun engine_step :: "'w engine \<Rightarrow> 'w engine_op \<Rightarrow> 'w engine" where
  "engine_step s (OpSubscribe k h) = subscribe k h s"
| "engine_step s (OpPublish e) = snd (publish e s)"
| "engine_step s OpRun = snd (engine_run_all s)"

lemma engine_loop_wf: "engine_wf s \<Longrightarrow> engine_wf (snd (engine_loop acc s))"
  by (induction acc s rule: engine_loop_induct) auto

lemma engine_run_all_wf: "engine_wf s \<Longrightarrow> engine_wf (snd (engine_run_all s))"
  using engine_loop_wf [of s "[]"] by (auto simp: engine_run_all_def split: prod.splits sum.splits)

lemma engine_loop_known: "engine_wf s \<Longrightarrow> known_ids s \<subseteq> known_ids (snd (engine_loop acc s))"
proof (induction acc s rule: engine_loop_induct)
  case (raise acc s x q err t)
  then show ?case using handlers_known [OF raise(4)] known_ids_popped [OF raise(1,2)] by simp
next
  case (turn acc s x q t r)
  then show ?case using handlers_known [OF turn(4)] known_ids_popped [OF turn(1,2)] by auto
qed auto

lemma engine_step_wf: "engine_wf s \<Longrightarrow> engine_wf (engine_step s x)"
proof (cases x)
  case (OpPublish e)
  assume "engine_wf s"
  moreover obtain r s' where "publish e s = (r, s')" by fastforce
  ultimately show ?thesis using OpPublish publish_wf by fastforce
qed (simp_all add: subscribe_wf engine_run_all_wf)

lemma engine_step_known: "engine_wf s \<Longrightarrow> known_ids s \<subseteq> known_ids (engine_step s x)"
proof (cases x)
  case (OpPublish e)
  obtain r s' where "publish e s = (r, s')" by fastforce
  then show ?thesis using OpPublish publish_known by fastforce
next
  case (OpSubscribe k h)
  then show ?thesis by (simp add: known_ids_def subscribe_def)
next
  case OpRun
  assume "engine_wf s"
  from engine_loop_known [OF this, of "[]"] OpRun show ?thesis
    by (auto simp: engine_run_all_def split: prod.splits sum.splits)
qed

interpretation engine: step_monotone engine_step engine_wf "\<lambda>s s'. known_ids s \<subseteq> known_ids s'"
  by unfold_locales (auto intro: engine_step_wf dest: engine_step_known)

lemma engine_wf_history: "engine_wf s \<Longrightarrow>
    sorted (map event_at (history_events s)) \<and> distinct (map event_id_of (history_events s))
    \<and> map pr_sequence (en_history s) = [1..<Suc (length (en_history s))]
    \<and> (\<forall>e \<in> set (history_events s). clock_reached s (event_at e))"
  unfolding engine_wf_def history_wf_def by (metis distinct_rev)

lemma engine_loop_history: "engine_wf s \<Longrightarrow> prefix (en_history s) (en_history (snd (engine_loop acc s)))"
proof (induction acc s rule: engine_loop_induct)
  case (raise acc s x q err t)
  then show ?case using handlers_frame [OF raise(4)] by (simp add: handling_frame_def history_popped)
next
  case (turn acc s x q t r)
  have "prefix (en_history s) (en_history t)"
    using handlers_frame [OF turn(4)] by (simp add: handling_frame_def history_popped)
  from prefix_order.trans [OF this turn.IH] show ?case .
qed auto

lemma engine_step_history: "engine_wf s \<Longrightarrow> prefix (en_history s) (en_history (engine_step s x))"
proof (cases x)
  case (OpPublish e)
  obtain r s' where "publish e s = (r, s')" by fastforce
  then show ?thesis using OpPublish publish_frame by fastforce
next
  case OpRun
  assume "engine_wf s"
  from engine_loop_history [OF this, of "[]"] OpRun show ?thesis
    by (auto simp: engine_run_all_def split: prod.splits sum.splits)
qed (simp add: subscribe_def)

interpretation history: step_monotone engine_step engine_wf "\<lambda>s s'. prefix (en_history s) (en_history s')"
  by unfold_locales (auto intro: engine_step_wf engine_step_history prefix_order.trans)

text \<open>C29. After any sequence of subscriptions, publications and runs on a new engine, the
  processed history is ordered by event time, holds no identifier twice and is numbered from 1
  without gaps, the virtual clock has reached every processed event, and whatever is done
  afterwards only appends to the history.\<close>

theorem engine_history_ordered:
  assumes "new_engine clock limit w = Inr s0"
  shows "let s = run engine_step s0 ops in
    sorted (map event_at (history_events s)) \<and> distinct (map event_id_of (history_events s))
    \<and> map pr_sequence (en_history s) = [1..<Suc (length (en_history s))]
    \<and> (\<forall>e \<in> set (history_events s). clock_reached s (event_at e))
    \<and> (\<exists>new. en_history (run engine_step s later) = en_history s @ new)"
proof -
  have wf: "engine_wf (run engine_step s0 ops)" by (rule engine.run_inv [OF new_engine_wf [OF assms]])
  from history.run_rel [OF this, of later] engine_wf_history [OF wf] show ?thesis
    by (auto simp: Let_def prefix_def)
qed

definition sample_session :: "string \<Rightarrow> instant \<Rightarrow> domain_event" where
  "sample_session i t = EvSession \<lparr> se_meta = \<lparr> em_id = i, em_at = t, em_source = ''calendar'',
     em_correlation = None, em_causation = None, em_owner = None \<rparr>, se_symbol = ''TMF'',
     se_contract = ''TMFR1'', se_session = DayBar, se_trading_date = 0, se_action = SessOpened \<rparr>"

definition counting_handler :: "nat handler" where
  "counting_handler e w = (Inr [], w + 1)"

definition sample_engine :: "nat engine" where
  "sample_engine = (case new_engine None 10 (0 :: nat) of Inr s \<Rightarrow> s | Inl _ \<Rightarrow> undefined)"

lemma sample_engine_new: "new_engine None 10 (0 :: nat) = Inr sample_engine"
  by (simp add: sample_engine_def new_engine_def first_error.simps)

lemma engine_history_ordered_witness:
  "let s = run engine_step sample_engine [OpPublish (sample_session ''b'' 2), OpPublish (sample_session ''a'' 1), OpRun];
      s' = run engine_step s [OpPublish (sample_session ''c'' 3), OpRun]
   in sorted (map event_at (history_events s)) \<and> distinct (map event_id_of (history_events s))
    \<and> map event_id_of (history_events s') = [''a'', ''b'', ''c''] \<and> (\<exists>new. en_history s' = en_history s @ new)"
proof -
  have "map event_id_of (history_events (run engine_step (run engine_step sample_engine
      [OpPublish (sample_session ''b'' 2), OpPublish (sample_session ''a'' 1), OpRun]) [OpPublish (sample_session ''c'' 3), OpRun]))
      = [''a'', ''b'', ''c'']"
    by code_simp
  then show ?thesis using engine_history_ordered [OF sample_engine_new,
      of "[OpPublish (sample_session ''b'' 2), OpPublish (sample_session ''a'' 1), OpRun]" "[OpPublish (sample_session ''c'' 3), OpRun]"]
    by (simp only: Let_def)
qed

section \<open>Accepted events are processed\<close>

text \<open>What a run that returns has done.\<close>

lemma engine_loop_returns: "engine_wf s \<Longrightarrow> engine_loop acc s = (Inr pes, s') \<Longrightarrow>
    en_queue s' = [] \<and> known_ids s \<subseteq> set (en_processed s')
    \<and> (\<exists>new. pes = acc @ new \<and> en_history s' = en_history s @ new)"
proof -
  assume "engine_wf s" and ret: "engine_loop acc s = (Inr pes, s')"
  have "engine_loop acc s = (Inr pes, s') \<longrightarrow> en_queue s' = [] \<and> known_ids s \<subseteq> set (en_processed s')
    \<and> (\<exists>new. pes = acc @ new \<and> en_history s' = en_history s @ new)"
    using \<open>engine_wf s\<close>
  proof (induction acc s rule: engine_loop_induct)
    case (empty acc s)
    then show ?case by (auto simp: known_ids_def engine_wf_def queue_wf_def)
  next
    case (turn acc s x q t r)
    have h: "en_history t = en_history s @ [\<lparr> pr_sequence = length (en_history s) + 1, pr_event = entry_event x \<rparr>]"
      using handlers_frame [OF turn(4)] by (simp add: handling_frame_def history_popped)
    have k: "known_ids s \<subseteq> known_ids t"
      using handlers_known [OF turn(4)] known_ids_popped [OF turn(1,2)] by simp
    show ?case
    proof
      assume "r = (Inr pes, s')"
      with turn.IH obtain new where n: "en_queue s' = []" "known_ids t \<subseteq> set (en_processed s')"
        "pes = (acc @ [\<lparr> pr_sequence = length (en_history s) + 1, pr_event = entry_event x \<rparr>]) @ new"
        "en_history s' = en_history t @ new" by blast
      with h k show "en_queue s' = [] \<and> known_ids s \<subseteq> set (en_processed s')
          \<and> (\<exists>new. pes = acc @ new \<and> en_history s' = en_history s @ new)" by auto
    qed
  qed auto
  with ret show ?thesis by blast
qed

definition processed_count :: "string \<Rightarrow> 'w engine \<Rightarrow> nat" where
  "processed_count i s = length (filter (\<lambda>e. event_id_of e = i) (history_events s))"

lemma distinct_filter_one: "distinct (map f xs) \<Longrightarrow> i \<in> f ` set xs \<Longrightarrow> length (filter (\<lambda>x. f x = i) xs) = 1"
proof (induction xs)
  case (Cons x xs)
  then show ?case by (cases "f x = i") (auto simp: filter_empty_conv image_iff)
qed simp

lemma processed_once: "engine_wf s \<Longrightarrow> i \<in> set (en_processed s) \<Longrightarrow> processed_count i s = 1"
  unfolding processed_count_def engine_wf_def history_wf_def
  by (intro distinct_filter_one) auto

text \<open>C30. An event the queue accepted is processed exactly once, by the next run that returns:
  after it the queue is empty and the run's report is the new end of the history.\<close>

theorem accepted_event_processed:
  assumes "new_engine clock limit w = Inr s0"
    and "publish e (run engine_step s0 ops) = (Inr True, s1)"
    and "engine_run_all (run engine_step s1 later) = (Inr rep, s2)"
  shows "processed_count (event_id_of e) s2 = 1 \<and> en_queue s2 = []
    \<and> (\<exists>old. en_history s2 = old @ er_processed rep)"
proof -
  let ?s = "run engine_step s0 ops" and ?t = "run engine_step s1 later"
  have "engine_wf ?s" by (rule engine.run_inv [OF new_engine_wf [OF assms(1)]])
  then have wf1: "engine_wf s1" by (rule publish_wf [OF assms(2)])
  have wft: "engine_wf ?t" by (rule engine.run_inv [OF wf1])
  have "event_id_of e \<in> known_ids s1" using assms(2) by (auto simp: publish_def split: if_splits)
  then have kt: "event_id_of e \<in> known_ids ?t" using engine.run_rel [OF wf1, of later] by blast
  obtain pes where l: "engine_loop [] ?t = (Inr pes, s2)" "rep = \<lparr> er_processed = pes, er_duplicates = en_duplicates s2 \<rparr>"
    using assms(3) by (auto simp: engine_run_all_def split: prod.splits sum.splits)
  have "engine_wf s2" using engine_loop_wf [OF wft, of "[]"] l(1) by simp
  with engine_loop_returns [OF wft l(1)] kt l(2) show ?thesis
    using processed_once [of s2 "event_id_of e"] by auto
qed

lemma accepted_event_processed_witness:
  "\<exists>rep s2. engine_run_all (snd (publish (sample_session ''a'' 1) sample_engine)) = (Inr rep, s2)
    \<and> processed_count ''a'' s2 = 1 \<and> en_queue s2 = []"
proof -
  let ?s1 = "snd (publish (sample_session ''a'' 1) sample_engine)"
  have p: "publish (sample_session ''a'' 1) (run engine_step sample_engine []) = (Inr True, ?s1)"
    by (simp add: publish_def sample_engine_def new_engine_def first_error.simps)
  have "is_ok (fst (engine_run_all ?s1))" by code_simp
  then obtain rep s2 where r: "engine_run_all ?s1 = (Inr rep, s2)"
    by (cases "engine_run_all ?s1") (auto simp: is_ok_iff)
  have "event_id_of (sample_session ''a'' 1) = ''a''" by (simp add: sample_session_def)
  with accepted_event_processed [OF sample_engine_new p, of "[]" rep s2] r show ?thesis by simp
qed

section \<open>Without emissions: a stable sort\<close>

text \<open>Publishing events one by one, as a loop does.\<close>

definition publish_all :: "domain_event list \<Rightarrow> ('w engine, unit) prog" where
  "publish_all es = fold_prog (\<lambda>e u. and_then (publish e) (\<lambda>_. give ())) es ()"

definition silent_handlers :: "'w engine \<Rightarrow> bool" where
  "silent_handlers s \<longleftrightarrow> (\<forall>k h e w. h \<in> set (en_handlers s k) \<longrightarrow> fst (h e w) = Inr [])"

lemma heappush_newest:
  assumes "entries_sorted q" "\<And>y. y \<in> set q \<Longrightarrow> fst (snd y) < fst (snd x)"
  shows "filter (\<lambda>y. fst y = t) (heappush x q)
    = filter (\<lambda>y. fst y = t) q @ (if fst x = t then [x] else [])"
  using assms
proof (induction x q rule: heappush.induct)
  case (2 x y ys)
  show ?case
  proof (cases "entry_less x y")
    case False
    with 2 show ?thesis by (auto simp: entries_sorted_def)
  next
    case True
    have "\<forall>z \<in> set (y # ys). fst x < fst z"
    proof
      fix z assume z: "z \<in> set (y # ys)"
      have "fst x < fst y" using True "2.prems"(2) [of y] by (auto simp: entry_less_def)
      moreover have "fst y \<le> fst z" using z "2.prems"(1) by (auto simp: entries_sorted_def entry_less_def)
      ultimately show "fst x < fst z" by simp
    qed
    then have "filter (\<lambda>z. fst z = fst x) (y # ys) = []" unfolding filter_empty_conv by auto
    then show ?thesis using True by auto
  qed
qed simp

lemma sorted_entries_times: "entries_sorted q \<Longrightarrow> sorted (map fst q)"
  unfolding entries_sorted_def by (induction q) (auto simp: entry_less_def)

lemma publish_fresh: "event_id_of e \<notin> known_ids s \<Longrightarrow> not_before_clock s (event_at e) \<Longrightarrow>
    publish e s = (Inr True, enqueue e s)"
  by (auto simp: publish_def known_ids_def not_before_clock_def split: option.splits)

lemma enqueue_fields [simp]:
  "en_handlers (enqueue e s) = en_handlers s" "en_clock (enqueue e s) = en_clock s"
  "en_max_events (enqueue e s) = en_max_events s" "en_history (enqueue e s) = en_history s"
  "en_world (enqueue e s) = en_world s" "not_before_clock (enqueue e s) = not_before_clock s"
  by (simp_all add: enqueue_def not_before_clock_def fun_eq_iff)

text \<open>What a loop of publications leaves: one entry per event, each instant in publication order.\<close>

lemma publish_all_fresh:
  assumes "engine_wf s" "distinct (map event_id_of es)" "event_id_of ` set es \<inter> known_ids s = {}"
    "\<forall>e \<in> set es. not_before_clock s (event_at e)"
  shows "\<exists>s'. publish_all es s = (Inr (), s') \<and> engine_wf s' \<and> handling_frame s s'
    \<and> (\<forall>t. map entry_event (filter (\<lambda>y. fst y = t) (en_queue s'))
        = map entry_event (filter (\<lambda>y. fst y = t) (en_queue s)) @ filter (\<lambda>e. event_at e = t) es)
    \<and> length (en_queue s') = length (en_queue s) + length es"
  using assms
proof (induction es arbitrary: s)
  case Nil
  then show ?case by (auto simp: publish_all_def)
next
  case (Cons e es)
  let ?t = "enqueue e s"
  have p: "publish e s = (Inr True, ?t)" using Cons.prems by (intro publish_fresh) auto
  have wf: "engine_wf ?t" by (rule publish_wf [OF p Cons.prems(1)])
  have "\<exists>s'. publish_all es ?t = (Inr (), s') \<and> engine_wf s' \<and> handling_frame ?t s'
    \<and> (\<forall>t. map entry_event (filter (\<lambda>y. fst y = t) (en_queue s'))
        = map entry_event (filter (\<lambda>y. fst y = t) (en_queue ?t)) @ filter (\<lambda>e. event_at e = t) es)
    \<and> length (en_queue s') = length (en_queue ?t) + length es"
    using Cons.prems wf by (intro Cons.IH) auto
  then obtain s' where s': "publish_all es ?t = (Inr (), s')" "engine_wf s'" "handling_frame ?t s'"
    "\<And>t. map entry_event (filter (\<lambda>y. fst y = t) (en_queue s'))
        = map entry_event (filter (\<lambda>y. fst y = t) (en_queue ?t)) @ filter (\<lambda>e. event_at e = t) es"
    "length (en_queue s') = length (en_queue ?t) + length es" by blast
  have "publish_all (e # es) s = (Inr (), s')"
    using s'(1) p by (simp add: publish_all_def and_then_def)
  moreover have "map entry_event (filter (\<lambda>y. fst y = t) (en_queue ?t))
      = map entry_event (filter (\<lambda>y. fst y = t) (en_queue s)) @ (if event_at e = t then [e] else [])" for t
  proof -
    have "filter (\<lambda>y. fst y = t) (heappush (event_at e, en_next_seq s, e) (en_queue s))
        = filter (\<lambda>y. fst y = t) (en_queue s)
          @ (if fst (event_at e, en_next_seq s, e) = t then [(event_at e, en_next_seq s, e)] else [])"
      using Cons.prems(1) by (intro heappush_newest) (auto simp: engine_wf_def queue_wf_def)
    then show ?thesis by (simp add: enqueue_def)
  qed
  moreover have "handling_frame s s'"
    using s'(3) by (simp add: handling_frame_def enqueue_def)
  moreover have "length (en_queue s') = length (en_queue s) + length (e # es)"
    using s'(5) by (simp add: enqueue_def)
  ultimately show ?case using s'(2,4) by auto
qed

text \<open>A run over silent handlers takes the queue front to back.\<close>

lemma silent_call: "fst (h e (en_world s)) = Inr [] \<Longrightarrow>
    \<exists>w. call_handler e h u s = (Inr (), s\<lparr>en_world := w\<rparr>)"
  by (cases "h e (en_world s)") (auto simp: call_handler_def)

lemma silent_handlers_run:
  "(\<And>h e w. h \<in> set hs \<Longrightarrow> fst (h e w) = Inr []) \<Longrightarrow>
    \<exists>w. fold_prog (call_handler e) hs () s = (Inr (), s\<lparr>en_world := w\<rparr>)"
proof (induction hs arbitrary: s)
  case Nil
  have "s = s\<lparr>en_world := en_world s\<rparr>" by simp
  then show ?case by (metis fold_prog.simps(1))
next
  case (Cons h hs)
  obtain w where w: "call_handler e h () s = (Inr (), s\<lparr>en_world := w\<rparr>)"
    using silent_call [of h e s] Cons.prems by auto
  obtain w' where "fold_prog (call_handler e) hs () (s\<lparr>en_world := w\<rparr>) = (Inr (), s\<lparr>en_world := w, en_world := w'\<rparr>)"
    using Cons by (metis list.set_intros(2))
  with w show ?case by auto
qed

lemma popped_fields [simp]:
  "en_queue (popped x q s) = q" "en_handlers (popped x q s) = en_handlers s"
  "en_max_events (popped x q s) = en_max_events s" "en_world (popped x q s) = en_world s"
  "en_clock (popped x q s) = Some (event_at (entry_event x))"
  by (simp_all add: popped_def record_processed_def)

lemma silent_loop: "engine_wf s \<Longrightarrow> silent_handlers s \<Longrightarrow>
    int (length acc + length (en_queue s)) \<le> en_max_events s \<Longrightarrow>
    \<exists>pes s'. engine_loop acc s = (Inr pes, s')
      \<and> map pr_event pes = map pr_event acc @ map entry_event (en_queue s)"
proof (induction "length (en_queue s)" arbitrary: acc s)
  case 0
  then show ?case by (simp add: engine_loop_stop(1))
next
  case (Suc n)
  then obtain x q where q: "en_queue s = x # q" by (cases "en_queue s") auto
  have sil: "\<And>h e w. h \<in> set (en_handlers s (event_kind_of (entry_event x))) \<Longrightarrow> fst (h e w) = Inr []"
    using Suc.prems(2) by (simp add: silent_handlers_def)
  have "\<exists>w. fold_prog (call_handler (entry_event x)) (en_handlers s (event_kind_of (entry_event x))) () (popped x q s)
      = (Inr (), (popped x q s)\<lparr>en_world := w\<rparr>)"
    by (rule silent_handlers_run) (rule sil)
  then obtain w where w: "fold_prog (call_handler (entry_event x)) (en_handlers s (event_kind_of (entry_event x))) () (popped x q s)
      = (Inr (), (popped x q s)\<lparr>en_world := w\<rparr>)" by blast
  let ?s = "(popped x q s)\<lparr>en_world := w\<rparr>"
  let ?acc = "acc @ [\<lparr> pr_sequence = length (en_history s) + 1, pr_event = entry_event x \<rparr>]"
  have "engine_wf ?s"
    using popped_wf [OF Suc.prems(1) q]
    by (simp add: engine_wf_def)
  then obtain pes s' where "engine_loop ?acc ?s = (Inr pes, s')"
    "map pr_event pes = map pr_event ?acc @ map entry_event (en_queue ?s)"
    using Suc.hyps(1) [of ?s ?acc] Suc.hyps(2) Suc.prems q by (auto simp: silent_handlers_def)
  then show ?case using engine_loop_step [OF Suc.prems(1) q, of acc] w Suc.prems(3) q by simp
qed

text \<open>C31. With handlers that emit nothing, publishing new events on an engine with an empty
  queue and running it processes exactly those events in the order of a stable sort by event
  time: equal times keep the order of publication.\<close>

theorem silent_run_is_stable_sort:
  assumes "engine_wf s" "en_queue s = []" "silent_handlers s"
    and "distinct (map event_id_of es)" "event_id_of ` set es \<inter> known_ids s = {}"
    and "\<forall>e \<in> set es. not_before_clock s (event_at e)" "int (length es) \<le> en_max_events s"
  shows "\<exists>rep s'. and_then (publish_all es) (\<lambda>_. engine_run_all) s = (Inr rep, s')
    \<and> map pr_event (er_processed rep) = sort_key event_at es"
proof -
  obtain t where t: "publish_all es s = (Inr (), t)" "engine_wf t" "handling_frame s t"
    "\<And>x. map entry_event (filter (\<lambda>y. fst y = x) (en_queue t)) = filter (\<lambda>e. event_at e = x) es"
    "length (en_queue t) = length es"
    using publish_all_fresh [OF assms(1,4,5,6)] assms(2) by auto
  obtain pes u where l: "engine_loop [] t = (Inr pes, u)" "map pr_event pes = map entry_event (en_queue t)"
    using silent_loop [OF t(2), of "[]"] t(3,5) assms(3,7)
    by (auto simp: silent_handlers_def handling_frame_def)
  have times: "\<forall>x \<in> set (en_queue t). fst x = event_at (entry_event x)"
    using t(2) by (simp add: engine_wf_def queue_wf_def)
  have flt: "filter (\<lambda>e. event_at e = x) (map entry_event (en_queue t)) = filter (\<lambda>e. event_at e = x) es" for x
  proof -
    have "filter (\<lambda>e. event_at e = x) (map entry_event (en_queue t))
        = map entry_event (filter (\<lambda>y. fst y = x) (en_queue t))"
      using times by (auto simp: filter_map comp_def intro!: arg_cong [where f = "map entry_event"] filter_cong)
    then show ?thesis by (simp add: t(4))
  qed
  have "sort_key event_at es = map entry_event (en_queue t)"
  proof (rule properties_for_sort_key)
    show "mset (map entry_event (en_queue t)) = mset es"
    proof (rule multiset_eqI)
      fix e
      have "count (mset xs) e = count (mset (filter (\<lambda>y. event_at y = event_at e) xs)) e" for xs :: "domain_event list"
        by (induction xs) auto
      then show "count (mset (map entry_event (en_queue t))) e = count (mset es) e"
        by (metis flt)
    qed
    show "filter (\<lambda>x. event_at k = event_at x) (map entry_event (en_queue t)) = filter (\<lambda>x. event_at k = event_at x) es" for k
      using flt [of "event_at k"] by (simp add: eq_commute)
    have "map event_at (map entry_event (en_queue t)) = map fst (en_queue t)" using times by simp
    then show "sorted (map event_at (map entry_event (en_queue t)))"
      using t(2) sorted_entries_times [of "en_queue t"] by (simp only: engine_wf_def queue_wf_def)
  qed
  then show ?thesis using l t(1) by (simp add: and_then_def engine_run_all_def)
qed

lemma silent_run_is_stable_sort_witness:
  "\<exists>rep s'. and_then (publish_all [sample_session ''a'' 5, sample_session ''b'' 3, sample_session ''c'' 5])
      (\<lambda>_. engine_run_all) (subscribe KSession counting_handler sample_engine) = (Inr rep, s')
    \<and> map event_id_of (map pr_event (er_processed rep)) = [''b'', ''a'', ''c'']"
proof -
  let ?es = "[sample_session ''a'' 5, sample_session ''b'' 3, sample_session ''c'' 5]"
  let ?s = "subscribe KSession counting_handler sample_engine"
  have wf: "engine_wf ?s" by (rule subscribe_wf [OF new_engine_wf [OF sample_engine_new]])
  have flds: "en_queue ?s = []" "known_ids ?s = {}" "not_before_clock ?s t" "en_max_events ?s = 10" for t
    by (simp_all add: subscribe_def sample_engine_def new_engine_def first_error.simps known_ids_def
        not_before_clock_def)
  have sil: "silent_handlers ?s"
    by (simp add: silent_handlers_def subscribe_def sample_engine_def new_engine_def first_error.simps
        counting_handler_def)
  have ids: "distinct (map event_id_of ?es)" by (simp add: sample_session_def)
  obtain rep s' where "and_then (publish_all ?es) (\<lambda>_. engine_run_all) ?s = (Inr rep, s')"
    "map pr_event (er_processed rep) = sort_key event_at ?es"
    using silent_run_is_stable_sort [OF wf flds(1) sil ids] flds by auto
  moreover have "map event_id_of (sort_key event_at ?es) = [''b'', ''a'', ''c'']"
    by (simp add: sample_session_def)
  ultimately show ?thesis by auto
qed

section \<open>Runs return\<close>

text \<open>The cost of an event bounds itself and everything it causes; what handlers do later on
  account of earlier events is paid from a potential of the components' state.\<close>

definition queue_cost :: "(domain_event \<Rightarrow> nat) \<Rightarrow> 'w engine \<Rightarrow> nat" where
  "queue_cost cost s = sum_list (map (\<lambda>x. cost (entry_event x)) (en_queue s))"

lemma queue_cost_enqueue [simp]: "queue_cost cost (enqueue e s) = cost e + queue_cost cost s"
proof -
  have "sum_list (map (\<lambda>x. cost (entry_event x)) (heappush y q))
      = cost (entry_event y) + sum_list (map (\<lambda>x. cost (entry_event x)) q)" for y q
    by (induction y q rule: heappush.induct) auto
  then show ?thesis by (simp add: queue_cost_def enqueue_def)
qed

lemma queue_cost_simps [simp]: "queue_cost cost (s\<lparr>en_world := w\<rparr>) = queue_cost cost s"
  "queue_cost cost (note_duplicate i s) = queue_cost cost s"
  by (simp_all add: queue_cost_def note_duplicate_def)

text \<open>What is asked of one handler: from a state it accepts it returns, keeps the state
  acceptable, emits nothing earlier than its cause, and pays for what it emits.\<close>

definition pays :: "('w \<Rightarrow> bool) \<Rightarrow> ('w \<Rightarrow> nat) \<Rightarrow> (domain_event \<Rightarrow> nat) \<Rightarrow> 'w handler \<Rightarrow> domain_event \<Rightarrow> nat \<Rightarrow> bool" where
  "pays I pot cost h e budget \<longleftrightarrow> (\<forall>w. I w \<longrightarrow> (\<exists>es w'. h e w = (Inr es, w') \<and> I w'
     \<and> (\<forall>x \<in> set es. event_at e \<le> event_at x)
     \<and> sum_list (map cost es) + pot w' \<le> budget + pot w))"

lemma publish_cost: "not_before_clock s (event_at e) \<Longrightarrow> \<exists>b s'. publish e s = (Inr b, s')
    \<and> queue_cost cost s' \<le> cost e + queue_cost cost s"
  by (auto simp: publish_def not_before_clock_def split: option.splits)

lemma emit_all_cost:
  assumes "en_clock s = Some (event_at e)" "\<forall>x \<in> set es. event_at e \<le> event_at x"
  shows "\<exists>s'. fold_prog (emit_one e) es () s = (Inr (), s') \<and> handling_frame s s'
    \<and> en_world s' = en_world s \<and> queue_cost cost s' \<le> sum_list (map cost es) + queue_cost cost s"
  using assms
proof (induction es arbitrary: s)
  case (Cons x es)
  obtain b t where t: "publish x s = (Inr b, t)" "queue_cost cost t \<le> cost x + queue_cost cost s"
    using publish_cost [of s x cost] Cons.prems by (auto simp: not_before_clock_def)
  have fr: "handling_frame s t" "en_world t = en_world s" "en_clock t = Some (event_at e)"
    using publish_frame [OF t(1)] Cons.prems by (simp_all add: handling_frame_def)
  obtain s' where "fold_prog (emit_one e) es () t = (Inr (), s')" "handling_frame t s'"
    "en_world s' = en_world t" "queue_cost cost s' \<le> sum_list (map cost es) + queue_cost cost t"
    using Cons.IH [of t] Cons.prems fr(3) by auto
  moreover have "emit_one e x () s = (Inr (), t)"
    using Cons.prems(2) t(1) by (simp add: emit_one_def and_then_def)
  ultimately show ?case using t(2) fr by (auto intro: handling_frame_trans)
qed simp

lemma handlers_cost:
  assumes "\<And>h. h \<in> set hs \<Longrightarrow> pays I pot cost h e (out h)" "I (en_world s)"
    "en_clock s = Some (event_at e)"
  shows "\<exists>s'. fold_prog (call_handler e) hs () s = (Inr (), s') \<and> handling_frame s s' \<and> I (en_world s')
    \<and> queue_cost cost s' + pot (en_world s') \<le> sum_list (map out hs) + queue_cost cost s + pot (en_world s)"
  using assms
proof (induction hs arbitrary: s)
  case (Cons h hs)
  obtain es w where w: "h e (en_world s) = (Inr es, w)" "I w" "\<forall>x \<in> set es. event_at e \<le> event_at x"
    "sum_list (map cost es) + pot w \<le> out h + pot (en_world s)"
    using Cons.prems(1) [of h] Cons.prems(2) by (auto simp: pays_def)
  obtain t where t: "fold_prog (emit_one e) es () (s\<lparr>en_world := w\<rparr>) = (Inr (), t)"
    "handling_frame (s\<lparr>en_world := w\<rparr>) t" "en_world t = w"
    "queue_cost cost t \<le> sum_list (map cost es) + queue_cost cost s"
    using emit_all_cost [of "s\<lparr>en_world := w\<rparr>" e es cost] Cons.prems(3) w(3) by auto
  have "en_clock t = Some (event_at e)" using t(2) Cons.prems(3) by (simp add: handling_frame_def)
  then obtain s' where "fold_prog (call_handler e) hs () t = (Inr (), s')" "handling_frame t s'" "I (en_world s')"
    "queue_cost cost s' + pot (en_world s') \<le> sum_list (map out hs) + queue_cost cost t + pot w"
    using Cons.IH [of t] Cons.prems(1) t(3) w(2) by auto
  moreover have "call_handler e h () s = (Inr (), t)" using w(1) t(1) by (simp add: call_handler_def)
  moreover have "handling_frame s t" using t(2) by (simp add: handling_frame_def)
  ultimately show ?case using w(4) t(4) by (auto intro: handling_frame_trans)
qed simp

definition handlers_pay :: "('w \<Rightarrow> bool) \<Rightarrow> ('w \<Rightarrow> nat) \<Rightarrow> (domain_event \<Rightarrow> nat)
    \<Rightarrow> ('w handler \<Rightarrow> domain_event \<Rightarrow> nat) \<Rightarrow> (event_kind \<Rightarrow> 'w handler list) \<Rightarrow> bool" where
  "handlers_pay I pot cost out hs \<longleftrightarrow>
     (\<forall>e. (\<forall>h \<in> set (hs (event_kind_of e)). pays I pot cost h e (out h e))
        \<and> sum_list (map (\<lambda>h. out h e) (hs (event_kind_of e))) < cost e)"

lemma paid_turn:
  assumes "en_queue s = x # q" "I (en_world s)" "handlers_pay I pot cost out (en_handlers s)"
  shows "\<exists>t. fold_prog (call_handler (entry_event x)) (en_handlers s (event_kind_of (entry_event x))) () (popped x q s) = (Inr (), t)
      \<and> handling_frame (popped x q s) t \<and> I (en_world t)
      \<and> queue_cost cost t + pot (en_world t) < queue_cost cost s + pot (en_world s)"
proof -
  let ?e = "entry_event x" and ?hs = "en_handlers s (event_kind_of (entry_event x))"
  obtain t where t: "fold_prog (call_handler ?e) ?hs () (popped x q s) = (Inr (), t)"
    "handling_frame (popped x q s) t" "I (en_world t)"
    "queue_cost cost t + pot (en_world t) \<le> sum_list (map (\<lambda>h. out h ?e) ?hs) + queue_cost cost (popped x q s) + pot (en_world s)"
    using handlers_cost [of ?hs I pot cost ?e "\<lambda>h. out h ?e" "popped x q s"] assms(2,3)
    by (auto simp: handlers_pay_def)
  moreover have "queue_cost cost s = cost ?e + queue_cost cost (popped x q s)"
    using assms(1) by (simp add: queue_cost_def)
  moreover have "sum_list (map (\<lambda>h. out h ?e) ?hs) < cost ?e"
    using assms(3) by (simp add: handlers_pay_def)
  ultimately have "queue_cost cost t + pot (en_world t) < queue_cost cost s + pot (en_world s)" by linarith
  with t(1-3) show ?thesis by blast
qed

lemma bounded_loop_returns:
  "engine_wf s \<Longrightarrow> I (en_world s) \<Longrightarrow> handlers_pay I pot cost out (en_handlers s) \<Longrightarrow>
    int (length acc + (queue_cost cost s + pot (en_world s))) \<le> en_max_events s \<Longrightarrow>
    \<exists>pes s'. engine_loop acc s = (Inr pes, s')"
proof (induction "queue_cost cost s + pot (en_world s)" arbitrary: acc s rule: less_induct)
  case less
  show ?case
  proof (cases "en_queue s")
    case Nil
    then show ?thesis by (simp add: engine_loop_stop(1))
  next
    case (Cons x q)
    let ?acc = "acc @ [\<lparr> pr_sequence = length (en_history s) + 1, pr_event = entry_event x \<rparr>]"
    obtain t where t: "fold_prog (call_handler (entry_event x)) (en_handlers s (event_kind_of (entry_event x))) () (popped x q s) = (Inr (), t)"
      "handling_frame (popped x q s) t" "I (en_world t)"
      "queue_cost cost t + pot (en_world t) < queue_cost cost s + pot (en_world s)"
      using paid_turn [OF Cons less.prems(2,3)] by blast
    have fr: "en_handlers t = en_handlers s" "en_max_events t = en_max_events s"
      using t(2) by (simp_all add: handling_frame_def)
    have "engine_wf t"
      using popped_wf [OF less.prems(1) Cons] handlers_queue_wf [OF t(1)] history_wf_frame [OF t(2)]
      by (simp add: engine_wf_def)
    moreover have "int (length ?acc + (queue_cost cost t + pot (en_world t))) \<le> en_max_events t"
      using t(4) less.prems(4) fr by simp
    ultimately have "\<exists>pes s'. engine_loop ?acc t = (Inr pes, s')"
      using less.prems(3) fr t(3) by (intro less.hyps [OF t(4)]) simp_all
    moreover have "int (length acc) < en_max_events s" using t(4) less.prems(4) by simp
    ultimately show ?thesis using engine_loop_step [OF less.prems(1) Cons, of acc] t(1) by simp
  qed
qed

text \<open>C32. When every handler returns from acceptable states and pays for what it emits, and the
  cost of the queued events with the potential of the components stays within the event limit,
  a run returns, leaves no event in the queue and has processed every event known before it.\<close>

theorem bounded_run_returns:
  assumes "engine_wf s" "I (en_world s)" "handlers_pay I pot cost out (en_handlers s)"
    and "int (queue_cost cost s + pot (en_world s)) \<le> en_max_events s"
  shows "\<exists>rep s'. engine_run_all s = (Inr rep, s') \<and> en_queue s' = []
    \<and> known_ids s \<subseteq> set (en_processed s')"
proof -
  obtain pes s' where l: "engine_loop [] s = (Inr pes, s')"
    using bounded_loop_returns [OF assms(1-3), of "[]"] assms(4) by auto
  with engine_loop_returns [OF assms(1) l] show ?thesis by (simp add: engine_run_all_def)
qed

lemma bounded_run_returns_witness:
  "\<exists>rep s'. engine_run_all (enqueue (sample_session ''a'' 5) (subscribe KSession counting_handler sample_engine)) = (Inr rep, s')
    \<and> ''a'' \<in> set (en_processed s')"
proof -
  let ?e = "subscribe KSession counting_handler sample_engine" and ?a = "sample_session ''a'' 5"
  have flds: "en_queue ?e = []" "known_ids ?e = {}" "not_before_clock ?e t" "en_max_events ?e = 10" "en_world ?e = 0" for t
    by (simp_all add: subscribe_def sample_engine_def new_engine_def first_error.simps known_ids_def
        not_before_clock_def)
  have "publish ?a ?e = (Inr True, enqueue ?a ?e)" using flds by (intro publish_fresh) auto
  then have wf: "engine_wf (enqueue ?a ?e)"
    by (rule publish_wf) (rule subscribe_wf [OF new_engine_wf [OF sample_engine_new]])
  have pay: "handlers_pay (\<lambda>_. True) (\<lambda>_. 0) (\<lambda>_. 1) (\<lambda>_ _. 0) (en_handlers (enqueue ?a ?e))"
    by (auto simp: handlers_pay_def pays_def subscribe_def sample_engine_def new_engine_def first_error.simps
        counting_handler_def)
  have "int (queue_cost (\<lambda>_. 1) (enqueue ?a ?e) + 0) \<le> en_max_events (enqueue ?a ?e)"
    using flds by (simp only: queue_cost_enqueue enqueue_fields) (simp add: queue_cost_def)
  with bounded_run_returns [OF wf _ pay] obtain rep s' where
    "engine_run_all (enqueue ?a ?e) = (Inr rep, s')" "known_ids (enqueue ?a ?e) \<subseteq> set (en_processed s')" by auto
  moreover have "event_id_of ?a = ''a''" by (simp add: sample_session_def)
  ultimately show ?thesis by auto
qed

section \<open>What the handlers maintain\<close>

text \<open>A contract of handlers that remember identifiers of events in their world.  \<open>J\<close> holds of the
  world, \<open>Q w\<close> of the events met while the world is \<open>w\<close>, and an event that satisfied it keeps
  satisfying it.  The world remembers identifiers of processed events only, so an event taken off the
  queue is new to it; \<open>stage e n\<close> is what the first \<open>n\<close> handlers of \<open>e\<close> have established when they
  returned.  A handler that raises still keeps \<open>J\<close>.\<close>

locale staged_contract =
  fixes hs :: "event_kind \<Rightarrow> 'w handler list"
    and ids :: "'w \<Rightarrow> string set"
    and J :: "'w \<Rightarrow> bool"
    and Q :: "'w \<Rightarrow> domain_event \<Rightarrow> bool"
    and stage :: "domain_event \<Rightarrow> nat \<Rightarrow> 'w \<Rightarrow> bool"
  assumes stage_start: "J w \<Longrightarrow> Q w e \<Longrightarrow> event_id_of e \<notin> ids w \<Longrightarrow> stage e 0 w"
    and stage_keeps: "n < length (hs (event_kind_of e)) \<Longrightarrow> J w \<Longrightarrow> Q w e \<Longrightarrow> stage e n w \<Longrightarrow>
      (hs (event_kind_of e) ! n) e w = (r, w') \<Longrightarrow>
      J w' \<and> ids w' \<subseteq> insert (event_id_of e) (ids w) \<and> (\<forall>x. Q w x \<longrightarrow> Q w' x)"
    and stage_next: "n < length (hs (event_kind_of e)) \<Longrightarrow> J w \<Longrightarrow> Q w e \<Longrightarrow> stage e n w \<Longrightarrow>
      (hs (event_kind_of e) ! n) e w = (Inr es, w') \<Longrightarrow> stage e (Suc n) w' \<and> (\<forall>x \<in> set es. Q w' x)"
begin

definition keeps :: "'w engine \<Rightarrow> bool" where
  "keeps s \<longleftrightarrow> en_handlers s = hs \<and> J (en_world s) \<and> ids (en_world s) \<subseteq> set (en_processed s)
     \<and> (\<forall>x \<in> set (en_queue s). Q (en_world s) (entry_event x))
     \<and> (\<forall>e \<in> set (history_events s). Q (en_world s) e)"

lemma keeps_publish: "publish e s = (r, s') \<Longrightarrow> keeps s \<Longrightarrow> Q (en_world s) e \<Longrightarrow> keeps s'"
  by (auto simp: publish_def keeps_def note_duplicate_def enqueue_def history_events_def split: if_splits
      dest: bspec [where x = "(a, b, c)" for a b c])

lemma keeps_emit: "emit_one c e u s = (r, s') \<Longrightarrow> keeps s \<Longrightarrow> Q (en_world s) e \<Longrightarrow> keeps s'"
  by (auto simp: emit_one_def and_then_def split: if_splits prod.splits sum.splits dest: keeps_publish)

lemma emit_world: "emit_one c e u s = (r, s') \<Longrightarrow> en_world s' = en_world s"
  by (auto simp: emit_one_def and_then_def split: if_splits prod.splits sum.splits dest: publish_frame)

text \<open>One handler, the \<open>n\<close>-th of the event, which is already recorded as processed.\<close>

lemma keeps_call:
  assumes "call_handler e (hs (event_kind_of e) ! n) u s = (r, s')" "n < length (hs (event_kind_of e))"
    and "Q (en_world s) e" "stage e n (en_world s)" "event_id_of e \<in> set (en_processed s)" "keeps s"
  shows "keeps s' \<and> Q (en_world s') e \<and> event_id_of e \<in> set (en_processed s')
    \<and> (r = Inr () \<longrightarrow> stage e (Suc n) (en_world s'))"
proof -
  obtain q w where q: "(hs (event_kind_of e) ! n) e (en_world s) = (q, w)" by fastforce
  have J: "J (en_world s)" using assms(6) by (simp add: keeps_def)
  note kept = stage_keeps [OF assms(2) J assms(3,4) q]
  have w: "keeps (s\<lparr>en_world := w\<rparr>)"
    using kept assms(5,6) by (auto simp: keeps_def history_events_def)
  show ?thesis
  proof (cases q)
    case (Inl err)
    with assms(1,3,5) q w kept show ?thesis by (auto simp: call_handler_def)
  next
    case (Inr es)
    note nxt = stage_next [OF assms(2) J assms(3,4) q [unfolded Inr]]
    from assms(1) q Inr have f: "fold_prog (emit_one e) es () (s\<lparr>en_world := w\<rparr>) = (r, s')"
      by (simp add: call_handler_def)
    have "keeps s' \<and> en_world s' = w"
    proof (rule fold_prog_inv [where I = "\<lambda>s. keeps s \<and> en_world s = w", OF _ f])
      fix x b s r s' assume "x \<in> set es" "emit_one e x b s = (r, s')" "keeps s \<and> en_world s = w"
      then show "keeps s' \<and> en_world s' = w" using keeps_emit [of e x b s r s'] emit_world [of e x b s r s'] nxt by simp
    qed (use w in simp)
    moreover have "en_processed s' = en_processed s"
      using handlers_frame [of e "[hs (event_kind_of e) ! n]" u s r s'] assms(1)
      by (auto simp: handling_frame_def split: sum.splits)
    ultimately show ?thesis using kept nxt assms(3,5) by simp
  qed
qed

lemma keeps_handlers:
  assumes "fold_prog (call_handler e) (drop n (hs (event_kind_of e))) () s = (r, s')"
    and "Q (en_world s) e" "stage e n (en_world s)" "event_id_of e \<in> set (en_processed s)" "keeps s"
  shows "keeps s'"
  using assms
proof (induction "length (hs (event_kind_of e)) - n" arbitrary: n s)
  case (Suc m)
  then have n: "n < length (hs (event_kind_of e))" by simp
  obtain q t where q: "call_handler e (hs (event_kind_of e) ! n) () s = (q, t)" by fastforce
  note c = keeps_call [OF q n Suc.prems(2-5)]
  show ?case
  proof (cases q)
    case (Inr u)
    with Suc.prems(1) q n have "fold_prog (call_handler e) (drop (Suc n) (hs (event_kind_of e))) () t = (r, s')"
      by (simp add: Cons_nth_drop_Suc [symmetric])
    from Suc.hyps(1) [OF _ this] Suc.hyps(2) c Inr show ?thesis by simp
  qed (use Suc.prems(1) q n c in \<open>simp add: Cons_nth_drop_Suc [symmetric]\<close>)
qed simp

lemma keeps_turn:
  assumes "engine_wf s" "en_queue s = x # q" "keeps s"
    and "fold_prog (call_handler (entry_event x)) (en_handlers s (event_kind_of (entry_event x))) () (popped x q s) = (r, s')"
  shows "keeps s'"
proof -
  let ?e = "entry_event x" and ?t = "popped x q s"
  have k: "en_handlers s = hs" "Q (en_world s) ?e" "J (en_world s)" "ids (en_world s) \<subseteq> set (en_processed s)"
    using assms(2,3) by (simp_all add: keeps_def)
  have fresh: "event_id_of ?e \<notin> set (en_processed s)" by (rule dequeue_wf(3) [OF assms(1,2)])
  have t: "en_world ?t = en_world s" "en_processed ?t = event_id_of ?e # en_processed s"
    "en_queue ?t = q" "en_handlers ?t = en_handlers s" "history_events ?t = history_events s @ [?e]"
    by (simp_all add: popped_def record_processed_def history_events_def)
  have "keeps ?t" using assms(2,3) t by (auto simp: keeps_def)
  moreover have "stage ?e 0 (en_world ?t)" using stage_start [OF k(3,2)] fresh k(4) t by auto
  ultimately show ?thesis using keeps_handlers [of ?e 0 ?t r s'] assms(4) k t by simp
qed

lemma keeps_loop: "engine_wf s \<Longrightarrow> keeps s \<Longrightarrow> keeps (snd (engine_loop acc s))"
proof (induction acc s rule: engine_loop_induct)
  case (raise acc s x q err s')
  show ?case unfolding snd_conv by (rule keeps_turn [OF raise(1,2) raise.prems raise(4)])
next
  case (turn acc s x q s' r)
  show ?case by (rule turn.IH [OF keeps_turn [OF turn(1,2) turn.prems turn(4)]])
qed auto

text \<open>Publications of events acceptable in every world, and runs, keep the contract.\<close>

definition acceptable :: "'w engine_op \<Rightarrow> bool" where
  "acceptable x = (case x of OpSubscribe _ _ \<Rightarrow> False | OpPublish e \<Rightarrow> \<forall>w. Q w e | OpRun \<Rightarrow> True)"

lemma run_keeps: "engine_wf s \<Longrightarrow> keeps s \<Longrightarrow> list_all acceptable ops \<Longrightarrow> keeps (run engine_step s ops)"
proof (induction ops arbitrary: s)
  case (Cons x ops)
  have "keeps (engine_step s x)"
  proof (cases x)
    case (OpPublish e)
    obtain r s' where "publish e s = (r, s')" by fastforce
    with keeps_publish [OF this] Cons.prems OpPublish show ?thesis by (simp add: acceptable_def)
  next
    case OpRun
    with keeps_loop [OF Cons.prems(1,2), of "[]"] show ?thesis
      by (auto simp: engine_run_all_def split: prod.splits sum.splits)
  qed (use Cons.prems in \<open>simp add: acceptable_def\<close>)
  with Cons show ?case by (simp add: engine_step_wf)
qed simp

end

text \<open>Without memory and stages: handlers that lead from worlds satisfying \<open>J\<close> and events satisfying
  \<open>Q\<close>, also when they raise, to worlds satisfying \<open>J\<close> and emit events satisfying \<open>Q\<close>.\<close>

locale handler_contract =
  fixes hs :: "event_kind \<Rightarrow> 'w handler list"
    and J :: "'w \<Rightarrow> bool"
    and Q :: "domain_event \<Rightarrow> bool"
  assumes handler_keeps: "h \<in> set (hs (event_kind_of e)) \<Longrightarrow> Q e \<Longrightarrow> J w \<Longrightarrow> h e w = (r, w') \<Longrightarrow> J w'"
    and handler_emits: "h \<in> set (hs (event_kind_of e)) \<Longrightarrow> Q e \<Longrightarrow> J w \<Longrightarrow> h e w = (Inr es, w') \<Longrightarrow>
      x \<in> set es \<Longrightarrow> Q x"
begin

sublocale staged_contract hs "\<lambda>_. {}" J "\<lambda>_. Q" "\<lambda>_ _ _. True"
  by unfold_locales (use handler_keeps handler_emits nth_mem in blast)+

end

end
