(* ===== verification/Paper_Ledger.thy ===== *)
theory Paper_Ledger
  imports Events
begin

text \<open>
  Futures costs (\<open>futures_costs.py\<close>), stop-loss and take-profit levels (\<open>risk/engine.py\<close>) and the
  owner-scoped position ledger (\<open>execution/position_ledger.py\<close>), which derives positions,
  realised trades and profit from fills alone.
\<close>

section \<open>Costs\<close>

record futures_costs =
  fc_multiplier :: rat
  fc_commission_per_side :: rat
  fc_tax_rate :: rat
  fc_slippage_points :: rat

definition check_futures_costs :: "futures_costs \<Rightarrow> futures_costs res" where
  "check_futures_costs c = first_error
     [(fc_multiplier c \<le> 0, ValueError ''multiplier must be positive''),
      (fc_commission_per_side c < 0, ValueError ''commission_per_side cannot be negative''),
      (fc_tax_rate c < 0, ValueError ''tax_rate cannot be negative''),
      (fc_slippage_points c < 0, ValueError ''slippage_points cannot be negative'')] c"

definition default_futures_costs :: futures_costs where
  "default_futures_costs = \<lparr> fc_multiplier = 10, fc_commission_per_side = 10,
     fc_tax_rate = 2 / 100000, fc_slippage_points = 1 \<rparr>"

text \<open>\<open>FuturesCostConfig.side_cost\<close>: the commission and the tax, rounded to whole dollars.\<close>

definition side_cost :: "futures_costs \<Rightarrow> price \<Rightarrow> int \<Rightarrow> (rat \<times> rat) res" where
  "side_cost c p n = (if p \<le> 0 \<or> n \<le> 0 then Inl (ValueError ''price and contracts must be positive'')
     else Inr (fc_commission_per_side c * of_int n,
               of_int (py_round (p * fc_multiplier c * of_int n * fc_tax_rate c))))"

lemma side_cost_nonneg: "check_futures_costs c = Inr c' \<Longrightarrow> side_cost c p n = Inr (k, t) \<Longrightarrow> 0 \<le> k \<and> 0 \<le> t"
  by (auto simp: check_futures_costs_def first_error_Inr side_cost_def split: if_splits
      intro!: py_round_nonneg mult_nonneg_nonneg)

section \<open>Stop-loss and take-profit levels\<close>

record risk_config =
  rk_stop_loss_pct :: rat
  rk_take_profit_pct :: rat

definition check_risk_config :: "risk_config \<Rightarrow> risk_config res" where
  "check_risk_config c = first_error
     [(\<not> (0 < rk_stop_loss_pct c \<and> rk_stop_loss_pct c < 1), ValueError ''stop_loss_pct must be between 0 and 1''),
      (\<not> (0 < rk_take_profit_pct c \<and> rk_take_profit_pct c < 1), ValueError ''take_profit_pct must be between 0 and 1'')] c"

definition default_risk :: risk_config where
  "default_risk = \<lparr> rk_stop_loss_pct = 6 / 1000, rk_take_profit_pct = 12 / 1000 \<rparr>"

record risk_levels =
  rl_stop_loss_price :: price
  rl_take_profit_price :: price

definition calculate_levels :: "price \<Rightarrow> int \<Rightarrow> risk_config \<Rightarrow> risk_levels res" where
  "calculate_levels entry dir c = first_error
     [(entry \<le> 0, ValueError ''entry_price must be positive''),
      (dir \<noteq> 1 \<and> dir \<noteq> -1, ValueError ''direction must be 1 or -1'')]
     \<lparr> rl_stop_loss_price = entry * (if dir = 1 then 1 - rk_stop_loss_pct c else 1 + rk_stop_loss_pct c),
       rl_take_profit_price = entry * (if dir = 1 then 1 + rk_take_profit_pct c else 1 - rk_take_profit_pct c) \<rparr>"

datatype level_exit = ExitStopLoss | ExitTakeProfit

definition triggered_exit :: "int \<Rightarrow> price \<Rightarrow> price \<Rightarrow> price \<Rightarrow> risk_levels \<Rightarrow> (price \<times> level_exit) option" where
  "triggered_exit dir opn high low l =
     (if dir = 1 then
        if low \<le> rl_stop_loss_price l then Some (min opn (rl_stop_loss_price l), ExitStopLoss)
        else if high \<ge> rl_take_profit_price l then Some (max opn (rl_take_profit_price l), ExitTakeProfit)
        else None
      else
        if high \<ge> rl_stop_loss_price l then Some (max opn (rl_stop_loss_price l), ExitStopLoss)
        else if low \<le> rl_take_profit_price l then Some (min opn (rl_take_profit_price l), ExitTakeProfit)
        else None)"

lemma calculate_levels_order:
  assumes "check_risk_config c = Inr c" "calculate_levels entry dir c = Inr l"
  shows "0 < rl_stop_loss_price l" and "0 < rl_take_profit_price l"
    and "dir = 1 \<Longrightarrow> rl_stop_loss_price l < entry \<and> entry < rl_take_profit_price l"
    and "dir \<noteq> 1 \<Longrightarrow> rl_take_profit_price l < entry \<and> entry < rl_stop_loss_price l"
  using assms by (auto simp: check_risk_config_def calculate_levels_def first_error_Inr
      mult_less_cancel_left2 mult_less_cancel_left1 intro!: mult_pos_pos)

section \<open>The ledger\<close>

record pos_key =
  pk_owner :: string
  pk_strategy :: string
  pk_version :: int
  pk_symbol :: string
  pk_contract :: string

record pos_state =
  ps_quantity :: int
  ps_average_price :: price
  ps_opened_at :: "instant option"
  ps_entry_commission :: rat
  ps_entry_tax :: rat
  ps_realized_pnl :: rat
  ps_total_cost :: rat
  ps_source :: order_source
  ps_runtime :: "string option"
  ps_decision :: "string option"
  ps_entry_fill_price :: "price option"
  ps_stop_loss_price :: "price option"
  ps_take_profit_price :: "price option"
  ps_snapshot :: strategy_snapshot

definition new_pos_state :: pos_state where
  "new_pos_state = \<lparr> ps_quantity = 0, ps_average_price = 0, ps_opened_at = None,
     ps_entry_commission = 0, ps_entry_tax = 0, ps_realized_pnl = 0, ps_total_cost = 0,
     ps_source = ManualOrder, ps_runtime = None, ps_decision = None, ps_entry_fill_price = None,
     ps_stop_loss_price = None, ps_take_profit_price = None, ps_snapshot = None \<rparr>"

record realized_trade =
  rt_key :: pos_key
  rt_direction :: signal_direction
  rt_quantity :: int
  rt_entry_time :: instant
  rt_exit_time :: instant
  rt_entry_price :: price
  rt_exit_price :: price
  rt_gross_pnl :: rat
  rt_commission :: rat
  rt_tax :: rat
  rt_total_cost :: rat
  rt_net_pnl :: rat
  rt_exit_reason :: string
  rt_exit_order_id :: string
  rt_trading_date :: "date option"

record ledger =
  lg_multiplier :: rat
  lg_positions :: "(pos_key \<times> pos_state) list"
  lg_seen_fills :: "string list"
  lg_trades :: "realized_trade list"

definition new_ledger :: "rat \<Rightarrow> ledger res" where
  "new_ledger m = first_error [(m \<le> 0, ValueError ''multiplier must be positive'')]
     \<lparr> lg_multiplier = m, lg_positions = [], lg_seen_fills = [], lg_trades = [] \<rparr>"

text \<open>\<open>PositionLedger._owner\<close>.\<close>

definition execution_owner :: "domain_event \<Rightarrow> string res" where
  "execution_owner e = (if truthy (em_owner (event_meta_of e)) then Inr (the (em_owner (event_meta_of e)))
     else Inl (ValueError (kind_value (event_kind_of e) @ '' execution event requires owner_id'')))"

definition ledger_state :: "ledger \<Rightarrow> pos_key \<Rightarrow> pos_state option" where
  "ledger_state l k = map_of (lg_positions l) k"

definition open_positions :: "ledger \<Rightarrow> (pos_key \<times> pos_state) list" where
  "open_positions l = filter (\<lambda>p. ps_quantity (snd p) \<noteq> 0) (lg_positions l)"

definition fill_cost :: "fill_event \<Rightarrow> rat" where
  "fill_cost f = fe_commission f + fe_tax f"

definition unrealized :: "rat \<Rightarrow> pos_state \<Rightarrow> price \<Rightarrow> rat" where
  "unrealized m st mark = (if ps_quantity st = 0 then 0
     else (mark - ps_average_price st) * (if 0 < ps_quantity st then 1 else -1)
            * of_int \<bar>ps_quantity st\<bar> * m - ps_entry_commission st - ps_entry_tax st)"

text \<open>\<open>PositionLedger._event\<close>.\<close>

definition ledger_position_event :: "hashing \<Rightarrow> rat \<Rightarrow> pos_key \<Rightarrow> pos_state \<Rightarrow> domain_event \<Rightarrow> price \<Rightarrow> position_event res" where
  "ledger_position_event h m k st cause mark =
     (case create_meta h KPosition (event_at cause) ''position_ledger''
         (join '':'' [event_id_of cause, pk_owner k, pk_strategy k, show_int (pk_version k), pk_contract k])
         (em_correlation (event_meta_of cause)) (Some (event_id_of cause)) (Some (pk_owner k)) of
       Inl e \<Rightarrow> Inl e
     | Inr meta \<Rightarrow> check_position
         \<lparr> pe_meta = meta, pe_strategy = pk_strategy k, pe_version = pk_version k,
           pe_symbol = pk_symbol k, pe_contract = pk_contract k, pe_quantity = ps_quantity st,
           pe_average_price = ps_average_price st, pe_realized_pnl = ps_realized_pnl st,
           pe_unrealized_pnl = unrealized m st mark, pe_total_cost = ps_total_cost st,
           pe_source = ps_source st, pe_runtime = ps_runtime st, pe_decision = ps_decision st,
           pe_entry_fill_price = ps_entry_fill_price st, pe_stop_loss_price = ps_stop_loss_price st,
           pe_take_profit_price = ps_take_profit_price st, pe_snapshot = ps_snapshot st \<rparr>)"

definition ledger_fill_key :: "string \<Rightarrow> fill_event \<Rightarrow> pos_key" where
  "ledger_fill_key owner f = \<lparr> pk_owner = owner, pk_strategy = fe_strategy f, pk_version = fe_version f,
     pk_symbol = fe_symbol f, pk_contract = fe_contract f \<rparr>"

definition signed_fill :: "fill_event \<Rightarrow> int" where
  "signed_fill f = (if fe_side f = Buy then fe_quantity f else - fe_quantity f)"

text \<open>A flat position takes the provenance of the fill.\<close>

definition adopt_fill :: "fill_event \<Rightarrow> pos_state \<Rightarrow> pos_state" where
  "adopt_fill f st = (if ps_quantity st = 0
     then st\<lparr>ps_source := fe_source f, ps_runtime := fe_runtime f, ps_decision := fe_decision f,
        ps_entry_fill_price := Some (fe_price f), ps_stop_loss_price := fe_stop_loss_price f,
        ps_take_profit_price := fe_take_profit_price f, ps_snapshot := fe_snapshot f\<rparr>
     else st)"

definition increase_position :: "fill_event \<Rightarrow> pos_state \<Rightarrow> pos_state" where
  "increase_position f st =
     (let old = ps_quantity st; old_abs = \<bar>old\<bar>; fill_abs = \<bar>signed_fill f\<bar> in
      st\<lparr>ps_average_price := (ps_average_price st * of_int old_abs + fe_price f * of_int fill_abs) / of_int (old_abs + fill_abs),
         ps_quantity := old + signed_fill f,
         ps_entry_commission := ps_entry_commission st + fe_commission f,
         ps_entry_tax := ps_entry_tax st + fe_tax f,
         ps_opened_at := (if old = 0 then Some (em_at (fe_meta f)) else ps_opened_at st)\<rparr>)"

text \<open>The trade realised by a fill against the position, and the position it leaves.\<close>

definition closing_trade :: "rat \<Rightarrow> pos_key \<Rightarrow> fill_event \<Rightarrow> pos_state \<Rightarrow> realized_trade" where
  "closing_trade m k f st =
     (let old = ps_quantity st; old_abs = \<bar>old\<bar>; fill_abs = \<bar>signed_fill f\<bar>;
          closing = min old_abs fill_abs;
          opening_ratio = of_int closing / of_int old_abs;
          fill_close_ratio = of_int closing / of_int fill_abs;
          gross = (fe_price f - ps_average_price st) * (if 0 < old then 1 else -1) * of_int closing * m;
          commission = ps_entry_commission st * opening_ratio + fe_commission f * fill_close_ratio;
          tax = ps_entry_tax st * opening_ratio + fe_tax f * fill_close_ratio in
      \<lparr> rt_key = k, rt_direction = (if 0 < old then LongSide else ShortSide), rt_quantity = closing,
        rt_entry_time = (case ps_opened_at st of Some t \<Rightarrow> t | None \<Rightarrow> em_at (fe_meta f)),
        rt_exit_time = em_at (fe_meta f), rt_entry_price = ps_average_price st,
        rt_exit_price = fe_price f, rt_gross_pnl = gross, rt_commission = commission, rt_tax = tax,
        rt_total_cost = commission + tax, rt_net_pnl = gross - commission - tax,
        rt_exit_reason = fe_reason f, rt_exit_order_id = fe_order_id f,
        rt_trading_date = fe_trading_date f \<rparr>)"

definition reduce_position :: "realized_trade \<Rightarrow> fill_event \<Rightarrow> pos_state \<Rightarrow> pos_state" where
  "reduce_position tr f st =
     (let old = ps_quantity st; old_abs = \<bar>old\<bar>; fill_abs = \<bar>signed_fill f\<bar>;
          closing = min old_abs fill_abs;
          opening_ratio = of_int closing / of_int old_abs;
          st1 = st\<lparr>ps_realized_pnl := ps_realized_pnl st + rt_net_pnl tr,
             ps_entry_commission := ps_entry_commission st - ps_entry_commission st * opening_ratio,
             ps_entry_tax := ps_entry_tax st - ps_entry_tax st * opening_ratio,
             ps_quantity := old + signed_fill f\<rparr> in
      if ps_quantity st1 = 0
      then st1\<lparr>ps_average_price := 0, ps_opened_at := None, ps_entry_commission := 0, ps_entry_tax := 0,
             ps_entry_fill_price := None, ps_stop_loss_price := None, ps_take_profit_price := None,
             ps_snapshot := None\<rparr>
      else if old * ps_quantity st1 < 0
      then st1\<lparr>ps_average_price := fe_price f, ps_opened_at := Some (em_at (fe_meta f)),
             ps_entry_commission := fe_commission f * (of_int (fill_abs - closing) / of_int fill_abs),
             ps_entry_tax := fe_tax f * (of_int (fill_abs - closing) / of_int fill_abs)\<rparr>
      else st1)"

text \<open>One fill against one position: the new position and the trade it realises, if any.\<close>

definition apply_fill :: "rat \<Rightarrow> pos_key \<Rightarrow> fill_event \<Rightarrow> pos_state \<Rightarrow> pos_state \<times> realized_trade option" where
  "apply_fill m k f st0 =
     (let st1 = adopt_fill f st0; st = st1\<lparr>ps_total_cost := ps_total_cost st1 + fill_cost f\<rparr> in
      if ps_quantity st = 0 \<or> 0 < ps_quantity st * signed_fill f
      then (increase_position f st, None)
      else let tr = closing_trade m k f st in (reduce_position tr f st, Some tr))"

text \<open>\<open>PositionLedger.on_fill\<close>.  The fill is remembered before its owner is checked, and the
  position is updated before the position event is validated.\<close>

definition ledger_on_fill :: "hashing \<Rightarrow> domain_event \<Rightarrow> (ledger, domain_event list) prog" where
  "ledger_on_fill h e l = (case e of
     EvFill f \<Rightarrow>
       if fe_fill_id f \<in> set (lg_seen_fills l) then (Inr [], l)
       else let l1 = l\<lparr>lg_seen_fills := fe_fill_id f # lg_seen_fills l\<rparr> in
         (case execution_owner e of
            Inl err \<Rightarrow> (Inl err, l1)
          | Inr owner \<Rightarrow>
              let k = ledger_fill_key owner f;
                  st = (case ledger_state l k of Some s \<Rightarrow> s | None \<Rightarrow> new_pos_state);
                  (st', tr) = apply_fill (lg_multiplier l) k f st;
                  l2 = l1\<lparr>lg_positions := dict_put k st' (lg_positions l),
                          lg_trades := lg_trades l @ (case tr of None \<Rightarrow> [] | Some t \<Rightarrow> [t])\<rparr> in
              (case ledger_position_event h (lg_multiplier l) k st' e (fe_price f) of
                 Inl err \<Rightarrow> (Inl err, l2)
               | Inr pe \<Rightarrow> (Inr [EvPosition pe], l2)))
   | _ \<Rightarrow> (Inl (TypeError ''PositionLedger.on_fill requires FillEvent''), l))"

definition mark_to_market :: "hashing \<Rightarrow> domain_event \<Rightarrow> (ledger, domain_event list) prog" where
  "mark_to_market h e l = (case e of
     EvBar b \<Rightarrow>
       (case mapM (\<lambda>p. ledger_position_event h (lg_multiplier l) (fst p) (snd p) e (be_close b))
           (filter (\<lambda>p. pk_symbol (fst p) = be_symbol b \<and> pk_contract (fst p) = be_contract b) (open_positions l)) of
          Inl err \<Rightarrow> (Inl err, l)
        | Inr es \<Rightarrow> (Inr (map EvPosition es), l))
   | _ \<Rightarrow> (Inl (TypeError ''PositionLedger.mark_to_market requires BarClosedEvent''), l))"

section \<open>Profit and loss is the cash flow of the fills\<close>

definition flat_clean :: "pos_state \<Rightarrow> bool" where
  "flat_clean st \<longleftrightarrow> (ps_quantity st = 0 \<longrightarrow>
     ps_average_price st = 0 \<and> ps_entry_commission st = 0 \<and> ps_entry_tax st = 0)"

definition equity :: "rat \<Rightarrow> price \<Rightarrow> pos_state \<Rightarrow> rat" where
  "equity m mark st = ps_realized_pnl st + unrealized m st mark"

lemma equity_signed: "flat_clean st \<Longrightarrow> equity m mark st = ps_realized_pnl st
    + of_int (ps_quantity st) * (mark - ps_average_price st) * m - ps_entry_commission st - ps_entry_tax st"
  by (auto simp: equity_def unrealized_def flat_clean_def algebra_simps abs_if)

text \<open>The reference: what a fill contributes to the value of the account at a mark price.\<close>

definition cash_flow :: "rat \<Rightarrow> price \<Rightarrow> fill_event \<Rightarrow> rat" where
  "cash_flow m mark f = of_int (signed_fill f) * (mark - fe_price f) * m - fill_cost f"

definition net_of :: "realized_trade option \<Rightarrow> rat" where
  "net_of tr = (case tr of None \<Rightarrow> 0 | Some t \<Rightarrow> rt_net_pnl t)"

definition trades_of :: "realized_trade option \<Rightarrow> realized_trade list" where
  "trades_of tr = (case tr of None \<Rightarrow> [] | Some t \<Rightarrow> [t])"

lemma signed_fill_nonzero: "0 < fe_quantity f \<Longrightarrow> signed_fill f \<noteq> 0"
  by (simp add: signed_fill_def)

lemma adopt_fill_fields [simp]:
  "ps_quantity (adopt_fill f st) = ps_quantity st" "ps_average_price (adopt_fill f st) = ps_average_price st"
  "ps_entry_commission (adopt_fill f st) = ps_entry_commission st" "ps_entry_tax (adopt_fill f st) = ps_entry_tax st"
  "ps_realized_pnl (adopt_fill f st) = ps_realized_pnl st" "ps_total_cost (adopt_fill f st) = ps_total_cost st"
  "ps_opened_at (adopt_fill f st) = ps_opened_at st"
  by (simp_all add: adopt_fill_def)

text \<open>The three ways a fill changes a position.\<close>

lemma increase_position_equity:
  assumes "flat_clean st" "signed_fill f \<noteq> 0" "ps_quantity st = 0 \<or> 0 < ps_quantity st * signed_fill f"
  shows "flat_clean (increase_position f st)"
    and "equity m mark (increase_position f st) = equity m mark st + cash_flow m mark f"
proof -
  let ?q = "ps_quantity st" and ?s = "signed_fill f"
  have same: "0 \<le> ?q \<and> 0 < ?s \<or> ?q \<le> 0 \<and> ?s < 0"
    using assms(2,3) by (auto simp: zero_less_mult_iff)
  then show clean: "flat_clean (increase_position f st)"
    by (auto simp: flat_clean_def increase_position_def Let_def)
  define sg where "sg = (if 0 < ?s then 1 else -1 :: rat)"
  have ab: "of_int \<bar>?q\<bar> = sg * of_int ?q" "of_int \<bar>?s\<bar> = sg * of_int ?s" and sg: "sg * sg = 1" "sg \<noteq> 0"
    using same by (auto simp: sg_def)
  have nz: "(of_int (?q + ?s) :: rat) \<noteq> 0" using same by (auto simp: of_int_eq_0_iff simp del: of_int_add)
  have "(of_int (\<bar>?q\<bar> + \<bar>?s\<bar>) :: rat) = sg * of_int (?q + ?s)"
    using ab by (simp add: algebra_simps)
  then have avg: "ps_average_price (increase_position f st) * of_int (?q + ?s)
      = ps_average_price st * of_int ?q + fe_price f * of_int ?s"
    using nz sg ab by (simp add: increase_position_def Let_def field_simps)
  have "equity m mark (increase_position f st) = ps_realized_pnl st
      + (of_int (?q + ?s) * mark - ps_average_price (increase_position f st) * of_int (?q + ?s)) * m
      - (ps_entry_commission st + fe_commission f) - (ps_entry_tax st + fe_tax f)"
    by (subst equity_signed [OF clean]) (simp add: increase_position_def Let_def algebra_simps)
  also have "\<dots> = equity m mark st + cash_flow m mark f"
    unfolding avg equity_signed [OF assms(1)] by (simp add: cash_flow_def fill_cost_def algebra_simps)
  finally show "equity m mark (increase_position f st) = equity m mark st + cash_flow m mark f" .
qed

lemma reduce_position_equity:
  assumes "ps_quantity st \<noteq> 0" "signed_fill f \<noteq> 0" "ps_quantity st * signed_fill f \<le> 0"
  shows "flat_clean (reduce_position (closing_trade m k f st) f st)"
    and "equity m mark (reduce_position (closing_trade m k f st) f st) = equity m mark st + cash_flow m mark f"
proof -
  let ?q = "ps_quantity st" and ?s = "signed_fill f" and ?r = "reduce_position (closing_trade m k f st) f st"
  have opp: "0 < ?q \<and> ?s < 0 \<or> ?q < 0 \<and> 0 < ?s"
    using assms by (auto simp: mult_le_0_iff)
  have c0: "flat_clean st" using assms(1) by (simp add: flat_clean_def)
  show clean: "flat_clean ?r"
    by (auto simp: flat_clean_def reduce_position_def Let_def)
  show "equity m mark ?r = equity m mark st + cash_flow m mark f"
  proof -
    define a b where "a = \<bar>?q\<bar>" and "b = \<bar>?s\<bar>"
    define sg where "sg = (if 0 < ?q then 1 else -1 :: int)"
    have q: "?q = sg * a" "?s = - sg * b" "(if 0 < ?q then 1 else - 1 :: rat) = of_int sg"
      and pos: "0 < a" "0 < b" and sg: "sg = 1 \<or> sg = -1"
      using opp by (auto simp: a_def b_def sg_def)
    have ratio: "(of_int a :: rat) \<noteq> 0" "(of_int b :: rat) \<noteq> 0" using pos by auto
    have ab: "\<bar>of_int a * of_int sg :: rat\<bar> = of_int a" "\<bar>of_int b * of_int sg :: rat\<bar> = of_int b" using pos sg by (auto simp: abs_mult)
    consider "b < a" | "a = b" | "a < b" by linarith
    then show ?thesis
    proof cases
      case 1
      then have "min a b = b" "sg * a + - sg * b \<noteq> 0" "\<not> sg * a * (sg * a + - sg * b) < 0"
        using sg pos by (auto simp: mult_less_0_iff)
      then show ?thesis unfolding equity_signed [OF clean] equity_signed [OF c0]
        using ratio
        by (simp add: reduce_position_def closing_trade_def Let_def cash_flow_def fill_cost_def q(3)
            a_def [symmetric] b_def [symmetric]) (simp add: q ab field_simps)
    next
      case 2
      then show ?thesis unfolding equity_signed [OF clean] equity_signed [OF c0]
        using ratio
        by (simp add: reduce_position_def closing_trade_def Let_def cash_flow_def fill_cost_def q(3)
            a_def [symmetric] b_def [symmetric]) (simp add: q ab field_simps)
    next
      case 3
      then have "min a b = a" "sg * a + - sg * b \<noteq> 0" "sg * a * (sg * a + - sg * b) < 0"
        using sg pos by (auto simp: mult_less_0_iff)
      then show ?thesis unfolding equity_signed [OF clean] equity_signed [OF c0]
        using ratio
        by (simp add: reduce_position_def closing_trade_def Let_def cash_flow_def fill_cost_def q(3)
            a_def [symmetric] b_def [symmetric]) (simp add: q ab field_simps)
    qed
  qed
qed

lemma increase_position_fields [simp]:
  "ps_quantity (increase_position f st) = ps_quantity st + signed_fill f"
  "ps_total_cost (increase_position f st) = ps_total_cost st"
  "ps_realized_pnl (increase_position f st) = ps_realized_pnl st"
  by (simp_all add: increase_position_def Let_def)

lemma reduce_position_fields [simp]:
  "ps_quantity (reduce_position tr f st) = ps_quantity st + signed_fill f"
  "ps_total_cost (reduce_position tr f st) = ps_total_cost st"
  "ps_realized_pnl (reduce_position tr f st) = ps_realized_pnl st + rt_net_pnl tr"
  by (simp_all add: reduce_position_def Let_def)

lemma closing_trade_key [simp]: "rt_key (closing_trade m k f st) = k"
  by (simp add: closing_trade_def Let_def)

lemma apply_fill_equity:
  assumes "0 < fe_quantity f" "flat_clean st" "apply_fill m k f st = (st', tr)"
  shows "flat_clean st'" "equity m mark st' = equity m mark st + cash_flow m mark f"
    "ps_quantity st' = ps_quantity st + signed_fill f"
    "ps_total_cost st' = ps_total_cost st + fill_cost f"
    "ps_realized_pnl st' = ps_realized_pnl st + net_of tr"
    "\<forall>t \<in> set (trades_of tr). rt_key t = k"
proof -
  define s1 where "s1 = (adopt_fill f st)\<lparr>ps_total_cost := ps_total_cost (adopt_fill f st) + fill_cost f\<rparr>"
  have s1: "flat_clean s1" "equity m mark s1 = equity m mark st" "ps_quantity s1 = ps_quantity st"
    "ps_total_cost s1 = ps_total_cost st + fill_cost f" "ps_realized_pnl s1 = ps_realized_pnl st"
    using assms(2) by (simp_all add: s1_def flat_clean_def equity_def unrealized_def)
  have sf: "signed_fill f \<noteq> 0" using assms(1) by (rule signed_fill_nonzero)
  have ap: "apply_fill m k f st = (if ps_quantity s1 = 0 \<or> 0 < ps_quantity s1 * signed_fill f
      then (increase_position f s1, None)
      else (reduce_position (closing_trade m k f s1) f s1, Some (closing_trade m k f s1)))"
    by (simp add: apply_fill_def Let_def s1_def)
  have "flat_clean st' \<and> equity m mark st' = equity m mark st + cash_flow m mark f
    \<and> ps_quantity st' = ps_quantity st + signed_fill f \<and> ps_total_cost st' = ps_total_cost st + fill_cost f
    \<and> ps_realized_pnl st' = ps_realized_pnl st + net_of tr \<and> (\<forall>t \<in> set (trades_of tr). rt_key t = k)"
  proof (cases "ps_quantity s1 = 0 \<or> 0 < ps_quantity s1 * signed_fill f")
    case True
    with assms(3) ap have "st' = increase_position f s1" "tr = None" by simp_all
    with s1 increase_position_equity [OF s1(1) sf True] show ?thesis
      by (simp add: net_of_def trades_of_def)
  next
    case False
    then have nz: "ps_quantity s1 \<noteq> 0" "ps_quantity s1 * signed_fill f \<le> 0" by simp_all
    from assms(3) ap False have "st' = reduce_position (closing_trade m k f s1) f s1" "tr = Some (closing_trade m k f s1)"
      by simp_all
    with s1 reduce_position_equity [OF nz(1) sf nz(2)] show ?thesis
      by (simp add: net_of_def trades_of_def)
  qed
  then show "flat_clean st'" "equity m mark st' = equity m mark st + cash_flow m mark f"
    "ps_quantity st' = ps_quantity st + signed_fill f"
    "ps_total_cost st' = ps_total_cost st + fill_cost f"
    "ps_realized_pnl st' = ps_realized_pnl st + net_of tr"
    "\<forall>t \<in> set (trades_of tr). rt_key t = k" by simp_all
qed

text \<open>The fills a ledger accepts: the first of each identifier, with an owner.\<close>

definition fill_owner :: "fill_event \<Rightarrow> string option" where
  "fill_owner f = em_owner (fe_meta f)"

fun accepted_fills :: "string list \<Rightarrow> fill_event list \<Rightarrow> fill_event list" where
  "accepted_fills seen [] = []"
| "accepted_fills seen (f # fs) =
     (if fe_fill_id f \<in> set seen then accepted_fills seen fs
      else (if truthy (fill_owner f) then [f] else []) @ accepted_fills (fe_fill_id f # seen) fs)"

definition fills_of_key :: "pos_key \<Rightarrow> fill_event list \<Rightarrow> fill_event list" where
  "fills_of_key k fs = filter (\<lambda>f. ledger_fill_key (the (fill_owner f)) f = k) fs"

definition ledger_position_at :: "ledger \<Rightarrow> pos_key \<Rightarrow> pos_state" where
  "ledger_position_at l k = (case ledger_state l k of Some st \<Rightarrow> st | None \<Rightarrow> new_pos_state)"

definition key_matches :: "ledger \<Rightarrow> fill_event list \<Rightarrow> price \<Rightarrow> pos_key \<Rightarrow> bool" where
  "key_matches l fs mark k \<longleftrightarrow>
     flat_clean (ledger_position_at l k)
     \<and> ps_quantity (ledger_position_at l k) = sum_list (map signed_fill (fills_of_key k fs))
     \<and> equity (lg_multiplier l) mark (ledger_position_at l k)
         = sum_list (map (cash_flow (lg_multiplier l) mark) (fills_of_key k fs))
     \<and> ps_total_cost (ledger_position_at l k) = sum_list (map fill_cost (fills_of_key k fs))
     \<and> ps_realized_pnl (ledger_position_at l k)
         = sum_list (map rt_net_pnl (filter (\<lambda>t. rt_key t = k) (lg_trades l)))"

text \<open>One accepted fill, without the event it emits.\<close>

definition ledger_apply :: "fill_event \<Rightarrow> ledger \<Rightarrow> ledger" where
  "ledger_apply f l =
     (let k = ledger_fill_key (the (fill_owner f)) f; (st', tr) = apply_fill (lg_multiplier l) k f (ledger_position_at l k) in
      l\<lparr>lg_seen_fills := fe_fill_id f # lg_seen_fills l, lg_positions := dict_put k st' (lg_positions l),
        lg_trades := lg_trades l @ trades_of tr\<rparr>)"

lemma ledger_on_fill_state: "snd (ledger_on_fill h (EvFill f) l) =
    (if fe_fill_id f \<in> set (lg_seen_fills l) then l
     else if truthy (fill_owner f) then ledger_apply f l
     else l\<lparr>lg_seen_fills := fe_fill_id f # lg_seen_fills l\<rparr>)"
  by (auto simp: ledger_on_fill_def execution_owner_def ledger_apply_def fill_owner_def ledger_position_at_def
      trades_of_def Let_def split: prod.splits sum.splits)

lemma position_at_put: "ledger_state (l\<lparr>lg_positions := dict_put k st ps\<rparr>) x
    = (if x = k then Some st else map_of ps x)"
  by (simp add: ledger_state_def)

lemma ledger_apply_matches:
  assumes "0 < fe_quantity f" "\<And>k. key_matches l fs mark k"
  shows "key_matches (ledger_apply f l) (fs @ [f]) mark k"
proof -
  let ?k = "ledger_fill_key (the (fill_owner f)) f"
  obtain st' tr where ap: "apply_fill (lg_multiplier l) ?k f (ledger_position_at l ?k) = (st', tr)" by fastforce
  have fc: "flat_clean (ledger_position_at l ?k)" using assms(2) by (simp add: key_matches_def)
  note eq = apply_fill_equity [OF assms(1) fc ap]
  have l': "ledger_apply f l = l\<lparr>lg_seen_fills := fe_fill_id f # lg_seen_fills l,
      lg_positions := dict_put ?k st' (lg_positions l), lg_trades := lg_trades l @ trades_of tr\<rparr>"
    by (simp add: ledger_apply_def ap)
  have pos: "ledger_position_at (ledger_apply f l) x = (if x = ?k then st' else ledger_position_at l x)" for x
    by (simp add: l' ledger_position_at_def ledger_state_def)
  have net: "sum_list (map rt_net_pnl (filter (\<lambda>t. rt_key t = k) (trades_of tr)))
      = (if k = ?k then net_of tr else 0)"
    using eq(6) by (auto simp: trades_of_def net_of_def split: option.splits)
  show ?thesis
  proof (cases "k = ?k")
    case True
    with assms(2) [of k] eq(1,3-5) eq(2) [of mark] net show ?thesis
      by (simp add: key_matches_def pos fills_of_key_def) (simp add: l')
  next
    case False
    with assms(2) [of k] net show ?thesis
      by (simp add: key_matches_def pos fills_of_key_def) (simp add: l')
  qed
qed

lemma key_matches_seen [simp]: "key_matches (l\<lparr>lg_seen_fills := s\<rparr>) fs mark k = key_matches l fs mark k"
  by (simp add: key_matches_def ledger_position_at_def ledger_state_def)

definition ledger_step :: "hashing \<Rightarrow> ledger \<Rightarrow> fill_event \<Rightarrow> ledger" where
  "ledger_step h l f = snd (ledger_on_fill h (EvFill f) l)"

lemma ledger_apply_fields [simp]: "lg_multiplier (ledger_apply f l) = lg_multiplier l"
  "lg_seen_fills (ledger_apply f l) = fe_fill_id f # lg_seen_fills l"
  by (simp_all add: ledger_apply_def Let_def split: prod.splits)

lemma ledger_run_matches:
  assumes "\<forall>f \<in> set fs. 0 < fe_quantity f" "\<And>k. key_matches l prev mark k"
  shows "key_matches (run (ledger_step h) l fs) (prev @ accepted_fills (lg_seen_fills l) fs) mark k"
  using assms
proof (induction fs arbitrary: l prev)
  case (Cons f fs)
  show ?case
  proof (cases "fe_fill_id f \<in> set (lg_seen_fills l)")
    case True
    with Cons show ?thesis by (simp add: ledger_step_def ledger_on_fill_state)
  next
    case False
    show ?thesis
    proof (cases "truthy (fill_owner f)")
      case True
      have m: "key_matches (ledger_apply f l) (prev @ [f]) mark k" for k
        using Cons.prems by (intro ledger_apply_matches) auto
      with Cons.IH [OF _ m] Cons.prems(1) True False show ?thesis
        by (simp add: ledger_step_def ledger_on_fill_state)
    next
      case notr: False
      from Cons.IH [of "l\<lparr>lg_seen_fills := fe_fill_id f # lg_seen_fills l\<rparr>" prev] Cons.prems notr False
      show ?thesis by (simp add: ledger_step_def ledger_on_fill_state)
    qed
  qed
qed simp

text \<open>C33. Whatever fills a new ledger is given, for every position: the quantity is the sum of the
  signed accepted fills, realised plus unrealised profit at any mark price is exactly their cash
  flow (price differences times the multiplier, less commissions and taxes), the total cost is the
  sum of their costs, and the realised profit is the sum of the trades' net profits.  Repeated
  fill identifiers and fills without an owner change nothing.\<close>

theorem ledger_is_cash_flow:
  assumes "new_ledger m = Inr l0" "\<forall>f \<in> set fs. check_fill f = Inr f"
  shows "let l = run (ledger_step h) l0 fs; ours = fills_of_key k (accepted_fills [] fs); st = ledger_position_at l k in
    ps_quantity st = sum_list (map signed_fill ours)
    \<and> ps_realized_pnl st + unrealized m st mark = sum_list (map (cash_flow m mark) ours)
    \<and> ps_total_cost st = sum_list (map fill_cost ours)
    \<and> ps_realized_pnl st = sum_list (map rt_net_pnl (filter (\<lambda>t. rt_key t = k) (lg_trades l)))"
proof -
  have l0: "l0 = \<lparr> lg_multiplier = m, lg_positions = [], lg_seen_fills = [], lg_trades = [] \<rparr>"
    using assms(1) by (simp add: new_ledger_def first_error_Inr)
  have q: "\<forall>f \<in> set fs. 0 < fe_quantity f" using assms(2) check_fill_Inr by blast
  have start: "key_matches l0 [] mark k" for k
    by (simp add: l0 key_matches_def ledger_position_at_def ledger_state_def fills_of_key_def new_pos_state_def
        flat_clean_def equity_def unrealized_def)
  have mult: "lg_multiplier (run (ledger_step h) l fs) = lg_multiplier l" for l
    by (induction fs arbitrary: l) (simp_all add: ledger_step_def ledger_on_fill_state)
  show ?thesis
    using ledger_run_matches [OF q start, of h k] mult [of l0]
    by (simp add: l0 key_matches_def equity_def Let_def)
qed

definition sample_fill :: "string \<Rightarrow> order_side \<Rightarrow> int \<Rightarrow> price \<Rightarrow> fill_event" where
  "sample_fill i side n p = \<lparr> fe_meta = \<lparr> em_id = i, em_at = 1, em_source = ''simulated_broker'',
     em_correlation = None, em_causation = None, em_owner = Some ''alice'' \<rparr>, fe_fill_id = i,
     fe_order_id = i, fe_strategy = ''s'', fe_version = 1, fe_symbol = ''TMF'', fe_contract = ''TMFR1'',
     fe_side = side, fe_quantity = n, fe_price = p, fe_commission = 10 * of_int n, fe_tax = 0,
     fe_slippage = 0, fe_purpose = Entry, fe_reason = ''simulated_fill'', fe_trading_date = None,
     fe_source = ManualOrder, fe_runtime = None, fe_decision = None, fe_stop_loss_price = None,
     fe_take_profit_price = None, fe_snapshot = None \<rparr>"

definition sample_key :: pos_key where
  "sample_key = ledger_fill_key ''alice'' (sample_fill ''1'' Buy 2 100)"

definition sample_ledger :: ledger where
  "sample_ledger = \<lparr> lg_multiplier = 10, lg_positions = [], lg_seen_fills = [], lg_trades = [] \<rparr>"

definition sample_fills :: "fill_event list" where
  "sample_fills = [sample_fill ''1'' Buy 2 100, sample_fill ''2'' Sell 3 110, sample_fill ''1'' Buy 5 1]"

lemma ledger_is_cash_flow_witness:
  "let st = ledger_position_at (run (ledger_step sample_hashing) sample_ledger sample_fills) sample_key in
    ps_quantity st = -1 \<and> ps_realized_pnl st + unrealized 10 st 105 = 200"
proof -
  have l: "new_ledger 10 = Inr sample_ledger" by (simp add: new_ledger_def first_error.simps sample_ledger_def)
  have c: "\<forall>f \<in> set sample_fills. check_fill f = Inr f"
    by (simp add: sample_fills_def check_fill_def sample_fill_def first_error.simps not_positive_def)
  have ours: "fills_of_key sample_key (accepted_fills [] sample_fills) = [sample_fill ''1'' Buy 2 100, sample_fill ''2'' Sell 3 110]"
    by (simp add: sample_fills_def fills_of_key_def sample_key_def ledger_fill_key_def sample_fill_def fill_owner_def)
  show ?thesis
    using ledger_is_cash_flow [OF l c, of sample_hashing sample_key 105] unfolding Let_def ours
    by (simp add: signed_fill_def cash_flow_def fill_cost_def) (simp add: sample_fill_def)
qed

end
