(* ===== verification/Sim_Broker.thy ===== *)
theory Sim_Broker
  imports Paper_Ledger
begin

text \<open>
  The deterministic market-order simulator (\<open>execution/simulated_broker.py\<close>): orders wait for a
  risk decision, then fill at once or at the next bar's open, with reduce-only orders bounded by
  the position they close.

  The ledger is read, never written, by the simulator and is an argument; the account gate's
  recheck before a fill (\<open>entry_prefill_risk\<close>) is an optional function over the gate's own state
  \<open>'g\<close>, which \<open>on_bar\<close> threads.
\<close>

section \<open>State\<close>

datatype sim_status = PendingRisk | SimApproved | SimRejected | SimFilled

definition sim_status_value :: "sim_status \<Rightarrow> string" where
  "sim_status_value s = (case s of PendingRisk \<Rightarrow> ''pending_risk'' | SimApproved \<Rightarrow> ''approved''
     | SimRejected \<Rightarrow> ''rejected'' | SimFilled \<Rightarrow> ''filled'')"

record order_record =
  or_intent :: order_intent
  or_status :: sim_status
  or_approved :: int
  or_reason :: string
  or_fill_id :: "string option"
  or_risk_id :: "string option"

record sim_broker =
  sb_costs :: futures_costs
  sb_allow_signal_price :: bool
  sb_orders :: "(string \<times> order_record) list"
  sb_sequence :: "string list"
  sb_last_close :: "((string \<times> string) \<times> price) list"
  sb_filled_bars :: "string list"
  sb_gap_rejections :: nat

definition new_sim_broker :: "futures_costs \<Rightarrow> bool \<Rightarrow> sim_broker" where
  "new_sim_broker c allow = \<lparr> sb_costs = c, sb_allow_signal_price = allow, sb_orders = [], sb_sequence = [],
     sb_last_close = [], sb_filled_bars = [], sb_gap_rejections = 0 \<rparr>"

definition order_of :: "sim_broker \<Rightarrow> string \<Rightarrow> order_record option" where
  "order_of b i = map_of (sb_orders b) i"

definition put_order :: "string \<Rightarrow> order_record \<Rightarrow> sim_broker \<Rightarrow> sim_broker" where
  "put_order i r b = b\<lparr>sb_orders := dict_put i r (sb_orders b)\<rparr>"

section \<open>Operations\<close>

definition update_market_price :: "string \<Rightarrow> string \<Rightarrow> price \<Rightarrow> (sim_broker, unit) prog" where
  "update_market_price s c p b =
     (if s = [] \<or> c = [] then (Inl (ValueError ''symbol and contract are required''), b)
      else if p \<le> 0 then (Inl (ValueError ''market price must be positive''), b)
      else (Inr (), b\<lparr>sb_last_close := dict_put (s, c) p (sb_last_close b)\<rparr>))"

definition new_order_record :: "order_intent \<Rightarrow> order_record" where
  "new_order_record o' = \<lparr> or_intent = o', or_status = PendingRisk, or_approved = 0,
     or_reason = ''awaiting_risk'', or_fill_id = None, or_risk_id = None \<rparr>"

definition sim_on_order :: "domain_event \<Rightarrow> (sim_broker, domain_event list) prog" where
  "sim_on_order e b = (case e of
     EvOrder o' \<Rightarrow>
       (case execution_owner e of Inl err \<Rightarrow> (Inl err, b)
        | Inr _ \<Rightarrow>
            if order_of b (oi_order_id o') \<noteq> None then (Inr [], b)
            else (Inr [], (put_order (oi_order_id o') (new_order_record o') b)\<lparr>sb_sequence := sb_sequence b @ [oi_order_id o']\<rparr>))
   | _ \<Rightarrow> (Inl (TypeError ''SimulatedBroker.on_order requires OrderIntent''), b))"

text \<open>\<open>SimulatedBroker._fill\<close>: the fill event; the record is marked by \<open>mark_filled\<close> after it.\<close>

definition side_sign :: "order_side \<Rightarrow> int" where
  "side_sign s = (if s = Buy then 1 else -1)"

definition fill_levels :: "order_intent \<Rightarrow> price \<Rightarrow> (price option \<times> price option) res" where
  "fill_levels o' p = (case (oi_purpose o', oi_stop_loss_pct o', oi_take_profit_pct o') of
     (Entry, Some sl, Some tp) \<Rightarrow>
       (case check_risk_config \<lparr> rk_stop_loss_pct = sl, rk_take_profit_pct = tp \<rparr> of
          Inl err \<Rightarrow> Inl err
        | Inr cfg \<Rightarrow> (case calculate_levels p (side_sign (oi_side o')) cfg of
            Inl err \<Rightarrow> Inl err
          | Inr l \<Rightarrow> Inr (Some (rl_stop_loss_price l), Some (rl_take_profit_price l))))
   | _ \<Rightarrow> Inr (None, None))"

definition build_fill :: "hashing \<Rightarrow> futures_costs \<Rightarrow> order_record \<Rightarrow> price \<Rightarrow> instant \<Rightarrow> domain_event \<Rightarrow> int \<Rightarrow> fill_event res" where
  "build_fill h c r raw occurred cause quantity =
     (let o' = or_intent r; n = (if quantity \<noteq> 0 then quantity else or_approved r);
          p = raw + fc_slippage_points c * of_int (side_sign (oi_side o')) in
      case side_cost c p n of Inl err \<Rightarrow> Inl err
    | Inr (commission, tax) \<Rightarrow> (case fill_levels o' p of Inl err \<Rightarrow> Inl err
    | Inr (sl, tp) \<Rightarrow>
        (case create_meta h KFill occurred ''simulated_broker'' (oi_order_id o' @ '':full'')
            (em_correlation (oi_meta o')) (Some (event_id_of cause)) (em_owner (oi_meta o')) of
           Inl err \<Rightarrow> Inl err
         | Inr meta \<Rightarrow> check_fill
             \<lparr> fe_meta = meta, fe_fill_id = em_id meta, fe_order_id = oi_order_id o', fe_strategy = oi_strategy o',
               fe_version = oi_version o', fe_symbol = oi_symbol o', fe_contract = oi_contract o',
               fe_side = oi_side o', fe_quantity = n, fe_price = p, fe_commission = commission, fe_tax = tax,
               fe_slippage = fc_slippage_points c, fe_purpose = oi_purpose o', fe_reason = oi_reason o',
               fe_trading_date = oi_trading_date o', fe_source = oi_source o', fe_runtime = oi_runtime o',
               fe_decision = oi_decision o', fe_stop_loss_price = sl, fe_take_profit_price = tp,
               fe_snapshot = oi_snapshot o' \<rparr>)))"

definition mark_filled :: "fill_event \<Rightarrow> order_record \<Rightarrow> order_record" where
  "mark_filled f r = r\<lparr>or_status := SimFilled, or_reason := ''simulated_fill'', or_fill_id := Some (fe_fill_id f)\<rparr>"

definition order_key :: "string \<Rightarrow> order_intent \<Rightarrow> pos_key" where
  "order_key owner o' = \<lparr> pk_owner = owner, pk_strategy = oi_strategy o', pk_version = oi_version o',
     pk_symbol = oi_symbol o', pk_contract = oi_contract o' \<rparr>"

definition reduce_only_available :: "ledger option \<Rightarrow> order_record \<Rightarrow> int res" where
  "reduce_only_available lg r =
     (let o' = or_intent r in
      if \<not> oi_reduce_only o' then Inr (or_approved r)
      else (case lg of None \<Rightarrow> Inl (RuntimeError ''reduce_only execution requires a position ledger'')
       | Some l \<Rightarrow> (case execution_owner (EvOrder o') of Inl err \<Rightarrow> Inl err
          | Inr owner \<Rightarrow> (case ledger_state l (order_key owner o') of
               None \<Rightarrow> Inr 0
             | Some st \<Rightarrow> if ps_quantity st = 0 then Inr 0
                 else if \<not> (0 < ps_quantity st \<and> oi_side o' = Sell \<or> ps_quantity st < 0 \<and> oi_side o' = Buy) then Inr 0
                 else Inr (min \<bar>ps_quantity st\<bar> (or_approved r))))))"

definition mark_rejected :: "string \<Rightarrow> order_record \<Rightarrow> order_record" where
  "mark_rejected reason r = r\<lparr>or_status := SimRejected, or_reason := reason\<rparr>"

text \<open>\<open>SimulatedBroker._reject\<close>: the event; the record is marked before it is built.\<close>

definition reject_event :: "hashing \<Rightarrow> order_record \<Rightarrow> domain_event \<Rightarrow> string \<Rightarrow> order_status_event res" where
  "reject_event h r cause reason =
     (case create_meta h KOrderStatus (event_at cause) ''simulated_broker''
         (join '':'' [oi_order_id (or_intent r), event_id_of cause, reason])
         (em_correlation (oi_meta (or_intent r))) (Some (event_id_of cause)) (em_owner (oi_meta (or_intent r))) of
       Inl err \<Rightarrow> Inl err
     | Inr meta \<Rightarrow> check_order_status \<lparr> os_meta = meta, os_order_id = oi_order_id (or_intent r), os_reason = reason \<rparr>)"

definition reject_order :: "hashing \<Rightarrow> string \<Rightarrow> order_record \<Rightarrow> domain_event \<Rightarrow> string \<Rightarrow> (sim_broker, domain_event) prog" where
  "reject_order h i r cause reason b =
     (case reject_event h r cause reason of
        Inl err \<Rightarrow> (Inl err, put_order i (mark_rejected reason r) b)
      | Inr s \<Rightarrow> (Inr (EvStatus s), put_order i (mark_rejected reason r) b))"

definition fill_order :: "hashing \<Rightarrow> string \<Rightarrow> order_record \<Rightarrow> price \<Rightarrow> instant \<Rightarrow> domain_event \<Rightarrow> int \<Rightarrow> (sim_broker, domain_event) prog" where
  "fill_order h i r raw occurred cause quantity b =
     (case build_fill h (sb_costs b) r raw occurred cause quantity of
        Inl err \<Rightarrow> (Inl err, b)
      | Inr f \<Rightarrow> (Inr (EvFill f), put_order i (mark_filled f r) b))"

definition approve_record :: "risk_decision \<Rightarrow> order_record \<Rightarrow> order_record" where
  "approve_record d r = r\<lparr>or_status := SimApproved, or_approved := rd_approved_quantity d,
     or_reason := rd_reason d, or_risk_id := Some (em_id (rd_meta d))\<rparr>"

text \<open>The price an immediate execution uses.\<close>

definition immediate_price :: "order_intent \<Rightarrow> sim_broker \<Rightarrow> price res" where
  "immediate_price o' b =
     (if oi_timing o' = SignalPrice \<or> oi_timing o' = BarTrigger
      then if \<not> sb_allow_signal_price b \<and> oi_timing o' \<noteq> BarTrigger
           then Inl (RuntimeError ''signal_price execution is disabled'')
           else if oi_reference_price o' \<le> 0
           then Inl (RuntimeError (timing_value (oi_timing o') @ '' order requires a positive reference price''))
           else Inr (oi_reference_price o')
      else (case map_of (sb_last_close b) (oi_symbol o', oi_contract o') of
          None \<Rightarrow> Inl (RuntimeError ''current_close order has no known closing price'')
        | Some p \<Rightarrow> Inr p))"

definition sim_on_risk :: "hashing \<Rightarrow> ledger option \<Rightarrow> domain_event \<Rightarrow> (sim_broker, domain_event list) prog" where
  "sim_on_risk h lg e b = (case e of
     EvRisk d \<Rightarrow> (case order_of b (rd_order_id d) of
         None \<Rightarrow> (Inl (ValueError (''risk decision references unknown order: '' @ rd_order_id d)), b)
       | Some r \<Rightarrow>
           if or_status r \<noteq> PendingRisk then (Inr [], b)
           else if \<not> rd_approved d then (Inr [], put_order (rd_order_id d) (mark_rejected (rd_reason d) r) b)
           else if rd_approved_quantity d > oi_quantity (or_intent r)
           then (Inl (ValueError ''risk decision cannot increase the requested quantity''), b)
           else let r1 = approve_record d r; b1 = put_order (rd_order_id d) r1 b in
             if oi_timing (or_intent r1) = NextBarOpen then (Inr [], b1)
             else (case immediate_price (or_intent r1) b1 of
                 Inl err \<Rightarrow> (Inl err, b1)
               | Inr p \<Rightarrow> (case reduce_only_available lg r1 of
                   Inl err \<Rightarrow> (Inl err, b1)
                 | Inr q \<Rightarrow>
                     and_then (if q = 0 then reject_order h (rd_order_id d) r1 e ''reduce_only_position_unavailable''
                               else fill_order h (rd_order_id d) r1 p (event_at e) e q)
                       (\<lambda>ev. give [ev]) b1)))
   | _ \<Rightarrow> (Inl (TypeError ''SimulatedBroker.on_risk_decision requires RiskDecision''), b))"

text \<open>The two loops of \<open>on_bar\<close>, over the state of the simulator and of the account gate.\<close>

type_synonym 'g prefill = "order_intent \<Rightarrow> price \<Rightarrow> instant \<Rightarrow> ('g, risk_decision) prog"

definition on_broker :: "(sim_broker, 'a) prog \<Rightarrow> (sim_broker \<times> 'g, 'a) prog" where
  "on_broker m s = (case m (fst s) of (r, b) \<Rightarrow> (r, (b, snd s)))"

definition on_gate :: "('g, 'a) prog \<Rightarrow> (sim_broker \<times> 'g, 'a) prog" where
  "on_gate m s = (case m (snd s) of (r, g) \<Rightarrow> (r, (fst s, g)))"

definition awaits_open :: "order_record \<Rightarrow> bool" where
  "awaits_open r \<longleftrightarrow> or_status r = SimApproved \<and> oi_timing (or_intent r) = NextBarOpen"

definition roll_one :: "hashing \<Rightarrow> bar_event \<Rightarrow> string \<times> order_record \<Rightarrow> domain_event list
    \<Rightarrow> (sim_broker, domain_event list) prog" where
  "roll_one h bar x acc b =
     (if awaits_open (snd x) \<and> oi_symbol (or_intent (snd x)) = be_symbol bar
         \<and> oi_contract (or_intent (snd x)) \<noteq> be_contract bar
      then and_then (reject_order h (fst x) (snd x) (EvBar bar) ''contract_rolled_before_fill'')
             (\<lambda>ev. give (acc @ [ev])) b
      else (Inr acc, b))"

record bar_progress =
  bp_emitted :: "domain_event list"
  bp_any_fill :: bool
  bp_reserved :: "(pos_key \<times> int) list"

definition emit_bar :: "domain_event \<Rightarrow> bar_progress \<Rightarrow> bar_progress" where
  "emit_bar ev p = p\<lparr>bp_emitted := bp_emitted p @ [ev]\<rparr>"

text \<open>The recheck of an automatic entry: the cause of the fill, or the events of its rejection.\<close>

datatype entry_check = GoOn domain_event bar_progress | Stopped bar_progress

definition note_gap :: "string \<Rightarrow> sim_broker \<Rightarrow> sim_broker" where
  "note_gap reason b = (if reason = ''gap_risk_exceeded'' then b\<lparr>sb_gap_rejections := sb_gap_rejections b + 1\<rparr> else b)"

definition set_risk_id :: "string \<Rightarrow> order_record \<Rightarrow> order_record" where
  "set_risk_id i r = r\<lparr>or_risk_id := Some i\<rparr>"

definition check_entry :: "hashing \<Rightarrow> 'g prefill option \<Rightarrow> bar_event \<Rightarrow> string \<Rightarrow> order_record \<Rightarrow> bar_progress
    \<Rightarrow> (sim_broker \<times> 'g, order_record \<times> entry_check) prog" where
  "check_entry h prefill bar i r p s =
     (let o' = or_intent r in
      if oi_reduce_only o' \<or> oi_source o' \<noteq> StrategyAuto then (Inr (r, GoOn (EvBar bar) p), s)
      else (case prefill of
        None \<Rightarrow> and_then (on_broker (reject_order h i r (EvBar bar) ''prefill_risk_unavailable''))
                  (\<lambda>ev. give (r, Stopped (emit_bar ev p))) s
      | Some pf \<Rightarrow>
          (case on_gate (pf o' (be_open bar + fc_slippage_points (sb_costs (fst s)) * of_int (side_sign (oi_side o')))
                           (em_at (be_meta bar))) s of
             (Inl err, s1) \<Rightarrow> (Inl err, s1)
           | (Inr d, s1) \<Rightarrow>
               let p1 = emit_bar (EvRisk d) p; r1 = set_risk_id (em_id (rd_meta d)) r;
                   s2 = (put_order i r1 (fst s1), snd s1) in
               if rd_approved d then (Inr (r1, GoOn (EvRisk d) p1), s2)
               else and_then (on_broker (reject_order h i r1 (EvRisk d) (rd_reason d)))
                      (\<lambda>ev. give (r1, Stopped (emit_bar ev p1))) (note_gap (rd_reason d) (fst s2), snd s2))))"

text \<open>How much of an order the bar may fill, after what it has already filled.\<close>

definition bar_quantity :: "ledger option \<Rightarrow> order_record \<Rightarrow> bar_progress \<Rightarrow> (int \<times> bar_progress) res" where
  "bar_quantity lg r p =
     (let o' = or_intent r in
      if \<not> oi_reduce_only o' then Inr (or_approved r, p)
      else (case execution_owner (EvOrder o') of Inl err \<Rightarrow> Inl err
        | Inr owner \<Rightarrow> (case reduce_only_available lg r of Inl err \<Rightarrow> Inl err
          | Inr av \<Rightarrow> let k = order_key owner o'; q = max 0 (av - dict_get0 (bp_reserved p) k) in
              if q = 0 then Inr (0, p) else Inr (q, p\<lparr>bp_reserved := dict_add k q (bp_reserved p)\<rparr>))))"

definition bar_one :: "hashing \<Rightarrow> ledger option \<Rightarrow> 'g prefill option \<Rightarrow> bar_event \<Rightarrow> string \<Rightarrow> bar_progress
    \<Rightarrow> (sim_broker \<times> 'g, bar_progress) prog" where
  "bar_one h lg prefill bar i p s = (case order_of (fst s) i of
      None \<Rightarrow> (Inl (KeyError i), s)
    | Some r \<Rightarrow>
        if awaits_open r \<and> oi_symbol (or_intent r) = be_symbol bar \<and> oi_contract (or_intent r) = be_contract bar
           \<and> em_at (oi_meta (or_intent r)) < em_at (be_meta bar)
        then and_then (check_entry h prefill bar i r p) (\<lambda>(r1, chk). case chk of
            Stopped p1 \<Rightarrow> give p1
          | GoOn cause p1 \<Rightarrow> (case bar_quantity lg r1 p1 of
               Inl err \<Rightarrow> fail err
             | Inr (q, p2) \<Rightarrow>
                 if oi_reduce_only (or_intent r1) \<and> q = 0
                 then and_then (on_broker (reject_order h i r1 (EvBar bar) ''reduce_only_position_unavailable''))
                        (\<lambda>ev. give (emit_bar ev p2))
                 else and_then (on_broker (fill_order h i r1 (be_open bar) (em_at (be_meta bar)) cause q))
                        (\<lambda>ev. give ((emit_bar ev p2)\<lparr>bp_any_fill := True\<rparr>)))) s
        else (Inr p, s))"

definition sim_on_bar :: "hashing \<Rightarrow> ledger option \<Rightarrow> 'g prefill option \<Rightarrow> domain_event
    \<Rightarrow> (sim_broker \<times> 'g, domain_event list) prog" where
  "sim_on_bar h lg prefill e s = (case e of
     EvBar bar \<Rightarrow>
       let b1 = (fst s)\<lparr>sb_last_close := dict_put (be_symbol bar, be_contract bar) (be_close bar) (sb_last_close (fst s))\<rparr> in
       and_then (on_broker (\<lambda>b. fold_prog (roll_one h bar) (sb_orders b) [] b)) (\<lambda>rolled s1.
         and_then (fold_prog (bar_one h lg prefill bar) (sb_sequence (fst s1))
             \<lparr> bp_emitted = rolled, bp_any_fill = False, bp_reserved = [] \<rparr>) (\<lambda>p s2.
           (Inr (bp_emitted p),
            (if bp_any_fill p then ((fst s2)\<lparr>sb_filled_bars := em_id (be_meta bar) # sb_filled_bars (fst s2)\<rparr>, snd s2)
             else s2))) s1) (b1, snd s)
   | _ \<Rightarrow> (Inl (TypeError ''SimulatedBroker.on_bar requires BarClosedEvent''), s))"

definition has_pending_reduce_only :: "sim_broker \<Rightarrow> pos_key \<Rightarrow> bool" where
  "has_pending_reduce_only b k = list_ex (\<lambda>(i, r). (or_status r = PendingRisk \<or> or_status r = SimApproved)
     \<and> oi_reduce_only (or_intent r) \<and> em_owner (oi_meta (or_intent r)) = Some (pk_owner k)
     \<and> oi_strategy (or_intent r) = pk_strategy k \<and> oi_version (or_intent r) = pk_version k
     \<and> oi_symbol (or_intent r) = pk_symbol k \<and> oi_contract (or_intent r) = pk_contract k) (sb_orders b)"

definition session_one :: "hashing \<Rightarrow> session_event \<Rightarrow> string \<times> order_record \<Rightarrow> domain_event list
    \<Rightarrow> (sim_broker, domain_event list) prog" where
  "session_one h se x acc b =
     (if awaits_open (snd x) \<and> oi_symbol (or_intent (snd x)) = se_symbol se
         \<and> oi_contract (or_intent (snd x)) = se_contract se
      then and_then (reject_order h (fst x) (snd x) (EvSession se) ''session_closed_before_fill'')
             (\<lambda>ev. give (acc @ [ev])) b
      else (Inr acc, b))"

definition sim_on_session :: "hashing \<Rightarrow> domain_event \<Rightarrow> (sim_broker, domain_event list) prog" where
  "sim_on_session h e b = (case e of
     EvSession se \<Rightarrow> if se_action se = SessOpened then (Inr [], b)
       else fold_prog (session_one h se) (sb_orders b) [] b
   | _ \<Rightarrow> (Inl (TypeError ''SimulatedBroker.on_session requires SessionEvent''), b))"

definition bar_emitted_fill :: "sim_broker \<Rightarrow> string \<Rightarrow> bool" where
  "bar_emitted_fill b i \<longleftrightarrow> i \<in> set (sb_filled_bars b)"

end
