(* ===== verification/Sim_Broker_Safety.thy ===== *)
theory Sim_Broker_Safety
  imports Sim_Broker
begin

text \<open>
  What the simulator guarantees over every sequence of its operations: an order is filled at most
  once, only after an approval, with its own terms and at most the approved quantity; and the
  reduce-only fills of one bar never turn a position around.
\<close>

section \<open>Fills per order\<close>

definition is_fill_of :: "string \<Rightarrow> domain_event \<Rightarrow> bool" where
  "is_fill_of i e = (case e of EvFill f \<Rightarrow> fe_order_id f = i | _ \<Rightarrow> False)"

definition fills_for :: "string \<Rightarrow> domain_event list \<Rightarrow> nat" where
  "fills_for i es = length (filter (is_fill_of i) es)"

lemma fills_for_simps [simp]: "fills_for i [] = 0" "fills_for i (xs @ ys) = fills_for i xs + fills_for i ys"
  "fills_for i (e # es) = (if is_fill_of i e then 1 else 0) + fills_for i es"
  by (simp_all add: fills_for_def)

lemma is_fill_of_simps [simp]: "is_fill_of i (EvFill f) \<longleftrightarrow> fe_order_id f = i" "\<not> is_fill_of i (EvStatus s)"
  "\<not> is_fill_of i (EvRisk d)"
  by (simp_all add: is_fill_of_def)

text \<open>How many fills an order may still get.\<close>

definition fill_room :: "sim_broker \<Rightarrow> string \<Rightarrow> nat" where
  "fill_room b i = (case order_of b i of None \<Rightarrow> 1
     | Some r \<Rightarrow> if or_status r = PendingRisk \<or> or_status r = SimApproved then 1 else 0)"

lemma order_of_put [simp]: "order_of (put_order i r b) j = (if j = i then Some r else order_of b j)"
  by (simp add: order_of_def put_order_def)

lemma put_order_fields [simp]: "sb_costs (put_order i r b) = sb_costs b" "sb_sequence (put_order i r b) = sb_sequence b"
  "sb_last_close (put_order i r b) = sb_last_close b" "sb_allow_signal_price (put_order i r b) = sb_allow_signal_price b"
  by (simp_all add: put_order_def)

text \<open>Where the records and the fills come from: \<open>E\<close> is the set of events the simulator was given.\<close>

definition approval_in :: "domain_event set \<Rightarrow> order_record \<Rightarrow> bool" where
  "approval_in E r \<longleftrightarrow> (\<exists>d. EvRisk d \<in> E \<and> rd_order_id d = oi_order_id (or_intent r) \<and> rd_approved d
     \<and> or_approved r = rd_approved_quantity d \<and> 0 \<le> or_approved r
     \<and> or_approved r \<le> oi_quantity (or_intent r))"

definition record_ok :: "domain_event set \<Rightarrow> string \<Rightarrow> order_record \<Rightarrow> bool" where
  "record_ok E i r \<longleftrightarrow> oi_order_id (or_intent r) = i \<and> EvOrder (or_intent r) \<in> E
     \<and> (or_status r = SimApproved \<or> or_status r = SimFilled \<longrightarrow> approval_in E r)"

definition orders_ok :: "domain_event set \<Rightarrow> sim_broker \<Rightarrow> bool" where
  "orders_ok E b \<longleftrightarrow> distinct (map fst (sb_orders b)) \<and> (\<forall>x \<in> set (sb_orders b). record_ok E (fst x) (snd x))"

definition fill_ok :: "domain_event set \<Rightarrow> fill_event \<Rightarrow> bool" where
  "fill_ok E f \<longleftrightarrow> (\<exists>o' d. EvOrder o' \<in> E \<and> EvRisk d \<in> E \<and> oi_order_id o' = fe_order_id f
     \<and> rd_order_id d = fe_order_id f \<and> rd_approved d \<and> 1 \<le> fe_quantity f
     \<and> fe_quantity f \<le> rd_approved_quantity d \<and> rd_approved_quantity d \<le> oi_quantity o'
     \<and> fe_side f = oi_side o' \<and> fe_symbol f = oi_symbol o' \<and> fe_contract f = oi_contract o'
     \<and> em_owner (fe_meta f) = em_owner (oi_meta o'))"

lemma orders_ok_lookup: "orders_ok E b \<Longrightarrow> order_of b i = Some r \<Longrightarrow> record_ok E i r"
  by (auto simp: orders_ok_def order_of_def dest!: map_of_SomeD)

lemma set_dict_put_subset: "set (dict_put k v d) \<subseteq> insert (k, v) (set d)"
  by (induction k v d rule: dict_put.induct) auto

lemma orders_ok_put: "orders_ok E b \<Longrightarrow> record_ok E i r \<Longrightarrow> orders_ok E (put_order i r b)"
  using set_dict_put_subset [of i r "sb_orders b"] by (auto simp: orders_ok_def put_order_def distinct_dict_put)

definition sim_effect :: "domain_event set \<Rightarrow> sim_broker \<Rightarrow> domain_event list \<Rightarrow> sim_broker \<Rightarrow> bool" where
  "sim_effect E b es b' \<longleftrightarrow> (orders_ok E b \<longrightarrow> orders_ok E b'
     \<and> (\<forall>i. fills_for i es + fill_room b' i \<le> fill_room b i) \<and> (\<forall>f. EvFill f \<in> set es \<longrightarrow> fill_ok E f))"

lemma sim_effect_refl [simp]: "sim_effect E b [] b"
  by (simp add: sim_effect_def)

lemma sim_effect_trans:
  assumes "sim_effect E a xs b" "sim_effect E b ys c"
  shows "sim_effect E a (xs @ ys) c"
  unfolding sim_effect_def
proof (intro impI conjI allI)
  assume "orders_ok E a"
  then have xs: "orders_ok E b" "\<And>i. fills_for i xs + fill_room b i \<le> fill_room a i"
    "\<And>f. EvFill f \<in> set xs \<Longrightarrow> fill_ok E f" using assms(1) by (simp_all add: sim_effect_def)
  then have ys: "orders_ok E c" "\<And>i. fills_for i ys + fill_room c i \<le> fill_room b i"
    "\<And>f. EvFill f \<in> set ys \<Longrightarrow> fill_ok E f" using assms(2) by (simp_all add: sim_effect_def)
  show "orders_ok E c" by (rule ys)
  show "fills_for i (xs @ ys) + fill_room c i \<le> fill_room a i" for i
    using xs(2) [of i] ys(2) [of i] by simp
  show "fill_ok E f" if "EvFill f \<in> set (xs @ ys)" for f
    using that xs(3) ys(3) by auto
qed

lemma sim_effect_drop:
  assumes "sim_effect E a xs b"
  shows "sim_effect E a [] b"
  unfolding sim_effect_def
proof (intro impI conjI allI)
  assume "orders_ok E a"
  then have xs: "orders_ok E b" "\<And>i. fills_for i xs + fill_room b i \<le> fill_room a i"
    using assms by (simp_all add: sim_effect_def)
  show "orders_ok E b" by (rule xs)
  show "fills_for i [] + fill_room b i \<le> fill_room a i" for i using xs(2) [of i] by simp
qed simp

lemma sim_effect_lookup: "(\<And>i. order_of b' i = order_of b i) \<Longrightarrow> sb_orders b' = sb_orders b \<Longrightarrow> sim_effect E b [] b'"
  by (simp add: sim_effect_def orders_ok_def fill_room_def)

text \<open>What a fallible step with emissions does: an exception emits nothing.\<close>

definition emits_ok :: "domain_event set \<Rightarrow> sim_broker \<Rightarrow> domain_event list \<Rightarrow> domain_event list res \<Rightarrow> sim_broker \<Rightarrow> bool" where
  "emits_ok E b acc r b' \<longleftrightarrow> (case r of Inl _ \<Rightarrow> sim_effect E b [] b'
     | Inr acc' \<Rightarrow> \<exists>es. acc' = acc @ es \<and> sim_effect E b es b')"

lemma emits_ok_refl [simp]: "emits_ok E b acc (Inr acc) b"
  by (auto simp: emits_ok_def)

lemma emits_ok_trans: "emits_ok E b acc (Inr acc1) b1 \<Longrightarrow> emits_ok E b1 acc1 r b' \<Longrightarrow> emits_ok E b acc r b'"
  by (auto simp: emits_ok_def split: sum.splits dest: sim_effect_trans sim_effect_drop)

lemma fold_emits:
  assumes "\<And>x acc s r s'. x \<in> set xs \<Longrightarrow> P acc s \<Longrightarrow> f x acc s = (r, s') \<Longrightarrow>
      emits_ok E (st s) (em acc) (map_sum id em r) (st s') \<and> (\<forall>acc'. r = Inr acc' \<longrightarrow> P acc' s')"
    and "fold_prog f xs acc s = (r, s')" "P acc s"
  shows "emits_ok E (st s) (em acc) (map_sum id em r) (st s')"
  using assms
proof (induction xs arbitrary: acc s)
  case (Cons x xs)
  obtain q t where q: "f x acc s = (q, t)" by fastforce
  have e1: "emits_ok E (st s) (em acc) (map_sum id em q) (st t)" "\<forall>acc'. q = Inr acc' \<longrightarrow> P acc' t"
    using Cons.prems(1) [OF _ Cons.prems(3) q] by (simp_all add: id_def)
  show ?case
  proof (cases q)
    case (Inl err)
    with q Cons.prems(2) e1 show ?thesis by auto
  next
    case (Inr acc1)
    from q Inr Cons.prems(2) have "fold_prog f xs acc1 t = (r, s')" by simp
    moreover have "\<And>y acc s r s'. y \<in> set xs \<Longrightarrow> P acc s \<Longrightarrow> f y acc s = (r, s') \<Longrightarrow>
        emits_ok E (st s) (em acc) (map_sum id em r) (st s') \<and> (\<forall>acc'. r = Inr acc' \<longrightarrow> P acc' s')"
      by (rule Cons.prems(1)) simp_all
    moreover have "P acc1 t" using e1(2) Inr by simp
    ultimately have "emits_ok E (st t) (em acc1) (map_sum id em r) (st s')" by (intro Cons.IH)
    moreover from e1(1) Inr have "emits_ok E (st s) (em acc) (Inr (em acc1)) (st t)" by simp
    ultimately show ?thesis by (rule emits_ok_trans [rotated])
  qed
qed auto

text \<open>The elementary steps.\<close>

lemma record_ok_reject: "record_ok E i r \<Longrightarrow> record_ok E i (mark_rejected reason r)"
  by (simp add: record_ok_def mark_rejected_def)

lemma record_ok_fill: "record_ok E i r \<Longrightarrow> approval_in E r \<Longrightarrow> record_ok E i (mark_filled f r)"
  by (auto simp: record_ok_def mark_filled_def approval_in_def)

lemma record_ok_risk_id: "record_ok E i r \<Longrightarrow> record_ok E i (set_risk_id j r)"
  by (auto simp: record_ok_def set_risk_id_def approval_in_def)

lemma reject_order_effect:
  assumes "reject_order h i r cause reason b = (res, b')" "record_ok E i r"
  shows "sim_effect E b (case res of Inl _ \<Rightarrow> [] | Inr ev \<Rightarrow> [ev]) b'"
proof -
  have "b' = put_order i (mark_rejected reason r) b" "\<forall>ev. res = Inr ev \<longrightarrow> (\<exists>s. ev = EvStatus s)"
    using assms(1) by (auto simp: reject_order_def split: sum.splits)
  then show ?thesis using assms(2)
    by (auto simp: sim_effect_def fill_room_def mark_rejected_def [of reason r] split: sum.splits
        intro!: orders_ok_put record_ok_reject [unfolded mark_rejected_def])
qed

lemma build_fill_Inr:
  assumes "build_fill h c r raw occurred cause q = Inr f"
  shows "fe_order_id f = oi_order_id (or_intent r)" "fe_side f = oi_side (or_intent r)"
    "fe_symbol f = oi_symbol (or_intent r)" "fe_contract f = oi_contract (or_intent r)"
    "fe_strategy f = oi_strategy (or_intent r)" "fe_version f = oi_version (or_intent r)"
    "em_owner (fe_meta f) = em_owner (oi_meta (or_intent r))"
    "fe_quantity f = (if q \<noteq> 0 then q else or_approved r)" "1 \<le> fe_quantity f"
  using assms check_fill_Inr [of _ f]
  by (auto simp: build_fill_def Let_def check_fill_def first_error_Inr split: sum.splits prod.splits
      dest!: create_meta_Inr)

lemma fill_order_effect:
  assumes "fill_order h i r raw occurred cause q b = (res, b')" "record_ok E i r" "approval_in E r"
    and "order_of b i = Some r" "or_status r = SimApproved" "q \<le> or_approved r"
  shows "sim_effect E b (case res of Inl _ \<Rightarrow> [] | Inr ev \<Rightarrow> [ev]) b'"
proof (cases "build_fill h (sb_costs b) r raw occurred cause q")
  case (Inl err)
  with assms(1) show ?thesis by (auto simp: fill_order_def)
next
  case (Inr f)
  note fl = build_fill_Inr [OF Inr]
  have res: "res = Inr (EvFill f)" "b' = put_order i (mark_filled f r) b"
    using Inr assms(1) by (simp_all add: fill_order_def)
  obtain d where d: "EvRisk d \<in> E" "rd_order_id d = oi_order_id (or_intent r)" "rd_approved d"
    "or_approved r = rd_approved_quantity d" "or_approved r \<le> oi_quantity (or_intent r)"
    using assms(3) by (auto simp: approval_in_def)
  have "fill_ok E f" unfolding fill_ok_def
    using fl d assms(2,6) by (intro exI [of _ "or_intent r"] exI [of _ d]) (auto simp: record_ok_def)
  moreover have "orders_ok E b \<longrightarrow> orders_ok E b'"
    unfolding res(2) by (auto intro: orders_ok_put record_ok_fill assms(2,3))
  moreover have "fills_for j [EvFill f] + fill_room b' j \<le> fill_room b j" for j
    using fl(1) assms(2,4,5) by (auto simp: res(2) fill_room_def mark_filled_def record_ok_def)
  ultimately show ?thesis by (auto simp: sim_effect_def res(1))
qed

text \<open>An elementary step whose event is appended to what was emitted before.\<close>

lemma effect_appended:
  assumes "sim_effect E b (case r of Inl _ \<Rightarrow> [] | Inr ev \<Rightarrow> [ev]) b'"
  shows "emits_ok E b acc (map_sum id (\<lambda>ev. acc @ [ev]) r) b'"
  using assms by (cases r) (auto simp: emits_ok_def)

lemma and_then_give: "and_then m (\<lambda>x. give (g x)) s = (map_sum id g (fst (m s)), snd (m s))"
  by (auto simp: and_then_def split: prod.splits sum.splits)

lemma roll_one_emits:
  assumes "roll_one h bar x acc b = (r, b')" "record_ok E (fst x) (snd x)"
  shows "emits_ok E b acc r b'"
proof -
  obtain q t where q: "reject_order h (fst x) (snd x) (EvBar bar) ''contract_rolled_before_fill'' b = (q, t)"
    by fastforce
  from effect_appended [OF reject_order_effect [OF q assms(2)], of acc] q assms(1) show ?thesis
    by (auto simp: roll_one_def and_then_give split: if_splits)
qed

lemma session_one_emits:
  assumes "session_one h se x acc b = (r, b')" "record_ok E (fst x) (snd x)"
  shows "emits_ok E b acc r b'"
proof -
  obtain q t where q: "reject_order h (fst x) (snd x) (EvSession se) ''session_closed_before_fill'' b = (q, t)"
    by fastforce
  from effect_appended [OF reject_order_effect [OF q assms(2)], of acc] q assms(1) show ?thesis
    by (auto simp: session_one_def and_then_give split: if_splits)
qed

text \<open>The effect of a whole operation.\<close>

definition emitted :: "domain_event list res \<Rightarrow> domain_event list" where
  "emitted r = (case r of Inl _ \<Rightarrow> [] | Inr es \<Rightarrow> es)"

lemma emitted_simps [simp]: "emitted (Inl e) = []" "emitted (Inr es) = es"
  by (simp_all add: emitted_def)

lemma emits_ok_effect: "emits_ok E b [] r b' \<Longrightarrow> sim_effect E b (emitted r) b'"
  by (auto simp: emits_ok_def split: sum.splits)

lemma sim_on_order_effect:
  assumes "sim_on_order e b = (r, b')" "e \<in> E"
  shows "sim_effect E b (emitted r) b'"
proof -
  have "sim_effect E b [] ((put_order (oi_order_id o') (new_order_record o') b)\<lparr>sb_sequence := q\<rparr>)"
    if "e = EvOrder o'" "order_of b (oi_order_id o') = None" for o' q
  proof -
    let ?b = "put_order (oi_order_id o') (new_order_record o') b"
    have "record_ok E (oi_order_id o') (new_order_record o')"
      using that(1) assms(2) by (simp add: record_ok_def new_order_record_def)
    then have "orders_ok E b \<longrightarrow> orders_ok E ?b" by (simp add: orders_ok_put)
    moreover have "fill_room ?b i \<le> fill_room b i" for i
      using that(2) by (simp add: fill_room_def new_order_record_def)
    moreover have "orders_ok E (?b\<lparr>sb_sequence := q\<rparr>) = orders_ok E ?b"
      "fill_room (?b\<lparr>sb_sequence := q\<rparr>) i = fill_room ?b i" for i
      by (simp_all add: orders_ok_def fill_room_def order_of_def)
    ultimately show ?thesis by (simp add: sim_effect_def)
  qed
  with assms(1) show ?thesis
    by (auto simp: sim_on_order_def split: domain_event.splits sum.splits if_splits)
qed

lemma approve_effect:
  assumes "EvRisk d \<in> E" "order_of b (rd_order_id d) = Some r" "or_status r = PendingRisk"
    "rd_approved d" "rd_approved_quantity d \<le> oi_quantity (or_intent r)" "0 \<le> rd_approved_quantity d"
  shows "sim_effect E b [] (put_order (rd_order_id d) (approve_record d r) b)"
    and "orders_ok E b \<Longrightarrow> record_ok E (rd_order_id d) (approve_record d r)"
    and "orders_ok E b \<Longrightarrow> approval_in E (approve_record d r)"
proof -
  have ok: "record_ok E (rd_order_id d) (approve_record d r) \<and> approval_in E (approve_record d r)" if "orders_ok E b"
    using orders_ok_lookup [OF that assms(2)] assms
    by (auto simp: record_ok_def approve_record_def approval_in_def)
  then show "orders_ok E b \<Longrightarrow> record_ok E (rd_order_id d) (approve_record d r)"
    "orders_ok E b \<Longrightarrow> approval_in E (approve_record d r)" by simp_all
  have "fill_room (put_order (rd_order_id d) (approve_record d r) b) i \<le> fill_room b i" for i
    using assms(2,3) by (simp add: fill_room_def approve_record_def)
  with ok show "sim_effect E b [] (put_order (rd_order_id d) (approve_record d r) b)"
    by (auto simp: sim_effect_def intro: orders_ok_put)
qed

lemma reduce_only_available_le: "reduce_only_available lg r = Inr q \<Longrightarrow> 0 \<le> or_approved r \<Longrightarrow> q \<le> or_approved r"
  by (auto simp: reduce_only_available_def Let_def split: if_splits option.splits sum.splits)

lemma sim_on_risk_effect:
  assumes "sim_on_risk h lg e b = (r, b')" "e \<in> E" "\<And>d. e = EvRisk d \<Longrightarrow> check_risk_decision d = Inr d"
  shows "sim_effect E b (emitted r) b'"
proof (cases "orders_ok E b \<and> (\<exists>d. e = EvRisk d)")
  case False
  then show ?thesis
  proof (cases "orders_ok E b")
    case True
    with False have "b' = b" "emitted r = []" using assms(1)
      by (auto simp: sim_on_risk_def split: domain_event.splits)
    then show ?thesis by simp
  qed (simp add: sim_effect_def)
next
  case True
  then obtain d where e: "e = EvRisk d" and oks: "orders_ok E b" by blast
  show ?thesis
  proof (cases "order_of b (rd_order_id d)")
    case None
    with assms(1) e show ?thesis by (auto simp: sim_on_risk_def)
  next
    case (Some q)
    have ro: "record_ok E (rd_order_id d) q" by (rule orders_ok_lookup [OF oks Some])
    let ?r1 = "approve_record d q" and ?b1 = "put_order (rd_order_id d) (approve_record d q) b"
    consider "or_status q \<noteq> PendingRisk" | "or_status q = PendingRisk" "\<not> rd_approved d"
      | "or_status q = PendingRisk" "rd_approved d" "rd_approved_quantity d > oi_quantity (or_intent q)"
      | "or_status q = PendingRisk" "rd_approved d" "rd_approved_quantity d \<le> oi_quantity (or_intent q)"
      by linarith
    then show ?thesis
    proof cases
      case 2
      then have "b' = put_order (rd_order_id d) (mark_rejected (rd_reason d) q) b" "emitted r = []"
        using assms(1) e Some by (auto simp: sim_on_risk_def)
      moreover have "orders_ok E (put_order (rd_order_id d) (mark_rejected (rd_reason d) q) b)"
        by (rule orders_ok_put [OF oks record_ok_reject [OF ro]])
      ultimately show ?thesis by (simp add: sim_effect_def fill_room_def mark_rejected_def)
    next
      case 4
      have nn: "0 \<le> rd_approved_quantity d" using check_risk_decision_Inr [OF assms(3) [OF e]] by simp
      note ap = approve_effect [OF _ Some 4 nn, where E = E]
      have ap1: "sim_effect E b [] ?b1" "record_ok E (rd_order_id d) ?r1" "approval_in E ?r1"
        using ap assms(2) e oks by auto
      have pos: "0 \<le> or_approved ?r1"
        using nn by (simp add: approve_record_def)
      have shape: "(b' = ?b1 \<and> emitted r = [])
        \<or> (\<exists>m v. (m = reject_order h (rd_order_id d) ?r1 e ''reduce_only_position_unavailable''
              \<or> (\<exists>p a. m = fill_order h (rd_order_id d) ?r1 p (event_at e) e a \<and> a \<le> or_approved ?r1))
            \<and> m ?b1 = (v, b') \<and> emitted r = (case v of Inl _ \<Rightarrow> [] | Inr ev \<Rightarrow> [ev]))"
      proof -
        have fst_eq: "oi_timing (or_intent ?r1) = oi_timing (or_intent q)" by (simp add: approve_record_def)
        have run: "sim_on_risk h lg e b = (if oi_timing (or_intent ?r1) = NextBarOpen then (Inr [], ?b1)
             else (case immediate_price (or_intent ?r1) ?b1 of
                 Inl err \<Rightarrow> (Inl err, ?b1)
               | Inr p \<Rightarrow> (case reduce_only_available lg ?r1 of
                   Inl err \<Rightarrow> (Inl err, ?b1)
                 | Inr a \<Rightarrow>
                     and_then (if a = 0 then reject_order h (rd_order_id d) ?r1 e ''reduce_only_position_unavailable''
                               else fill_order h (rd_order_id d) ?r1 p (event_at e) e a)
                       (\<lambda>ev. give [ev]) ?b1)))"
          unfolding e using Some 4 by (simp add: sim_on_risk_def Let_def)
        show ?thesis
        proof (cases "oi_timing (or_intent ?r1) = NextBarOpen")
          case True
          with run assms(1) show ?thesis by simp
        next
          case nb: False
          show ?thesis
          proof (cases "immediate_price (or_intent ?r1) ?b1")
            case (Inl err)
            with run nb assms(1) show ?thesis by auto
          next
            case p: (Inr p)
            show ?thesis
            proof (cases "reduce_only_available lg ?r1")
              case (Inl err)
              with run nb p assms(1) show ?thesis by auto
            next
              case (Inr a)
              let ?m = "if a = 0 then reject_order h (rd_order_id d) ?r1 e ''reduce_only_position_unavailable''
                               else fill_order h (rd_order_id d) ?r1 p (event_at e) e a"
              obtain v t where v: "?m ?b1 = (v, t)" by fastforce
              have "a \<le> or_approved ?r1" by (rule reduce_only_available_le [OF Inr pos])
              moreover have "b' = t \<and> emitted r = (case v of Inl _ \<Rightarrow> [] | Inr ev \<Rightarrow> [ev])"
                using run nb p Inr assms(1) v by (cases v) (auto simp: and_then_def)
              ultimately show ?thesis using v
                by (intro disjI2 exI [of _ ?m] exI [of _ v]) auto
            qed
          qed
        qed
      qed
      then show ?thesis
      proof (elim disjE exE conjE)
        assume "b' = ?b1" "emitted r = []"
        with ap1(1) show ?thesis by simp
      next
        fix m v assume m: "m = reject_order h (rd_order_id d) ?r1 e ''reduce_only_position_unavailable''"
          "m ?b1 = (v, b')" "emitted r = (case v of Inl _ \<Rightarrow> [] | Inr ev \<Rightarrow> [ev])"
        from sim_effect_trans [OF ap1(1) reject_order_effect [OF m(2) [unfolded m(1)] ap1(2)]] m(3)
        show ?thesis by simp
      next
        fix m v p a assume m: "m ?b1 = (v, b')" "emitted r = (case v of Inl _ \<Rightarrow> [] | Inr ev \<Rightarrow> [ev])"
          "m = fill_order h (rd_order_id d) ?r1 p (event_at e) e a" "a \<le> or_approved ?r1"
        have "sim_effect E ?b1 (case v of Inl _ \<Rightarrow> [] | Inr ev \<Rightarrow> [ev]) b'"
          by (rule fill_order_effect [OF m(1) [unfolded m(3)] ap1(2,3) _ _ m(4)]) (simp_all add: approve_record_def)
        from sim_effect_trans [OF ap1(1) this] m(2) show ?thesis by simp
      qed
    qed (use assms(1) e Some in \<open>auto simp: sim_on_risk_def\<close>)
  qed
qed

text \<open>The turn of one order on a bar.\<close>

lemma emit_bar_fields [simp]: "bp_emitted (emit_bar ev p) = bp_emitted p @ [ev]"
  "bp_reserved (emit_bar ev p) = bp_reserved p" "bp_any_fill (emit_bar ev p) = bp_any_fill p"
  by (simp_all add: emit_bar_def)

lemma set_risk_id_fields [simp]: "or_intent (set_risk_id i r) = or_intent r"
  "or_status (set_risk_id i r) = or_status r" "or_approved (set_risk_id i r) = or_approved r"
  by (simp_all add: set_risk_id_def)

lemma note_gap_effect: "sim_effect E b [] (note_gap reason b)"
  by (rule sim_effect_lookup) (simp_all add: note_gap_def order_of_def)

lemma on_broker_eq: "on_broker m s = (r, s') \<longleftrightarrow> m (fst s) = (r, fst s') \<and> snd s' = snd s"
  by (cases s') (auto simp: on_broker_def split: prod.splits)

lemma risk_id_effect:
  assumes "order_of b i = Some r"
  shows "sim_effect E b [EvRisk d] (put_order i (set_risk_id j r) b)"
  using orders_ok_lookup [OF _ assms] assms
  by (auto simp: sim_effect_def fill_room_def intro!: orders_ok_put record_ok_risk_id)

definition entry_check_ok :: "domain_event set \<Rightarrow> string \<Rightarrow> order_record \<Rightarrow> bar_progress \<Rightarrow> sim_broker
    \<Rightarrow> (order_record \<times> entry_check) res \<Rightarrow> sim_broker \<Rightarrow> bool" where
  "entry_check_ok E i r p b res b' \<longleftrightarrow> (case res of
     Inl _ \<Rightarrow> sim_effect E b [] b'
   | Inr (r1, Stopped p1) \<Rightarrow> bp_reserved p1 = bp_reserved p
       \<and> (\<exists>es. bp_emitted p1 = bp_emitted p @ es \<and> sim_effect E b es b' \<and> (\<forall>f. EvFill f \<notin> set es))
   | Inr (r1, GoOn c p1) \<Rightarrow> bp_reserved p1 = bp_reserved p \<and> order_of b' i = Some r1
       \<and> or_intent r1 = or_intent r \<and> or_status r1 = or_status r \<and> or_approved r1 = or_approved r
       \<and> (\<exists>es. bp_emitted p1 = bp_emitted p @ es \<and> sim_effect E b es b' \<and> (\<forall>f. EvFill f \<notin> set es)))"

lemma reject_order_no_fill: "reject_order h i r cause reason b = (Inr ev, b') \<Longrightarrow> ev \<noteq> EvFill f"
  by (auto simp: reject_order_def split: sum.splits)

lemma check_entry_ok:
  assumes "check_entry h prefill bar i r p s = (res, s')" "order_of (fst s) i = Some r" "record_ok E i r"
  shows "entry_check_ok E i r p (fst s) res (fst s')"
proof (cases "oi_reduce_only (or_intent r) \<or> oi_source (or_intent r) \<noteq> StrategyAuto")
  case True
  with assms show ?thesis by (auto simp: check_entry_def entry_check_ok_def Let_def)
next
  case auto_entry: False
  show ?thesis
  proof (cases prefill)
    case None
    obtain q t where q: "reject_order h i r (EvBar bar) ''prefill_risk_unavailable'' (fst s) = (q, t)" by fastforce
    have res: "res = map_sum id (\<lambda>ev. (r, Stopped (emit_bar ev p))) q" "fst s' = t"
      using assms(1) auto_entry None q by (auto simp: check_entry_def Let_def and_then_give on_broker_def)
    show ?thesis
    proof (cases q)
      case (Inl err)
      with res reject_order_effect [OF q assms(3)] show ?thesis by (simp add: entry_check_ok_def)
    next
      case (Inr ev)
      with res reject_order_effect [OF q assms(3)] reject_order_no_fill [OF q [unfolded Inr]]
      show ?thesis by (auto simp: entry_check_ok_def intro!: exI [of _ "[ev]"])
    qed
  next
    case (Some pf)
    let ?price = "be_open bar + fc_slippage_points (sb_costs (fst s)) * of_int (side_sign (oi_side (or_intent r)))"
    obtain dres g where pf: "pf (or_intent r) ?price (em_at (be_meta bar)) (snd s) = (dres, g)" by fastforce
    show ?thesis
    proof (cases dres)
      case (Inl err)
      with assms(1) auto_entry Some pf show ?thesis
        by (auto simp: check_entry_def Let_def on_gate_def entry_check_ok_def)
    next
      case (Inr d)
      let ?r1 = "set_risk_id (em_id (rd_meta d)) r" and ?p1 = "emit_bar (EvRisk d) p"
      let ?b2 = "put_order i ?r1 (fst s)"
      have e1: "sim_effect E (fst s) [EvRisk d] ?b2" by (rule risk_id_effect [OF assms(2)])
      show ?thesis
      proof (cases "rd_approved d")
        case True
        then have "res = Inr (?r1, GoOn (EvRisk d) ?p1)" "fst s' = ?b2"
          using assms(1) auto_entry Some pf Inr by (auto simp: check_entry_def Let_def on_gate_def)
        with e1 show ?thesis by (auto simp: entry_check_ok_def intro!: exI [of _ "[EvRisk d]"])
      next
        case False
        let ?b3 = "note_gap (rd_reason d) ?b2"
        obtain q t where q: "reject_order h i ?r1 (EvRisk d) (rd_reason d) ?b3 = (q, t)" by fastforce
        have res: "res = map_sum id (\<lambda>ev. (?r1, Stopped (emit_bar ev ?p1))) q" "fst s' = t"
          using assms(1) auto_entry Some pf Inr False q
          by (auto simp: check_entry_def Let_def on_gate_def and_then_give on_broker_def)
        have e3: "sim_effect E (fst s) [EvRisk d] ?b3"
          using sim_effect_trans [OF e1 note_gap_effect, of "rd_reason d"] by simp
        note e4 = sim_effect_trans [OF e3 reject_order_effect [OF q record_ok_risk_id [OF assms(3)]]]
        show ?thesis
        proof (cases q)
          case (Inl err)
          with res e4 show ?thesis by (auto simp: entry_check_ok_def intro: sim_effect_drop)
        next
          case r: (Inr ev)
          with res e4 reject_order_no_fill [OF q [unfolded r]]
          show ?thesis by (auto simp: entry_check_ok_def intro!: exI [of _ "[EvRisk d, ev]"])
        qed
      qed
    qed
  qed
qed

lemma bar_quantity_le:
  assumes "bar_quantity lg r p = Inr (q, p2)" "0 \<le> or_approved r" "\<And>k. 0 \<le> dict_get0 (bp_reserved p) k"
  shows "q \<le> or_approved r" "bp_emitted p2 = bp_emitted p"
proof -
  have "q \<le> or_approved r \<and> bp_emitted p2 = bp_emitted p"
  proof (cases "oi_reduce_only (or_intent r)")
    case True
    then obtain owner av where o': "execution_owner (EvOrder (or_intent r)) = Inr owner"
      "reduce_only_available lg r = Inr av"
      using assms(1) by (auto simp: bar_quantity_def Let_def split: sum.splits)
    have "av \<le> or_approved r" by (rule reduce_only_available_le [OF o'(2) assms(2)])
    moreover have "0 \<le> dict_get0 (bp_reserved p) (order_key owner (or_intent r))" by (rule assms(3))
    ultimately show ?thesis using True assms(1,2) o' by (auto simp: bar_quantity_def Let_def split: if_splits)
  qed (use assms in \<open>simp add: bar_quantity_def Let_def\<close>)
  then show "q \<le> or_approved r" "bp_emitted p2 = bp_emitted p" by simp_all
qed

lemma bar_quantity_reserved:
  assumes "bar_quantity lg r p = Inr (q, p2)" "\<And>k. 0 \<le> dict_get0 (bp_reserved p) k"
  shows "0 \<le> dict_get0 (bp_reserved p2) k"
proof -
  have "0 \<le> dict_get0 (bp_reserved p) k" by (rule assms(2))
  then show ?thesis using assms(1)
    by (auto simp: bar_quantity_def Let_def max_def not_le split: if_splits sum.splits)
qed

definition reserved_nonneg :: "bar_progress \<Rightarrow> bool" where
  "reserved_nonneg p \<longleftrightarrow> (\<forall>k. 0 \<le> dict_get0 (bp_reserved p) k)"

lemma emits_ok_orders: "emits_ok E b acc (Inr acc') b' \<Longrightarrow> orders_ok E b \<Longrightarrow> orders_ok E b'"
  by (auto simp: emits_ok_def sim_effect_def)

text \<open>What follows a passed check: nothing more, a rejection, or the fill.\<close>

lemma bar_one_cases:
  assumes "bar_one h lg prefill bar i p s = (res, s')" "order_of (fst s) i = Some r"
  obtains "res = Inr p" "s' = s"
  | chk t where "awaits_open r" "check_entry h prefill bar i r p s = (chk, t)" "s' = t"
      "(\<exists>err. res = Inl err) \<or> (\<exists>r1 p1. chk = Inr (r1, Stopped p1) \<and> res = Inr p1)"
      "(\<exists>err. chk = Inl err) \<or> (\<exists>r1 p1. chk = Inr (r1, Stopped p1)) \<or> (\<exists>r1 c p1. chk = Inr (r1, GoOn c p1))"
  | t r1 c p1 q p2 m v where "awaits_open r" "check_entry h prefill bar i r p s = (Inr (r1, GoOn c p1), t)"
      "bar_quantity lg r1 p1 = Inr (q, p2)" "m (fst t) = (v, fst s')"
      "m = reject_order h i r1 (EvBar bar) ''reduce_only_position_unavailable'' \<and> res = map_sum id (\<lambda>ev. emit_bar ev p2) v
          \<and> oi_reduce_only (or_intent r1) \<and> q = 0
        \<or> m = fill_order h i r1 (be_open bar) (em_at (be_meta bar)) c q
          \<and> res = map_sum id (\<lambda>ev. (emit_bar ev p2)\<lparr>bp_any_fill := True\<rparr>) v \<and> (oi_reduce_only (or_intent r1) \<longrightarrow> q \<noteq> 0)"
proof -
  let ?guard = "awaits_open r \<and> oi_symbol (or_intent r) = be_symbol bar \<and> oi_contract (or_intent r) = be_contract bar
           \<and> em_at (oi_meta (or_intent r)) < em_at (be_meta bar)"
  consider "\<not> ?guard" | "?guard" by blast
  then show thesis
  proof cases
    case 1
    with assms have "res = Inr p" "s' = s" by (auto simp: bar_one_def)
    then show thesis by (rule that(1))
  next
    case 2
    obtain chk t where chk: "check_entry h prefill bar i r p s = (chk, t)"
      by (cases "check_entry h prefill bar i r p s") blast
    consider err where "chk = Inl err" | r1 p1 where "chk = Inr (r1, Stopped p1)"
      | r1 c p1 where "chk = Inr (r1, GoOn c p1)"
    proof (cases chk)
      case (Inr x)
      then show ?thesis using that by (cases x; cases "snd x") auto
    qed (use that in blast)
    then show thesis
    proof cases
      case e: 1
      then have "s' = t" "\<exists>err. res = Inl err" using assms 2 chk by (auto simp: bar_one_def and_then_def)
      then show thesis using that(2) [OF _ chk] 2 e by blast
    next
      case st: 2
      then have "s' = t" "res = Inr p1" using assms 2 chk by (auto simp: bar_one_def and_then_def)
      then show thesis using that(2) [OF _ chk] 2 st by blast
    next
      case go: 3
      show thesis
      proof (cases "bar_quantity lg r1 p1")
        case (Inl err)
        then have "s' = t" "res = Inl err" using assms 2 chk go by (auto simp: bar_one_def and_then_def)
        then show thesis using that(2) [OF _ chk] 2 go by blast
      next
        case (Inr x)
        obtain q p2 where x: "x = (q, p2)" by (cases x)
        let ?m = "if oi_reduce_only (or_intent r1) \<and> q = 0
          then reject_order h i r1 (EvBar bar) ''reduce_only_position_unavailable''
          else fill_order h i r1 (be_open bar) (em_at (be_meta bar)) c q"
        obtain v b where v: "?m (fst t) = (v, b)" by fastforce
        have rest: "fst s' = b \<and> res = (if oi_reduce_only (or_intent r1) \<and> q = 0
            then map_sum id (\<lambda>ev. emit_bar ev p2) v else map_sum id (\<lambda>ev. (emit_bar ev p2)\<lparr>bp_any_fill := True\<rparr>) v)"
          using assms 2 chk go Inr x v
          by (cases v) (auto simp: bar_one_def and_then_def on_broker_def split: if_splits)
        show thesis
          by (rule that(3) [of r1 c p1 t q p2 ?m v]) (use 2 chk go Inr x v rest in auto)
      qed
    qed
  qed
qed

lemma bar_one_emits:
  assumes "reserved_nonneg p \<and> orders_ok E (fst s)" "bar_one h lg prefill bar i p s = (res, s')"
  shows "emits_ok E (fst s) (bp_emitted p) (map_sum id bp_emitted res) (fst s')
    \<and> (\<forall>p'. res = Inr p' \<longrightarrow> reserved_nonneg p' \<and> orders_ok E (fst s'))"
proof (cases "order_of (fst s) i")
  case None
  with assms(2) show ?thesis by (auto simp: bar_one_def emits_ok_def)
next
  case (Some r)
  have ro: "record_ok E i r" using orders_ok_lookup [OF _ Some] assms(1) by simp
  have "emits_ok E (fst s) (bp_emitted p) (map_sum id bp_emitted res) (fst s')
    \<and> (\<forall>p'. res = Inr p' \<longrightarrow> reserved_nonneg p')"
    using assms(2) Some
  proof (cases rule: bar_one_cases)
    case 1
    with assms(1) show ?thesis by simp
  next
    case (2 chk t)
    note ok = check_entry_ok [OF 2(2) Some ro]
    from 2(4) show ?thesis
    proof (elim disjE exE conjE)
      fix err assume "res = Inl err"
      then show ?thesis using ok 2(3,5) by (auto simp: entry_check_ok_def emits_ok_def intro: sim_effect_drop)
    next
      fix r1 p1 assume "chk = Inr (r1, Stopped p1)" "res = Inr p1"
      then show ?thesis using ok 2(3) assms(1) by (auto simp: entry_check_ok_def emits_ok_def reserved_nonneg_def)
    qed
  next
    case (3 t r1 c p1 q p2 m v)
    from check_entry_ok [OF 3(2) Some ro] obtain es where go: "bp_reserved p1 = bp_reserved p"
      "order_of (fst t) i = Some r1" "or_intent r1 = or_intent r" "or_status r1 = or_status r" "or_approved r1 = or_approved r"
      "bp_emitted p1 = bp_emitted p @ es" "sim_effect E (fst s) es (fst t)"
      by (auto simp: entry_check_ok_def)
    have ok1: "orders_ok E (fst t)" using go(7) assms(1) by (simp add: sim_effect_def)
    have ro1: "record_ok E i r1" by (rule orders_ok_lookup [OF ok1 go(2)])
    have st1: "or_status r1 = SimApproved" using 3(1) go(4) by (simp add: awaits_open_def)
    have ap1: "approval_in E r1" using ro1 st1 by (simp add: record_ok_def)
    have res1: "\<And>k. 0 \<le> dict_get0 (bp_reserved p1) k" using assms(1) go(1) by (simp add: reserved_nonneg_def)
    have q: "q \<le> or_approved r1" "bp_emitted p2 = bp_emitted p1"
      using bar_quantity_le [OF 3(3) _ res1] ap1 by (auto simp: approval_in_def)
    have p2: "reserved_nonneg p2" using bar_quantity_reserved [OF 3(3) res1] by (simp add: reserved_nonneg_def)
    have eff: "sim_effect E (fst t) (case v of Inl _ \<Rightarrow> [] | Inr ev \<Rightarrow> [ev]) (fst s')"
      using 3(5)
    proof (elim disjE conjE)
      assume "m = reject_order h i r1 (EvBar bar) ''reduce_only_position_unavailable''"
      then show ?thesis using reject_order_effect [OF _ ro1] 3(4) by blast
    next
      assume "m = fill_order h i r1 (be_open bar) (em_at (be_meta bar)) c q"
      then show ?thesis using fill_order_effect [OF _ ro1 ap1 go(2) st1 q(1)] 3(4) by blast
    qed
    have all: "sim_effect E (fst s) (es @ (case v of Inl _ \<Rightarrow> [] | Inr ev \<Rightarrow> [ev])) (fst s')"
      by (rule sim_effect_trans [OF go(7) eff])
    show ?thesis
    proof (cases v)
      case (Inl err)
      then show ?thesis using 3(5) all by (auto simp: emits_ok_def intro: sim_effect_drop)
    next
      case (Inr ev)
      then obtain p' where p': "res = Inr p'" "bp_emitted p' = bp_emitted p2 @ [ev]" "bp_reserved p' = bp_reserved p2"
        using 3(5) by auto
      then show ?thesis using all q(2) go(6) p2 Inr by (auto simp: emits_ok_def reserved_nonneg_def)
    qed
  qed
  then show ?thesis using emits_ok_orders assms(1) by auto
qed

lemma sim_on_bar_cases:
  assumes "sim_on_bar h lg prefill (EvBar bar) s = (res, s')"
  defines "b1 \<equiv> (fst s)\<lparr>sb_last_close := dict_put (be_symbol bar, be_contract bar) (be_close bar) (sb_last_close (fst s))\<rparr>"
  obtains err b2 where "fold_prog (roll_one h bar) (sb_orders b1) [] b1 = (Inl err, b2)" "res = Inl err" "fst s' = b2"
  | rolled b2 r s2 where "fold_prog (roll_one h bar) (sb_orders b1) [] b1 = (Inr rolled, b2)"
      "fold_prog (bar_one h lg prefill bar) (sb_sequence b2) \<lparr> bp_emitted = rolled, bp_any_fill = False, bp_reserved = [] \<rparr>
         (b2, snd s) = (r, s2)"
      "res = map_sum id bp_emitted r" "sb_orders (fst s') = sb_orders (fst s2)"
proof -
  obtain q b2 where q: "fold_prog (roll_one h bar) (sb_orders b1) [] b1 = (q, b2)" by fastforce
  show thesis
  proof (cases q)
    case (Inl err)
    have "res = Inl err" "fst s' = b2"
      using assms(1) q Inl by (auto simp: sim_on_bar_def Let_def and_then_def on_broker_def b1_def [symmetric])
    then show thesis using that(1) q Inl by blast
  next
    case (Inr rolled)
    let ?p0 = "\<lparr> bp_emitted = rolled, bp_any_fill = False, bp_reserved = [] \<rparr>"
    obtain r s2 where r: "fold_prog (bar_one h lg prefill bar) (sb_sequence b2) ?p0 (b2, snd s) = (r, s2)"
      by (cases "fold_prog (bar_one h lg prefill bar) (sb_sequence b2) ?p0 (b2, snd s)") blast
    have "res = map_sum id bp_emitted r" "sb_orders (fst s') = sb_orders (fst s2)"
      using assms(1) q Inr r
      by (cases r; auto simp: sim_on_bar_def Let_def and_then_def on_broker_def b1_def [symmetric] split: if_splits)+
    then show thesis using that(2) [OF q [unfolded Inr] r] by blast
  qed
qed

lemma effect_same_orders: "sim_effect E a es b \<Longrightarrow> sb_orders b' = sb_orders b \<Longrightarrow> sim_effect E a es b'"
  by (simp add: sim_effect_def orders_ok_def fill_room_def order_of_def)

lemma effect_same_start: "sim_effect E a es b \<Longrightarrow> sb_orders a' = sb_orders a \<Longrightarrow> sim_effect E a' es b"
  by (simp add: sim_effect_def orders_ok_def fill_room_def order_of_def)

lemma fold_emits_list:
  assumes "\<And>x acc b r b'. x \<in> set xs \<Longrightarrow> f x acc b = (r, b') \<Longrightarrow> emits_ok E b acc r b'"
    and "fold_prog f xs acc b = (r, b')"
  shows "emits_ok E b acc r b'"
proof -
  have id: "map_sum id (\<lambda>es. es) q = q" for q :: "domain_event list res" by (cases q) auto
  have "emits_ok E ((\<lambda>b. b) b) ((\<lambda>es. es) acc) (map_sum id (\<lambda>es. es) r) ((\<lambda>b. b) b')"
    by (rule fold_emits [where P = "\<lambda>_ _. True", OF _ assms(2)]) (use assms(1) in \<open>simp_all add: id\<close>)
  then show ?thesis by (simp add: id)
qed

lemma roll_all_emits:
  assumes "fold_prog (roll_one h bar) (sb_orders b) [] b = (r, b')" "orders_ok E b"
  shows "emits_ok E b [] r b'"
  by (rule fold_emits_list [OF roll_one_emits assms(1)]) (use assms(2) in \<open>auto simp: orders_ok_def\<close>)

lemma session_all_emits:
  assumes "fold_prog (session_one h se) (sb_orders b) [] b = (r, b')" "orders_ok E b"
  shows "emits_ok E b [] r b'"
  by (rule fold_emits_list [OF session_one_emits assms(1)]) (use assms(2) in \<open>auto simp: orders_ok_def\<close>)

lemma sim_on_session_effect:
  assumes "sim_on_session h e b = (r, b')"
  shows "sim_effect E b (emitted r) b'"
proof (cases "orders_ok E b")
  case True
  with assms show ?thesis
    by (auto simp: sim_on_session_def split: domain_event.splits if_splits
        dest!: session_all_emits [where E = E] intro: emits_ok_effect)
qed (simp add: sim_effect_def)

lemma sim_on_bar_effect:
  assumes "sim_on_bar h lg prefill e s = (res, s')"
  shows "sim_effect E (fst s) (emitted res) (fst s')"
proof (cases "orders_ok E (fst s) \<and> (\<exists>bar. e = EvBar bar)")
  case False
  then show ?thesis
  proof (cases "orders_ok E (fst s)")
    case True
    with False assms show ?thesis by (auto simp: sim_on_bar_def split: domain_event.splits)
  qed (simp add: sim_effect_def)
next
  case True
  then obtain bar where e: "e = EvBar bar" and ok: "orders_ok E (fst s)" by blast
  let ?b1 = "(fst s)\<lparr>sb_last_close := dict_put (be_symbol bar, be_contract bar) (be_close bar) (sb_last_close (fst s))\<rparr>"
  have ok1: "orders_ok E ?b1" using ok by (simp add: orders_ok_def)
  from assms [unfolded e] show ?thesis
  proof (cases rule: sim_on_bar_cases)
    case (1 err b2)
    from roll_all_emits [OF 1(1) ok1] have "sim_effect E ?b1 [] b2" by (simp add: emits_ok_def)
    with 1(2,3) show ?thesis by (auto intro: effect_same_start)
  next
    case (2 rolled b2 r s2)
    note em1 = roll_all_emits [OF 2(1) ok1]
    have em2: "emits_ok E (fst (b2, snd s)) (bp_emitted \<lparr> bp_emitted = rolled, bp_any_fill = False, bp_reserved = [] \<rparr>)
        (map_sum id bp_emitted r) (fst s2)"
      by (rule fold_emits [where st = fst and em = bp_emitted and P = "\<lambda>p s. reserved_nonneg p \<and> orders_ok E (fst s)", OF bar_one_emits 2(2)])
        (use emits_ok_orders [OF em1 ok1] in \<open>simp_all add: reserved_nonneg_def\<close>)
    have "emits_ok E ?b1 [] res (fst s2)"
      using emits_ok_trans [OF em1] em2 2(3) by simp
    from effect_same_start [OF effect_same_orders [OF emits_ok_effect [OF this] 2(4)]] show ?thesis by simp
  qed
qed

section \<open>Reduce-only fills of one bar\<close>

definition intent_of :: "sim_broker \<Rightarrow> string \<Rightarrow> order_intent option" where
  "intent_of b i = map_option or_intent (order_of b i)"

lemma intent_of_put: "order_of b i = Some r \<Longrightarrow> or_intent r' = or_intent r \<Longrightarrow> intent_of (put_order i r' b) = intent_of b"
  by (auto simp: intent_of_def)

lemma intent_of_same_orders: "sb_orders b' = sb_orders b \<Longrightarrow> intent_of b' = intent_of b"
  by (simp add: intent_of_def order_of_def fun_eq_iff)

lemma mark_fields [simp]: "or_intent (mark_rejected reason r) = or_intent r" "or_intent (mark_filled f r) = or_intent r"
  by (simp_all add: mark_rejected_def mark_filled_def)

lemma reject_order_state: "reject_order h i r cause reason b = (res, b') \<Longrightarrow> b' = put_order i (mark_rejected reason r) b"
  by (auto simp: reject_order_def split: sum.splits)

lemma fill_order_state: "fill_order h i r raw t cause q b = (res, b') \<Longrightarrow>
    (\<exists>err. res = Inl err \<and> b' = b) \<or> (\<exists>f. res = Inr (EvFill f) \<and> b' = put_order i (mark_filled f r) b
      \<and> build_fill h (sb_costs b) r raw t cause q = Inr f)"
  by (auto simp: fill_order_def split: sum.splits)

lemma intent_of_note_gap [simp]: "intent_of (note_gap reason b) = intent_of b"
  by (rule intent_of_same_orders) (simp add: note_gap_def)

lemma check_entry_intents:
  assumes "check_entry h prefill bar i r p s = (res, s')" "order_of (fst s) i = Some r"
  shows "intent_of (fst s') = intent_of (fst s)"
proof (cases "oi_reduce_only (or_intent r) \<or> oi_source (or_intent r) \<noteq> StrategyAuto")
  case True
  with assms show ?thesis by (auto simp: check_entry_def Let_def)
next
  case auto_entry: False
  show ?thesis
  proof (cases prefill)
    case None
    obtain q t where q: "reject_order h i r (EvBar bar) ''prefill_risk_unavailable'' (fst s) = (q, t)" by fastforce
    have "fst s' = t" using assms(1) auto_entry None q by (auto simp: check_entry_def Let_def and_then_give on_broker_def)
    with reject_order_state [OF q] assms(2) show ?thesis by (simp add: intent_of_put)
  next
    case (Some pf)
    let ?price = "be_open bar + fc_slippage_points (sb_costs (fst s)) * of_int (side_sign (oi_side (or_intent r)))"
    obtain dres g where pf: "pf (or_intent r) ?price (em_at (be_meta bar)) (snd s) = (dres, g)" by fastforce
    show ?thesis
    proof (cases dres)
      case (Inl err)
      with assms(1) auto_entry Some pf show ?thesis by (auto simp: check_entry_def Let_def on_gate_def)
    next
      case (Inr d)
      let ?r1 = "set_risk_id (em_id (rd_meta d)) r"
      let ?b2 = "put_order i ?r1 (fst s)"
      have b2: "intent_of ?b2 = intent_of (fst s)" by (rule intent_of_put [OF assms(2)]) simp
      obtain q t where q: "reject_order h i ?r1 (EvRisk d) (rd_reason d) (note_gap (rd_reason d) ?b2) = (q, t)" by fastforce
      have "fst s' = (if rd_approved d then ?b2 else t)"
        using assms(1) auto_entry Some pf Inr q
        by (auto simp: check_entry_def Let_def on_gate_def and_then_give on_broker_def)
      moreover have "intent_of t = intent_of (note_gap (rd_reason d) ?b2)"
      proof -
        have "order_of (note_gap (rd_reason d) ?b2) i = Some ?r1" by (simp add: note_gap_def order_of_def put_order_def)
        with reject_order_state [OF q] show ?thesis by (simp add: intent_of_put)
      qed
      ultimately show ?thesis using b2 by simp
    qed
  qed
qed

text \<open>The reduce-only fills of a key among emitted events, by the intents \<open>I0\<close> of their orders.\<close>

definition reduces_key :: "(string \<Rightarrow> order_intent option) \<Rightarrow> pos_key \<Rightarrow> fill_event \<Rightarrow> bool" where
  "reduces_key I0 k f \<longleftrightarrow> (case I0 (fe_order_id f) of None \<Rightarrow> False
     | Some o' \<Rightarrow> oi_reduce_only o' \<and> (\<exists>owner. em_owner (oi_meta o') = Some owner \<and> order_key owner o' = k))"

fun reduce_total :: "(string \<Rightarrow> order_intent option) \<Rightarrow> pos_key \<Rightarrow> domain_event list \<Rightarrow> int" where
  "reduce_total I0 k [] = 0"
| "reduce_total I0 k (e # es) = (case e of EvFill f \<Rightarrow> if reduces_key I0 k f then signed_fill f else 0 | _ \<Rightarrow> 0)
     + reduce_total I0 k es"

lemma reduce_total_append [simp]: "reduce_total I0 k (xs @ ys) = reduce_total I0 k xs + reduce_total I0 k ys"
  by (induction xs) auto

lemma reduce_total_no_fill: "(\<forall>f. EvFill f \<notin> set es) \<Longrightarrow> reduce_total I0 k es = 0"
  by (induction es) (auto split: domain_event.splits)

definition bar_invariant :: "(string \<Rightarrow> order_intent option) \<Rightarrow> pos_key \<Rightarrow> int \<Rightarrow> bar_progress \<Rightarrow> sim_broker \<Rightarrow> bool" where
  "bar_invariant I0 k pos p b \<longleftrightarrow> intent_of b = I0 \<and> reserved_nonneg p \<and> dict_get0 (bp_reserved p) k \<le> \<bar>pos\<bar>
     \<and> reduce_total I0 k (bp_emitted p) = - sgn pos * dict_get0 (bp_reserved p) k"

lemma fold_prog_Inr_inv:
  assumes "\<And>x acc s acc' s'. x \<in> set xs \<Longrightarrow> J acc s \<Longrightarrow> f x acc s = (Inr acc', s') \<Longrightarrow> J acc' s'"
    and "fold_prog f xs acc s = (Inr acc', s')" "J acc s"
  shows "J acc' s'"
  using assms
proof (induction xs arbitrary: acc s)
  case (Cons x xs)
  then obtain acc1 t where t: "f x acc s = (Inr acc1, t)" "fold_prog f xs acc1 t = (Inr acc', s')"
    by (auto split: prod.splits sum.splits)
  have "J acc1 t" by (rule Cons.prems(1) [OF _ Cons.prems(3) t(1)]) simp
  with Cons.IH [OF _ t(2)] Cons.prems(1) show ?case by (meson list.set_intros(2))
qed simp

text \<open>What \<open>bar_quantity\<close> gives a reduce-only order.\<close>

lemma bar_quantity_reduce:
  assumes "bar_quantity lg r p = Inr (q, p2)" "oi_reduce_only (or_intent r)" "lg = Some l" "reserved_nonneg p"
  obtains owner where "em_owner (oi_meta (or_intent r)) = Some owner"
    "q = 0 \<longrightarrow> bp_reserved p2 = bp_reserved p"
    "0 \<le> q" "q \<noteq> 0 \<longrightarrow> bp_reserved p2 = dict_add (order_key owner (or_intent r)) q (bp_reserved p)"
    "q \<noteq> 0 \<longrightarrow> dict_get0 (bp_reserved p) (order_key owner (or_intent r)) + q
        \<le> \<bar>ps_quantity (ledger_position_at l (order_key owner (or_intent r)))\<bar>"
    "q \<noteq> 0 \<longrightarrow> side_sign (oi_side (or_intent r)) = - sgn (ps_quantity (ledger_position_at l (order_key owner (or_intent r))))"
proof -
  from assms obtain owner av where o': "execution_owner (EvOrder (or_intent r)) = Inr owner"
    "reduce_only_available lg r = Inr av"
    by (auto simp: bar_quantity_def Let_def split: sum.splits)
  let ?k = "order_key owner (or_intent r)"
  have own: "em_owner (oi_meta (or_intent r)) = Some owner"
    using o'(1) by (auto simp: execution_owner_def truthy_def split: if_splits)
  have av: "av = 0 \<or> (av \<le> \<bar>ps_quantity (ledger_position_at l ?k)\<bar>
      \<and> side_sign (oi_side (or_intent r)) = - sgn (ps_quantity (ledger_position_at l ?k)))"
    using o' assms(2,3) by (auto simp: reduce_only_available_def Let_def ledger_position_at_def side_sign_def
        split: if_splits option.splits)
  have q: "q = max 0 (av - dict_get0 (bp_reserved p) ?k)"
    "p2 = (if q = 0 then p else p\<lparr>bp_reserved := dict_add ?k q (bp_reserved p)\<rparr>)"
    using assms(1,2) o' by (auto simp: bar_quantity_def Let_def split: if_splits)
  show thesis
  proof (rule that [OF own])
    show "q = 0 \<longrightarrow> bp_reserved p2 = bp_reserved p"
      "q \<noteq> 0 \<longrightarrow> bp_reserved p2 = dict_add ?k q (bp_reserved p)" using q(2) by auto
    show "0 \<le> q" using q(1) by simp
    have "0 \<le> dict_get0 (bp_reserved p) ?k" using assms(4) by (simp add: reserved_nonneg_def)
    then have "q \<noteq> 0 \<longrightarrow> av \<noteq> 0 \<and> dict_get0 (bp_reserved p) ?k + q = av" using q(1) by auto
    with av show "q \<noteq> 0 \<longrightarrow> dict_get0 (bp_reserved p) ?k + q \<le> \<bar>ps_quantity (ledger_position_at l ?k)\<bar>"
      "q \<noteq> 0 \<longrightarrow> side_sign (oi_side (or_intent r)) = - sgn (ps_quantity (ledger_position_at l ?k))" by auto
  qed
qed

lemma signed_fill_side: "signed_fill f = side_sign (fe_side f) * fe_quantity f"
  by (simp add: signed_fill_def side_sign_def)

lemma bar_one_invariant:
  assumes "bar_one h (Some l) prefill bar i p s = (Inr p', s')" "bar_invariant I0 k (ps_quantity (ledger_position_at l k)) p (fst s)"
    and "orders_ok E (fst s)"
  shows "bar_invariant I0 k (ps_quantity (ledger_position_at l k)) p' (fst s')"
proof -
  let ?pos = "ps_quantity (ledger_position_at l k)"
  have inv: "intent_of (fst s) = I0" "reserved_nonneg p" "dict_get0 (bp_reserved p) k \<le> \<bar>?pos\<bar>"
    "reduce_total I0 k (bp_emitted p) = - sgn ?pos * dict_get0 (bp_reserved p) k"
    using assms(2) by (simp_all add: bar_invariant_def)
  obtain r where r: "order_of (fst s) i = Some r"
    using assms(1) by (cases "order_of (fst s) i") (auto simp: bar_one_def)
  have ro: "record_ok E i r" by (rule orders_ok_lookup [OF assms(3) r])
  from assms(1) r show ?thesis
  proof (cases rule: bar_one_cases)
    case 1
    with assms(2) show ?thesis by simp
  next
    case (2 chk t)
    then obtain r1 where st: "chk = Inr (r1, Stopped p')" by auto
    obtain es where "bp_reserved p' = bp_reserved p" "bp_emitted p' = bp_emitted p @ es" "\<forall>f. EvFill f \<notin> set es"
      using check_entry_ok [OF 2(2) r ro] st by (auto simp: entry_check_ok_def)
    with inv check_entry_intents [OF 2(2) r] 2(3) show ?thesis
      by (simp add: bar_invariant_def reserved_nonneg_def reduce_total_no_fill)
  next
    case (3 t r1 c p1 q p2 m v)
    from check_entry_ok [OF 3(2) r ro] obtain es where go: "bp_reserved p1 = bp_reserved p"
      "order_of (fst t) i = Some r1" "or_intent r1 = or_intent r" "or_approved r1 = or_approved r"
      "bp_emitted p1 = bp_emitted p @ es" "\<forall>f. EvFill f \<notin> set es"
      by (auto simp: entry_check_ok_def)
    have it: "intent_of (fst t) = I0" using check_entry_intents [OF 3(2) r] inv(1) by simp
    have i0: "I0 i = Some (or_intent r1)" using it go(2) by (auto simp: intent_of_def)
    have rn1: "reserved_nonneg p1" using inv(2) go(1) by (simp add: reserved_nonneg_def)
    have tot1: "reduce_total I0 k (bp_emitted p1) = - sgn ?pos * dict_get0 (bp_reserved p1) k"
      using inv(4) go(1,5,6) by (simp add: reduce_total_no_fill)
    have emit2: "bp_emitted p2 = bp_emitted p1"
      using 3(3) by (auto simp: bar_quantity_def Let_def split: if_splits sum.splits)
    have rn2: "reserved_nonneg p2"
      using bar_quantity_reserved [OF 3(3)] rn1 by (simp add: reserved_nonneg_def)
    from 3(5) show ?thesis
    proof (elim disjE conjE)
      assume m: "m = reject_order h i r1 (EvBar bar) ''reduce_only_position_unavailable''"
        "Inr p' = map_sum id (\<lambda>ev. emit_bar ev p2) v" "oi_reduce_only (or_intent r1)" "q = 0"
      then obtain ev where ev: "v = Inr ev" "p' = emit_bar ev p2" by (cases v) auto
      have "bp_reserved p2 = bp_reserved p1"
        by (rule bar_quantity_reduce [OF 3(3) m(3) refl rn1]) (use m(4) in simp)
      moreover have "\<forall>f. ev \<noteq> EvFill f" using 3(4) m(1) ev(1) reject_order_no_fill by blast
      moreover have "intent_of (fst s') = I0"
        using reject_order_state 3(4) m(1) it intent_of_put [OF go(2), of "mark_rejected ''reduce_only_position_unavailable'' r1"]
        by (metis mark_fields(1))
      ultimately show ?thesis using tot1 rn2 inv(3) go(1) emit2 ev(2)
        by (cases ev) (simp_all add: bar_invariant_def reserved_nonneg_def)
    next
      assume m: "m = fill_order h i r1 (be_open bar) (em_at (be_meta bar)) c q"
        "Inr p' = map_sum id (\<lambda>ev. emit_bar ev p2\<lparr>bp_any_fill := True\<rparr>) v"
        "oi_reduce_only (or_intent r1) \<longrightarrow> q \<noteq> 0"
      then obtain ev where v: "v = Inr ev" "p' = emit_bar ev p2\<lparr>bp_any_fill := True\<rparr>" by (cases v) auto
      obtain f where f: "ev = EvFill f" "fst s' = put_order i (mark_filled f r1) (fst t)"
        "build_fill h (sb_costs (fst t)) r1 (be_open bar) (em_at (be_meta bar)) c q = Inr f"
        using fill_order_state 3(4) m(1) v(1) by blast
      note fl = build_fill_Inr [OF f(3)]
      have it': "intent_of (fst s') = I0" using intent_of_put [OF go(2), of "mark_filled f r1"] it f(2) by simp
      have rid: "oi_order_id (or_intent r1) = i" using ro go(3) by (simp add: record_ok_def)
      show ?thesis
      proof (cases "oi_reduce_only (or_intent r1)")
        case False
        then have "p2 = p1" using 3(3) by (simp add: bar_quantity_def Let_def)
        moreover have "\<not> reduces_key I0 k f" using i0 fl(1) rid False by (simp add: reduces_key_def)
        ultimately show ?thesis using it' tot1 rn1 inv(3) go(1) v(2) f(1)
          by (simp add: bar_invariant_def reserved_nonneg_def)
      next
        case True
        obtain owner where o': "em_owner (oi_meta (or_intent r1)) = Some owner" "0 \<le> q"
          "bp_reserved p2 = dict_add (order_key owner (or_intent r1)) q (bp_reserved p1)"
          "dict_get0 (bp_reserved p1) (order_key owner (or_intent r1)) + q
             \<le> \<bar>ps_quantity (ledger_position_at l (order_key owner (or_intent r1)))\<bar>"
          "side_sign (oi_side (or_intent r1)) = - sgn (ps_quantity (ledger_position_at l (order_key owner (or_intent r1))))"
          by (rule bar_quantity_reduce [OF 3(3) True refl rn1]) (use m(3) True in blast)
        have red: "reduces_key I0 k f \<longleftrightarrow> order_key owner (or_intent r1) = k"
          using i0 fl(1) rid True o'(1) by (simp add: reduces_key_def)
        have sf: "signed_fill f = side_sign (oi_side (or_intent r1)) * q"
          using fl(2,8) m(3) True by (simp add: signed_fill_side)
        show ?thesis
        proof (cases "order_key owner (or_intent r1) = k")
          case same: True
          have "dict_get0 (bp_reserved p') k = dict_get0 (bp_reserved p1) k + q"
            using v(2) o'(3) same by simp
          moreover have "reduce_total I0 k (bp_emitted p') = - sgn ?pos * dict_get0 (bp_reserved p1) k + (- sgn ?pos) * q"
            using v(2) f(1) emit2 tot1 red same sf o'(5) by simp
          ultimately have "reduce_total I0 k (bp_emitted p') = - sgn ?pos * dict_get0 (bp_reserved p') k
              \<and> dict_get0 (bp_reserved p') k \<le> \<bar>?pos\<bar>"
            using o'(4) same by (simp add: algebra_simps)
          then show ?thesis using it' rn2 v(2) by (simp add: bar_invariant_def reserved_nonneg_def)
        next
          case other: False
          have "dict_get0 (bp_reserved p') k = dict_get0 (bp_reserved p1) k" using v(2) o'(3) other by simp
          moreover have "reduce_total I0 k (bp_emitted p') = reduce_total I0 k (bp_emitted p1)"
            using v(2) f(1) emit2 red other by simp
          ultimately show ?thesis using it' rn2 v(2) tot1 inv(3) go(1) by (simp add: bar_invariant_def reserved_nonneg_def)
        qed
      qed
    qed
  qed
qed

section \<open>Every sequence of operations\<close>

datatype 'g sim_op = SimOrder domain_event | SimRisk "ledger option" domain_event
  | SimBar "ledger option" "'g prefill option" domain_event | SimSession domain_event
  | SimPrice string string price

fun sim_do :: "hashing \<Rightarrow> 'g sim_op \<Rightarrow> (sim_broker \<times> 'g, domain_event list) prog" where
  "sim_do h (SimOrder e) = on_broker (sim_on_order e)"
| "sim_do h (SimRisk lg e) = on_broker (sim_on_risk h lg e)"
| "sim_do h (SimBar lg pf e) = sim_on_bar h lg pf e"
| "sim_do h (SimSession e) = on_broker (sim_on_session h e)"
| "sim_do h (SimPrice s c p) = on_broker (and_then (update_market_price s c p) (\<lambda>_. give []))"

fun sim_events :: "'g sim_op \<Rightarrow> domain_event set" where
  "sim_events (SimOrder e) = {e}" | "sim_events (SimRisk lg e) = {e}" | "sim_events (SimBar lg pf e) = {e}"
| "sim_events (SimSession e) = {e}" | "sim_events (SimPrice s c p) = {}"

text \<open>All events emitted over a sequence of operations, an operation that raises emitting none.\<close>

fun sim_trace :: "hashing \<Rightarrow> sim_broker \<times> 'g \<Rightarrow> 'g sim_op list \<Rightarrow> domain_event list" where
  "sim_trace h s [] = []"
| "sim_trace h s (x # xs) = (case sim_do h x s of (r, s') \<Rightarrow> emitted r @ sim_trace h s' xs)"

lemma sim_do_effect:
  assumes "sim_do h x s = (r, s')" "sim_events x \<subseteq> E" "\<And>d. EvRisk d \<in> sim_events x \<Longrightarrow> check_risk_decision d = Inr d"
  shows "sim_effect E (fst s) (emitted r) (fst s')"
proof (cases x)
  case (SimOrder e)
  with assms show ?thesis using sim_on_order_effect [of e "fst s" r "fst s'" E] by (simp add: on_broker_eq)
next
  case (SimRisk lg e)
  with assms show ?thesis using sim_on_risk_effect [of h lg e "fst s" r "fst s'" E] by (simp add: on_broker_eq)
next
  case (SimBar lg pf e)
  with assms show ?thesis using sim_on_bar_effect by simp
next
  case (SimSession e)
  with assms show ?thesis using sim_on_session_effect [of h e "fst s" r "fst s'" E] by (simp add: on_broker_eq)
next
  case (SimPrice a b p)
  with assms(1) have "sb_orders (fst s') = sb_orders (fst s)" "emitted r = []"
    by (auto simp: on_broker_def and_then_give update_market_price_def split: if_splits)
  with effect_same_orders [OF sim_effect_refl [of E "fst s"], of "fst s'"] show ?thesis by simp
qed

lemma sim_trace_effect:
  assumes "\<forall>x \<in> set xs. sim_events x \<subseteq> E" "\<forall>x \<in> set xs. \<forall>d. EvRisk d \<in> sim_events x \<longrightarrow> check_risk_decision d = Inr d"
  shows "\<exists>b'. sim_effect E (fst s) (sim_trace h s xs) b'"
  using assms
proof (induction xs arbitrary: s)
  case Nil
  have "sim_effect E (fst s) (sim_trace h s []) (fst s)" by simp
  then show ?case by blast
next
  case (Cons x xs)
  obtain r t where r: "sim_do h x s = (r, t)" by (cases "sim_do h x s") blast
  have e: "sim_effect E (fst s) (emitted r) (fst t)"
    using Cons.prems by (intro sim_do_effect [OF r]) simp_all
  have "\<exists>b'. sim_effect E (fst t) (sim_trace h t xs) b'" using Cons.prems by (intro Cons.IH) simp_all
  then obtain b' where "sim_effect E (fst t) (sim_trace h t xs) b'" by blast
  from sim_effect_trans [OF e this] r show ?case by auto
qed

text \<open>C34. Over any sequence of operations on a new simulator, an order is filled at most once;
  and every fill belongs to an order that was placed and to a decision that approved it, carries
  the order's owner, side, symbol and contract, and is of at least one contract and at most the
  approved quantity, which is at most the requested one.\<close>

theorem fills_are_approved_once:
  assumes "\<forall>x \<in> set ops. \<forall>d. EvRisk d \<in> sim_events x \<longrightarrow> check_risk_decision d = Inr d"
  shows "fills_for i (sim_trace h (new_sim_broker costs allow, g) ops) \<le> 1
    \<and> (\<forall>f. EvFill f \<in> set (sim_trace h (new_sim_broker costs allow, g) ops)
          \<longrightarrow> fill_ok (\<Union> (sim_events ` set ops)) f)"
proof -
  let ?E = "\<Union> (sim_events ` set ops)" and ?b = "new_sim_broker costs allow"
  have "\<forall>x \<in> set ops. sim_events x \<subseteq> ?E" by auto
  from sim_trace_effect [OF this assms, of "(?b, g)" h]
  obtain b' where e: "sim_effect ?E ?b (sim_trace h (?b, g) ops) b'" by auto
  have ok: "orders_ok ?E ?b" and room: "fill_room ?b i = 1"
    by (simp_all add: orders_ok_def fill_room_def order_of_def new_sim_broker_def)
  from e ok have "fills_for i (sim_trace h (?b, g) ops) + fill_room b' i \<le> fill_room ?b i"
    by (simp add: sim_effect_def)
  moreover from e ok have "\<forall>f. EvFill f \<in> set (sim_trace h (?b, g) ops) \<longrightarrow> fill_ok ?E f"
    by (simp add: sim_effect_def)
  ultimately show ?thesis unfolding room by simp
qed

section \<open>Reachable simulators\<close>

fun sim_run :: "hashing \<Rightarrow> sim_broker \<times> 'g \<Rightarrow> 'g sim_op list \<Rightarrow> sim_broker \<times> 'g" where
  "sim_run h s [] = s"
| "sim_run h s (x # xs) = sim_run h (snd (sim_do h x s)) xs"

lemma sim_run_orders_ok:
  assumes "\<forall>x \<in> set xs. sim_events x \<subseteq> E" "\<forall>x \<in> set xs. \<forall>d. EvRisk d \<in> sim_events x \<longrightarrow> check_risk_decision d = Inr d"
    and "orders_ok E (fst s)"
  shows "orders_ok E (fst (sim_run h s xs))"
  using assms
proof (induction xs arbitrary: s)
  case (Cons x xs)
  obtain r t where r: "sim_do h x s = (r, t)" by (cases "sim_do h x s") blast
  have "sim_effect E (fst s) (emitted r) (fst t)" using Cons.prems by (intro sim_do_effect [OF r]) simp_all
  then have "orders_ok E (fst t)" using Cons.prems(3) by (simp add: sim_effect_def)
  with Cons r show ?case by simp
qed simp

lemma roll_one_intents:
  assumes "roll_one h bar x acc b = (Inr acc', b')" "intent_of b (fst x) = Some (or_intent (snd x))"
  shows "intent_of b' = intent_of b \<and> (\<exists>es. acc' = acc @ es \<and> (\<forall>f. EvFill f \<notin> set es))"
proof (cases "awaits_open (snd x) \<and> oi_symbol (or_intent (snd x)) = be_symbol bar
         \<and> oi_contract (or_intent (snd x)) \<noteq> be_contract bar")
  case True
  obtain q t where q: "reject_order h (fst x) (snd x) (EvBar bar) ''contract_rolled_before_fill'' b = (q, t)" by fastforce
  then obtain ev where ev: "q = Inr ev" "acc' = acc @ [ev]" "b' = t"
    using assms(1) True by (cases q) (auto simp: roll_one_def and_then_give)
  have "intent_of t = intent_of b"
    using reject_order_state [OF q] assms(2) by (auto simp: intent_of_def)
  with ev reject_order_no_fill [OF q [unfolded ev(1)]] show ?thesis by auto
qed (use assms(1) in \<open>auto simp: roll_one_def\<close>)

lemma roll_all_intents:
  assumes "fold_prog (roll_one h bar) (sb_orders b) [] b = (Inr rolled, b')" "distinct (map fst (sb_orders b))"
  shows "intent_of b' = intent_of b" "\<forall>f. EvFill f \<notin> set rolled"
proof -
  have "intent_of b' = intent_of b \<and> (\<forall>f. EvFill f \<notin> set rolled)"
  proof (rule fold_prog_Inr_inv [where J = "\<lambda>acc c. intent_of c = intent_of b \<and> (\<forall>f. EvFill f \<notin> set acc)", OF _ assms(1)])
    fix x acc c acc' c'
    assume x: "x \<in> set (sb_orders b)" "intent_of c = intent_of b \<and> (\<forall>f. EvFill f \<notin> set acc)"
      "roll_one h bar x acc c = (Inr acc', c')"
    have "order_of b (fst x) = Some (snd x)"
      unfolding order_of_def by (rule map_of_is_SomeI [OF assms(2)]) (simp add: x(1))
    then have "intent_of b (fst x) = Some (or_intent (snd x))" by (simp add: intent_of_def)
    with roll_one_intents [OF x(3)] x(2)
    show "intent_of c' = intent_of b \<and> (\<forall>f. EvFill f \<notin> set acc')" by auto
  qed simp
  then show "intent_of b' = intent_of b" "\<forall>f. EvFill f \<notin> set rolled" by simp_all
qed

text \<open>C35. In every state the simulator can reach, the reduce-only fills one bar produces for a
  position, taken together, leave it on its side of zero and no larger than it was: several exits
  on the same bar cannot turn the position around.\<close>

theorem bar_reduce_only_never_flips:
  assumes "\<forall>x \<in> set ops. \<forall>d. EvRisk d \<in> sim_events x \<longrightarrow> check_risk_decision d = Inr d"
    and "s = sim_run h (new_sim_broker costs allow, g) ops"
    and "sim_on_bar h (Some l) prefill (EvBar bar) s = (Inr es, s')"
  shows "let q = ps_quantity (ledger_position_at l k); d = reduce_total (intent_of (fst s)) k es
    in 0 \<le> q * (q + d) \<and> \<bar>q + d\<bar> \<le> \<bar>q\<bar>"
proof -
  let ?E = "\<Union> (sim_events ` set ops)" and ?pos = "ps_quantity (ledger_position_at l k)"
  have ok: "orders_ok ?E (fst s)" unfolding assms(2)
    by (rule sim_run_orders_ok) (use assms(1) in \<open>auto simp: orders_ok_def new_sim_broker_def\<close>)
  let ?b1 = "(fst s)\<lparr>sb_last_close := dict_put (be_symbol bar, be_contract bar) (be_close bar) (sb_last_close (fst s))\<rparr>"
  have ok1: "orders_ok ?E ?b1" using ok by (simp add: orders_ok_def)
  have "\<exists>p b. es = bp_emitted p \<and> bar_invariant (intent_of (fst s)) k ?pos p b"
    using assms(3)
  proof (cases rule: sim_on_bar_cases)
    case (2 rolled b2 r s2)
    let ?p0 = "\<lparr> bp_emitted = rolled, bp_any_fill = False, bp_reserved = [] \<rparr>"
    from 2(3) obtain p where p: "r = Inr p" "es = bp_emitted p" by (cases r) auto
    have ok2: "orders_ok ?E b2" using emits_ok_orders [OF roll_all_emits [OF 2(1) ok1] ok1] .
    have "intent_of b2 = intent_of ?b1" "\<forall>f. EvFill f \<notin> set rolled"
      using roll_all_intents [OF 2(1)] ok1 by (auto simp: orders_ok_def)
    moreover have "intent_of ?b1 = intent_of (fst s)" by (rule intent_of_same_orders) simp
    ultimately have start: "bar_invariant (intent_of (fst s)) k ?pos ?p0 b2"
      by (simp add: bar_invariant_def reserved_nonneg_def reduce_total_no_fill)
    have "bar_invariant (intent_of (fst s)) k ?pos p (fst s2) \<and> orders_ok ?E (fst s2)"
    proof (rule fold_prog_Inr_inv [where J = "\<lambda>p t. bar_invariant (intent_of (fst s)) k ?pos p (fst t) \<and> orders_ok ?E (fst t)",
          OF _ 2(2) [unfolded p(1)]])
      fix x acc t acc' t'
      assume j: "bar_invariant (intent_of (fst s)) k ?pos acc (fst t) \<and> orders_ok ?E (fst t)"
        "bar_one h (Some l) prefill bar x acc t = (Inr acc', t')"
      have "reserved_nonneg acc \<and> orders_ok ?E (fst t)" using j(1) by (simp add: bar_invariant_def)
      from bar_one_emits [OF this j(2)] bar_one_invariant [OF j(2)] j(1)
      show "bar_invariant (intent_of (fst s)) k ?pos acc' (fst t') \<and> orders_ok ?E (fst t')" by blast
    qed (use start ok2 in simp)
    with p(2) show ?thesis by blast
  qed simp
  then obtain p b where "es = bp_emitted p" and inv: "bar_invariant (intent_of (fst s)) k ?pos p b" by blast
  define n where "n = dict_get0 (bp_reserved p) k"
  have n: "0 \<le> n" "n \<le> \<bar>?pos\<bar>" "reduce_total (intent_of (fst s)) k es = - sgn ?pos * n"
    using inv \<open>es = bp_emitted p\<close> by (auto simp: bar_invariant_def reserved_nonneg_def n_def)
  consider "?pos = 0" | "0 < ?pos" | "?pos < 0" by linarith
  then show ?thesis unfolding Let_def n(3)
    by cases (use n(1,2) in \<open>auto simp: sgn_if abs_if mult_nonneg_nonneg mult_nonpos_nonpos split: if_splits\<close>)
qed

section \<open>Instances\<close>

definition sample_meta :: "string \<Rightarrow> instant \<Rightarrow> event_meta" where
  "sample_meta i t = \<lparr> em_id = i, em_at = t, em_source = ''test'', em_correlation = None,
     em_causation = None, em_owner = Some ''alice'' \<rparr>"

definition sample_intent :: "string \<Rightarrow> order_side \<Rightarrow> int \<Rightarrow> bool \<Rightarrow> order_intent" where
  "sample_intent i side n reduce = \<lparr> oi_meta = sample_meta i 1, oi_order_id = i, oi_strategy = ''s'',
     oi_version = 1, oi_symbol = ''TMF'', oi_contract = ''TMFR1'', oi_side = side, oi_quantity = n,
     oi_purpose = (if reduce then Exit else Entry), oi_timing = NextBarOpen, oi_reduce_only = reduce,
     oi_reason = ''signal'', oi_reference_price = 100, oi_stop_loss_price = None, oi_stop_loss_pct = None,
     oi_take_profit_pct = None, oi_snapshot = None, oi_trading_date = None, oi_client_order_id = None,
     oi_source = ManualOrder, oi_runtime = None, oi_decision = None \<rparr>"

definition sample_decision :: "string \<Rightarrow> int \<Rightarrow> risk_decision" where
  "sample_decision i n = \<lparr> rd_meta = sample_meta (''d'' @ i) 1, rd_order_id = i, rd_approved = True,
     rd_approved_quantity = n, rd_reason = ''approved'', rd_estimated_risk = None,
     rd_reference_price = None, rd_phase = InitialPhase \<rparr>"

definition sample_bar :: "instant \<Rightarrow> bar_event" where
  "sample_bar t = \<lparr> be_meta = sample_meta ''bar'' t, be_symbol = ''TMF'', be_contract = ''TMFR1'',
     be_timeframe = ''1m'', be_open = 100, be_high = 110, be_low = 90, be_close = 105, be_volume = 3,
     be_session = DayBar, be_trading_date = 0 \<rparr>"

definition sample_sim_ops :: "ledger option \<Rightarrow> unit sim_op list" where
  "sample_sim_ops lg = [SimOrder (EvOrder (sample_intent ''1'' Sell 2 True)), SimOrder (EvOrder (sample_intent ''2'' Sell 2 True)),
     SimRisk lg (EvRisk (sample_decision ''1'' 2)), SimRisk lg (EvRisk (sample_decision ''2'' 2))]"

definition sample_long :: ledger where
  "sample_long = ledger_step sample_hashing sample_ledger (sample_fill ''f'' Buy 3 100)"

lemma sample_sim_ops_valid: "\<forall>x \<in> set (sample_sim_ops lg). \<forall>d. EvRisk d \<in> sim_events x \<longrightarrow> check_risk_decision d = Inr d"
  by (simp add: sample_sim_ops_def sample_decision_def check_risk_decision_def first_error.simps not_positive_def)

lemma fills_are_approved_once_witness:
  "fills_for ''1'' (sim_trace sample_hashing (new_sim_broker default_futures_costs False, ())
      (sample_sim_ops (Some sample_long) @ [SimBar (Some sample_long) None (EvBar (sample_bar 2))])) = 1"
proof -
  let ?ops = "sample_sim_ops (Some sample_long) @ [SimBar (Some sample_long) None (EvBar (sample_bar 2))]"
  have "\<forall>x \<in> set ?ops. \<forall>d. EvRisk d \<in> sim_events x \<longrightarrow> check_risk_decision d = Inr d"
    using sample_sim_ops_valid by auto
  from fills_are_approved_once [OF this, of "''1''" sample_hashing default_futures_costs False "()"]
  have "fills_for ''1'' (sim_trace sample_hashing (new_sim_broker default_futures_costs False, ()) ?ops) \<le> 1" by blast
  moreover have "0 < fills_for ''1'' (sim_trace sample_hashing (new_sim_broker default_futures_costs False, ()) ?ops)"
    by code_simp
  ultimately show ?thesis by simp
qed

lemma bar_reduce_only_never_flips_witness:
  "\<exists>es s'. sim_on_bar sample_hashing (Some sample_long) None (EvBar (sample_bar 2))
      (sim_run sample_hashing (new_sim_broker default_futures_costs False, ()) (sample_sim_ops (Some sample_long))) = (Inr es, s')
    \<and> 0 \<le> 3 + reduce_total (intent_of (fst (sim_run sample_hashing (new_sim_broker default_futures_costs False, ())
          (sample_sim_ops (Some sample_long))))) sample_key es"
proof -
  let ?s = "sim_run sample_hashing (new_sim_broker default_futures_costs False, ()) (sample_sim_ops (Some sample_long))"
  have "is_ok (fst (sim_on_bar sample_hashing (Some sample_long) None (EvBar (sample_bar 2)) ?s))" by code_simp
  then obtain es s' where r: "sim_on_bar sample_hashing (Some sample_long) None (EvBar (sample_bar 2)) ?s = (Inr es, s')"
    by (cases "sim_on_bar sample_hashing (Some sample_long) None (EvBar (sample_bar 2)) ?s") (auto simp: is_ok_iff)
  have q: "ps_quantity (ledger_position_at sample_long sample_key) = 3" by code_simp
  from bar_reduce_only_never_flips [OF sample_sim_ops_valid refl r, of sample_key] r show ?thesis
    unfolding Let_def q by (intro exI [of _ es] exI [of _ s']) (simp add: zero_le_mult_iff)
qed

end
