(* ===== verification/Exec_Pipeline.thy ===== *)
theory Exec_Pipeline
  imports Event_Order Sim_Broker_Safety
begin

text \<open>
  The execution components around the simulator and their subscriptions
  (\<open>execution/risk_gates.py\<close>, \<open>execution/signal_router.py\<close>, \<open>execution/liquidator.py\<close>,
  \<open>execution/pipeline.py\<close>): strategy signals become order intents, a risk gate decides, the
  simulator fills, the ledger books, and the liquidator closes what must not stay open.

  The components share one world, whose last part is the state \<open>'g\<close> of the risk gate; the engine's
  handlers act on the part that is theirs.
\<close>

section \<open>Risk gates\<close>

text \<open>A gate decides about order intents; the other handlers are the ones the pipeline looks up with
  \<open>getattr\<close>.\<close>

record 'g gate_ops =
  go_on_order :: "ledger \<Rightarrow> domain_event \<Rightarrow> ('g, domain_event list) prog"
  go_on_order_status :: "(ledger \<Rightarrow> domain_event \<Rightarrow> ('g, domain_event list) prog) option"
  go_on_fill :: "(ledger \<Rightarrow> domain_event \<Rightarrow> ('g, domain_event list) prog) option"
  go_on_session :: "(ledger \<Rightarrow> domain_event \<Rightarrow> ('g, domain_event list) prog) option"

definition gate_decision :: "hashing \<Rightarrow> string \<Rightarrow> order_intent \<Rightarrow> bool \<Rightarrow> string \<Rightarrow> risk_decision res" where
  "gate_decision h src o' approved reason =
     (case create_meta h KRiskDecision (em_at (oi_meta o')) src (oi_order_id o')
         (em_correlation (oi_meta o')) (Some (em_id (oi_meta o'))) (em_owner (oi_meta o')) of
        Inl err \<Rightarrow> Inl err
      | Inr meta \<Rightarrow> check_risk_decision \<lparr> rd_meta = meta, rd_order_id = oi_order_id o', rd_approved = approved,
          rd_approved_quantity = (if approved then oi_quantity o' else 0), rd_reason = reason,
          rd_estimated_risk = None, rd_reference_price = None, rd_phase = InitialPhase \<rparr>)"

definition research_on_order :: "hashing \<Rightarrow> domain_event \<Rightarrow> domain_event list res" where
  "research_on_order h e = (case e of
     EvOrder o' \<Rightarrow> (case gate_decision h ''research_risk'' o' True ''historical_research_approved'' of
         Inl err \<Rightarrow> Inl err | Inr d \<Rightarrow> Inr [EvRisk d])
   | _ \<Rightarrow> Inl (TypeError ''ResearchRiskGate.on_order requires OrderIntent''))"

definition disabled_on_order :: "hashing \<Rightarrow> domain_event \<Rightarrow> domain_event list res" where
  "disabled_on_order h e = (case e of
     EvOrder o' \<Rightarrow> (case gate_decision h ''disabled_risk'' o' (oi_reduce_only o')
           (if oi_reduce_only o' then ''risk_reducing_approved'' else ''risk_gate_not_configured'') of
         Inl err \<Rightarrow> Inl err | Inr d \<Rightarrow> Inr [EvRisk d])
   | _ \<Rightarrow> Inl (TypeError ''DisabledRiskGate.on_order requires OrderIntent''))"

definition stateless_gate :: "(domain_event \<Rightarrow> domain_event list res) \<Rightarrow> 'g gate_ops" where
  "stateless_gate f = \<lparr> go_on_order = (\<lambda>_ e. lift_res (f e)), go_on_order_status = None,
     go_on_fill = None, go_on_session = None \<rparr>"

definition research_gate :: "hashing \<Rightarrow> 'g gate_ops" where
  "research_gate h = stateless_gate (research_on_order h)"

definition disabled_gate :: "hashing \<Rightarrow> 'g gate_ops" where
  "disabled_gate h = stateless_gate (disabled_on_order h)"

lemma sim_on_risk_settles:
  assumes "order_of b (rd_order_id d) = Some r" "rd_approved_quantity d \<le> oi_quantity (or_intent r)"
  shows "\<exists>r'. order_of (snd (sim_on_risk h lg (EvRisk d) b)) (rd_order_id d) = Some r' \<and> or_status r' \<noteq> PendingRisk
    \<and> (or_status r = PendingRisk \<and> \<not> rd_approved d \<longrightarrow> or_status r' = SimRejected)"
proof -
  let ?r1 = "approve_record d r"
  have st: "or_status ?r1 = SimApproved" by (simp add: approve_record_def)
  have kept: "\<exists>r'. order_of (snd (and_then m (\<lambda>ev. give [ev]) (put_order (rd_order_id d) ?r1 b))) (rd_order_id d) = Some r'
      \<and> or_status r' \<noteq> PendingRisk"
    if "m = reject_order h (rd_order_id d) ?r1 cause reason \<or> m = fill_order h (rd_order_id d) ?r1 p t cause q"
    for m :: "(sim_broker, domain_event) prog" and cause reason p t q
  proof -
    obtain v b' where v: "m (put_order (rd_order_id d) ?r1 b) = (v, b')" by fastforce
    from that show ?thesis
    proof
      assume "m = reject_order h (rd_order_id d) ?r1 cause reason"
      with v have "b' = put_order (rd_order_id d) (mark_rejected reason ?r1) (put_order (rd_order_id d) ?r1 b)"
        using reject_order_state by blast
      with v show ?thesis by (simp add: and_then_give mark_rejected_def)
    next
      assume "m = fill_order h (rd_order_id d) ?r1 p t cause q"
      with v have "b' = put_order (rd_order_id d) ?r1 b
          \<or> (\<exists>f. b' = put_order (rd_order_id d) (mark_filled f ?r1) (put_order (rd_order_id d) ?r1 b))"
        using fill_order_state by blast
      with v st show ?thesis by (auto simp: and_then_give mark_filled_def)
    qed
  qed
  note kept1 = kept [OF disjI1 [OF refl]] and kept2 = kept [OF disjI2 [OF refl]]
  show ?thesis
    using assms st
    by (auto simp: sim_on_risk_def Let_def mark_rejected_def kept1 kept2 split: sum.split)
qed

text \<open>The contract of a gate: what it decides about an order names that order, is a valid decision
  and does not ask for more than the order.\<close>

locale risk_gate =
  fixes decide :: "ledger \<Rightarrow> domain_event \<Rightarrow> ('g, domain_event list) prog"
  assumes decisions_only: "check_order o' = Inr o' \<Longrightarrow> decide l (EvOrder o') g = (Inr es, g') \<Longrightarrow> e \<in> set es \<Longrightarrow>
      \<exists>d. e = EvRisk d \<and> rd_order_id d = oi_order_id o' \<and> check_risk_decision d = Inr d
        \<and> rd_approved_quantity d \<le> oi_quantity o'"
begin

text \<open>A gate's decision settles the order it is about: the simulator never keeps waiting for another
  one, and refuses the order when the decision does.\<close>

lemma decision_settles:
  assumes "check_order o' = Inr o'" "decide l (EvOrder o') g = (Inr es, g')" "EvRisk d \<in> set es"
    and "order_of b (oi_order_id o') = Some r" "or_intent r = o'"
  shows "\<exists>r'. order_of (snd (sim_on_risk h lg (EvRisk d) b)) (oi_order_id o') = Some r' \<and> or_status r' \<noteq> PendingRisk
    \<and> (or_status r = PendingRisk \<and> \<not> rd_approved d \<longrightarrow> or_status r' = SimRejected)"
proof -
  have d: "rd_order_id d = oi_order_id o'" "rd_approved_quantity d \<le> oi_quantity o'"
    using decisions_only [OF assms(1-3)] by auto
  show ?thesis using sim_on_risk_settles [of b d r h lg] assms(4,5) d by auto
qed

end

lemma gate_decision_Inr:
  assumes "gate_decision h src o' approved reason = Inr d"
  shows "rd_order_id d = oi_order_id o' \<and> check_risk_decision d = Inr d \<and> rd_approved d = approved
    \<and> rd_approved_quantity d = (if approved then oi_quantity o' else 0)"
proof -
  obtain meta where d: "check_risk_decision \<lparr> rd_meta = meta, rd_order_id = oi_order_id o', rd_approved = approved,
          rd_approved_quantity = (if approved then oi_quantity o' else 0), rd_reason = reason,
          rd_estimated_risk = None, rd_reference_price = None, rd_phase = InitialPhase \<rparr> = Inr d"
    using assms unfolding gate_decision_def by (simp split: sum.splits)
  note e = check_risk_decision_Inr [OF d, THEN conjunct1]
  from d [folded e] e show ?thesis by simp
qed

interpretation research: risk_gate "go_on_order (research_gate h)" for h
  by unfold_locales (auto simp: research_gate_def stateless_gate_def research_on_order_def
      dest!: gate_decision_Inr check_order_Inr split: sum.splits)

interpretation disabled: risk_gate "go_on_order (disabled_gate h)" for h
  by unfold_locales (auto simp: disabled_gate_def stateless_gate_def disabled_on_order_def
      dest!: gate_decision_Inr check_order_Inr split: sum.splits)

section \<open>Signals\<close>

record exec_config =
  xc_hashing :: hashing
  xc_default_quantity :: int
  xc_timing :: execution_timing

definition signal_key :: "string \<Rightarrow> signal_event \<Rightarrow> pos_key" where
  "signal_key owner s = \<lparr> pk_owner = owner, pk_strategy = sg_strategy s, pk_version = sg_version s,
     pk_symbol = sg_symbol s, pk_contract = sg_contract s \<rparr>"

definition router_order :: "exec_config \<Rightarrow> string \<Rightarrow> signal_event \<Rightarrow> order_side \<Rightarrow> int \<Rightarrow> bool \<Rightarrow> order_intent res" where
  "router_order c owner s side quantity reduce =
     (case create_meta (xc_hashing c) KOrderIntent (em_at (sg_meta s)) ''signal_order_router'' (em_id (sg_meta s))
         (em_correlation (sg_meta s)) (Some (em_id (sg_meta s))) (Some owner) of
        Inl err \<Rightarrow> Inl err
      | Inr meta \<Rightarrow> check_order
         \<lparr> oi_meta = meta, oi_order_id = em_id meta, oi_strategy = sg_strategy s, oi_version = sg_version s,
           oi_symbol = sg_symbol s, oi_contract = sg_contract s, oi_side = side, oi_quantity = quantity,
           oi_purpose = (if reduce then Exit else Entry), oi_timing = xc_timing c, oi_reduce_only = reduce,
           oi_reason = sg_reason s, oi_reference_price = sg_reference_price s,
           oi_stop_loss_price = sg_stop_loss_price s, oi_stop_loss_pct = None, oi_take_profit_pct = None,
           oi_snapshot = None, oi_trading_date = sg_trading_date s, oi_client_order_id = None,
           oi_source = ManualOrder, oi_runtime = None, oi_decision = None \<rparr>)"

definition router_on_signal :: "exec_config \<Rightarrow> ledger \<Rightarrow> domain_event \<Rightarrow> domain_event list res" where
  "router_on_signal c l e = (case e of
     EvSignal s \<Rightarrow> (case execution_owner e of
         Inl err \<Rightarrow> Inl err
       | Inr owner \<Rightarrow>
           (case sg_action s of
              EnterAct \<Rightarrow> (case router_order c owner s (if sg_direction s = LongSide then Buy else Sell) (xc_default_quantity c) False of
                  Inl err \<Rightarrow> Inl err | Inr o' \<Rightarrow> Inr [EvOrder o'])
            | ExitAct \<Rightarrow> (case ledger_state l (signal_key owner s) of
                  None \<Rightarrow> Inr []
                | Some st \<Rightarrow>
                    if ps_quantity st = 0 then Inr []
                    else if (if 0 < ps_quantity st then LongSide else ShortSide) \<noteq> sg_direction s
                    then Inl (ValueError ''exit signal direction does not match the open position'')
                    else (case router_order c owner s (if 0 < ps_quantity st then Sell else Buy) \<bar>ps_quantity st\<bar> True of
                        Inl err \<Rightarrow> Inl err | Inr o' \<Rightarrow> Inr [EvOrder o']))))
   | _ \<Rightarrow> Inl (TypeError ''SignalOrderRouter.on_signal requires SignalEvent''))"

section \<open>Liquidation\<close>

definition liquidation_intent :: "hashing \<Rightarrow> pos_key \<times> pos_state \<Rightarrow> domain_event \<Rightarrow> string \<Rightarrow> order_intent res" where
  "liquidation_intent h p cause reason =
     (let k = fst p; st = snd p in
      case create_meta h KOrderIntent (event_at cause) ''position_liquidator''
         (join '':'' [event_id_of cause, pk_owner k, pk_strategy k, pk_contract k])
         (em_correlation (event_meta_of cause)) (Some (event_id_of cause)) (Some (pk_owner k)) of
        Inl err \<Rightarrow> Inl err
      | Inr meta \<Rightarrow> check_order
         \<lparr> oi_meta = meta, oi_order_id = em_id meta, oi_strategy = pk_strategy k, oi_version = pk_version k,
           oi_symbol = pk_symbol k, oi_contract = pk_contract k,
           oi_side = (if 0 < ps_quantity st then Sell else Buy), oi_quantity = \<bar>ps_quantity st\<bar>,
           oi_purpose = Liquidation, oi_timing = CurrentClose, oi_reduce_only = True, oi_reason = reason,
           oi_reference_price = 0, oi_stop_loss_price = None, oi_stop_loss_pct = None,
           oi_take_profit_pct = None, oi_snapshot = None,
           oi_trading_date = (case cause of EvBar b \<Rightarrow> Some (be_trading_date b)
              | EvSession s \<Rightarrow> Some (se_trading_date s) | _ \<Rightarrow> None),
           oi_client_order_id = None, oi_source = ManualOrder, oi_runtime = None, oi_decision = None \<rparr>)"

text \<open>The pending keys and the orders of \<open>PositionLiquidator._intents\<close>.  The simulator is read by
  \<open>has_pending_exit\<close>.\<close>

definition liquidate_one :: "hashing \<Rightarrow> sim_broker \<Rightarrow> domain_event \<Rightarrow> string \<Rightarrow> pos_key \<times> pos_state
    \<Rightarrow> domain_event list \<Rightarrow> (pos_key list, domain_event list) prog" where
  "liquidate_one h b cause reason p acc pending =
     (if fst p \<in> set pending \<or> has_pending_reduce_only b (fst p) then (Inr acc, pending)
      else (case liquidation_intent h p cause reason of
          Inl err \<Rightarrow> (Inl err, fst p # pending)
        | Inr o' \<Rightarrow> (Inr (acc @ [EvOrder o']), fst p # pending)))"

definition liquidator_intents :: "hashing \<Rightarrow> sim_broker \<Rightarrow> (pos_key \<times> pos_state) list \<Rightarrow> domain_event \<Rightarrow> string
    \<Rightarrow> (pos_key list, domain_event list) prog" where
  "liquidator_intents h b states cause reason = fold_prog (liquidate_one h b cause reason) states []"

definition liquidator_on_session :: "hashing \<Rightarrow> ledger \<Rightarrow> sim_broker \<Rightarrow> domain_event \<Rightarrow> (pos_key list, domain_event list) prog" where
  "liquidator_on_session h l b e = (case e of
     EvSession s \<Rightarrow>
       if se_action s \<noteq> SessClosing then give []
       else liquidator_intents h b (filter (\<lambda>p. pk_symbol (fst p) = se_symbol s \<and> pk_contract (fst p) = se_contract s
                \<and> (em_owner (se_meta s) = None \<or> em_owner (se_meta s) = Some (pk_owner (fst p)))) (open_positions l))
              e ''session_end''
   | _ \<Rightarrow> fail (TypeError ''PositionLiquidator.on_session requires SessionEvent''))"

definition liquidator_on_bar :: "hashing \<Rightarrow> ledger \<Rightarrow> sim_broker \<Rightarrow> domain_event \<Rightarrow> (pos_key list, domain_event list) prog" where
  "liquidator_on_bar h l b e = (case e of
     EvBar bar \<Rightarrow> liquidator_intents h b (filter (\<lambda>p. pk_symbol (fst p) = be_symbol bar \<and> pk_contract (fst p) \<noteq> be_contract bar)
         (open_positions l)) e ''contract_roll''
   | _ \<Rightarrow> fail (TypeError ''PositionLiquidator.on_bar requires BarClosedEvent''))"

definition liquidator_on_fill :: "domain_event \<Rightarrow> (pos_key list, domain_event list) prog" where
  "liquidator_on_fill e pending = (case e of
     EvFill f \<Rightarrow>
       if fe_purpose f \<noteq> Liquidation \<or> \<not> truthy (em_owner (fe_meta f)) then (Inr [], pending)
       else (Inr [], removeAll (ledger_fill_key (the (em_owner (fe_meta f))) f) pending)
   | _ \<Rightarrow> (Inl (TypeError ''PositionLiquidator.on_fill requires FillEvent''), pending))"

section \<open>The pipeline\<close>

record 'g exec_world =
  xw_ledger :: ledger
  xw_broker :: sim_broker
  xw_pending :: "pos_key list"
  xw_gate :: 'g

definition in_ledger :: "(ledger, 'a) prog \<Rightarrow> ('g exec_world, 'a) prog" where
  "in_ledger m w = (case m (xw_ledger w) of (r, l) \<Rightarrow> (r, w\<lparr>xw_ledger := l\<rparr>))"

definition in_broker :: "(sim_broker, 'a) prog \<Rightarrow> ('g exec_world, 'a) prog" where
  "in_broker m w = (case m (xw_broker w) of (r, b) \<Rightarrow> (r, w\<lparr>xw_broker := b\<rparr>))"

definition in_broker_gate :: "(sim_broker \<times> 'g, 'a) prog \<Rightarrow> ('g exec_world, 'a) prog" where
  "in_broker_gate m w = (case m (xw_broker w, xw_gate w) of (r, (b, g)) \<Rightarrow> (r, w\<lparr>xw_broker := b, xw_gate := g\<rparr>))"

definition in_liquidator :: "(pos_key list, 'a) prog \<Rightarrow> ('g exec_world, 'a) prog" where
  "in_liquidator m w = (case m (xw_pending w) of (r, p) \<Rightarrow> (r, w\<lparr>xw_pending := p\<rparr>))"

definition in_gate :: "('g, 'a) prog \<Rightarrow> ('g exec_world, 'a) prog" where
  "in_gate m w = (case m (xw_gate w) of (r, g) \<Rightarrow> (r, w\<lparr>xw_gate := g\<rparr>))"

definition mark_after_bar :: "hashing \<Rightarrow> domain_event \<Rightarrow> ('g exec_world, domain_event list) prog" where
  "mark_after_bar h e w = (case e of
     EvBar bar \<Rightarrow> if bar_emitted_fill (xw_broker w) (em_id (be_meta bar)) then (Inr [], w)
       else in_ledger (mark_to_market h e) w
   | _ \<Rightarrow> (Inl (TypeError ''_mark_after_bar requires BarClosedEvent''), w))"

definition optional_handler :: "event_kind \<Rightarrow> (ledger \<Rightarrow> domain_event \<Rightarrow> ('g, domain_event list) prog) option
    \<Rightarrow> 'g exec_world engine \<Rightarrow> 'g exec_world engine" where
  "optional_handler k f s = (case f of None \<Rightarrow> s
     | Some g \<Rightarrow> subscribe k (\<lambda>e w. in_gate (g (xw_ledger w) e) w) s)"

definition sim_handler_bar :: "hashing \<Rightarrow> (ledger \<Rightarrow> 'g prefill) option \<Rightarrow> 'g exec_world handler" where
  "sim_handler_bar h pf e w = in_broker_gate (sim_on_bar h (Some (xw_ledger w)) (map_option (\<lambda>p. p (xw_ledger w)) pf) e) w"

text \<open>\<open>SimulatedExecutionPipeline.install\<close>: the subscriptions, in order.\<close>

definition install_pipeline :: "exec_config \<Rightarrow> 'g gate_ops \<Rightarrow> (ledger \<Rightarrow> 'g prefill) option
    \<Rightarrow> 'g exec_world engine \<Rightarrow> 'g exec_world engine" where
  "install_pipeline c gate pf s0 = (let h = xc_hashing c;
     s1 = subscribe KSignal (\<lambda>e w. (router_on_signal c (xw_ledger w) e, w)) s0;
     s2 = subscribe KOrderIntent (\<lambda>e. in_broker (sim_on_order e)) s1;
     s3 = subscribe KOrderIntent (\<lambda>e w. in_gate (go_on_order gate (xw_ledger w) e) w) s2;
     s4 = subscribe KRiskDecision (\<lambda>e w. in_broker (sim_on_risk h (Some (xw_ledger w)) e) w) s3;
     s5 = optional_handler KOrderStatus (go_on_order_status gate) s4;
     s6 = subscribe KBarClosed (sim_handler_bar h pf) s5;
     s7 = subscribe KBarClosed (mark_after_bar h) s6;
     s8 = subscribe KBarClosed (\<lambda>e w. in_liquidator (liquidator_on_bar h (xw_ledger w) (xw_broker w) e) w) s7;
     s9 = subscribe KFill (\<lambda>e. in_ledger (ledger_on_fill h e)) s8;
     s10 = subscribe KFill (\<lambda>e. in_liquidator (liquidator_on_fill e)) s9;
     s11 = optional_handler KFill (go_on_fill gate) s10;
     s12 = subscribe KSession (\<lambda>e. in_broker (sim_on_session h e)) s11;
     s13 = subscribe KSession (\<lambda>e w. in_liquidator (liquidator_on_session h (xw_ledger w) (xw_broker w) e) w) s12
     in optional_handler KSession (go_on_session gate) s13)"

definition new_exec_world :: "futures_costs \<Rightarrow> exec_config \<Rightarrow> bool \<Rightarrow> 'g \<Rightarrow> 'g exec_world res" where
  "new_exec_world costs c allow g = (case new_ledger (fc_multiplier costs) of Inl err \<Rightarrow> Inl err
     | Inr l \<Rightarrow> if xc_default_quantity c \<le> 0 then Inl (ValueError ''default_quantity must be positive'')
         else Inr \<lparr> xw_ledger = l, xw_broker = new_sim_broker costs allow, xw_pending = [], xw_gate = g \<rparr>)"

end
