(* ===== verification/Exec_Safety.thy ===== *)
theory Exec_Safety
  imports Exec_Pipeline
begin

text \<open>
  The composed pipeline on the event engine: its handlers as a table, and that a pipeline whose
  risk gate was never configured fails closed.
\<close>

section \<open>The table of handlers\<close>

fun optional_list :: "(ledger \<Rightarrow> domain_event \<Rightarrow> ('g, domain_event list) prog) option \<Rightarrow> 'g exec_world handler list" where
  "optional_list None = []"
| "optional_list (Some g) = [\<lambda>e w. in_gate (g (xw_ledger w) e) w]"

definition pipeline_handlers :: "exec_config \<Rightarrow> 'g gate_ops \<Rightarrow> (ledger \<Rightarrow> 'g prefill) option
    \<Rightarrow> event_kind \<Rightarrow> 'g exec_world handler list" where
  "pipeline_handlers c gate pf k = (let h = xc_hashing c in case k of
     KSignal \<Rightarrow> [\<lambda>e w. (router_on_signal c (xw_ledger w) e, w)]
   | KOrderIntent \<Rightarrow> [\<lambda>e. in_broker (sim_on_order e), \<lambda>e w. in_gate (go_on_order gate (xw_ledger w) e) w]
   | KRiskDecision \<Rightarrow> [\<lambda>e w. in_broker (sim_on_risk h (Some (xw_ledger w)) e) w]
   | KOrderStatus \<Rightarrow> optional_list (go_on_order_status gate)
   | KBarClosed \<Rightarrow> [sim_handler_bar h pf, mark_after_bar h,
        \<lambda>e w. in_liquidator (liquidator_on_bar h (xw_ledger w) (xw_broker w) e) w]
   | KFill \<Rightarrow> [\<lambda>e. in_ledger (ledger_on_fill h e), \<lambda>e. in_liquidator (liquidator_on_fill e)]
        @ optional_list (go_on_fill gate)
   | KSession \<Rightarrow> [\<lambda>e. in_broker (sim_on_session h e),
        \<lambda>e w. in_liquidator (liquidator_on_session h (xw_ledger w) (xw_broker w) e) w]
        @ optional_list (go_on_session gate)
   | _ \<Rightarrow> [])"

lemma optional_handlers: "en_handlers (optional_handler k f s)
    = (en_handlers s)(k := en_handlers s k @ optional_list f)"
  by (cases f) (simp_all add: optional_handler_def subscribe_def)

lemma install_handlers:
  assumes "en_handlers s = (\<lambda>_. [])"
  shows "en_handlers (install_pipeline c gate pf s) = pipeline_handlers c gate pf"
proof
  fix k show "en_handlers (install_pipeline c gate pf s) k = pipeline_handlers c gate pf k"
    using assms by (cases k) (simp_all add: install_pipeline_def Let_def optional_handlers subscribe_def pipeline_handlers_def)
qed

lemma optional_frame: "\<exists>hs. optional_handler k f s = s\<lparr>en_handlers := hs\<rparr>"
proof (cases f)
  case None
  then have "optional_handler k f s = s\<lparr>en_handlers := en_handlers s\<rparr>" by (simp add: optional_handler_def)
  then show ?thesis by blast
next
  case (Some g)
  then show ?thesis by (auto simp: optional_handler_def subscribe_def)
qed

lemma install_frame: "\<exists>hs. install_pipeline c gate pf s = s\<lparr>en_handlers := hs\<rparr>"
proof -
  have fr: "\<exists>hs. t = s\<lparr>en_handlers := hs\<rparr> \<Longrightarrow> \<exists>hs. subscribe k h t = s\<lparr>en_handlers := hs\<rparr>"
    "\<exists>hs. t = s\<lparr>en_handlers := hs\<rparr> \<Longrightarrow> \<exists>hs. optional_handler k f t = s\<lparr>en_handlers := hs\<rparr>" for t k h f
    using optional_frame [of k f t] by (auto simp: subscribe_def)
  have "s = s\<lparr>en_handlers := en_handlers s\<rparr>" by simp
  then have "\<exists>hs. s = s\<lparr>en_handlers := hs\<rparr>" by blast
  then show ?thesis unfolding install_pipeline_def Let_def by (intro fr)
qed

lemma engine_wf_handlers: "engine_wf (s\<lparr>en_handlers := hs\<rparr>) = engine_wf s"
  by (simp add: engine_wf_def queue_wf_def history_wf_def history_events_def clock_reached_def not_before_clock_def)

section \<open>Without a configured gate nothing is filled\<close>

definition closed_orders :: "sim_broker \<Rightarrow> bool" where
  "closed_orders b \<longleftrightarrow> (\<forall>x \<in> set (sb_orders b). or_status (snd x) = PendingRisk \<or> or_status (snd x) = SimRejected)"

definition closed_world :: "'g exec_world \<Rightarrow> bool" where
  "closed_world w \<longleftrightarrow> lg_positions (xw_ledger w) = [] \<and> closed_orders (xw_broker w)"

fun closed_event :: "domain_event \<Rightarrow> bool" where
  "closed_event (EvOrder o') = (\<not> oi_reduce_only o')"
| "closed_event (EvRisk d) = (\<not> rd_approved d)"
| "closed_event (EvFill f) = False"
| "closed_event _ = True"

lemma closed_orders_put: "closed_orders b \<Longrightarrow> or_status r = PendingRisk \<or> or_status r = SimRejected \<Longrightarrow>
    closed_orders (put_order i r b)"
  using set_dict_put_subset [of i r "sb_orders b"] by (auto simp: put_order_def closed_orders_def)

lemma closed_orders_same: "closed_orders b \<Longrightarrow> sb_orders b' = sb_orders b \<Longrightarrow> closed_orders b'"
  by (simp add: closed_orders_def)

lemma closed_orders_idle: "closed_orders b \<Longrightarrow> x \<in> set (sb_orders b) \<Longrightarrow> \<not> awaits_open (snd x)"
  by (auto simp: closed_orders_def awaits_open_def)

lemma closed_router:
  assumes "closed_world w" "router_on_signal c (xw_ledger w) e = Inr es" "x \<in> set es"
  shows "closed_event x"
  using assms by (auto simp: router_on_signal_def closed_world_def ledger_state_def router_order_def
      dest!: check_order_Inr split: domain_event.splits sum.splits signal_action.splits)

lemma closed_sim_order:
  assumes "closed_world w" "in_broker (sim_on_order e) w = (r, w')"
  shows "closed_world w' \<and> (\<forall>es. r = Inr es \<longrightarrow> es = [])"
proof -
  obtain q b where q: "sim_on_order e (xw_broker w) = (q, b)" by fastforce
  have co: "closed_orders (xw_broker w)" using assms(1) by (simp add: closed_world_def)
  have "closed_orders (put_order i (new_order_record o') (xw_broker w))" for i o'
    by (rule closed_orders_put [OF co]) (simp add: new_order_record_def)
  then have "closed_orders ((put_order i (new_order_record o') (xw_broker w))\<lparr>sb_sequence := sq\<rparr>)" for i o' sq
    by (rule closed_orders_same) simp
  then have "closed_orders b \<and> (\<forall>es. q = Inr es \<longrightarrow> es = [])"
    using q assms(1) by (auto simp: sim_on_order_def closed_world_def split: domain_event.splits sum.splits if_splits)
  with assms q show ?thesis by (auto simp: in_broker_def closed_world_def)
qed

lemma closed_sim_risk:
  assumes "closed_world w" "\<not> rd_approved d" "in_broker (sim_on_risk h lg (EvRisk d)) w = (r, w')"
  shows "closed_world w' \<and> (\<forall>es. r = Inr es \<longrightarrow> es = [])"
proof -
  have "closed_orders (put_order i (mark_rejected reason q) (xw_broker w))" for i reason q
    by (rule closed_orders_put) (use assms(1) in \<open>simp_all add: closed_world_def mark_rejected_def\<close>)
  with assms show ?thesis
    by (auto simp: in_broker_def sim_on_risk_def closed_world_def split: option.splits if_splits)
qed

lemma idle_fold: "(\<And>x acc s. x \<in> set xs \<Longrightarrow> f x acc s = (Inr acc, s)) \<Longrightarrow> fold_prog f xs acc s = (Inr acc, s)"
  by (induction xs) simp_all

lemma closed_sim_bar:
  assumes "closed_world w" "in_broker_gate (sim_on_bar h lg pf e) w = (r, w')"
  shows "closed_world w' \<and> (\<forall>es. r = Inr es \<longrightarrow> es = [])"
proof (cases "\<exists>bar. e = EvBar bar")
  case False
  with assms show ?thesis by (auto simp: in_broker_gate_def sim_on_bar_def split: domain_event.splits)
next
  case True
  then obtain bar where e: "e = EvBar bar" by blast
  let ?b = "xw_broker w"
  let ?b1 = "?b\<lparr>sb_last_close := dict_put (be_symbol bar, be_contract bar) (be_close bar) (sb_last_close ?b)\<rparr>"
  let ?p0 = "\<lparr> bp_emitted = [], bp_any_fill = False, bp_reserved = [] \<rparr>"
  have co: "closed_orders ?b" using assms(1) by (simp add: closed_world_def)
  note idle = closed_orders_idle [OF co]
  have rolled: "fold_prog (roll_one h bar) (sb_orders ?b) [] ?b1 = (Inr [], ?b1)"
    by (rule idle_fold) (simp add: roll_one_def idle)
  have bars: "fold_prog (bar_one h lg pf bar) xs ?p0 (?b1, xw_gate w) = (Inr ?p0, (?b1, xw_gate w))
      \<or> (\<exists>err. fold_prog (bar_one h lg pf bar) xs ?p0 (?b1, xw_gate w) = (Inl err, (?b1, xw_gate w)))" for xs
  proof (induction xs)
    case (Cons i xs)
    have "bar_one h lg pf bar i ?p0 (?b1, xw_gate w) = (Inr ?p0, (?b1, xw_gate w))
        \<or> (\<exists>err. bar_one h lg pf bar i ?p0 (?b1, xw_gate w) = (Inl err, (?b1, xw_gate w)))"
    proof (cases "order_of ?b1 i")
      case (Some q)
      then have "(i, q) \<in> set (sb_orders ?b)" by (auto simp: order_of_def dest: map_of_SomeD)
      with idle have "\<not> awaits_open q" by force
      with Some show ?thesis by (simp add: bar_one_def)
    qed (simp add: bar_one_def)
    with Cons show ?case by auto
  qed simp
  obtain q where q: "fold_prog (bar_one h lg pf bar) (sb_sequence ?b1) ?p0 (?b1, xw_gate w) = (q, (?b1, xw_gate w))"
    "q = Inr ?p0 \<or> (\<exists>err. q = Inl err)" using bars by blast
  have "sim_on_bar h lg pf (EvBar bar) (?b, xw_gate w) = (map_sum id bp_emitted q, (?b1, xw_gate w))"
    using rolled q by (cases q) (simp_all add: sim_on_bar_def Let_def and_then_def on_broker_def)
  then have "r = map_sum id bp_emitted q" "xw_broker w' = ?b1" "xw_ledger w' = xw_ledger w"
    using assms(2) by (auto simp: e in_broker_gate_def)
  moreover have "closed_orders ?b1" by (rule closed_orders_same [OF co]) simp
  ultimately show ?thesis using assms(1) q(2) by (auto simp: closed_world_def)
qed

lemma closed_mark:
  assumes "closed_world w" "mark_after_bar h e w = (r, w')"
  shows "closed_world w' \<and> (\<forall>es. r = Inr es \<longrightarrow> es = [])"
  using assms by (auto simp: mark_after_bar_def in_ledger_def mark_to_market_def closed_world_def open_positions_def
      split: domain_event.splits if_splits prod.splits)

lemma closed_liquidator:
  assumes "closed_world w"
  shows "in_liquidator (liquidator_on_bar h (xw_ledger w) b e) w = (r, w') \<Longrightarrow> closed_world w' \<and> (\<forall>es. r = Inr es \<longrightarrow> es = [])"
    and "in_liquidator (liquidator_on_session h (xw_ledger w) b e) w = (r, w') \<Longrightarrow> closed_world w' \<and> (\<forall>es. r = Inr es \<longrightarrow> es = [])"
  using assms by (auto simp: in_liquidator_def liquidator_on_bar_def liquidator_on_session_def liquidator_intents_def
      closed_world_def open_positions_def split: domain_event.splits if_splits)

lemma closed_session:
  assumes "closed_world w" "in_broker (sim_on_session h e) w = (r, w')"
  shows "closed_world w' \<and> (\<forall>es. r = Inr es \<longrightarrow> es = [])"
proof -
  have co: "closed_orders (xw_broker w)" using assms(1) by (simp add: closed_world_def)
  have "fold_prog (session_one h se) (sb_orders (xw_broker w)) [] (xw_broker w) = (Inr [], xw_broker w)" for se
    by (rule idle_fold) (simp add: session_one_def closed_orders_idle [OF co])
  with assms show ?thesis
    by (auto simp: in_broker_def sim_on_session_def split: domain_event.splits if_splits)
qed

lemma closed_gate:
  assumes "closed_world w" "closed_event e" "in_gate (go_on_order (disabled_gate h) l e) w = (r, w')"
  shows "closed_world w' \<and> (\<forall>es. r = Inr es \<longrightarrow> (\<forall>x \<in> set es. closed_event x))"
  using assms by (auto simp: in_gate_def disabled_gate_def stateless_gate_def disabled_on_order_def closed_world_def
      dest!: gate_decision_Inr split: domain_event.splits sum.splits)

lemma closed_handlers:
  assumes "f \<in> set (pipeline_handlers c (disabled_gate h) pf (event_kind_of e))" "closed_event e" "closed_world w"
    and "f e w = (r, w')"
  shows "closed_world w' \<and> (\<forall>es. r = Inr es \<longrightarrow> (\<forall>x \<in> set es. closed_event x))"
proof (cases e)
  case (EvSignal s)
  with assms have "w' = w" "r = router_on_signal c (xw_ledger w) e" by (auto simp: pipeline_handlers_def Let_def)
  with assms(3) closed_router show ?thesis by metis
next
  case (EvOrder o')
  with assms consider "in_broker (sim_on_order e) w = (r, w')" | "in_gate (go_on_order (disabled_gate h) (xw_ledger w) e) w = (r, w')"
    by (auto simp: pipeline_handlers_def Let_def)
  then show ?thesis
  proof cases
    case 1
    from closed_sim_order [OF assms(3) 1] show ?thesis by fastforce
  qed (use closed_gate assms(2,3) in blast)
next
  case (EvRisk d)
  with assms have "in_broker (sim_on_risk (xc_hashing c) (Some (xw_ledger w)) (EvRisk d)) w = (r, w')" "\<not> rd_approved d"
    by (auto simp: pipeline_handlers_def Let_def)
  with closed_sim_risk [OF assms(3)] show ?thesis by fastforce
next
  case (EvBar bar)
  with assms consider "sim_handler_bar (xc_hashing c) pf e w = (r, w')" | "mark_after_bar (xc_hashing c) e w = (r, w')"
    | "in_liquidator (liquidator_on_bar (xc_hashing c) (xw_ledger w) (xw_broker w) e) w = (r, w')"
    by (auto simp: pipeline_handlers_def Let_def)
  then show ?thesis
  proof cases
    case 1
    from closed_sim_bar [OF assms(3) 1 [unfolded sim_handler_bar_def]] show ?thesis by fastforce
  next
    case 2
    from closed_mark [OF assms(3) 2] show ?thesis by fastforce
  next
    case 3
    from closed_liquidator(1) [OF assms(3) 3] show ?thesis by fastforce
  qed
next
  case (EvSession s)
  with assms consider "in_broker (sim_on_session (xc_hashing c) e) w = (r, w')"
    | "in_liquidator (liquidator_on_session (xc_hashing c) (xw_ledger w) (xw_broker w) e) w = (r, w')"
    by (auto simp: pipeline_handlers_def Let_def disabled_gate_def stateless_gate_def)
  then show ?thesis
  proof cases
    case 1
    from closed_session [OF assms(3) 1] show ?thesis by fastforce
  next
    case 2
    from closed_liquidator(2) [OF assms(3) 2] show ?thesis by fastforce
  qed
qed (use assms in \<open>auto simp: pipeline_handlers_def Let_def disabled_gate_def stateless_gate_def\<close>)

interpretation fail_closed: handler_contract "pipeline_handlers c (disabled_gate h) pf" closed_world closed_event for c h pf
  by unfold_locales (use closed_handlers in blast)+

definition is_fill :: "domain_event \<Rightarrow> bool" where
  "is_fill e = (case e of EvFill _ \<Rightarrow> True | _ \<Rightarrow> False)"

text \<open>The events from outside that the property is about: everything but decisions, fills and
  reduce-only intents, which only the pipeline itself may produce.\<close>

definition outside_op :: "'w engine_op \<Rightarrow> bool" where
  "outside_op x = (case x of OpSubscribe _ _ \<Rightarrow> False | OpRun \<Rightarrow> True
     | OpPublish e \<Rightarrow> (case e of EvRisk _ \<Rightarrow> False | EvFill _ \<Rightarrow> False | EvOrder o' \<Rightarrow> \<not> oi_reduce_only o' | _ \<Rightarrow> True))"

lemma outside_acceptable: "outside_op x \<Longrightarrow> fail_closed.acceptable x"
proof (cases x)
  case (OpPublish e)
  assume "outside_op x"
  with OpPublish show ?thesis by (cases e) (simp_all add: outside_op_def fail_closed.acceptable_def)
qed (simp_all add: outside_op_def fail_closed.acceptable_def)


definition sample_config :: exec_config where
  "sample_config = \<lparr> xc_hashing = sample_hashing, xc_default_quantity = 1, xc_timing = CurrentClose \<rparr>"

definition sample_signal :: domain_event where
  "sample_signal = EvSignal \<lparr> sg_meta = sample_meta ''sig'' 3, sg_strategy = ''s'', sg_version = 1,
     sg_symbol = ''TMF'', sg_contract = ''TMFR1'', sg_direction = LongSide, sg_action = EnterAct,
     sg_reference_price = 100, sg_reason = ''signal'', sg_stop_loss_price = None, sg_trading_date = None \<rparr>"

definition sample_world :: "unit exec_world" where
  "sample_world = \<lparr> xw_ledger = sample_ledger, xw_broker = new_sim_broker default_futures_costs False,
     xw_pending = [], xw_gate = () \<rparr>"

definition sample_exec_engine :: "unit exec_world engine" where
  "sample_exec_engine = \<lparr> en_clock = None, en_max_events = 100, en_handlers = (\<lambda>_. []), en_queue = [],
     en_next_seq = 0, en_processed = [], en_queued = [], en_duplicates = [], en_history = [],
     en_world = sample_world \<rparr>"


section \<open>Immediate reduce-only orders are not reserved\<close>

text \<open>The reservation of \<open>on_bar\<close> has no counterpart for immediate executions: two reduce-only
  orders for the same position, queued for the same instant, are both sized on the position before
  either fill is booked, and turn a long position of 3 into a short one.\<close>

definition sample_exit :: "string \<Rightarrow> domain_event" where
  "sample_exit i = EvOrder ((sample_intent i Sell 3 True)\<lparr>oi_timing := CurrentClose\<rparr>)"

lemma immediate_exits_overshoot:
  "ps_quantity (ledger_position_at (xw_ledger (en_world (run engine_step
      (install_pipeline sample_config (research_gate sample_hashing) None
        (sample_exec_engine\<lparr>en_world := sample_world\<lparr>xw_ledger := sample_long,
           xw_broker := (new_sim_broker default_futures_costs False)\<lparr>sb_last_close := [((''TMF'', ''TMFR1''), 100)]\<rparr>\<rparr>\<rparr>))
      [OpPublish (sample_exit ''x''), OpPublish (sample_exit ''y''), OpRun]))) sample_key) = -3"
  by code_simp

end
