(* ===== verification/Market_Sessions.thy ===== *)
theory Market_Sessions
  imports Events
begin

text \<open>
  Taipei wall-clock time, the trading calendar and the sessions of the TMF contract
  (\<open>market/sessions.py\<close>).

  Taipei has no daylight saving time, so its clock is the instant shifted by eight hours; day 0 is
  1970-01-01, a Thursday.  The ISO text of a time, which occurs in one error message only, is an
  argument.
\<close>

section \<open>Wall-clock time\<close>

definition taipei_offset :: int where
  "taipei_offset = seconds (8 * 3600)"

definition taipei_date :: "instant \<Rightarrow> date" where
  "taipei_date t = (t + taipei_offset) div seconds 86400"

text \<open>Microseconds since local midnight, and the instant of a local date and clock.\<close>

definition taipei_clock :: "instant \<Rightarrow> int" where
  "taipei_clock t = (t + taipei_offset) mod seconds 86400"

definition taipei_at :: "date \<Rightarrow> int \<Rightarrow> instant" where
  "taipei_at d c = d * seconds 86400 + c - taipei_offset"

definition clock_time :: "int \<Rightarrow> int \<Rightarrow> int" where
  "clock_time hour minute = seconds (hour * 3600 + minute * 60)"

text \<open>\<open>date.weekday()\<close>: Monday is 0.\<close>

definition weekday :: "date \<Rightarrow> int" where
  "weekday d = (d + 3) mod 7"

definition minute_floor :: "instant \<Rightarrow> instant" where
  "minute_floor t = taipei_at (taipei_date t) (taipei_clock t div seconds 60 * seconds 60)"

lemma taipei_at_parts [simp]:
  "0 \<le> c \<Longrightarrow> c < seconds 86400 \<Longrightarrow> taipei_date (taipei_at d c) = d"
  "0 \<le> c \<Longrightarrow> c < seconds 86400 \<Longrightarrow> taipei_clock (taipei_at d c) = c"
  by (simp_all add: taipei_date_def taipei_clock_def taipei_at_def)

lemma taipei_at_split: "taipei_at (taipei_date t) (taipei_clock t) = t"
  by (simp add: taipei_date_def taipei_clock_def taipei_at_def)

lemma taipei_clock_range: "0 \<le> taipei_clock t" "taipei_clock t < seconds 86400"
  by (simp_all add: taipei_clock_def seconds_def)

lemma minute_floor_eq: "minute_floor t = t div seconds 60 * seconds 60"
proof -
  define x where "x = t + taipei_offset"
  have "x mod seconds 86400 = x + seconds 60 * (- 1440 * (x div seconds 86400))"
    by (simp add: seconds_def minus_mult_div_eq_mod [symmetric])
  then have "x mod seconds 86400 div seconds 60 = - 1440 * (x div seconds 86400) + x div seconds 60"
    by (simp add: seconds_def)
  moreover have "x = t + seconds 60 * 480" by (simp add: x_def taipei_offset_def seconds_def)
  then have "x div seconds 60 = 480 + t div seconds 60" by (simp add: seconds_def)
  ultimately show ?thesis
    unfolding minute_floor_def taipei_at_def taipei_date_def taipei_clock_def x_def [symmetric]
    by (simp add: taipei_offset_def seconds_def algebra_simps)
qed

lemma minute_floor_le: "minute_floor t \<le> t" "t < minute_floor t + seconds 60"
  unfolding minute_floor_eq seconds_def by presburger+

lemma minute_floor_idem [simp]: "minute_floor (minute_floor t) = minute_floor t"
  by (simp add: minute_floor_eq seconds_def)

section \<open>The trading calendar\<close>

record calendar =
  cal_holidays :: "date list"

definition default_calendar :: calendar where
  "default_calendar = \<lparr> cal_holidays = [] \<rparr>"

definition trading_day :: "calendar \<Rightarrow> date \<Rightarrow> bool" where
  "trading_day c d \<longleftrightarrow> \<not> (5 \<le> weekday d \<or> d \<in> set (cal_holidays c))"

text \<open>The loop of \<open>next_trading_day\<close>: it ends because a weekend has two days and the holidays are
  finitely many.\<close>

definition days_left :: "calendar \<Rightarrow> date \<Rightarrow> nat" where
  "days_left c d = card {h \<in> set (cal_holidays c). d \<le> h}"

lemma days_left_step:
  "days_left c (d + 1) \<le> days_left c d"
  "d \<in> set (cal_holidays c) \<Longrightarrow> days_left c (d + 1) < days_left c d"
proof -
  have "{h \<in> set (cal_holidays c). d + 1 \<le> h} \<subseteq> {h \<in> set (cal_holidays c). d \<le> h}" by auto
  then show "days_left c (d + 1) \<le> days_left c d" unfolding days_left_def by (intro card_mono) auto
  assume d: "d \<in> set (cal_holidays c)"
  have "d \<notin> {h \<in> set (cal_holidays c). d + 1 \<le> h}" "d \<in> {h \<in> set (cal_holidays c). d \<le> h}"
    using d by simp_all
  moreover have "{h \<in> set (cal_holidays c). d + 1 \<le> h} \<subseteq> {h \<in> set (cal_holidays c). d \<le> h}" by auto
  ultimately have "{h \<in> set (cal_holidays c). d + 1 \<le> h} \<subset> {h \<in> set (cal_holidays c). d \<le> h}" by blast
  then show "days_left c (d + 1) < days_left c d" unfolding days_left_def by (intro psubset_card_mono) auto
qed

function trading_day_from :: "calendar \<Rightarrow> date \<Rightarrow> date" where
  "trading_day_from c d = (if trading_day c d then d else trading_day_from c (d + 1))"
  by auto

termination
proof (relation "measures [\<lambda>(c, d). days_left c d, \<lambda>(c, d). if 5 \<le> weekday d then nat (7 - weekday d) else 0]")
  fix c :: calendar and d :: date
  assume "\<not> trading_day c d"
  then have "d \<in> set (cal_holidays c) \<or> 5 \<le> weekday d" by (auto simp: trading_day_def)
  moreover have "weekday (d + 1) = (if weekday d = 6 then 0 else weekday d + 1)" "weekday d \<le> 6" "0 \<le> weekday d"
    by (auto simp: weekday_def) presburger+
  ultimately show "((c, d + 1), (c, d)) \<in> measures [\<lambda>(c, d). days_left c d,
      \<lambda>(c, d). if 5 \<le> weekday d then nat (7 - weekday d) else 0]"
    using days_left_step [where c = c and d = d] by auto
qed simp

declare trading_day_from.simps [simp del]

definition next_trading_day :: "calendar \<Rightarrow> date \<Rightarrow> date" where
  "next_trading_day c d = trading_day_from c (d + 1)"

lemma trading_day_from_least:
  "trading_day c (trading_day_from c d) \<and> d \<le> trading_day_from c d
   \<and> (\<forall>x. d \<le> x \<and> x < trading_day_from c d \<longrightarrow> \<not> trading_day c x)"
proof (induction c d rule: trading_day_from.induct)
  case (1 c d)
  show ?case
  proof (cases "trading_day c d")
    case False
    then have e: "trading_day_from c d = trading_day_from c (d + 1)" by (simp add: trading_day_from.simps)
    have "\<not> trading_day c x" if "d \<le> x" "x < trading_day_from c (d + 1)" for x
      using 1 [OF False] that False by (cases "x = d") auto
    then show ?thesis using 1 [OF False] e by auto
  qed (auto simp: trading_day_from.simps)
qed

text \<open>The next trading day is the first one after the given day.\<close>

lemma next_trading_day_least:
  "trading_day c (next_trading_day c d)" "d < next_trading_day c d"
  "d < x \<Longrightarrow> x < next_trading_day c d \<Longrightarrow> \<not> trading_day c x"
  using trading_day_from_least [of c "d + 1"] by (auto simp: next_trading_day_def)

section \<open>Sessions\<close>

definition classify_tmf_session :: "(instant \<Rightarrow> string) \<Rightarrow> calendar \<Rightarrow> instant \<Rightarrow> (bar_session \<times> date) res" where
  "classify_tmf_session text_of c t =
     (let clock = taipei_clock t; d = taipei_date t in
      if clock_time 8 45 \<le> clock \<and> clock \<le> clock_time 13 45 then Inr (DayBar, d)
      else if clock_time 15 0 \<le> clock then Inr (NightBar, next_trading_day c d)
      else if clock \<le> clock_time 5 0 then Inr (NightBar, d)
      else Inl (ValueError (text_of t @ '' is outside the configured TMF sessions'')))"

text \<open>An evening tick belongs to a trading day after the calendar day; every other tick to the
  calendar day itself.\<close>

lemma classify_cases:
  "classify_tmf_session text_of c t = Inr (s, d) \<Longrightarrow>
     (s = DayBar \<and> d = taipei_date t)
   \<or> (s = NightBar \<and> taipei_clock t \<le> clock_time 5 0 \<and> d = taipei_date t)
   \<or> (s = NightBar \<and> clock_time 15 0 \<le> taipei_clock t \<and> trading_day c d \<and> taipei_date t < d)"
  using next_trading_day_least(1,2) [where c = c and d = "taipei_date t"]
  by (auto simp: classify_tmf_session_def Let_def split: if_splits)

lemma classify_date_from: "classify_tmf_session text_of c t = Inr (s, d) \<Longrightarrow> taipei_date t \<le> d"
  by (drule classify_cases) auto

text \<open>On the night before a trading day, the ticks before and after midnight have one trading
  date.\<close>

lemma classify_night_one_date:
  assumes "trading_day c (d + 1)" "clock_time 15 0 \<le> x" "x < seconds 86400" "0 \<le> y" "y \<le> clock_time 5 0"
  shows "classify_tmf_session text_of c (taipei_at d x) = Inr (NightBar, d + 1)"
    and "classify_tmf_session text_of c (taipei_at (d + 1) y) = Inr (NightBar, d + 1)"
proof -
  have "next_trading_day c d = d + 1" using assms(1) by (simp add: next_trading_day_def trading_day_from.simps)
  then show "classify_tmf_session text_of c (taipei_at d x) = Inr (NightBar, d + 1)"
    using assms(2,3) by (simp add: classify_tmf_session_def Let_def clock_time_def seconds_def)
  show "classify_tmf_session text_of c (taipei_at (d + 1) y) = Inr (NightBar, d + 1)"
    using assms(4,5) by (simp add: classify_tmf_session_def Let_def clock_time_def seconds_def)
qed

text \<open>On a Friday night they do not: the evening belongs to Monday, the hours after midnight to the
  Saturday, although they are one night session.  2024-05-10 is a Friday.\<close>

lemma friday_night_split:
  "weekday 19853 = 4"
  "classify_tmf_session text_of default_calendar (taipei_at 19853 (clock_time 23 59)) = Inr (NightBar, 19856)"
  "classify_tmf_session text_of default_calendar (taipei_at 19854 (clock_time 0 1)) = Inr (NightBar, 19854)"
  by (simp_all add: classify_tmf_session_def Let_def clock_time_def seconds_def weekday_def trading_day_def
      next_trading_day_def default_calendar_def trading_day_from.simps)

end
