(* ===== verification/Account_Risk.thy ===== *)
theory Account_Risk
  imports Exec_Safety Market_Sessions
begin

text \<open>
  The fail-closed, owner-scoped risk gate of paper accounts (\<open>risk/account.py\<close>) with the access
  snapshot it reads (\<open>auth/models.py\<close>): position, trade-count, loss and risk limits, loss-streak
  cooldown, kill switches and the recheck of an approved entry before its fill.

  Taipei keeps UTC+8, so a trading date is the day number of the instant shifted by eight hours.
\<close>

section \<open>Accounts\<close>

datatype role = Researcher | Trader | Admin
datatype account_status = AccActive | AccSuspended | AccRevoked
datatype trading_mode = ModeDisabled | ModePaper | ModeLive

record auth_user =
  au_id :: string
  au_email :: string
  au_role :: role
  au_status :: account_status
  au_mode :: trading_mode
  au_permissions :: "string list"
  au_subject :: "string option"
  au_registered :: bool

record account_access =
  aa_owner :: string
  aa_status :: account_status
  aa_mode :: trading_mode
  aa_permissions :: "string list"

definition access_of_user :: "auth_user \<Rightarrow> account_access" where
  "access_of_user u = \<lparr> aa_owner = au_id u, aa_status = au_status u, aa_mode = au_mode u,
     aa_permissions = au_permissions u \<rparr>"

type_synonym access_registry = "(string \<times> account_access) list"

definition set_access :: "account_access \<Rightarrow> access_registry \<Rightarrow> access_registry" where
  "set_access a r = dict_put (aa_owner a) a r"

definition set_user :: "auth_user \<Rightarrow> access_registry \<Rightarrow> access_registry" where
  "set_user u r = dict_put (au_id u) (access_of_user u) r"

definition resolve_access :: "access_registry \<Rightarrow> string \<Rightarrow> account_access option" where
  "resolve_access r owner = map_of r owner"

section \<open>The gate's state\<close>

record account_limits =
  al_max_position :: int
  al_max_trade_risk :: rat
  al_max_daily_loss :: rat
  al_max_trades :: int
  al_max_losses :: int
  al_cooldown_minutes :: int

definition check_account_limits :: "account_limits \<Rightarrow> account_limits res" where
  "check_account_limits c = first_error
     [(al_max_position c \<le> 0, ValueError ''max_position_contracts must be positive''),
      (al_max_trade_risk c \<le> 0, ValueError ''max_risk_per_trade must be positive''),
      (al_max_daily_loss c \<le> 0, ValueError ''max_daily_loss must be positive''),
      (al_max_trades c \<le> 0, ValueError ''max_trades_per_day must be positive''),
      (al_max_losses c \<le> 0, ValueError ''max_consecutive_losses must be positive''),
      (al_cooldown_minutes c < 0, ValueError ''cooldown_minutes cannot be negative'')] c"

definition default_account_limits :: account_limits where
  "default_account_limits = \<lparr> al_max_position = 2, al_max_trade_risk = 5000, al_max_daily_loss = 10000,
     al_max_trades = 10, al_max_losses = 3, al_cooldown_minutes = 30 \<rparr>"

record account_state =
  ac_date :: "date option"
  ac_pnl :: rat
  ac_trades :: int
  ac_losses :: int
  ac_cooldown :: "instant option"
  ac_kill :: bool
  ac_kill_reason :: "string option"
  ac_manual :: bool
  ac_reserved :: "(string \<times> int) list"

definition new_account_state :: account_state where
  "new_account_state = \<lparr> ac_date = None, ac_pnl = 0, ac_trades = 0, ac_losses = 0, ac_cooldown = None,
     ac_kill = False, ac_kill_reason = None, ac_manual = False, ac_reserved = [] \<rparr>"

record risk_audit =
  ra_event_id :: string
  ra_at :: instant
  ra_owner :: string
  ra_order_id :: string
  ra_approved :: bool
  ra_quantity :: int
  ra_reason :: string
  ra_risk :: "rat option"

record control_audit =
  ca_at :: instant
  ca_owner :: string
  ca_action :: string
  ca_reason :: string

record account_gate =
  ag_limits :: account_limits
  ag_costs :: futures_costs
  ag_access :: access_registry
  ag_states :: "(string \<times> account_state) list"
  ag_seen_orders :: "string list"
  ag_seen_trades :: "string list"
  ag_audit :: "risk_audit list"
  ag_control :: "control_audit list"

definition new_account_gate :: "account_limits \<Rightarrow> futures_costs \<Rightarrow> access_registry \<Rightarrow> account_gate" where
  "new_account_gate c k a = \<lparr> ag_limits = c, ag_costs = k, ag_access = a, ag_states = [], ag_seen_orders = [],
     ag_seen_trades = [], ag_audit = [], ag_control = [] \<rparr>"

definition risk_owner :: "domain_event \<Rightarrow> string res" where
  "risk_owner e = (if truthy (em_owner (event_meta_of e)) then Inr (the (em_owner (event_meta_of e)))
     else Inl (ValueError (kind_value (event_kind_of e) @ '' risk event requires owner_id'')))"

definition trading_date_of :: "date option \<Rightarrow> instant \<Rightarrow> date" where
  "trading_date_of d t = (case d of Some x \<Rightarrow> x | None \<Rightarrow> taipei_date t)"

definition account_at :: "account_gate \<Rightarrow> string \<Rightarrow> account_state" where
  "account_at g owner = (case map_of (ag_states g) owner of Some s \<Rightarrow> s | None \<Rightarrow> new_account_state)"

definition put_account :: "string \<Rightarrow> account_state \<Rightarrow> account_gate \<Rightarrow> account_gate" where
  "put_account owner s g = g\<lparr>ag_states := dict_put owner s (ag_states g)\<rparr>"

text \<open>A new trading date starts a new day: only a manual kill switch survives it.\<close>

definition roll_day :: "date \<Rightarrow> account_state \<Rightarrow> account_state" where
  "roll_day d s = (if ac_date s = Some d then s
     else let keep = ac_kill s \<and> ac_manual s in
       s\<lparr>ac_date := Some d, ac_pnl := 0, ac_trades := 0, ac_losses := 0, ac_cooldown := None,
         ac_reserved := [], ac_kill := keep, ac_kill_reason := (if keep then ac_kill_reason s else None),
         ac_manual := keep\<rparr>)"

definition enter_day :: "string \<Rightarrow> date \<Rightarrow> account_gate \<Rightarrow> account_gate" where
  "enter_day owner d g = put_account owner (roll_day d (account_at g owner)) g"

definition open_contracts :: "ledger \<Rightarrow> string \<Rightarrow> int" where
  "open_contracts l owner = sum_list (map (\<lambda>p. \<bar>ps_quantity (snd p)\<bar>)
     (filter (\<lambda>p. pk_owner (fst p) = owner) (open_positions l)))"

definition reserved_contracts :: "account_state \<Rightarrow> int" where
  "reserved_contracts s = sum_list (map snd (ac_reserved s))"

definition reducing_quantity :: "ledger \<Rightarrow> string \<Rightarrow> order_intent \<Rightarrow> int" where
  "reducing_quantity l owner o' =
     (case filter (\<lambda>p. fst p = order_key owner o'
          \<and> (0 < ps_quantity (snd p) \<and> oi_side o' = Sell \<or> ps_quantity (snd p) < 0 \<and> oi_side o' = Buy))
        (open_positions l) of
        [] \<Rightarrow> 0 | p # _ \<Rightarrow> min \<bar>ps_quantity (snd p)\<bar> (oi_quantity o'))"

definition order_estimated_risk :: "futures_costs \<Rightarrow> order_intent \<Rightarrow> rat option res" where
  "order_estimated_risk c o' = (case oi_stop_loss_price o' of None \<Rightarrow> Inr None | Some stop \<Rightarrow>
     if oi_reference_price o' \<le> 0 then Inr None
     else (case side_cost c (oi_reference_price o') (oi_quantity o') of Inl err \<Rightarrow> Inl err
       | Inr (c1, t1') \<Rightarrow> (case side_cost c stop (oi_quantity o') of Inl err \<Rightarrow> Inl err
       | Inr (c2, t2') \<Rightarrow> Inr (Some
           (\<bar>oi_reference_price o' - stop\<bar> * fc_multiplier c * of_int (oi_quantity o')
            + c1 + t1' + c2 + t2'
            + fc_slippage_points c * 2 * fc_multiplier c * of_int (oi_quantity o'))))))"

section \<open>Decisions\<close>

definition log_decision :: "string \<Rightarrow> risk_decision \<Rightarrow> account_gate \<Rightarrow> account_gate" where
  "log_decision owner d g = g\<lparr>ag_audit := ag_audit g @ [\<lparr> ra_event_id = em_id (rd_meta d),
     ra_at = em_at (rd_meta d), ra_owner = owner, ra_order_id = rd_order_id d, ra_approved = rd_approved d,
     ra_quantity = rd_approved_quantity d, ra_reason = rd_reason d, ra_risk = rd_estimated_risk d \<rparr>]\<rparr>"

definition account_decision :: "hashing \<Rightarrow> string \<Rightarrow> order_intent \<Rightarrow> bool \<Rightarrow> int \<Rightarrow> string \<Rightarrow> rat option
    \<Rightarrow> (account_gate, domain_event list) prog" where
  "account_decision h owner o' approved quantity reason risk g =
     (case create_meta h KRiskDecision (em_at (oi_meta o')) ''account_risk'' (em_id (oi_meta o') @ '':'' @ reason)
         (em_correlation (oi_meta o')) (Some (em_id (oi_meta o'))) (em_owner (oi_meta o')) of
        Inl err \<Rightarrow> (Inl err, g)
      | Inr meta \<Rightarrow>
          (case check_risk_decision \<lparr> rd_meta = meta, rd_order_id = oi_order_id o', rd_approved = approved,
              rd_approved_quantity = (if approved then quantity else 0), rd_reason = reason,
              rd_estimated_risk = risk,
              rd_reference_price = (if oi_reference_price o' = 0 then None else Some (oi_reference_price o')),
              rd_phase = InitialPhase \<rparr> of
             Inl err \<Rightarrow> (Inl err, g)
           | Inr d \<Rightarrow> (Inr [EvRisk d], log_decision owner d g)))"

definition log_control :: "instant \<Rightarrow> string \<Rightarrow> string \<Rightarrow> string \<Rightarrow> account_gate \<Rightarrow> account_gate" where
  "log_control t owner action reason g = g\<lparr>ag_control := ag_control g
     @ [\<lparr> ca_at = t, ca_owner = owner, ca_action = action, ca_reason = reason \<rparr>]\<rparr>"

definition activate_kill_switch :: "string \<Rightarrow> string \<Rightarrow> instant \<Rightarrow> bool \<Rightarrow> (account_gate, unit) prog" where
  "activate_kill_switch owner reason t manual g =
     (if reason = [] then (Inl (ValueError ''kill switch reason is required''), g)
      else (Inr (), log_control t owner ''kill_switch.activated'' reason
        (put_account owner ((account_at g owner)\<lparr>ac_kill := True, ac_kill_reason := Some reason, ac_manual := manual\<rparr>) g)))"

definition reset_kill_switch :: "string \<Rightarrow> string \<Rightarrow> instant \<Rightarrow> (account_gate, unit) prog" where
  "reset_kill_switch owner reason t g =
     (if reason = [] then (Inl (ValueError ''kill switch reset reason is required''), g)
      else (Inr (), log_control t owner ''kill_switch.reset'' reason
        (put_account owner ((account_at g owner)\<lparr>ac_kill := False, ac_kill_reason := None, ac_manual := False\<rparr>) g)))"

text \<open>The refusals before the cooldown, and the ones after it.\<close>

definition access_reason :: "account_access option \<Rightarrow> bool \<Rightarrow> string option" where
  "access_reason acc kill = (case acc of None \<Rightarrow> Some ''account_unknown'' | Some a \<Rightarrow> first_reason
     [(aa_status a \<noteq> AccActive, ''account_not_active''),
      (aa_mode a \<noteq> ModePaper, ''paper_mode_required''),
      (''orders.paper'' \<notin> set (aa_permissions a), ''paper_permission_required''),
      (kill, ''kill_switch_active'')])"

definition stop_is_valid :: "order_intent \<Rightarrow> price \<Rightarrow> bool" where
  "stop_is_valid o' reference = (case oi_stop_loss_price o' of None \<Rightarrow> False
     | Some stop \<Rightarrow> oi_side o' = Buy \<and> stop < reference \<or> oi_side o' = Sell \<and> reference < stop)"

definition end_cooldown :: "string \<Rightarrow> account_gate \<Rightarrow> account_gate" where
  "end_cooldown owner g = put_account owner ((account_at g owner)\<lparr>ac_cooldown := None, ac_losses := 0\<rparr>) g"

definition reserve_entry :: "string \<Rightarrow> string \<Rightarrow> int \<Rightarrow> account_gate \<Rightarrow> account_gate" where
  "reserve_entry owner i n g = put_account owner
     ((account_at g owner)\<lparr>ac_reserved := dict_put i n (ac_reserved (account_at g owner))\<rparr>) g"

text \<open>The limits of an entry, from a state whose cooldown is over.\<close>

definition entry_limits :: "hashing \<Rightarrow> ledger \<Rightarrow> string \<Rightarrow> order_intent \<Rightarrow> (account_gate, domain_event list) prog" where
  "entry_limits h l owner o' g =
     (let s = account_at g owner; c = ag_limits g in
      if ac_pnl s \<le> - al_max_daily_loss c
      then and_then (activate_kill_switch owner ''daily_loss_limit'' (em_at (oi_meta o')) False)
             (\<lambda>_. account_decision h owner o' False 0 ''daily_loss_limit'' None) g
      else if al_max_trades c \<le> ac_trades s + int (length (ac_reserved s))
      then account_decision h owner o' False 0 ''daily_trade_limit'' None g
      else if al_max_position c < open_contracts l owner + reserved_contracts s + oi_quantity o'
      then account_decision h owner o' False 0 ''max_position_exceeded'' None g
      else (case order_estimated_risk (ag_costs g) o' of
          Inl err \<Rightarrow> (Inl err, g)
        | Inr None \<Rightarrow> account_decision h owner o' False 0 ''stop_loss_required'' None g
        | Inr (Some risk) \<Rightarrow>
            if \<not> stop_is_valid o' (oi_reference_price o')
            then account_decision h owner o' False 0 ''invalid_stop_direction'' (Some risk) g
            else if al_max_trade_risk c < risk
            then account_decision h owner o' False 0 ''max_trade_risk_exceeded'' (Some risk) g
            else account_decision h owner o' True (oi_quantity o') ''approved'' (Some risk)
                   (reserve_entry owner (oi_order_id o') (oi_quantity o') g)))"

definition account_on_entry :: "hashing \<Rightarrow> ledger \<Rightarrow> string \<Rightarrow> order_intent \<Rightarrow> (account_gate, domain_event list) prog" where
  "account_on_entry h l owner o' g0 =
     (let g = enter_day owner (trading_date_of (oi_trading_date o') (em_at (oi_meta o'))) g0; s = account_at g owner in
      case access_reason (resolve_access (ag_access g) owner) (ac_kill s) of
        Some reason \<Rightarrow> account_decision h owner o' False 0 reason None g
      | None \<Rightarrow> (case ac_cooldown s of
            None \<Rightarrow> entry_limits h l owner o' g
          | Some until \<Rightarrow>
              if em_at (oi_meta o') < until then account_decision h owner o' False 0 ''loss_streak_cooldown'' None g
              else entry_limits h l owner o' (end_cooldown owner g)))"

text \<open>\<open>AccountRiskGate.on_order\<close>.\<close>

definition see_order :: "string \<Rightarrow> account_gate \<Rightarrow> account_gate" where
  "see_order i g = g\<lparr>ag_seen_orders := i # ag_seen_orders g\<rparr>"

definition account_on_order :: "hashing \<Rightarrow> ledger \<Rightarrow> domain_event \<Rightarrow> (account_gate, domain_event list) prog" where
  "account_on_order h l e g = (case e of
     EvOrder o' \<Rightarrow> (case risk_owner e of Inl err \<Rightarrow> (Inl err, g)
       | Inr owner \<Rightarrow>
           if oi_order_id o' \<in> set (ag_seen_orders g)
           then account_decision h owner o' False 0 ''duplicate_order'' None g
           else let g1 = see_order (oi_order_id o') g in
             if oi_reduce_only o'
             then let n = reducing_quantity l owner o' in
               if n = 0 then account_decision h owner o' False 0 ''reduce_only_position_unavailable'' None g1
               else account_decision h owner o' True n ''risk_reducing_approved'' None g1
             else account_on_entry h l owner o' g1)
   | _ \<Rightarrow> (Inl (TypeError ''AccountRiskGate.on_order requires OrderIntent''), g))"

section \<open>The recheck before a fill\<close>

definition prefill_reason :: "ledger \<Rightarrow> account_gate \<Rightarrow> string \<Rightarrow> order_intent \<Rightarrow> price \<Rightarrow> instant \<Rightarrow> rat option
    \<Rightarrow> string option \<Rightarrow> string option" where
  "prefill_reason l g owner o' fill t risk blocked =
     (let s = account_at g owner; c = ag_limits g in
      case blocked of Some r \<Rightarrow> Some r
    | None \<Rightarrow> (case access_reason (resolve_access (ag_access g) owner) (ac_kill s) of Some r \<Rightarrow> Some r
    | None \<Rightarrow> first_reason
       [(ac_pnl s \<le> - al_max_daily_loss c, ''daily_loss_limit''),
        ((case ac_cooldown s of None \<Rightarrow> False | Some u \<Rightarrow> t < u), ''loss_streak_cooldown''),
        (oi_order_id o' \<notin> fst ` set (ac_reserved s), ''risk_reservation_missing''),
        (al_max_trades c < ac_trades s + int (length (ac_reserved s)), ''daily_trade_limit''),
        (al_max_position c < open_contracts l owner + reserved_contracts s, ''max_position_exceeded''),
        (oi_stop_loss_price o' = None, ''stop_loss_required''),
        (\<not> stop_is_valid o' fill, ''gap_risk_exceeded''),
        ((case risk of None \<Rightarrow> True | Some v \<Rightarrow> al_max_trade_risk c < v), ''gap_risk_exceeded'')]))"

definition recheck_before_fill :: "hashing \<Rightarrow> ledger \<Rightarrow> string option \<Rightarrow> account_gate prefill" where
  "recheck_before_fill h l blocked o' fill t g0 =
     (case risk_owner (EvOrder o') of Inl err \<Rightarrow> (Inl err, g0)
      | Inr owner \<Rightarrow>
        let g = enter_day owner (trading_date_of (oi_trading_date o') (em_at (oi_meta o'))) g0 in
        (case check_order (o'\<lparr>oi_reference_price := fill\<rparr>) of Inl err \<Rightarrow> (Inl err, g)
         | Inr adj \<Rightarrow> (case order_estimated_risk (ag_costs g) adj of Inl err \<Rightarrow> (Inl err, g)
         | Inr risk \<Rightarrow>
             let reason = prefill_reason l g owner o' fill t risk blocked;
                 approved = (reason = None);
                 text = (if truthy reason then the reason else ''gap_risk_approved'') in
             (case create_meta h KRiskDecision t ''account_risk_prefill''
                 (join '':'' [oi_order_id o', float_text h fill, text])
                 (em_correlation (oi_meta o')) (Some (em_id (oi_meta o'))) (Some owner) of
                Inl err \<Rightarrow> (Inl err, g)
              | Inr meta \<Rightarrow>
                 (case check_risk_decision \<lparr> rd_meta = meta, rd_order_id = oi_order_id o', rd_approved = approved,
                     rd_approved_quantity = (if approved then oi_quantity o' else 0), rd_reason = text,
                     rd_estimated_risk = risk, rd_reference_price = Some fill, rd_phase = PrefillPhase \<rparr> of
                    Inl err \<Rightarrow> (Inl err, g)
                  | Inr d \<Rightarrow> (Inr d, log_decision owner d g))))))"

section \<open>Other handlers\<close>

definition restore_reservation :: "order_intent \<Rightarrow> int \<Rightarrow> (account_gate, unit) prog" where
  "restore_reservation o' n g = (if oi_reduce_only o' \<or> n \<le> 0 then (Inr (), g)
     else (case risk_owner (EvOrder o') of Inl err \<Rightarrow> (Inl err, g)
       | Inr owner \<Rightarrow> (Inr (), see_order (oi_order_id o') (reserve_entry owner (oi_order_id o') n
           (enter_day owner (trading_date_of (oi_trading_date o') (em_at (oi_meta o'))) g)))))"

definition drop_reservation :: "string \<Rightarrow> string \<Rightarrow> account_gate \<Rightarrow> account_gate" where
  "drop_reservation owner i g = put_account owner
     ((account_at g owner)\<lparr>ac_reserved := filter (\<lambda>p. fst p \<noteq> i) (ac_reserved (account_at g owner))\<rparr>) g"

definition account_on_status :: "domain_event \<Rightarrow> (account_gate, domain_event list) prog" where
  "account_on_status e g = (case e of
     EvStatus s \<Rightarrow> (case risk_owner e of Inl err \<Rightarrow> (Inl err, g)
       | Inr owner \<Rightarrow> if map_of (ag_states g) owner = None then (Inr [], g)
           else (Inr [], drop_reservation owner (os_order_id s) g))
   | _ \<Rightarrow> (Inl (TypeError ''AccountRiskGate.on_order_status requires OrderStatusEvent''), g))"

text \<open>A realised trade the gate has not seen: profit, loss streak, cooldown, daily loss.\<close>

definition count_trade :: "account_limits \<Rightarrow> realized_trade \<Rightarrow> account_state \<Rightarrow> account_state" where
  "count_trade c t s = (let s1 = s\<lparr>ac_pnl := ac_pnl s + rt_net_pnl t\<rparr> in
     if rt_net_pnl t < 0
     then let s2 = s1\<lparr>ac_losses := ac_losses s1 + 1\<rparr> in
       if al_max_losses c \<le> ac_losses s2
       then s2\<lparr>ac_cooldown := Some (rt_exit_time t + seconds (60 * al_cooldown_minutes c))\<rparr> else s2
     else s1\<lparr>ac_losses := 0, ac_cooldown := None\<rparr>)"

definition see_trade :: "realized_trade \<Rightarrow> unit \<Rightarrow> (account_gate, unit) prog" where
  "see_trade t u g =
     (if rt_exit_order_id t \<in> set (ag_seen_trades g) then (Inr (), g)
      else let owner = pk_owner (rt_key t);
               g1 = enter_day owner (trading_date_of (rt_trading_date t) (rt_exit_time t))
                      (g\<lparr>ag_seen_trades := rt_exit_order_id t # ag_seen_trades g\<rparr>);
               g2 = put_account owner (count_trade (ag_limits g) t (account_at g1 owner)) g1 in
        if ac_pnl (account_at g2 owner) \<le> - al_max_daily_loss (ag_limits g)
        then activate_kill_switch owner ''daily_loss_limit'' (rt_exit_time t) False g2
        else (Inr (), g2))"

definition count_entry :: "string \<Rightarrow> account_gate \<Rightarrow> account_gate" where
  "count_entry owner g = put_account owner ((account_at g owner)\<lparr>ac_trades := ac_trades (account_at g owner) + 1\<rparr>) g"

definition account_on_fill :: "ledger \<Rightarrow> domain_event \<Rightarrow> (account_gate, domain_event list) prog" where
  "account_on_fill l e g = (case e of
     EvFill f \<Rightarrow> (case risk_owner e of Inl err \<Rightarrow> (Inl err, g)
       | Inr owner \<Rightarrow>
           let g1 = drop_reservation owner (fe_order_id f)
                      (enter_day owner (trading_date_of (fe_trading_date f) (em_at (fe_meta f))) g);
               g2 = (if fe_purpose f = Entry then count_entry owner g1 else g1) in
           and_then (fold_prog see_trade (lg_trades l) ()) (\<lambda>_. give []) g2)
   | _ \<Rightarrow> (Inl (TypeError ''AccountRiskGate.on_fill requires FillEvent''), g))"

definition account_on_session :: "domain_event \<Rightarrow> (account_gate, domain_event list) prog" where
  "account_on_session e g = (case e of
     EvSession s \<Rightarrow> if se_action s = SessOpened then (Inr [], g)
       else (Inr [], g\<lparr>ag_states := map (\<lambda>(i, a). (i, if em_owner (se_meta s) = None \<or> em_owner (se_meta s) = Some i
               then a\<lparr>ac_reserved := []\<rparr> else a)) (ag_states g)\<rparr>)
   | _ \<Rightarrow> (Inl (TypeError ''AccountRiskGate.on_session requires SessionEvent''), g))"

record account_snapshot =
  as_state :: account_state
  as_open :: int
  as_reserved :: int

definition snapshot_account :: "ledger \<Rightarrow> string \<Rightarrow> account_gate \<Rightarrow> account_snapshot \<times> account_gate" where
  "snapshot_account l owner g = (\<lparr> as_state = account_at g owner, as_open = open_contracts l owner,
     as_reserved = reserved_contracts (account_at g owner) \<rparr>, put_account owner (account_at g owner) g)"

definition kill_switch_summary :: "account_gate \<Rightarrow> nat \<times> nat \<times> nat \<times> nat" where
  "kill_switch_summary g = (let on = filter (\<lambda>p. ac_kill (snd p)) (ag_states g) in
     (length on, length (filter (\<lambda>p. ac_manual (snd p)) on),
      length (filter (\<lambda>p. \<not> ac_manual (snd p)) on), length (ag_states g)))"

definition account_gate_ops :: "hashing \<Rightarrow> account_gate gate_ops" where
  "account_gate_ops h = \<lparr> go_on_order = account_on_order h,
     go_on_order_status = Some (\<lambda>_. account_on_status), go_on_fill = Some account_on_fill,
     go_on_session = Some (\<lambda>_. account_on_session) \<rparr>"

end
