(* ===== verification/Account_Risk_Safety.thy ===== *)
theory Account_Risk_Safety
  imports Account_Risk
begin

text \<open>
  What an approval of the account gate means, the contract it shares with the other gates, and the
  life of a kill switch.
\<close>

section \<open>Approvals\<close>

lemma account_at_put [simp]: "account_at (put_account owner s g) x = (if x = owner then s else account_at g x)"
  by (simp add: account_at_def put_account_def)

lemma put_account_fields [simp]: "ag_limits (put_account owner s g) = ag_limits g"
  "ag_costs (put_account owner s g) = ag_costs g" "ag_access (put_account owner s g) = ag_access g"
  by (simp_all add: put_account_def)

lemma log_fields [simp]: "ag_limits (log_decision owner d g) = ag_limits g"
  "account_at (log_decision owner d g) x = account_at g x" "ag_access (log_decision owner d g) = ag_access g"
  "ag_costs (log_decision owner d g) = ag_costs g"
  "account_at (log_control t owner a r g) x = account_at g x"
  by (simp_all add: log_decision_def account_at_def log_control_def)

lemma account_decision_Inr:
  assumes "account_decision h owner o' approved n reason risk g = (Inr es, g')"
  shows "\<exists>d. es = [EvRisk d] \<and> check_risk_decision d = Inr d \<and> rd_order_id d = oi_order_id o'
    \<and> rd_approved d = approved \<and> rd_approved_quantity d = (if approved then n else 0)
    \<and> rd_estimated_risk d = risk \<and> g' = log_decision owner d g"
proof -
  obtain meta d where d: "check_risk_decision \<lparr> rd_meta = meta, rd_order_id = oi_order_id o', rd_approved = approved,
      rd_approved_quantity = (if approved then n else 0), rd_reason = reason, rd_estimated_risk = risk,
      rd_reference_price = (if oi_reference_price o' = 0 then None else Some (oi_reference_price o')),
      rd_phase = InitialPhase \<rparr> = Inr d"
    "es = [EvRisk d]" "g' = log_decision owner d g"
    using assms unfolding account_decision_def by (simp split: sum.splits)
  note e = check_risk_decision_Inr [OF d(1), THEN conjunct1]
  from d(1) [folded e] have "check_risk_decision d = Inr d" .
  with d(2,3) e show ?thesis by simp
qed

text \<open>The state an approved entry leaves behind.\<close>

definition entry_within_limits :: "ledger \<Rightarrow> string \<Rightarrow> order_intent \<Rightarrow> account_gate \<Rightarrow> bool" where
  "entry_within_limits l owner o' g' =
     (let s = account_at g' owner; c = ag_limits g' in
      (case resolve_access (ag_access g') owner of None \<Rightarrow> False
        | Some a \<Rightarrow> aa_status a = AccActive \<and> aa_mode a = ModePaper \<and> ''orders.paper'' \<in> set (aa_permissions a))
      \<and> \<not> ac_kill s \<and> - al_max_daily_loss c < ac_pnl s
      \<and> (case ac_cooldown s of None \<Rightarrow> True | Some u \<Rightarrow> u \<le> em_at (oi_meta o'))
      \<and> ac_trades s + int (length (ac_reserved s)) \<le> al_max_trades c
      \<and> open_contracts l owner + reserved_contracts s \<le> al_max_position c
      \<and> map_of (ac_reserved s) (oi_order_id o') = Some (oi_quantity o')
      \<and> stop_is_valid o' (oi_reference_price o')
      \<and> (\<exists>risk. order_estimated_risk (ag_costs g') o' = Inr (Some risk) \<and> risk \<le> al_max_trade_risk c))"

lemma entry_limits_approved:
  assumes "entry_limits h l owner o' g = (Inr es, g')" "EvRisk d \<in> set es" "rd_approved d"
    and "access_reason (resolve_access (ag_access g) owner) (ac_kill (account_at g owner)) = None"
    and "ac_cooldown (account_at g owner) = None" "oi_order_id o' \<notin> fst ` set (ac_reserved (account_at g owner))"
  shows "entry_within_limits l owner o' g' \<and> rd_approved_quantity d = oi_quantity o'"
proof -
  let ?s = "account_at g owner"
  have no: False if "account_decision h owner o' False n reason risk g1 = (Inr es, g')" for n reason risk g1
    using account_decision_Inr [OF that] assms(2,3) by auto
  have pnl: "\<not> ac_pnl ?s \<le> - al_max_daily_loss (ag_limits g)"
  proof
    assume "ac_pnl ?s \<le> - al_max_daily_loss (ag_limits g)"
    with assms(1) obtain g1 where "account_decision h owner o' False 0 ''daily_loss_limit'' None g1 = (Inr es, g')"
      by (auto simp: entry_limits_def Let_def and_then_def activate_kill_switch_def)
    with no show False by blast
  qed
  have tr: "\<not> al_max_trades (ag_limits g) \<le> ac_trades ?s + int (length (ac_reserved ?s))"
  proof
    assume c: "al_max_trades (ag_limits g) \<le> ac_trades ?s + int (length (ac_reserved ?s))"
    have "account_decision h owner o' False 0 ''daily_trade_limit'' None g = (Inr es, g')"
      using assms(1) unfolding entry_limits_def Let_def if_not_P [OF pnl] if_P [OF c] .
    then show False by (rule no)
  qed
  have po: "\<not> al_max_position (ag_limits g) < open_contracts l owner + reserved_contracts ?s + oi_quantity o'"
  proof
    assume c: "al_max_position (ag_limits g) < open_contracts l owner + reserved_contracts ?s + oi_quantity o'"
    have "account_decision h owner o' False 0 ''max_position_exceeded'' None g = (Inr es, g')"
      using assms(1) unfolding entry_limits_def Let_def if_not_P [OF pnl] if_not_P [OF tr] if_P [OF c] .
    then show False by (rule no)
  qed
  note rest = assms(1) [unfolded entry_limits_def Let_def if_not_P [OF pnl] if_not_P [OF tr] if_not_P [OF po]]
  obtain risk where risk: "order_estimated_risk (ag_costs g) o' = Inr (Some risk)"
  proof (cases "order_estimated_risk (ag_costs g) o'")
    case (Inr v)
    show ?thesis
    proof (cases v)
      case None
      have "account_decision h owner o' False 0 ''stop_loss_required'' None g = (Inr es, g')"
        using rest unfolding Inr None sum.case option.case .
      then show ?thesis using no by blast
    qed (use that Inr in blast)
  qed (use rest in simp)
  note rest2 = rest [unfolded risk sum.case option.case]
  have st: "stop_is_valid o' (oi_reference_price o')"
  proof (rule ccontr)
    assume c: "\<not> stop_is_valid o' (oi_reference_price o')"
    have "account_decision h owner o' False 0 ''invalid_stop_direction'' (Some risk) g = (Inr es, g')"
      using rest2 unfolding if_P [OF c] .
    then show False by (rule no)
  qed
  have mr: "\<not> al_max_trade_risk (ag_limits g) < risk"
  proof
    assume c: "al_max_trade_risk (ag_limits g) < risk"
    have "account_decision h owner o' False 0 ''max_trade_risk_exceeded'' (Some risk) g = (Inr es, g')"
      using rest2 st unfolding if_P [OF c] by simp
    then show False by (rule no)
  qed
  have "account_decision h owner o' True (oi_quantity o') ''approved'' (Some risk)
      (reserve_entry owner (oi_order_id o') (oi_quantity o') g) = (Inr es, g')"
    using rest2 st mr by simp
  from account_decision_Inr [OF this] assms(2) have g': "rd_approved_quantity d = oi_quantity o'"
    "g' = log_decision owner d (reserve_entry owner (oi_order_id o') (oi_quantity o') g)" by auto
  have res: "ac_reserved (account_at g' owner) = ac_reserved ?s @ [(oi_order_id o', oi_quantity o')]"
    using dict_put_absent [OF assms(6)] by (simp add: g'(2) reserve_entry_def)
  have absent: "map_of (ac_reserved ?s) (oi_order_id o') = None"
    using assms(6) by (simp add: map_of_eq_None_iff)
  have other: "ag_limits g' = ag_limits g" "ag_costs g' = ag_costs g" "ag_access g' = ag_access g"
    "ac_kill (account_at g' owner) = ac_kill ?s" "ac_pnl (account_at g' owner) = ac_pnl ?s"
    "ac_cooldown (account_at g' owner) = None" "ac_trades (account_at g' owner) = ac_trades ?s"
    using assms(5) by (simp_all add: g'(2) reserve_entry_def)
  have acc: "(case resolve_access (ag_access g) owner of None \<Rightarrow> False
        | Some a \<Rightarrow> aa_status a = AccActive \<and> aa_mode a = ModePaper \<and> ''orders.paper'' \<in> set (aa_permissions a))
      \<and> \<not> ac_kill ?s"
    using assms(4) by (auto simp: access_reason_def first_reason_None split: option.splits)
  show ?thesis
    unfolding entry_within_limits_def Let_def other res
    using acc pnl tr po risk st mr absent g'(1)
    by (simp add: reserved_contracts_def res map_add_def not_le)
qed

section \<open>Every reservation is of an order the gate has seen\<close>

definition reserved_seen :: "account_gate \<Rightarrow> bool" where
  "reserved_seen g \<longleftrightarrow> (\<forall>owner. fst ` set (ac_reserved (account_at g owner)) \<subseteq> set (ag_seen_orders g))"

lemma reserved_seen_put: "reserved_seen g \<Longrightarrow> fst ` set (ac_reserved s) \<subseteq> set (ag_seen_orders g) \<Longrightarrow>
    reserved_seen (put_account owner s g)"
  by (simp add: reserved_seen_def) (simp add: put_account_def)

lemma reserved_seen_owner: "reserved_seen g \<Longrightarrow> fst ` set (ac_reserved (account_at g owner)) \<subseteq> set (ag_seen_orders g)"
  by (simp add: reserved_seen_def)

lemma reserved_seen_same:
  "reserved_seen g \<Longrightarrow> ag_states g' = ag_states g \<Longrightarrow> set (ag_seen_orders g) \<subseteq> set (ag_seen_orders g') \<Longrightarrow> reserved_seen g'"
  by (force simp: reserved_seen_def account_at_def)

lemma seen_put [simp]: "ag_seen_orders (put_account owner s g) = ag_seen_orders g"
  by (simp add: put_account_def)

lemma roll_day_reserved: "set (ac_reserved (roll_day d s)) \<subseteq> set (ac_reserved s)"
  by (simp add: roll_day_def Let_def)

lemma reserved_seen_enter: "reserved_seen g \<Longrightarrow> reserved_seen (enter_day owner d g)"
  unfolding enter_day_def
  by (rule reserved_seen_put) (use reserved_seen_owner roll_day_reserved in \<open>fast+\<close>)

lemma reserved_seen_log: "reserved_seen g \<Longrightarrow> reserved_seen (log_decision owner d g)"
  by (erule reserved_seen_same) (simp_all add: log_decision_def)

lemma reserved_seen_decision: "reserved_seen g \<Longrightarrow> account_decision h owner o' a n reason risk g = (r, g') \<Longrightarrow> reserved_seen g'"
  by (auto simp: account_decision_def reserved_seen_log split: sum.splits)

lemma reserved_seen_control: "reserved_seen g \<Longrightarrow> reserved_seen (log_control t owner a reason g)"
  by (erule reserved_seen_same) (simp_all add: log_control_def)

lemma reserved_seen_update: "reserved_seen g \<Longrightarrow> ac_reserved s = ac_reserved (account_at g owner) \<Longrightarrow>
    reserved_seen (put_account owner s g)"
  by (rule reserved_seen_put) (simp_all add: reserved_seen_owner)

lemma reserved_seen_fewer:
  assumes "reserved_seen g" "ag_seen_orders g' = ag_seen_orders g"
    and "\<And>owner. set (ac_reserved (account_at g' owner)) \<subseteq> set (ac_reserved (account_at g owner))"
  shows "reserved_seen g'"
  unfolding reserved_seen_def assms(2)
  using reserved_seen_owner [OF assms(1)] assms(3) by blast

lemma reserved_seen_activate: "reserved_seen g \<Longrightarrow> activate_kill_switch owner reason t manual g = (r, g') \<Longrightarrow> reserved_seen g'"
  by (auto simp: activate_kill_switch_def split: if_splits intro!: reserved_seen_control reserved_seen_update)

lemma reserved_seen_reset: "reserved_seen g \<Longrightarrow> reset_kill_switch owner reason t g = (r, g') \<Longrightarrow> reserved_seen g'"
  by (auto simp: reset_kill_switch_def split: if_splits intro!: reserved_seen_control reserved_seen_update)

lemma reserved_seen_reserve: "reserved_seen g \<Longrightarrow> i \<in> set (ag_seen_orders g) \<Longrightarrow> reserved_seen (reserve_entry owner i n g)"
  unfolding reserve_entry_def by (rule reserved_seen_put) (use reserved_seen_owner in auto)

lemma reserved_seen_drop: "reserved_seen g \<Longrightarrow> reserved_seen (drop_reservation owner i g)"
  unfolding drop_reservation_def
  by (rule reserved_seen_put) (use reserved_seen_owner [of g owner] in auto)

lemma reserved_seen_see: "reserved_seen g \<Longrightarrow> reserved_seen (see_order i g)"
  by (erule reserved_seen_same) (auto simp: see_order_def)

lemma reserved_seen_cooldown: "reserved_seen g \<Longrightarrow> reserved_seen (end_cooldown owner g)"
  unfolding end_cooldown_def by (rule reserved_seen_put) (use reserved_seen_owner in auto)

lemma reserved_seen_limits:
  assumes "reserved_seen g" "oi_order_id o' \<in> set (ag_seen_orders g)" "entry_limits h l owner o' g = (r, g')"
  shows "reserved_seen g'"
proof -
  have kill: "reserved_seen g'" if "and_then (activate_kill_switch owner reason t m)
      (\<lambda>_. account_decision h owner o' False 0 q None) g = (r, g')" for reason t m q
    using that assms(1) by (auto simp: and_then_def split: prod.splits sum.splits
        dest: reserved_seen_activate reserved_seen_decision)
  show ?thesis using assms kill
    by (auto simp: entry_limits_def Let_def reserved_seen_reserve split: if_splits sum.splits option.splits
        dest: reserved_seen_decision [rotated])
qed

lemma reserved_seen_order:
  assumes "reserved_seen g" "account_on_order h l e g = (r, g')"
  shows "reserved_seen g'"
proof (cases e)
  case (EvOrder o')
  show ?thesis
  proof (cases "risk_owner e")
    case (Inl err)
    with assms EvOrder show ?thesis by (simp add: account_on_order_def)
  next
    case (Inr owner)
    let ?g1 = "see_order (oi_order_id o') g"
    have g1: "reserved_seen ?g1" "oi_order_id o' \<in> set (ag_seen_orders ?g1)"
      using reserved_seen_see [OF assms(1)] by (auto simp: see_order_def)
    have entry: "reserved_seen g'" if "account_on_entry h l owner o' ?g1 = (r, g')"
    proof -
      let ?g = "enter_day owner (trading_date_of (oi_trading_date o') (em_at (oi_meta o'))) ?g1"
      have g: "reserved_seen ?g" "oi_order_id o' \<in> set (ag_seen_orders ?g)"
        using reserved_seen_enter [OF g1(1)] g1(2) by (simp_all add: enter_day_def)
      have c: "reserved_seen (end_cooldown owner ?g)" "oi_order_id o' \<in> set (ag_seen_orders (end_cooldown owner ?g))"
        using reserved_seen_cooldown [OF g(1)] g(2) by (simp_all add: end_cooldown_def)
      show ?thesis using that reserved_seen_decision [OF g(1)] reserved_seen_limits [OF g] reserved_seen_limits [OF c]
        by (auto simp: account_on_entry_def Let_def split: option.splits if_splits)
    qed
    show ?thesis using assms EvOrder Inr entry reserved_seen_decision [OF assms(1)] reserved_seen_decision [OF g1(1)]
      by (auto simp: account_on_order_def Let_def split: if_splits)
  qed
qed (use assms in \<open>auto simp: account_on_order_def\<close>)

lemma reserved_seen_trade: "see_trade t u g = (r, g') \<Longrightarrow> reserved_seen g \<Longrightarrow> reserved_seen g'"
proof -
  assume a: "see_trade t u g = (r, g')" "reserved_seen g"
  let ?o = "pk_owner (rt_key t)"
  let ?g1 = "enter_day ?o (trading_date_of (rt_trading_date t) (rt_exit_time t)) (g\<lparr>ag_seen_trades := rt_exit_order_id t # ag_seen_trades g\<rparr>)"
  let ?g2 = "put_account ?o (count_trade (ag_limits g) t (account_at ?g1 ?o)) ?g1"
  have "reserved_seen (g\<lparr>ag_seen_trades := rt_exit_order_id t # ag_seen_trades g\<rparr>)"
    using a(2) by (rule reserved_seen_same) simp_all
  then have g1: "reserved_seen ?g1" by (rule reserved_seen_enter)
  have "ac_reserved (count_trade c t s) = ac_reserved s" for c s by (simp add: count_trade_def Let_def)
  then have "reserved_seen ?g2" using reserved_seen_owner [OF g1] by (intro reserved_seen_put [OF g1]) simp
  with a show ?thesis by (auto simp: see_trade_def Let_def split: if_splits dest: reserved_seen_activate)
qed

lemma reserved_seen_fill:
  assumes "reserved_seen g" "account_on_fill l e g = (r, g')"
  shows "reserved_seen g'"
proof (cases e)
  case (EvFill f)
  show ?thesis
  proof (cases "risk_owner e")
    case (Inr owner)
    let ?g1 = "drop_reservation owner (fe_order_id f) (enter_day owner (trading_date_of (fe_trading_date f) (em_at (fe_meta f))) g)"
    let ?g2 = "if fe_purpose f = Entry then count_entry owner ?g1 else ?g1"
    have g1: "reserved_seen ?g1" by (intro reserved_seen_drop reserved_seen_enter assms(1))
    have "reserved_seen (count_entry owner ?g1)" unfolding count_entry_def
      by (rule reserved_seen_put [OF g1]) (use reserved_seen_owner [OF g1] in simp)
    with g1 have g2: "reserved_seen ?g2" by simp
    obtain q t where q: "fold_prog see_trade (lg_trades l) () ?g2 = (q, t)" by fastforce
    have "reserved_seen t" by (rule fold_prog_inv [where I = reserved_seen, OF reserved_seen_trade q g2])
    with assms(2) EvFill Inr q show ?thesis
      by (auto simp: account_on_fill_def Let_def and_then_def split: sum.splits)
  qed (use assms EvFill in \<open>auto simp: account_on_fill_def\<close>)
qed (use assms in \<open>auto simp: account_on_fill_def\<close>)

lemma reserved_seen_status: "reserved_seen g \<Longrightarrow> account_on_status e g = (r, g') \<Longrightarrow> reserved_seen g'"
  by (auto simp: account_on_status_def reserved_seen_drop split: domain_event.splits sum.splits if_splits)

lemma map_of_map_pair: "map_of (map (\<lambda>(i, a). (i, f i a)) xs) k = map_option (f k) (map_of xs k)"
  by (induction xs) auto

lemma reserved_seen_session:
  assumes "reserved_seen g" "account_on_session e g = (r, g')"
  shows "reserved_seen g'"
proof -
  have "reserved_seen (g\<lparr>ag_states := map (\<lambda>(i, a). (i, if c i then a\<lparr>ac_reserved := []\<rparr> else a)) (ag_states g)\<rparr>)" for c
    by (rule reserved_seen_fewer [OF assms(1)])
      (simp_all add: account_at_def map_of_map_pair split: option.split)
  with assms show ?thesis by (auto simp: account_on_session_def split: domain_event.splits if_splits)
qed

lemma reserved_seen_recheck: "reserved_seen g \<Longrightarrow> recheck_before_fill h l blocked o' fill t g = (r, g') \<Longrightarrow> reserved_seen g'"
  by (auto simp: recheck_before_fill_def Let_def reserved_seen_enter reserved_seen_log split: sum.splits)

lemma reserved_seen_restore: "reserved_seen g \<Longrightarrow> restore_reservation o' n g = (r, g') \<Longrightarrow> reserved_seen g'"
proof -
  assume a: "reserved_seen g" "restore_reservation o' n g = (r, g')"
  have "reserved_seen (see_order i (reserve_entry owner i n (enter_day owner d g)))" for i owner d
  proof -
    let ?g = "enter_day owner d g"
    have "reserved_seen (see_order i ?g)" by (intro reserved_seen_see reserved_seen_enter a(1))
    then have "reserved_seen (reserve_entry owner i n (see_order i ?g))"
      by (rule reserved_seen_reserve) (simp add: see_order_def)
    moreover have "reserve_entry owner i n (see_order i ?g) = see_order i (reserve_entry owner i n ?g)"
      by (simp add: reserve_entry_def see_order_def put_account_def account_at_def)
    ultimately show ?thesis by simp
  qed
  with a show ?thesis by (auto simp: restore_reservation_def Let_def split: if_splits sum.splits)
qed

section \<open>Every sequence of operations\<close>

datatype account_op = AcOrder ledger domain_event | AcStatus domain_event | AcFill ledger domain_event
  | AcSession domain_event | AcRecheck ledger "string option" order_intent price instant
  | AcRestore order_intent int | AcActivate string string instant bool | AcReset string string instant
  | AcAccess account_access

fun account_step :: "hashing \<Rightarrow> account_gate \<Rightarrow> account_op \<Rightarrow> account_gate" where
  "account_step h g (AcOrder l e) = snd (account_on_order h l e g)"
| "account_step h g (AcStatus e) = snd (account_on_status e g)"
| "account_step h g (AcFill l e) = snd (account_on_fill l e g)"
| "account_step h g (AcSession e) = snd (account_on_session e g)"
| "account_step h g (AcRecheck l blocked o' p t) = snd (recheck_before_fill h l blocked o' p t g)"
| "account_step h g (AcRestore o' n) = snd (restore_reservation o' n g)"
| "account_step h g (AcActivate owner reason t m) = snd (activate_kill_switch owner reason t m g)"
| "account_step h g (AcReset owner reason t) = snd (reset_kill_switch owner reason t g)"
| "account_step h g (AcAccess a) = g\<lparr>ag_access := set_access a (ag_access g)\<rparr>"

interpretation account: step_invariant "account_step h" reserved_seen for h
proof unfold_locales
  fix g x assume g: "reserved_seen g"
  note keeps = reserved_seen_order [OF g prod.collapse [symmetric]] reserved_seen_status [OF g prod.collapse [symmetric]]
    reserved_seen_fill [OF g prod.collapse [symmetric]] reserved_seen_session [OF g prod.collapse [symmetric]]
    reserved_seen_recheck [OF g prod.collapse [symmetric]] reserved_seen_restore [OF g prod.collapse [symmetric]]
    reserved_seen_activate [OF g prod.collapse [symmetric]] reserved_seen_reset [OF g prod.collapse [symmetric]]
  show "reserved_seen (account_step h g x)"
  proof (cases x)
    case (AcAccess a)
    show ?thesis unfolding AcAccess account_step.simps by (rule reserved_seen_same [OF g]) simp_all
  qed (simp_all add: keeps)
qed


definition alice_access :: account_access where
  "alice_access = \<lparr> aa_owner = ''alice'', aa_status = AccActive, aa_mode = ModePaper,
     aa_permissions = [''orders.paper''] \<rparr>"

definition sample_gate :: account_gate where
  "sample_gate = new_account_gate default_account_limits default_futures_costs [(''alice'', alice_access)]"

definition sample_entry :: "string \<Rightarrow> instant \<Rightarrow> order_intent" where
  "sample_entry i t = (sample_intent i Buy 1 False)\<lparr>oi_meta := sample_meta i t, oi_stop_loss_price := Some 90\<rparr>"

definition approves :: "domain_event list res \<Rightarrow> bool" where
  "approves r = (case r of Inr [EvRisk d] \<Rightarrow> rd_approved d | _ \<Rightarrow> False)"

lemma approvesD: "approves r \<Longrightarrow> \<exists>d. r = Inr [EvRisk d] \<and> rd_approved d"
proof (cases r)
  case (Inr es)
  assume "approves r"
  with Inr show ?thesis
  proof (cases es)
    case (Cons e rest)
    with \<open>approves r\<close> Inr show ?thesis by (cases rest; cases e) (simp_all add: approves_def)
  qed (simp add: approves_def)
qed (simp add: approves_def)


section \<open>The gate in the pipeline\<close>

lemma entry_limits_decides:
  assumes "entry_limits h l owner o' g = (Inr es, g')"
  shows "\<exists>a n reason risk g1. account_decision h owner o' a n reason risk g1 = (Inr es, g') \<and> (a \<longrightarrow> n = oi_quantity o')"
proof -
  have "\<exists>g1. account_decision h owner o' False 0 q None g1 = (Inr es, g')"
    if "and_then (activate_kill_switch owner reason t m) (\<lambda>_. account_decision h owner o' False 0 q None) g = (Inr es, g')"
    for reason t m q
    using that by (auto simp: and_then_def split: prod.splits sum.splits)
  with assms show ?thesis
    unfolding entry_limits_def Let_def by (simp split: if_splits sum.splits option.splits) blast+
qed

lemma account_on_order_decides:
  assumes "account_on_order h l (EvOrder o') g = (Inr es, g')"
  shows "\<exists>owner a n reason risk g1. account_decision h owner o' a n reason risk g1 = (Inr es, g') \<and> (a \<longrightarrow> n \<le> oi_quantity o')"
proof -
  obtain owner where own: "risk_owner (EvOrder o') = Inr owner"
    using assms by (auto simp: account_on_order_def split: sum.splits)
  have red: "reducing_quantity l owner o' \<le> oi_quantity o'" if "reducing_quantity l owner o' \<noteq> 0"
    using that by (simp add: reducing_quantity_def split: list.splits)
  let ?g = "enter_day owner (trading_date_of (oi_trading_date o') (em_at (oi_meta o'))) (see_order (oi_order_id o') g)"
  have "\<exists>a n reason risk g1. account_decision h owner o' a n reason risk g1 = (Inr es, g') \<and> (a \<longrightarrow> n \<le> oi_quantity o')"
  proof (cases "oi_order_id o' \<in> set (ag_seen_orders g) \<or> oi_reduce_only o'")
    case True
    with assms own red show ?thesis
      unfolding account_on_order_def Let_def by (simp split: if_splits) blast+
  next
    case False
    then have e: "account_on_entry h l owner o' (see_order (oi_order_id o') g) = (Inr es, g')"
      using assms own by (simp add: account_on_order_def Let_def)
    have "(\<exists>reason. account_decision h owner o' False 0 reason None ?g = (Inr es, g'))
        \<or> (\<exists>g1. entry_limits h l owner o' g1 = (Inr es, g'))"
      using e unfolding account_on_entry_def Let_def by (simp split: option.splits if_splits) blast+
    then show ?thesis using entry_limits_decides by fastforce
  qed
  then show ?thesis by blast
qed

interpretation account_gate: risk_gate "account_on_order h" for h
proof unfold_locales
  fix l o' g es g' e
  assume o': "check_order o' = Inr o'" and r: "account_on_order h l (EvOrder o') g = (Inr es, g')" and e: "e \<in> set es"
  obtain owner a n reason risk g1 where d: "account_decision h owner o' a n reason risk g1 = (Inr es, g')" "a \<longrightarrow> n \<le> oi_quantity o'"
    using account_on_order_decides [OF r] by blast
  from account_decision_Inr [OF d(1)] d(2) e check_order_Inr [OF o']
  show "\<exists>d. e = EvRisk d \<and> rd_order_id d = oi_order_id o' \<and> check_risk_decision d = Inr d \<and> rd_approved_quantity d \<le> oi_quantity o'"
    by auto
qed

section \<open>A manual kill switch overtaken by an automatic one\<close>

text \<open>A daily loss booked while an operator's kill switch is active overwrites its manual mark, so
  the next trading date lifts the switch nobody has reset: alice's entry is approved.\<close>

definition losing_ledger :: ledger where
  "losing_ledger = sample_ledger\<lparr>lg_trades := [\<lparr> rt_key = sample_key, rt_direction = LongSide, rt_quantity = 1,
     rt_entry_time = 0, rt_exit_time = 1, rt_entry_price = 2000, rt_exit_price = 100, rt_gross_pnl = -19000,
     rt_commission = 0, rt_tax = 0, rt_total_cost = 0, rt_net_pnl = -19000, rt_exit_reason = ''stop'',
     rt_exit_order_id = ''x'', rt_trading_date = Some 0 \<rparr>]\<rparr>"

definition overtaken_gate :: account_gate where
  "overtaken_gate = run (account_step sample_hashing) sample_gate
     [AcActivate ''alice'' ''operator'' 0 True,
      AcFill losing_ledger (EvFill ((sample_fill ''x'' Sell 1 100)\<lparr>fe_purpose := Exit, fe_trading_date := Some 0\<rparr>))]"

lemma manual_kill_switch_lifted:
  "ac_kill (account_at overtaken_gate ''alice'') \<and> \<not> ac_manual (account_at overtaken_gate ''alice'')
    \<and> approves (fst (account_on_order sample_hashing sample_ledger
         (EvOrder ((sample_entry ''2'' 2)\<lparr>oi_trading_date := Some 1\<rparr>)) overtaken_gate))"
  by code_simp

end
