(* ===== verification/Market_Bars.thy ===== *)
theory Market_Bars
  imports Market_Sessions "HOL-Library.Multiset"
begin

text \<open>
  Ticks and one-minute bars (\<open>market/models.py\<close>), the longer time frames built from them
  (\<open>market/timeframes.py\<close>) and the aggregator that turns ticks into minute bars
  (\<open>live/aggregator.py\<close>).

  Prices are rationals.  In the JSON message of a bar a time is written with milliseconds; the
  message holds the instant that text denotes.  The SHA-256 text of a tick without sequence number
  is the function \<open>tick_digest\<close>.
\<close>

section \<open>Ticks and bars\<close>

record tick =
  tk_symbol :: string
  tk_contract :: string
  tk_exchange_time :: instant
  tk_received_time :: instant
  tk_price :: price
  tk_volume :: int
  tk_total_volume :: "int option"
  tk_sequence :: "string option"

definition check_tick :: "tick \<Rightarrow> tick res" where
  "check_tick t = first_error
     [(tk_symbol t = [] \<or> tk_contract t = [], ValueError ''symbol and contract are required''),
      (tk_price t \<le> 0, ValueError ''tick price must be positive''),
      (tk_volume t < 0, ValueError ''tick volume cannot be negative'')] t"

definition dedup_key :: "(tick \<Rightarrow> string) \<Rightarrow> tick \<Rightarrow> string" where
  "dedup_key tick_digest t =
     (if truthy (tk_sequence t) then tk_contract t @ '':'' @ the (tk_sequence t) else tick_digest t)"

datatype bar_status = Forming | ClosedBar

record kbar =
  kb_symbol :: string
  kb_contract :: string
  kb_time :: instant
  kb_open :: price
  kb_high :: price
  kb_low :: price
  kb_close :: price
  kb_volume :: int
  kb_status :: bar_status
  kb_session :: bar_session
  kb_trading_date :: date
  kb_first_tick_time :: instant
  kb_last_tick_time :: instant
  kb_exchange_time :: instant
  kb_received_time :: instant
  kb_latency_ms :: rat
  kb_no_trade :: bool

text \<open>The JSON message of a bar.\<close>

record kbar_message =
  km_interval :: string
  km_symbol :: string
  km_contract :: string
  km_exchange_time :: instant
  km_received_time :: instant
  km_latency_ms :: rat
  km_time :: instant
  km_open :: price
  km_high :: price
  km_low :: price
  km_close :: price
  km_volume :: int
  km_status :: bar_status
  km_connection :: string
  km_session :: bar_session
  km_trading_date :: date
  km_no_trade :: bool

definition isoformat_millis :: "instant \<Rightarrow> instant" where
  "isoformat_millis t = t div 1000 * 1000"

text \<open>The time written for a bar.\<close>

definition stamp :: "kbar \<Rightarrow> instant" where
  "stamp b = isoformat_millis (kb_time b)"

definition round3 :: "rat \<Rightarrow> rat" where
  "round3 x = of_int (py_round (x * 1000)) / 1000"

definition kbar_to_message :: "string \<Rightarrow> string \<Rightarrow> kbar \<Rightarrow> kbar_message" where
  "kbar_to_message connection interval b =
     \<lparr> km_interval = interval, km_symbol = kb_symbol b, km_contract = kb_contract b,
       km_exchange_time = isoformat_millis (kb_exchange_time b),
       km_received_time = isoformat_millis (kb_received_time b), km_latency_ms = round3 (kb_latency_ms b),
       km_time = isoformat_millis (kb_time b), km_open = kb_open b, km_high = kb_high b, km_low = kb_low b,
       km_close = kb_close b, km_volume = kb_volume b, km_status = kb_status b, km_connection = connection,
       km_session = kb_session b, km_trading_date = kb_trading_date b, km_no_trade = kb_no_trade b \<rparr>"

definition kbar_from_message :: "kbar_message \<Rightarrow> kbar" where
  "kbar_from_message m =
     \<lparr> kb_symbol = km_symbol m, kb_contract = km_contract m, kb_time = km_time m, kb_open = km_open m,
       kb_high = km_high m, kb_low = km_low m, kb_close = km_close m, kb_volume = km_volume m,
       kb_status = km_status m, kb_session = km_session m, kb_trading_date = km_trading_date m,
       kb_first_tick_time = km_time m, kb_last_tick_time = km_exchange_time m,
       kb_exchange_time = km_exchange_time m, kb_received_time = km_received_time m,
       kb_latency_ms = km_latency_ms m, kb_no_trade = km_no_trade m \<rparr>"

text \<open>Reading a message back and writing it again gives the same message: the rounding of a message
  is done once.\<close>

lemma kbar_message_stable:
  "kbar_to_message c i (kbar_from_message (kbar_to_message c i b)) = kbar_to_message c i b"
  by (simp add: kbar_to_message_def kbar_from_message_def isoformat_millis_def round3_def)

section \<open>Time frames\<close>

datatype timeframe = M1 | M5 | M10 | M15 | M30 | H1 | D1 | W1

definition supported_timeframes :: "(string \<times> timeframe) list" where
  "supported_timeframes = [(''1m'', M1), (''5m'', M5), (''10m'', M10), (''15m'', M15), (''30m'', M30),
     (''1h'', H1), (''1d'', D1), (''1w'', W1)]"

definition timeframe_minutes :: "timeframe \<Rightarrow> int option" where
  "timeframe_minutes f = (case f of M1 \<Rightarrow> Some 1 | M5 \<Rightarrow> Some 5 | M10 \<Rightarrow> Some 10 | M15 \<Rightarrow> Some 15
     | M30 \<Rightarrow> Some 30 | H1 \<Rightarrow> Some 60 | D1 \<Rightarrow> None | W1 \<Rightarrow> None)"

definition validate_timeframe :: "string \<Rightarrow> timeframe res" where
  "validate_timeframe s = (case map_of supported_timeframes (strip (lower s)) of
       None \<Rightarrow> Inl (ValueError (''unsupported interval: '' @ s @ ''; supported: ''
                 @ join '', '' (map fst supported_timeframes)))
     | Some f \<Rightarrow> Inr f)"

definition session_anchor :: "kbar \<Rightarrow> instant" where
  "session_anchor b =
     (let d = taipei_date (kb_time b); clock = taipei_clock (kb_time b) in
      if kb_session b = DayBar then taipei_at d (clock_time 8 45)
      else taipei_at (if clock_time 15 0 \<le> clock then d else d - 1) (clock_time 15 0))"

text \<open>The tuples a bucket is identified by.  A week is named by its number of weeks since the Monday
  1969-12-29, one to one with the ISO year and week.\<close>

datatype bucket =
    MinuteBucket string instant
  | SpanBucket string bar_session date instant
  | DayBucket string date
  | WeekBucket string int

definition iso_week :: "date \<Rightarrow> int" where
  "iso_week d = (d + 3) div 7"

definition timeframe_bucket :: "kbar \<Rightarrow> timeframe \<Rightarrow> bucket" where
  "timeframe_bucket b f =
     (if f = M1 then MinuteBucket (kb_contract b) (minute_floor (kb_time b))
      else (case timeframe_minutes f of
          Some minutes \<Rightarrow>
            let anchor = session_anchor b; elapsed = (kb_time b - anchor) div seconds 60 in
            SpanBucket (kb_contract b) (kb_session b) (kb_trading_date b)
              (anchor + seconds (60 * (elapsed div minutes * minutes)))
        | None \<Rightarrow> if f = D1 then DayBucket (kb_contract b) (kb_trading_date b)
                  else WeekBucket (kb_contract b) (iso_week (kb_trading_date b))))"

definition bucket_start :: "bucket \<Rightarrow> instant option" where
  "bucket_start k = (case k of MinuteBucket _ t \<Rightarrow> Some t | SpanBucket _ _ _ t \<Rightarrow> Some t | _ \<Rightarrow> None)"

definition max_of :: "('a \<Rightarrow> 'b::linorder) \<Rightarrow> 'a \<Rightarrow> 'a list \<Rightarrow> 'b" where
  "max_of f x xs = foldl (\<lambda>m y. max m (f y)) (f x) xs"

definition min_of :: "('a \<Rightarrow> 'b::linorder) \<Rightarrow> 'a \<Rightarrow> 'a list \<Rightarrow> 'b" where
  "min_of f x xs = foldl (\<lambda>m y. min m (f y)) (f x) xs"

text \<open>\<open>_aggregate_group\<close>; an empty group is an \<open>IndexError\<close> of the source, which its callers avoid.\<close>

definition aggregate_group :: "timeframe \<Rightarrow> kbar list \<Rightarrow> kbar option" where
  "aggregate_group f bs = (case sort_key kb_time bs of
       [] \<Rightarrow> None
     | x # xs \<Rightarrow> let l = last (x # xs) in Some
         \<lparr> kb_symbol = kb_symbol x, kb_contract = kb_contract x,
           kb_time = (case bucket_start (timeframe_bucket x f) of Some t \<Rightarrow> t | None \<Rightarrow> kb_time x),
           kb_open = kb_open x, kb_high = max_of kb_high x xs, kb_low = min_of kb_low x xs, kb_close = kb_close l,
           kb_volume = sum_list (map kb_volume (x # xs)),
           kb_status = (if list_ex (\<lambda>b. kb_status b = Forming) (x # xs) then Forming else ClosedBar),
           kb_session = kb_session x, kb_trading_date = kb_trading_date x,
           kb_first_tick_time = min_of kb_first_tick_time x xs, kb_last_tick_time = max_of kb_last_tick_time x xs,
           kb_exchange_time = kb_exchange_time l, kb_received_time = kb_received_time l,
           kb_latency_ms = kb_latency_ms l, kb_no_trade = list_all kb_no_trade (x # xs) \<rparr>)"

definition group_put :: "timeframe \<Rightarrow> kbar \<Rightarrow> (bucket \<times> kbar list) list \<Rightarrow> (bucket \<times> kbar list) list" where
  "group_put f b d = (let k = timeframe_bucket b f in
     dict_put k ((case map_of d k of None \<Rightarrow> [] | Some g \<Rightarrow> g) @ [b]) d)"

definition group_bars :: "timeframe \<Rightarrow> kbar list \<Rightarrow> (bucket \<times> kbar list) list" where
  "group_bars f bs = foldl (\<lambda>d b. group_put f b d) [] bs"

text \<open>Python's \<open>result[-limit:]\<close>.\<close>

definition last_items :: "int \<Rightarrow> 'a list \<Rightarrow> 'a list" where
  "last_items n xs = (if n = 0 then xs else if 0 < n then drop (length xs - nat n) xs else drop (nat (- n)) xs)"

definition aggregate_bars :: "timeframe \<Rightarrow> kbar list \<Rightarrow> kbar list" where
  "aggregate_bars f bs = (let ordered = sort_key kb_time bs in
     if f = M1 then ordered
     else List.map_filter (\<lambda>g. aggregate_group f (snd g)) (group_bars f ordered))"

definition aggregate_kbars :: "kbar list \<Rightarrow> string \<Rightarrow> int option \<Rightarrow> kbar list res" where
  "aggregate_kbars bs interval most = (case validate_timeframe interval of
       Inl e \<Rightarrow> Inl e
     | Inr f \<Rightarrow> Inr (case most of None \<Rightarrow> aggregate_bars f bs | Some n \<Rightarrow> last_items n (aggregate_bars f bs)))"

definition source_bar_limit :: "string \<Rightarrow> int \<Rightarrow> int \<Rightarrow> int res" where
  "source_bar_limit interval requested history = (case validate_timeframe interval of
       Inl e \<Rightarrow> Inl e
     | Inr f \<Rightarrow> Inr (case timeframe_minutes f of None \<Rightarrow> history
          | Some m \<Rightarrow> min history (max (requested * m + m) requested)))"

section \<open>Streaming aggregation\<close>

record stream =
  st_interval :: timeframe
  st_key :: "bucket option"
  st_source :: "((string \<times> instant) \<times> kbar) list"

definition put_bar :: "kbar \<Rightarrow> ((string \<times> instant) \<times> kbar) list \<Rightarrow> ((string \<times> instant) \<times> kbar) list" where
  "put_bar b d = dict_put (kb_contract b, kb_time b) b d"

definition new_stream :: "string \<Rightarrow> kbar list \<Rightarrow> stream res" where
  "new_stream interval seed = (case validate_timeframe interval of
       Inl e \<Rightarrow> Inl e
     | Inr f \<Rightarrow> Inr (case sort_key kb_time seed of
          [] \<Rightarrow> \<lparr> st_interval = f, st_key = None, st_source = [] \<rparr>
        | b # bs \<Rightarrow> let k = timeframe_bucket (last (b # bs)) f in
            \<lparr> st_interval = f, st_key = Some k,
              st_source = foldl (\<lambda>d x. put_bar x d) [] (filter (\<lambda>x. timeframe_bucket x f = k) (b # bs)) \<rparr>))"

definition with_status :: "bar_status \<Rightarrow> kbar option \<Rightarrow> kbar list" where
  "with_status s b = (case b of None \<Rightarrow> [] | Some x \<Rightarrow> [x\<lparr>kb_status := s\<rparr>])"

definition stream_push :: "kbar \<Rightarrow> stream \<Rightarrow> kbar list \<times> stream" where
  "stream_push b s =
     (if st_interval s = M1 then ([b], s)
      else let f = st_interval s; k = timeframe_bucket b f;
               moved = (st_key s \<noteq> None \<and> st_key s \<noteq> Some k \<and> st_source s \<noteq> []);
               previous = (if moved then with_status ClosedBar (aggregate_group f (map snd (st_source s))) else []);
               source = put_bar b (if moved then [] else st_source s) in
           (previous @ with_status Forming (aggregate_group f (map snd source)),
            s\<lparr>st_key := Some k, st_source := source\<rparr>))"

section \<open>From ticks to minute bars\<close>

record aggregator =
  ma_symbol :: string
  ma_capacity :: int
  ma_calendar :: calendar
  ma_current :: "kbar option"
  ma_seen :: "string list"
  ma_duplicates :: nat
  ma_late :: nat

definition new_aggregator :: "string \<Rightarrow> int \<Rightarrow> calendar \<Rightarrow> aggregator" where
  "new_aggregator symbol capacity cal = \<lparr> ma_symbol = symbol, ma_capacity = capacity, ma_calendar = cal,
     ma_current = None, ma_seen = [], ma_duplicates = 0, ma_late = 0 \<rparr>"

definition restore_bar :: "kbar option \<Rightarrow> aggregator \<Rightarrow> aggregator" where
  "restore_bar b a = a\<lparr>ma_current := (case b of None \<Rightarrow> None | Some x \<Rightarrow> if kb_status x = Forming then b else None)\<rparr>"

definition remember :: "string \<Rightarrow> aggregator \<Rightarrow> bool \<times> aggregator" where
  "remember k a = (if k \<in> set (ma_seen a) then (False, a\<lparr>ma_duplicates := ma_duplicates a + 1\<rparr>)
     else let seen = ma_seen a @ [k] in
       (True, a\<lparr>ma_seen := (if ma_capacity a < int (length seen) then tl seen else seen)\<rparr>))"

definition latency_of :: "tick \<Rightarrow> rat" where
  "latency_of t = max 0 (total_seconds (tk_received_time t - tk_exchange_time t) * 1000)"

definition new_bar :: "(instant \<Rightarrow> string) \<Rightarrow> calendar \<Rightarrow> tick \<Rightarrow> kbar res" where
  "new_bar text_of cal t = (case classify_tmf_session text_of cal (tk_exchange_time t) of
       Inl e \<Rightarrow> Inl e
     | Inr (session, d) \<Rightarrow> Inr
         \<lparr> kb_symbol = tk_symbol t, kb_contract = tk_contract t, kb_time = minute_floor (tk_exchange_time t),
           kb_open = tk_price t, kb_high = tk_price t, kb_low = tk_price t, kb_close = tk_price t,
           kb_volume = tk_volume t, kb_status = Forming, kb_session = session, kb_trading_date = d,
           kb_first_tick_time = tk_exchange_time t, kb_last_tick_time = tk_exchange_time t,
           kb_exchange_time = tk_exchange_time t, kb_received_time = tk_received_time t,
           kb_latency_ms = latency_of t, kb_no_trade = False \<rparr>)"

definition gap_bar :: "kbar \<Rightarrow> instant \<Rightarrow> kbar" where
  "gap_bar start t = start\<lparr>kb_time := t, kb_open := kb_close start, kb_high := kb_close start,
     kb_low := kb_close start, kb_volume := 0, kb_status := ClosedBar, kb_first_tick_time := t,
     kb_last_tick_time := t, kb_exchange_time := t, kb_latency_ms := 0, kb_no_trade := True\<rparr>"

text \<open>The minutes without a tick, up to the end of the session.\<close>

function gap_bars :: "(instant \<Rightarrow> string) \<Rightarrow> calendar \<Rightarrow> kbar \<Rightarrow> instant \<Rightarrow> instant \<Rightarrow> kbar list" where
  "gap_bars text_of cal start target cursor =
     (if target \<le> cursor then []
      else (case classify_tmf_session text_of cal cursor of
          Inl _ \<Rightarrow> gap_bars text_of cal start target (cursor + seconds 60)
        | Inr (session, d) \<Rightarrow>
            if session \<noteq> kb_session start \<or> d \<noteq> kb_trading_date start then []
            else gap_bar start cursor # gap_bars text_of cal start target (cursor + seconds 60)))"
  by pat_completeness auto

termination
  by (relation "measure (\<lambda>(text_of, cal, start, target, cursor). nat (target - cursor))") (auto simp: seconds_def)

declare gap_bars.simps [simp del]

record aggregate_result =
  ar_bars :: "kbar list"
  ar_duplicate :: bool
  ar_late :: bool

abbreviation bars_result :: "kbar list \<Rightarrow> aggregate_result" where
  "bars_result bs \<equiv> \<lparr> ar_bars = bs, ar_duplicate = False, ar_late = False \<rparr>"

definition merge_tick :: "tick \<Rightarrow> kbar \<Rightarrow> kbar" where
  "merge_tick t b0 =
     (let b1 = (if tk_exchange_time t < kb_first_tick_time b0
                then b0\<lparr>kb_open := tk_price t, kb_first_tick_time := tk_exchange_time t\<rparr> else b0);
          b2 = (if kb_last_tick_time b1 \<le> tk_exchange_time t
                then b1\<lparr>kb_close := tk_price t, kb_last_tick_time := tk_exchange_time t\<rparr> else b1) in
      b2\<lparr>kb_high := max (kb_high b2) (tk_price t), kb_low := min (kb_low b2) (tk_price t),
         kb_volume := kb_volume b2 + tk_volume t,
         kb_exchange_time := max (kb_exchange_time b2) (tk_exchange_time t),
         kb_received_time := tk_received_time t, kb_latency_ms := latency_of t, kb_no_trade := False\<rparr>)"

definition process_tick :: "(tick \<Rightarrow> string) \<Rightarrow> (instant \<Rightarrow> string) \<Rightarrow> tick \<Rightarrow> (aggregator, aggregate_result) prog" where
  "process_tick digest text_of t a0 =
     (if tk_symbol t \<noteq> ma_symbol a0 then (Inl (ValueError (''unexpected symbol: '' @ tk_symbol t)), a0)
      else let (fresh, a) = remember (dedup_key digest t) a0; minute = minute_floor (tk_exchange_time t) in
        if \<not> fresh then (Inr \<lparr> ar_bars = [], ar_duplicate = True, ar_late = False \<rparr>, a)
        else (case ma_current a of
            None \<Rightarrow> (case new_bar text_of (ma_calendar a) t of
                Inl e \<Rightarrow> (Inl e, a)
              | Inr b \<Rightarrow> (Inr (bars_result [b]), a\<lparr>ma_current := Some b\<rparr>))
          | Some c \<Rightarrow>
              if minute < kb_time c
              then (Inr \<lparr> ar_bars = [], ar_duplicate = False, ar_late = True \<rparr>, a\<lparr>ma_late := ma_late a + 1\<rparr>)
              else if tk_contract t \<noteq> kb_contract c \<or> kb_time c < minute
              then (let closed = c\<lparr>kb_status := ClosedBar\<rparr>;
                        gaps = (if tk_contract t = kb_contract c
                                then gap_bars text_of (ma_calendar a) closed minute (kb_time closed + seconds 60) else []) in
                    case new_bar text_of (ma_calendar a) t of
                      Inl e \<Rightarrow> (Inl e, a)
                    | Inr b \<Rightarrow> (Inr (bars_result (closed # gaps @ [b])), a\<lparr>ma_current := Some b\<rparr>))
              else (Inr (bars_result [merge_tick t c]), a\<lparr>ma_current := Some (merge_tick t c)\<rparr>)))"

definition close_current :: "aggregator \<Rightarrow> kbar option \<times> aggregator" where
  "close_current a = (case ma_current a of None \<Rightarrow> (None, a)
     | Some c \<Rightarrow> (Some (c\<lparr>kb_status := ClosedBar\<rparr>), a\<lparr>ma_current := None\<rparr>))"

section \<open>Prices stay inside the bar\<close>

definition bar_ok :: "kbar \<Rightarrow> bool" where
  "bar_ok b \<longleftrightarrow> 0 < kb_low b \<and> kb_low b \<le> kb_open b \<and> kb_low b \<le> kb_close b
     \<and> kb_open b \<le> kb_high b \<and> kb_close b \<le> kb_high b \<and> 0 \<le> kb_volume b"

lemma bar_okD: "bar_ok b \<Longrightarrow> kb_low b \<le> kb_high b"
  by (auto simp: bar_ok_def)

lemma check_tickD: "check_tick t = Inr t \<Longrightarrow> 0 < tk_price t \<and> 0 \<le> tk_volume t"
  by (simp add: check_tick_def first_error_Inr not_le)

lemma new_bar_ok: "new_bar text_of cal t = Inr b \<Longrightarrow> check_tick t = Inr t \<Longrightarrow> bar_ok b"
  by (drule check_tickD) (auto simp: new_bar_def bar_ok_def split: sum.splits prod.splits)

lemma merge_tick_ok: "bar_ok b \<Longrightarrow> check_tick t = Inr t \<Longrightarrow> bar_ok (merge_tick t b)"
  by (drule check_tickD) (auto simp: merge_tick_def bar_ok_def Let_def min_def max_def)

lemma gap_bar_ok: "bar_ok b \<Longrightarrow> bar_ok (gap_bar b t)"
  by (auto simp: gap_bar_def bar_ok_def)

lemma status_ok [simp]: "bar_ok (b\<lparr>kb_status := s\<rparr>) = bar_ok b"
  by (simp add: bar_ok_def)

lemma gap_bars_ok: "bar_ok b \<Longrightarrow> x \<in> set (gap_bars text_of cal b target c) \<Longrightarrow> bar_ok x"
proof (induction text_of cal b target c rule: gap_bars.induct)
  case (1 text_of cal b target c)
  from 1(3,4) show ?case
    by (subst (asm) gap_bars.simps)
      (auto split: if_splits sum.splits prod.splits intro: gap_bar_ok dest: 1(1) 1(2))
qed

text \<open>The bars the aggregator holds and hands out have prices in order and a non-negative volume.\<close>

definition aggregator_ok :: "aggregator \<Rightarrow> bool" where
  "aggregator_ok a \<longleftrightarrow> (\<forall>b. ma_current a = Some b \<longrightarrow> bar_ok b)"

lemma remember_fields:
  "remember k a = (x, a') \<Longrightarrow> ma_current a' = ma_current a \<and> ma_calendar a' = ma_calendar a \<and> ma_symbol a' = ma_symbol a"
  by (auto simp: remember_def Let_def split: if_splits)

text \<open>The outcomes of a tick.\<close>

lemma process_tick_cases:
  assumes "process_tick digest text_of t a = (Inr r, a')"
  obtains (skipped) "ar_bars r = []" "ar_duplicate r \<or> ar_late r" "ma_current a' = ma_current a"
  | (first) b where "ma_current a = None" "new_bar text_of (ma_calendar a) t = Inr b" "r = bars_result [b]"
      "ma_current a' = Some b"
  | (next_bar) c b target cursor gaps where "ma_current a = Some c" "new_bar text_of (ma_calendar a) t = Inr b"
      "gaps = [] \<or> gaps = gap_bars text_of (ma_calendar a) (c\<lparr>kb_status := ClosedBar\<rparr>) target cursor"
      "r = bars_result (c\<lparr>kb_status := ClosedBar\<rparr> # gaps @ [b])" "ma_current a' = Some b"
  | (merged) c where "ma_current a = Some c" "r = bars_result [merge_tick t c]" "ma_current a' = Some (merge_tick t c)"
proof -
  obtain fresh a1 where rm: "remember (dedup_key digest t) a = (fresh, a1)" by (cases "remember (dedup_key digest t) a") blast
  have a1: "ma_current a1 = ma_current a" "ma_calendar a1 = ma_calendar a" using remember_fields [OF rm] by simp_all
  have s: "tk_symbol t = ma_symbol a" using assms by (auto simp: process_tick_def split: if_splits)
  show ?thesis
  proof (cases fresh)
    case False
    with assms rm a1 s show ?thesis by (intro skipped) (auto simp: process_tick_def)
  next
    case True
    note step = assms [unfolded process_tick_def] and nb = first next_bar merged skipped
    show ?thesis
    proof (cases "ma_current a")
      case None
      with step True rm a1 s obtain b where "new_bar text_of (ma_calendar a) t = Inr b" "r = bars_result [b]"
          "ma_current a' = Some b"
        by (auto split: sum.splits)
      with None show ?thesis by (intro first)
    next
      case (Some c)
      let ?closed = "c\<lparr>kb_status := ClosedBar\<rparr>"
      let ?gaps = "if tk_contract t = kb_contract c then gap_bars text_of (ma_calendar a) ?closed
          (minute_floor (tk_exchange_time t)) (kb_time ?closed + seconds 60) else []"
      consider "minute_floor (tk_exchange_time t) < kb_time c"
        | "\<not> minute_floor (tk_exchange_time t) < kb_time c" "tk_contract t \<noteq> kb_contract c \<or> kb_time c < minute_floor (tk_exchange_time t)"
        | "\<not> minute_floor (tk_exchange_time t) < kb_time c" "\<not> (tk_contract t \<noteq> kb_contract c \<or> kb_time c < minute_floor (tk_exchange_time t))"
        by blast
      then show ?thesis
      proof cases
        case 1
        with step True rm a1 s Some show ?thesis by (intro skipped) auto
      next
        case 2
        with step True rm a1 s Some obtain b where b: "new_bar text_of (ma_calendar a) t = Inr b"
            "r = bars_result (?closed # ?gaps @ [b])" "ma_current a' = Some b"
          by (auto simp: Let_def split: sum.splits)
        show ?thesis by (rule next_bar [OF Some b(1) _ b(2,3)]) auto
      next
        case 3
        with step True rm a1 s Some show ?thesis by (intro merged [OF Some]) auto
      qed
    qed
  qed
qed

lemma process_tick_ok:
  assumes "process_tick digest text_of t a = (Inr r, a')" "aggregator_ok a" "check_tick t = Inr t"
  shows "aggregator_ok a' \<and> list_all bar_ok (ar_bars r)"
  using assms(1)
proof (cases rule: process_tick_cases)
  case skipped
  then show ?thesis using assms(2) by (simp add: aggregator_ok_def)
next
  case first
  then show ?thesis using new_bar_ok assms(3) by (simp add: aggregator_ok_def)
next
  case (next_bar c b target cursor gaps)
  have c: "bar_ok c" using assms(2) next_bar by (simp add: aggregator_ok_def)
  have "bar_ok x" if "x \<in> set gaps" for x
  proof -
    have "bar_ok (c\<lparr>kb_status := ClosedBar\<rparr>)" using c by simp
    then have "x \<in> set (gap_bars text_of (ma_calendar a) (c\<lparr>kb_status := ClosedBar\<rparr>) target cursor) \<Longrightarrow> bar_ok x"
      by (rule gap_bars_ok)
    with next_bar(3) that show ?thesis by auto
  qed
  with next_bar c show ?thesis using new_bar_ok assms(3) by (auto simp: aggregator_ok_def list_all_iff)
next
  case merged
  then show ?thesis using assms(2,3) by (simp add: aggregator_ok_def merge_tick_ok)
qed

section \<open>No volume is lost\<close>

text \<open>Every accepted tick's volume is in the open bar or in exactly one closed bar handed out.\<close>

definition closed_volume :: "kbar list \<Rightarrow> int" where
  "closed_volume bs = sum_list (map kb_volume (filter (\<lambda>b. kb_status b = ClosedBar) bs))"

definition open_volume :: "aggregator \<Rightarrow> int" where
  "open_volume a = (case ma_current a of None \<Rightarrow> 0 | Some b \<Rightarrow> kb_volume b)"

lemma gap_bars_volume: "closed_volume (gap_bars text_of cal b target c) = 0"
proof (induction text_of cal b target c rule: gap_bars.induct)
  case (1 text_of cal b target c)
  then show ?case
    by (subst gap_bars.simps) (auto simp: closed_volume_def gap_bar_def split: sum.splits)
qed

lemma merge_tick_volume [simp]:
  "kb_volume (merge_tick t b) = kb_volume b + tk_volume t" "kb_status (merge_tick t b) = kb_status b"
  by (simp_all add: merge_tick_def Let_def)

lemma new_bar_fields:
  "new_bar text_of cal t = Inr b \<Longrightarrow> kb_volume b = tk_volume t \<and> kb_status b = Forming \<and> kb_contract b = tk_contract t
     \<and> kb_time b = minute_floor (tk_exchange_time t)"
  by (auto simp: new_bar_def split: sum.splits prod.splits)

definition current_forming :: "aggregator \<Rightarrow> bool" where
  "current_forming a \<longleftrightarrow> (\<forall>b. ma_current a = Some b \<longrightarrow> kb_status b = Forming)"

lemma process_tick_volume:
  assumes "process_tick digest text_of t a = (Inr r, a')" "current_forming a"
  shows "current_forming a' \<and> open_volume a' + closed_volume (ar_bars r)
     = open_volume a + (if ar_duplicate r \<or> ar_late r then 0 else tk_volume t)"
  using assms(1)
proof (cases rule: process_tick_cases)
  case skipped
  then show ?thesis using assms(2) by (simp add: current_forming_def open_volume_def closed_volume_def)
next
  case (first b)
  then show ?thesis using new_bar_fields [of text_of "ma_calendar a" t b]
    by (simp add: current_forming_def open_volume_def closed_volume_def)
next
  case (next_bar c b target cursor gaps)
  have "closed_volume gaps = 0"
    using next_bar(3) gap_bars_volume [of text_of "ma_calendar a"] by (auto simp: closed_volume_def)
  then show ?thesis using next_bar new_bar_fields [of text_of "ma_calendar a" t b]
    by (simp add: current_forming_def open_volume_def closed_volume_def)
next
  case (merged c)
  then show ?thesis using assms(2) by (simp add: current_forming_def open_volume_def closed_volume_def)
qed

text \<open>Over a run of ticks.\<close>

fun process_ticks :: "(tick \<Rightarrow> string) \<Rightarrow> (instant \<Rightarrow> string) \<Rightarrow> tick list \<Rightarrow> aggregator \<Rightarrow> (kbar list \<times> int) \<times> aggregator" where
  "process_ticks digest text_of [] a = (([], 0), a)"
| "process_ticks digest text_of (t # ts) a = (case process_tick digest text_of t a of
     (Inl _, a1) \<Rightarrow> process_ticks digest text_of ts a1
   | (Inr r, a1) \<Rightarrow> (case process_ticks digest text_of ts a1 of ((bs, v), a2) \<Rightarrow>
       ((ar_bars r @ bs, (if ar_duplicate r \<or> ar_late r then 0 else tk_volume t) + v), a2)))"

lemma process_tick_error: "process_tick digest text_of t a = (Inl e, a') \<Longrightarrow> ma_current a' = ma_current a"
  by (auto simp: process_tick_def Let_def split: if_splits sum.splits option.splits prod.splits dest: remember_fields)

lemma minute_bars_conserve_volume:
  "process_ticks digest text_of ts a = ((bs, v), a') \<Longrightarrow> current_forming a \<Longrightarrow>
     open_volume a' + closed_volume bs = open_volume a + v"
proof (induction ts arbitrary: a bs v a')
  case (Cons t ts)
  obtain x a1 where p: "process_tick digest text_of t a = (x, a1)" by (cases "process_tick digest text_of t a") blast
  obtain bs1 v1 a2 where q: "process_ticks digest text_of ts a1 = ((bs1, v1), a2)"
    by (cases "process_ticks digest text_of ts a1") (metis surj_pair)
  show ?case
  proof (cases x)
    case (Inl e)
    have "current_forming a1" "open_volume a1 = open_volume a"
      using process_tick_error [OF p [unfolded Inl]] Cons.prems(2) by (simp_all add: current_forming_def open_volume_def)
    with Cons.IH [of a1] Cons.prems(1) p Inl show ?thesis by simp
  next
    case (Inr r)
    have s: "current_forming a1" "open_volume a1 + closed_volume (ar_bars r)
        = open_volume a + (if ar_duplicate r \<or> ar_late r then 0 else tk_volume t)"
      using process_tick_volume [OF p [unfolded Inr] Cons.prems(2)] by blast+
    have "closed_volume (ar_bars r @ bs1) = closed_volume (ar_bars r) + closed_volume bs1"
      by (simp add: closed_volume_def)
    with Cons.IH [OF q s(1)] s(2) Cons.prems(1) p q Inr show ?thesis by simp
  qed
qed (simp add: closed_volume_def)

text \<open>Aggregation to a longer time frame keeps the volume.\<close>

lemma sorted_volume: "sum_list (map kb_volume (sort_key kb_time bs)) = sum_list (map kb_volume bs)"
proof -
  have "mset (map kb_volume (sort_key kb_time bs)) = mset (map kb_volume bs)"
    by (simp only: mset_map mset_sort)
  then show ?thesis by (metis sum_mset_sum_list)
qed

lemma aggregate_group_volume: "aggregate_group f bs = Some b \<Longrightarrow> kb_volume b = sum_list (map kb_volume bs)"
proof -
  show "aggregate_group f bs = Some b \<Longrightarrow> ?thesis"
    using sorted_volume [of bs] by (auto simp: aggregate_group_def Let_def split: list.splits)
qed

lemma aggregate_group_None: "aggregate_group f bs = None \<longleftrightarrow> bs = []"
  by (auto simp: aggregate_group_def Let_def split: list.splits)
    (metis length_0_conv length_sort)

definition groups_volume :: "(bucket \<times> kbar list) list \<Rightarrow> int" where
  "groups_volume d = sum_list (map (\<lambda>g. sum_list (map kb_volume (snd g))) d)"

lemma groups_volume_dict_put: "groups_volume (dict_put k g d) = groups_volume d + sum_list (map kb_volume g)
    - (case map_of d k of None \<Rightarrow> 0 | Some g0 \<Rightarrow> sum_list (map kb_volume g0))"
  by (induction d) (auto simp: groups_volume_def)

lemma groups_volume_put: "groups_volume (group_put f b d) = groups_volume d + kb_volume b"
  by (simp add: group_put_def Let_def groups_volume_dict_put split: option.split)

lemma group_bars_volume:
  "groups_volume (foldl (\<lambda>d b. group_put f b d) d bs) = groups_volume d + sum_list (map kb_volume bs)"
  by (induction bs arbitrary: d) (simp_all add: groups_volume_put)

lemma aggregate_bars_volume: "sum_list (map kb_volume (aggregate_bars f bs)) = sum_list (map kb_volume bs)"
proof -
  have "sum_list (map kb_volume (List.map_filter (\<lambda>g. aggregate_group f (snd g)) d)) = groups_volume d" for d
    by (induction d) (auto simp: groups_volume_def List.map_filter_simps aggregate_group_volume aggregate_group_None
        split: option.splits)
  then show ?thesis
    using sorted_volume [of bs] group_bars_volume [of f "[]" "sort_key kb_time bs"]
    by (simp add: aggregate_bars_def group_bars_def groups_volume_def Let_def)
qed

end
