(* ===== verification/Bar_Series.thy ===== *)
theory Bar_Series
  imports Market_Bars
begin

text \<open>
  The column arithmetic the strategies use, over lists: one entry per bar, \<open>None\<close> for a missing
  value (pandas' NaN), comparison with a missing value false.

  The windowed aggregates are the library's (\<open>rolling\<close>, \<open>ewm\<close>): they are fields of a record
  \<open>pandas\<close>, and \<open>pandas_causal\<close> states what the strategies rely on, that the value at a row is
  computed from the rows up to it, with a value for every row of a mean.  A column operation is \<open>causal\<close> when cutting the bars short
  cuts its result short, which is how every strategy stays free of look-ahead.
\<close>

type_synonym series = "rat option list"

record pandas =
  pd_rolling_mean :: "int \<Rightarrow> int \<Rightarrow> series \<Rightarrow> series"
  pd_rolling_max :: "int \<Rightarrow> series \<Rightarrow> series"
  pd_rolling_min :: "int \<Rightarrow> series \<Rightarrow> series"
  pd_rolling_std :: "int \<Rightarrow> series \<Rightarrow> series"
  pd_ewm_mean :: "int \<Rightarrow> series \<Rightarrow> series"

section \<open>Column operations\<close>

definition lift1 :: "(rat \<Rightarrow> rat) \<Rightarrow> series \<Rightarrow> series" where
  "lift1 f = map (map_option f)"

definition lift2 :: "(rat \<Rightarrow> rat \<Rightarrow> rat) \<Rightarrow> series \<Rightarrow> series \<Rightarrow> series" where
  "lift2 f xs ys = map2 (\<lambda>a b. case (a, b) of (Some x, Some y) \<Rightarrow> Some (f x y) | _ \<Rightarrow> None) xs ys"

definition holds1 :: "(rat \<Rightarrow> bool) \<Rightarrow> series \<Rightarrow> bool list" where
  "holds1 p = map (\<lambda>a. case a of Some x \<Rightarrow> p x | None \<Rightarrow> False)"

definition holds2 :: "(rat \<Rightarrow> rat \<Rightarrow> bool) \<Rightarrow> series \<Rightarrow> series \<Rightarrow> bool list" where
  "holds2 p xs ys = map2 (\<lambda>a b. case (a, b) of (Some x, Some y) \<Rightarrow> p x y | _ \<Rightarrow> False) xs ys"

definition both :: "bool list \<Rightarrow> bool list \<Rightarrow> bool list" where
  "both = map2 (\<and>)"

definition shift1 :: "'a \<Rightarrow> 'a list \<Rightarrow> 'a list" where
  "shift1 d xs = take (length xs) (d # xs)"

abbreviation previous :: "series \<Rightarrow> series" where
  "previous \<equiv> shift1 None"

definition drop_zero :: "series \<Rightarrow> series" where
  "drop_zero = map (\<lambda>a. if a = Some 0 then None else a)"

fun cumsum_from :: "rat \<Rightarrow> series \<Rightarrow> series" where
  "cumsum_from c [] = []"
| "cumsum_from c (None # xs) = None # cumsum_from c xs"
| "cumsum_from c (Some x # xs) = Some (c + x) # cumsum_from (c + x) xs"

abbreviation cumsum :: "series \<Rightarrow> series" where
  "cumsum \<equiv> cumsum_from 0"

definition minus_series :: "series \<Rightarrow> series \<Rightarrow> series" where
  "minus_series = lift2 (-)"

definition abs_series :: "series \<Rightarrow> series" where
  "abs_series = lift1 abs"

text \<open>The row-wise maximum of three columns skips missing values.\<close>

definition max_option :: "rat option \<Rightarrow> rat option \<Rightarrow> rat option" where
  "max_option a b = (case (a, b) of (Some x, Some y) \<Rightarrow> Some (max x y) | (None, y) \<Rightarrow> y | (x, None) \<Rightarrow> x)"

definition row_max :: "series \<Rightarrow> series \<Rightarrow> series \<Rightarrow> series" where
  "row_max xs ys zs = map2 max_option (map2 max_option xs ys) zs"

definition column :: "(kbar \<Rightarrow> rat) \<Rightarrow> kbar list \<Rightarrow> series" where
  "column f = map (\<lambda>b. Some (f b))"

text \<open>\<open>entries.loc[up] = 1\<close>, then \<open>entries.loc[down] = -1\<close>.\<close>

definition entry_marks :: "bool list \<Rightarrow> bool list \<Rightarrow> int list" where
  "entry_marks up down = map2 (\<lambda>u d. if d then -1 else if u then 1 else 0) up down"

section \<open>Causal operations\<close>

definition causal :: "('a list \<Rightarrow> 'b list) \<Rightarrow> bool" where
  "causal f \<longleftrightarrow> (\<forall>n xs. f (take n xs) = take n (f xs))"

named_theorems causal_intros "closure of causal operations"

lemma causalD: "causal f \<Longrightarrow> f (take n xs) = take n (f xs)"
  by (simp add: causal_def)

lemma causal_id [causal_intros]: "causal (\<lambda>xs. xs)"
  by (simp add: causal_def)

lemma causal_map [causal_intros]: "causal f \<Longrightarrow> causal (\<lambda>xs. map g (f xs))"
  by (simp add: causal_def take_map)

lemma causal_map2 [causal_intros]: "causal f \<Longrightarrow> causal g \<Longrightarrow> causal (\<lambda>xs. map2 h (f xs) (g xs))"
  by (simp add: causal_def take_map take_zip)

lemma causal_zip [causal_intros]: "causal f \<Longrightarrow> causal g \<Longrightarrow> causal (\<lambda>xs. zip (f xs) (g xs))"
  by (simp add: causal_def take_zip)

lemma causal_comp: "causal g \<Longrightarrow> causal f \<Longrightarrow> causal (\<lambda>xs. g (f xs))"
  by (simp add: causal_def)

lemma shift1_take: "shift1 d (take n xs) = take n (shift1 d xs)"
  by (rule nth_equalityI) (auto simp: shift1_def nth_Cons split: nat.split)

lemma causal_shift1 [causal_intros]: "causal f \<Longrightarrow> causal (\<lambda>xs. shift1 d (f xs))"
  by (simp add: causal_def shift1_take)

lemma cumsum_take: "cumsum_from c (take n xs) = take n (cumsum_from c xs)"
  by (induction c xs arbitrary: n rule: cumsum_from.induct) (simp_all add: take_Cons')

lemma causal_cumsum [causal_intros]: "causal f \<Longrightarrow> causal (\<lambda>xs. cumsum_from c (f xs))"
  by (simp add: causal_def cumsum_take)

lemma causal_lift1 [causal_intros]: "causal f \<Longrightarrow> causal (\<lambda>xs. lift1 g (f xs))"
  unfolding lift1_def by (rule causal_map)

lemma causal_lift2 [causal_intros]: "causal f \<Longrightarrow> causal g \<Longrightarrow> causal (\<lambda>xs. lift2 h (f xs) (g xs))"
  unfolding lift2_def by (rule causal_map2)

lemma causal_holds1 [causal_intros]: "causal f \<Longrightarrow> causal (\<lambda>xs. holds1 p (f xs))"
  unfolding holds1_def by (rule causal_map)

lemma causal_holds2 [causal_intros]: "causal f \<Longrightarrow> causal g \<Longrightarrow> causal (\<lambda>xs. holds2 p (f xs) (g xs))"
  unfolding holds2_def by (rule causal_map2)

lemma causal_both [causal_intros]: "causal f \<Longrightarrow> causal g \<Longrightarrow> causal (\<lambda>xs. both (f xs) (g xs))"
  unfolding both_def by (rule causal_map2)

lemma causal_drop_zero [causal_intros]: "causal f \<Longrightarrow> causal (\<lambda>xs. drop_zero (f xs))"
  unfolding drop_zero_def by (rule causal_map)

lemma causal_minus [causal_intros]: "causal f \<Longrightarrow> causal g \<Longrightarrow> causal (\<lambda>xs. minus_series (f xs) (g xs))"
  unfolding minus_series_def by (rule causal_lift2)

lemma causal_abs [causal_intros]: "causal f \<Longrightarrow> causal (\<lambda>xs. abs_series (f xs))"
  unfolding abs_series_def by (rule causal_lift1)

lemma causal_row_max [causal_intros]:
  "causal f \<Longrightarrow> causal g \<Longrightarrow> causal h \<Longrightarrow> causal (\<lambda>xs. row_max (f xs) (g xs) (h xs))"
  unfolding row_max_def by (intro causal_map2)

lemma causal_column [causal_intros]: "causal f \<Longrightarrow> causal (\<lambda>xs. column g (f xs))"
  unfolding column_def by (rule causal_map)

lemma causal_entry_marks [causal_intros]:
  "causal f \<Longrightarrow> causal g \<Longrightarrow> causal (\<lambda>xs. entry_marks (f xs) (g xs))"
  unfolding entry_marks_def by (rule causal_map2)

text \<open>What is relied on of the library.\<close>

definition pandas_causal :: "pandas \<Rightarrow> bool" where
  "pandas_causal p \<longleftrightarrow> (\<forall>w m. causal (pd_rolling_mean p w m)) \<and> (\<forall>w. causal (pd_rolling_max p w))
     \<and> (\<forall>w. causal (pd_rolling_min p w)) \<and> (\<forall>w. causal (pd_rolling_std p w)) \<and> (\<forall>w. causal (pd_ewm_mean p w))
     \<and> (\<forall>w m xs. length (pd_rolling_mean p w m xs) = length xs)"

lemma pandas_causalD:
  assumes "pandas_causal p" "causal f"
  shows "causal (\<lambda>xs. pd_rolling_mean p w m (f xs))" "causal (\<lambda>xs. pd_rolling_max p w (f xs))"
    "causal (\<lambda>xs. pd_rolling_min p w (f xs))" "causal (\<lambda>xs. pd_rolling_std p w (f xs))"
    "causal (\<lambda>xs. pd_ewm_mean p w (f xs))"
  using assms by (auto simp: pandas_causal_def intro: causal_comp)

lemma causal_const [causal_intros]: "causal (\<lambda>xs. map (\<lambda>_. c) xs)"
  by (simp add: causal_def take_map)

text \<open>An instance of the library for evaluation: windows without their statistics other than
  maximum, minimum and mean.\<close>

definition window_at :: "int \<Rightarrow> series \<Rightarrow> nat \<Rightarrow> series" where
  "window_at w xs i = drop (i + 1 - nat w) (take (i + 1) xs)"

definition rolling :: "(rat list \<Rightarrow> rat) \<Rightarrow> int \<Rightarrow> int \<Rightarrow> series \<Rightarrow> series" where
  "rolling f w m xs = map (\<lambda>i. let known = List.map_filter id (window_at w xs i) in
     if int (length known) < max 1 m then None else Some (f known)) [0..<length xs]"

definition mean :: "rat list \<Rightarrow> rat" where
  "mean xs = sum_list xs / of_nat (length xs)"

definition sample_pandas :: pandas where
  "sample_pandas = \<lparr> pd_rolling_mean = rolling mean, pd_rolling_max = (\<lambda>w. rolling (\<lambda>xs. foldl max (hd xs) xs) w w),
     pd_rolling_min = (\<lambda>w. rolling (\<lambda>xs. foldl min (hd xs) xs) w w),
     pd_rolling_std = (\<lambda>w. rolling (\<lambda>xs. \<bar>hd xs - last xs\<bar>) w w), pd_ewm_mean = (\<lambda>w. rolling mean w w) \<rparr>"

lemma rolling_take: "rolling f w m (take n xs) = take n (rolling f w m xs)"
proof (rule nth_equalityI)
  fix i assume "i < length (rolling f w m (take n xs))"
  then have i: "i < n" "i < length xs" by (simp_all add: rolling_def)
  then have "window_at w (take n xs) i = window_at w xs i" by (simp add: window_at_def min_def)
  with i show "rolling f w m (take n xs) ! i = take n (rolling f w m xs) ! i" by (simp add: rolling_def)
qed (simp add: rolling_def)

lemma sample_pandas_causal: "pandas_causal sample_pandas"
  by (simp add: pandas_causal_def sample_pandas_def causal_def rolling_take) (simp add: rolling_def)

end
