(* ===== verification/Dow_Channel.thy ===== *)
theory Dow_Channel
  imports Bar_Series
begin

text \<open>
  Dow-theory channels (\<open>strategy/linear_channel.py\<close>): swing points confirmed by the bars after
  them, a channel through the last two lows or highs, locked until enough closes lie outside it, and
  the three entry policies over it.

  The loop of \<open>detect_linear_channels\<close> is a fold of \<open>detect_step\<close> over the row numbers; its output,
  a data frame in the source, is a list with one row per bar, without channel or with the channel's
  levels there.  The overlay drawn from it is left out.
\<close>

section \<open>Pivots and channels\<close>

datatype pivot_kind = HighPivot | LowPivot
datatype channel_direction = UpChannel | DownChannel
datatype entry_mode = Pullback | ReversalMode | Momentum

record pivot =
  pv_index :: nat
  pv_price :: price
  pv_kind :: pivot_kind
  pv_confirmed :: nat

record channel =
  ch_direction :: channel_direction
  ch_first :: pivot
  ch_second :: pivot
  ch_slope :: rat
  ch_offset :: rat
  ch_confirmed :: nat

text \<open>Upper, centre and lower level at a row.\<close>

definition channel_levels :: "channel \<Rightarrow> nat \<Rightarrow> price \<times> price \<times> price" where
  "channel_levels c i =
     (let anchor = pv_price (ch_second c) + ch_slope c * (of_nat i - of_nat (pv_index (ch_second c)));
          (upper, lower) = (if ch_direction c = UpChannel then (anchor + ch_offset c, anchor) else (anchor, anchor - ch_offset c)) in
      (upper, (upper + lower) / 2, lower))"

definition true_range :: "kbar list \<Rightarrow> series" where
  "true_range bs = (let pc = previous (column kb_close bs) in
     row_max (minus_series (column kb_high bs) (column kb_low bs))
       (abs_series (minus_series (column kb_high bs) pc)) (abs_series (minus_series (column kb_low bs) pc)))"

definition atr_series :: "pandas \<Rightarrow> int \<Rightarrow> kbar list \<Rightarrow> series" where
  "atr_series p period bs = pd_rolling_mean p period period (true_range bs)"

record channel_config =
  cc_atr_period :: int
  cc_reversal_atr :: rat
  cc_confirmation :: nat
  cc_minimum_distance :: nat
  cc_minimum_bars :: nat
  cc_invalidation :: nat

definition confirmed_pivot :: "channel_config \<Rightarrow> kbar list \<Rightarrow> series \<Rightarrow> nat \<Rightarrow> pivot option \<Rightarrow> pivot option" where
  "confirmed_pivot c bs atr current lastp =
     (let confirm = cc_confirmation c; candidate = current - confirm in
      if current < confirm \<or> candidate < confirm then None
      else (case atr ! candidate of None \<Rightarrow> None | Some a \<Rightarrow>
        let sample = take (current + 1 - (candidate - confirm)) (drop (candidate - confirm) bs);
            b = bs ! candidate in
        if \<not> list_all (\<lambda>x. kb_status x = ClosedBar) sample then None
        else let is_high = list_all (\<lambda>x. kb_high x \<le> kb_high b) sample;
                 is_low = list_all (\<lambda>x. kb_low b \<le> kb_low x) sample;
                 threshold = a * cc_reversal_atr c;
                 choices = (if is_high then [\<lparr> pv_index = candidate, pv_price = kb_high b, pv_kind = HighPivot, pv_confirmed = current \<rparr>] else [])
                   @ (if is_low then [\<lparr> pv_index = candidate, pv_price = kb_low b, pv_kind = LowPivot, pv_confirmed = current \<rparr>] else []) in
          if choices = [] then None
          else (case lastp of
              None \<Rightarrow> Some (hd choices)
            | Some l \<Rightarrow>
                if int candidate - int (pv_index l) < int (cc_minimum_distance c) then None
                else (case filter (\<lambda>p. pv_kind p \<noteq> pv_kind l) choices of
                    [] \<Rightarrow> None
                  | p # _ \<Rightarrow> if \<bar>pv_price p - pv_price l\<bar> < threshold then None else Some p))))"

definition pivots_of :: "pivot_kind \<Rightarrow> pivot list \<Rightarrow> pivot list" where
  "pivots_of k ps = filter (\<lambda>p. pv_kind p = k) ps"

text \<open>The two pivots a channel is anchored at, if the last two highs and lows agree on a trend.\<close>

definition channel_anchors :: "pivot list \<Rightarrow> (channel_direction \<times> pivot \<times> pivot) option" where
  "channel_anchors ps = (case (rev (pivots_of HighPivot ps), rev (pivots_of LowPivot ps)) of
      (high2 # high1 # _, low2 # low1 # _) \<Rightarrow>
        if pv_price low1 < pv_price low2 \<and> pv_price high1 < pv_price high2 then Some (UpChannel, low1, low2)
        else if pv_price high2 < pv_price high1 \<and> pv_price low2 < pv_price low1 then Some (DownChannel, high1, high2)
        else None
    | _ \<Rightarrow> None)"

definition build_channel :: "nat \<Rightarrow> pivot list \<Rightarrow> nat \<Rightarrow> channel option" where
  "build_channel minimum ps current = (case channel_anchors ps of
       None \<Rightarrow> None
     | Some (d, a, b) \<Rightarrow>
         if int (pv_index b) - int (pv_index a) < int minimum then None
         else let slope = (pv_price b - pv_price a) / (of_nat (pv_index b) - of_nat (pv_index a));
                  opposite = pivots_of (if d = UpChannel then HighPivot else LowPivot) ps;
                  candidates = filter (\<lambda>p. pv_index a \<le> pv_index p \<and> pv_index p \<le> current) opposite;
                  residual = (\<lambda>p. pv_price p - (pv_price b + slope * (of_nat (pv_index p) - of_nat (pv_index b)))) in
              (case candidates of
                 [] \<Rightarrow> None
               | p # ps' \<Rightarrow>
                   let offset = (if d = UpChannel then max_of residual p ps' else \<bar>min_of residual p ps'\<bar>) in
                   if offset \<le> 0 then None
                   else Some \<lparr> ch_direction = d, ch_first = a, ch_second = b, ch_slope = slope, ch_offset = offset,
                               ch_confirmed = current \<rparr>))"

section \<open>Detection\<close>

record channel_row =
  cr_channel :: "channel option"
  cr_levels :: "price \<times> price \<times> price"
  cr_atr :: "rat option"
  cr_invalidated :: bool

definition empty_row :: channel_row where
  "empty_row = \<lparr> cr_channel = None, cr_levels = (0, 0, 0), cr_atr = None, cr_invalidated = False \<rparr>"

record detection =
  dt_pivots :: "pivot list"
  dt_active :: "channel option"
  dt_blocked :: "(channel_direction \<times> nat \<times> nat) option"
  dt_invalid :: nat
  dt_rows :: "channel_row list"

definition new_detection :: detection where
  "new_detection = \<lparr> dt_pivots = [], dt_active = None, dt_blocked = None, dt_invalid = 0, dt_rows = [] \<rparr>"

definition signature :: "channel \<Rightarrow> channel_direction \<times> nat \<times> nat" where
  "signature c = (ch_direction c, pv_index (ch_first c), pv_index (ch_second c))"

definition note_pivot :: "channel_config \<Rightarrow> kbar list \<Rightarrow> series \<Rightarrow> nat \<Rightarrow> detection \<Rightarrow> detection" where
  "note_pivot c bs atr current s =
     (if kb_status (bs ! current) \<noteq> ClosedBar then s
      else (case confirmed_pivot c bs atr current (if dt_pivots s = [] then None else Some (last (dt_pivots s))) of
          None \<Rightarrow> s
        | Some p \<Rightarrow> s\<lparr>dt_pivots := dt_pivots s @ [p]\<rparr>))"

definition open_channel :: "channel_config \<Rightarrow> nat \<Rightarrow> detection \<Rightarrow> detection" where
  "open_channel c current s =
     (if dt_active s \<noteq> None then s
      else (case build_channel (cc_minimum_bars c) (dt_pivots s) current of
          None \<Rightarrow> s
        | Some ch \<Rightarrow> if Some (signature ch) = dt_blocked s then s else s\<lparr>dt_active := Some ch\<rparr>))"

definition outside_channel :: "channel \<Rightarrow> nat \<Rightarrow> kbar \<Rightarrow> bool" where
  "outside_channel ch i b = (let (upper, centre, lower) = channel_levels ch i in
     if ch_direction ch = UpChannel then kb_close b < lower else upper < kb_close b)"

definition write_row :: "channel_config \<Rightarrow> kbar list \<Rightarrow> series \<Rightarrow> nat \<Rightarrow> detection \<Rightarrow> detection" where
  "write_row c bs atr current s = (case dt_active s of
       None \<Rightarrow> s\<lparr>dt_rows := dt_rows s @ [empty_row]\<rparr>
     | Some ch \<Rightarrow>
         let b = bs ! current;
             row = \<lparr> cr_channel = Some ch, cr_levels = channel_levels ch current, cr_atr = atr ! current, cr_invalidated = False \<rparr> in
         if kb_status b \<noteq> ClosedBar then s\<lparr>dt_rows := dt_rows s @ [row]\<rparr>
         else let n = (if outside_channel ch current b then dt_invalid s + 1 else 0) in
           if cc_invalidation c \<le> n
           then s\<lparr>dt_rows := dt_rows s @ [row\<lparr>cr_invalidated := True\<rparr>], dt_blocked := Some (signature ch),
                  dt_active := None, dt_invalid := 0\<rparr>
           else s\<lparr>dt_rows := dt_rows s @ [row], dt_invalid := n\<rparr>)"

definition detect_step :: "channel_config \<Rightarrow> kbar list \<Rightarrow> series \<Rightarrow> detection \<Rightarrow> nat \<Rightarrow> detection" where
  "detect_step c bs atr s current = write_row c bs atr current (open_channel c current (note_pivot c bs atr current s))"

definition detect_linear_channels :: "pandas \<Rightarrow> channel_config \<Rightarrow> kbar list \<Rightarrow> channel_row list" where
  "detect_linear_channels p c bs =
     dt_rows (foldl (detect_step c bs (atr_series p (cc_atr_period c) bs)) new_detection [0..<length bs])"

section \<open>Entries and exits\<close>

definition row_level :: "(price \<times> price \<times> price \<Rightarrow> price) \<Rightarrow> channel_row list \<Rightarrow> series" where
  "row_level f = map (\<lambda>r. map_option (\<lambda>_. f (cr_levels r)) (cr_channel r))"

abbreviation upper_level :: "channel_row list \<Rightarrow> series" where
  "upper_level \<equiv> row_level fst"

abbreviation lower_level :: "channel_row list \<Rightarrow> series" where
  "lower_level \<equiv> row_level (\<lambda>l. snd (snd l))"

definition row_slope :: "channel_row list \<Rightarrow> series" where
  "row_slope = map (\<lambda>r. map_option ch_slope (cr_channel r))"

definition row_atr :: "channel_row list \<Rightarrow> series" where
  "row_atr = map cr_atr"

definition in_direction :: "channel_direction \<Rightarrow> channel_row list \<Rightarrow> bool list" where
  "in_direction d = map (\<lambda>r. case cr_channel r of Some c \<Rightarrow> ch_direction c = d | None \<Rightarrow> False)"

definition has_channel :: "channel_row list \<Rightarrow> bool list" where
  "has_channel = map (\<lambda>r. cr_channel r \<noteq> None)"

definition closed_rows :: "kbar list \<Rightarrow> bool list" where
  "closed_rows = map (\<lambda>b. kb_status b = ClosedBar)"

definition between :: "series \<Rightarrow> series \<Rightarrow> series \<Rightarrow> bool list" where
  "between xs ls us = both (holds2 (\<le>) ls xs) (holds2 (\<le>) xs us)"

definition channel_entries :: "entry_mode \<Rightarrow> rat \<Rightarrow> kbar list \<Rightarrow> channel_row list \<Rightarrow> int list" where
  "channel_entries mode tolerance bs rows =
     (let close = column kb_close bs; up = in_direction UpChannel rows; down = in_direction DownChannel rows;
          upper = upper_level rows; lower = lower_level rows in
      case mode of
        Pullback \<Rightarrow>
          let tol = lift1 (\<lambda>x. x * tolerance) (row_atr rows); base = both (closed_rows bs) (has_channel rows) in
          entry_marks
            (both (both base up) (both (between (column kb_low bs) (minus_series lower tol) (lift2 (+) lower tol)) (holds2 (\<ge>) close lower)))
            (both (both base down) (both (between (column kb_high bs) (minus_series upper tol) (lift2 (+) upper tol)) (holds2 (\<le>) close upper)))
      | Momentum \<Rightarrow>
          let pc = previous close; base = both (both (closed_rows bs) (shift1 False (closed_rows bs))) (has_channel rows);
              pu = minus_series upper (row_slope rows); pl = minus_series lower (row_slope rows) in
          entry_marks (both (both base up) (both (holds2 (\<le>) pc pu) (holds2 (>) close upper)))
            (both (both base down) (both (holds2 (\<ge>) pc pl) (holds2 (<) close lower)))
      | ReversalMode \<Rightarrow>
          let pc = previous close; base = both (both (closed_rows bs) (shift1 False (closed_rows bs))) (has_channel rows);
              pu = minus_series upper (row_slope rows); pl = minus_series lower (row_slope rows) in
          entry_marks (both (both base down) (both (holds2 (\<le>) pc pu) (holds2 (>) close upper)))
            (both (both base up) (both (holds2 (\<ge>) pc pl) (holds2 (<) close lower))))"

definition channel_exits :: "kbar list \<Rightarrow> channel_row list \<Rightarrow> (bool \<times> bool) list" where
  "channel_exits bs rows = (let inv = both (closed_rows bs) (map cr_invalidated rows) in
     zip (both inv (in_direction UpChannel rows)) (both inv (in_direction DownChannel rows)))"

definition dow_channel_signals :: "entry_mode \<Rightarrow> rat \<Rightarrow> kbar list \<Rightarrow> channel_row list
    \<Rightarrow> int list \<times> (bool \<times> bool) list option" where
  "dow_channel_signals mode tolerance bs rows =
     (channel_entries mode tolerance bs rows, if mode = ReversalMode then None else Some (channel_exits bs rows))"

section \<open>No look-ahead\<close>

lemma causal_atr: "pandas_causal p \<Longrightarrow> causal (atr_series p period)"
  unfolding atr_series_def true_range_def Let_def by (intro pandas_causalD causal_intros)

text \<open>A step reads the bars up to its own row only.\<close>

lemma confirmed_pivot_take:
  assumes "current < n"
  shows "confirmed_pivot c (take n bs) (take n atr) current l = confirmed_pivot c bs atr current l"
proof -
  have s: "take (current + 1 - (current - cc_confirmation c - cc_confirmation c))
        (drop (current - cc_confirmation c - cc_confirmation c) (take n bs))
      = take (current + 1 - (current - cc_confirmation c - cc_confirmation c))
        (drop (current - cc_confirmation c - cc_confirmation c) bs)"
    using assms by (simp add: drop_take min_def)
  have e: "take n bs ! (current - cc_confirmation c) = bs ! (current - cc_confirmation c)"
    "take n atr ! (current - cc_confirmation c) = atr ! (current - cc_confirmation c)" using assms by simp_all
  show ?thesis unfolding confirmed_pivot_def Let_def s e ..
qed

lemma note_pivot_take: "current < n \<Longrightarrow> note_pivot c (take n bs) (take n atr) current s = note_pivot c bs atr current s"
  by (simp add: note_pivot_def confirmed_pivot_take)

lemma write_row_take: "current < n \<Longrightarrow> write_row c (take n bs) (take n atr) current s = write_row c bs atr current s"
  by (cases "dt_active s") (simp_all add: write_row_def)

lemma detect_step_take:
  assumes "current < n"
  shows "detect_step c (take n bs) (take n atr) s current = detect_step c bs atr s current"
  using assms by (simp add: detect_step_def note_pivot_take write_row_take)

lemma detect_fold_take:
  "m \<le> n \<Longrightarrow> foldl (detect_step c (take n bs) (take n atr)) s [0..<m] = foldl (detect_step c bs atr) s [0..<m]"
  by (induction m) (simp_all add: detect_step_take)

lemma note_pivot_rows: "dt_rows (note_pivot c bs atr i s) = dt_rows s"
  by (simp add: note_pivot_def split: option.split)

lemma open_channel_rows: "dt_rows (open_channel c i s) = dt_rows s"
  by (simp add: open_channel_def split: option.split)

lemma write_row_rows: "\<exists>r. dt_rows (write_row c bs atr i t) = dt_rows t @ [r]"
  by (auto simp: write_row_def Let_def split: option.split)

lemma detect_step_row: "\<exists>r. dt_rows (detect_step c bs atr s i) = dt_rows s @ [r]"
  using write_row_rows [of c bs atr i "open_channel c i (note_pivot c bs atr i s)"]
  by (simp add: detect_step_def note_pivot_rows open_channel_rows)

lemma detect_rows_length:
  "length (dt_rows (foldl (detect_step c bs atr) s [0..<m])) = length (dt_rows s) + m"
proof (induction m)
  case (Suc m)
  show ?case using detect_step_row [of c bs atr "foldl (detect_step c bs atr) s [0..<m]" m] Suc by auto
qed simp

lemma detect_rows_take:
  "k \<le> m \<Longrightarrow> dt_rows (foldl (detect_step c bs atr) s [0..<k])
     = take (length (dt_rows s) + k) (dt_rows (foldl (detect_step c bs atr) s [0..<m]))"
proof (induction m)
  case (Suc m)
  obtain r where r: "dt_rows (detect_step c bs atr (foldl (detect_step c bs atr) s [0..<m]) m)
      = dt_rows (foldl (detect_step c bs atr) s [0..<m]) @ [r]"
    using detect_step_row by blast
  show ?case
  proof (cases "k = Suc m")
    case True
    then show ?thesis using detect_rows_length [of c bs atr s "Suc m"] by simp
  next
    case False
    with Suc r detect_rows_length [of c bs atr s m] show ?thesis by simp
  qed
qed simp

lemma length_channels: "length (detect_linear_channels p c bs) = length bs"
  by (simp add: detect_linear_channels_def detect_rows_length new_detection_def)

lemma causal_channels: "pandas_causal p \<Longrightarrow> causal (detect_linear_channels p c)"
proof -
  assume p: "pandas_causal p"
  have "detect_linear_channels p c (take n bs) = take n (detect_linear_channels p c bs)" for n bs
  proof (cases "n \<le> length bs")
    case True
    let ?atr = "atr_series p (cc_atr_period c) bs"
    have a: "atr_series p (cc_atr_period c) (take n bs) = take n ?atr" by (rule causalD [OF causal_atr [OF p]])
    have "detect_linear_channels p c (take n bs) = dt_rows (foldl (detect_step c bs ?atr) new_detection [0..<n])"
      unfolding detect_linear_channels_def a using True by (simp add: detect_fold_take)
    also have "\<dots> = take n (detect_linear_channels p c bs)"
      unfolding detect_linear_channels_def using detect_rows_take [OF True, of c bs ?atr new_detection]
      by (simp add: new_detection_def)
    finally show ?thesis .
  qed (simp add: length_channels)
  then show ?thesis by (simp add: causal_def)
qed

lemma causal_row [causal_intros]:
  assumes "causal f"
  shows "causal (\<lambda>xs. row_level g (f xs))" "causal (\<lambda>xs. row_slope (f xs))" "causal (\<lambda>xs. row_atr (f xs))"
    "causal (\<lambda>xs. in_direction d (f xs))" "causal (\<lambda>xs. has_channel (f xs))"
  unfolding row_level_def row_slope_def row_atr_def in_direction_def has_channel_def
  by (intro causal_map assms)+

lemma causal_closed [causal_intros]: "causal f \<Longrightarrow> causal (\<lambda>xs. closed_rows (f xs))"
  unfolding closed_rows_def by (rule causal_map)

lemma causal_between [causal_intros]:
  "causal f \<Longrightarrow> causal g \<Longrightarrow> causal h \<Longrightarrow> causal (\<lambda>xs. between (f xs) (g xs) (h xs))"
  unfolding between_def by (intro causal_both causal_holds2)

lemma causal_channel_entries:
  "causal f \<Longrightarrow> causal (\<lambda>bs. channel_entries mode tolerance bs (f bs))"
  by (cases mode) (simp_all add: channel_entries_def Let_def causal_intros)

lemma causal_channel_exits: "causal f \<Longrightarrow> causal (\<lambda>bs. channel_exits bs (f bs))"
  unfolding channel_exits_def Let_def by (intro causal_zip causal_intros)

section \<open>A channel is what it says\<close>

text \<open>A channel is built with positive width and a slope of the sign of its direction, through two
  pivots at least the minimum distance apart.\<close>

lemma channel_anchorsD:
  "channel_anchors ps = Some (d, a, b) \<Longrightarrow>
     a \<in> set ps \<and> b \<in> set ps \<and> (if d = UpChannel then pv_price a < pv_price b else pv_price b < pv_price a)"
proof -
  assume h: "channel_anchors ps = Some (d, a, b)"
  then obtain high2 high1 hs low2 low1 ls where
    r: "rev (pivots_of HighPivot ps) = high2 # high1 # hs" "rev (pivots_of LowPivot ps) = low2 # low1 # ls"
    by (auto simp: channel_anchors_def split: list.splits)
  have "set (rev (pivots_of HighPivot ps)) \<subseteq> set ps" "set (rev (pivots_of LowPivot ps)) \<subseteq> set ps"
    by (auto simp: pivots_of_def)
  with h r show ?thesis by (auto simp: channel_anchors_def split: if_splits)
qed

lemma build_channelD:
  assumes "build_channel minimum ps current = Some ch" "0 < minimum"
  shows "0 < ch_offset ch" "ch_confirmed ch = current"
    "int (pv_index (ch_first ch)) + int minimum \<le> int (pv_index (ch_second ch))"
    "if ch_direction ch = UpChannel then 0 < ch_slope ch else ch_slope ch < 0"
proof -
  obtain d a b where an: "channel_anchors ps = Some (d, a, b)"
    using assms(1) by (cases "channel_anchors ps") (auto simp: build_channel_def)
  have gap: "int (pv_index a) + int minimum \<le> int (pv_index b)" and
    ch: "ch_direction ch = d" "ch_first ch = a" "ch_second ch = b" "0 < ch_offset ch" "ch_confirmed ch = current"
      "ch_slope ch = (pv_price b - pv_price a) / (of_nat (pv_index b) - of_nat (pv_index a))"
    using assms(1) an by (auto simp: build_channel_def Let_def split: if_splits list.splits)
  have pos: "(0::rat) < of_nat (pv_index b) - of_nat (pv_index a)" using gap assms(2) by simp
  show "0 < ch_offset ch" "ch_confirmed ch = current" "int (pv_index (ch_first ch)) + int minimum \<le> int (pv_index (ch_second ch))"
    using ch gap by auto
  show "if ch_direction ch = UpChannel then 0 < ch_slope ch else ch_slope ch < 0"
    using channel_anchorsD [OF an] ch pos by (auto simp: divide_pos_pos divide_neg_pos)
qed

lemma channel_levels_order: "0 < ch_offset ch \<Longrightarrow> channel_levels ch i = (u, m, l) \<Longrightarrow>
    l < m \<and> m < u \<and> u - l = ch_offset ch"
  by (auto simp: channel_levels_def Let_def split: if_splits)

end
