(* ===== verification/Signal_Simulator.thy ===== *)
theory Signal_Simulator
  imports Bar_Series Paper_Ledger
begin

text \<open>
  Fills and risk exits of a strategy's intents (\<open>execution/simulator.py\<close>,
  \<open>execution/policy.py\<close>): an entry is filled at the open of the bar after the one that
  confirmed it, a strategy exit likewise, and the risk levels are checked inside each bar.

  The diagnostic context of a signal, which is only displayed, is left out.  A row of the loop is a
  bar with the entry and exit intents of its index.
\<close>

datatype signal_kind = SigEntry | SigExit

record sim_signal =
  ss_strategy :: string
  ss_event :: signal_kind
  ss_direction :: signal_direction
  ss_time :: instant
  ss_price :: price
  ss_stop_loss_price :: price
  ss_take_profit_price :: price
  ss_reason :: string
  ss_contract :: string
  ss_session :: bar_session
  ss_trading_date :: date
  ss_trigger_reason :: "string option"
  ss_trigger_time :: "instant option"

definition check_policy :: "string \<Rightarrow> string res" where
  "check_policy reason = first_error [(blank reason, ValueError ''strategy_exit_reason is required'')] reason"

definition round4 :: "rat \<Rightarrow> rat" where
  "round4 x = of_int (py_round (x * 10000)) / 10000"

text \<open>The bar, its entry intent, the reason of that intent, and its exit intents if the strategy has
  any: for a long and for a short position.\<close>

record sim_row =
  sr_bar :: kbar
  sr_entry :: int
  sr_reason :: "string option"
  sr_exits :: "(bool \<times> bool) option"

record simulation =
  sm_position :: int
  sm_pending_entry :: int
  sm_pending_exit :: bool
  sm_previous_intent :: int
  sm_entry_reason :: string
  sm_trigger_time :: "instant option"
  sm_levels :: risk_levels
  sm_signals :: "sim_signal list"

definition new_simulation :: simulation where
  "new_simulation = \<lparr> sm_position = 0, sm_pending_entry = 0, sm_pending_exit = False, sm_previous_intent = 0,
     sm_entry_reason = ''signal_confirmed'', sm_trigger_time = None,
     sm_levels = \<lparr> rl_stop_loss_price = 0, rl_take_profit_price = 0 \<rparr>, sm_signals = [] \<rparr>"

definition nonempty :: "string \<Rightarrow> string option" where
  "nonempty s = (if s = [] then None else Some s)"

definition emit_signal :: "string \<Rightarrow> signal_kind \<Rightarrow> kbar \<Rightarrow> price \<Rightarrow> string \<Rightarrow> string option \<Rightarrow> instant option
    \<Rightarrow> simulation \<Rightarrow> simulation" where
  "emit_signal strategy ev b p reason trigger_reason trigger s = s\<lparr>sm_signals := sm_signals s @
     [\<lparr> ss_strategy = strategy, ss_event = ev, ss_direction = (if sm_position s = 1 then LongSide else ShortSide),
        ss_time = stamp b, ss_price = round4 p,
        ss_stop_loss_price = round4 (rl_stop_loss_price (sm_levels s)),
        ss_take_profit_price = round4 (rl_take_profit_price (sm_levels s)), ss_reason = reason,
        ss_contract = kb_contract b, ss_session = kb_session b, ss_trading_date = kb_trading_date b,
        ss_trigger_reason = trigger_reason, ss_trigger_time = trigger \<rparr>]\<rparr>"

definition level_reason :: "level_exit \<Rightarrow> string" where
  "level_reason e = (case e of ExitStopLoss \<Rightarrow> ''stop_loss'' | ExitTakeProfit \<Rightarrow> ''take_profit'')"

text \<open>The steps of one iteration, in order: the exit decided on the previous bar, the entry decided
  on the previous bar, the risk levels, and the new intents.\<close>

definition fill_exit :: "string \<Rightarrow> string \<Rightarrow> kbar \<Rightarrow> simulation \<Rightarrow> simulation" where
  "fill_exit strategy exit_reason b s =
     (if sm_position s \<noteq> 0 \<and> sm_pending_exit s
      then (emit_signal strategy SigExit b (kb_open b) exit_reason None None s)\<lparr>sm_position := 0, sm_pending_exit := False\<rparr>
      else s)"

definition fill_entry_intent :: "string \<Rightarrow> risk_config \<Rightarrow> kbar \<Rightarrow> simulation \<Rightarrow> simulation res" where
  "fill_entry_intent strategy risk b s =
     (if sm_position s = 0 \<and> sm_pending_entry s \<noteq> 0
      then (case calculate_levels (kb_open b) (sm_pending_entry s) risk of
          Inl e \<Rightarrow> Inl e
        | Inr l \<Rightarrow> Inr ((emit_signal strategy SigEntry b (kb_open b) ''signal_confirmed'' (nonempty (sm_entry_reason s))
              (sm_trigger_time s) (s\<lparr>sm_position := sm_pending_entry s, sm_levels := l\<rparr>))
              \<lparr>sm_pending_entry := 0, sm_trigger_time := None\<rparr>))
      else Inr s)"

definition check_levels :: "string \<Rightarrow> kbar \<Rightarrow> simulation \<Rightarrow> simulation" where
  "check_levels strategy b s =
     (if sm_position s = 0 then s
      else (case triggered_exit (sm_position s) (kb_open b) (kb_high b) (kb_low b) (sm_levels s) of
          None \<Rightarrow> s
        | Some (p, e) \<Rightarrow> (emit_signal strategy SigExit b p (level_reason e) None None s)\<lparr>sm_position := 0\<rparr>))"

definition note_exit :: "(bool \<times> bool) option \<Rightarrow> simulation \<Rightarrow> simulation" where
  "note_exit exits s = (case exits of
       None \<Rightarrow> s
     | Some (l, sh) \<Rightarrow> if sm_position s = 0 then s else s\<lparr>sm_pending_exit := (if sm_position s = 1 then l else sh)\<rparr>)"

definition note_entry :: "sim_row \<Rightarrow> simulation \<Rightarrow> simulation" where
  "note_entry r s =
     (let c = sr_entry r; fresh = ((c = -1 \<or> c = 1) \<and> c \<noteq> sm_previous_intent s); s1 = s\<lparr>sm_previous_intent := c\<rparr> in
      if sm_position s1 = 0 \<and> sm_pending_entry s1 = 0 \<and> fresh
      then s1\<lparr>sm_pending_entry := c,
              sm_entry_reason := (case sr_reason r of None \<Rightarrow> ''signal_confirmed'' | Some x \<Rightarrow> x),
              sm_trigger_time := Some (stamp (sr_bar r))\<rparr>
      else s1)"

definition simulate_row :: "string \<Rightarrow> risk_config \<Rightarrow> string \<Rightarrow> sim_row \<Rightarrow> simulation \<Rightarrow> simulation res" where
  "simulate_row strategy risk exit_reason r s =
     (case fill_entry_intent strategy risk (sr_bar r) (fill_exit strategy exit_reason (sr_bar r) s) of
        Inl e \<Rightarrow> Inl e
      | Inr s1 \<Rightarrow> Inr (note_entry r (note_exit (sr_exits r) (check_levels strategy (sr_bar r) s1))))"

definition simulate_rows :: "string \<Rightarrow> risk_config \<Rightarrow> string \<Rightarrow> sim_row list \<Rightarrow> simulation res" where
  "simulate_rows strategy risk exit_reason rows = foldM (simulate_row strategy risk exit_reason) rows new_simulation"

definition simulate_signals :: "string \<Rightarrow> risk_config \<Rightarrow> string \<Rightarrow> bool \<Rightarrow> sim_row list \<Rightarrow> sim_signal list res" where
  "simulate_signals strategy risk exit_reason force_final rows =
     (case simulate_rows strategy risk exit_reason rows of
        Inl e \<Rightarrow> Inl e
      | Inr s \<Rightarrow> Inr (sm_signals (if force_final \<and> sm_position s \<noteq> 0
           then emit_signal strategy SigExit (sr_bar (last rows)) (kb_close (sr_bar (last rows))) ''session_end'' None None s
           else s)))"

section \<open>What a run emits\<close>

lemma foldM_append: "foldM f (xs @ ys) s = (case foldM f xs s of Inl e \<Rightarrow> Inl e | Inr t \<Rightarrow> foldM f ys t)"
  by (induction xs arbitrary: s) (simp_all split: sum.split)

text \<open>Every iteration appends signals at the time of its bar.\<close>

definition appends :: "kbar set \<Rightarrow> simulation \<Rightarrow> simulation \<Rightarrow> bool" where
  "appends bs s s' \<longleftrightarrow> (\<exists>new. sm_signals s' = sm_signals s @ new \<and> (\<forall>x \<in> set new. ss_time x \<in> stamp ` bs))"

lemma appends_refl: "sm_signals s' = sm_signals s \<Longrightarrow> appends bs s s'"
  by (simp add: appends_def)

lemma appends_trans: "appends bs s t \<Longrightarrow> appends cs t u \<Longrightarrow> appends (bs \<union> cs) s u"
  unfolding appends_def by fastforce

lemma appends_emit: "b \<in> bs \<Longrightarrow> sm_signals s' = sm_signals (emit_signal k ev b p r tr tt s) \<Longrightarrow> sm_signals s = sm_signals s0
    \<Longrightarrow> appends bs s0 s'"
  by (auto simp: appends_def emit_signal_def)

lemma simulate_row_appends:
  assumes "simulate_row strategy risk why r s = Inr s'"
  shows "appends {sr_bar r} s s'"
proof -
  let ?b = "sr_bar r"
  obtain t where t: "fill_entry_intent strategy risk ?b (fill_exit strategy why ?b s) = Inr t"
      "s' = note_entry r (note_exit (sr_exits r) (check_levels strategy ?b t))"
    using assms by (auto simp: simulate_row_def split: sum.splits)
  have 1: "appends {?b} s (fill_exit strategy why ?b s)"
    by (auto simp: fill_exit_def intro: appends_refl appends_emit)
  have 2: "appends {?b} (fill_exit strategy why ?b s) t"
    using t(1) by (auto simp: fill_entry_intent_def intro: appends_refl appends_emit split: if_splits sum.splits)
  have 3: "appends {?b} t (check_levels strategy ?b t)"
    by (auto simp: check_levels_def intro: appends_refl appends_emit split: option.split)
  have 4: "appends {?b} (check_levels strategy ?b t) s'"
    unfolding t(2) by (rule appends_refl) (auto simp: note_entry_def note_exit_def Let_def split: option.split)
  show ?thesis using appends_trans [OF appends_trans [OF appends_trans [OF 1 2] 3] 4] by simp
qed

lemma simulate_rows_append:
  "foldM (simulate_row strategy risk why) rows s = Inr s' \<Longrightarrow> appends (sr_bar ` set rows) s s'"
proof (induction rows arbitrary: s)
  case (Cons r rows)
  then obtain t where t: "simulate_row strategy risk why r s = Inr t" "foldM (simulate_row strategy risk why) rows t = Inr s'"
    by (auto split: sum.splits)
  show ?case using appends_trans [OF simulate_row_appends [OF t(1)] Cons.IH [OF t(2)]] by simp
qed (simp add: appends_refl)

section \<open>Positions alternate\<close>

text \<open>The signals alternate between an entry and the exit of that entry, with its direction and
  levels.  The first argument is the entry still open before the list, the last the one open after.\<close>

fun alternate :: "sim_signal option \<Rightarrow> sim_signal list \<Rightarrow> sim_signal option \<Rightarrow> bool" where
  "alternate cur [] fin \<longleftrightarrow> fin = cur"
| "alternate None (x # xs) fin \<longleftrightarrow> ss_event x = SigEntry \<and> alternate (Some x) xs fin"
| "alternate (Some y) (x # xs) fin \<longleftrightarrow> ss_event x = SigExit \<and> ss_direction x = ss_direction y
     \<and> ss_stop_loss_price x = ss_stop_loss_price y \<and> ss_take_profit_price x = ss_take_profit_price y
     \<and> alternate None xs fin"

lemma alternate_append: "alternate cur (xs @ ys) fin \<longleftrightarrow> (\<exists>mid. alternate cur xs mid \<and> alternate mid ys fin)"
proof (induction xs arbitrary: cur)
  case (Cons x xs)
  then show ?case by (cases cur) auto
qed simp

definition matches_open :: "simulation \<Rightarrow> sim_signal option \<Rightarrow> bool" where
  "matches_open s cur \<longleftrightarrow> (case cur of
       None \<Rightarrow> sm_position s = 0
     | Some y \<Rightarrow> sm_position s \<in> {1, -1} \<and> ss_direction y = (if sm_position s = 1 then LongSide else ShortSide)
         \<and> ss_stop_loss_price y = round4 (rl_stop_loss_price (sm_levels s))
         \<and> ss_take_profit_price y = round4 (rl_take_profit_price (sm_levels s)))"

definition positions_alternate :: "simulation \<Rightarrow> bool" where
  "positions_alternate s \<longleftrightarrow> sm_pending_entry s \<in> {-1, 0, 1} \<and> (\<exists>cur. alternate None (sm_signals s) cur \<and> matches_open s cur)"

lemma alternate_exit:
  assumes "positions_alternate s" "sm_position s \<noteq> 0"
  shows "positions_alternate ((emit_signal k SigExit b p r tr tt s)\<lparr>sm_position := 0\<rparr>)"
    "positions_alternate ((emit_signal k SigExit b p r tr tt s)\<lparr>sm_position := 0, sm_pending_exit := x\<rparr>)"
proof -
  obtain cur where c: "alternate None (sm_signals s) cur" "matches_open s cur" "sm_pending_entry s \<in> {-1, 0, 1}"
    using assms by (auto simp: positions_alternate_def)
  with assms(2) obtain y where y: "cur = Some y" by (cases cur) (auto simp: matches_open_def)
  have "alternate None (sm_signals (emit_signal k SigExit b p r tr tt s)) None"
    using c y by (auto simp: emit_signal_def alternate_append matches_open_def)
  then show "positions_alternate ((emit_signal k SigExit b p r tr tt s)\<lparr>sm_position := 0\<rparr>)"
    "positions_alternate ((emit_signal k SigExit b p r tr tt s)\<lparr>sm_position := 0, sm_pending_exit := x\<rparr>)"
    using c(3) by (auto simp: positions_alternate_def matches_open_def emit_signal_def)
qed

lemma alternate_enter:
  assumes "positions_alternate s" "sm_position s = 0" "sm_pending_entry s \<noteq> 0"
  shows "positions_alternate ((emit_signal k SigEntry b p r tr tt (s\<lparr>sm_position := sm_pending_entry s, sm_levels := l\<rparr>))
      \<lparr>sm_pending_entry := 0, sm_trigger_time := None\<rparr>)"
proof -
  obtain cur where c: "alternate None (sm_signals s) cur" "matches_open s cur" "sm_pending_entry s \<in> {-1, 0, 1}"
    using assms by (auto simp: positions_alternate_def)
  then have n: "cur = None" using assms(2) by (cases cur) (auto simp: matches_open_def)
  let ?s = "(emit_signal k SigEntry b p r tr tt (s\<lparr>sm_position := sm_pending_entry s, sm_levels := l\<rparr>))
      \<lparr>sm_pending_entry := 0, sm_trigger_time := None\<rparr>"
  have e: "sm_signals ?s = sm_signals s @ [last (sm_signals ?s)]" "ss_event (last (sm_signals ?s)) = SigEntry"
    by (simp_all add: emit_signal_def)
  have "alternate None (sm_signals s @ [last (sm_signals ?s)]) (Some (last (sm_signals ?s)))"
    unfolding alternate_append using c(1) n e(2) by (intro exI [of _ None]) simp
  then have "alternate None (sm_signals ?s) (Some (last (sm_signals ?s)))" by (simp only: e(1) [symmetric])
  moreover have "matches_open ?s (Some (last (sm_signals ?s)))"
    using c(3) assms(3) by (auto simp: matches_open_def emit_signal_def)
  moreover have "sm_pending_entry ?s = 0" by simp
  ultimately show ?thesis unfolding positions_alternate_def by fastforce
qed

lemma positions_alternate_other:
  "positions_alternate s \<Longrightarrow> sm_signals s' = sm_signals s \<Longrightarrow> sm_position s' = sm_position s \<Longrightarrow> sm_levels s' = sm_levels s
    \<Longrightarrow> sm_pending_entry s' \<in> {-1, 0, 1} \<Longrightarrow> positions_alternate s'"
  by (auto simp: positions_alternate_def matches_open_def split: option.splits)

lemma simulate_row_alternate:
  assumes "simulate_row strategy risk why r s = Inr s'" "positions_alternate s"
  shows "positions_alternate s'"
proof -
  let ?b = "sr_bar r"
  obtain t where t: "fill_entry_intent strategy risk ?b (fill_exit strategy why ?b s) = Inr t"
      "s' = note_entry r (note_exit (sr_exits r) (check_levels strategy ?b t))"
    using assms by (auto simp: simulate_row_def split: sum.splits)
  have 1: "positions_alternate (fill_exit strategy why ?b s)"
    using assms(2) by (auto simp: fill_exit_def intro: alternate_exit)
  have 2: "positions_alternate t"
    using t(1) 1 by (auto simp: fill_entry_intent_def intro: alternate_enter split: if_splits sum.splits)
  have 3: "positions_alternate (check_levels strategy ?b t)"
    using 2 by (auto simp: check_levels_def intro: alternate_exit split: option.split)
  then have 4: "positions_alternate (note_exit (sr_exits r) (check_levels strategy ?b t))"
    by (rule positions_alternate_other) (use 3 in \<open>auto simp: note_exit_def positions_alternate_def split: option.split\<close>)
  show ?thesis unfolding t(2)
    by (rule positions_alternate_other [OF 4]) (use 4 in \<open>auto simp: note_entry_def Let_def positions_alternate_def\<close>)
qed

lemma simulated_positions_alternate:
  "simulate_rows strategy risk why rows = Inr s \<Longrightarrow> positions_alternate s"
proof -
  have new: "positions_alternate new_simulation"
    by (simp add: new_simulation_def positions_alternate_def matches_open_def)
  show "simulate_rows strategy risk why rows = Inr s \<Longrightarrow> ?thesis"
    unfolding simulate_rows_def by (rule foldM_inv [where P = positions_alternate, OF _ new simulate_row_alternate])
qed

end
