(* ===== verification/Strategy_Signals.thy ===== *)
theory Strategy_Signals
  imports Dow_Channel Signal_Simulator
begin

text \<open>
  The trading rules of the strategies: the opening-range breakout and the mean reversion of
  \<open>strategy/definitions.py\<close>, and the indicator rules of \<open>strategy/engine.py\<close>, up to the intents of a
  session and the signals simulated from them.

  Parameters are the validated dictionary, a function from names.  The overlays, diagnostics and
  contexts computed beside the intents are displayed only and are left out.  \<open>float\<close> overflow is not
  modelled.
\<close>

type_synonym parameters = "string \<Rightarrow> rat"

text \<open>\<open>int(...)\<close> truncates.\<close>

definition int_param :: "parameters \<Rightarrow> string \<Rightarrow> int" where
  "int_param ps k = (if 0 \<le> ps k then \<lfloor>ps k\<rfloor> else \<lceil>ps k\<rceil>)"

section \<open>Breakout of the opening range\<close>

text \<open>What the two implementations share: the range of the opening bars, and the first breakout.\<close>

fun first_mark :: "int list \<Rightarrow> int list" where
  "first_mark [] = []"
| "first_mark (e # es) = (if e = 0 then 0 # first_mark es else e # map (\<lambda>_. 0) es)"

definition range_breaks :: "price \<Rightarrow> price \<Rightarrow> bool list \<Rightarrow> kbar list \<Rightarrow> bool list \<times> bool list" where
  "range_breaks high low eligible bs =
     (let close = column kb_close bs; pc = previous close in
      (both eligible (both (holds1 (\<lambda>x. high < x) close) (holds1 (\<lambda>x. x \<le> high) pc)),
       both eligible (both (holds1 (\<lambda>x. x < low) close) (holds1 (\<lambda>x. low \<le> x) pc))))"

definition baseline_volume :: "pandas \<Rightarrow> int \<Rightarrow> kbar list \<Rightarrow> series" where
  "baseline_volume p w bs = previous (pd_rolling_mean p w 1 (column (\<lambda>b. of_int (kb_volume b)) bs))"

definition volume_confirms :: "series \<Rightarrow> rat \<Rightarrow> kbar list \<Rightarrow> bool list" where
  "volume_confirms baseline factor bs =
     holds2 (\<ge>) (column (\<lambda>b. of_int (kb_volume b)) bs) (lift1 (\<lambda>x. x * factor) baseline)"

datatype trade_side = LongOnly | ShortOnly | BothSides

record orb_config =
  ob_range_minutes :: int
  ob_volume_window :: int
  ob_volume_multiplier :: rat
  ob_last_entry :: int
  ob_direction :: trade_side

definition check_orb_config :: "orb_config \<Rightarrow> orb_config res" where
  "check_orb_config c = first_error
     [(ob_range_minutes c \<le> 0, ValueError ''opening_range_minutes must be positive''),
      (ob_volume_window c \<le> 0, ValueError ''volume_window must be positive''),
      (ob_volume_multiplier c < 0, ValueError ''volume_multiplier must not be negative'')] c"

definition default_orb_config :: orb_config where
  "default_orb_config = \<lparr> ob_range_minutes = 15, ob_volume_window = 5, ob_volume_multiplier = 12 / 10,
     ob_last_entry = clock_time 12 45, ob_direction = LongOnly \<rparr>"

definition orb_generate_entries :: "pandas \<Rightarrow> orb_config \<Rightarrow> kbar list \<Rightarrow> int list" where
  "orb_generate_entries p c bs = (case bs of
      [] \<Rightarrow> []
    | b # _ \<Rightarrow>
        let open_at = taipei_at (taipei_date (kb_time b)) (clock_time 9 0);
            range_end = open_at + seconds (60 * ob_range_minutes c) in
        (case filter (\<lambda>x. open_at \<le> kb_time x \<and> kb_time x < range_end) bs of
           o1 # o2 # os \<Rightarrow>
             let eligible = map2 (\<lambda>x v. range_end \<le> kb_time x \<and> taipei_clock (kb_time x) \<le> ob_last_entry c \<and> v) bs
                   (volume_confirms (baseline_volume p (ob_volume_window c) bs) (ob_volume_multiplier c) bs);
                 (up, down) = range_breaks (max_of kb_high o1 (o2 # os)) (min_of kb_low o1 (o2 # os)) eligible bs in
             first_mark (entry_marks (if ob_direction c = ShortOnly then map (\<lambda>_. False) bs else up)
               (if ob_direction c = LongOnly then map (\<lambda>_. False) bs else down))
         | _ \<Rightarrow> map (\<lambda>_. 0) bs))"

text \<open>\<open>_orb_entries\<close> of the engine: both directions, from the open of the session, closed bars only.\<close>

definition orb_marks :: "pandas \<Rightarrow> parameters \<Rightarrow> instant \<Rightarrow> price \<Rightarrow> price \<Rightarrow> kbar list \<Rightarrow> int list" where
  "orb_marks p ps range_end high low bs =
     (let eligible = map2 (\<lambda>x v. range_end \<le> kb_time x \<and> kb_status x = ClosedBar \<and> v) bs
            (volume_confirms (baseline_volume p (int_param ps ''volume_window'') bs) (ps ''volume_multiplier'') bs);
          (up, down) = range_breaks high low eligible bs in
      entry_marks up down)"

definition orb_entries :: "pandas \<Rightarrow> parameters \<Rightarrow> kbar list \<Rightarrow> int list" where
  "orb_entries p ps bs = (case bs of
      [] \<Rightarrow> []
    | b # _ \<Rightarrow>
        if taipei_clock (kb_time b) \<noteq> (if kb_session b = DayBar then clock_time 8 45 else clock_time 15 0) then map (\<lambda>_. 0) bs
        else let range_end = kb_time b + seconds (60 * int_param ps ''opening_range_minutes'') in
          (case filter (\<lambda>x. kb_time x < range_end) bs of
             o1 # o2 # os \<Rightarrow>
               if \<not> list_ex (\<lambda>x. range_end \<le> kb_time x) bs then map (\<lambda>_. 0) bs
               else first_mark (orb_marks p ps range_end (max_of kb_high o1 (o2 # os)) (min_of kb_low o1 (o2 # os)) bs)
           | _ \<Rightarrow> map (\<lambda>_. 0) bs))"

section \<open>Mean reversion\<close>

record bnf_config =
  bn_mean_window :: int
  bn_std_window :: int
  bn_entry_z :: rat
  bn_exit_z :: rat
  bn_rsi_period :: int
  bn_oversold :: rat
  bn_overbought :: rat
  bn_direction :: trade_side

definition check_bnf_config :: "bnf_config \<Rightarrow> bnf_config res" where
  "check_bnf_config c = first_error
     [(bn_mean_window c < 2 \<or> bn_std_window c < 2, ValueError ''mean_window and std_window must be at least 2''),
      (bn_entry_z c \<le> 0, ValueError ''entry_z_score must be positive''),
      (\<not> (0 \<le> bn_exit_z c \<and> bn_exit_z c < bn_entry_z c), ValueError ''exit_z_score must lie between 0 and entry_z_score''),
      (bn_rsi_period c < 2, ValueError ''rsi_period must be at least 2''),
      (\<not> (0 \<le> bn_oversold c \<and> bn_oversold c < bn_overbought c \<and> bn_overbought c \<le> 100),
         ValueError ''RSI bounds must satisfy 0 <= oversold < overbought <= 100'')] c"

definition gain_series :: "series \<Rightarrow> series" where
  "gain_series close = lift1 (\<lambda>x. max x 0) (minus_series close (previous close))"

definition loss_series :: "series \<Rightarrow> series" where
  "loss_series close = lift1 (\<lambda>x. - min x 0) (minus_series close (previous close))"

text \<open>The RSI; 50 where there is neither gain nor loss.\<close>

definition rsi_series :: "pandas \<Rightarrow> int \<Rightarrow> series \<Rightarrow> series" where
  "rsi_series p period close =
     (let gain = pd_rolling_mean p period period (gain_series close);
          loss = pd_rolling_mean p period period (loss_series close);
          ratio = lift2 (/) (lift1 (\<lambda>x. 100 * x) gain) (drop_zero (lift2 (+) gain loss)) in
      map2 (\<lambda>r (g, l). if g = Some 0 \<and> l = Some 0 then Some 50 else r) ratio (zip gain loss))"

definition z_scores :: "pandas \<Rightarrow> bnf_config \<Rightarrow> kbar list \<Rightarrow> series" where
  "z_scores p c bs = (let close = column kb_close bs in
     lift2 (/) (minus_series close (pd_rolling_mean p (bn_mean_window c) (bn_mean_window c) close))
       (drop_zero (pd_rolling_std p (bn_std_window c) close)))"

definition fill_zero :: "series \<Rightarrow> series" where
  "fill_zero = map (\<lambda>a. case a of None \<Rightarrow> Some 0 | Some x \<Rightarrow> Some x)"

definition bnf_generate_entries :: "pandas \<Rightarrow> bnf_config \<Rightarrow> kbar list \<Rightarrow> int list" where
  "bnf_generate_entries p c bs =
     (let z = z_scores p c bs; pz = fill_zero (previous z); r = rsi_series p (bn_rsi_period c) (column kb_close bs);
          up = both (holds1 (\<lambda>x. x \<le> - bn_entry_z c) z) (both (holds1 (\<lambda>x. - bn_entry_z c < x) pz) (holds1 (\<lambda>x. x \<le> bn_oversold c) r));
          down = both (holds1 (\<lambda>x. bn_entry_z c \<le> x) z) (both (holds1 (\<lambda>x. x < bn_entry_z c) pz) (holds1 (\<lambda>x. bn_overbought c \<le> x) r)) in
      entry_marks (if bn_direction c = ShortOnly then map (\<lambda>_. False) bs else up)
        (if bn_direction c = LongOnly then map (\<lambda>_. False) bs else down))"

definition bnf_generate_exits :: "pandas \<Rightarrow> bnf_config \<Rightarrow> kbar list \<Rightarrow> (bool \<times> bool) list" where
  "bnf_generate_exits p c bs = (let z = z_scores p c bs in
     zip (holds1 (\<lambda>x. - bn_exit_z c \<le> x) z) (holds1 (\<lambda>x. x \<le> bn_exit_z c) z))"

definition bnf_config_of :: "parameters \<Rightarrow> bnf_config" where
  "bnf_config_of ps = \<lparr> bn_mean_window = int_param ps ''mean_window'', bn_std_window = int_param ps ''std_window'',
     bn_entry_z = ps ''entry_z_score'', bn_exit_z = ps ''exit_z_score'', bn_rsi_period = int_param ps ''rsi_period'',
     bn_oversold = ps ''oversold_rsi'', bn_overbought = ps ''overbought_rsi'', bn_direction = BothSides \<rparr>"

text \<open>A forming bar has no intent.\<close>

definition closed_entries :: "kbar list \<Rightarrow> int list \<Rightarrow> int list" where
  "closed_entries = map2 (\<lambda>b e. if kb_status b = ClosedBar then e else 0)"

definition closed_exits :: "kbar list \<Rightarrow> (bool \<times> bool) list \<Rightarrow> (bool \<times> bool) list" where
  "closed_exits = map2 (\<lambda>b e. if kb_status b = ClosedBar then e else (False, False))"

definition bnf_signals :: "pandas \<Rightarrow> parameters \<Rightarrow> kbar list \<Rightarrow> int list \<times> (bool \<times> bool) list option" where
  "bnf_signals p ps bs = (let c = bnf_config_of ps in
     (closed_entries bs (bnf_generate_entries p c bs), Some (closed_exits bs (bnf_generate_exits p c bs))))"

section \<open>Indicator rules\<close>

definition cross_entries :: "series \<Rightarrow> series \<Rightarrow> int list" where
  "cross_entries fast slow =
     entry_marks (both (holds2 (>) fast slow) (holds2 (\<le>) (previous fast) (previous slow)))
       (both (holds2 (<) fast slow) (holds2 (\<ge>) (previous fast) (previous slow)))"

definition opposite_exits :: "int list \<Rightarrow> (bool \<times> bool) list" where
  "opposite_exits = map (\<lambda>e. (e = -1, e = 1))"

definition channel_config_of :: "parameters \<Rightarrow> channel_config" where
  "channel_config_of ps = \<lparr> cc_atr_period = int_param ps ''atr_period'', cc_reversal_atr = ps ''pivot_reversal_atr'',
     cc_confirmation = nat (int_param ps ''confirmation_bars''),
     cc_minimum_distance = nat (int_param ps ''minimum_pivot_distance''),
     cc_minimum_bars = nat (int_param ps ''minimum_channel_bars''),
     cc_invalidation = nat (int_param ps ''invalidation_bars'') \<rparr>"

definition channel_mode :: "string \<Rightarrow> entry_mode option" where
  "channel_mode key = map_of [(''dow_channel_pullback'', Pullback), (''dow_channel_reversal'', ReversalMode),
     (''linear_channel_breakout'', Momentum)] key"

text \<open>\<open>parameters.get("boundary_tolerance_atr", 0.0)\<close>: only the pullback strategy has the field.\<close>

definition dow_channel_analysis :: "pandas \<Rightarrow> entry_mode \<Rightarrow> parameters \<Rightarrow> kbar list \<Rightarrow> int list \<times> (bool \<times> bool) list option" where
  "dow_channel_analysis p mode ps bs =
     dow_channel_signals mode (if mode = Pullback then ps ''boundary_tolerance_atr'' else 0) bs
       (detect_linear_channels p (channel_config_of ps) bs)"

abbreviation close_series :: "kbar list \<Rightarrow> series" where
  "close_series \<equiv> column kb_close"

abbreviation volumes :: "kbar list \<Rightarrow> series" where
  "volumes \<equiv> column (\<lambda>b. of_int (kb_volume b))"

definition rolling_upper :: "pandas \<Rightarrow> int \<Rightarrow> kbar list \<Rightarrow> series" where
  "rolling_upper p w bs = previous (pd_rolling_max p w (column kb_high bs))"

definition rolling_lower :: "pandas \<Rightarrow> int \<Rightarrow> kbar list \<Rightarrow> series" where
  "rolling_lower p w bs = previous (pd_rolling_min p w (column kb_low bs))"

definition vwap :: "kbar list \<Rightarrow> series" where
  "vwap bs = lift2 (/) (cumsum (column (\<lambda>b. (kb_high b + kb_low b + kb_close b) / 3 * of_int (kb_volume b)) bs))
     (drop_zero (cumsum (volumes bs)))"

definition ma_crossover :: "pandas \<Rightarrow> parameters \<Rightarrow> kbar list \<Rightarrow> int list" where
  "ma_crossover p ps bs = (let s = int_param ps ''short_window''; l = int_param ps ''long_window'' in
     cross_entries (pd_rolling_mean p s s (close_series bs)) (pd_rolling_mean p l l (close_series bs)))"

definition ema_trend :: "pandas \<Rightarrow> parameters \<Rightarrow> kbar list \<Rightarrow> int list" where
  "ema_trend p ps bs = cross_entries (pd_ewm_mean p (int_param ps ''fast_period'') (close_series bs))
     (pd_ewm_mean p (int_param ps ''slow_period'') (close_series bs))"

definition macd_momentum :: "pandas \<Rightarrow> parameters \<Rightarrow> kbar list \<Rightarrow> int list" where
  "macd_momentum p ps bs =
     (let macd = minus_series (pd_ewm_mean p (int_param ps ''fast_period'') (close_series bs))
        (pd_ewm_mean p (int_param ps ''slow_period'') (close_series bs)) in
      cross_entries macd (pd_ewm_mean p (int_param ps ''signal_period'') macd))"

definition donchian_entries :: "pandas \<Rightarrow> parameters \<Rightarrow> kbar list \<Rightarrow> int list" where
  "donchian_entries p ps bs = (let w = int_param ps ''lookback_period'' in
     entry_marks (holds2 (>) (close_series bs) (rolling_upper p w bs)) (holds2 (<) (close_series bs) (rolling_lower p w bs)))"

definition donchian_exits :: "pandas \<Rightarrow> parameters \<Rightarrow> kbar list \<Rightarrow> (bool \<times> bool) list" where
  "donchian_exits p ps bs = (let w = int_param ps ''lookback_period'';
     mid = lift1 (\<lambda>x. x / 2) (lift2 (+) (rolling_upper p w bs) (rolling_lower p w bs)) in
     zip (holds2 (<) (close_series bs) mid) (holds2 (>) (close_series bs) mid))"

definition rsi_entries :: "pandas \<Rightarrow> parameters \<Rightarrow> kbar list \<Rightarrow> int list" where
  "rsi_entries p ps bs = (let r = rsi_series p (int_param ps ''rsi_period'') (close_series bs) in
     entry_marks
       (both (holds1 (\<lambda>x. x \<le> ps ''oversold_rsi'') r) (holds1 (\<lambda>x. ps ''oversold_rsi'' < x) (previous r)))
       (both (holds1 (\<lambda>x. ps ''overbought_rsi'' \<le> x) r) (holds1 (\<lambda>x. x < ps ''overbought_rsi'') (previous r))))"

definition rsi_exits :: "pandas \<Rightarrow> parameters \<Rightarrow> kbar list \<Rightarrow> (bool \<times> bool) list" where
  "rsi_exits p ps bs = (let r = rsi_series p (int_param ps ''rsi_period'') (close_series bs) in
     zip (holds1 (\<lambda>x. ps ''exit_rsi'' \<le> x) r) (holds1 (\<lambda>x. x \<le> ps ''exit_rsi'') r))"

definition bollinger_entries :: "pandas \<Rightarrow> parameters \<Rightarrow> kbar list \<Rightarrow> int list" where
  "bollinger_entries p ps bs =
     (let w = int_param ps ''window''; m = pd_rolling_mean p w w (close_series bs); sd = pd_rolling_std p w (close_series bs);
          band = lift1 (\<lambda>x. x * ps ''std_multiplier'') sd; wide = holds1 (\<lambda>x. 0 < x) sd in
      entry_marks (both wide (holds2 (\<le>) (close_series bs) (minus_series m band)))
        (both wide (holds2 (\<ge>) (close_series bs) (lift2 (+) m band))))"

definition bollinger_exits :: "pandas \<Rightarrow> parameters \<Rightarrow> kbar list \<Rightarrow> (bool \<times> bool) list" where
  "bollinger_exits p ps bs = (let w = int_param ps ''window''; m = pd_rolling_mean p w w (close_series bs) in
     zip (holds2 (\<ge>) (close_series bs) m) (holds2 (\<le>) (close_series bs) m))"

definition vwap_entries :: "parameters \<Rightarrow> kbar list \<Rightarrow> int list" where
  "vwap_entries ps bs =
     (let lower = lift1 (\<lambda>x. x * (1 - ps ''entry_deviation_pct'')) (vwap bs);
          upper = lift1 (\<lambda>x. x * (1 + ps ''entry_deviation_pct'')) (vwap bs) in
      entry_marks (both (holds2 (\<le>) (close_series bs) lower) (holds2 (>) (previous (close_series bs)) (previous lower)))
        (both (holds2 (\<ge>) (close_series bs) upper) (holds2 (<) (previous (close_series bs)) (previous upper))))"

definition vwap_exits :: "parameters \<Rightarrow> kbar list \<Rightarrow> (bool \<times> bool) list" where
  "vwap_exits ps bs =
     zip (holds2 (\<ge>) (close_series bs) (lift1 (\<lambda>x. x * (1 - ps ''exit_deviation_pct'')) (vwap bs)))
       (holds2 (\<le>) (close_series bs) (lift1 (\<lambda>x. x * (1 + ps ''exit_deviation_pct'')) (vwap bs)))"

definition atr_breakout :: "pandas \<Rightarrow> parameters \<Rightarrow> kbar list \<Rightarrow> int list" where
  "atr_breakout p ps bs =
     (let distance = lift1 (\<lambda>x. x * ps ''atr_multiplier'') (previous (atr_series p (int_param ps ''atr_period'') bs));
          pc = previous (close_series bs) in
      entry_marks (holds2 (>) (close_series bs) (lift2 (+) pc distance)) (holds2 (<) (close_series bs) (minus_series pc distance)))"

definition volume_breakout :: "pandas \<Rightarrow> parameters \<Rightarrow> kbar list \<Rightarrow> int list" where
  "volume_breakout p ps bs =
     (let n = int_param ps ''price_lookback''; w = int_param ps ''volume_window'';
          confirmed = volume_confirms (previous (pd_rolling_mean p w w (volumes bs))) (ps ''volume_multiplier'') bs in
      entry_marks (both confirmed (holds2 (>) (close_series bs) (rolling_upper p n bs)))
        (both confirmed (holds2 (<) (close_series bs) (rolling_lower p n bs))))"

text \<open>\<open>_technical_signals\<close>: the rule of a key, forming bars excluded.\<close>

definition technical_rule :: "pandas \<Rightarrow> string \<Rightarrow> parameters \<Rightarrow> kbar list \<Rightarrow> (int list \<times> (bool \<times> bool) list option) option" where
  "technical_rule p key ps bs =
     (if key = ''ma_crossover'' then let es = ma_crossover p ps bs in Some (es, Some (opposite_exits es))
      else if key = ''ema_trend'' then let es = ema_trend p ps bs in Some (es, Some (opposite_exits es))
      else if key = ''donchian_breakout'' then Some (donchian_entries p ps bs, Some (donchian_exits p ps bs))
      else (case channel_mode key of
          Some mode \<Rightarrow> Some (dow_channel_analysis p mode ps bs)
        | None \<Rightarrow>
      if key = ''rsi_mean_reversion'' then Some (rsi_entries p ps bs, Some (rsi_exits p ps bs))
      else if key = ''bollinger_mean_reversion'' then Some (bollinger_entries p ps bs, Some (bollinger_exits p ps bs))
      else if key = ''macd_momentum'' then let es = macd_momentum p ps bs in Some (es, Some (opposite_exits es))
      else if key = ''vwap_reversion'' then Some (vwap_entries ps bs, Some (vwap_exits ps bs))
      else if key = ''atr_breakout'' then Some (atr_breakout p ps bs, None)
      else if key = ''volume_breakout'' then Some (volume_breakout p ps bs, None)
      else None))"

definition technical_signals :: "pandas \<Rightarrow> string \<Rightarrow> parameters \<Rightarrow> kbar list
    \<Rightarrow> (int list \<times> (bool \<times> bool) list option) res" where
  "technical_signals p key ps bs = (case technical_rule p key ps bs of
       None \<Rightarrow> Inl (ValueError (''unsupported strategy: '' @ key))
     | Some (es, xs) \<Rightarrow> Inr (closed_entries bs es, map_option (closed_exits bs) xs))"

text \<open>The rule of any strategy over the bars of one session.\<close>

definition session_intents :: "pandas \<Rightarrow> string \<Rightarrow> parameters \<Rightarrow> kbar list
    \<Rightarrow> (int list \<times> (bool \<times> bool) list option) res" where
  "session_intents p key ps bs =
     (if key = ''orb'' then Inr (orb_entries p ps bs, None)
      else if key = ''bnf'' then Inr (bnf_signals p ps bs)
      else (case channel_mode key of Some mode \<Rightarrow> Inr (dow_channel_analysis p mode ps bs)
        | None \<Rightarrow> technical_signals p key ps bs))"


section \<open>Sessions and their signals\<close>

definition entry_reason_labels :: "(string \<times> string \<times> string) list" where
  "entry_reason_labels =
     [(''orb'', ''opening_range_breakout_up'', ''opening_range_breakout_down''),
      (''bnf'', ''z_score_and_rsi_oversold'', ''z_score_and_rsi_overbought''),
      (''ma_crossover'', ''short_ma_crossed_above_long_ma'', ''short_ma_crossed_below_long_ma''),
      (''ema_trend'', ''fast_ema_crossed_above_slow_ema'', ''fast_ema_crossed_below_slow_ema''),
      (''donchian_breakout'', ''close_broke_upper_channel'', ''close_broke_lower_channel''),
      (''dow_channel_pullback'', ''lower_channel_reclaimed'', ''upper_channel_rejected''),
      (''dow_channel_reversal'', ''down_channel_broken_up'', ''up_channel_broken_down''),
      (''linear_channel_breakout'', ''up_channel_momentum_breakout'', ''down_channel_momentum_breakout''),
      (''rsi_mean_reversion'', ''rsi_crossed_oversold'', ''rsi_crossed_overbought''),
      (''bollinger_mean_reversion'', ''close_touched_lower_band'', ''close_touched_upper_band''),
      (''macd_momentum'', ''macd_crossed_above_signal'', ''macd_crossed_below_signal''),
      (''vwap_reversion'', ''close_crossed_below_entry_band'', ''close_crossed_above_entry_band''),
      (''atr_breakout'', ''positive_move_exceeded_atr_threshold'', ''negative_move_exceeded_atr_threshold''),
      (''volume_breakout'', ''volume_confirmed_upper_breakout'', ''volume_confirmed_lower_breakout'')]"

definition entry_reason :: "string \<Rightarrow> int \<Rightarrow> string option" where
  "entry_reason key e = (case map_of entry_reason_labels key of
       None \<Rightarrow> None
     | Some (l, s) \<Rightarrow> if e = 1 then Some l else if e = -1 then Some s else None)"

definition strategy_exit_reasons :: "(string \<times> string) list" where
  "strategy_exit_reasons =
     [(''bnf'', ''mean_reversion''), (''ma_crossover'', ''opposite_signal''), (''ema_trend'', ''opposite_signal''),
      (''donchian_breakout'', ''channel_midpoint''), (''dow_channel_pullback'', ''channel_invalidation''),
      (''dow_channel_reversal'', ''opposite_structure''), (''linear_channel_breakout'', ''channel_invalidation''),
      (''rsi_mean_reversion'', ''mean_reversion''), (''bollinger_mean_reversion'', ''mean_reversion''),
      (''macd_momentum'', ''opposite_signal''), (''vwap_reversion'', ''mean_reversion'')]"

definition exit_reason_of :: "string \<Rightarrow> string" where
  "exit_reason_of key = (case map_of strategy_exit_reasons key of None \<Rightarrow> ''strategy_exit'' | Some r \<Rightarrow> r)"

definition intent_rows :: "string \<Rightarrow> kbar list \<Rightarrow> int list \<Rightarrow> (bool \<times> bool) list option \<Rightarrow> sim_row list" where
  "intent_rows key bs es xs =
     map2 (\<lambda>b (e, x). \<lparr> sr_bar = b, sr_entry = e, sr_reason = entry_reason key e, sr_exits = x \<rparr>) bs
       (zip es (case xs of None \<Rightarrow> map (\<lambda>_. None) bs | Some ys \<Rightarrow> map Some ys))"

text \<open>One group of \<open>analyze_strategies\<close>: the intents of a session, filled and closed.\<close>

definition session_signals :: "pandas \<Rightarrow> string \<Rightarrow> parameters \<Rightarrow> bool \<Rightarrow> kbar list \<Rightarrow> sim_signal list res" where
  "session_signals p key ps force_final bs =
     (case check_risk_config \<lparr> rk_stop_loss_pct = ps ''stop_loss_pct'', rk_take_profit_pct = ps ''take_profit_pct'' \<rparr> of
        Inl e \<Rightarrow> Inl e
      | Inr risk \<Rightarrow> (case session_intents p key ps bs of
          Inl e \<Rightarrow> Inl e
        | Inr (es, xs) \<Rightarrow> simulate_signals key risk (exit_reason_of key) force_final (intent_rows key bs es xs)))"

text \<open>The groups: bars of one contract, session and trading date, or of one contract on the daily and
  weekly time frames, in order of their first bar.\<close>

datatype group_key = SessionGroup string bar_session date | ContractGroup string

definition higher_timeframe :: "string \<Rightarrow> bool" where
  "higher_timeframe interval \<longleftrightarrow> interval = ''1d'' \<or> interval = ''1w''"

definition group_key_of :: "string \<Rightarrow> kbar \<Rightarrow> group_key" where
  "group_key_of interval b = (if higher_timeframe interval then ContractGroup (kb_contract b)
     else SessionGroup (kb_contract b) (kb_session b) (kb_trading_date b))"

definition session_groups :: "string \<Rightarrow> kbar list \<Rightarrow> kbar list list" where
  "session_groups interval bs = map snd (foldl (\<lambda>d b. let k = group_key_of interval b in
     dict_put k ((case map_of d k of None \<Rightarrow> [] | Some g \<Rightarrow> g) @ [b]) d) [] bs)"

definition skips_timeframe :: "string \<Rightarrow> string \<Rightarrow> bool" where
  "skips_timeframe interval key \<longleftrightarrow> higher_timeframe interval \<and> (key = ''orb'' \<or> key = ''vwap_reversion'')"

text \<open>The signals of one strategy; only the last group may end with an open position.\<close>

definition strategy_signals :: "pandas \<Rightarrow> string \<Rightarrow> string \<Rightarrow> parameters \<Rightarrow> bool \<Rightarrow> kbar list \<Rightarrow> sim_signal list res" where
  "strategy_signals p interval key ps force_close_last bs =
     (if skips_timeframe interval key then Inr []
      else let gs = session_groups interval bs in
        (case mapM (\<lambda>(i, g). session_signals p key ps (force_close_last \<or> i + 1 < length gs) g) (zip [0..<length gs] gs) of
           Inl e \<Rightarrow> Inl e
         | Inr ss \<Rightarrow> Inr (concat ss)))"

text \<open>\<open>evaluate_strategy_intents\<close>: the intents on their confirming bars, before any fill.\<close>

record strategy_intent =
  sn_strategy :: string
  sn_action :: signal_kind
  sn_direction :: signal_direction
  sn_time :: instant
  sn_reason :: string
  sn_contract :: string
  sn_session :: bar_session
  sn_trading_date :: date

definition bar_intent :: "string \<Rightarrow> kbar \<Rightarrow> signal_kind \<Rightarrow> signal_direction \<Rightarrow> string \<Rightarrow> strategy_intent" where
  "bar_intent key b action dir reason = \<lparr> sn_strategy = key, sn_action = action, sn_direction = dir,
     sn_time = stamp b, sn_reason = reason, sn_contract = kb_contract b, sn_session = kb_session b,
     sn_trading_date = kb_trading_date b \<rparr>"

fun session_intent_list :: "string \<Rightarrow> int \<Rightarrow> sim_row list \<Rightarrow> strategy_intent list" where
  "session_intent_list key prev [] = []"
| "session_intent_list key prev (r # rs) =
     (if (sr_entry r = -1 \<or> sr_entry r = 1) \<and> sr_entry r \<noteq> prev
      then [bar_intent key (sr_bar r) SigEntry (if sr_entry r = 1 then LongSide else ShortSide)
              (case sr_reason r of None \<Rightarrow> ''signal_confirmed'' | Some x \<Rightarrow> x)] else [])
     @ (case sr_exits r of None \<Rightarrow> []
        | Some (l, s) \<Rightarrow> (if l then [bar_intent key (sr_bar r) SigExit LongSide (exit_reason_of key)] else [])
            @ (if s then [bar_intent key (sr_bar r) SigExit ShortSide (exit_reason_of key)] else []))
     @ session_intent_list key (sr_entry r) rs"

definition evaluate_strategy_intents :: "pandas \<Rightarrow> string \<Rightarrow> string \<Rightarrow> parameters \<Rightarrow> kbar list \<Rightarrow> strategy_intent list res" where
  "evaluate_strategy_intents p interval key ps bs =
     (if skips_timeframe interval key then Inr []
      else (case mapM (\<lambda>g. case session_intents p key ps g of
                Inl e \<Rightarrow> Inl e | Inr (es, xs) \<Rightarrow> Inr (session_intent_list key 0 (intent_rows key g es xs)))
              (session_groups interval bs) of
           Inl e \<Rightarrow> Inl e
         | Inr ss \<Rightarrow> Inr (concat ss)))"

end
