(* ===== verification/Strategy_Causality.thy ===== *)
theory Strategy_Causality
  imports Strategy_Signals "HOL-Library.Sublist"
begin

text \<open>
  The strategies do not look ahead.  The intents of a session at a row are computed from the bars up
  to it (\<open>session_intents_take\<close>, by the closure rules \<open>causal_intros\<close>), and the simulation only
  appends signals, each at the time of the bar that is being processed; together a backtest cut
  short gives the first part of the signals of the whole backtest.
\<close>

section \<open>Intents\<close>

lemma first_mark_take: "first_mark (take n es) = take n (first_mark es)"
  by (induction es arbitrary: n rule: first_mark.induct) (auto simp: take_Cons' take_map)

lemma first_mark_zero: "(\<And>e. e \<in> set es \<Longrightarrow> e = 0) \<Longrightarrow> first_mark es = es"
  by (induction es) auto

lemma first_mark_length [simp]: "length (first_mark es) = length es"
  by (induction es rule: first_mark.induct) auto

lemma causal_volume_confirms [causal_intros]:
  "causal f \<Longrightarrow> causal g \<Longrightarrow> causal (\<lambda>bs. volume_confirms (g bs) m (f bs))"
  unfolding volume_confirms_def by (intro causal_intros)

lemma causal_baseline: "pandas_causal p \<Longrightarrow> causal (baseline_volume p w)"
  unfolding baseline_volume_def by (intro causal_intros pandas_causalD)

lemma causal_orb_marks:
  assumes "pandas_causal p"
  shows "causal (orb_marks p ps range_end high low)"
proof -
  have "causal (\<lambda>bs. map2 (\<lambda>x v. range_end \<le> kb_time x \<and> kb_status x = ClosedBar \<and> v) bs
      (volume_confirms (baseline_volume p (int_param ps ''volume_window'') bs) (ps ''volume_multiplier'') bs))"
    by (intro causal_intros causal_baseline assms)
  from causal_baseline [OF assms] this show ?thesis
    unfolding orb_marks_def range_breaks_def Let_def split_beta fst_conv snd_conv
    by (intro causal_intros)
qed

lemma orb_marks_before:
  assumes "\<And>b. b \<in> set bs \<Longrightarrow> kb_time b < range_end" "e \<in> set (orb_marks p ps range_end high low bs)"
  shows "e = 0"
proof -
  let ?v = "volume_confirms (baseline_volume p (int_param ps ''volume_window'') bs) (ps ''volume_multiplier'') bs"
  let ?el = "map2 (\<lambda>x v. range_end \<le> kb_time x \<and> kb_status x = ClosedBar \<and> v) bs ?v"
  have "True \<notin> set ?el"
    using assms(1) by (auto dest!: set_zip_leftD) (meson not_le)
  then have "True \<notin> set (both ?el ys)" for ys
    by (auto simp: both_def dest: set_zip_leftD)
  with assms(2) show ?thesis
    by (fastforce simp: orb_marks_def range_breaks_def Let_def entry_marks_def dest: set_zip_leftD set_zip_rightD)
qed

lemma length_orb_marks [simp]: "pandas_causal p \<Longrightarrow> length (orb_marks p ps r high low bs) = length bs"
  by (simp add: orb_marks_def range_breaks_def Let_def entry_marks_def both_def holds1_def holds2_def shift1_def
      volume_confirms_def baseline_volume_def lift1_def column_def pandas_causal_def)

lemma orb_entries_take:
  assumes "pandas_causal p" "sorted (map kb_time bs)"
  shows "orb_entries p ps (take n bs) = take n (orb_entries p ps bs)"
proof (cases "n = 0 \<or> bs = []")
  case False
  then obtain b bs' where b: "bs = b # bs'" "take n bs = b # take (n - 1) bs'" by (cases bs) (auto simp: take_Cons')
  let ?R = "kb_time b + seconds (60 * int_param ps ''opening_range_minutes'')"
  let ?in = "\<lambda>x. kb_time x < ?R"
  show ?thesis
  proof (cases "taipei_clock (kb_time b) = (if kb_session b = DayBar then clock_time 8 45 else clock_time 15 0)")
    case False
    then show ?thesis by (simp add: orb_entries_def b take_map [symmetric] take_Cons')
  next
    case clock: True
    have e: "orb_entries p ps xs = (case filter ?in xs of
               o1 # o2 # os \<Rightarrow> if \<not> list_ex (\<lambda>x. ?R \<le> kb_time x) xs then map (\<lambda>_. 0) xs
                 else first_mark (orb_marks p ps ?R (max_of kb_high o1 (o2 # os)) (min_of kb_low o1 (o2 # os)) xs)
             | _ \<Rightarrow> map (\<lambda>_. 0) xs)" if "xs = b # ys" for xs ys
      unfolding that orb_entries_def list.case Let_def by (rule if_not_P) (simp only: clock not_not)
    show ?thesis
    proof (cases "list_ex (\<lambda>x. ?R \<le> kb_time x) (take n bs)")
      case True
      then obtain i where i: "i < n" "i < length bs" "?R \<le> kb_time (bs ! i)"
        by (auto simp: list_ex_iff in_set_conv_nth)
      have "\<not> ?in x" if "x \<in> set (drop n bs)" for x
      proof -
        obtain k where "n + k < length bs" "x = bs ! (n + k)" using \<open>x \<in> set (drop n bs)\<close>
          by (auto simp: in_set_conv_nth) (metis add.commute less_diff_conv nth_drop)
        with i assms(2) have "kb_time (bs ! i) \<le> kb_time x"
          using sorted_nth_mono [OF assms(2), of i "n + k"] by simp
        with i show ?thesis by simp
      qed
      then have "filter ?in (drop n bs) = []" by (simp add: filter_empty_conv)
      then have f: "filter ?in (take n bs) = filter ?in bs"
        by (metis append.right_neutral append_take_drop_id filter_append)
      have x: "list_ex (\<lambda>x. ?R \<le> kb_time x) bs" using True set_take_subset [of n bs] by (auto simp: list_ex_iff)
      have m: "orb_marks p ps ?R h l (take n bs) = take n (orb_marks p ps ?R h l bs)" for h l
        by (rule causalD [OF causal_orb_marks [OF assms(1)]])
      show ?thesis unfolding e [OF b(1)] e [OF b(2)] f using True x
        by (simp add: m first_mark_take take_map split: list.split)
    next
      case False
      have z: "orb_entries p ps (take n bs) = map (\<lambda>_. 0) (take n bs)"
        unfolding e [OF b(2)] using False by (simp split: list.split)
      have small: "kb_time x < ?R" if "x \<in> set (take n bs)" for x
        using False that by (auto simp: list_ex_iff not_le)
      have "take n (first_mark (orb_marks p ps ?R h l bs)) = map (\<lambda>_. 0) (take n (orb_marks p ps ?R h l bs))" for h l
      proof -
        have "e = 0" if "e \<in> set (orb_marks p ps ?R h l (take n bs))" for e
          using orb_marks_before [OF small that] .
        then show ?thesis
          by (simp add: first_mark_take [symmetric] first_mark_zero map_idI
              causalD [OF causal_orb_marks [OF assms(1)], symmetric])
      qed
      moreover have "length (orb_marks p ps ?R h l bs) = length bs" for h l
        using assms(1) by simp
      ultimately have "take n (first_mark (orb_marks p ps ?R h l bs)) = map (\<lambda>_. 0) (take n bs)" for h l
        by (simp add: map_replicate_const)
      then have "take n (orb_entries p ps bs) = map (\<lambda>_. 0) (take n bs)"
        unfolding e [OF b(1)] by (simp add: take_map split: list.split)
      with z show ?thesis by simp
    qed
  qed
qed (auto simp: orb_entries_def)


text \<open>The indicator rules.\<close>

lemma causal_rsi: "pandas_causal p \<Longrightarrow> causal f \<Longrightarrow> causal (\<lambda>bs. rsi_series p n (f bs))"
  unfolding rsi_series_def gain_series_def loss_series_def Let_def
  by (intro causal_intros pandas_causalD)

lemma causal_z_scores: "pandas_causal p \<Longrightarrow> causal (z_scores p c)"
  unfolding z_scores_def Let_def by (intro causal_intros pandas_causalD)

lemma causal_rolling_bounds: "pandas_causal p \<Longrightarrow> causal (rolling_upper p w)" "pandas_causal p \<Longrightarrow> causal (rolling_lower p w)"
  unfolding rolling_upper_def rolling_lower_def by (intro causal_intros pandas_causalD, assumption)+

lemma causal_cross [causal_intros]: "causal f \<Longrightarrow> causal g \<Longrightarrow> causal (\<lambda>bs. cross_entries (f bs) (g bs))"
  unfolding cross_entries_def by (intro causal_intros)

lemma causal_vwap: "causal vwap"
  unfolding vwap_def by (intro causal_intros)

lemma causal_if: "(c \<Longrightarrow> causal f) \<Longrightarrow> (\<not> c \<Longrightarrow> causal g) \<Longrightarrow> causal (\<lambda>bs. if c then f bs else g bs)"
  by (cases c) simp_all

lemmas causal_rules = causal_rsi causal_z_scores causal_rolling_bounds causal_vwap causal_atr pandas_causalD causal_if

lemma causal_entries:
  assumes "pandas_causal p"
  shows "causal (bnf_generate_entries p c)" "causal (ma_crossover p ps)" "causal (ema_trend p ps)"
    "causal (macd_momentum p ps)" "causal (donchian_entries p ps)" "causal (rsi_entries p ps)"
    "causal (bollinger_entries p ps)" "causal (vwap_entries ps)" "causal (atr_breakout p ps)" "causal (volume_breakout p ps)"
  unfolding bnf_generate_entries_def ma_crossover_def ema_trend_def macd_momentum_def donchian_entries_def rsi_entries_def
    bollinger_entries_def vwap_entries_def atr_breakout_def volume_breakout_def fill_zero_def Let_def
  by (intro causal_intros causal_rules assms)+

lemma causal_exits:
  assumes "pandas_causal p"
  shows "causal (bnf_generate_exits p c)" "causal (donchian_exits p ps)" "causal (rsi_exits p ps)"
    "causal (bollinger_exits p ps)" "causal (vwap_exits ps)"
  unfolding bnf_generate_exits_def donchian_exits_def rsi_exits_def bollinger_exits_def vwap_exits_def Let_def
  by (intro causal_intros causal_rules assms)+


text \<open>A rule's result cut short.\<close>

definition cut :: "nat \<Rightarrow> int list \<times> (bool \<times> bool) list option \<Rightarrow> int list \<times> (bool \<times> bool) list option" where
  "cut n r = (take n (fst r), map_option (take n) (snd r))"

lemma causal_dow: "pandas_causal p \<Longrightarrow> dow_channel_analysis p mode ps (take n bs) = cut n (dow_channel_analysis p mode ps bs)"
  using causal_channel_entries [OF causal_channels] causal_channel_exits [OF causal_channels]
  by (simp add: dow_channel_analysis_def dow_channel_signals_def cut_def causal_def)

lemma closed_take:
  "closed_entries (take n bs) (take n es) = take n (closed_entries bs es)"
  "closed_exits (take n bs) (take n xs) = take n (closed_exits bs xs)"
  by (simp_all add: closed_entries_def closed_exits_def take_map take_zip)

lemma bnf_signals_take: "pandas_causal p \<Longrightarrow> bnf_signals p ps (take n bs) = cut n (bnf_signals p ps bs)"
  by (simp add: bnf_signals_def Let_def cut_def causalD [OF causal_entries(1)] causalD [OF causal_exits(1)] closed_take)

lemma technical_rule_take:
  assumes "pandas_causal p"
  shows "technical_rule p key ps (take n bs) = map_option (cut n) (technical_rule p key ps bs)"
  by (simp add: technical_rule_def Let_def opposite_exits_def take_map cut_def causal_dow [OF assms]
      causalD [OF causal_entries(2) [OF assms]] causalD [OF causal_entries(3) [OF assms]]
      causalD [OF causal_entries(4) [OF assms]] causalD [OF causal_entries(5) [OF assms]]
      causalD [OF causal_entries(6) [OF assms]] causalD [OF causal_entries(7) [OF assms]]
      causalD [OF causal_entries(8) [OF assms]] causalD [OF causal_entries(9) [OF assms]]
      causalD [OF causal_entries(10) [OF assms]] causalD [OF causal_exits(2) [OF assms]]
      causalD [OF causal_exits(3) [OF assms]] causalD [OF causal_exits(4) [OF assms]]
      causalD [OF causal_exits(5) [OF assms]] split: option.split)

lemma session_intents_take:
  assumes "pandas_causal p" "sorted (map kb_time bs)"
  shows "session_intents p key ps (take n bs) = map_sum id (cut n) (session_intents p key ps bs)"
proof -
  have "technical_signals p key ps (take n bs) = map_sum id (cut n) (technical_signals p key ps bs)"
    by (cases "technical_rule p key ps bs")
      (auto simp: technical_signals_def technical_rule_take [OF assms(1)] cut_def closed_take
        option.map_comp comp_def split: prod.split)
  then show ?thesis
    using assms by (simp add: session_intents_def orb_entries_take bnf_signals_take causal_dow split: option.split)
      (simp add: cut_def)
qed

section \<open>Signals\<close>

lemma intent_rows_take:
  "intent_rows key (take n bs) (take n es) (map_option (take n) xs) = take n (intent_rows key bs es xs)"
  by (cases xs) (simp_all add: intent_rows_def take_map take_zip)

lemma simulate_prefix:
  assumes "simulate_rows strategy risk why rows = Inr s"
  shows "\<exists>t. simulate_rows strategy risk why (take n rows) = Inr t
    \<and> appends (sr_bar ` set (take n rows)) new_simulation t \<and> appends (sr_bar ` set (drop n rows)) t s"
proof -
  have "foldM (simulate_row strategy risk why) (take n rows @ drop n rows) new_simulation = Inr s"
    using assms by (simp add: simulate_rows_def)
  then obtain t where t: "simulate_rows strategy risk why (take n rows) = Inr t"
      "foldM (simulate_row strategy risk why) (drop n rows) t = Inr s"
    unfolding foldM_append simulate_rows_def by (auto split: sum.splits)
  with simulate_rows_append [OF t(2)] simulate_rows_append [OF t(1) [unfolded simulate_rows_def]] show ?thesis by blast
qed

lemma intent_rows_bars: "sr_bar ` set (take n (intent_rows key bs es xs)) \<subseteq> set (take n bs)"
  "sr_bar ` set (drop n (intent_rows key bs es xs)) \<subseteq> set (drop n bs)"
  by (auto simp: intent_rows_def take_map take_zip drop_map drop_zip dest: set_zip_leftD)

text \<open>C38. No strategy looks ahead: when the backtest of a session in time order returns its signals,
  the backtest of its first bars alone returns the first part of them, each emitted at the time of
  one of those bars, and every further signal is emitted at the time of a later bar.  This holds for
  every strategy and parameters, given that the library's windows end at the current row.\<close>

theorem no_look_ahead:
  assumes "pandas_causal p" "sorted (map kb_time bs)" "session_signals p key ps False bs = Inr sigs"
  shows "\<exists>early late. session_signals p key ps False (take n bs) = Inr early \<and> sigs = early @ late
    \<and> (\<forall>x \<in> set early. ss_time x \<in> stamp ` set (take n bs))
    \<and> (\<forall>x \<in> set late. ss_time x \<in> stamp ` set (drop n bs))"
proof -
  obtain risk where risk: "check_risk_config \<lparr> rk_stop_loss_pct = ps ''stop_loss_pct'',
      rk_take_profit_pct = ps ''take_profit_pct'' \<rparr> = Inr risk"
    using assms(3) by (auto simp: session_signals_def split: sum.splits)
  obtain es xs where it: "session_intents p key ps bs = Inr (es, xs)"
    using assms(3) risk by (auto simp: session_signals_def split: sum.splits)
  let ?rows = "intent_rows key bs es xs"
  obtain s where s: "simulate_rows key risk (exit_reason_of key) ?rows = Inr s" "sigs = sm_signals s"
    using assms(3) risk it by (auto simp: session_signals_def simulate_signals_def split: sum.splits)
  obtain t where t: "simulate_rows key risk (exit_reason_of key) (take n ?rows) = Inr t"
      "appends (sr_bar ` set (take n ?rows)) new_simulation t" "appends (sr_bar ` set (drop n ?rows)) t s"
    using simulate_prefix [OF s(1)] by blast
  have "session_signals p key ps False (take n bs) = Inr (sm_signals t)"
    using risk it t(1)
    by (simp add: session_signals_def session_intents_take [OF assms(1,2)] cut_def intent_rows_take simulate_signals_def)
  moreover obtain late where late: "sm_signals s = sm_signals t @ late"
      "\<forall>x \<in> set late. ss_time x \<in> stamp ` sr_bar ` set (drop n ?rows)"
    using t(3) unfolding appends_def by blast
  moreover have "sm_signals new_simulation = []" by (simp add: new_simulation_def)
  with t(2) have "\<forall>x \<in> set (sm_signals t). ss_time x \<in> stamp ` sr_bar ` set (take n ?rows)"
    by (metis appends_def append_Nil)
  moreover have "stamp ` sr_bar ` set (take n ?rows) \<subseteq> stamp ` set (take n bs)"
    "stamp ` sr_bar ` set (drop n ?rows) \<subseteq> stamp ` set (drop n bs)"
    by (intro image_mono intent_rows_bars)+
  ultimately show ?thesis unfolding s(2) by blast
qed

text \<open>A Donchian breakout on six bars, cut after four.\<close>

definition sample_kbar :: "int \<Rightarrow> price \<Rightarrow> kbar" where
  "sample_kbar i c = \<lparr> kb_symbol = ''TMF'', kb_contract = ''TMFR1'', kb_time = seconds (60 * i), kb_open = c,
     kb_high = c + 1, kb_low = c - 1, kb_close = c, kb_volume = 5, kb_status = ClosedBar, kb_session = DayBar,
     kb_trading_date = 0, kb_first_tick_time = seconds (60 * i), kb_last_tick_time = seconds (60 * i),
     kb_exchange_time = seconds (60 * i), kb_received_time = seconds (60 * i), kb_latency_ms = 0, kb_no_trade = False \<rparr>"

definition sample_bars :: "kbar list" where
  "sample_bars = map2 sample_kbar [0..5] [100, 101, 105, 106, 90, 91]"

definition sample_parameters :: parameters where
  "sample_parameters k = (if k = ''lookback_period'' then 2 else if k = ''stop_loss_pct'' then 1 / 100 else 2 / 100)"

theorem no_look_ahead_witness:
  "pandas_causal sample_pandas \<and> sorted (map kb_time sample_bars)
   \<and> (\<exists>sigs early late. session_signals sample_pandas ''donchian_breakout'' sample_parameters False sample_bars = Inr sigs
     \<and> session_signals sample_pandas ''donchian_breakout'' sample_parameters False (take 4 sample_bars) = Inr early
     \<and> sigs = early @ late \<and> length early = 1 \<and> length late = 3)"
proof -
  have s: "sorted (map kb_time sample_bars)" by code_simp
  have "is_ok (session_signals sample_pandas ''donchian_breakout'' sample_parameters False sample_bars)" by code_simp
  then obtain sigs where r: "session_signals sample_pandas ''donchian_breakout'' sample_parameters False sample_bars = Inr sigs"
    by (auto simp: is_ok_iff)
  obtain early late where e: "session_signals sample_pandas ''donchian_breakout'' sample_parameters False (take 4 sample_bars) = Inr early"
      "sigs = early @ late"
    using no_look_ahead [OF sample_pandas_causal s r, of 4] by blast
  have "map_sum id length (session_signals sample_pandas ''donchian_breakout'' sample_parameters False sample_bars) = Inr 4"
    "map_sum id length (session_signals sample_pandas ''donchian_breakout'' sample_parameters False (take 4 sample_bars)) = Inr 1"
    by code_simp+
  with e r s sample_pandas_causal show ?thesis by auto
qed

end
