(* ===== verification/Strategy_Parameters.thy ===== *)
theory Strategy_Parameters
  imports Strategy_Signals "HOL-Library.List_Lexorder" "HOL-Library.Char_ord"
begin

text \<open>
  The parameters of the strategies (\<open>strategy/parameters.py\<close>): the field table, the defaults and
  the validation of a user's values.

  A field keeps what validation reads: kind, default and bounds; labels, units, colours and
  descriptions are displayed only.  Messages of the source are in Chinese; here they are their English
  rendering with the field's name in place of its label.  A supplied value is an \<open>object\<close>: a number,
  a truth value, a float that is not finite, or anything else.
\<close>

datatype field_kind = IntegerField | NumberField | PercentField

record field =
  fd_kind :: field_kind
  fd_default :: rat
  fd_min :: rat
  fd_max :: rat

abbreviation field_of :: "field_kind \<Rightarrow> rat \<Rightarrow> rat \<Rightarrow> rat \<Rightarrow> field" where
  "field_of k d lo hi \<equiv> \<lparr> fd_kind = k, fd_default = d, fd_min = lo, fd_max = hi \<rparr>"

definition risk_fields :: "(string \<times> field) list" where
  "risk_fields = [(''stop_loss_pct'', field_of PercentField (6 / 1000) (1 / 10000) (2 / 10)),
     (''take_profit_pct'', field_of PercentField (12 / 1000) (1 / 10000) (5 / 10))]"

definition dow_channel_fields :: "(string \<times> field) list" where
  "dow_channel_fields = [(''atr_period'', field_of IntegerField 14 2 200), (''pivot_reversal_atr'', field_of NumberField (15 / 10) (1 / 10) 10),
     (''confirmation_bars'', field_of IntegerField 2 1 20), (''minimum_pivot_distance'', field_of IntegerField 5 1 100),
     (''minimum_channel_bars'', field_of IntegerField 10 2 300), (''invalidation_bars'', field_of IntegerField 2 1 10)]"

definition strategy_fields :: "(string \<times> (string \<times> field) list) list" where
  "strategy_fields =
    [(''orb'', [(''opening_range_minutes'', field_of IntegerField 15 1 120), (''volume_window'', field_of IntegerField 5 1 120),
        (''volume_multiplier'', field_of NumberField (12 / 10) 0 10)] @ risk_fields),
     (''bnf'', [(''mean_window'', field_of IntegerField 20 2 500), (''std_window'', field_of IntegerField 20 2 500),
        (''entry_z_score'', field_of NumberField 2 (1 / 10) 10), (''exit_z_score'', field_of NumberField (5 / 10) 0 (99 / 10)),
        (''rsi_period'', field_of IntegerField 14 2 200), (''oversold_rsi'', field_of NumberField 30 0 99),
        (''overbought_rsi'', field_of NumberField 70 1 100)] @ risk_fields),
     (''ma_crossover'', [(''short_window'', field_of IntegerField 10 2 200), (''long_window'', field_of IntegerField 30 3 500)] @ risk_fields),
     (''ema_trend'', [(''fast_period'', field_of IntegerField 12 2 200), (''slow_period'', field_of IntegerField 26 3 500)] @ risk_fields),
     (''donchian_breakout'', [(''lookback_period'', field_of IntegerField 20 2 500)] @ risk_fields),
     (''dow_channel_pullback'', dow_channel_fields @ [(''boundary_tolerance_atr'', field_of NumberField (2 / 10) 0 3)] @ risk_fields),
     (''dow_channel_reversal'', dow_channel_fields @ risk_fields),
     (''linear_channel_breakout'', dow_channel_fields @ risk_fields),
     (''rsi_mean_reversion'', [(''rsi_period'', field_of IntegerField 14 2 200), (''oversold_rsi'', field_of NumberField 30 0 49),
        (''exit_rsi'', field_of NumberField 50 1 99), (''overbought_rsi'', field_of NumberField 70 51 100)] @ risk_fields),
     (''bollinger_mean_reversion'', [(''window'', field_of IntegerField 20 2 500), (''std_multiplier'', field_of NumberField 2 (1 / 10) 10)] @ risk_fields),
     (''macd_momentum'', [(''fast_period'', field_of IntegerField 12 2 200), (''slow_period'', field_of IntegerField 26 3 500),
        (''signal_period'', field_of IntegerField 9 2 200)] @ risk_fields),
     (''vwap_reversion'', [(''entry_deviation_pct'', field_of PercentField (5 / 1000) (1 / 10000) (1 / 10)),
        (''exit_deviation_pct'', field_of PercentField (1 / 1000) 0 (999 / 10000))] @ risk_fields),
     (''atr_breakout'', [(''atr_period'', field_of IntegerField 14 2 200), (''atr_multiplier'', field_of NumberField (15 / 10) (1 / 10) 10)] @ risk_fields),
     (''volume_breakout'', [(''price_lookback'', field_of IntegerField 20 2 500), (''volume_window'', field_of IntegerField 20 2 500),
        (''volume_multiplier'', field_of NumberField (15 / 10) (1 / 10) 10)] @ risk_fields)]"

definition supported_strategies :: "string list" where
  "supported_strategies = map fst strategy_fields"

type_synonym param_values = "(string \<times> rat) list"

definition default_strategy_parameters :: "string \<Rightarrow> param_values res" where
  "default_strategy_parameters strategy = (case map_of strategy_fields (lower strategy) of
       None \<Rightarrow> Inl (ValueError (''unsupported strategy: '' @ strategy))
     | Some fs \<Rightarrow> Inr (map (\<lambda>(n, f). (n, fd_default f)) fs))"

text \<open>A supplied object.\<close>

datatype object = ONumber rat | OBool bool | ONotFinite | OOther

definition is_integral :: "rat \<Rightarrow> bool" where
  "is_integral x \<longleftrightarrow> of_int \<lfloor>x\<rfloor> = x"

definition field_value :: "string \<Rightarrow> field \<Rightarrow> object \<Rightarrow> rat res" where
  "field_value n f raw = (case raw of
       OBool _ \<Rightarrow> Inl (ValueError (n @ '' must be a number''))
     | OOther \<Rightarrow> Inl (ValueError (n @ '' must be a number''))
     | ONotFinite \<Rightarrow> Inl (ValueError (n @ '' must be a finite number''))
     | ONumber x \<Rightarrow>
         if fd_kind f = IntegerField \<and> \<not> is_integral x then Inl (ValueError (n @ '' must be an integer''))
         else if x < fd_min f \<or> fd_max f < x then Inl (ValueError (n @ '' is out of range''))
         else Inr x)"

definition legacy_channel_fields :: "string list" where
  "legacy_channel_fields = [''minimum_lookback'', ''maximum_lookback'', ''lookback_step'', ''boundary_quantile'',
     ''minimum_r_squared'', ''minimum_containment'']"

abbreviation risk_names :: "string list" where
  "risk_names \<equiv> [''stop_loss_pct'', ''take_profit_pct'']"

text \<open>Values stored for the strategy before its fields changed are dropped, but not the risk.\<close>

definition drop_legacy :: "string \<Rightarrow> (string \<times> object) list \<Rightarrow> (string \<times> object) list" where
  "drop_legacy key supplied =
     (if key = ''linear_channel_breakout''
         \<and> list_all (\<lambda>(n, _). n \<in> set risk_names \<or> n \<in> set legacy_channel_fields) supplied
         \<and> list_ex (\<lambda>(n, _). n \<in> set legacy_channel_fields) supplied
      then filter (\<lambda>(n, _). n \<in> set risk_names) supplied
      else supplied)"

text \<open>Reading a parameter of a dictionary that has it.\<close>

definition value_of :: "param_values \<Rightarrow> parameters" where
  "value_of vs n = (case map_of vs n of Some x \<Rightarrow> x | None \<Rightarrow> 0)"

text \<open>The checks across fields.\<close>

definition check_combination :: "string \<Rightarrow> param_values \<Rightarrow> param_values res" where
  "check_combination key vs =
     (let p = value_of vs in
      case check_risk_config \<lparr> rk_stop_loss_pct = p ''stop_loss_pct'', rk_take_profit_pct = p ''take_profit_pct'' \<rparr> of
        Inl e \<Rightarrow> Inl e
      | Inr _ \<Rightarrow> (case (if key = ''bnf'' then map_sum id (\<lambda>_. ()) (check_bnf_config (bnf_config_of p)) else Inr ()) of
          Inl e \<Rightarrow> Inl e
        | Inr _ \<Rightarrow> first_error
           [(key = ''ma_crossover'' \<and> int_param p ''long_window'' \<le> int_param p ''short_window'',
               ValueError ''the short period must be smaller than the long period''),
            (key \<in> {''ema_trend'', ''macd_momentum''} \<and> int_param p ''slow_period'' \<le> int_param p ''fast_period'',
               ValueError ''the short period must be smaller than the long period''),
            (key = ''rsi_mean_reversion'' \<and> \<not> (p ''oversold_rsi'' < p ''exit_rsi'' \<and> p ''exit_rsi'' < p ''overbought_rsi''),
               ValueError ''RSI bounds must satisfy oversold < exit < overbought''),
            (key = ''vwap_reversion'' \<and> p ''entry_deviation_pct'' \<le> p ''exit_deviation_pct'',
               ValueError ''the VWAP exit deviation must be smaller than the entry deviation'')] vs))"

definition put_value :: "(string \<times> field) list \<Rightarrow> string \<times> object \<Rightarrow> param_values \<Rightarrow> param_values res" where
  "put_value fs x vs = (case map_of fs (fst x) of
       None \<Rightarrow> Inl (KeyError (fst x))
     | Some f \<Rightarrow> (case field_value (fst x) f (snd x) of Inl e \<Rightarrow> Inl e | Inr v \<Rightarrow> Inr (dict_put (fst x) v vs)))"

definition validate_strategy_parameters :: "string \<Rightarrow> (string \<times> object) list \<Rightarrow> param_values res" where
  "validate_strategy_parameters strategy given =
     (let key = lower strategy in
      case map_of strategy_fields key of
        None \<Rightarrow> Inl (ValueError (''unsupported strategy: '' @ strategy))
      | Some fs \<Rightarrow>
          let supplied = drop_legacy key given; unknown = sort (remdups (filter (\<lambda>n. n \<notin> set (map fst fs)) (map fst supplied))) in
          if unknown \<noteq> [] then Inl (ValueError (''unsupported parameters: '' @ join '', '' unknown))
          else (case foldM (put_value fs) supplied (map (\<lambda>(n, f). (n, fd_default f)) fs) of
              Inl e \<Rightarrow> Inl e
            | Inr vs \<Rightarrow> check_combination key vs))"

section \<open>Validated parameters\<close>

definition in_field :: "field \<Rightarrow> rat \<Rightarrow> bool" where
  "in_field f x \<longleftrightarrow> fd_min f \<le> x \<and> x \<le> fd_max f \<and> (fd_kind f = IntegerField \<longrightarrow> is_integral x)"

definition fits :: "(string \<times> field) list \<Rightarrow> param_values \<Rightarrow> bool" where
  "fits fs vs \<longleftrightarrow> map fst vs = map fst fs \<and> list_all2 (\<lambda>(_, f) (_, x). in_field f x) fs vs"

text \<open>The table is well formed: names are distinct, the defaults are valid and pass their own checks.\<close>

lemma table_distinct: "distinct supported_strategies \<and> list_all (\<lambda>(_, fs). distinct (map fst fs)) strategy_fields"
  by code_simp

lemma table_defaults: "list_all (\<lambda>(_, fs). fits fs (map (\<lambda>(n, f). (n, fd_default f)) fs)) strategy_fields"
  by code_simp

lemma defaults_validate:
  "list_all (\<lambda>k. validate_strategy_parameters k [] = default_strategy_parameters k) supported_strategies"
  by code_simp

lemma field_value_Inr: "field_value n f raw = Inr x \<longleftrightarrow> raw = ONumber x \<and> in_field f x"
  by (auto simp: field_value_def in_field_def not_less split: object.split)

lemma fits_put:
  assumes "fits fs vs" "map_of fs n = Some f" "in_field f x" "distinct (map fst fs)"
  shows "fits fs (dict_put n x vs)"
proof -
  have "map fst vs = map fst fs \<Longrightarrow> list_all2 (\<lambda>(_, f) (_, x). in_field f x) fs vs \<Longrightarrow> map_of fs n = Some f
      \<Longrightarrow> distinct (map fst fs)
      \<Longrightarrow> map fst (dict_put n x vs) = map fst fs \<and> list_all2 (\<lambda>(_, f) (_, x). in_field f x) fs (dict_put n x vs)"
  proof (induction fs arbitrary: vs)
    case (Cons g fs)
    then obtain v vs' where v: "vs = v # vs'" "fst v = fst g" by (cases vs) auto
    show ?case
    proof (cases "fst g = n")
      case True
      with Cons.prems v assms(3) show ?thesis by (cases g; cases v) auto
    next
      case False
      with Cons v show ?thesis by (cases g; cases v) auto
    qed
  qed simp
  with assms show ?thesis by (simp add: fits_def)
qed

lemma check_combination_Inr: "check_combination key vs = Inr ws \<Longrightarrow> ws = vs"
  by (auto simp: check_combination_def Let_def first_error_Inr split: sum.splits if_splits)

text \<open>Validated parameters are exactly the fields of the strategy, each inside its bounds and, for an
  integer field, integral.\<close>

lemma validated_fits:
  assumes "validate_strategy_parameters strategy given = Inr vs"
  shows "\<exists>fs. map_of strategy_fields (lower strategy) = Some fs \<and> fits fs vs \<and> check_combination (lower strategy) vs = Inr vs"
proof -
  obtain fs ws where fs: "map_of strategy_fields (lower strategy) = Some fs"
      "foldM (put_value fs) (drop_legacy (lower strategy) given) (map (\<lambda>(n, f). (n, fd_default f)) fs) = Inr ws"
      "check_combination (lower strategy) ws = Inr vs"
    using assms by (auto simp: validate_strategy_parameters_def Let_def split: option.splits if_splits sum.splits)
  have mem: "(lower strategy, fs) \<in> set strategy_fields" using fs(1) by (rule map_of_SomeD)
  have "fits fs (map (\<lambda>(n, f). (n, fd_default f)) fs)" "distinct (map fst fs)"
    using table_defaults table_distinct mem by (auto simp: list_all_iff)
  then have "fits fs ws"
    by (intro foldM_inv [where P = "fits fs", OF fs(2)])
      (auto simp: put_value_def field_value_Inr split: option.splits sum.splits intro: fits_put)
  with fs check_combination_Inr [OF fs(3)] show ?thesis by auto
qed

text \<open>Validating validated parameters gives them back.\<close>

lemma fits_lookup: "fits fs vs \<Longrightarrow> distinct (map fst fs) \<Longrightarrow> (n, x) \<in> set vs \<Longrightarrow> \<exists>f. map_of fs n = Some f \<and> in_field f x"
proof -
  assume h: "fits fs vs" "distinct (map fst fs)" "(n, x) \<in> set vs"
  then obtain i where i: "i < length vs" "vs ! i = (n, x)" by (auto simp: in_set_conv_nth)
  have l: "length fs = length vs" "map fst vs = map fst fs" using h(1) by (auto simp: fits_def dest: map_eq_imp_length_eq)
  then have "fst (fs ! i) = n" using i by (metis fst_conv nth_map)
  moreover have "in_field (snd (fs ! i)) x"
    using h(1) i l by (auto simp: fits_def list_all2_conv_all_nth split_beta)
  ultimately show ?thesis using h(2) i l by (metis map_of_eq_Some_iff nth_mem prod.collapse)
qed

end
