(* ===== verification/Composite_Strategy.thy ===== *)
theory Composite_Strategy
  imports Strategy_Parameters Market_Bars
begin

text \<open>
  Composite strategies (\<open>strategy/composite.py\<close>): their definitions with the validation of a user's
  input, the check of the references between them, and the run over closed one-minute bars.

  A definition embeds the definitions of the stored versions it refers to; the resolver, which reads
  them from the store, is an argument.  Input is JSON text that was parsed: an object is the list of
  its members, numbers are finite.  The text of a value that is not a string, and the integer a string
  spells, are arguments.  Messages are English renderings of the source's.
\<close>

section \<open>Definitions\<close>

datatype rule_operator = MatchAll | MatchAny

datatype rule =
    AtomicRule (rule_key: string) string string param_values
  | CompositeRule (rule_key: string) string int string composite
and rule_group = RuleGroup (group_operator: rule_operator) (group_window: int) (group_rules: "rule list")
and composite = Composite (cm_name: string) (cm_description: string) (cm_enabled: bool) (cm_direction: trade_side)
    (cm_setup: rule_group) (cm_entry: rule_group) (cm_exit: rule_group) (cm_risk: risk_config) (cm_holding: int)

datatype group_role = SetupRole | EntryRole | ExitRole

definition role_name :: "group_role \<Rightarrow> string" where
  "role_name r = (case r of SetupRole \<Rightarrow> ''setup'' | EntryRole \<Rightarrow> ''entry'' | ExitRole \<Rightarrow> ''exit'')"

definition group_of :: "composite \<Rightarrow> group_role \<Rightarrow> rule_group" where
  "group_of d r = (case r of SetupRole \<Rightarrow> cm_setup d | EntryRole \<Rightarrow> cm_entry d | ExitRole \<Rightarrow> cm_exit d)"

section \<open>Input\<close>

datatype json = NullValue | BoolValue bool | NumberValue rat | TextValue string | ListValue "json list"
  | ObjectValue "(string \<times> json) list"

record input_context =
  ic_text :: "json \<Rightarrow> string"
  ic_integer :: "string \<Rightarrow> int option"
  ic_saved :: "string \<Rightarrow> (string \<times> json) list"
  ic_resolver :: "(string \<Rightarrow> int \<Rightarrow> (string option \<times> composite) option) option"

definition text_value :: "input_context \<Rightarrow> json \<Rightarrow> string" where
  "text_value c j = (case j of TextValue s \<Rightarrow> s | _ \<Rightarrow> ic_text c j)"

definition member :: "(string \<times> json) list \<Rightarrow> string \<Rightarrow> json \<Rightarrow> json" where
  "member m k d = (case map_of m k of None \<Rightarrow> d | Some j \<Rightarrow> j)"

definition json_truthy :: "json \<Rightarrow> bool" where
  "json_truthy j = (case j of NullValue \<Rightarrow> False | BoolValue b \<Rightarrow> b | NumberValue x \<Rightarrow> x \<noteq> 0 | TextValue s \<Rightarrow> s \<noteq> []
     | ListValue xs \<Rightarrow> xs \<noteq> [] | ObjectValue m \<Rightarrow> m \<noteq> [])"

definition python_int :: "rat \<Rightarrow> int" where
  "python_int x = (if 0 \<le> x then \<lfloor>x\<rfloor> else \<lceil>x\<rceil>)"

text \<open>\<open>_number\<close>.\<close>

definition number_value :: "string \<Rightarrow> rat \<Rightarrow> rat \<Rightarrow> json \<Rightarrow> rat res" where
  "number_value label lo hi j = (case j of
       NumberValue x \<Rightarrow> if lo \<le> x \<and> x \<le> hi then Inr x else Inl (ValueError (label @ '' is out of range''))
     | _ \<Rightarrow> Inl (ValueError (label @ '' must be a number'')))"

definition version_value :: "input_context \<Rightarrow> json \<Rightarrow> int option" where
  "version_value c j = (case j of NumberValue x \<Rightarrow> Some (python_int x) | BoolValue b \<Rightarrow> Some (if b then 1 else 0)
     | TextValue s \<Rightarrow> ic_integer c s | _ \<Rightarrow> None)"

definition object_value :: "json \<Rightarrow> object" where
  "object_value j = (case j of NumberValue x \<Rightarrow> ONumber x | BoolValue b \<Rightarrow> OBool b | _ \<Rightarrow> OOther)"

definition rule_identity :: "input_context \<Rightarrow> group_role \<Rightarrow> nat \<Rightarrow> (string \<times> json) list \<Rightarrow> string res" where
  "rule_identity c r i m =
     (let given = member m ''id'' NullValue;
          key = (if json_truthy given then text_value c given else role_name r @ ''-'' @ show_nat (i + 1)) in
      if length key > 80 then Inl (ValueError ''a rule id has at most 80 characters'') else Inr key)"

definition validate_composite_rule :: "input_context \<Rightarrow> group_role \<Rightarrow> nat \<Rightarrow> (string \<times> json) list \<Rightarrow> rule res" where
  "validate_composite_rule c r i m =
     (case ic_resolver c of
        None \<Rightarrow> Inl (ValueError ''a composite reference needs a version resolver'')
      | Some resolver \<Rightarrow>
          let sid = strip (text_value c (member m ''strategy_id'' (TextValue []))) in
          if length sid > 80 then Inl (ValueError ''a strategy_id has at most 80 characters'')
          else (case version_value c (member m ''version'' (NumberValue 0)) of
              None \<Rightarrow> Inl (ValueError ''the version must be a positive integer'')
            | Some v \<Rightarrow>
                if sid = [] \<or> v < 1 then Inl (ValueError ''a reference needs a strategy_id and a version'')
                else (case resolver sid v of
                    None \<Rightarrow> Inl (ValueError (''unknown composite version: '' @ sid @ '' v'' @ show_int v))
                  | Some (given_name, d) \<Rightarrow>
                      (case rule_identity c r i m of Inl e \<Rightarrow> Inl e
                       | Inr key \<Rightarrow> Inr (CompositeRule key sid v (case given_name of None \<Rightarrow> cm_name d | Some n \<Rightarrow> n) d)))))"

definition rule_overrides :: "group_role \<Rightarrow> (string \<times> json) list \<Rightarrow> (string \<times> json) list res" where
  "rule_overrides r m = (case member m ''parameters'' NullValue of
       NullValue \<Rightarrow> Inr []
     | ObjectValue overrides \<Rightarrow> Inr overrides
     | _ \<Rightarrow> Inl (ValueError (role_name r @ '': invalid rule parameters'')))"

definition merged_parameters :: "input_context \<Rightarrow> string \<Rightarrow> (string \<times> json) list \<Rightarrow> (string \<times> object) list" where
  "merged_parameters c strategy overrides =
     map (\<lambda>(n, j). (n, object_value j)) (foldl (\<lambda>d (n, j). dict_put n j d) (ic_saved c strategy) overrides)"

definition validate_atomic_rule :: "input_context \<Rightarrow> group_role \<Rightarrow> nat \<Rightarrow> (string \<times> json) list \<Rightarrow> rule res" where
  "validate_atomic_rule c r i m =
     (let strategy = lower (text_value c (member m ''strategy'' (TextValue [])));
          interval = text_value c (member m ''interval'' (TextValue ''1m'')) in
      if strategy \<notin> set supported_strategies then Inl (ValueError (role_name r @ '' uses an unsupported strategy: '' @ strategy))
      else res_then (validate_timeframe interval) (\<lambda>_.
           res_then (rule_overrides r m) (\<lambda>overrides.
           res_then (rule_identity c r i m) (\<lambda>key.
           res_then (validate_strategy_parameters strategy (merged_parameters c strategy overrides)) (\<lambda>ps.
           Inr (AtomicRule key strategy (strip (lower interval)) ps))))))"

definition validate_rule :: "input_context \<Rightarrow> group_role \<Rightarrow> nat \<times> json \<Rightarrow> rule res" where
  "validate_rule c r x = (case x of (i, ObjectValue m) \<Rightarrow>
         let source = lower (text_value c (member m ''source'' (TextValue ''atomic''))) in
         if source = ''composite'' then validate_composite_rule c r i m
         else if source = ''atomic'' then validate_atomic_rule c r i m
         else Inl (ValueError (role_name r @ '': invalid source of a rule''))
     | _ \<Rightarrow> Inl (ValueError (role_name r @ '': a rule must be an object'')))"

definition validate_group :: "input_context \<Rightarrow> group_role \<Rightarrow> json \<Rightarrow> rule_group res" where
  "validate_group c r j = (case j of
       ObjectValue m \<Rightarrow>
         let operator = lower (text_value c (member m ''operator'' (TextValue (if r = ExitRole then ''any'' else ''all'')))) in
         if operator \<noteq> ''all'' \<and> operator \<noteq> ''any'' then Inl (ValueError (role_name r @ '': operator must be all or any''))
         else res_then (number_value (role_name r @ '' confirmation window'') 1 1440
                (member m ''confirmation_window_minutes'' (NumberValue 15))) (\<lambda>window.
              (case member m ''rules'' (ListValue []) of
                 ListValue js \<Rightarrow>
                   if length js > 20 then Inl (ValueError (role_name r @ '': at most 20 rules''))
                   else if r = EntryRole \<and> js = [] then Inl (ValueError ''entry needs a rule'')
                   else res_then (mapM (validate_rule c r) (zip [0..<length js] js)) (\<lambda>rules.
                     Inr (RuleGroup (if operator = ''any'' then MatchAny else MatchAll) (python_int window) rules))
               | _ \<Rightarrow> Inl (ValueError (role_name r @ '': rules must be a list''))))
     | _ \<Rightarrow> Inl (ValueError (role_name r @ '' must be a rule group'')))"

text \<open>The groups of \<open>default_composite_definition\<close> that stand in for absent members.\<close>

definition default_group :: "string \<Rightarrow> rat \<Rightarrow> string \<Rightarrow> string \<Rightarrow> json" where
  "default_group operator window strategy interval = ObjectValue [(''operator'', TextValue operator),
     (''confirmation_window_minutes'', NumberValue window),
     (''rules'', ListValue [ObjectValue [(''strategy'', TextValue strategy), (''interval'', TextValue interval)]])]"

definition default_setup :: json where
  "default_setup = default_group ''all'' 60 ''orb'' ''30m''"

definition default_exit :: json where
  "default_exit = default_group ''any'' 5 ''bnf'' ''1m''"

definition direction_value :: "string \<Rightarrow> trade_side res" where
  "direction_value s = (if s = ''both'' then Inr BothSides else if s = ''long'' then Inr LongOnly
     else if s = ''short'' then Inr ShortOnly else Inl (ValueError ''direction must be both, long or short''))"

definition validate_risk :: "input_context \<Rightarrow> (string \<times> json) list \<Rightarrow> (risk_config \<times> int) res" where
  "validate_risk c m =
     res_then (number_value ''stop loss'' (1 / 10000) (2 / 10) (member m ''stop_loss_pct'' NullValue)) (\<lambda>stop.
     res_then (number_value ''take profit'' (1 / 10000) (5 / 10) (member m ''take_profit_pct'' NullValue)) (\<lambda>take_profit.
     res_then (check_risk_config \<lparr> rk_stop_loss_pct = stop, rk_take_profit_pct = take_profit \<rparr>) (\<lambda>risk.
     res_then (number_value ''maximum holding time'' 1 10080 (member m ''max_holding_minutes'' (NumberValue 240))) (\<lambda>holding.
     let interval = text_value c (member m ''monitor_interval'' (TextValue ''1m'')) in
     res_then (validate_timeframe interval) (\<lambda>_.
       if strip (lower interval) \<noteq> ''1m'' then Inl (ValueError ''risk is monitored on one-minute bars'')
       else Inr (risk, python_int holding))))))"

definition validate_composite_definition :: "input_context \<Rightarrow> (string \<times> json) list \<Rightarrow> composite res" where
  "validate_composite_definition c raw =
     (let given_name = strip (text_value c (member raw ''name'' (TextValue [])));
          description = strip (text_value c (member raw ''description'' (TextValue []))) in
      if given_name = [] \<or> length given_name > 80 then Inl (ValueError ''the strategy name must have 1 to 80 characters'')
      else if length description > 500 then Inl (ValueError ''the strategy description has at most 500 characters'')
      else res_then (direction_value (lower (text_value c (member raw ''direction'' (TextValue ''both''))))) (\<lambda>direction.
        (case member raw ''risk'' NullValue of
           ObjectValue m \<Rightarrow>
             res_then (validate_risk c m) (\<lambda>(risk, holding).
             res_then (validate_group c SetupRole (member raw ''setup'' default_setup)) (\<lambda>setup.
             res_then (validate_group c EntryRole (member raw ''entry'' NullValue)) (\<lambda>entry.
             res_then (validate_group c ExitRole (member raw ''exit'' default_exit)) (\<lambda>exits.
               Inr (Composite given_name description (json_truthy (member raw ''enabled'' (BoolValue True))) direction
                 setup entry exits risk holding)))))
         | _ \<Rightarrow> Inl (ValueError ''risk is required''))))"

section \<open>References between definitions\<close>

lemma group_rules_size: "size_list size (group_rules g) < size g"
  by (cases g) simp

lemma group_sizes:
  "size_list size (group_rules (cm_setup d)) < size d" "size_list size (group_rules (cm_entry d)) < size d"
  "size_list size (group_rules (cm_exit d)) < size d"
  using group_rules_size [of "cm_setup d"] group_rules_size [of "cm_entry d"] group_rules_size [of "cm_exit d"]
  by (cases d; simp)+

lemma rules_size: "size_list size (group_rules (cm_setup d) @ group_rules (cm_entry d) @ group_rules (cm_exit d)) < size d"
  using group_rules_size [of "cm_setup d"] group_rules_size [of "cm_entry d"] group_rules_size [of "cm_exit d"]
  by (cases d) simp

text \<open>\<open>validate_composite_dependencies\<close>: the walk over the embedded definitions.\<close>

function walk :: "nat \<Rightarrow> string list \<Rightarrow> nat \<Rightarrow> composite \<Rightarrow> unit res"
  and walk_rules :: "nat \<Rightarrow> string list \<Rightarrow> nat \<Rightarrow> rule list \<Rightarrow> unit res" where
  "walk max_depth path depth d =
     (if depth > max_depth then Inl (ValueError ''too many levels of composite references'')
      else walk_rules max_depth path depth
        (group_rules (cm_setup d) @ group_rules (cm_entry d) @ group_rules (cm_exit d)))"
| "walk_rules max_depth path depth [] = Inr ()"
| "walk_rules max_depth path depth (AtomicRule k s i ps # rs) = walk_rules max_depth path depth rs"
| "walk_rules max_depth path depth (CompositeRule k sid v n d # rs) =
     (if sid \<in> set path then Inl (ValueError ''composite strategies must not refer to themselves'')
      else (case walk max_depth (path @ [sid]) (depth + 1) d of
          Inl e \<Rightarrow> Inl e
        | Inr _ \<Rightarrow> walk_rules max_depth path depth rs))"
  by pat_completeness auto

termination
  by (relation "measure (\<lambda>x. case x of Inl (_, _, _, d) \<Rightarrow> size d | Inr (_, _, _, rs) \<Rightarrow> size_list size rs)")
    (simp_all add: rules_size [simplified])

definition validate_composite_dependencies :: "composite \<Rightarrow> string \<Rightarrow> unit res" where
  "validate_composite_dependencies d sid = walk 3 [sid] 1 d"

end
