(* ===== verification/Composite_Run.thy ===== *)
theory Composite_Run
  imports Composite_Strategy
begin

text \<open>
  The run of a composite strategy over closed one-minute bars (\<open>strategy/composite.py\<close>): the events of
  its rules, their confirmation windows, the fills at the next open and the risk exits.

  The state of the loop is a record; position, levels and signals are those of a \<open>simulation\<close>, whose
  other fields stay as they are.  The cache of embedded definitions is passed through the rules as the
  source's dictionary is.  Events are sorted by their times, which is the order of their ISO texts as
  long as all have one offset.
\<close>

section \<open>Events of the rules\<close>

record rule_event =
  re_signal :: sim_signal
  re_role :: group_role
  re_rule :: string
  re_interval :: string

abbreviation event_time :: "rule_event \<Rightarrow> instant" where
  "event_time e \<equiv> ss_time (re_signal e)"

definition rule_signal_events :: "group_role \<Rightarrow> string \<Rightarrow> string \<Rightarrow> sim_signal list \<Rightarrow> rule_event list" where
  "rule_signal_events r key interval sigs =
     map (\<lambda>x. \<lparr> re_signal = x, re_role = r, re_rule = key, re_interval = interval \<rparr>)
       (filter (\<lambda>x. ss_event x = (if r = ExitRole then SigExit else SigEntry)) sigs)"

text \<open>\<open>analyze_strategies\<close> for one strategy with given parameters.\<close>

definition analyze_strategy :: "pandas \<Rightarrow> string \<Rightarrow> string \<Rightarrow> param_values \<Rightarrow> kbar list \<Rightarrow> sim_signal list res" where
  "analyze_strategy p interval strategy ps bs =
     res_then (validate_strategy_parameters strategy (map (\<lambda>(n, x). (n, ONumber x)) ps)) (\<lambda>vs.
       strategy_signals p interval (lower strategy) (value_of vs) False bs)"

definition atomic_signals :: "pandas \<Rightarrow> kbar list \<Rightarrow> string \<Rightarrow> string \<Rightarrow> param_values \<Rightarrow> sim_signal list res" where
  "atomic_signals p bs strategy interval ps =
     res_then (aggregate_kbars bs interval None) (\<lambda>gs. analyze_strategy p interval strategy ps gs)"

section \<open>The loop\<close>

record trace_row =
  tr_time :: instant
  tr_direction :: signal_direction
  tr_rules :: "string list"

record composite_intent =
  ci_action :: signal_kind
  ci_direction :: signal_direction
  ci_time :: instant
  ci_rules :: "string list"
  ci_rule_times :: "instant list"
  ci_contract :: string
  ci_session :: bar_session
  ci_trading_date :: date

record composite_run =
  cp_sim :: simulation
  cp_entry_at :: "instant option"
  cp_pending_entry :: "(signal_direction \<times> rule_event list \<times> instant) option"
  cp_pending_exit :: "string option"
  cp_last :: "(string \<times> instant) list option"
  cp_latest :: "((string \<times> signal_direction) \<times> rule_event) list"
  cp_trace :: "trace_row list"
  cp_intents :: "composite_intent list"

definition new_composite_run :: composite_run where
  "new_composite_run = \<lparr> cp_sim = new_simulation, cp_entry_at = None, cp_pending_entry = None, cp_pending_exit = None,
     cp_last = None, cp_latest = [], cp_trace = [], cp_intents = [] \<rparr>"

definition group_match :: "rule_group \<Rightarrow> ((string \<times> signal_direction) \<times> rule_event) list \<Rightarrow> signal_direction
    \<Rightarrow> instant \<Rightarrow> instant option \<Rightarrow> bool \<times> rule_event list" where
  "group_match g latest dir now minimum_time =
     (if group_rules g = [] then (True, [])
      else let matches = concat (map (\<lambda>r. case map_of latest (rule_key r, dir) of
                 None \<Rightarrow> []
               | Some e \<Rightarrow> if (case minimum_time of None \<Rightarrow> True | Some m \<Rightarrow> m \<le> event_time e)
                     \<and> 0 \<le> now - event_time e \<and> now - event_time e \<le> seconds (60 * group_window g)
                   then [e] else []) (group_rules g)) in
        (if group_operator g = MatchAny then matches \<noteq> [] else length matches = length (group_rules g), matches))"

definition event_signature :: "rule_event list \<Rightarrow> (string \<times> instant) list" where
  "event_signature es = map (\<lambda>e. (re_rule e, event_time e)) es"

definition emit_composite :: "signal_kind \<Rightarrow> kbar \<Rightarrow> price \<Rightarrow> string \<Rightarrow> instant option \<Rightarrow> composite_run \<Rightarrow> composite_run" where
  "emit_composite ev b p reason trigger s =
     s\<lparr>cp_sim := emit_signal ''composite'' ev b p reason None trigger (cp_sim s)\<rparr>"

definition in_position :: "composite_run \<Rightarrow> bool" where
  "in_position s \<longleftrightarrow> sm_position (cp_sim s) \<noteq> 0"

definition leave_position :: "kbar \<Rightarrow> price \<Rightarrow> string \<Rightarrow> composite_run \<Rightarrow> composite_run" where
  "leave_position b p reason s =
     (emit_composite SigExit b p reason None s)
       \<lparr>cp_sim := (cp_sim (emit_composite SigExit b p reason None s))\<lparr>sm_position := 0\<rparr>, cp_entry_at := None\<rparr>"

text \<open>The steps of an iteration: the pending exit, the pending entry, the risk exits, the events of the
  bar, the exits and entries they confirm, and the end of the session.\<close>

definition fill_pending_exit :: "kbar \<Rightarrow> composite_run \<Rightarrow> composite_run" where
  "fill_pending_exit b s = (case cp_pending_exit s of
       None \<Rightarrow> s
     | Some reason \<Rightarrow> if in_position s then (leave_position b (kb_open b) reason s)\<lparr>cp_pending_exit := None\<rparr> else s)"

definition crosses_session :: "kbar \<Rightarrow> rule_event list \<Rightarrow> bool" where
  "crosses_session b es \<longleftrightarrow> list_ex (\<lambda>e. ss_contract (re_signal e) \<noteq> kb_contract b \<or> ss_session (re_signal e) \<noteq> kb_session b) es"

definition direction_sign :: "signal_direction \<Rightarrow> int" where
  "direction_sign d = (if d = LongSide then 1 else -1)"

definition fill_pending_entry :: "risk_config \<Rightarrow> kbar \<Rightarrow> signal_direction \<Rightarrow> rule_event list \<Rightarrow> instant
    \<Rightarrow> composite_run \<Rightarrow> composite_run res" where
  "fill_pending_entry risk b dir matched trigger s =
     res_then (calculate_levels (kb_open b) (direction_sign dir) risk) (\<lambda>l.
       let s1 = emit_composite SigEntry b (kb_open b) ''composite_confirmed'' (Some (isoformat_millis trigger))
             (s\<lparr>cp_sim := (cp_sim s)\<lparr>sm_position := direction_sign dir, sm_levels := l\<rparr>, cp_entry_at := Some (kb_time b)\<rparr>) in
       Inr (s1\<lparr>cp_trace := cp_trace s1 @ [\<lparr> tr_time = stamp b, tr_direction = dir, tr_rules = map re_rule matched \<rparr>],
               cp_pending_entry := None\<rparr>))"

definition check_exits :: "int \<Rightarrow> kbar \<Rightarrow> composite_run \<Rightarrow> composite_run" where
  "check_exits max_holding b s =
     (if \<not> in_position s then s
      else (case triggered_exit (sm_position (cp_sim s)) (kb_open b) (kb_high b) (kb_low b) (sm_levels (cp_sim s)) of
          Some (p, e) \<Rightarrow> leave_position b p (level_reason e) s
        | None \<Rightarrow> (case cp_entry_at s of
              Some t \<Rightarrow> if seconds (60 * max_holding) \<le> kb_time b - t then leave_position b (kb_close b) ''max_holding_time'' s else s
            | None \<Rightarrow> s)))"

definition note_events :: "kbar \<Rightarrow> rule_event list \<Rightarrow> composite_run \<Rightarrow> composite_run" where
  "note_events b events s = s\<lparr>cp_latest :=
     foldl (\<lambda>d e. dict_put (re_rule e, ss_direction (re_signal e)) e d) (cp_latest s)
       (filter (\<lambda>e. event_time e = kb_time b) events)\<rparr>"

definition composite_bar_intent :: "kbar \<Rightarrow> signal_kind \<Rightarrow> signal_direction \<Rightarrow> rule_event list \<Rightarrow> composite_intent" where
  "composite_bar_intent b action dir es = \<lparr> ci_action = action, ci_direction = dir, ci_time = stamp b,
     ci_rules = map re_rule es, ci_rule_times = (if action = SigEntry then map event_time es else []),
     ci_contract = kb_contract b, ci_session = kb_session b, ci_trading_date = kb_trading_date b \<rparr>"

definition position_side :: "composite_run \<Rightarrow> signal_direction" where
  "position_side s = (if sm_position (cp_sim s) = 1 then LongSide else ShortSide)"

definition confirm_exit :: "composite \<Rightarrow> kbar \<Rightarrow> composite_run \<Rightarrow> composite_run" where
  "confirm_exit d b s =
     (let (matched, es) = group_match (cm_exit d) (cp_latest s) (position_side s) (kb_time b) (cp_entry_at s) in
      if matched \<and> es \<noteq> [] \<and> Some (event_signature es) \<noteq> cp_last s
      then s\<lparr>cp_pending_exit := Some ''composite_exit'', cp_last := Some (event_signature es),
             cp_intents := cp_intents s @ [composite_bar_intent b SigExit (position_side s) es]\<rparr>
      else s)"

fun confirm_entry :: "composite \<Rightarrow> kbar \<Rightarrow> signal_direction list \<Rightarrow> composite_run \<Rightarrow> composite_run" where
  "confirm_entry d b [] s = s"
| "confirm_entry d b (dir # dirs) s =
     (let (setup_ok, setup_es) = group_match (cm_setup d) (cp_latest s) dir (kb_time b) None;
          (entry_ok, entry_es) = group_match (cm_entry d) (cp_latest s) dir (kb_time b) None;
          es = setup_es @ entry_es in
      if setup_ok \<and> entry_ok \<and> entry_es \<noteq> [] \<and> Some (event_signature es) \<noteq> cp_last s
      then s\<lparr>cp_pending_entry := Some (dir, es, kb_time b), cp_last := Some (event_signature es),
             cp_intents := cp_intents s @ [composite_bar_intent b SigEntry dir es]\<rparr>
      else confirm_entry d b dirs s)"

definition allowed_directions :: "trade_side \<Rightarrow> signal_direction list" where
  "allowed_directions t = (case t of BothSides \<Rightarrow> [LongSide, ShortSide] | LongOnly \<Rightarrow> [LongSide] | ShortOnly \<Rightarrow> [ShortSide])"

definition end_session :: "kbar \<Rightarrow> kbar list \<Rightarrow> composite_run \<Rightarrow> composite_run" where
  "end_session b rest s = (case rest of
       [] \<Rightarrow> s
     | n # _ \<Rightarrow> if in_position s \<and> (kb_contract n \<noteq> kb_contract b \<or> kb_session n \<noteq> kb_session b)
         then (leave_position b (kb_close b) ''session_end'' s)\<lparr>cp_pending_exit := None\<rparr> else s)"

text \<open>The part of an iteration after the fills.\<close>

definition composite_decide :: "composite \<Rightarrow> rule_event list \<Rightarrow> kbar \<Rightarrow> kbar list \<Rightarrow> composite_run \<Rightarrow> composite_run" where
  "composite_decide d events b rest s =
     (let s1 = note_events b events (check_exits (cm_holding d) b s) in
      end_session b rest
        (if in_position s1 then confirm_exit d b s1
         else if cp_pending_entry s1 = None then confirm_entry d b (allowed_directions (cm_direction d)) s1
         else s1))"

text \<open>A pending entry whose events are of another contract or session is dropped, and the iteration with
  it: the events of that bar are not noted.\<close>

definition composite_bar :: "composite \<Rightarrow> rule_event list \<Rightarrow> kbar \<Rightarrow> kbar list \<Rightarrow> composite_run \<Rightarrow> composite_run res" where
  "composite_bar d events b rest s0 =
     (let s = fill_pending_exit b s0 in
      case (if in_position s then None else cp_pending_entry s) of
        None \<Rightarrow> Inr (composite_decide d events b rest s)
      | Some (dir, matched, trigger) \<Rightarrow>
          if crosses_session b matched then Inr (s\<lparr>cp_pending_entry := None\<rparr>)
          else res_then (fill_pending_entry (cm_risk d) b dir matched trigger s)
                 (\<lambda>s1. Inr (composite_decide d events b rest s1)))"

fun composite_bars :: "composite \<Rightarrow> rule_event list \<Rightarrow> kbar list \<Rightarrow> composite_run \<Rightarrow> composite_run res" where
  "composite_bars d events [] s = Inr s"
| "composite_bars d events (b # rest) s = res_then (composite_bar d events b rest s) (composite_bars d events rest)"

definition run_composite :: "composite \<Rightarrow> rule_event list \<Rightarrow> kbar list \<Rightarrow> composite_run res" where
  "run_composite d events bs =
     res_then (check_risk_config (cm_risk d)) (\<lambda>_.
     res_then (composite_bars d (sort_key event_time events) bs new_composite_run) (\<lambda>s.
       Inr (if in_position s then leave_position (last bs) (kb_close (last bs)) ''range_end'' s else s)))"

section \<open>The definition\<close>

type_synonym composite_cache = "((string \<times> int) \<times> sim_signal list) list"

lemma res_then_cong [fundef_cong]:
  "r = r' \<Longrightarrow> (\<And>x. r' = Inr x \<Longrightarrow> f x = g x) \<Longrightarrow> res_then r f = res_then r' g"
  by (auto simp: res_then_def split: sum.split)

function generate_composite_signals :: "pandas \<Rightarrow> kbar list \<Rightarrow> composite \<Rightarrow> composite_cache
    \<Rightarrow> (composite_run \<times> composite_cache) res"
  and rule_events :: "pandas \<Rightarrow> kbar list \<Rightarrow> group_role \<Rightarrow> rule list \<Rightarrow> composite_cache \<Rightarrow> (rule_event list \<times> composite_cache) res" where
  "generate_composite_signals p source_bars d cache =
     (let bs = sort_key kb_time (filter (\<lambda>b. kb_status b = ClosedBar) source_bars) in
      if bs = [] then Inr (new_composite_run, cache)
      else res_then (rule_events p bs SetupRole (group_rules (cm_setup d)) cache) (\<lambda>(es1, c1).
           res_then (rule_events p bs EntryRole (group_rules (cm_entry d)) c1) (\<lambda>(es2, c2).
           res_then (rule_events p bs ExitRole (group_rules (cm_exit d)) c2) (\<lambda>(es3, c3).
           res_then (run_composite d (es1 @ es2 @ es3) bs) (\<lambda>s. Inr (s, c3))))))"
| "rule_events p bs r [] cache = Inr ([], cache)"
| "rule_events p bs r (AtomicRule key strategy interval ps # rs) cache =
     res_then (atomic_signals p bs strategy interval ps) (\<lambda>sigs.
     res_then (rule_events p bs r rs cache) (\<lambda>(es, c).
       Inr (rule_signal_events r key interval sigs @ es, c)))"
| "rule_events p bs r (CompositeRule key sid v n d # rs) cache =
     res_then (case map_of cache (sid, v) of
         Some sigs \<Rightarrow> Inr (sigs, cache)
       | None \<Rightarrow> res_then (generate_composite_signals p bs d cache) (\<lambda>(s, c).
           let sigs = sm_signals (cp_sim s) in Inr (sigs, dict_put (sid, v) sigs c))) (\<lambda>(sigs, c1).
     res_then (rule_events p bs r rs c1) (\<lambda>(es, c2).
       Inr (rule_signal_events r key ''multi'' sigs @ es, c2)))"
  by pat_completeness auto

termination
  by (relation "measure (\<lambda>x. case x of Inl (_, _, d, _) \<Rightarrow> size d | Inr (_, _, _, rs, _) \<Rightarrow> size_list size rs)")
    (auto simp: group_sizes)

definition evaluate_composite_intents :: "pandas \<Rightarrow> kbar list \<Rightarrow> composite \<Rightarrow> composite_intent list res" where
  "evaluate_composite_intents p source_bars d =
     res_then (generate_composite_signals p source_bars d []) (\<lambda>(s, _). Inr (cp_intents s))"

end
