(* ===== verification/Composite_Safety.thy ===== *)
theory Composite_Safety
  imports Composite_Run
begin

text \<open>
  What composite strategies keep: validated definitions are inside their bounds, accepted references
  are shallow and free of cycles, an entry is confirmed inside the windows of its groups, and every
  position a run opens is closed again.
\<close>

section \<open>Validated definitions\<close>

definition rule_ok :: "rule \<Rightarrow> bool" where
  "rule_ok r = (case r of
       AtomicRule key strategy interval ps \<Rightarrow> length key \<le> 80 \<and> map_of supported_timeframes interval \<noteq> None
         \<and> (\<exists>fs. map_of strategy_fields strategy = Some fs \<and> fits fs ps)
     | CompositeRule key sid v n d \<Rightarrow> length key \<le> 80 \<and> sid \<noteq> [] \<and> length sid \<le> 80 \<and> 1 \<le> v)"

definition group_ok :: "rule_group \<Rightarrow> bool" where
  "group_ok g \<longleftrightarrow> 1 \<le> group_window g \<and> group_window g \<le> 1440 \<and> length (group_rules g) \<le> 20 \<and> list_all rule_ok (group_rules g)"

lemma rule_identity_Inr: "rule_identity c r i m = Inr key \<Longrightarrow> length key \<le> 80"
  by (auto simp: rule_identity_def Let_def split: if_splits)

lemma lower_lower_fields: "map_of strategy_fields (lower s) = Some fs \<Longrightarrow> lower (lower s) = lower s"
  by simp

lemma validate_atomic_ok: "validate_atomic_rule c r i m = Inr x \<Longrightarrow> rule_ok x"
  by (auto simp: validate_atomic_rule_def Let_def res_then_Inr rule_ok_def validate_timeframe_def
      split: if_splits option.splits dest!: rule_identity_Inr validated_fits)

lemma validate_rule_ok: "validate_rule c r x = Inr y \<Longrightarrow> rule_ok y"
  by (auto simp: validate_rule_def Let_def validate_composite_rule_def rule_ok_def [of "CompositeRule _ _ _ _ _"] not_less
      split: prod.splits json.splits if_splits option.splits sum.splits dest!: rule_identity_Inr validate_atomic_ok)

lemma number_value_Inr: "number_value l lo hi j = Inr x \<Longrightarrow> lo \<le> x \<and> x \<le> hi"
  by (auto simp: number_value_def split: json.splits if_splits)

lemma python_int_bounds: "of_int l \<le> x \<Longrightarrow> x \<le> of_int h \<Longrightarrow> 0 \<le> l \<Longrightarrow> l \<le> python_int x \<and> python_int x \<le> h"
proof -
  assume h: "of_int l \<le> x" "x \<le> of_int h" "0 \<le> l"
  then have "0 \<le> x" by (meson of_int_0_le_iff order_trans)
  moreover have "l \<le> \<lfloor>x\<rfloor>" "\<lfloor>x\<rfloor> \<le> h" using h by linarith+
  ultimately show ?thesis by (simp add: python_int_def)
qed

lemma validate_group_ok:
  assumes "validate_group c r j = Inr g"
  shows "group_ok g \<and> (r = EntryRole \<longrightarrow> group_rules g \<noteq> [])"
proof -
  obtain window js rules op where g: "g = RuleGroup op (python_int window) rules" "1 \<le> window" "window \<le> 1440"
      "length js \<le> 20" "r = EntryRole \<longrightarrow> js \<noteq> []" "mapM (validate_rule c r) (zip [0..<length js] js) = Inr rules"
  proof -
    obtain m where m: "j = ObjectValue m" using assms by (cases j) (simp_all add: validate_group_def)
    obtain js where js: "member m ''rules'' (ListValue []) = ListValue js"
      using assms m by (cases "member m ''rules'' (ListValue [])") (simp_all add: validate_group_def Let_def res_then_Inr split: if_splits)
    obtain window where w: "number_value (role_name r @ '' confirmation window'') 1 1440
        (member m ''confirmation_window_minutes'' (NumberValue 15)) = Inr window"
      using assms m by (auto simp: validate_group_def Let_def res_then_Inr split: if_splits)
    obtain rules where rules: "mapM (validate_rule c r) (zip [0..<length js] js) = Inr rules"
      "length js \<le> 20" "r = EntryRole \<longrightarrow> js \<noteq> []" "group_rules g = rules" "group_window g = python_int window"
      using assms m js w by (auto simp: validate_group_def Let_def res_then_Inr split: if_splits)
    then have "g = RuleGroup (group_operator g) (python_int window) rules" by (cases g) simp
    from that [OF this _ _ rules(2,3,1)] number_value_Inr [OF w] show thesis by simp
  qed
  have "length rules = length js" using mapM_Inr_length [OF g(6)] by simp
  moreover have "list_all rule_ok rules"
    using mapM_Inr_set [OF g(6)] validate_rule_ok by (fastforce simp: list_all_iff)
  ultimately show ?thesis using g python_int_bounds [of 1 window 1440] by (auto simp: group_ok_def)
qed

lemma validate_risk_ok:
  assumes "validate_risk c m = Inr (risk, holding)"
  shows "check_risk_config risk = Inr risk \<and> 1 \<le> holding \<and> holding \<le> 10080"
proof -
  obtain stop take_profit hours where r: "check_risk_config \<lparr> rk_stop_loss_pct = stop, rk_take_profit_pct = take_profit \<rparr> = Inr risk"
      "1 \<le> hours" "hours \<le> 10080" "holding = python_int hours"
    using assms by (auto simp: validate_risk_def Let_def res_then_Inr split: if_splits dest!: number_value_Inr)
  have "check_risk_config risk = Inr risk"
    using r(1) by (auto simp: check_risk_config_def first_error_Inr)
  with r python_int_bounds [of 1 hours 10080] show ?thesis by simp
qed

lemma validated_composite:
  assumes "validate_composite_definition c raw = Inr d"
  shows "cm_name d \<noteq> [] \<and> length (cm_name d) \<le> 80 \<and> length (cm_description d) \<le> 500
    \<and> group_ok (cm_setup d) \<and> group_ok (cm_entry d) \<and> group_ok (cm_exit d) \<and> group_rules (cm_entry d) \<noteq> []
    \<and> check_risk_config (cm_risk d) = Inr (cm_risk d) \<and> 1 \<le> cm_holding d \<and> cm_holding d \<le> 10080"
proof -
  obtain m dir risk holding su en ex where d:
      "d = Composite (strip (text_value c (member raw ''name'' (TextValue []))))
        (strip (text_value c (member raw ''description'' (TextValue [])))) (json_truthy (member raw ''enabled'' (BoolValue True)))
        dir su en ex risk holding"
      "validate_risk c m = Inr (risk, holding)" "validate_group c SetupRole (member raw ''setup'' default_setup) = Inr su"
      "validate_group c EntryRole (member raw ''entry'' NullValue) = Inr en"
      "validate_group c ExitRole (member raw ''exit'' default_exit) = Inr ex"
      "cm_name d \<noteq> []" "length (cm_name d) \<le> 80" "length (cm_description d) \<le> 500"
  proof -
    obtain m where m: "member raw ''risk'' NullValue = ObjectValue m"
      using assms by (cases "member raw ''risk'' NullValue")
        (simp_all add: validate_composite_definition_def Let_def res_then_Inr split: if_splits)
    from assms that show thesis
      by (auto simp: validate_composite_definition_def Let_def res_then_Inr m not_less split: if_splits)
  qed
  have "check_risk_config risk = Inr risk \<and> 1 \<le> holding \<and> holding \<le> 10080" by (rule validate_risk_ok [OF d(2)])
  with d validate_group_ok [OF d(3)] validate_group_ok [OF d(4)] validate_group_ok [OF d(5)] show ?thesis by simp
qed

section \<open>References\<close>

primrec rule_depth :: "rule \<Rightarrow> nat" and group_depth :: "rule_group \<Rightarrow> nat" and composite_depth :: "composite \<Rightarrow> nat" where
  "rule_depth (AtomicRule k s i ps) = 0"
| "rule_depth (CompositeRule k sid v n d) = composite_depth d"
| "group_depth (RuleGroup op w rs) = fold max (map rule_depth rs) 0"
| "composite_depth (Composite n ds en dir s e x rk h) = Suc (max (group_depth s) (max (group_depth e) (group_depth x)))"

primrec rule_references :: "rule \<Rightarrow> string set" and group_references :: "rule_group \<Rightarrow> string set"
  and composite_references :: "composite \<Rightarrow> string set" where
  "rule_references (AtomicRule k s i ps) = {}"
| "rule_references (CompositeRule k sid v n d) = insert sid (composite_references d)"
| "group_references (RuleGroup op w rs) = \<Union> (set (map rule_references rs))"
| "composite_references (Composite n ds en dir s e x rk h) = group_references s \<union> group_references e \<union> group_references x"

lemma fold_max: "fold max xs (a :: nat) \<le> b \<longleftrightarrow> a \<le> b \<and> (\<forall>x \<in> set xs. x \<le> b)"
  by (induction xs arbitrary: a) auto

lemma composite_depth_le: "composite_depth d \<le> Suc n \<longleftrightarrow>
    (\<forall>r \<in> set (group_rules (cm_setup d) @ group_rules (cm_entry d) @ group_rules (cm_exit d)). rule_depth r \<le> n)"
proof -
  have "group_depth g \<le> n \<longleftrightarrow> (\<forall>r \<in> set (group_rules g). rule_depth r \<le> n)" for g
    by (cases g) (simp add: fold_max)
  then show ?thesis by (cases d) auto
qed

lemma composite_references_rules: "composite_references d =
    \<Union> (rule_references ` set (group_rules (cm_setup d) @ group_rules (cm_entry d) @ group_rules (cm_exit d)))"
proof -
  have "group_references g = \<Union> (rule_references ` set (group_rules g))" for g by (cases g) simp
  then show ?thesis by (cases d) auto
qed

lemma walk_accepted:
  "walk m path k d = Inr () \<Longrightarrow> k \<le> m \<and> composite_depth d \<le> Suc (m - k) \<and> composite_references d \<inter> set path = {}"
  "walk_rules m path k rs = Inr () \<Longrightarrow> k \<le> m \<Longrightarrow> \<forall>r \<in> set rs. rule_depth r \<le> m - k \<and> rule_references r \<inter> set path = {}"
proof (induction m path k d and m path k rs rule: walk_walk_rules.induct)
  case (1 m path k d)
  then show ?case by (auto simp: composite_depth_le composite_references_rules split: if_splits)
next
  case (4 m path k key sid v n d rs)
  then show ?case by (fastforce split: if_splits sum.splits)
qed auto

text \<open>An accepted definition has at most three levels and is not among the strategies it refers to,
  directly or through others.\<close>

lemma dependencies_accepted:
  "validate_composite_dependencies d sid = Inr () \<Longrightarrow> composite_depth d \<le> 3 \<and> sid \<notin> composite_references d"
  using walk_accepted(1) [of 3 "[sid]" 1 d] by (simp add: validate_composite_dependencies_def)

section \<open>Confirmation\<close>

lemma group_match_events:
  assumes "group_match g latest dir now minimum_time = (ok, es)" "e \<in> set es"
  shows "\<exists>r \<in> set (group_rules g). map_of latest (rule_key r, dir) = Some e
    \<and> event_time e \<le> now \<and> now \<le> event_time e + seconds (60 * group_window g)
    \<and> (\<forall>m. minimum_time = Some m \<longrightarrow> m \<le> event_time e)"
  using assms by (fastforce simp: group_match_def Let_def split: if_splits option.splits)

lemma full_concat:
  assumes "\<And>x. length (f x) \<le> 1"
  shows "length (concat (map f xs)) = length xs \<Longrightarrow> x \<in> set xs \<Longrightarrow> length (f x) = 1"
proof (induction xs)
  case (Cons y xs)
  have "length (concat (map f xs)) \<le> length xs" for xs
  proof (induction xs)
    case (Cons z zs)
    with assms [of z] show ?case by simp
  qed simp
  from this [of xs] Cons assms [of y] show ?case by auto
qed simp

lemma group_match_all:
  assumes "group_match g latest dir now minimum_time = (True, es)" "group_operator g = MatchAll" "r \<in> set (group_rules g)"
  shows "\<exists>e \<in> set es. map_of latest (rule_key r, dir) = Some e"
proof -
  let ?one = "\<lambda>r. case map_of latest (rule_key r, dir) of None \<Rightarrow> []
    | Some e \<Rightarrow> if (case minimum_time of None \<Rightarrow> True | Some m \<Rightarrow> m \<le> event_time e)
        \<and> 0 \<le> now - event_time e \<and> now - event_time e \<le> seconds (60 * group_window g) then [e] else []"
  have es: "es = concat (map ?one (group_rules g))" "length es = length (group_rules g)"
    using assms by (auto simp: group_match_def Let_def split: if_splits)
  have short: "length (?one x) \<le> 1" for x by (auto split: option.split)
  have "length (?one r) = 1" by (rule full_concat [OF short _ assms(3)]) (use es in simp)
  then obtain e where e: "?one r = [e]" by (auto simp: length_Suc_conv)
  then have "e \<in> set (?one r)" by simp
  then have "e \<in> set es" unfolding es(1) set_concat set_map using assms(3) by blast
  moreover have "map_of latest (rule_key r, dir) = Some e" using e by (auto split: option.splits if_splits)
  ultimately show ?thesis by blast
qed

section \<open>Positions are closed\<close>

definition run_ok :: "composite_run \<Rightarrow> bool" where
  "run_ok s \<longleftrightarrow> positions_alternate (cp_sim s) \<and> sm_pending_entry (cp_sim s) = 0"

lemma run_ok_same: "run_ok s \<Longrightarrow> cp_sim s' = cp_sim s \<Longrightarrow> run_ok s'"
  by (simp add: run_ok_def)

lemma run_ok_leave: "run_ok s \<Longrightarrow> in_position s \<Longrightarrow> run_ok (leave_position b p reason s)"
  by (simp add: run_ok_def leave_position_def emit_composite_def in_position_def alternate_exit)
    (simp add: emit_signal_def)

lemma not_in_position_leave [simp]: "\<not> in_position (leave_position b p reason s)"
  by (simp add: in_position_def leave_position_def)

lemma run_ok_enter:
  assumes "run_ok s" "\<not> in_position s" "fill_pending_entry risk b dir matched trigger s = Inr s'"
  shows "run_ok s'"
proof -
  obtain l where l: "cp_sim s' = emit_signal ''composite'' SigEntry b (kb_open b) ''composite_confirmed'' None
      (Some (isoformat_millis trigger)) ((cp_sim s)\<lparr>sm_position := direction_sign dir, sm_levels := l\<rparr>)"
    using assms(3) by (auto simp: fill_pending_entry_def res_then_Inr Let_def emit_composite_def)
  let ?t = "(cp_sim s)\<lparr>sm_pending_entry := direction_sign dir\<rparr>"
  have "positions_alternate ?t" using assms(1)
    by (auto simp: run_ok_def positions_alternate_def matches_open_def direction_sign_def split: option.splits)
  from alternate_enter [OF this, of "''composite''" b "kb_open b" "''composite_confirmed''" None "Some (isoformat_millis trigger)" l]
  have "positions_alternate ((emit_signal ''composite'' SigEntry b (kb_open b) ''composite_confirmed'' None
      (Some (isoformat_millis trigger)) (?t\<lparr>sm_position := direction_sign dir, sm_levels := l\<rparr>))
      \<lparr>sm_pending_entry := 0, sm_trigger_time := None\<rparr>)"
    using assms(2) by (simp add: in_position_def direction_sign_def split: if_splits)
  then have "positions_alternate (cp_sim s')"
    by (rule positions_alternate_other)
      (use assms(1) in \<open>simp_all add: l emit_signal_def run_ok_def\<close>)
  then show ?thesis using assms(1) by (simp add: run_ok_def l emit_signal_def)
qed

lemma run_ok_confirm_entry: "run_ok s \<Longrightarrow> run_ok (confirm_entry d b dirs s)"
  by (induction d b dirs s rule: confirm_entry.induct) (auto simp: Let_def split: prod.splits intro: run_ok_same)

lemma run_ok_decide: "run_ok s \<Longrightarrow> run_ok (composite_decide d events b rest s)"
proof -
  assume s: "run_ok s"
  have 1: "run_ok (check_exits h b s)" for h
    using s by (auto simp: check_exits_def intro: run_ok_leave split: option.splits)
  have 2: "run_ok (note_events b events (check_exits h b s))" for h
    by (rule run_ok_same [OF 1 [of h]]) (simp add: note_events_def)
  have 3: "run_ok t \<Longrightarrow> run_ok (confirm_exit d b t)" for t
    by (auto simp: confirm_exit_def Let_def split: prod.splits intro: run_ok_same)
  have 4: "run_ok t \<Longrightarrow> run_ok (end_session b rest t)" for t
    by (auto simp: end_session_def intro: run_ok_same [OF run_ok_leave] split: list.splits)
  show ?thesis unfolding composite_decide_def Let_def
    by (intro 4) (auto intro: 2 3 run_ok_confirm_entry)
qed

lemma run_ok_bar: "run_ok s \<Longrightarrow> composite_bar d events b rest s = Inr s' \<Longrightarrow> run_ok s'"
proof -
  assume s: "run_ok s" and r: "composite_bar d events b rest s = Inr s'"
  let ?t = "fill_pending_exit b s"
  have t: "run_ok ?t"
    using s by (auto simp: fill_pending_exit_def intro: run_ok_same [OF run_ok_leave] split: option.splits)
  show ?thesis
    using r t by (auto simp: composite_bar_def Let_def res_then_Inr
        split: option.splits if_splits prod.splits intro: run_ok_decide run_ok_enter run_ok_same)
qed

lemma run_ok_bars: "run_ok s \<Longrightarrow> composite_bars d events bs s = Inr s' \<Longrightarrow> run_ok s'"
  by (induction d events bs s rule: composite_bars.induct) (auto simp: res_then_Inr intro: run_ok_bar)

text \<open>A run that returns has closed every position it opened: its signals are entries each followed by
  the exit of the same direction and levels.\<close>

lemma run_composite_closed:
  assumes "run_composite d events bs = Inr s"
  shows "alternate None (sm_signals (cp_sim s)) None"
proof -
  obtain t where t: "composite_bars d (sort_key event_time events) bs new_composite_run = Inr t"
      "s = (if in_position t then leave_position (last bs) (kb_close (last bs)) ''range_end'' t else t)"
    using assms by (auto simp: run_composite_def res_then_Inr)
  have "run_ok new_composite_run"
    by (simp add: run_ok_def new_composite_run_def new_simulation_def positions_alternate_def matches_open_def)
  then have "run_ok t" using t(1) by (rule run_ok_bars)
  then have "run_ok s \<and> \<not> in_position s" using t(2) by (auto intro: run_ok_leave)
  then obtain cur where "alternate None (sm_signals (cp_sim s)) cur" "matches_open (cp_sim s) cur"
    "sm_position (cp_sim s) = 0" by (auto simp: run_ok_def positions_alternate_def in_position_def)
  then show ?thesis by (cases cur) (auto simp: matches_open_def)
qed

lemma composite_signals_closed:
  assumes "generate_composite_signals p bs d cache = Inr (s, cache')"
  shows "alternate None (sm_signals (cp_sim s)) None"
  using assms
  by (auto simp: Let_def res_then_Inr new_composite_run_def new_simulation_def split: if_splits intro: run_composite_closed)

end
