(* ===== verification/Auth_Store.thy ===== *)
theory Auth_Store
  imports Account_Risk
begin

text \<open>
  The accounts of the platform (\<open>auth/repository.py\<close>, \<open>auth/service.py\<close>, \<open>auth/permissions.py\<close>): users
  bound to verified identities, requests for access, the audit log, and the permissions of the roles.

  The tables are read as their connection sees them, with the keys, the case-insensitive unique index of
  the e-mail and the foreign keys the schema declares.  An operation that raises inside a transaction
  without a rollback leaves its earlier statements behind, as the source does: the users it inserted are
  in the table of the connection and not committed, until an operation commits them or rolls them back
  (\<open>st_loose\<close> holds their ids).  Fresh ids (\<open>uuid4\<close>) and the
  clock are arguments; \<open>casefold\<close> is \<open>lower\<close>, which it is for the characters of an e-mail address.
\<close>

section \<open>Tables\<close>

datatype request_status = RequestPending | RequestApproved | RequestRejected

record user_row =
  us_id :: string
  us_subject :: "string option"
  us_email :: string
  us_role :: role
  us_status :: account_status
  us_mode :: trading_mode
  us_created_at :: instant
  us_updated_at :: instant
  us_seen :: "instant option"

record access_request =
  rr_id :: string
  rr_subject :: string
  rr_email :: string
  rr_status :: request_status
  rr_requested_at :: instant
  rr_updated_at :: instant
  rr_resolved_at :: "instant option"
  rr_resolved_by :: "string option"

record audit_event =
  ae_id :: string
  ae_actor :: "string option"
  ae_subject :: "string option"
  ae_action :: string
  ae_resource_type :: string
  ae_resource :: "string option"
  ae_details :: "(string \<times> string) list"
  ae_created_at :: instant

record auth_store =
  st_users :: "user_row list"
  st_requests :: "access_request list"
  st_audit :: "audit_event list"
  st_permissions :: "(role \<times> string) list"
  st_loose :: "string list"

definition commit_rows :: "auth_store \<Rightarrow> auth_store" where
  "commit_rows s = s\<lparr>st_loose := []\<rparr>"

definition roll_back :: "auth_store \<Rightarrow> auth_store" where
  "roll_back s = s\<lparr>st_users := filter (\<lambda>u. us_id u \<notin> set (st_loose s)) (st_users s), st_loose := []\<rparr>"

section \<open>Permissions\<close>

definition common_permissions :: "string list" where
  "common_permissions = [''market.read'', ''strategy.read.own'', ''strategy.write.own'', ''backtest.run'',
     ''backtest_history.read.own'', ''backtest_history.delete.own'']"

definition role_permissions :: "role \<Rightarrow> string list" where
  "role_permissions r = (case r of
       Researcher \<Rightarrow> common_permissions
     | Trader \<Rightarrow> common_permissions @ [''broker.connect.own'', ''orders.paper'', ''orders.live'', ''orders.live.read'',
         ''orders.live.arm'', ''orders.live.manual'', ''orders.live.cancel'', ''orders.live.close'', ''orders.live.auto.read'',
         ''orders.live.auto.arm'', ''orders.live.auto.pause'', ''orders.live.auto.stop'', ''positions.read.own'']
     | Admin \<Rightarrow> common_permissions @ [''orders.paper'', ''positions.read.own'', ''admin.settings.read'',
         ''admin.settings.write'', ''admin.providers.read'', ''admin.providers.write'', ''admin.users.manage'', ''audit.read''])"

text \<open>\<open>_migrate\<close> adds the rows of the current table; rows of an earlier version stay.\<close>

definition add_permissions :: "auth_store \<Rightarrow> auth_store" where
  "add_permissions s = commit_rows (s\<lparr>st_permissions := foldl (\<lambda>rows x. if x \<in> set rows then rows else rows @ [x]) (st_permissions s)
     (concat (map (\<lambda>r. map (\<lambda>p. (r, p)) (role_permissions r)) [Researcher, Trader, Admin]))\<rparr>)"

definition permissions_for_role :: "role \<Rightarrow> auth_store \<Rightarrow> string list" where
  "permissions_for_role r s = sort (map snd (filter (\<lambda>x. fst x = r) (st_permissions s)))"

section \<open>Checks\<close>

definition normalize_email :: "string \<Rightarrow> string" where
  "normalize_email e = lower (strip e)"

definition validate_email :: "string \<Rightarrow> string res" where
  "validate_email e = (let n = normalize_email e in
     if n = [] \<or> CHR ''@'' \<notin> set n \<or> length n > 254 then Inl (ValueError ''a valid email of at most 254 characters is required'')
     else Inr n)"

definition validate_trading_mode :: "role \<Rightarrow> trading_mode \<Rightarrow> unit res" where
  "validate_trading_mode r m = first_error
     [(r = Researcher \<and> m \<noteq> ModeDisabled, ValueError ''researcher accounts cannot enable trading modes''),
      (r = Admin \<and> m = ModeLive, ValueError ''admin accounts cannot enable live trading'')] ()"

definition same_email :: "string \<Rightarrow> string \<Rightarrow> bool" where
  "same_email a b \<longleftrightarrow> lower a = lower b"

definition user_of_email :: "string \<Rightarrow> auth_store \<Rightarrow> user_row option" where
  "user_of_email e s = find (\<lambda>u. same_email (us_email u) e) (st_users s)"

definition user_of_id :: "string \<Rightarrow> auth_store \<Rightarrow> user_row option" where
  "user_of_id i s = find (\<lambda>u. us_id u = i) (st_users s)"

definition known_user :: "string option \<Rightarrow> auth_store \<Rightarrow> bool" where
  "known_user i s \<longleftrightarrow> (case i of None \<Rightarrow> True | Some k \<Rightarrow> user_of_id k s \<noteq> None)"

definition insert_user :: "user_row \<Rightarrow> auth_store \<Rightarrow> auth_store res" where
  "insert_user u s =
     (if \<exists>q \<in> set (st_users s). us_id q = us_id u \<or> same_email (us_email q) (us_email u) \<or> us_subject u \<noteq> None \<and> us_subject q = us_subject u
      then Inl (IntegrityError ''UNIQUE constraint failed'')
      else Inr (s\<lparr>st_users := st_users s @ [u], st_loose := st_loose s @ [us_id u]\<rparr>))"

definition append_audit_event :: "string \<Rightarrow> instant \<Rightarrow> string \<Rightarrow> string \<Rightarrow> string option \<Rightarrow> string option \<Rightarrow> string option
    \<Rightarrow> (string \<times> string) list \<Rightarrow> (auth_store, unit) prog" where
  "append_audit_event eid now action kind actor subj resource details s =
     (if eid \<in> ae_id ` set (st_audit s) \<or> \<not> known_user actor s \<or> \<not> known_user subj s
      then (Inl (IntegrityError ''constraint failed''), s)
      else (Inr (), commit_rows (s\<lparr>st_audit := st_audit s @ [\<lparr> ae_id = eid, ae_actor = actor, ae_subject = subj, ae_action = action,
         ae_resource_type = kind, ae_resource = resource, ae_details = details, ae_created_at = now \<rparr>]\<rparr>)))"

text \<open>The rows as objects.\<close>

definition to_user :: "auth_store \<Rightarrow> user_row \<Rightarrow> auth_user" where
  "to_user s u = \<lparr> au_id = us_id u, au_email = us_email u, au_role = us_role u, au_status = us_status u,
     au_mode = us_mode u, au_permissions = permissions_for_role (us_role u) s, au_subject = us_subject u,
     au_registered = True \<rparr>"

definition user_by_email :: "string \<Rightarrow> auth_store \<Rightarrow> auth_user option" where
  "user_by_email e s = map_option (to_user s) (user_of_email (normalize_email e) s)"

definition user_by_id :: "string \<Rightarrow> auth_store \<Rightarrow> auth_user option" where
  "user_by_id i s = map_option (to_user s) (user_of_id i s)"

definition auth_users :: "auth_store \<Rightarrow> auth_user list" where
  "auth_users s = map (to_user s) (sort_key us_created_at (sort_key us_email (st_users s)))"

definition role_text :: "role \<Rightarrow> string" where
  "role_text r = (case r of Researcher \<Rightarrow> ''researcher'' | Trader \<Rightarrow> ''trader'' | Admin \<Rightarrow> ''admin'')"

definition status_text :: "account_status \<Rightarrow> string" where
  "status_text st = (case st of AccActive \<Rightarrow> ''active'' | AccSuspended \<Rightarrow> ''suspended'' | AccRevoked \<Rightarrow> ''revoked'')"

definition mode_text :: "trading_mode \<Rightarrow> string" where
  "mode_text m = (case m of ModeDisabled \<Rightarrow> ''disabled'' | ModePaper \<Rightarrow> ''paper'' | ModeLive \<Rightarrow> ''live'')"

definition user_details :: "role \<Rightarrow> account_status \<Rightarrow> trading_mode \<Rightarrow> (string \<times> string) list" where
  "user_details r st m = [(''role'', role_text r), (''status'', status_text st), (''trading_mode'', mode_text m)]"

section \<open>Users\<close>

definition bootstrap_admin :: "string \<Rightarrow> string \<Rightarrow> instant \<Rightarrow> (auth_store, unit) prog" where
  "bootstrap_admin uid raw now s =
     (let email = normalize_email raw in
      if email = [] then (Inr (), s)
      else (case user_of_email email s of
          Some u \<Rightarrow> if us_role u \<noteq> Admin then (Inl (ValueError ''bootstrap admin email is registered as a non-admin''), s)
            else (Inr (), s)
        | None \<Rightarrow> (case insert_user \<lparr> us_id = uid, us_subject = None, us_email = email, us_role = Admin, us_status = AccActive,
              us_mode = ModeDisabled, us_created_at = now, us_updated_at = now, us_seen = None \<rparr> s of
            Inl _ \<Rightarrow> (Inr (), s) | Inr s' \<Rightarrow> (Inr (), s'))))"

fun bootstrap_admins :: "(string \<times> string) list \<Rightarrow> instant \<Rightarrow> (auth_store, unit) prog" where
  "bootstrap_admins [] now s = (Inr (), commit_rows s)"
| "bootstrap_admins ((uid, raw) # xs) now s = (case bootstrap_admin uid raw now s of
       (Inl e, s') \<Rightarrow> (Inl e, s') | (Inr _, s') \<Rightarrow> bootstrap_admins xs now s')"

definition pending_request :: "string \<Rightarrow> auth_store \<Rightarrow> access_request option" where
  "pending_request email s = find (\<lambda>r. same_email (rr_email r) email \<and> rr_status r = RequestPending) (st_requests s)"

definition resolve_request :: "request_status \<Rightarrow> string \<Rightarrow> string option \<Rightarrow> instant \<Rightarrow> auth_store \<Rightarrow> auth_store res" where
  "resolve_request st rid actor now s =
     (if \<not> known_user actor s then Inl (IntegrityError ''FOREIGN KEY constraint failed'')
      else Inr (s\<lparr>st_requests := tbl_update (\<lambda>r. rr_id r = rid)
        (\<lambda>r. r\<lparr>rr_status := st, rr_updated_at := now, rr_resolved_at := Some now, rr_resolved_by := actor\<rparr>) (st_requests s)\<rparr>))"

text \<open>The transaction of \<open>create_user\<close>: the user, and the pending request it answers.  The handler of the
  constraint error does not roll back.\<close>

definition create_user_rows :: "user_row \<Rightarrow> string option \<Rightarrow> instant \<Rightarrow> (auth_store, string option) prog" where
  "create_user_rows u actor now s =
     (case insert_user u s of
        Inl _ \<Rightarrow> (Inl (ValueError ''email is already registered''), s)
      | Inr s1 \<Rightarrow> (case pending_request (us_email u) s1 of
            None \<Rightarrow> (Inr None, commit_rows s1)
          | Some r \<Rightarrow> (case resolve_request RequestApproved (rr_id r) actor now s1 of
                Inl _ \<Rightarrow> (Inl (ValueError ''email is already registered''), s1)
              | Inr s2 \<Rightarrow> (Inr (Some (rr_id r)), commit_rows s2))))"

record fresh =
  fr_user :: string
  fr_request :: string
  fr_events :: "nat \<Rightarrow> string"
  fr_clock :: "nat \<Rightarrow> instant"

definition loaded :: "string \<Rightarrow> auth_user option \<Rightarrow> auth_user res" where
  "loaded why u = (case u of None \<Rightarrow> Inl (RuntimeError why) | Some x \<Rightarrow> Inr x)"

definition create_user :: "fresh \<Rightarrow> string \<Rightarrow> role \<Rightarrow> account_status \<Rightarrow> trading_mode \<Rightarrow> string option
    \<Rightarrow> (auth_store, auth_user) prog" where
  "create_user f email r st m actor s =
     (case validate_email email of Inl e \<Rightarrow> (Inl e, s)
      | Inr n \<Rightarrow> (case validate_trading_mode r m of Inl e \<Rightarrow> (Inl e, s)
        | Inr _ \<Rightarrow> and_then (create_user_rows \<lparr> us_id = fr_user f, us_subject = None, us_email = n, us_role = r, us_status = st,
              us_mode = m, us_created_at = fr_clock f 0, us_updated_at = fr_clock f 0, us_seen = None \<rparr> actor (fr_clock f 0)) (\<lambda>approved.
            and_then (append_audit_event (fr_events f 0) (fr_clock f 1) ''user.created'' ''user'' actor (Some (fr_user f))
              (Some (fr_user f)) ((''email'', n) # user_details r st m)) (\<lambda>_.
            and_then (case approved of None \<Rightarrow> give ()
               | Some rid \<Rightarrow> append_audit_event (fr_events f 1) (fr_clock f 2) ''access_request.approved'' ''access_request'' actor None
                   (Some rid) [(''email'', n), (''source'', ''manual_user_creation'')]) (\<lambda>_.
            \<lambda>s'. lift_res (loaded ''created user could not be loaded'' (user_by_email n s')) s'))) s))"

definition update_user :: "fresh \<Rightarrow> string \<Rightarrow> role \<Rightarrow> account_status \<Rightarrow> trading_mode \<Rightarrow> string option
    \<Rightarrow> (auth_store, auth_user) prog" where
  "update_user f uid r st m actor s =
     (case validate_trading_mode r m of Inl e \<Rightarrow> (Inl e, s)
      | Inr _ \<Rightarrow> if user_of_id uid s = None then (Inl (ValueError ''platform user was not found''), s)
        else and_then (append_audit_event (fr_events f 0) (fr_clock f 1) ''user.updated'' ''user'' actor (Some uid) (Some uid)
               (user_details r st m)) (\<lambda>_ s'. lift_res (loaded ''updated user could not be loaded'' (user_by_id uid s')) s')
             (commit_rows (s\<lparr>st_users := tbl_update (\<lambda>u. us_id u = uid)
                (\<lambda>u. u\<lparr>us_role := r, us_status := st, us_mode := m, us_updated_at := fr_clock f 0\<rparr>) (st_users s)\<rparr>)))"

section \<open>Identities\<close>

record access_identity =
  id_subject :: string
  id_email :: "string option"

definition identity_email :: "access_identity \<Rightarrow> string option" where
  "identity_email i = (case id_email i of None \<Rightarrow> None | Some e \<Rightarrow>
     if e = [] \<or> normalize_email e = [] then None else Some (normalize_email e))"

definition resolve_identity :: "access_identity \<Rightarrow> instant \<Rightarrow> auth_store \<Rightarrow> auth_user option \<times> auth_store" where
  "resolve_identity i now s =
     (case find (\<lambda>u. us_subject u = Some (id_subject i)) (st_users s) of
        Some u \<Rightarrow> (Some (to_user s u),
          commit_rows (s\<lparr>st_users := tbl_update (\<lambda>q. us_id q = us_id u) (\<lambda>q. q\<lparr>us_seen := Some now\<rparr>) (st_users s)\<rparr>))
      | None \<Rightarrow> (case (case identity_email i of None \<Rightarrow> None | Some e \<Rightarrow> user_of_email e s) of
            None \<Rightarrow> (None, s)
          | Some u \<Rightarrow> if us_subject u \<noteq> None \<and> us_subject u \<noteq> Some (id_subject i) then (None, s)
              else let s' = commit_rows (s\<lparr>st_users := tbl_update (\<lambda>q. us_id q = us_id u)
                      (\<lambda>q. q\<lparr>us_subject := Some (id_subject i), us_seen := Some now, us_updated_at := now\<rparr>) (st_users s)\<rparr>) in
                (user_by_id (us_id u) s', s')))"

section \<open>Requests for access\<close>

definition submit_access_request :: "fresh \<Rightarrow> access_identity \<Rightarrow> (auth_store, access_request) prog" where
  "submit_access_request f i s =
     (case validate_email (case id_email i of None \<Rightarrow> [] | Some e \<Rightarrow> e) of
        Inl _ \<Rightarrow> (Inl (ValueError ''a verified email is required''), s)
      | Inr email \<Rightarrow>
        if length (id_subject i) > 255 then (Inl (ValueError ''verified identity subject is too long''), s)
        else if user_of_email email s \<noteq> None then (Inl (ValueError ''email is already registered''), s)
        else if find (\<lambda>r. same_email (rr_email r) email) (st_requests s) = None \<and> fr_request f \<in> rr_id ` set (st_requests s)
          then (Inl (IntegrityError ''UNIQUE constraint failed''), s)
        else let now = fr_clock f 0;
                 (rid, s1) = (case find (\<lambda>r. same_email (rr_email r) email) (st_requests s) of
                   None \<Rightarrow> (fr_request f, s\<lparr>st_requests := st_requests s @ [\<lparr> rr_id = fr_request f, rr_subject = id_subject i,
                      rr_email = email, rr_status = RequestPending, rr_requested_at = now, rr_updated_at = now,
                      rr_resolved_at = None, rr_resolved_by = None \<rparr>]\<rparr>)
                 | Some r \<Rightarrow> (rr_id r, s\<lparr>st_requests := tbl_update (\<lambda>q. rr_id q = rr_id r)
                      (\<lambda>q. q\<lparr>rr_subject := id_subject i, rr_status := RequestPending, rr_updated_at := now,
                        rr_resolved_at := None, rr_resolved_by := None\<rparr>) (st_requests s)\<rparr>)); s2 = commit_rows s1 in
             (case find (\<lambda>r. rr_id r = rid) (st_requests s2) of
                None \<Rightarrow> (Inl AssertionError, s2)
              | Some row \<Rightarrow> and_then (append_audit_event (fr_events f 0) (fr_clock f 1) ''access_request.submitted'' ''access_request''
                    None None (Some rid) [(''email'', email)]) (\<lambda>_. give row) s2))"

text \<open>\<open>ORDER BY requested_at DESC, request_id\<close>.\<close>

definition access_requests :: "request_status option \<Rightarrow> auth_store \<Rightarrow> access_request list" where
  "access_requests st s = sort_key (\<lambda>r. - rr_requested_at r) (sort_key rr_id
     (filter (\<lambda>r. case st of None \<Rightarrow> True | Some x \<Rightarrow> rr_status r = x) (st_requests s)))"

definition open_request :: "string \<Rightarrow> auth_store \<Rightarrow> access_request res" where
  "open_request rid s = (case find (\<lambda>r. rr_id r = rid) (st_requests s) of
       None \<Rightarrow> Inl (ValueError ''access request was not found'')
     | Some r \<Rightarrow> if rr_status r \<noteq> RequestPending then Inl (ValueError ''access request is no longer pending'') else Inr r)"

text \<open>A failed approval rolls back: its own rows, and any that were not yet committed.\<close>

definition approve_rows :: "user_row \<Rightarrow> access_request \<Rightarrow> string \<Rightarrow> instant \<Rightarrow> auth_store \<Rightarrow> auth_store res" where
  "approve_rows u r actor now s = (case insert_user u s of Inl e \<Rightarrow> Inl e
     | Inr s1 \<Rightarrow> resolve_request RequestApproved (rr_id r) (Some actor) now s1)"

definition approve_access_request :: "fresh \<Rightarrow> string \<Rightarrow> string \<Rightarrow> (auth_store, access_request \<times> auth_user) prog" where
  "approve_access_request f rid actor s =
     (case open_request rid s of Inl e \<Rightarrow> (Inl e, s)
      | Inr r \<Rightarrow>
        let now = fr_clock f 0;
            u = \<lparr> us_id = fr_user f, us_subject = Some (rr_subject r), us_email = rr_email r, us_role = Researcher,
                  us_status = AccActive, us_mode = ModeDisabled, us_created_at = now, us_updated_at = now, us_seen = Some now \<rparr> in
        (case approve_rows u r actor now s of
           Inl _ \<Rightarrow> (Inl (ValueError ''email is already registered''), roll_back s)
         | Inr s0 \<Rightarrow> let s1 = commit_rows s0 in (case (find (\<lambda>q. rr_id q = rid) (st_requests s1), user_by_id (fr_user f) s1) of
               (Some r', Some v) \<Rightarrow>
                 and_then (append_audit_event (fr_events f 0) (fr_clock f 1) ''user.created'' ''user'' (Some actor) (Some (fr_user f))
                   (Some (fr_user f)) ((''email'', rr_email r) # user_details Researcher AccActive ModeDisabled @ [(''source'', ''access_request'')])) (\<lambda>_.
                 and_then (append_audit_event (fr_events f 1) (fr_clock f 2) ''access_request.approved'' ''access_request'' (Some actor)
                   (Some (fr_user f)) (Some rid) [(''email'', rr_email r)]) (\<lambda>_. give (r', v))) s1
             | _ \<Rightarrow> (Inl AssertionError, s1))))"

definition reject_access_request :: "fresh \<Rightarrow> string \<Rightarrow> string \<Rightarrow> (auth_store, access_request) prog" where
  "reject_access_request f rid actor s =
     (case open_request rid s of Inl e \<Rightarrow> (Inl e, s)
      | Inr r \<Rightarrow> (case resolve_request RequestRejected rid (Some actor) (fr_clock f 0) s of Inl e \<Rightarrow> (Inl e, s)
        | Inr s0 \<Rightarrow> let s1 = commit_rows s0 in (case find (\<lambda>q. rr_id q = rid) (st_requests s1) of
              None \<Rightarrow> (Inl AssertionError, s1)
            | Some r' \<Rightarrow> and_then (append_audit_event (fr_events f 0) (fr_clock f 1) ''access_request.rejected'' ''access_request''
                (Some actor) None (Some rid) [(''email'', rr_email r)]) (\<lambda>_. give r') s1)))"

text \<open>The newest events of the log, oldest first.\<close>

definition recent_audit_events :: "nat \<Rightarrow> auth_store \<Rightarrow> audit_event list" where
  "recent_audit_events n s = (let newest = rev (sort_key ae_created_at (sort_key ae_id (st_audit s))) in
     sort_key ae_created_at (sort_key ae_id (take n newest)))"

section \<open>Authorization\<close>

definition identify :: "bool \<Rightarrow> access_identity \<Rightarrow> instant \<Rightarrow> (auth_store, auth_user) prog" where
  "identify enforced i now s = (case resolve_identity i now s of
       (None, s') \<Rightarrow> if enforced then (Inl (ValueError ''platform account is not registered''), s')
         else (Inr \<lparr> au_id = id_subject i, au_email = (case id_email i of None \<Rightarrow> [] | Some e \<Rightarrow> e), au_role = Researcher,
           au_status = AccActive, au_mode = ModeDisabled, au_permissions = [], au_subject = Some (id_subject i),
           au_registered = False \<rparr>, s')
     | (Some u, s') \<Rightarrow> if au_status u \<noteq> AccActive \<and> enforced
         then (Inl (ValueError (''platform account is '' @ status_text (au_status u))), s') else (Inr u, s'))"

definition local_development_user :: auth_user where
  "local_development_user = \<lparr> au_id = ''local-development'', au_email = ''local@development.invalid'', au_role = Admin,
     au_status = AccActive, au_mode = ModeDisabled, au_permissions = sort (role_permissions Admin),
     au_subject = Some ''access-disabled'', au_registered = False \<rparr>"

definition require_permission :: "bool \<Rightarrow> auth_user \<Rightarrow> string \<Rightarrow> unit res" where
  "require_permission enforced u permission =
     (if \<not> enforced then Inr ()
      else first_error
        [(\<not> au_registered u, ValueError ''platform account is not registered''),
         (au_status u \<noteq> AccActive, ValueError (''platform account is '' @ status_text (au_status u))),
         (permission \<notin> set (au_permissions u), ValueError (''permission denied: '' @ permission))] ())"

end
