(* ===== verification/Auth_Safety.thy ===== *)
theory Auth_Safety
  imports Auth_Store
begin

text \<open>
  What the account store keeps over every sequence of its operations: its keys, the trading modes its
  roles may have, and the binding of an account to the identity that first used it; and what the
  permission check of a request then means.
\<close>

section \<open>Operations\<close>

datatype auth_op =
    AddPermissions
  | BootstrapAdmins "(string \<times> string) list" instant
  | CreateUser fresh string role account_status trading_mode "string option"
  | UpdateUser fresh string role account_status trading_mode "string option"
  | ResolveIdentity access_identity instant
  | SubmitRequest fresh access_identity
  | ApproveRequest fresh string string
  | RejectRequest fresh string string
  | AppendAudit string instant string string "string option" "string option" "string option" "(string \<times> string) list"

fun auth_step :: "auth_store \<Rightarrow> auth_op \<Rightarrow> auth_store" where
  "auth_step s AddPermissions = add_permissions s"
| "auth_step s (BootstrapAdmins xs now) = snd (bootstrap_admins xs now s)"
| "auth_step s (CreateUser f e r st m actor) = snd (create_user f e r st m actor s)"
| "auth_step s (UpdateUser f uid r st m actor) = snd (update_user f uid r st m actor s)"
| "auth_step s (ResolveIdentity i now) = snd (resolve_identity i now s)"
| "auth_step s (SubmitRequest f i) = snd (submit_access_request f i s)"
| "auth_step s (ApproveRequest f rid actor) = snd (approve_access_request f rid actor s)"
| "auth_step s (RejectRequest f rid actor) = snd (reject_access_request f rid actor s)"
| "auth_step s (AppendAudit eid now action kind actor subj res details) =
     snd (append_audit_event eid now action kind actor subj res details s)"

definition empty_auth :: auth_store where
  "empty_auth = \<lparr> st_users = [], st_requests = [], st_audit = [], st_permissions = [], st_loose = [] \<rparr>"

section \<open>How an operation changes the users\<close>

definition mode_ok :: "user_row \<Rightarrow> bool" where
  "mode_ok u \<longleftrightarrow> validate_trading_mode (us_role u) (us_mode u) = Inr ()"

definition subjects :: "user_row list \<Rightarrow> string list" where
  "subjects us = concat (map (\<lambda>u. case us_subject u of None \<Rightarrow> [] | Some x \<Rightarrow> [x]) us)"

definition users_ok :: "user_row list \<Rightarrow> bool" where
  "users_ok us \<longleftrightarrow> distinct (map us_id us) \<and> distinct (map (lower \<circ> us_email) us) \<and> distinct (subjects us)
     \<and> (\<forall>u \<in> set us. mode_ok u)"

lemma mode_ok_iff: "mode_ok u \<longleftrightarrow> (us_role u = Researcher \<longrightarrow> us_mode u = ModeDisabled) \<and> (us_role u = Admin \<longrightarrow> us_mode u \<noteq> ModeLive)"
  by (auto simp: mode_ok_def validate_trading_mode_def first_error_Inr)

text \<open>A user keeps its id and e-mail, and its identity once it has one.\<close>

definition keeps_user :: "user_row \<Rightarrow> user_row \<Rightarrow> bool" where
  "keeps_user u v \<longleftrightarrow> us_id v = us_id u \<and> us_email v = us_email u \<and> (us_subject u \<noteq> None \<longrightarrow> us_subject v = us_subject u)"

definition keeps_users :: "user_row list \<Rightarrow> user_row list \<Rightarrow> bool" where
  "keeps_users us vs \<longleftrightarrow> (\<forall>u \<in> set us. \<exists>v \<in> set vs. keeps_user u v)"

lemma keeps_user_refl [simp]: "keeps_user u u"
  by (simp add: keeps_user_def)

lemma keeps_users_mono: "set us \<subseteq> set vs \<Longrightarrow> keeps_users us vs"
  using keeps_user_refl unfolding keeps_users_def by blast

lemma keeps_user_trans: "keeps_user a b \<Longrightarrow> keeps_user b c \<Longrightarrow> keeps_user a c"
  by (auto simp: keeps_user_def)

lemma keeps_users_trans: "keeps_users a b \<Longrightarrow> keeps_users b c \<Longrightarrow> keeps_users a c"
  unfolding keeps_users_def by (meson keeps_user_trans)

lemma keeps_users_update: "(\<And>u. u \<in> set us \<Longrightarrow> p u \<Longrightarrow> keeps_user u (f u)) \<Longrightarrow> keeps_users us (tbl_update p f us)"
  unfolding keeps_users_def
proof
  fix u assume h: "\<And>u. u \<in> set us \<Longrightarrow> p u \<Longrightarrow> keeps_user u (f u)" "u \<in> set us"
  then have "(if p u then f u else u) \<in> set (tbl_update p f us)" by (auto simp: set_tbl_update)
  moreover have "keeps_user u (if p u then f u else u)" using h by simp
  ultimately show "\<exists>v \<in> set (tbl_update p f us). keeps_user u v" by blast
qed

text \<open>The users of the table with the ids of those not committed.  An operation leaves the users alone,
  adds one, updates one in place, commits, or rolls back what was not committed.\<close>

type_synonym user_rows = "user_row list \<times> string list"

definition rows_of :: "auth_store \<Rightarrow> user_rows" where
  "rows_of s = (st_users s, st_loose s)"

definition committed :: "user_rows \<Rightarrow> user_row list" where
  "committed r = filter (\<lambda>u. us_id u \<notin> set (snd r)) (fst r)"

inductive users_change :: "user_rows \<Rightarrow> user_rows \<Rightarrow> bool" where
  same: "users_change r r"
| commits: "users_change (us, l) (us, [])"
| rolled: "users_change (us, l) (filter (\<lambda>u. us_id u \<notin> set l) us, [])"
| added: "\<forall>q \<in> set us. us_id q \<noteq> us_id u \<and> \<not> same_email (us_email q) (us_email u)
    \<and> (us_subject u \<noteq> None \<longrightarrow> us_subject q \<noteq> us_subject u) \<Longrightarrow> mode_ok u \<Longrightarrow> users_change (us, l) (us @ [u], l @ [us_id u])"
| updated: "\<forall>u. us_id (f u) = us_id u \<and> us_email (f u) = us_email u \<and> us_subject (f u) = us_subject u
    \<and> (mode_ok u \<longrightarrow> mode_ok (f u)) \<Longrightarrow> users_change (us, l) (tbl_update (\<lambda>q. us_id q = k) f us, l)"
| bound: "u \<in> set us \<Longrightarrow> us_subject u \<in> {None, Some x} \<Longrightarrow> \<forall>q \<in> set us. us_subject q \<noteq> Some x
    \<Longrightarrow> \<forall>u. us_id (f u) = us_id u \<and> us_email (f u) = us_email u \<and> us_subject (f u) = Some x \<and> mode_ok (f u) = mode_ok u
    \<Longrightarrow> users_change (us, l) (tbl_update (\<lambda>q. us_id q = us_id u) f us, l)"
| later: "users_change r1 r2 \<Longrightarrow> users_change r2 r3 \<Longrightarrow> users_change r1 r3"

lemmas committed_change = users_change.later [OF _ users_change.commits]

lemma subjects_append [simp]: "subjects (us @ vs) = subjects us @ subjects vs"
  by (simp add: subjects_def)

lemma subject_mem: "x \<in> set (subjects us) \<longleftrightarrow> (\<exists>u \<in> set us. us_subject u = Some x)"
  by (force simp: subjects_def split: option.splits)

lemma subjects_update_same:
  "\<forall>u. us_subject (f u) = us_subject u \<Longrightarrow> subjects (tbl_update p f us) = subjects us"
  by (induction us) (auto simp: subjects_def tbl_update_def)

lemma subjects_bind:
  assumes "distinct (map us_id us)" "\<forall>q \<in> set us. us_subject q \<noteq> Some x" "\<forall>u. us_subject (f u) = Some x" "distinct (subjects us)"
  shows "distinct (subjects (tbl_update (\<lambda>q. us_id q = k) f us))"
  using assms
proof (induction us)
  case (Cons u us)
  show ?case
  proof (cases "us_id u = k")
    case True
    have "us_id q \<noteq> k" if "q \<in> set us" for q using that True Cons.prems(1) by (auto simp: rev_image_eqI)
    then have "tbl_update (\<lambda>q. us_id q = k) f us = us"
      unfolding tbl_update_def by (intro map_idI) simp
    with Cons.prems True show ?thesis
      by (auto simp: subjects_def tbl_update_def subject_mem [unfolded subjects_def] split: option.splits)
  next
    case False
    have *: "y \<in> set (subjects (tbl_update (\<lambda>q. us_id q = k) f us)) \<Longrightarrow> y = x \<or> y \<in> set (subjects us)" for y
      using Cons.prems(3) by (auto simp: subject_mem set_tbl_update)
    have "distinct (subjects (tbl_update (\<lambda>q. us_id q = k) f us))" using Cons by (auto simp: subjects_def)
    with False Cons.prems * show ?thesis
      by (cases "us_subject u") (auto simp: subjects_def tbl_update_def)
  qed
qed (simp add: subjects_def tbl_update_def)

lemma subjects_filter: "distinct (subjects us) \<Longrightarrow> distinct (subjects (filter P us))"
proof (induction us)
  case (Cons u us)
  have "set (subjects (filter P us)) \<subseteq> set (subjects us)" by (auto simp: subject_mem)
  with Cons show ?case by (cases "us_subject u") (auto simp: subjects_def)
qed (simp add: subjects_def)

lemma users_change_ok: "users_change r r' \<Longrightarrow> users_ok (fst r) \<Longrightarrow> users_ok (fst r')"
proof (induction rule: users_change.induct)
  case (added us u)
  then show ?case by (auto simp: users_ok_def same_email_def subject_mem subjects_def split: option.splits)
next
  case (rolled us l)
  then show ?case by (auto simp: users_ok_def subjects_filter distinct_map_filter)
next
  case (updated f us k)
  then show ?case by (auto simp: users_ok_def subjects_update_same comp_def ball_tbl_update)
next
  case (bound u us x f)
  have "map us_id (tbl_update (\<lambda>q. us_id q = us_id u) f us) = map us_id us"
    "map (lower \<circ> us_email) (tbl_update (\<lambda>q. us_id q = us_id u) f us) = map (lower \<circ> us_email) us"
    using bound.hyps(4) by (simp_all add: tbl_update_key)
  with bound subjects_bind [of us x f "us_id u"] show ?case by (auto simp: users_ok_def ball_tbl_update)
qed simp_all

lemma committed_update: "\<forall>u. us_id (f u) = us_id u \<Longrightarrow> committed (tbl_update p f us, l) = tbl_update p f (committed (us, l))"
  by (induction us) (auto simp: committed_def tbl_update_def)

lemma users_change_keeps: "users_change r r' \<Longrightarrow> users_ok (fst r) \<Longrightarrow> keeps_users (committed r) (committed r')"
proof (induction rule: users_change.induct)
  case (updated f us l k)
  then have "committed (tbl_update (\<lambda>q. us_id q = k) f us, l) = tbl_update (\<lambda>q. us_id q = k) f (committed (us, l))"
    by (simp add: committed_update)
  with updated show ?case by (auto simp: keeps_user_def intro!: keeps_users_update)
next
  case (bound u us x f l)
  have "q = u" if "us_id q = us_id u" "q \<in> set us" for q
    using bound that by (auto simp: users_ok_def dest: distinct_key_inj)
  then have n: "us_subject q = None" if "us_id q = us_id u" "q \<in> set us" for q
    using bound.hyps(1-3) that by auto
  have "committed (tbl_update (\<lambda>q. us_id q = us_id u) f us, l) = tbl_update (\<lambda>q. us_id q = us_id u) f (committed (us, l))"
    using bound.hyps(4) by (simp add: committed_update)
  moreover have "keeps_users (committed (us, l)) (tbl_update (\<lambda>q. us_id q = us_id u) f (committed (us, l)))"
    using bound.hyps(4) n by (intro keeps_users_update) (simp add: keeps_user_def committed_def)
  ultimately show ?case by simp
next
  case (later r1 r2 r3)
  then show ?case using keeps_users_trans users_change_ok by blast
qed (auto simp: committed_def intro!: keeps_users_mono)

section \<open>The operations\<close>

definition changes :: "auth_store \<Rightarrow> auth_store \<Rightarrow> bool" where
  "changes s s' \<longleftrightarrow> users_change (rows_of s) (rows_of s') \<and> st_permissions s' = st_permissions s"

lemma changes_refl [simp]: "changes s s"
  by (simp add: changes_def users_change.same)

lemma changes_trans: "changes a b \<Longrightarrow> changes b c \<Longrightarrow> changes a c"
  by (auto simp: changes_def intro: users_change.later)

lemma changes_same: "st_users s' = st_users s \<Longrightarrow> st_permissions s' = st_permissions s \<Longrightarrow> st_loose s' = st_loose s \<Longrightarrow> changes s s'"
  by (simp add: changes_def rows_of_def users_change.same)

lemma changes_other [simp]: "changes s (s\<lparr>st_audit := a\<rparr>)" "changes s (s\<lparr>st_requests := q\<rparr>)"
  by (simp_all add: changes_same)

lemma changes_commit [intro]: "changes s s' \<Longrightarrow> changes s (commit_rows s')"
  using committed_change by (auto simp: changes_def rows_of_def commit_rows_def)

lemma changes_roll_back: "changes s (roll_back s)"
  by (simp add: changes_def rows_of_def roll_back_def users_change.rolled)

lemma changes_updated: "st_users s' = tbl_update (\<lambda>q. us_id q = k) f (st_users s) \<Longrightarrow> st_permissions s' = st_permissions s
    \<Longrightarrow> st_loose s' = st_loose s \<Longrightarrow> \<forall>u. us_id (f u) = us_id u \<and> us_email (f u) = us_email u \<and> us_subject (f u) = us_subject u
    \<and> (mode_ok u \<longrightarrow> mode_ok (f u)) \<Longrightarrow> changes s s'"
  by (simp add: changes_def rows_of_def users_change.updated)

lemma insert_user_change: "insert_user u s = Inr s' \<Longrightarrow> mode_ok u \<Longrightarrow> changes s s'"
  by (auto simp: insert_user_def changes_def rows_of_def split: if_splits intro!: users_change.added)

lemma audit_change: "changes s (snd (append_audit_event eid now action kind actor subj res details s))"
  by (auto simp: append_audit_event_def)

lemma and_then_change: "(\<And>x s. changes s (snd (g x s))) \<Longrightarrow> changes s (snd (h s)) \<Longrightarrow> changes s (snd (and_then h g s))"
  by (cases "h s") (auto simp: and_then_def split: sum.split intro: changes_trans)

lemma give_change: "changes s (snd (give x s))" "changes s (snd (lift_res r s))"
  by (auto simp: give_def lift_res_def split: sum.split)

lemmas step_change = and_then_change audit_change give_change

lemma resolve_request_change: "resolve_request st rid actor now s = Inr s' \<Longrightarrow> changes s s'"
  by (auto simp: resolve_request_def split: if_splits intro!: changes_same)

lemma bootstrap_change: "changes s (snd (bootstrap_admins xs now s))"
proof (induction xs now s rule: bootstrap_admins.induct)
  case (2 uid raw xs now s)
  have "changes s (snd (bootstrap_admin uid raw now s))"
    by (auto simp: bootstrap_admin_def Let_def mode_ok_iff split: option.split sum.split intro: insert_user_change)
  with 2 show ?case by (cases "bootstrap_admin uid raw now s") (auto split: sum.splits intro: changes_trans)
qed auto

lemma create_rows_change: "mode_ok u \<Longrightarrow> changes s (snd (create_user_rows u actor now s))"
  by (auto simp: create_user_rows_def split: sum.split option.split
      dest!: insert_user_change resolve_request_change intro: changes_trans)

lemma create_change: "changes s (snd (create_user f e r st m actor s))"
proof -
  have "mode_ok \<lparr> us_id = i, us_subject = None, us_email = n, us_role = r, us_status = st,
      us_mode = m, us_created_at = a, us_updated_at = b, us_seen = None \<rparr>" if "validate_trading_mode r m = Inr ()" for i n a b
    using that by (simp add: mode_ok_def)
  then show ?thesis
    by (auto simp: create_user_def split: sum.split option.split intro!: step_change create_rows_change)
qed

lemma update_change: "changes s (snd (update_user f uid r st m actor s))"
proof -
  let ?s = "s\<lparr>st_users := tbl_update (\<lambda>u. us_id u = uid)
      (\<lambda>u. u\<lparr>us_role := r, us_status := st, us_mode := m, us_updated_at := fr_clock f 0\<rparr>) (st_users s)\<rparr>"
  have "changes s (commit_rows ?s)" if "validate_trading_mode r m = Inr ()"
    using that by (intro changes_commit changes_updated) (auto simp: mode_ok_def)
  moreover have "changes (commit_rows ?s) (snd (and_then (append_audit_event (fr_events f 0) (fr_clock f 1) ''user.updated'' ''user'' actor
      (Some uid) (Some uid) (user_details r st m)) (\<lambda>_ s'. lift_res (loaded ''updated user could not be loaded'' (user_by_id uid s')) s')
      (commit_rows ?s)))" by (intro step_change)
  ultimately show ?thesis by (auto simp: update_user_def split: sum.split intro: changes_trans)
qed

lemma resolve_change: "changes s (snd (resolve_identity i now s))"
proof (cases "find (\<lambda>u. us_subject u = Some (id_subject i)) (st_users s)")
  case (Some u)
  then show ?thesis by (auto simp: resolve_identity_def mode_ok_def intro!: changes_commit changes_updated)
next
  case None
  then have free: "\<forall>q \<in> set (st_users s). us_subject q \<noteq> Some (id_subject i)" by (auto simp: find_None_iff)
  have "changes s (s\<lparr>st_users := tbl_update (\<lambda>q. us_id q = us_id u)
      (\<lambda>q. q\<lparr>us_subject := Some (id_subject i), us_seen := Some now, us_updated_at := now\<rparr>) (st_users s)\<rparr>)"
    if "user_of_email e s = Some u" "us_subject u = None \<or> us_subject u = Some (id_subject i)" for e u
    using that free unfolding changes_def rows_of_def
    by (auto simp: user_of_email_def mode_ok_def dest!: find_SomeD intro!: users_change.bound)
  with None show ?thesis
    by (auto simp: resolve_identity_def Let_def split: option.splits)
qed

lemma submit_change: "changes s (snd (submit_access_request f i s))"
proof -
  have *: "changes s (snd (and_then (append_audit_event a b c d e g h k) (\<lambda>_. give x) (commit_rows (s\<lparr>st_requests := rs\<rparr>))))"
    for a b c d e g h k x rs
    by (rule changes_trans [of _ "commit_rows (s\<lparr>st_requests := rs\<rparr>)"]) (auto intro!: step_change)
  show ?thesis
    by (auto simp: submit_access_request_def Let_def * split: sum.split option.split)
qed

lemma approve_change: "changes s (snd (approve_access_request f rid actor s))"
proof -
  have rows: "changes s s1" if "approve_rows u r actor now s = Inr s1" "mode_ok u" for u r now s1
    using that by (auto simp: approve_rows_def split: sum.splits dest!: insert_user_change resolve_request_change intro: changes_trans)
  have m: "mode_ok \<lparr> us_id = a, us_subject = b, us_email = c, us_role = Researcher, us_status = d, us_mode = ModeDisabled,
      us_created_at = x, us_updated_at = y, us_seen = z \<rparr>" for a b c d x y z
    by (simp add: mode_ok_iff)
  show ?thesis
    by (auto simp: approve_access_request_def Let_def changes_roll_back split: sum.split option.split
        dest!: rows [OF _ m] intro!: step_change intro: changes_trans [of s "commit_rows _"])
qed

lemma reject_change: "changes s (snd (reject_access_request f rid actor s))"
  by (auto simp: reject_access_request_def Let_def split: sum.split option.split
      dest!: resolve_request_change intro!: step_change intro: changes_trans [of s "commit_rows _"])

lemma auth_step_change: "users_change (rows_of s) (rows_of (auth_step s x))"
proof (cases x)
  case AddPermissions
  show ?thesis unfolding AddPermissions by (simp add: add_permissions_def rows_of_def commit_rows_def users_change.commits)
qed (use bootstrap_change create_change update_change resolve_change submit_change approve_change reject_change audit_change
  in \<open>simp_all add: changes_def\<close>)

definition accounts_ok :: "auth_store \<Rightarrow> bool" where
  "accounts_ok s \<longleftrightarrow> users_ok (st_users s)"

interpretation accounts: step_monotone auth_step accounts_ok "\<lambda>s t. keeps_users (committed (rows_of s)) (committed (rows_of t))"
proof
  have ok: "accounts_ok s \<longleftrightarrow> users_ok (fst (rows_of s))" for s by (simp add: accounts_ok_def rows_of_def)
  show "accounts_ok s \<Longrightarrow> accounts_ok (auth_step s x)" for s x
    unfolding ok by (rule users_change_ok [OF auth_step_change])
  show "accounts_ok s \<Longrightarrow> keeps_users (committed (rows_of s)) (committed (rows_of (auth_step s x)))" for s x
    unfolding ok by (rule users_change_keeps [OF auth_step_change])
qed (auto intro: keeps_users_mono keeps_users_trans)

section \<open>Permissions\<close>

definition table_ok :: "(role \<times> string) list \<Rightarrow> bool" where
  "table_ok rows \<longleftrightarrow> (\<forall>(r, p) \<in> set rows. p \<in> set (role_permissions r))"

lemma added_rows: "set (foldl (\<lambda>rows x. if x \<in> set rows then rows else rows @ [x]) rows xs) \<subseteq> set rows \<union> set xs"
proof (induction xs arbitrary: rows)
  case (Cons x xs)
  from Cons.IH [of "if x \<in> set rows then rows else rows @ [x]"] show ?case by (auto split: if_splits)
qed simp

lemma added_permissions: "x \<in> set (st_permissions (add_permissions s)) \<Longrightarrow>
    x \<in> set (st_permissions s) \<or> snd x \<in> set (role_permissions (fst x))"
  using subsetD [OF added_rows, of x "st_permissions s" "concat (map (\<lambda>r. map (Pair r) (role_permissions r)) [Researcher, Trader, Admin])"]
  by (auto simp: add_permissions_def commit_rows_def)

lemma table_ok_step: "table_ok (st_permissions s) \<Longrightarrow> table_ok (st_permissions (auth_step s x))"
proof (cases x)
  case AddPermissions
  assume "table_ok (st_permissions s)"
  then show ?thesis unfolding AddPermissions table_ok_def by (auto dest: added_permissions)
qed (use bootstrap_change create_change update_change resolve_change submit_change approve_change reject_change audit_change
  in \<open>simp_all add: changes_def\<close>)

interpretation permission_table: step_invariant auth_step "\<lambda>s. table_ok (st_permissions s)"
  by unfold_locales (rule table_ok_step)

lemma permission_role: "table_ok (st_permissions s) \<Longrightarrow> p \<in> set (permissions_for_role r s) \<Longrightarrow> p \<in> set (role_permissions r)"
  by (auto simp: permissions_for_role_def table_ok_def)

text \<open>The account an identity resolves to is the one bound to it.\<close>

lemma one_account:
  assumes "users_ok us" "u \<in> set us" "v \<in> set us" "us_subject u = Some x" "us_subject v = Some x"
  shows "u = v"
proof -
  have "distinct (subjects us) \<Longrightarrow> u \<in> set us \<Longrightarrow> v \<in> set us \<Longrightarrow> us_subject u = Some x \<Longrightarrow> us_subject v = Some x \<Longrightarrow> u = v"
  proof (induction us)
    case (Cons w us)
    have d: "distinct (subjects us)" using Cons.prems(1) by (simp add: subjects_def)
    have w: "us_subject q \<noteq> Some x" if "us_subject w = Some x" "q \<in> set us" for q
      using Cons.prems(1) that subject_mem [of x us] by (auto simp: subjects_def)
    show ?case
    proof (cases "us_subject w = Some x")
      case True
      with w Cons.prems(2-5) show ?thesis by auto
    next
      case False
      with Cons.prems(2-5) Cons.IH [OF d] show ?thesis by auto
    qed
  qed simp
  with assms show ?thesis by (simp add: users_ok_def)
qed

lemma resolve_commits: "resolve_identity i now s = (Some u, s') \<Longrightarrow> committed (rows_of s') = st_users s'"
  by (auto simp: resolve_identity_def Let_def commit_rows_def rows_of_def committed_def split: option.splits if_splits)

lemma resolve_identity_row:
  assumes "resolve_identity i now s = (Some u, s')" "users_ok (st_users s)"
  shows "\<exists>r \<in> set (st_users s'). us_subject r = Some (id_subject i) \<and> us_id r = au_id u \<and> us_status r = au_status u
    \<and> us_role r = au_role u \<and> au_permissions u = permissions_for_role (us_role r) s' \<and> au_registered u"
proof (cases "find (\<lambda>u. us_subject u = Some (id_subject i)) (st_users s)")
  case (Some q)
  have "q\<lparr>us_seen := Some now\<rparr> \<in> set (tbl_update (\<lambda>r. us_id r = us_id q) (\<lambda>r. r\<lparr>us_seen := Some now\<rparr>) (st_users s))"
    using find_SomeD [OF Some] by (auto simp: set_tbl_update)
  with Some find_SomeD [OF Some] assms(1) show ?thesis
    by (intro bexI [of _ "q\<lparr>us_seen := Some now\<rparr>"]) (auto simp: resolve_identity_def commit_rows_def to_user_def permissions_for_role_def)
next
  case None
  with assms(1) obtain q where q: "q \<in> set (st_users s)" "user_by_id (us_id q) s' = Some u"
      "s' = commit_rows (s\<lparr>st_users := tbl_update (\<lambda>r. us_id r = us_id q)
         (\<lambda>r. r\<lparr>us_subject := Some (id_subject i), us_seen := Some now, us_updated_at := now\<rparr>) (st_users s)\<rparr>)"
    by (auto simp: resolve_identity_def Let_def user_of_email_def split: option.splits if_splits dest!: find_SomeD)
  from q(2) obtain r where r: "find (\<lambda>u. us_id u = us_id q) (st_users s') = Some r" "u = to_user s' r"
    by (auto simp: user_by_id_def user_of_id_def)
  with find_SomeD [OF r(1)] q(3) show ?thesis
    by (auto simp: to_user_def set_tbl_update commit_rows_def intro!: bexI [of _ r])
qed

text \<open>C8. Authorization is sound.  In a store reached by any operations from an empty one, a request that
  is identified and permitted while authorization is enforced belongs to exactly one account: the one
  bound to the verified identity, active, of a role that grants the permission and with a trading
  mode its role may have; and whatever operations follow, that account keeps its identity and no
  other account gets it.\<close>

theorem authorization_sound:
  assumes "s = run auth_step empty_auth ops" "identify True i now s = (Inr u, s1)" "require_permission True u permission = Inr ()"
  shows "\<exists>r \<in> set (st_users s1). us_id r = au_id u \<and> us_subject r = Some (id_subject i) \<and> us_status r = AccActive
    \<and> permission \<in> set (role_permissions (us_role r)) \<and> validate_trading_mode (us_role r) (us_mode r) = Inr ()
    \<and> (\<forall>ops'. \<exists>v \<in> set (st_users (run auth_step s1 ops')). us_id v = us_id r \<and> us_email v = us_email r
         \<and> us_subject v = Some (id_subject i)
         \<and> (\<forall>q \<in> set (st_users (run auth_step s1 ops')). us_subject q = Some (id_subject i) \<longrightarrow> q = v))"
proof -
  have ok: "accounts_ok s" unfolding assms(1)
    by (rule accounts.run_inv) (simp add: accounts_ok_def users_ok_def empty_auth_def subjects_def)
  have tab: "table_ok (st_permissions s)" unfolding assms(1)
    by (rule permission_table.run_inv) (simp add: table_ok_def empty_auth_def)
  obtain w where w: "resolve_identity i now s = (w, s1)"
    using assms(2) by (auto simp: identify_def split: prod.splits option.splits if_splits)
  have s1: "s1 = auth_step s (ResolveIdentity i now)" using w by simp
  have ok1: "accounts_ok s1" and tab1: "table_ok (st_permissions s1)"
    unfolding s1 by (rule accounts.inv_step [OF ok], rule table_ok_step [OF tab])
  have c: "w = Some u \<and> au_status u = AccActive"
    using assms(2,3) w by (auto simp: identify_def require_permission_def first_error_Inr split: option.splits if_splits)
  from c obtain r where r: "r \<in> set (st_users s1)" "us_subject r = Some (id_subject i)" "us_id r = au_id u"
      "us_status r = AccActive" "au_permissions u = permissions_for_role (us_role r) s1"
    using resolve_identity_row [of i now s u s1] w ok by (auto simp: accounts_ok_def)
  have kept: "r \<in> set (committed (rows_of s1))" using resolve_commits [of i now s u s1] w c r(1) by simp
  have p: "permission \<in> set (role_permissions (us_role r))"
    using assms(3) r(5) permission_role [OF tab1] by (auto simp: require_permission_def first_error_Inr)
  have later: "\<exists>v \<in> set (st_users (run auth_step s1 ops')). us_id v = us_id r \<and> us_email v = us_email r
      \<and> us_subject v = Some (id_subject i)
      \<and> (\<forall>q \<in> set (st_users (run auth_step s1 ops')). us_subject q = Some (id_subject i) \<longrightarrow> q = v)" for ops'
  proof -
    have "users_ok (st_users (run auth_step s1 ops'))" using accounts.run_inv [OF ok1] by (simp add: accounts_ok_def)
    moreover obtain v where "v \<in> set (st_users (run auth_step s1 ops'))" "keeps_user r v"
      using accounts.run_rel [OF ok1, of ops'] kept unfolding keeps_users_def by (auto simp: committed_def rows_of_def)
    ultimately show ?thesis using one_account [of _ v] r(2)
      by (intro bexI [of _ v]) (auto simp: keeps_user_def)
  qed
  have "mode_ok r" using ok1 r(1) by (simp add: accounts_ok_def users_ok_def)
  with r p later show ?thesis by (auto simp: mode_ok_def)
qed

definition sample_fresh :: "string \<Rightarrow> fresh" where
  "sample_fresh x = \<lparr> fr_user = ''user-'' @ x, fr_request = ''request-'' @ x, fr_events = (\<lambda>i. ''event-'' @ x @ show_nat i),
     fr_clock = (\<lambda>i. int i) \<rparr>"

definition sample_identity :: access_identity where
  "sample_identity = \<lparr> id_subject = ''sub-1'', id_email = Some ''Ann@Example.org'' \<rparr>"

definition sample_accounts :: "auth_op list" where
  "sample_accounts = [AddPermissions, CreateUser (sample_fresh ''a'') ''ann@example.org'' Trader AccActive ModeLive None]"

theorem authorization_sound_witness:
  "\<exists>u s1. identify True sample_identity 5 (run auth_step empty_auth sample_accounts) = (Inr u, s1)
     \<and> au_id u = ''user-a'' \<and> (\<exists>r \<in> set (st_users s1). us_id r = ''user-a'' \<and> us_subject r = Some ''sub-1''
       \<and> ''orders.live'' \<in> set (role_permissions (us_role r)))"
proof -
  let ?s = "run auth_step empty_auth sample_accounts"
  have "(case fst (identify True sample_identity 5 ?s) of Inl _ \<Rightarrow> False
      | Inr u \<Rightarrow> au_id u = ''user-a'' \<and> require_permission True u ''orders.live'' = Inr ())" by code_simp
  then obtain u s1 where u: "identify True sample_identity 5 ?s = (Inr u, s1)" "au_id u = ''user-a''"
      "require_permission True u ''orders.live'' = Inr ()"
    by (cases "identify True sample_identity 5 ?s") (auto split: sum.splits)
  obtain r where "r \<in> set (st_users s1)" "us_id r = ''user-a''" "us_subject r = Some (id_subject sample_identity)"
      "''orders.live'' \<in> set (role_permissions (us_role r))"
    using authorization_sound [OF refl u(1,3)] u(2) by auto
  with u show ?thesis by (auto simp: sample_identity_def)
qed

text \<open>A creation whose actor is no account of the store (the local development user is none) and whose
  e-mail has a pending request raises, and leaves the account it says it could not create.\<close>

lemma failed_creation_leaves_user:
  "let s = run auth_step empty_auth [AddPermissions, SubmitRequest (sample_fresh ''b'') sample_identity];
       (r, s') = create_user (sample_fresh ''c'') ''ann@example.org'' Trader AccActive ModeLive (Some ''local-development'') s
   in r = Inl (ValueError ''email is already registered'') \<and> st_users s = [] \<and> map us_id (st_users s') = [''user-c'']
     \<and> map us_id (st_users (commit_rows s')) = [''user-c''] \<and> st_users (roll_back s') = []"
  by code_simp

end
