(* ===== verification/Broker_Events.thy ===== *)
theory Broker_Events
  imports Order_Manager
begin

text \<open>
  Broker callbacks: the normalized event with its content id (\<open>broker/events.py\<close>), the audit table of
  events (\<open>audit.py\<close>), and the consumer that records an event and then refreshes the order it names
  from broker truth (\<open>callback_consumer.py\<close>).

  A payload is a JSON value; \<open>canonical_payload\<close> prints it the way \<open>json.dumps\<close> does with sorted keys and
  no spaces.  A JSON column holds the value that is printed into it.  SHA-256, the printed form of a
  float and the optional \<open>code\<close> attribute of an exception are arguments.
\<close>

section \<open>Payloads\<close>

datatype payload = PayNull | PayBool bool | PayInt int | PayFloat rat | PayText string
  | PayList "payload list" | PayObject "(string \<times> payload) list"

definition hex_digit :: "nat \<Rightarrow> char" where
  "hex_digit n = (if n < 10 then char_of (48 + n) else char_of (87 + n))"

definition json_char :: "char \<Rightarrow> string" where
  "json_char c = (let n = (of_char c :: nat) in
     if n = 34 then [CHR 92, CHR 34] else if n = 92 then [CHR 92, CHR 92]
     else if n = 8 then [CHR 92, CHR ''b''] else if n = 12 then [CHR 92, CHR ''f'']
     else if n = 10 then [CHR 92, CHR ''n''] else if n = 13 then [CHR 92, CHR ''r'']
     else if n = 9 then [CHR 92, CHR ''t'']
     else if n < 32 then CHR 92 # ''u00'' @ [hex_digit (n div 16), hex_digit (n mod 16)]
     else [c])"

definition json_quoted :: "string \<Rightarrow> string" where
  "json_quoted s = CHR 34 # concat (map json_char s) @ [CHR 34]"

primrec json_text :: "(rat \<Rightarrow> string) \<Rightarrow> payload \<Rightarrow> string" where
  "json_text fl PayNull = ''null''"
| "json_text fl (PayBool b) = (if b then ''true'' else ''false'')"
| "json_text fl (PayInt n) = show_int n"
| "json_text fl (PayFloat x) = fl x"
| "json_text fl (PayText s) = json_quoted s"
| "json_text fl (PayList xs) = CHR ''['' # join '','' (map (json_text fl) xs) @ '']''"
| "json_text fl (PayObject m) = CHR ''{'' # join '','' (map (\<lambda>(k, t). json_quoted k @ '':'' @ t)
     (sort_key fst (map (map_prod id (json_text fl)) m))) @ ''}''"

text \<open>The length of the text in UTF-8.\<close>

definition utf8_length :: "string \<Rightarrow> nat" where
  "utf8_length s = sum_list (map (\<lambda>c. if (of_char c :: nat) < 128 then 1 else 2) s)"

record event_codec =
  ec_float :: "rat \<Rightarrow> string"
  ec_sha256 :: "string \<Rightarrow> string"
  ec_code :: "err \<Rightarrow> string option"

definition canonical_payload :: "event_codec \<Rightarrow> payload \<Rightarrow> string" where
  "canonical_payload c p = json_text (ec_float c) p"

section \<open>Events\<close>

record broker_event =
  ev_id :: string
  ev_broker :: string
  ev_account :: "string option"
  ev_type :: string
  ev_order :: "string option"
  ev_received :: instant
  ev_payload :: payload

definition text_or_null :: "string option \<Rightarrow> payload" where
  "text_or_null s = (case s of None \<Rightarrow> PayNull | Some t \<Rightarrow> PayText t)"

definition broker_event_id :: "event_codec \<Rightarrow> string \<Rightarrow> string option \<Rightarrow> string \<Rightarrow> string option \<Rightarrow> payload \<Rightarrow> string" where
  "broker_event_id c bn acc ty oid p = ec_sha256 c (canonical_payload c (PayObject
     ([(''broker'', PayText bn), (''event_type'', PayText ty), (''broker_order_id'', text_or_null oid), (''payload'', p)]
      @ (case acc of None \<Rightarrow> [] | Some a \<Rightarrow> [(''account'', PayText a)]))))"

definition broker_event_post_init :: "event_codec \<Rightarrow> broker_event \<Rightarrow> broker_event res" where
  "broker_event_post_init c e = first_error
     [(ev_id e = [] \<or> ev_broker e = [] \<or> ev_type e = [], ValueError ''broker event identity is required''),
      (utf8_length (canonical_payload c (ev_payload e)) > 65536, ValueError ''broker event payload is too large''),
      (ev_id e \<noteq> broker_event_id c (ev_broker e) (ev_account e) (ev_type e) (ev_order e) (ev_payload e),
        ValueError ''broker event ID does not match its content'')] e"

definition event_account_ref :: "broker_event \<Rightarrow> account_ref res" where
  "event_account_ref e = (case ev_account e of
       Some (a # as) \<Rightarrow> mk_account_ref (ev_broker e) (a # as)
     | _ \<Rightarrow> Inl (ValueError ''broker callback has no execution account identity''))"

section \<open>The audit table\<close>

datatype event_audit_status = EventReceived | EventReconciled | EventUnmatched | EventFailed

record event_row =
  er_id :: string
  er_broker :: string
  er_account :: "string option"
  er_type :: string
  er_order :: "string option"
  er_received :: instant
  er_payload :: payload
  er_status :: event_audit_status
  er_owner :: "string option"
  er_client :: "string option"
  er_error :: "string option"
  er_updated_at :: instant

record event_record =
  ex_event :: broker_event
  ex_status :: event_audit_status
  ex_updated_at :: instant
  ex_owner :: "string option"
  ex_client :: "string option"
  ex_error :: "string option"

definition given_text :: "string option \<Rightarrow> string option" where
  "given_text s = (case s of Some (x # xs) \<Rightarrow> s | _ \<Rightarrow> None)"

definition event_record_of :: "event_codec \<Rightarrow> event_row \<Rightarrow> event_record res" where
  "event_record_of c r =
     (case broker_event_post_init c \<lparr> ev_id = er_id r, ev_broker = er_broker r, ev_account = er_account r, ev_type = er_type r,
          ev_order = given_text (er_order r), ev_received = er_received r, ev_payload = er_payload r \<rparr> of
        Inl e \<Rightarrow> Inl e
      | Inr ev \<Rightarrow> Inr \<lparr> ex_event = ev, ex_status = er_status r, ex_updated_at = er_updated_at r, ex_owner = given_text (er_owner r),
          ex_client = given_text (er_client r), ex_error = given_text (er_error r) \<rparr>)"

definition event_row_at :: "string \<Rightarrow> event_row list \<Rightarrow> event_row option" where
  "event_row_at i rows = find (\<lambda>r. er_id r = i) rows"

definition received_row :: "broker_event \<Rightarrow> event_row" where
  "received_row e = \<lparr> er_id = ev_id e, er_broker = ev_broker e, er_account = ev_account e, er_type = ev_type e,
     er_order = ev_order e, er_received = ev_received e, er_payload = ev_payload e, er_status = EventReceived,
     er_owner = None, er_client = None, er_error = None, er_updated_at = ev_received e \<rparr>"

definition record_received :: "event_codec \<Rightarrow> broker_event \<Rightarrow> (event_row list, event_record \<times> bool) prog" where
  "record_received c e rows =
     (let new = event_row_at (ev_id e) rows = None;
          rows' = (if new then rows @ [received_row e] else rows) in
      case event_row_at (ev_id e) rows' of
        None \<Rightarrow> (Inl AssertionError, rows')
      | Some r \<Rightarrow> (case event_record_of c r of Inl x \<Rightarrow> (Inl x, rows') | Inr rec \<Rightarrow> (Inr (rec, new), rows')))"

definition mark_event :: "event_codec \<Rightarrow> string \<Rightarrow> event_audit_status \<Rightarrow> pytime \<Rightarrow> broker_order option \<Rightarrow> string option
    \<Rightarrow> (event_row list, event_record) prog" where
  "mark_event c i st t order why rows = (case t of
       Naive _ \<Rightarrow> (Inl (ValueError ''broker event updated_at must be timezone-aware''), rows)
     | Aware now \<Rightarrow>
        if event_row_at i rows = None then (Inl (KeyError (''unknown broker event: '' @ i)), rows)
        else let rows' = tbl_update (\<lambda>r. er_id r = i) (\<lambda>r. r\<lparr> er_status := st,
                 er_owner := map_option (\<lambda>b. req_owner_id (bo_request b)) order,
                 er_client := map_option (\<lambda>b. req_client_order_id (bo_request b)) order,
                 er_error := map_option (take 1000) (given_text why), er_updated_at := now \<rparr>) rows in
             (case event_row_at i rows' of
                None \<Rightarrow> (Inl AssertionError, rows')
              | Some r \<Rightarrow> (event_record_of c r, rows')))"

definition get_event :: "event_codec \<Rightarrow> string \<Rightarrow> event_row list \<Rightarrow> event_record option res" where
  "get_event c i rows = (case event_row_at i rows of None \<Rightarrow> Inr None
     | Some r \<Rightarrow> (case event_record_of c r of Inl e \<Rightarrow> Inl e | Inr rec \<Rightarrow> Inr (Some rec)))"

section \<open>The consumer\<close>

record callback_world =
  cb_audit :: "event_row list"
  cb_manager :: manager_world

definition in_audit :: "(event_row list, 'a) prog \<Rightarrow> (callback_world, 'a) prog" where
  "in_audit f w = (let (r, s) = f (cb_audit w) in (r, w\<lparr>cb_audit := s\<rparr>))"

definition exception_code :: "event_codec \<Rightarrow> err \<Rightarrow> string \<Rightarrow> string" where
  "exception_code c e fallback = (case ec_code c e of Some (x # xs) \<Rightarrow> x # xs | _ \<Rightarrow> fallback)"

definition refresh_by_event :: "order_manager \<Rightarrow> broker_event \<Rightarrow> string \<Rightarrow> (manager_world, broker_order option) prog" where
  "refresh_by_event m e oid w = (case event_account_ref e of Inl x \<Rightarrow> (Inl x, w)
     | Inr t \<Rightarrow> reconcile_by_broker_order_id m t oid w)"

definition consume_one :: "event_codec \<Rightarrow> order_manager \<Rightarrow> broker_event \<Rightarrow> instant \<Rightarrow> (callback_world, event_record) prog" where
  "consume_one c m e now = and_then (in_audit (record_received c e)) (\<lambda>(rec, new).
     if ex_status rec = EventReconciled then give rec
     else if given_text (ev_account e) = None
       then in_audit (mark_event c (ev_id e) EventUnmatched (Aware now) None (Some ''callback_has_no_account_id''))
     else (case given_text (ev_order e) of
         None \<Rightarrow> in_audit (mark_event c (ev_id e) EventUnmatched (Aware now) None (Some ''callback_has_no_broker_order_id''))
       | Some oid \<Rightarrow> (\<lambda>w. case refresh_by_event m e oid (cb_manager w) of
             (Inl x, mw) \<Rightarrow> in_audit (mark_event c (ev_id e) EventFailed (Aware now) None
                (Some (exception_code c x ''broker_refresh_failed''))) (w\<lparr>cb_manager := mw\<rparr>)
           | (Inr None, mw) \<Rightarrow> in_audit (mark_event c (ev_id e) EventUnmatched (Aware now) None
                (Some ''local_order_not_found'')) (w\<lparr>cb_manager := mw\<rparr>)
           | (Inr (Some b), mw) \<Rightarrow> in_audit (mark_event c (ev_id e) EventReconciled (Aware now) (Some b) None)
                (w\<lparr>cb_manager := mw\<rparr>))))"

text \<open>\<open>run\<close> over the events that arrive until it is stopped; an exception ends it.\<close>

fun consume_all :: "event_codec \<Rightarrow> order_manager \<Rightarrow> (broker_event \<times> instant) list \<Rightarrow> (callback_world, unit) prog" where
  "consume_all c m [] w = (Inr (), w)"
| "consume_all c m ((e, now) # es) w = (case consume_one c m e now w of
       (Inl x, w') \<Rightarrow> (Inl x, w') | (Inr _, w') \<Rightarrow> consume_all c m es w')"

section \<open>A callback is recorded once\<close>

lemma event_row_at_append: "event_row_at i (rows @ [r]) = (case event_row_at i rows of Some q \<Rightarrow> Some q
    | None \<Rightarrow> if er_id r = i then Some r else None)"
  by (simp add: event_row_at_def find_append split: option.split)

lemma event_row_at_update: "(\<And>r. er_id (f r) = er_id r) \<Longrightarrow>
    event_row_at i (tbl_update (\<lambda>r. er_id r = k) f rows) = map_option (\<lambda>r. if er_id r = k then f r else r) (event_row_at i rows)"
  by (induction rows) (auto simp: event_row_at_def tbl_update_def)

lemma record_received_rows: "snd (record_received c e rows) = (if event_row_at (ev_id e) rows = None then rows @ [received_row e] else rows)"
  by (auto simp: record_received_def Let_def split: option.split sum.split)

text \<open>An event that was recorded is read back unchanged, as long as its order id is not the empty text.\<close>

lemma recorded_event:
  assumes "broker_event_post_init c e = Inr e" "event_row_at (ev_id e) rows = None" "ev_order e \<noteq> Some []"
  shows "record_received c e rows = (Inr (\<lparr> ex_event = e, ex_status = EventReceived, ex_updated_at = ev_received e, ex_owner = None,
      ex_client = None, ex_error = None \<rparr>, True), rows @ [received_row e])"
proof -
  have g: "given_text (ev_order e) = ev_order e"
    using assms(3) by (auto simp: given_text_def split: option.split list.split)
  have "event_record_of c (received_row e) = Inr \<lparr> ex_event = e, ex_status = EventReceived, ex_updated_at = ev_received e,
      ex_owner = None, ex_client = None, ex_error = None \<rparr>"
    using assms(1) g by (cases e) (simp add: event_record_of_def received_row_def given_text_def)
  with assms(2) show ?thesis
    by (simp add: record_received_def event_row_at_append) (simp add: received_row_def)
qed

end
