(* ===== verification/Account_Worker.thy ===== *)
theory Account_Worker
  imports Guardian Reconciliation Broker_Events
begin

text \<open>
  The worker of one broker account (\<open>broker/worker.py\<close>: \<open>BrokerAccountWorker\<close> and the
  \<open>CanaryBrokerAccountWorker\<close> layered on it).  It owns the tasks of the account: the start, the periodic
  reconciliation with its reconnects, the callbacks, the heartbeat, and for a canary worker the
  dispatch and the position guardian.

  A task runs alone from one await to the next.  The awaits at which another task may change the lock
  are the connection to the broker and the reconciliation: what stands before and after them are
  separate operations, joined by the phase of the worker.  Up to Python 3.11 \<open>asyncio.wait_for\<close> runs
  the reconciliation in a task of its own, so that other tasks also run between the scheduling and its
  first statement, and between its last statement and the worker that waits for it; from 3.12 on these
  operations follow each other at once, which is one of the runs of the model.  A report that is there
  is taken before a stop: \<open>wait_for\<close> returns it to a waiter that is cancelled.  The broker client is an argument: what
  connecting answers, and its health as it is read at each place.  The owner stops a worker it has
  started.
\<close>

section \<open>Settings and health\<close>

record worker_settings =
  se_poll :: rat
  se_interval :: rat
  se_timeout :: rat
  se_stale :: rat
  se_heartbeat :: rat
  se_queue :: int
  se_drain :: rat

definition default_worker_settings :: worker_settings where
  "default_worker_settings = \<lparr> se_poll = 1 / 10, se_interval = 30, se_timeout = 20, se_stale = 120, se_heartbeat = 5,
     se_queue = 10000, se_drain = 5 \<rparr>"

definition check_worker_settings :: "worker_settings \<Rightarrow> worker_settings res" where
  "check_worker_settings s = first_error
     [(Min {se_poll s, se_interval s, se_timeout s, se_stale s, se_heartbeat s, se_drain s} \<le> 0,
        ValueError ''execution worker intervals must be positive''),
      (\<not> (1 \<le> se_queue s \<and> se_queue s \<le> 100000), ValueError ''callback_queue_size must be between 1 and 100000'')] s"

text \<open>What the code reads of \<open>health_state()\<close>; the flags are compared with \<open>is True\<close>.\<close>

record client_health =
  ch_read_only :: bool
  ch_canary :: bool
  ch_connected :: bool
  ch_ca_ready :: bool
  ch_registered :: bool
  ch_dropped :: int
  ch_failed :: int

definition no_health :: client_health where
  "no_health = \<lparr> ch_read_only = False, ch_canary = False, ch_connected = False, ch_ca_ready = False, ch_registered = False,
     ch_dropped = 0, ch_failed = 0 \<rparr>"

text \<open>\<open>_client_health\<close>: a client that raises has an empty state.\<close>

definition client_health_of :: "client_health option \<Rightarrow> client_health" where
  "client_health_of h = (case h of None \<Rightarrow> no_health | Some x \<Rightarrow> x)"

definition client_ready :: "client_health option \<Rightarrow> bool" where
  "client_ready h = (let x = client_health_of h in
     (ch_read_only x \<or> ch_canary x) \<and> ch_connected x \<and> ch_ca_ready x \<and> ch_registered x)"

section \<open>The worker\<close>

datatype worker_state = WorkerStarting | WorkerLocked | BrokerConnecting | BrokerReadOnlyReady | WorkerReconciling
  | ReadyReadOnly | WorkerDegraded | WorkerStopped

text \<open>Where the main coroutine waits: nowhere, for the broker, for the task of the reconciliation to
  begin, for the reconciliation with the generation its \<open>begin\<close> got (or raised), or with the result
  of a reconciliation that has ended (a timeout, an exception, the report); the flag tells the start
  from the periodic task, and the time is the one it was scheduled at.\<close>

datatype worker_phase = AtRest | AwaitsBroker bool | AwaitsTask bool instant | AwaitsReport bool "int res" instant
  | HasReport bool "err option + recon_report" instant

record worker_counts =
  wn_local_orders :: nat
  wn_broker_orders :: nat
  wn_broker_fills :: nat
  wn_broker_positions :: nat

record account_worker =
  wk_state :: worker_state
  wk_phase :: worker_phase
  wk_started_at :: "instant option"
  wk_heartbeat_at :: "instant option"
  wk_recon_started :: "instant option"
  wk_recon_success :: "instant option"
  wk_recon_failure :: "instant option"
  wk_duration :: "rat option"
  wk_snapshot_at :: "instant option"
  wk_counts :: "worker_counts option"
  wk_callback_at :: "instant option"
  wk_started_total :: nat
  wk_success_total :: nat
  wk_failure_total :: nat
  wk_skipped_total :: nat
  wk_duration_total :: rat
  wk_duration_max :: rat
  wk_callbacks :: nat
  wk_reconciled :: nat
  wk_unmatched :: nat
  wk_failed :: nat
  wk_abandoned :: nat
  wk_seen_dropped :: int
  wk_seen_failed :: int
  wk_error :: "string option"
  wk_stop :: bool
  wk_callback_task :: bool
  wk_timer_tasks :: bool
  wk_dispatched :: nat
  wk_cancels :: nat
  wk_dispatch_task :: bool
  wk_guardian_task :: bool

definition new_account_worker :: account_worker where
  "new_account_worker = \<lparr> wk_state = WorkerStopped, wk_phase = AtRest, wk_started_at = None, wk_heartbeat_at = None,
     wk_recon_started = None, wk_recon_success = None, wk_recon_failure = None, wk_duration = None, wk_snapshot_at = None,
     wk_counts = None, wk_callback_at = None, wk_started_total = 0, wk_success_total = 0, wk_failure_total = 0,
     wk_skipped_total = 0, wk_duration_total = 0, wk_duration_max = 0, wk_callbacks = 0, wk_reconciled = 0, wk_unmatched = 0,
     wk_failed = 0, wk_abandoned = 0, wk_seen_dropped = 0, wk_seen_failed = 0, wk_error = None, wk_stop = False,
     wk_callback_task = False, wk_timer_tasks = False, wk_dispatched = 0, wk_cancels = 0, wk_dispatch_task = False,
     wk_guardian_task = False \<rparr>"

text \<open>The parts a worker is built of; a plain account worker has no dispatch and no guardian.\<close>

record worker_config =
  wc_account :: account_ref
  wc_settings :: worker_settings
  wc_recon :: recon_config
  wc_canary :: bool
  wc_guards :: bool
  wc_codec :: event_codec

record worker_world =
  ww_worker :: account_worker
  ww_recon :: recon_world
  ww_audit :: "event_row list"
  ww_guardian :: guardian_store

text \<open>The constructor's checks of the callback queue.\<close>

definition check_account_worker :: "worker_config \<Rightarrow> int \<Rightarrow> unit res" where
  "check_account_worker c maxsize = first_error
     [(maxsize \<le> 0, ValueError ''broker callback queue must be bounded''),
      (se_queue (wc_settings c) \<noteq> maxsize, ValueError ''callback queue capacity does not match worker settings'')] ()"

definition worker_do :: "(account_worker \<Rightarrow> account_worker) \<Rightarrow> (worker_world, unit) prog" where
  "worker_do f w = (Inr (), w\<lparr>ww_worker := f (ww_worker w)\<rparr>)"

definition worker_lock :: "worker_world \<Rightarrow> recovery_table" where
  "worker_lock w = rw_lock (ww_recon w)"

definition put_lock :: "recovery_table \<Rightarrow> worker_world \<Rightarrow> worker_world" where
  "put_lock tb w = w\<lparr>ww_recon := (ww_recon w)\<lparr>rw_lock := tb\<rparr>\<rparr>"

definition guardian_part :: "(guardian_world, 'a) prog \<Rightarrow> (worker_world, 'a) prog" where
  "guardian_part f w = (let r = ww_recon w;
       (x, g) = f \<lparr> gw_store = ww_guardian w, gw_manager = rw_manager r, gw_lock = rw_lock r \<rparr> in
     (x, w\<lparr> ww_recon := r\<lparr> rw_lock := gw_lock g, rw_manager := gw_manager g \<rparr>, ww_guardian := gw_store g \<rparr>))"

definition manager_part :: "(manager_world, 'a) prog \<Rightarrow> (worker_world, 'a) prog" where
  "manager_part f w = (let (x, m) = f (rw_manager (ww_recon w)) in (x, w\<lparr>ww_recon := (ww_recon w)\<lparr>rw_manager := m\<rparr>\<rparr>))"

definition callback_part :: "(callback_world, 'a) prog \<Rightarrow> (worker_world, 'a) prog" where
  "callback_part f w = (let (x, b) = f \<lparr> cb_audit = ww_audit w, cb_manager = rw_manager (ww_recon w) \<rparr> in
     (x, w\<lparr> ww_recon := (ww_recon w)\<lparr>rw_manager := cb_manager b\<rparr>, ww_audit := cb_audit b \<rparr>))"

section \<open>Failing closed\<close>

definition persist_lock :: "worker_config \<Rightarrow> string list \<Rightarrow> instant \<Rightarrow> (worker_world, unit) prog" where
  "persist_lock c codes now w =
     (case force_lock (broker_name (wc_account c)) (account_id (wc_account c)) codes (Aware now) (worker_lock w) of
        (Inl e, tb) \<Rightarrow> (Inl e, put_lock tb w)
      | (Inr st, tb) \<Rightarrow>
        (let w1 = put_lock tb (w\<lparr>ww_worker := (ww_worker w)\<lparr>wk_error := (case codes of [] \<Rightarrow> None | x # _ \<Rightarrow> Some x),
               wk_state := WorkerLocked\<rparr>\<rparr>) in
         if rl_status st \<noteq> Locked then (Inl (RuntimeError ''recovery store did not fail closed''), w1) else (Inr (), w1)))"

section \<open>Start\<close>

text \<open>\<open>start\<close> up to the connection: the persisted lock is its first effect.\<close>

definition worker_start :: "worker_config \<Rightarrow> (nat \<Rightarrow> instant) \<Rightarrow> (worker_world, unit) prog" where
  "worker_start c clk w =
     (if wk_state (ww_worker w) \<noteq> WorkerStopped then (Inr (), w)
      else and_then (worker_do (\<lambda>k. k\<lparr>wk_state := WorkerStarting, wk_started_at := Some (clk 0), wk_heartbeat_at := Some (clk 0),
             wk_stop := False\<rparr>)) (\<lambda>_.
        and_then (persist_lock c [''startup_reconciliation_required''] (clk 1)) (\<lambda>_.
        worker_do (\<lambda>k. k\<lparr>wk_state := BrokerConnecting, wk_phase := AwaitsBroker True\<rparr>))) w)"

definition start_tasks :: "worker_config \<Rightarrow> account_worker \<Rightarrow> account_worker" where
  "start_tasks c k = k\<lparr>wk_phase := AtRest, wk_timer_tasks := True, wk_dispatch_task := wc_canary c,
     wk_guardian_task := wc_canary c \<and> wc_guards c\<rparr>"

text \<open>The end of the main coroutine: \<open>start\<close> creates the tasks, the periodic one waits again.\<close>

definition rest :: "worker_config \<Rightarrow> bool \<Rightarrow> account_worker \<Rightarrow> account_worker" where
  "rest c starting k = (if starting then start_tasks c k else k\<lparr>wk_phase := AtRest\<rparr>)"

section \<open>Reconciliation\<close>

text \<open>\<open>reconcile_now\<close> up to its \<open>wait_for\<close>.\<close>

definition reconcile_begin :: "worker_config \<Rightarrow> bool \<Rightarrow> (nat \<Rightarrow> instant) \<Rightarrow> (worker_world, unit) prog" where
  "reconcile_begin c starting clk = worker_do (\<lambda>k. k\<lparr>wk_state := WorkerReconciling, wk_recon_started := Some (clk 0),
     wk_started_total := wk_started_total k + 1, wk_phase := AwaitsTask starting (clk 0)\<rparr>)"

text \<open>The task runs: \<open>reconcile\<close> up to its first await, its \<open>begin\<close> is done.\<close>

definition reconcile_starts :: "worker_config \<Rightarrow> instant \<Rightarrow> (worker_world, unit) prog" where
  "reconcile_starts c now w = (case wk_phase (ww_worker w) of
       AwaitsTask starting started \<Rightarrow>
         (let t = rc_account (wc_recon c);
              (r, tb) = recovery_begin (broker_name t) (account_id t) (Aware now) (worker_lock w) in
          (Inr (), put_lock tb (w\<lparr>ww_worker := (ww_worker w)\<lparr>wk_phase :=
             AwaitsReport starting (case r of Inl e \<Rightarrow> Inl e | Inr st \<Rightarrow> Inr (rl_generation st)) started\<rparr>\<rparr>)))
     | _ \<Rightarrow> (Inr (), w))"

definition skip_overlap :: "(worker_world, unit) prog" where
  "skip_overlap = worker_do (\<lambda>k. k\<lparr>wk_skipped_total := wk_skipped_total k + 1\<rparr>)"

text \<open>\<open>reconcile\<close> after its \<open>begin\<close>.\<close>

definition reconcile_rest :: "recon_config \<Rightarrow> int \<Rightarrow> snapshot_source \<Rightarrow> (nat \<Rightarrow> instant) \<Rightarrow> instant \<Rightarrow> (recon_world, recon_report) prog" where
  "reconcile_rest c g src clk ended w =
     (case recon_try c src clk w of
        (locals, Inl code, w1) \<Rightarrow> (let iss = [failed_issue code] in
          case complete_lock c iss g ended w1 of (Inl e, w2) \<Rightarrow> (Inl e, w2)
          | (Inr st, w2) \<Rightarrow> (Inr \<lparr>rp_state = st, rp_captured_at = ended, rp_local_orders = length locals,
              rp_broker_orders = 0, rp_broker_fills = 0, rp_broker_positions = 0, rp_issues = iss\<rparr>, w2))
      | (locals, Inr (snap, iss), w1) \<Rightarrow>
          (case complete_lock c iss g ended w1 of (Inl e, w2) \<Rightarrow> (Inl e, w2)
          | (Inr st, w2) \<Rightarrow> (Inr \<lparr>rp_state = st, rp_captured_at = rs_captured_at snap,
              rp_local_orders = length locals, rp_broker_orders = length (rs_orders snap),
              rp_broker_fills = length (rs_fills snap), rp_broker_positions = length (rs_positions snap),
              rp_issues = iss\<rparr>, w2)))"

text \<open>A reconciliation that is cancelled has refreshed some of its orders.\<close>

definition cancelled_refresh :: "recon_config \<Rightarrow> nat \<Rightarrow> (nat \<Rightarrow> instant) \<Rightarrow> recon_world \<Rightarrow> recon_world" where
  "cancelled_refresh c n clk w =
     (case resolve (rc_account c) (om_registry (rc_manager c)) of Inl _ \<Rightarrow> w
      | Inr port \<Rightarrow> (case reconciliation_candidates (rc_account c) None (mw_repo (rw_manager w)) of Inl _ \<Rightarrow> w
        | Inr orders \<Rightarrow> w\<lparr>rw_manager := snd (reconcile_loop port clk (take n orders) (rw_manager w))\<rparr>))"

datatype recon_answer = Answered snapshot_source "nat \<Rightarrow> instant" instant | TimedOut nat "nat \<Rightarrow> instant"

text \<open>The \<open>finally\<close> block.\<close>

definition note_duration :: "instant \<Rightarrow> instant \<Rightarrow> account_worker \<Rightarrow> account_worker" where
  "note_duration started ended k = (let d = max 0 (of_int (ended - started) / 1000) in
     k\<lparr>wk_duration := Some d, wk_duration_total := wk_duration_total k + d, wk_duration_max := max (wk_duration_max k) d\<rparr>)"

definition recon_failed :: "worker_config \<Rightarrow> instant \<Rightarrow> string \<Rightarrow> (nat \<Rightarrow> instant) \<Rightarrow> (worker_world, bool) prog" where
  "recon_failed c started code clk =
     and_then (worker_do (\<lambda>k. k\<lparr>wk_failure_total := wk_failure_total k + 1, wk_recon_failure := Some (clk 0)\<rparr>)) (\<lambda>_ w.
       let (r, w1) = persist_lock c [code] (clk 1) w in
       (case r of Inl e \<Rightarrow> Inl e | Inr _ \<Rightarrow> Inr False, w1\<lparr>ww_worker := note_duration started (clk 2) (ww_worker w1)\<rparr>))"

definition note_report :: "recon_report \<Rightarrow> account_worker \<Rightarrow> account_worker" where
  "note_report rp k = k\<lparr>wk_snapshot_at := Some (rp_captured_at rp), wk_counts := Some
     \<lparr> wn_local_orders = rp_local_orders rp, wn_broker_orders = rp_broker_orders rp, wn_broker_fills = rp_broker_fills rp,
       wn_broker_positions = rp_broker_positions rp \<rparr>\<rparr>"

definition recon_reported :: "worker_config \<Rightarrow> instant \<Rightarrow> recon_report \<Rightarrow> client_health option \<Rightarrow> (nat \<Rightarrow> instant) \<Rightarrow> (worker_world, bool) prog" where
  "recon_reported c started rp h clk =
     and_then (worker_do (\<lambda>k. note_report rp (note_duration started (clk 2) k))) (\<lambda>_.
       if recovery_ready (rp_state rp) \<and> client_ready h
       then and_then (worker_do (\<lambda>k. k\<lparr>wk_success_total := wk_success_total k + 1, wk_recon_success := Some (clk 3),
              wk_error := None, wk_state := ReadyReadOnly\<rparr>)) (\<lambda>_. give True)
       else and_then (worker_do (\<lambda>k. k\<lparr>wk_failure_total := wk_failure_total k + 1, wk_recon_failure := Some (clk 3),
              wk_error := Some (case rl_issue_codes (rp_state rp) of [] \<Rightarrow> ''broker_readiness_failed'' | x # _ \<Rightarrow> x),
              wk_state := WorkerLocked\<rparr>)) (\<lambda>_.
            if recovery_ready (rp_state rp) then and_then (persist_lock c [''broker_readiness_failed''] (clk 4)) (\<lambda>_. give False)
            else give False))"

definition run_reconciliation :: "worker_config \<Rightarrow> int res \<Rightarrow> recon_answer \<Rightarrow> worker_world \<Rightarrow> (err option + recon_report) \<times> worker_world" where
  "run_reconciliation c attempt answer w = (case attempt of
       Inl e \<Rightarrow> (Inl (Some e), w)
     | Inr g \<Rightarrow> (case answer of
         TimedOut n clk \<Rightarrow> (Inl None, w\<lparr>ww_recon := cancelled_refresh (wc_recon c) n clk (ww_recon w)\<rparr>)
       | Answered src clk ended \<Rightarrow> (case reconcile_rest (wc_recon c) g src clk ended (ww_recon w) of
             (Inl e, r) \<Rightarrow> (Inl (Some e), w\<lparr>ww_recon := r\<rparr>) | (Inr rp, r) \<Rightarrow> (Inr rp, w\<lparr>ww_recon := r\<rparr>))))"

text \<open>The canary worker synchronizes its guardian after a reconciliation that succeeded.\<close>

definition guardian_sync :: "worker_config \<Rightarrow> guardian \<Rightarrow> instant \<Rightarrow> instant \<Rightarrow> bool \<Rightarrow> (worker_world, bool) prog" where
  "guardian_sync c g now failed_at ready w =
     (if ready \<and> wc_canary c \<and> wc_guards c
      then (case guardian_part (guardian_synchronize g (rw_truth (ww_recon w)) now) w of
          (Inr _, w1) \<Rightarrow> (Inr ready, w1)
        | (Inl e, w1) \<Rightarrow> and_then (persist_lock c [exception_code (wc_codec c) e (or_default (exc_str e) ''guardian_recovery_failed'')] failed_at)
            (\<lambda>_. give False) w1)
      else (Inr ready, w))"

text \<open>The reconciliation ends, or its time is over (a task that has not begun is cancelled).\<close>

definition reconcile_finishes :: "worker_config \<Rightarrow> recon_answer \<Rightarrow> (worker_world, unit) prog" where
  "reconcile_finishes c answer w = (case wk_phase (ww_worker w) of
       AwaitsTask starting started \<Rightarrow> (case answer of
           TimedOut _ _ \<Rightarrow> worker_do (\<lambda>k. k\<lparr>wk_phase := HasReport starting (Inl None) started\<rparr>) w
         | Answered _ _ _ \<Rightarrow> (Inr (), w))
     | AwaitsReport starting attempt started \<Rightarrow>
         (let (r, w1) = run_reconciliation c attempt answer w in
          worker_do (\<lambda>k. k\<lparr>wk_phase := HasReport starting r started\<rparr>) w1)
     | _ \<Rightarrow> (Inr (), w))"

text \<open>The rest of \<open>reconcile_now\<close>, and of the coroutine that awaits it.\<close>

definition reconcile_end :: "worker_config \<Rightarrow> guardian \<Rightarrow> client_health option \<Rightarrow> (nat \<Rightarrow> instant) \<Rightarrow> (worker_world, bool) prog" where
  "reconcile_end c g h clk w = (case wk_phase (ww_worker w) of
       HasReport starting result started \<Rightarrow>
         (let (r, w1) = (case result of
                Inl None \<Rightarrow> recon_failed c started ''reconciliation_timeout'' clk w
              | Inl (Some e) \<Rightarrow> recon_failed c started (exception_code (wc_codec c) e ''reconciliation_failed'') clk w
              | Inr rp \<Rightarrow> and_then (recon_reported c started rp h clk) (guardian_sync c g (clk 5) (clk 6)) w) in
          (r, w1\<lparr>ww_worker := rest c starting (ww_worker w1)\<rparr>))
     | _ \<Rightarrow> (Inr False, w))"

section \<open>Connecting\<close>

text \<open>What follows \<open>await self.client.start()\<close>, in \<open>start\<close> and in \<open>_reconnect\<close>: the connection raised (with
  the code of its exception), the client is not ready, or it is and the reconciliation begins.\<close>

definition worker_connected :: "worker_config \<Rightarrow> string option option \<Rightarrow> client_health option \<Rightarrow> (nat \<Rightarrow> instant) \<Rightarrow> (worker_world, unit) prog" where
  "worker_connected c raised h clk w = (case wk_phase (ww_worker w) of
       AwaitsBroker starting \<Rightarrow>
         (case raised of
            Some code \<Rightarrow> and_then (persist_lock c [case code of Some (x # xs) \<Rightarrow> x # xs | _ \<Rightarrow> ''broker_login_failed''] (clk 0))
              (\<lambda>_. worker_do (rest c starting)) w
          | None \<Rightarrow> if \<not> client_ready h
              then and_then (persist_lock c [''broker_readiness_failed''] (clk 0)) (\<lambda>_. worker_do (rest c starting)) w
              else and_then (worker_do (\<lambda>k. k\<lparr>wk_state := BrokerReadOnlyReady, wk_callback_task := True\<rparr>))
                (\<lambda>_. reconcile_begin c starting clk) w)
     | _ \<Rightarrow> (Inr (), w))"

text \<open>A turn of the periodic task.\<close>

definition periodic_turn :: "worker_config \<Rightarrow> client_health option \<Rightarrow> (nat \<Rightarrow> instant) \<Rightarrow> (worker_world, unit) prog" where
  "periodic_turn c h clk w =
     (if \<not> wk_timer_tasks (ww_worker w) \<or> wk_phase (ww_worker w) \<noteq> AtRest then (Inr (), w)
      else if client_ready h then reconcile_begin c False clk w
      else and_then (persist_lock c [''broker_reconnecting''] (clk 0)) (\<lambda>_.
        worker_do (\<lambda>k. k\<lparr>wk_state := BrokerConnecting, wk_phase := AwaitsBroker False\<rparr>)) w)"

section \<open>Callbacks\<close>

definition check_event_account :: "worker_config \<Rightarrow> broker_event \<Rightarrow> unit res" where
  "check_event_account c e = (case event_account_ref e of Inl x \<Rightarrow> Inl x
     | Inr t \<Rightarrow> if t \<noteq> wc_account c then Inl (ValueError ''callback_execution_target_mismatch'') else Inr ())"

text \<open>The handling of a record inside the \<open>try\<close> of \<open>_run_callbacks\<close>.\<close>

definition record_callback :: "worker_config \<Rightarrow> event_record \<Rightarrow> instant \<Rightarrow> (worker_world, unit) prog" where
  "record_callback c rec now = (case ex_status rec of
       EventReconciled \<Rightarrow> worker_do (\<lambda>k. k\<lparr>wk_reconciled := wk_reconciled k + 1\<rparr>)
     | EventUnmatched \<Rightarrow> and_then (worker_do (\<lambda>k. k\<lparr>wk_unmatched := wk_unmatched k + 1\<rparr>)) (\<lambda>_.
         persist_lock c [''unmatched_broker_callback''] now)
     | EventFailed \<Rightarrow> and_then (worker_do (\<lambda>k. k\<lparr>wk_failed := wk_failed k + 1\<rparr>)) (\<lambda>_.
         persist_lock c [case ex_error rec of Some (x # xs) \<Rightarrow> x # xs | _ \<Rightarrow> ''broker_callback_failed''] now)
     | EventReceived \<Rightarrow> give ())"

definition try_callback :: "worker_config \<Rightarrow> order_manager \<Rightarrow> broker_event \<Rightarrow> (nat \<Rightarrow> instant) \<Rightarrow> (worker_world, unit) prog" where
  "try_callback c m e clk =
     and_then (lift_res (check_event_account c e)) (\<lambda>_.
     and_then (worker_do (\<lambda>k. k\<lparr>wk_callbacks := wk_callbacks k + 1, wk_callback_at := Some (ev_received e)\<rparr>)) (\<lambda>_.
     and_then (callback_part (consume_one (wc_codec c) m e (clk 0))) (\<lambda>rec. record_callback c rec (clk 1))))"

definition on_callback :: "worker_config \<Rightarrow> order_manager \<Rightarrow> broker_event \<Rightarrow> (nat \<Rightarrow> instant) \<Rightarrow> (worker_world, unit) prog" where
  "on_callback c m e clk w =
     (if \<not> wk_callback_task (ww_worker w) then (Inr (), w)
      else (case try_callback c m e clk w of
          (Inr x, w1) \<Rightarrow> (Inr x, w1)
        | (Inl err, w1) \<Rightarrow> and_then (worker_do (\<lambda>k. k\<lparr>wk_failed := wk_failed k + 1\<rparr>)) (\<lambda>_.
            persist_lock c [exception_code (wc_codec c) err ''broker_callback_failed''] (clk 2)) w1))"

section \<open>Heartbeat\<close>

text \<open>The health is read for its counters (\<open>h\<close>) and again for readiness (\<open>h'\<close>).\<close>

definition lock_if_ready :: "worker_config \<Rightarrow> bool \<Rightarrow> string \<Rightarrow> instant \<Rightarrow> (worker_world, unit) prog" where
  "lock_if_ready c b code now w = (if b \<and> wk_state (ww_worker w) = ReadyReadOnly then persist_lock c [code] now w else (Inr (), w))"

definition snapshot_stale :: "worker_config \<Rightarrow> instant \<Rightarrow> account_worker \<Rightarrow> bool" where
  "snapshot_stale c now k = (case wk_snapshot_at k of None \<Rightarrow> False
     | Some t \<Rightarrow> of_int (now - t) / 1000000 > se_stale (wc_settings c))"

definition heartbeat :: "worker_config \<Rightarrow> client_health option \<Rightarrow> client_health option \<Rightarrow> (nat \<Rightarrow> instant) \<Rightarrow> (worker_world, unit) prog" where
  "heartbeat c h h' clk w =
     (if \<not> wk_timer_tasks (ww_worker w) then (Inr (), w)
      else let dropped = ch_dropped (client_health_of h); failed = ch_failed (client_health_of h);
               lost = (dropped > wk_seen_dropped (ww_worker w) \<or> failed > wk_seen_failed (ww_worker w)) in
        and_then (worker_do (\<lambda>k. k\<lparr>wk_heartbeat_at := Some (clk 0)\<rparr>)) (\<lambda>_.
        and_then (lock_if_ready c (\<not> client_ready h') ''broker_disconnected'' (clk 1)) (\<lambda>_.
        and_then (worker_do (\<lambda>k. k\<lparr>wk_seen_dropped := dropped, wk_seen_failed := failed\<rparr>)) (\<lambda>_.
        and_then (lock_if_ready c lost ''callback_delivery_degraded'' (clk 2)) (\<lambda>_ w1.
        lock_if_ready c (snapshot_stale c (clk 3) (ww_worker w1)) ''broker_snapshot_stale'' (clk 4) w1)))) w)"

section \<open>Stop\<close>

text \<open>The tasks are cancelled; \<open>abandoned\<close> callbacks are left when the queue does not drain in time; the
  client may raise when it is closed.\<close>

definition cancel_tasks :: "nat \<Rightarrow> account_worker \<Rightarrow> account_worker" where
  "cancel_tasks abandoned k = k\<lparr>wk_stop := True, wk_phase := AtRest, wk_dispatch_task := False, wk_guardian_task := False,
     wk_timer_tasks := False, wk_callback_task := False,
     wk_abandoned := (if wk_callback_task k then wk_abandoned k + abandoned else wk_abandoned k)\<rparr>"

text \<open>A reconciliation under way is cancelled: it has refreshed \<open>n\<close> orders, or has not begun, and the
  \<open>finally\<close> block runs.\<close>

definition cancel_main :: "worker_config \<Rightarrow> nat \<Rightarrow> (nat \<Rightarrow> instant) \<Rightarrow> instant \<Rightarrow> (worker_world, unit) prog" where
  "cancel_main c n clk ended w = (case wk_phase (ww_worker w) of
       AwaitsReport _ (Inr g) started \<Rightarrow> worker_do (note_duration started ended)
         (w\<lparr>ww_recon := cancelled_refresh (wc_recon c) n clk (ww_recon w)\<rparr>)
     | AwaitsTask _ started \<Rightarrow> worker_do (note_duration started ended) w
     | _ \<Rightarrow> (Inr (), w))"

definition has_report :: "worker_phase \<Rightarrow> bool" where
  "has_report p = (case p of HasReport _ _ _ \<Rightarrow> True | _ \<Rightarrow> False)"

definition worker_stop :: "worker_config \<Rightarrow> nat \<Rightarrow> (nat \<Rightarrow> instant) \<Rightarrow> nat \<Rightarrow> err option \<Rightarrow> (nat \<Rightarrow> instant)
    \<Rightarrow> (worker_world, unit) prog" where
  "worker_stop c n clk' abandoned close_error clk w =
     (if has_report (wk_phase (ww_worker w)) then (Inr (), w) else and_then (cancel_main c n clk' (clk 2)) (\<lambda>_. and_then (worker_do (cancel_tasks abandoned)) (\<lambda>_.
     (case close_error of Some e \<Rightarrow> fail e
      | None \<Rightarrow>
        and_then (if wk_state (ww_worker w) \<noteq> WorkerStopped then persist_lock c [''worker_stopped''] (clk 0) else give ()) (\<lambda>_.
        worker_do (\<lambda>k. k\<lparr>wk_state := WorkerStopped, wk_heartbeat_at := Some (clk 1)\<rparr>))))) w)"

section \<open>Canary dispatch\<close>

text \<open>\<open>order.status is BrokerOrderStatus.UNKNOWN\<close>: the module imports no \<open>BrokerOrderStatus\<close>, so the test raises
  whatever the order is.\<close>

definition status_is_unknown :: "broker_order \<Rightarrow> bool res" where
  "status_is_unknown b = Inl (NameError ''name 'BrokerOrderStatus' is not defined'')"

definition lock_reading :: "worker_config \<Rightarrow> instant \<Rightarrow> (worker_world, recovery_state) prog" where
  "lock_reading c now w = (let (r, tb) = recovery_state_of (broker_name (wc_account c)) (account_id (wc_account c)) now (worker_lock w) in
     (r, put_lock tb w))"

text \<open>The \<open>try\<close> block of a turn of \<open>_run_canary_dispatch\<close>: cancels first, then orders.\<close>

definition after_cancel :: "worker_config \<Rightarrow> broker_order \<Rightarrow> instant \<Rightarrow> (worker_world, bool) prog" where
  "after_cancel c b now =
     and_then (worker_do (\<lambda>k. k\<lparr>wk_cancels := wk_cancels k + 1\<rparr>)) (\<lambda>_.
     and_then (lift_res (status_is_unknown b)) (\<lambda>unknown.
       if unknown then and_then (persist_lock c [''unknown_cancel_requires_reconciliation''] now) (\<lambda>_. give True) else give True))"

definition after_dispatch :: "worker_config \<Rightarrow> broker_order \<Rightarrow> instant \<Rightarrow> (worker_world, bool) prog" where
  "after_dispatch c b now =
     and_then (worker_do (\<lambda>k. k\<lparr>wk_dispatched := wk_dispatched k + 1\<rparr>)) (\<lambda>_.
     and_then (lift_res (status_is_unknown b)) (\<lambda>unknown.
       if unknown then
         and_then (if wc_guards c then and_then (guardian_part (mark_order_unknown (req_client_order_id (bo_request b)) now)) (\<lambda>_. give ()) else give ())
           (\<lambda>_. and_then (persist_lock c [''unknown_order_requires_reconciliation''] now) (\<lambda>_. give True))
       else give True))"

definition try_dispatch :: "worker_config \<Rightarrow> order_manager \<Rightarrow> (nat \<Rightarrow> instant) \<Rightarrow> (nat \<Rightarrow> instant) \<Rightarrow> instant \<Rightarrow> (worker_world, bool) prog" where
  "try_dispatch c m clk clk' now =
     and_then (manager_part (dispatch_cancel_once m (wc_account c) clk)) (\<lambda>cancelled. case cancelled of
       Some b \<Rightarrow> after_cancel c b now
     | None \<Rightarrow> and_then (manager_part (dispatch_once m (wc_account c) clk')) (\<lambda>sent. case sent of
         Some b \<Rightarrow> after_dispatch c b now
       | None \<Rightarrow> give False))"

text \<open>The result tells whether the loop goes on without waiting.\<close>

definition dispatch_turn :: "worker_config \<Rightarrow> order_manager \<Rightarrow> client_health option \<Rightarrow> (nat \<Rightarrow> instant) \<Rightarrow> (nat \<Rightarrow> instant)
    \<Rightarrow> (nat \<Rightarrow> instant) \<Rightarrow> (worker_world, bool) prog" where
  "dispatch_turn c m h clk clk' now w =
     (if \<not> wk_dispatch_task (ww_worker w) \<or> wk_stop (ww_worker w) then (Inr False, w)
      else and_then (lock_reading c (now 0)) (\<lambda>st w1.
        if recovery_ready st \<and> client_ready h
        then (case try_dispatch c m clk clk' (now 1) w1 of
            (Inr b, w2) \<Rightarrow> (Inr b, w2)
          | (Inl e, w2) \<Rightarrow> and_then (persist_lock c [exception_code (wc_codec c) e ''canary_dispatch_failed''] (now 2)) (\<lambda>_. give False) w2)
        else (Inr False, w1)) w)"

definition guardian_turn :: "worker_config \<Rightarrow> guardian \<Rightarrow> client_health option \<Rightarrow> (nat \<Rightarrow> nat \<Rightarrow> instant) \<Rightarrow> (nat \<Rightarrow> instant)
    \<Rightarrow> (worker_world, unit) prog" where
  "guardian_turn c g h clk now w =
     (if \<not> wk_guardian_task (ww_worker w) \<or> wk_stop (ww_worker w) then (Inr (), w)
      else and_then (lock_reading c (now 0)) (\<lambda>st w1.
        if recovery_ready st \<and> client_ready h
        then (case and_then (guardian_part (process_kill_switches g (now 1) clk)) (\<lambda>_.
                guardian_part (evaluate_latest_quotes g (now 2) clk)) w1 of
            (Inr _, w2) \<Rightarrow> (Inr (), w2)
          | (Inl e, w2) \<Rightarrow> persist_lock c [exception_code (wc_codec c) e (or_default (exc_str e) ''position_guardian_failed'')] (now 3) w2)
        else (Inr (), w1)) w)"

section \<open>Runs\<close>

datatype worker_op =
    StartWorker "nat \<Rightarrow> instant"
  | Connected "string option option" "client_health option" "nat \<Rightarrow> instant"
  | PeriodicTurn "client_health option" "nat \<Rightarrow> instant"
  | Overlap
  | ReconcileStarts instant
  | ReconcileFinishes recon_answer
  | ReportArrives guardian "client_health option" "nat \<Rightarrow> instant"
  | CallbackArrives order_manager broker_event "nat \<Rightarrow> instant"
  | Heartbeat "client_health option" "client_health option" "nat \<Rightarrow> instant"
  | DispatchTurn order_manager "client_health option" "nat \<Rightarrow> instant" "nat \<Rightarrow> instant" "nat \<Rightarrow> instant"
  | GuardianTurn guardian "client_health option" "nat \<Rightarrow> nat \<Rightarrow> instant" "nat \<Rightarrow> instant"
  | StopWorker nat "nat \<Rightarrow> instant" nat "err option" "nat \<Rightarrow> instant"

fun worker_step :: "worker_config \<Rightarrow> worker_world \<Rightarrow> worker_op \<Rightarrow> worker_world" where
  "worker_step c w (StartWorker clk) = snd (worker_start c clk w)"
| "worker_step c w (Connected raised h clk) = snd (worker_connected c raised h clk w)"
| "worker_step c w (PeriodicTurn h clk) = snd (periodic_turn c h clk w)"
| "worker_step c w Overlap = snd (skip_overlap w)"
| "worker_step c w (ReconcileStarts now) = snd (reconcile_starts c now w)"
| "worker_step c w (ReconcileFinishes answer) = snd (reconcile_finishes c answer w)"
| "worker_step c w (ReportArrives g h clk) = snd (reconcile_end c g h clk w)"
| "worker_step c w (CallbackArrives m e clk) = snd (on_callback c m e clk w)"
| "worker_step c w (Heartbeat h h' clk) = snd (heartbeat c h h' clk w)"
| "worker_step c w (DispatchTurn m h clk clk' now) = snd (dispatch_turn c m h clk clk' now w)"
| "worker_step c w (GuardianTurn g h clk now) = snd (guardian_turn c g h clk now w)"
| "worker_step c w (StopWorker n clk' k e clk) = snd (worker_stop c n clk' k e clk w)"

text \<open>The parts agree on the account.\<close>

definition worker_config_ok :: "worker_config \<Rightarrow> bool" where
  "worker_config_ok c \<longleftrightarrow> rc_account (wc_recon c) = wc_account c \<and> \<not> blank (broker_name (wc_account c)) \<and> \<not> blank (account_id (wc_account c))"

lemma reconcile_account_split:
  "reconcile_account c src began clk ended w =
     (case recovery_begin (broker_name (rc_account c)) (account_id (rc_account c)) (Aware began) (rw_lock w) of
        (Inl e, tb) \<Rightarrow> (Inl e, w\<lparr>rw_lock := tb\<rparr>)
      | (Inr attempt, tb) \<Rightarrow> reconcile_rest c (rl_generation attempt) src clk ended (w\<lparr>rw_lock := tb\<rparr>))"
  unfolding reconcile_account_def reconcile_rest_def by (rule refl)

end
