(* ===== verification/Worker_Safety.thy ===== *)
theory Worker_Safety
  imports Account_Worker Live_Deployment
begin

text \<open>
  What the worker of an account guarantees over every interleaving of its tasks: it fails closed.  The
  lock is open only while the worker is ready or stands at one of the two ends of a reconciliation,
  orders are submitted only under an open lock, and a callback that could not be matched with broker
  truth keeps the lock shut until a reconciliation that began after it, so also against the one that
  was under way.
\<close>

section \<open>Relations that programs keep\<close>

definition keeps :: "('s \<Rightarrow> 's \<Rightarrow> bool) \<Rightarrow> ('s, 'a) prog \<Rightarrow> bool" where
  "keeps rel f \<longleftrightarrow> (\<forall>s. rel s (snd (f s)))"

lemma keepsD: "keeps rel f \<Longrightarrow> rel s (snd (f s))"
  by (simp add: keeps_def)

locale program_frame =
  fixes rel :: "'s \<Rightarrow> 's \<Rightarrow> bool"
  assumes rel_refl: "rel s s"
    and rel_trans: "rel s t \<Longrightarrow> rel t u \<Longrightarrow> rel s u"
begin

lemma keeps_pure: "keeps rel (give x)" "keeps rel (fail e)" "keeps rel (lift_res r)"
  by (simp_all add: keeps_def rel_refl)

lemma keeps_then: "keeps rel f \<Longrightarrow> (\<And>x. keeps rel (g x)) \<Longrightarrow> keeps rel (and_then f g)"
  unfolding keeps_def and_then_def by (auto split: prod.split sum.split intro: rel_trans) (metis rel_trans snd_conv)+

lemma keeps_fold: "(\<And>x b. keeps rel (f x b)) \<Longrightarrow> keeps rel (fold_prog f xs b)"
  unfolding keeps_def
proof
  fix s assume h: "\<And>x b. \<forall>s. rel s (snd (f x b s))"
  obtain r s' where r: "fold_prog f xs b s = (r, s')" by fastforce
  have "rel s s'" by (rule fold_prog_rel [OF _ rel_refl rel_trans r]) (use h in \<open>metis snd_conv\<close>)
  with r show "rel s (snd (fold_prog f xs b s))" by simp
qed

lemma keeps_on_error: "keeps rel f \<Longrightarrow> keeps rel h \<Longrightarrow> keeps rel (on_error f h)"
  unfolding keeps_def on_error_def by (auto split: prod.split sum.split) (metis rel_trans snd_conv)+

lemmas frame = keeps_pure keeps_then keeps_fold keeps_on_error

end

section \<open>The lock under other operations\<close>

definition keeps_shut :: "string \<times> string \<Rightarrow> recovery_table \<Rightarrow> recovery_table \<Rightarrow> bool" where
  "keeps_shut k tb tb' \<longleftrightarrow> lock_gen tb k \<le> lock_gen tb' k \<and> (lock_ready tb' k \<longrightarrow> lock_ready tb k)"

lemma keeps_shut_step: "(\<And>n. \<not> clean_completion x k n) \<Longrightarrow> keeps_shut k tb (recovery_step tb x)"
  unfolding keeps_shut_def using sqlite_lock.gen_mono sqlite_lock.ready_cause by blast

lemma keeps_shut_refl: "keeps_shut k tb tb"
  by (simp add: keeps_shut_def)

lemma keeps_shut_trans: "keeps_shut k a b \<Longrightarrow> keeps_shut k b d \<Longrightarrow> keeps_shut k a d"
  by (auto simp: keeps_shut_def)

lemma keeps_shut_state: "keeps_shut k tb (snd (recovery_state_of bn acc now tb))"
  using keeps_shut_step [of "ReadState bn acc now" k tb] by simp

lemma keeps_shut_force: "keeps_shut k tb (snd (force_lock bn acc codes t tb))"
  using keeps_shut_step [of "ForceLock bn acc codes t" k tb] by simp

lemma keeps_shut_assert: "keeps_shut k tb (snd (assert_ready bn acc now tb))"
  using keeps_shut_state [of k tb bn acc now] by (auto simp: assert_ready_def split: prod.splits sum.split)

section \<open>The guardian\<close>

definition guardian_rel :: "string \<times> string \<Rightarrow> guardian_world \<Rightarrow> guardian_world \<Rightarrow> bool" where
  "guardian_rel k w w' \<longleftrightarrow> keeps_shut k (gw_lock w) (gw_lock w')
     \<and> mw_submitted (gw_manager w') = mw_submitted (gw_manager w)"

interpretation guardian_frame: program_frame "guardian_rel k" for k
  by unfold_locales (auto simp: guardian_rel_def keeps_shut_refl intro: keeps_shut_trans)

lemma guardian_parts:
  "keeps (guardian_rel k) (in_store f)" "keeps (guardian_rel k) (reading h)"
  "(\<And>tb. keeps_shut k tb (snd (j tb))) \<Longrightarrow> keeps (guardian_rel k) (in_lock j)"
  "(\<And>m. mw_submitted (snd (p m)) = mw_submitted m) \<Longrightarrow> keeps (guardian_rel k) (in_manager p)"
  by (auto simp: keeps_def guardian_rel_def in_store_def reading_def in_lock_def in_manager_def keeps_shut_refl split: prod.split)
    (metis snd_conv)+

lemmas guardian_rules = guardian_frame.frame guardian_parts keeps_shut_assert keeps_shut_force

lemma manager_creates: "mw_submitted (snd (create m rq now w)) = mw_submitted w"
  using submits_by_dispatch [of "Create m rq now" w] by simp

lemma manager_requests_cancel: "mw_submitted (snd (request_cancel m t owner cid now w)) = mw_submitted w"
  using submits_by_dispatch [of "RequestCancel m t owner cid now" w] by simp

lemma sink_submits: "mw_submitted (snd (guardian_sink_reserve m t q now w)) = mw_submitted w"
  by (auto simp: guardian_sink_reserve_def manager_creates split: sum.split)

lemma guardian_ready_frame: "keeps (guardian_rel k) (guardian_ready g now)"
  by (auto simp: guardian_ready_def intro!: guardian_rules)

lemma request_exit_frame: "keeps (guardian_rel k) (request_exit g i reason q clk)"
  by (auto simp: request_exit_def place_exit_def sink_submits split: option.split prod.split
      intro!: guardian_rules guardian_ready_frame)

lemma synchronize_frame: "keeps (guardian_rel k) (guardian_synchronize g truth now)"
proof -
  have "keeps (guardian_rel k) (sync_group g now kv acc)" for kv acc
    by (auto simp: sync_group_def Let_def split: option.split prod.split intro!: guardian_rules)
  moreover have "keeps (guardian_rel k) (flatten_missing g now b p s)" for b p s
    by (auto simp: flatten_missing_def intro!: guardian_rules)
  ultimately show ?thesis
    by (auto simp: guardian_synchronize_def Let_def split: option.split prod.split intro!: guardian_rules guardian_ready_frame)
qed

lemma quotes_frame: "keeps (guardian_rel k) (evaluate_latest_quotes g now clk)"
proof -
  have "keeps (guardian_rel k) (quote_exit g q clk' np created)" for q clk' np created
    by (auto simp: quote_exit_def split: option.split prod.split intro!: guardian_rules request_exit_frame)
  then show ?thesis
    by (auto simp: evaluate_latest_quotes_def on_quote_def split: option.split intro!: guardian_rules)
qed

lemma kill_switches_frame: "keeps (guardian_rel k) (process_kill_switches g now clk)"
proof -
  have c: "keeps (guardian_rel k) (cancel_working_entries g owner now)" for owner
    by (auto simp: cancel_working_entries_def cancel_entry_def Let_def manager_requests_cancel split: prod.split intro!: guardian_rules)
  have "keeps (guardian_rel k) (kill_position g actions clk' np created)" for actions clk' np created
    by (auto simp: kill_position_def split: prod.split intro!: guardian_rules request_exit_frame)
  with c show ?thesis
    by (auto simp: process_kill_switches_def split: option.split intro!: guardian_rules)
qed

section \<open>The worker\<close>

definition worker_key :: "worker_config \<Rightarrow> string \<times> string" where
  "worker_key c = (broker_name (wc_account c), account_id (wc_account c))"

definition lock_open :: "worker_config \<Rightarrow> worker_world \<Rightarrow> bool" where
  "lock_open c w \<longleftrightarrow> lock_ready (worker_lock w) (worker_key c)"

definition generation :: "worker_config \<Rightarrow> worker_world \<Rightarrow> int" where
  "generation c w = lock_gen (worker_lock w) (worker_key c)"

definition sent_by :: "worker_world \<Rightarrow> routed_order list" where
  "sent_by w = mw_submitted (rw_manager (ww_recon w))"

text \<open>A reconciliation that is scheduled and has not begun, or has ended and is not yet noted.\<close>

definition at_an_end :: "worker_phase \<Rightarrow> bool" where
  "at_an_end p = (case p of AwaitsTask _ _ \<Rightarrow> True | HasReport _ _ _ \<Rightarrow> True | _ \<Rightarrow> False)"

definition in_reconciliation :: "worker_phase \<Rightarrow> bool" where
  "in_reconciliation p = (case p of AtRest \<Rightarrow> False | AwaitsBroker _ \<Rightarrow> False | _ \<Rightarrow> True)"

lemma phase_simps [simp]:
  "\<not> in_reconciliation AtRest" "\<not> in_reconciliation (AwaitsBroker b)" "in_reconciliation (AwaitsTask b t)"
  "in_reconciliation (AwaitsReport b r t)" "in_reconciliation (HasReport b x t)"
  "\<not> at_an_end AtRest" "\<not> at_an_end (AwaitsBroker b)" "at_an_end (AwaitsTask b t)"
  "\<not> at_an_end (AwaitsReport b r t)" "at_an_end (HasReport b x t)"
  by (simp_all add: in_reconciliation_def at_an_end_def)

text \<open>What an operation that neither schedules, begins nor ends a reconciliation may change: the lock is
  not opened, and an open lock is one that was open in this state of the worker, or leaves a worker
  that is ready or stopped.\<close>

definition fine :: "worker_config \<Rightarrow> bool \<Rightarrow> worker_world \<Rightarrow> worker_world \<Rightarrow> bool" where
  "fine c b w w' \<longleftrightarrow> generation c w \<le> generation c w'
     \<and> (in_reconciliation (wk_phase (ww_worker w')) \<longrightarrow> wk_phase (ww_worker w') = wk_phase (ww_worker w))
     \<and> (lock_open c w' \<longrightarrow> lock_open c w
          \<and> (wk_state (ww_worker w') \<in> {WorkerStopped, ReadyReadOnly} \<or> wk_stop (ww_worker w')
             \<or> wk_state (ww_worker w') = wk_state (ww_worker w) \<and> wk_phase (ww_worker w') = wk_phase (ww_worker w)
               \<and> wk_stop (ww_worker w') = wk_stop (ww_worker w)))
     \<and> (b \<longrightarrow> sent_by w' = sent_by w)"

lemma fine_refl [simp]: "fine c b w w"
  by (simp add: fine_def)

lemma fine_trans: "fine c q a b \<Longrightarrow> fine c q b d \<Longrightarrow> fine c q a d"
  unfolding fine_def by (elim conjE, intro conjI) (auto, (fastforce+)?)

interpretation worker_frame: program_frame "fine c b" for c b
  by unfold_locales (auto intro: fine_trans)

definition locked_world :: "worker_config \<Rightarrow> string list \<Rightarrow> instant \<Rightarrow> worker_world \<Rightarrow> worker_world" where
  "locked_world c codes now w = put_lock (lock_upsert (broker_name (wc_account c)) (account_id (wc_account c)) Locked
       (if dedup codes = [] then [''reconciliation_required''] else dedup codes) now (worker_lock w))
     (w\<lparr>ww_worker := (ww_worker w)\<lparr>wk_error := (case codes of [] \<Rightarrow> None | x # _ \<Rightarrow> Some x), wk_state := WorkerLocked\<rparr>\<rparr>)"

lemma put_lock_simps [simp]:
  "ww_worker (put_lock tb w) = ww_worker w" "worker_lock (put_lock tb w) = tb" "sent_by (put_lock tb w) = sent_by w"
  "worker_lock (w\<lparr>ww_worker := k\<rparr>) = worker_lock w" "sent_by (w\<lparr>ww_worker := k\<rparr>) = sent_by w"
  "lock_open c (w\<lparr>ww_worker := k\<rparr>) = lock_open c w" "generation c (w\<lparr>ww_worker := k\<rparr>) = generation c w"
  by (simp_all add: put_lock_def worker_lock_def sent_by_def lock_open_def generation_def)

lemma worker_do_simps [simp]: "worker_do f w = (Inr (), w\<lparr>ww_worker := f (ww_worker w)\<rparr>)"
  by (simp add: worker_do_def)

lemma locked_world_simps [simp]:
  "wk_state (ww_worker (locked_world c codes now w)) = WorkerLocked"
  "wk_phase (ww_worker (locked_world c codes now w)) = wk_phase (ww_worker w)"
  "wk_stop (ww_worker (locked_world c codes now w)) = wk_stop (ww_worker w)"
  "wk_reconciled (ww_worker (locked_world c codes now w)) = wk_reconciled (ww_worker w)"
  "sent_by (locked_world c codes now w) = sent_by w"
  "\<not> lock_open c (locked_world c codes now w)"
  "generation c (locked_world c codes now w) = generation c w + 1"
  by (simp_all add: locked_world_def lock_open_def generation_def worker_key_def lock_ready_upsert lock_gen_upsert)

lemma persist_locks:
  assumes "worker_config_ok c"
  shows "persist_lock c codes now w = (Inr (), locked_world c codes now w)"
proof -
  let ?codes = "if dedup codes = [] then [''reconciliation_required''] else dedup codes"
  let ?tb = "lock_upsert (broker_name (wc_account c)) (account_id (wc_account c)) Locked ?codes now (worker_lock w)"
  obtain q where "lock_row (broker_name (wc_account c)) (account_id (wc_account c)) ?tb = Some q" "rl_status q = Locked"
    using lock_row_upsert_same by blast
  with assms show ?thesis
    by (simp add: persist_lock_def force_lock_def locked_write_def validate_identity_def validate_time_def worker_config_ok_def
        locked_world_def Let_def)
qed

lemma fine_locked [simp]: "fine c b w (locked_world c codes now w)"
  by (simp add: fine_def)

lemma fine_after_lock: "fine c b w v \<Longrightarrow> fine c b w (locked_world c codes now v)"
  by (rule fine_trans [OF _ fine_locked])

lemma persist_frame: "worker_config_ok c \<Longrightarrow> keeps (fine c b) (persist_lock c codes now)"
  by (simp add: keeps_def persist_locks)

lemma fine_worker: "wk_stop k = wk_stop (ww_worker w) \<Longrightarrow> wk_phase k = wk_phase (ww_worker w)
    \<Longrightarrow> wk_state k = wk_state (ww_worker w) \<Longrightarrow> fine c b w (w\<lparr>ww_worker := k\<rparr>)"
  by (simp add: fine_def)

lemma worker_do_frame: "(\<And>k. wk_stop (f k) = wk_stop k \<and> wk_phase (f k) = wk_phase k \<and> wk_state (f k) = wk_state k)
    \<Longrightarrow> keeps (fine c b) (worker_do f)"
  by (simp add: keeps_def fine_worker)

text \<open>Parts that leave the worker alone.\<close>

lemma fine_quiet: "ww_worker w' = ww_worker w \<Longrightarrow> keeps_shut (worker_key c) (worker_lock w) (worker_lock w')
    \<Longrightarrow> (b \<Longrightarrow> sent_by w' = sent_by w) \<Longrightarrow> fine c b w w'"
  by (auto simp: fine_def keeps_shut_def lock_open_def generation_def)

lemma guardian_part_frame: "keeps (guardian_rel (worker_key c)) f \<Longrightarrow> keeps (fine c b) (guardian_part f)"
  unfolding keeps_def
proof
  fix w :: worker_world assume k: "\<forall>s. guardian_rel (worker_key c) s (snd (f s))"
  obtain x g where g: "f \<lparr> gw_store = ww_guardian w, gw_manager = rw_manager (ww_recon w), gw_lock = rw_lock (ww_recon w) \<rparr> = (x, g)"
    by fastforce
  with k have "guardian_rel (worker_key c) \<lparr> gw_store = ww_guardian w, gw_manager = rw_manager (ww_recon w), gw_lock = rw_lock (ww_recon w) \<rparr> g"
    by (metis snd_conv)
  then show "fine c b w (snd (guardian_part f w))"
    by (intro fine_quiet) (simp_all add: guardian_part_def g guardian_rel_def worker_lock_def sent_by_def)
qed

lemma manager_part_frame: "(\<And>m. b \<Longrightarrow> mw_submitted (snd (f m)) = mw_submitted m) \<Longrightarrow> keeps (fine c b) (manager_part f)"
  unfolding keeps_def
proof
  fix w :: worker_world assume h: "\<And>m. b \<Longrightarrow> mw_submitted (snd (f m)) = mw_submitted m"
  obtain x m where "f (rw_manager (ww_recon w)) = (x, m)" by fastforce
  with h [of "rw_manager (ww_recon w)"] show "fine c b w (snd (manager_part f w))"
    by (intro fine_quiet) (simp_all add: manager_part_def worker_lock_def sent_by_def keeps_shut_refl)
qed

lemma callback_part_frame: "(\<And>b. mw_submitted (cb_manager (snd (f b))) = mw_submitted (cb_manager b)) \<Longrightarrow> keeps (fine c b) (callback_part f)"
  unfolding keeps_def
proof
  fix w :: worker_world assume h: "\<And>b. mw_submitted (cb_manager (snd (f b))) = mw_submitted (cb_manager b)"
  obtain x b' where "f \<lparr> cb_audit = ww_audit w, cb_manager = rw_manager (ww_recon w) \<rparr> = (x, b')" by fastforce
  with h [of "\<lparr> cb_audit = ww_audit w, cb_manager = rw_manager (ww_recon w) \<rparr>"] show "fine c b w (snd (callback_part f w))"
    by (intro fine_quiet) (simp_all add: callback_part_def worker_lock_def sent_by_def keeps_shut_refl)
qed

lemma lock_reading_frame: "keeps (fine c b) (lock_reading c now)"
  by (auto simp: keeps_def lock_reading_def split: prod.split intro!: fine_quiet) (metis keeps_shut_state snd_conv)

lemmas worker_rules = worker_frame.frame persist_frame worker_do_frame guardian_part_frame manager_part_frame
  callback_part_frame lock_reading_frame synchronize_frame quotes_frame kill_switches_frame

section \<open>The reconciliation\<close>

text \<open>What holds between the report and the state the worker draws from it.\<close>

definition almost :: "worker_config \<Rightarrow> bool \<Rightarrow> worker_world \<Rightarrow> worker_world \<Rightarrow> bool" where
  "almost c b w w' \<longleftrightarrow> generation c w \<le> generation c w'
     \<and> (in_reconciliation (wk_phase (ww_worker w')) \<longrightarrow> wk_phase (ww_worker w') = wk_phase (ww_worker w))
     \<and> (lock_open c w' \<longrightarrow> lock_open c w) \<and> (b \<longrightarrow> sent_by w' = sent_by w)"

lemma almost_fine: "almost c b w w' \<Longrightarrow> \<not> lock_open c w' \<or> wk_state (ww_worker w') \<in> {WorkerStopped, ReadyReadOnly} \<Longrightarrow> fine c b w w'"
  by (auto simp: almost_def fine_def)

lemma fine_almost: "fine c b w w' \<Longrightarrow> almost c b w w'"
  by (auto simp: almost_def fine_def)

lemma almost_worker: "almost c b w v
    \<Longrightarrow> wk_phase k \<in> {wk_phase (ww_worker v), AtRest} \<Longrightarrow> almost c b w (v\<lparr>ww_worker := k\<rparr>)"
  by (auto simp: almost_def)

lemma almost_locked: "almost c b w v \<Longrightarrow> almost c b w (locked_world c codes now v)"
  by (simp add: almost_def)

lemma fine_rest: "wk_state (ww_worker w) \<in> {WorkerStopped, ReadyReadOnly} \<or> \<not> lock_open c w
    \<Longrightarrow> fine c b w (w\<lparr>ww_worker := rest c starting (ww_worker w)\<rparr>)"
  by (auto simp: fine_def rest_def start_tasks_def)

lemma recon_try_frame: "recon_try c src clk w = (ls, x, w') \<Longrightarrow> rw_lock w' = rw_lock w
    \<and> mw_submitted (rw_manager w') = mw_submitted (rw_manager w)"
proof -
  have m: "mw_submitted m' = mw_submitted m" if "reconcile_broker_orders a t o' k m = (r, m')" for a t o' k m r m'
    using that submits_by_dispatch [of "ReconcileAll a t o' k" m] by simp
  show "recon_try c src clk w = (ls, x, w') \<Longrightarrow> rw_lock w' = rw_lock w \<and> mw_submitted (rw_manager w') = mw_submitted (rw_manager w)"
    by (auto simp: recon_try_def Let_def split: prod.splits sum.splits snapshot_source.splits if_splits dest!: m in_repo_submits)
qed

lemma complete_lock_frame:
  assumes "complete_lock c iss g t w = (x, w')"
  shows "mw_submitted (rw_manager w') = mw_submitted (rw_manager w) \<and> lock_gen (rw_lock w') k = lock_gen (rw_lock w) k
    \<and> (lock_ready (rw_lock w') k \<longrightarrow> lock_ready (rw_lock w) k \<or> g = lock_gen (rw_lock w) k)
    \<and> (\<forall>st. x = Inr st \<longrightarrow> recovery_ready st = lock_ready (rw_lock w') (broker_name (rc_account c), account_id (rc_account c)))"
proof -
  obtain r tb where r: "recovery_complete (broker_name (rc_account c)) (account_id (rc_account c)) (map ri_code iss) g (Aware t) (rw_lock w) = (r, tb)"
    by fastforce
  have "lock_gen tb k = lock_gen (rw_lock w) k \<and> (lock_ready tb k \<longrightarrow> lock_ready (rw_lock w) k \<or> g = lock_gen (rw_lock w) k)"
    using recovery_complete_table [of "broker_name (rc_account c)" "account_id (rc_account c)" "map ri_code iss" g "Aware t" "rw_lock w"]
    by (auto simp: r lock_gen_complete dest: lock_ready_complete)
  moreover have "recovery_ready st = lock_ready tb (broker_name (rc_account c), account_id (rc_account c))" if "r = Inr st" for st
    using r that by (auto simp: recovery_complete_def Let_def lock_ready_def split: sum.splits option.splits if_splits)
  ultimately show ?thesis using assms r by (auto simp: complete_lock_def)
qed

lemma reconcile_rest_frame:
  assumes "reconcile_rest c g src clk ended w = (x, w')"
  shows "mw_submitted (rw_manager w') = mw_submitted (rw_manager w) \<and> lock_gen (rw_lock w') k = lock_gen (rw_lock w) k
    \<and> (lock_ready (rw_lock w') k \<longrightarrow> lock_ready (rw_lock w) k \<or> g = lock_gen (rw_lock w) k)
    \<and> (\<forall>rp. x = Inr rp \<longrightarrow> recovery_ready (rp_state rp) = lock_ready (rw_lock w') (broker_name (rc_account c), account_id (rc_account c)))"
proof -
  obtain ls y w1 where t: "recon_try c src clk w = (ls, y, w1)" by (cases "recon_try c src clk w") auto
  define iss where "iss = (case y of Inl code \<Rightarrow> [failed_issue code] | Inr (snap, iss) \<Rightarrow> iss)"
  obtain z where l: "complete_lock c iss g ended w1 = (z, w')" and s: "\<forall>rp. x = Inr rp \<longrightarrow> z = Inr (rp_state rp)"
    using assms t by (auto simp: reconcile_rest_def Let_def iss_def split: sum.splits prod.splits)
  from complete_lock_frame [OF l, of k] recon_try_frame [OF t] s show ?thesis by auto
qed

text \<open>The report, or what stands in for it.\<close>

lemma run_reconciliation_frame:
  assumes "worker_config_ok c" "wk_phase (ww_worker w) = AwaitsReport s attempt started" "run_reconciliation c attempt answer w = (x, w')"
  shows "generation c w' = generation c w \<and> sent_by w' = sent_by w \<and> ww_worker w' = ww_worker w
    \<and> (lock_open c w' \<longrightarrow> lock_open c w \<or> attempt = Inr (generation c w))
    \<and> (\<forall>rp. x = Inr rp \<longrightarrow> recovery_ready (rp_state rp) = lock_open c w')"
proof (cases attempt)
  case (Inl e)
  with assms(3) show ?thesis by (auto simp: run_reconciliation_def)
next
  case (Inr g)
  show ?thesis
  proof (cases answer)
    case (TimedOut n clk)
    have "rw_lock (cancelled_refresh (wc_recon c) n clk r) = rw_lock r
        \<and> mw_submitted (rw_manager (cancelled_refresh (wc_recon c) n clk r)) = mw_submitted (rw_manager r)" for r
      using reconcile_loop_submits [OF surjective_pairing] by (auto simp: cancelled_refresh_def split: sum.split)
    with assms(3) Inr TimedOut show ?thesis
      by (auto simp: run_reconciliation_def generation_def lock_open_def worker_lock_def sent_by_def)
  next
    case (Answered src clk ended)
    obtain y r where y: "reconcile_rest (wc_recon c) g src clk ended (ww_recon w) = (y, r)" by fastforce
    with assms(3) Inr Answered have "w' = w\<lparr>ww_recon := r\<rparr>" "x = (case y of Inl e \<Rightarrow> Inl (Some e) | Inr rp \<Rightarrow> Inr rp)"
      by (auto simp: run_reconciliation_def split: sum.splits)
    with reconcile_rest_frame [OF y, of "worker_key c"] assms(1,2) Inr show ?thesis
      by (auto simp: generation_def lock_open_def worker_lock_def sent_by_def worker_key_def worker_config_ok_def
          split: sum.splits)
  qed
qed

section \<open>The operations\<close>

text \<open>A reconciliation is scheduled, begins, and ends.\<close>

definition scheduled :: "worker_config \<Rightarrow> worker_world \<Rightarrow> worker_world \<Rightarrow> bool" where
  "scheduled c w w' \<longleftrightarrow> generation c w \<le> generation c w' \<and> (\<exists>s t. wk_phase (ww_worker w') = AwaitsTask s t)
     \<and> (lock_open c w' \<longrightarrow> lock_open c w) \<and> sent_by w' = sent_by w"

definition begun :: "worker_config \<Rightarrow> worker_world \<Rightarrow> worker_world \<Rightarrow> bool" where
  "begun c w w' \<longleftrightarrow> generation c w \<le> generation c w'
     \<and> (\<exists>s r t. wk_phase (ww_worker w') = AwaitsReport s r t)
     \<and> (\<forall>s g t. wk_phase (ww_worker w') = AwaitsReport s (Inr g) t \<longrightarrow> g \<le> generation c w')
     \<and> \<not> lock_open c w' \<and> sent_by w' = sent_by w"

definition recon_ended :: "worker_config \<Rightarrow> worker_world \<Rightarrow> worker_world \<Rightarrow> bool" where
  "recon_ended c w w' \<longleftrightarrow> generation c w \<le> generation c w'
     \<and> (\<exists>s x t. wk_phase (ww_worker w') = HasReport s x t
          \<and> (\<forall>rp. x = Inr rp \<longrightarrow> \<not> recovery_ready (rp_state rp) \<longrightarrow> \<not> lock_open c w'))
     \<and> (lock_open c w' \<longrightarrow> lock_open c w \<or> (\<exists>s t. wk_phase (ww_worker w) = AwaitsReport s (Inr (generation c w)) t))
     \<and> sent_by w' = sent_by w"

lemma reconcile_begin_scheduled: "scheduled c w (snd (reconcile_begin c starting clk w))"
  by (simp add: reconcile_begin_def scheduled_def)

lemma reconcile_starts_begun:
  assumes "worker_config_ok c" "wk_phase (ww_worker w) = AwaitsTask s t"
  shows "begun c w (snd (reconcile_starts c now w))"
proof -
  let ?t = "wc_account c"
  let ?tb = "lock_upsert (broker_name ?t) (account_id ?t) Reconciling [''reconciliation_in_progress''] now (worker_lock w)"
  obtain q where q: "lock_row (broker_name ?t) (account_id ?t) ?tb = Some q" "rl_generation q = generation c w + 1"
    using lock_row_upsert_same [of "broker_name ?t" "account_id ?t" Reconciling "[''reconciliation_in_progress'']" now "worker_lock w"]
    by (auto simp: generation_def worker_key_def)
  then have "recovery_begin (broker_name ?t) (account_id ?t) (Aware now) (worker_lock w) = (Inr q, ?tb)"
    using assms by (simp add: recovery_begin_def locked_write_def validate_identity_def validate_time_def worker_config_ok_def Let_def)
  with assms q(2) show ?thesis
    by (simp add: reconcile_starts_def Let_def begun_def worker_config_ok_def generation_def lock_open_def worker_key_def
        lock_gen_upsert lock_ready_upsert)
qed

lemma reconcile_starts_step: "worker_config_ok c \<Longrightarrow> fine c True w (snd (reconcile_starts c now w))
    \<or> begun c w (snd (reconcile_starts c now w)) \<and> (\<exists>s t. wk_phase (ww_worker w) = AwaitsTask s t)"
  using reconcile_starts_begun [of c w _ _ now]
  by (cases "wk_phase (ww_worker w)") (auto simp: reconcile_starts_def split: prod.split)

lemma reconcile_finishes_step:
  assumes "worker_config_ok c"
  shows "fine c True w (snd (reconcile_finishes c answer w)) \<or> recon_ended c w (snd (reconcile_finishes c answer w))"
proof (cases "wk_phase (ww_worker w)")
  case (AwaitsReport s attempt t)
  obtain x v where x: "run_reconciliation c attempt answer w = (x, v)" by fastforce
  from run_reconciliation_frame [OF assms AwaitsReport x] show ?thesis
    by (auto simp: reconcile_finishes_def AwaitsReport x recon_ended_def)
next
  case (AwaitsTask s t)
  then show ?thesis by (cases answer) (simp_all add: reconcile_finishes_def recon_ended_def)
qed (simp_all add: reconcile_finishes_def)

lemma start_fine: "worker_config_ok c \<Longrightarrow> fine c True w (snd (worker_start c clk w))"
  by (auto simp: worker_start_def and_then_def persist_locks fine_def)

lemma connected_step: "worker_config_ok c \<Longrightarrow>
    fine c True w (snd (worker_connected c raised h clk w)) \<or> scheduled c w (snd (worker_connected c raised h clk w))"
proof (cases "wk_phase (ww_worker w)")
  case (AwaitsBroker s)
  assume ok: "worker_config_ok c"
  have r: "fine c True w ((locked_world c codes now w)\<lparr>ww_worker := rest c s (ww_worker (locked_world c codes now w))\<rparr>)" for codes now
    by (rule fine_trans [OF fine_locked fine_rest]) simp
  let ?w = "w\<lparr>ww_worker := (ww_worker w)\<lparr>wk_state := BrokerReadOnlyReady, wk_callback_task := True\<rparr>\<rparr>"
  have "scheduled c w (snd (reconcile_begin c s clk ?w))"
    using reconcile_begin_scheduled [of c ?w s clk] by (simp add: scheduled_def)
  with AwaitsBroker r show ?thesis
    by (simp add: worker_connected_def and_then_def persist_locks [OF ok] split: option.split)
qed (simp_all add: worker_connected_def)

lemma periodic_step: "worker_config_ok c \<Longrightarrow>
    fine c True w (snd (periodic_turn c h clk w)) \<or> scheduled c w (snd (periodic_turn c h clk w))"
  by (auto simp: periodic_turn_def and_then_def persist_locks reconcile_begin_scheduled) (simp add: fine_def)

lemma recon_failed_frame: "worker_config_ok c \<Longrightarrow> almost c b w v \<Longrightarrow> fine c b w (snd (recon_failed c started code clk v))"
  by (rule almost_fine)
    (simp_all add: recon_failed_def and_then_def persist_locks Let_def almost_worker almost_locked note_duration_def)

lemma guardian_sync_frame: "worker_config_ok c \<Longrightarrow> keeps (fine c b) (guardian_sync c g now t ready)"
  unfolding keeps_def
proof
  fix w assume ok: "worker_config_ok c"
  obtain x w1 where x: "guardian_part (guardian_synchronize g (rw_truth (ww_recon w)) now) w = (x, w1)" by fastforce
  have "fine c b w w1"
    using guardian_part_frame [OF synchronize_frame, of c b g "rw_truth (ww_recon w)" now] x by (simp add: keeps_def) (metis snd_conv)
  then show "fine c b w (snd (guardian_sync c g now t ready w))"
    by (simp add: guardian_sync_def x and_then_def persist_locks [OF ok] fine_after_lock split: sum.split)
qed

lemma recon_reported_frame:
  assumes "worker_config_ok c" "almost c b w v" "\<not> recovery_ready (rp_state rp) \<Longrightarrow> \<not> lock_open c v"
  shows "fine c b w (snd (recon_reported c started rp h clk v))
    \<and> (wk_state (ww_worker (snd (recon_reported c started rp h clk v))) = ReadyReadOnly
       \<or> \<not> lock_open c (snd (recon_reported c started rp h clk v)))"
proof -
  let ?k = "note_report rp (note_duration started (clk 2) (ww_worker v))"
  have k: "wk_phase ?k = wk_phase (ww_worker v)"
    by (simp add: note_report_def note_duration_def Let_def)
  have a: "almost c b w (snd (recon_reported c started rp h clk v))"
    by (simp add: recon_reported_def and_then_def persist_locks assms(1) almost_worker [OF assms(2)] k almost_locked)
  moreover have "wk_state (ww_worker (snd (recon_reported c started rp h clk v))) = ReadyReadOnly
       \<or> \<not> lock_open c (snd (recon_reported c started rp h clk v))"
    using assms(3) by (simp add: recon_reported_def and_then_def persist_locks assms(1))
  ultimately show ?thesis by (auto intro: almost_fine)
qed

lemma guardian_sync_safe:
  assumes "worker_config_ok c" "wk_state (ww_worker u) = ReadyReadOnly \<or> \<not> lock_open c u"
  shows "wk_state (ww_worker (snd (guardian_sync c g now t ready u))) = ReadyReadOnly
    \<or> \<not> lock_open c (snd (guardian_sync c g now t ready u))"
proof -
  have f: "fine c False u (snd (guardian_sync c g now t ready u))"
    using guardian_sync_frame [OF assms(1)] by (simp add: keeps_def)
  obtain x w1 where x: "guardian_part (guardian_synchronize g (rw_truth (ww_recon u)) now) u = (x, w1)" by fastforce
  then have "ww_worker w1 = ww_worker u" by (auto simp: guardian_part_def Let_def split: prod.splits)
  then have "wk_state (ww_worker (snd (guardian_sync c g now t ready u))) = wk_state (ww_worker u)
      \<or> \<not> lock_open c (snd (guardian_sync c g now t ready u))"
    by (simp add: guardian_sync_def x and_then_def persist_locks [OF assms(1)] split: sum.split)
  with f assms(2) show ?thesis by (auto simp: fine_def)
qed

text \<open>The worker takes a report that said the lock is open only if it is.\<close>

definition report_true :: "worker_config \<Rightarrow> worker_world \<Rightarrow> bool" where
  "report_true c w \<longleftrightarrow> (\<forall>s rp t. wk_phase (ww_worker w) = HasReport s (Inr rp) t
     \<longrightarrow> \<not> recovery_ready (rp_state rp) \<longrightarrow> \<not> lock_open c w)"

lemma reconcile_end_fine:
  assumes "worker_config_ok c" "report_true c w"
  shows "fine c b w (snd (reconcile_end c g h clk w))"
proof (cases "wk_phase (ww_worker w)")
  case (HasReport s result started)
  let ?r = "case result of Inl None \<Rightarrow> recon_failed c started ''reconciliation_timeout'' clk w
      | Inl (Some e) \<Rightarrow> recon_failed c started (exception_code (wc_codec c) e ''reconciliation_failed'') clk w
      | Inr rp \<Rightarrow> and_then (recon_reported c started rp h clk) (guardian_sync c g (clk 5) (clk 6)) w"
  have failed: "fine c b w (snd (recon_failed c started code clk w)) \<and> \<not> lock_open c (snd (recon_failed c started code clk w))" for code
    using recon_failed_frame [OF assms(1) fine_almost [OF fine_refl]] assms(1)
    by (simp add: recon_failed_def and_then_def persist_locks Let_def)
  have sync: "fine c b w (snd (and_then (recon_reported c started rp h clk) (guardian_sync c g (clk 5) (clk 6)) w))
      \<and> (wk_state (ww_worker (snd (and_then (recon_reported c started rp h clk) (guardian_sync c g (clk 5) (clk 6)) w))) = ReadyReadOnly
         \<or> \<not> lock_open c (snd (and_then (recon_reported c started rp h clk) (guardian_sync c g (clk 5) (clk 6)) w)))"
    if "result = Inr rp" for rp
  proof -
    obtain y u where y: "recon_reported c started rp h clk w = (y, u)" by fastforce
    have "recovery_ready (rp_state rp) \<or> \<not> lock_open c w"
      using assms(2) HasReport that by (auto simp: report_true_def)
    then have "fine c b w u \<and> (wk_state (ww_worker u) = ReadyReadOnly \<or> \<not> lock_open c u)"
      using recon_reported_frame [OF assms(1), of b w w rp started h clk] fine_almost [OF fine_refl, of c b w]
      by (auto simp: y)
    moreover have "fine c b u (snd (guardian_sync c g (clk 5) (clk 6) r u))" for r
      using guardian_sync_frame [OF assms(1)] by (simp add: keeps_def)
    ultimately show ?thesis using guardian_sync_safe [OF assms(1), of u g "clk 5" "clk 6"]
      by (auto simp: and_then_def y split: sum.split intro: fine_trans)
  qed
  have "fine c b w (snd ?r) \<and> (wk_state (ww_worker (snd ?r)) \<in> {WorkerStopped, ReadyReadOnly} \<or> \<not> lock_open c (snd ?r))"
    using failed sync by (simp split: sum.split option.split)
  then have "fine c b w ((snd ?r)\<lparr>ww_worker := rest c s (ww_worker (snd ?r))\<rparr>)"
    by (blast intro: fine_trans fine_rest)
  then show ?thesis
    by (cases ?r) (simp add: reconcile_end_def HasReport)
qed (simp_all add: reconcile_end_def)

lemma heartbeat_fine: "worker_config_ok c \<Longrightarrow> fine c b w (snd (heartbeat c h h' clk w))"
proof -
  assume ok: "worker_config_ok c"
  have l: "keeps (fine c b) (lock_if_ready c q code now)" for q code now
    using ok by (simp add: keeps_def lock_if_ready_def persist_locks)
  have t: "keeps (fine c b) (\<lambda>w. lock_if_ready c (snapshot_stale c t (ww_worker w)) code now w)" for t code now
    using l by (simp add: keeps_def)
  have "keeps (fine c b) (and_then (worker_do (\<lambda>k. k\<lparr>wk_heartbeat_at := Some (clk 0)\<rparr>)) (\<lambda>_.
        and_then (lock_if_ready c (\<not> client_ready h') ''broker_disconnected'' (clk 1)) (\<lambda>_.
        and_then (worker_do (\<lambda>k. k\<lparr>wk_seen_dropped := dropped, wk_seen_failed := failed\<rparr>)) (\<lambda>_.
        and_then (lock_if_ready c lost ''callback_delivery_degraded'' (clk 2)) (\<lambda>_ w1.
        lock_if_ready c (snapshot_stale c (clk 3) (ww_worker w1)) ''broker_snapshot_stale'' (clk 4) w1)))))" for dropped failed lost
    by (intro worker_rules l t) simp_all
  then show ?thesis
    unfolding heartbeat_def Let_def keeps_def by (simp del: worker_do_simps)
qed

lemma stop_fine: "worker_config_ok c \<Longrightarrow> fine c b w (snd (worker_stop c n clk' k e clk w))"
proof -
  assume ok: "worker_config_ok c"
  have m: "keeps (fine c b) (cancel_main c n clk' t)" for t
    unfolding keeps_def
  proof
    fix w :: worker_world
    let ?v = "w\<lparr>ww_recon := cancelled_refresh (wc_recon c) n clk' (ww_recon w)\<rparr>"
    have "rw_lock (cancelled_refresh (wc_recon c) n clk' r) = rw_lock r
        \<and> mw_submitted (rw_manager (cancelled_refresh (wc_recon c) n clk' r)) = mw_submitted (rw_manager r)" for r
      using reconcile_loop_submits [OF surjective_pairing] by (auto simp: cancelled_refresh_def split: sum.split)
    then have "fine c b w ?v"
      by (intro fine_quiet) (simp_all add: worker_lock_def sent_by_def keeps_shut_refl)
    moreover have "fine c b u (snd (worker_do (note_duration t' t) u))" for t' u
      by (simp add: fine_def note_duration_def Let_def)
    ultimately show "fine c b w (snd (cancel_main c n clk' t w))"
      by (auto simp: cancel_main_def simp del: worker_do_simps split: worker_phase.split sum.split intro: fine_trans)
  qed
  have t: "keeps (fine c b) (worker_do (cancel_tasks k))"
    by (simp add: keeps_def fine_def cancel_tasks_def)
  have s: "keeps (fine c b) (worker_do (\<lambda>k. k\<lparr>wk_state := WorkerStopped, wk_heartbeat_at := Some now\<rparr>))" for now
    by (simp add: keeps_def fine_def)
  have "keeps (fine c b) (and_then (cancel_main c n clk' (clk 2)) (\<lambda>_. and_then (worker_do (cancel_tasks k)) (\<lambda>_.
     (case e of Some e \<Rightarrow> fail e
      | None \<Rightarrow> and_then (if q then persist_lock c [''worker_stopped''] (clk 0) else give ()) (\<lambda>_.
        worker_do (\<lambda>k. k\<lparr>wk_state := WorkerStopped, wk_heartbeat_at := Some (clk 1)\<rparr>))))))" for q
    by (cases e; cases q; simp del: worker_do_simps) (intro worker_frame.frame persist_frame m t s ok)+
  then show ?thesis
    by (simp add: worker_stop_def keeps_def del: worker_do_simps)
qed

lemma consume_submits: "mw_submitted (cb_manager (snd (consume_one c m e now b))) = mw_submitted (cb_manager b)"
proof -
  have r: "mw_submitted mw' = mw_submitted mw" if "refresh_by_event m e oid mw = (r, mw')" for oid mw r mw'
    using that submits_by_dispatch [of "ReconcileByBrokerId m _ oid" mw]
    by (auto simp: refresh_by_event_def split: sum.splits) (metis manager_op.distinct snd_conv manager_step.simps)?
  show ?thesis
    by (auto simp: consume_one_def and_then_def in_audit_def split: prod.split sum.split option.split dest!: r)
qed

text \<open>A callback that is not reconciled ends with the lock shut.\<close>

lemma marked_row: "event_row_at i (tbl_update (\<lambda>r. er_id r = i) f rows) = Some q \<Longrightarrow> (\<And>r. er_id (f r) = er_id r) \<Longrightarrow> \<exists>r. q = f r"
  unfolding event_row_at_def by (drule find_SomeD) (auto simp: set_tbl_update)

lemma mark_event_status: "mark_event c i st t order why rows = (Inr rec, rows') \<Longrightarrow> ex_status rec = st"
  by (auto simp: mark_event_def Let_def event_record_of_def split: pytime.splits option.splits sum.splits if_splits dest!: marked_row)

lemma consume_status: "consume_one c m e now b = (Inr rec, b') \<Longrightarrow> ex_status rec \<noteq> EventReceived"
  by (auto simp: consume_one_def and_then_def in_audit_def split: prod.splits sum.splits option.splits if_splits dest!: mark_event_status)

definition shut_by :: "worker_config \<Rightarrow> worker_world \<Rightarrow> worker_world \<Rightarrow> bool" where
  "shut_by c w w' \<longleftrightarrow> (\<exists>v codes now. fine c True w v \<and> w' = locked_world c codes now v)"

lemma shut_byI: "fine c True w v \<Longrightarrow> shut_by c w (locked_world c codes now v)"
  unfolding shut_by_def by blast

lemma callback_outcome:
  assumes "worker_config_ok c" "wk_callback_task (ww_worker w)"
  shows "(fine c True w (snd (on_callback c m e clk w))
      \<and> wk_reconciled (ww_worker (snd (on_callback c m e clk w))) = wk_reconciled (ww_worker w) + 1)
    \<or> shut_by c w (snd (on_callback c m e clk w))"
proof (cases "check_event_account c e")
  case (Inl x)
  then show ?thesis using assms
    by (auto simp: on_callback_def try_callback_def and_then_def persist_locks shut_byI fine_worker)
next
  case (Inr u)
  let ?w1 = "w\<lparr>ww_worker := (ww_worker w)\<lparr>wk_callbacks := wk_callbacks (ww_worker w) + 1, wk_callback_at := Some (ev_received e)\<rparr>\<rparr>"
  obtain x v where x: "callback_part (consume_one (wc_codec c) m e (clk 0)) ?w1 = (x, v)" by fastforce
  have u: "fine c True ?w1 v"
    using callback_part_frame [of "consume_one (wc_codec c) m e (clk 0)" c True, OF consume_submits] x
    by (simp add: keeps_def) (metis snd_conv)
  have v: "fine c True w v" by (rule fine_trans [OF _ u]) (simp add: fine_worker)
  have k: "ww_worker v = ww_worker ?w1" using x by (auto simp: callback_part_def split: prod.splits)
  have f: "fine c True w (v\<lparr>ww_worker := (ww_worker v)\<lparr>wk_failed := n\<rparr>\<rparr>)"
    "fine c True w (v\<lparr>ww_worker := (ww_worker v)\<lparr>wk_unmatched := n\<rparr>\<rparr>)"
    "fine c True w (v\<lparr>ww_worker := (ww_worker v)\<lparr>wk_reconciled := n\<rparr>\<rparr>)" for n
    by (rule fine_trans [OF v fine_worker]; simp)+
  show ?thesis
  proof (cases x)
    case (Inl err)
    then show ?thesis using assms \<open>check_event_account c e = Inr u\<close> x f
      by (auto simp: on_callback_def try_callback_def and_then_def persist_locks shut_byI)
  next
    case (Inr rec)
    have "ex_status rec \<noteq> EventReceived"
      using x Inr by (auto simp: callback_part_def split: prod.splits dest: consume_status)
    then show ?thesis using assms \<open>check_event_account c e = Inr u\<close> x f Inr k
      by (cases "ex_status rec") (auto simp: on_callback_def try_callback_def and_then_def record_callback_def persist_locks shut_byI)
  qed
qed

lemma callback_fine: "worker_config_ok c \<Longrightarrow> fine c True w (snd (on_callback c m e clk w))"
  using callback_outcome [of c w m e clk]
  by (cases "wk_callback_task (ww_worker w)") (auto simp: fine_after_lock on_callback_def shut_by_def)

lemma guardian_turn_fine: "worker_config_ok c \<Longrightarrow> fine c b w (snd (guardian_turn c g h clk now w))"
proof -
  assume ok: "worker_config_ok c"
  have g: "keeps (fine c b) (and_then (guardian_part (process_kill_switches g (now 1) clk)) (\<lambda>_.
      guardian_part (evaluate_latest_quotes g (now 2) clk)))"
    by (intro worker_rules)
  have "keeps (fine c b) (\<lambda>w1. if recovery_ready st \<and> client_ready h
        then (case and_then (guardian_part (process_kill_switches g (now 1) clk)) (\<lambda>_.
                guardian_part (evaluate_latest_quotes g (now 2) clk)) w1 of
            (Inr _, w2) \<Rightarrow> (Inr (), w2)
          | (Inl e, w2) \<Rightarrow> persist_lock c [exception_code (wc_codec c) e (or_default (exc_str e) ''position_guardian_failed'')] (now 3) w2)
        else (Inr (), w1))" for st
    using g unfolding keeps_def by (auto simp: persist_locks [OF ok] split: prod.split sum.split) (metis fine_after_lock snd_conv)+
  then show ?thesis
    unfolding guardian_turn_def by (auto intro!: keepsD [of "fine c b"] worker_rules)
qed

text \<open>A turn of the dispatch submits only when it read an open lock.\<close>

lemma after_frame: "worker_config_ok c \<Longrightarrow> keeps (fine c b) (after_cancel c x now)"
  "worker_config_ok c \<Longrightarrow> keeps (fine c b) (after_dispatch c x now)"
  unfolding after_cancel_def after_dispatch_def status_is_unknown_def
  by (auto simp: and_then_def keeps_def intro!: fine_worker)

lemma dispatch_turn_fine:
  assumes "worker_config_ok c"
  shows "fine c False w (snd (dispatch_turn c m h clk clk' now w))
    \<and> (sent_by (snd (dispatch_turn c m h clk clk' now w)) \<noteq> sent_by w \<longrightarrow> lock_open c w)"
proof -
  let ?body = "\<lambda>st w1. if recovery_ready st \<and> client_ready h
        then (case try_dispatch c m clk clk' (now 1) w1 of
            (Inr b, w2) \<Rightarrow> (Inr b, w2)
          | (Inl e, w2) \<Rightarrow> and_then (persist_lock c [exception_code (wc_codec c) e ''canary_dispatch_failed''] (now 2)) (\<lambda>_. give False) w2)
        else (Inr False, w1)"
  have "keeps (fine c False) (try_dispatch c m clk clk' (now 1))"
    unfolding try_dispatch_def by (auto split: option.split intro!: worker_rules after_frame assms)
  then have "keeps (fine c False) (?body st)" for st
    unfolding keeps_def by (auto simp: persist_locks [OF assms] and_then_def split: prod.split sum.split) (metis fine_after_lock snd_conv)+
  then have f: "fine c False w (snd (dispatch_turn c m h clk clk' now w))"
    unfolding dispatch_turn_def by (auto intro!: keepsD [of "fine c False"] worker_rules)
  obtain r w1 where r: "lock_reading c (now 0) w = (r, w1)" by fastforce
  then have s: "sent_by w1 = sent_by w" and o: "\<forall>st. r = Inr st \<longrightarrow> recovery_ready st \<longrightarrow> lock_open c w"
    by (auto simp: lock_reading_def recovery_state_of_def lock_open_def lock_ready_def worker_key_def recovery_ready_def Let_def
        split: prod.splits sum.splits option.splits)
  have "lock_open c w" if "sent_by (snd (dispatch_turn c m h clk clk' now w)) \<noteq> sent_by w"
    using that o s by (auto simp: dispatch_turn_def and_then_def r split: sum.splits if_splits)
  with f show ?thesis by blast
qed

section \<open>Runs\<close>

definition worker_inv :: "worker_config \<Rightarrow> worker_world \<Rightarrow> bool" where
  "worker_inv c w \<longleftrightarrow> worker_config_ok c \<and> report_true c w
     \<and> (lock_open c w \<longrightarrow> wk_state (ww_worker w) \<in> {WorkerStopped, ReadyReadOnly}
          \<or> at_an_end (wk_phase (ww_worker w)) \<or> wk_stop (ww_worker w))
     \<and> (\<forall>s g t. wk_phase (ww_worker w) = AwaitsReport s (Inr g) t \<longrightarrow> g \<le> generation c w)"

text \<open>The step that begins a reconciliation: its task was waiting and runs.\<close>

definition begins :: "worker_world \<Rightarrow> worker_op \<Rightarrow> bool" where
  "begins w x \<longleftrightarrow> (\<exists>now. x = ReconcileStarts now) \<and> (\<exists>s t. wk_phase (ww_worker w) = AwaitsTask s t)"

lemma worker_step_effect:
  assumes "worker_config_ok c" "report_true c w"
  shows "fine c False w (worker_step c w x) \<or> scheduled c w (worker_step c w x)
      \<or> begun c w (worker_step c w x) \<and> begins w x \<or> recon_ended c w (worker_step c w x)"
    and "sent_by (worker_step c w x) \<noteq> sent_by w \<Longrightarrow> lock_open c w"
proof -
  have weak: "fine c True w w' \<Longrightarrow> fine c False w w'" for w' by (simp add: fine_def)
  have "fine c True w (worker_step c w x) \<or> scheduled c w (worker_step c w x)
      \<or> begun c w (worker_step c w x) \<and> begins w x \<or> recon_ended c w (worker_step c w x)"
    if "\<nexists>m h clk clk' now. x = DispatchTurn m h clk clk' now"
    using that assms reconcile_starts_step [OF assms(1), of w] reconcile_finishes_step [OF assms(1), of w]
      connected_step [OF assms(1), of w] periodic_step [OF assms(1), of w]
    by (cases x) (simp_all add: start_fine reconcile_end_fine callback_fine heartbeat_fine begins_def
        guardian_turn_fine stop_fine skip_overlap_def fine_worker, blast+)
  then show "fine c False w (worker_step c w x) \<or> scheduled c w (worker_step c w x)
      \<or> begun c w (worker_step c w x) \<and> begins w x \<or> recon_ended c w (worker_step c w x)"
    using dispatch_turn_fine [OF assms(1), of w] weak by (cases x) auto
  show "sent_by (worker_step c w x) \<noteq> sent_by w \<Longrightarrow> lock_open c w"
    using \<open>\<nexists>m h clk clk' now. x = DispatchTurn m h clk clk' now \<Longrightarrow> _\<close> dispatch_turn_fine [OF assms(1), of w]
    by (cases x) (auto simp: fine_def begun_def scheduled_def recon_ended_def)
qed

lemma worker_inv_fine:
  assumes i: "worker_inv c w" and f: "fine c False w w'"
  shows "worker_inv c w'"
proof -
  have p: "wk_phase (ww_worker w) = wk_phase (ww_worker w')" if "in_reconciliation (wk_phase (ww_worker w'))"
    using f that by (simp add: fine_def)
  have "\<not> lock_open c w'" if "wk_phase (ww_worker w') = HasReport s (Inr rp) t" "\<not> recovery_ready (rp_state rp)" for s rp t
  proof -
    have "\<not> lock_open c w" using i p that by (simp add: worker_inv_def report_true_def)
    then show ?thesis using f by (auto simp: fine_def)
  qed
  moreover have "g \<le> generation c w'" if "wk_phase (ww_worker w') = AwaitsReport s (Inr g) t" for s g t
  proof -
    have "g \<le> generation c w" using i p that by (simp add: worker_inv_def)
    then show ?thesis using f by (simp add: fine_def)
  qed
  moreover have "wk_state (ww_worker w') \<in> {WorkerStopped, ReadyReadOnly}
      \<or> at_an_end (wk_phase (ww_worker w')) \<or> wk_stop (ww_worker w')" if "lock_open c w'"
    using f i that by (auto simp: fine_def worker_inv_def)
  ultimately show ?thesis using i by (auto simp: worker_inv_def report_true_def)
qed

interpretation worker_runs: step_invariant "worker_step c" "worker_inv c" for c
proof
  fix w x assume i: "worker_inv c w"
  then have "fine c False w (worker_step c w x) \<or> scheduled c w (worker_step c w x)
      \<or> begun c w (worker_step c w x) \<and> begins w x \<or> recon_ended c w (worker_step c w x)"
    by (intro worker_step_effect(1)) (simp_all add: worker_inv_def)
  then consider "fine c False w (worker_step c w x)" | "scheduled c w (worker_step c w x)"
    | "begun c w (worker_step c w x)" | "recon_ended c w (worker_step c w x)" by blast
  then show "worker_inv c (worker_step c w x)"
  proof cases
    case 1
    with i show ?thesis by (rule worker_inv_fine)
  next
    case 2
    with i show ?thesis by (auto simp: worker_inv_def scheduled_def report_true_def)
  next
    case 3
    with i show ?thesis by (auto simp: worker_inv_def begun_def report_true_def)
  next
    case 4
    with i show ?thesis by (auto simp: worker_inv_def recon_ended_def report_true_def)
  qed
qed

text \<open>Shut, also against the reconciliation under way.\<close>

definition shut_for_now :: "worker_config \<Rightarrow> worker_world \<Rightarrow> bool" where
  "shut_for_now c w \<longleftrightarrow> \<not> lock_open c w \<and> (\<forall>s g t. wk_phase (ww_worker w) = AwaitsReport s (Inr g) t \<longrightarrow> g < generation c w)"

lemma shut_until_begun:
  "worker_inv c w \<Longrightarrow> shut_for_now c w \<Longrightarrow> lock_open c (run (worker_step c) w ops)
    \<Longrightarrow> \<exists>ys x zs. ops = ys @ x # zs \<and> begins (run (worker_step c) w ys) x"
proof (induction ops arbitrary: w)
  case Nil
  then show ?case by (simp add: shut_for_now_def)
next
  case (Cons x ops)
  show ?case
  proof (cases "begins w x")
    case True
    then show ?thesis by (intro exI [of _ "[]"]) simp
  next
    case False
    have i: "worker_config_ok c" "report_true c w" using Cons.prems(1) by (simp_all add: worker_inv_def)
    from worker_step_effect(1) [OF i, of x] False
    have "shut_for_now c (worker_step c w x)"
      using Cons.prems(2) by (fastforce simp: shut_for_now_def fine_def scheduled_def recon_ended_def)
    from Cons.IH [OF worker_runs.step_inv [OF Cons.prems(1)] this] Cons.prems(3)
    obtain ys y zs where "ops = ys @ y # zs" "begins (run (worker_step c) (worker_step c w x) ys) y" by auto
    then show ?thesis by (intro exI [of _ "x # ys"]) auto
  qed
qed

lemma shut_by_shut: "worker_inv c w \<Longrightarrow> shut_by c w w' \<Longrightarrow> shut_for_now c w'"
proof -
  assume i: "worker_inv c w" and "shut_by c w w'"
  then obtain v codes now where v: "fine c True w v" "w' = locked_world c codes now v" by (auto simp: shut_by_def)
  have "g < generation c w'" if "wk_phase (ww_worker w') = AwaitsReport s (Inr g) t" for s g t
  proof -
    have p: "wk_phase (ww_worker v) = AwaitsReport s (Inr g) t" using that v(2) by simp
    then have "wk_phase (ww_worker w) = AwaitsReport s (Inr g) t" using v(1) by (simp add: fine_def)
    with i have "g \<le> generation c w" by (simp add: worker_inv_def)
    with v show ?thesis by (simp add: fine_def)
  qed
  with v(2) show ?thesis by (simp add: shut_for_now_def)
qed


definition worker_config1 :: worker_config where
  "worker_config1 = \<lparr> wc_account = t1, wc_settings = default_worker_settings, wc_recon = recon1, wc_canary = True,
     wc_guards = False, wc_codec = \<lparr> ec_float = (\<lambda>_. ''0.5''), ec_sha256 = (\<lambda>s. ''id-'' @ s), ec_code = (\<lambda>_. None) \<rparr> \<rparr>"

definition worker_world1 :: worker_world where
  "worker_world1 = \<lparr> ww_worker = new_account_worker, ww_recon = recon_world1, ww_audit = [],
     ww_guardian = empty_guardian_store \<rparr>"

definition healthy :: client_health where
  "healthy = no_health\<lparr> ch_canary := True, ch_connected := True, ch_ca_ready := True, ch_registered := True \<rparr>"

definition started_worker :: "worker_op list" where
  "started_worker = [StartWorker int, Connected None (Some healthy) (\<lambda>i. 10 + int i),
     ReconcileStarts 11, ReconcileFinishes (Answered (SourceOk snap2) (\<lambda>i. 11) 12),
     ReportArrives guardian1 (Some healthy) (\<lambda>i. 20 + int i)]"


section \<open>Reconciling with an open lock\<close>

text \<open>Where \<open>wait_for\<close> gives the reconciliation a task of its own, the worker says that it reconciles
  while the lock is still open from the last one: the heartbeat, which acts on a ready worker only,
  does not shut it when the broker is lost.\<close>

definition scheduled_worker :: "worker_op list" where
  "scheduled_worker = started_worker @ [PeriodicTurn (Some healthy) (\<lambda>i. 60 + int i), Heartbeat None None (\<lambda>i. 61 + int i)]"

lemma reconciling_with_open_lock:
  "lock_open worker_config1 (run (worker_step worker_config1) worker_world1 scheduled_worker)
   \<and> wk_state (ww_worker (run (worker_step worker_config1) worker_world1 scheduled_worker)) = WorkerReconciling"
  by code_simp

section \<open>Every dispatch locks the account\<close>

text \<open>The test of an order's status in the dispatch loop names a class the module does not import, so the
  \<open>try\<close> block raises after every cancel and every order it handed to the manager, whatever became of
  it: the worker locks the account with \<open>canary_dispatch_failed\<close>, and the guardian is not told of an
  order that is UNKNOWN.\<close>

lemma try_dispatch_raises:
  assumes "try_dispatch c m clk clk' now w = (r, w')"
  shows "ww_worker w' = ww_worker w \<or> (\<exists>x. r = Inl (NameError x))"
proof -
  have quiet: "ww_worker w2 = ww_worker w1" if "manager_part f w1 = (x, w2)" for f :: "(manager_world, broker_order option) prog" and w1 x w2
    using that by (auto simp: manager_part_def split: prod.splits)
  obtain x w1 where x: "manager_part (dispatch_cancel_once m (wc_account c) clk) w = (x, w1)" by fastforce
  obtain y w2 where y: "manager_part (dispatch_once m (wc_account c) clk') w1 = (y, w2)" by fastforce
  from assms quiet [OF x] quiet [OF y] show ?thesis
    by (auto simp: try_dispatch_def and_then_def x y after_cancel_def after_dispatch_def status_is_unknown_def
        split: sum.splits option.splits)
qed

lemma every_dispatch_locks:
  assumes "worker_config_ok c" "\<And>x. ec_code (wc_codec c) (NameError x) = None"
    and "w' = worker_step c w (DispatchTurn m h clk clk' now)"
    and "wk_dispatched (ww_worker w') \<noteq> wk_dispatched (ww_worker w) \<or> wk_cancels (ww_worker w') \<noteq> wk_cancels (ww_worker w)"
  shows "\<not> lock_open c w' \<and> wk_error (ww_worker w') = Some ''canary_dispatch_failed''"
proof -
  obtain st w1 where st: "lock_reading c (now 0) w = (st, w1)" by fastforce
  then have k: "ww_worker w1 = ww_worker w" by (auto simp: lock_reading_def split: prod.splits)
  obtain r w2 where r: "try_dispatch c m clk clk' (now 1) w1 = (r, w2)" by fastforce
  have e: "wk_error (ww_worker (locked_world c [x] t v)) = Some x"
    "wk_dispatched (ww_worker (locked_world c [x] t v)) = wk_dispatched (ww_worker v)"
    "wk_cancels (ww_worker (locked_world c [x] t v)) = wk_cancels (ww_worker v)" for x t v
    by (simp_all add: locked_world_def)
  from assms(3,4) k try_dispatch_raises [OF r] show ?thesis
    by (auto simp: dispatch_turn_def and_then_def st r [unfolded One_nat_def] persist_locks [OF assms(1)] exception_code_def assms(2) e
        split: sum.splits if_splits)
qed

end
