(* ===== verification/Execution_Worker.thy ===== *)
theory Execution_Worker
  imports Worker_Safety
begin

text \<open>
  The persistent execution runtime (\<open>broker/worker.py\<close>): the \<open>ExecutionWorker\<close> that supervises dispatch,
  callbacks and reconciliation of one account with a recovery status of its own, the manager
  \<open>build_execution_runtime\<close> composes with the gate of the recovery lock (\<open>RecoveryOrderGate\<close> of
  \<open>recovery.py\<close>), and the \<open>ExecutionSupervisor\<close> of the account workers.
\<close>

section \<open>The worker\<close>

datatype execution_state = XwDisabled | XwStarting | XwRunning | XwDegraded | XwStopped

record execution_worker =
  xw_state :: execution_state
  xw_started_at :: "instant option"
  xw_heartbeat_at :: "instant option"
  xw_dispatch_at :: "instant option"
  xw_reconciled_at :: "instant option"
  xw_status :: recovery_status
  xw_issues :: "string list"
  xw_callbacks :: nat
  xw_callback_failures :: nat
  xw_unmatched :: nat
  xw_dropped :: nat
  xw_dispatches :: nat
  xw_reconciliations :: nat
  xw_failures :: nat
  xw_error :: "string option"
  xw_stop :: bool
  xw_tasks :: bool
  xw_queue :: "broker_event list"

definition new_execution_worker :: execution_worker where
  "new_execution_worker = \<lparr> xw_state = XwStopped, xw_started_at = None, xw_heartbeat_at = None, xw_dispatch_at = None,
     xw_reconciled_at = None, xw_status = Locked, xw_issues = [''reconciliation_required''], xw_callbacks = 0,
     xw_callback_failures = 0, xw_unmatched = 0, xw_dropped = 0, xw_dispatches = 0, xw_reconciliations = 0, xw_failures = 0,
     xw_error = None, xw_stop = False, xw_tasks = False, xw_queue = [] \<rparr>"

record execution_config =
  xc_account :: account_ref
  xc_settings :: worker_settings
  xc_recon :: recon_config
  xc_codec :: event_codec

definition record_failure :: "execution_config \<Rightarrow> err \<Rightarrow> execution_worker \<Rightarrow> execution_worker" where
  "record_failure c e k = k\<lparr> xw_failures := xw_failures k + 1, xw_error := Some (exception_code (xc_codec c) e ''execution_worker_failed''),
     xw_status := Locked, xw_issues := [''execution_worker_failed''], xw_state := XwDegraded \<rparr>"

definition record_reconciliation :: "recon_report \<Rightarrow> instant \<Rightarrow> execution_worker \<Rightarrow> execution_worker" where
  "record_reconciliation rp now k = k\<lparr> xw_reconciliations := xw_reconciliations k + 1, xw_reconciled_at := Some now,
     xw_status := rl_status (rp_state rp), xw_issues := rl_issue_codes (rp_state rp),
     xw_state := (if recovery_ready (rp_state rp) then XwRunning else XwDegraded) \<rparr>"

definition lock_for_unmatched :: "execution_worker \<Rightarrow> execution_worker" where
  "lock_for_unmatched k = k\<lparr> xw_status := Locked, xw_issues := [''unmatched_broker_callback''], xw_state := XwDegraded \<rparr>"

text \<open>\<open>enqueue_callback\<close>: the queue holds at most \<open>callback_queue_size\<close> events.\<close>

definition enqueue_callback :: "execution_config \<Rightarrow> broker_event \<Rightarrow> execution_worker \<Rightarrow> bool \<times> execution_worker" where
  "enqueue_callback c e k = (case event_account_ref e of
       Inl x \<Rightarrow> (False, record_failure c x (k\<lparr>xw_dropped := xw_dropped k + 1\<rparr>))
     | Inr t \<Rightarrow>
        if t \<noteq> xc_account c then (False, record_failure c (RuntimeError ''broker callback belongs to another execution target'')
            (k\<lparr>xw_dropped := xw_dropped k + 1\<rparr>))
        else if se_queue (xc_settings c) \<le> int (length (xw_queue k)) then (False, record_failure c (RuntimeError ''broker callback queue is full'')
            (k\<lparr>xw_dropped := xw_dropped k + 1\<rparr>))
        else (True, k\<lparr>xw_queue := xw_queue k @ [e]\<rparr>))"

record execution_world =
  xr_worker :: execution_worker
  xr_recon :: recon_world
  xr_audit :: "event_row list"

text \<open>\<open>_reconcile\<close>, and the \<open>start\<close> that awaits it.\<close>

definition execution_reconcile :: "execution_config \<Rightarrow> snapshot_source \<Rightarrow> instant \<Rightarrow> (nat \<Rightarrow> instant) \<Rightarrow> instant \<Rightarrow> instant
    \<Rightarrow> execution_world \<Rightarrow> execution_world" where
  "execution_reconcile c src began clk ended now w =
     (let k = (xr_worker w)\<lparr> xw_status := Reconciling, xw_issues := [''reconciliation_in_progress''] \<rparr> in
      case reconcile_account (xc_recon c) src began clk ended (xr_recon w) of
        (Inr rp, r) \<Rightarrow> w\<lparr> xr_worker := record_reconciliation rp now k, xr_recon := r \<rparr>
      | (Inl e, r) \<Rightarrow> w\<lparr> xr_worker := record_failure c e (k\<lparr> xw_status := Locked, xw_issues := [''reconciliation_worker_failed''] \<rparr>),
          xr_recon := r \<rparr>)"

definition execution_start :: "execution_config \<Rightarrow> snapshot_source \<Rightarrow> instant \<Rightarrow> (nat \<Rightarrow> instant) \<Rightarrow> instant \<Rightarrow> (nat \<Rightarrow> instant)
    \<Rightarrow> execution_world \<Rightarrow> execution_world" where
  "execution_start c src began clk ended now w =
     (if xw_tasks (xr_worker w) then w
      else (let w1 = execution_reconcile c src began clk ended (now 1) (w\<lparr>xr_worker := (xr_worker w)\<lparr> xw_state := XwStarting,
                 xw_started_at := Some (now 0), xw_heartbeat_at := Some (now 0), xw_stop := False \<rparr>\<rparr>) in
        w1\<lparr>xr_worker := (xr_worker w1)\<lparr>xw_tasks := True\<rparr>\<rparr>))"

definition execution_stop :: "instant \<Rightarrow> execution_world \<Rightarrow> execution_world" where
  "execution_stop now w = w\<lparr>xr_worker := (xr_worker w)\<lparr> xw_stop := True, xw_tasks := False, xw_state := XwStopped,
     xw_heartbeat_at := Some now \<rparr>\<rparr>"

text \<open>A turn of \<open>_run_callbacks\<close>.\<close>

definition note_callback :: "execution_config \<Rightarrow> event_record \<Rightarrow> execution_worker \<Rightarrow> execution_worker" where
  "note_callback c rec k = (let k1 = k\<lparr>xw_callbacks := xw_callbacks k + 1\<rparr> in
     case ex_status rec of
       EventFailed \<Rightarrow> record_failure c (RuntimeError (case ex_error rec of Some (x # xs) \<Rightarrow> x # xs | _ \<Rightarrow> ''broker callback failed''))
         (k1\<lparr>xw_callback_failures := xw_callback_failures k1 + 1\<rparr>)
     | EventUnmatched \<Rightarrow> lock_for_unmatched (k1\<lparr>xw_unmatched := xw_unmatched k1 + 1\<rparr>)
     | _ \<Rightarrow> k1)"

definition callback_turn :: "execution_config \<Rightarrow> order_manager \<Rightarrow> instant \<Rightarrow> execution_world \<Rightarrow> execution_world" where
  "callback_turn c m now w = (case xw_queue (xr_worker w) of
       [] \<Rightarrow> w
     | e # es \<Rightarrow>
        if \<not> xw_tasks (xr_worker w) \<or> xw_stop (xr_worker w) then w
        else (let k = (xr_worker w)\<lparr>xw_queue := es\<rparr>;
                  (r, b) = consume_one (xc_codec c) m e now \<lparr> cb_audit = xr_audit w, cb_manager = rw_manager (xr_recon w) \<rparr>;
                  w1 = w\<lparr> xr_recon := (xr_recon w)\<lparr>rw_manager := cb_manager b\<rparr>, xr_audit := cb_audit b \<rparr> in
          w1\<lparr>xr_worker := (case r of Inr rec \<Rightarrow> note_callback c rec k
             | Inl x \<Rightarrow> record_failure c x (k\<lparr>xw_callback_failures := xw_callback_failures k + 1\<rparr>))\<rparr>))"

text \<open>A turn of \<open>_run_dispatch\<close>.\<close>

definition execution_turn :: "execution_config \<Rightarrow> order_manager \<Rightarrow> (nat \<Rightarrow> instant) \<Rightarrow> instant \<Rightarrow> execution_world \<Rightarrow> execution_world" where
  "execution_turn c m clk now w =
     (if \<not> xw_tasks (xr_worker w) \<or> xw_stop (xr_worker w) \<or> xw_status (xr_worker w) \<noteq> Ready then w
      else (case dispatch_once m (xc_account c) clk (rw_manager (xr_recon w)) of
          (Inr None, mw) \<Rightarrow> w\<lparr>xr_recon := (xr_recon w)\<lparr>rw_manager := mw\<rparr>\<rparr>
        | (Inr (Some _), mw) \<Rightarrow> w\<lparr> xr_recon := (xr_recon w)\<lparr>rw_manager := mw\<rparr>,
            xr_worker := (xr_worker w)\<lparr> xw_dispatches := xw_dispatches (xr_worker w) + 1, xw_dispatch_at := Some now \<rparr> \<rparr>
        | (Inl e, mw) \<Rightarrow> w\<lparr> xr_recon := (xr_recon w)\<lparr>rw_manager := mw\<rparr>, xr_worker := record_failure c e (xr_worker w) \<rparr>))"

definition execution_heartbeat :: "instant \<Rightarrow> execution_world \<Rightarrow> execution_world" where
  "execution_heartbeat now w = (if xw_tasks (xr_worker w) then w\<lparr>xr_worker := (xr_worker w)\<lparr>xw_heartbeat_at := Some now\<rparr>\<rparr> else w)"

section \<open>The runtime\<close>

text \<open>\<open>RecoveryOrderGate\<close>, with the lock table it reads.\<close>

definition recovery_gate :: "account_ref \<Rightarrow> instant \<Rightarrow> recovery_table \<Rightarrow> admission_gate" where
  "recovery_gate t now tb = \<lparr> ag_ordering = fst (assert_ready (broker_name t) (account_id t) now tb), ag_order = None, ag_cancel = None \<rparr>"

text \<open>The checks of \<open>build_execution_runtime\<close>, its registry and its manager.\<close>

definition runtime_account :: "string \<Rightarrow> string \<Rightarrow> broker_port \<Rightarrow> account_ref res" where
  "runtime_account bn acc port = (let name = lower (strip bn) in
     if name = ''disabled'' then Inl (ValueError ''disabled execution does not create a persistent runtime'')
     else (case mk_account_ref name acc of Inl e \<Rightarrow> Inl e
       | Inr t \<Rightarrow> if bp_broker_name port \<noteq> broker_name t then Inl (ValueError ''broker identity does not match execution runtime'')
           else Inr t))"

definition runtime_registry :: "account_ref \<Rightarrow> broker_port \<Rightarrow> broker_capabilities \<Rightarrow> broker_registry res" where
  "runtime_registry t port caps =
     (case registration_post_init \<lparr> rg_account_ref = t, rg_port = port, rg_capabilities = caps, rg_state = RtReady \<rparr> of
        Inl e \<Rightarrow> Inl e
      | Inr r \<Rightarrow> (case register r empty_registry of (Inl e, _) \<Rightarrow> Inl e | (Inr _, g) \<Rightarrow> Inr (freeze g)))"

definition runtime_manager :: "account_ref \<Rightarrow> broker_registry \<Rightarrow> admission_gate list \<Rightarrow> instant \<Rightarrow> recovery_table \<Rightarrow> order_manager res" where
  "runtime_manager t g gates now tb = (case composite_gate (recovery_gate t now tb # gates) of
       Inl e \<Rightarrow> Inl e | Inr gate \<Rightarrow> Inr \<lparr> om_registry = g, om_gates = [(t, gate)] \<rparr>)"

section \<open>The supervisor\<close>

record worker_status =
  ws_state :: worker_state
  ws_ordering :: bool
  ws_dispatches :: nat
  ws_order_calls :: nat
  ws_cancel_calls :: nat

record supervisor_status =
  sv_ready :: bool
  sv_ordering :: bool
  sv_locked :: bool
  sv_ready_accounts :: nat
  sv_locked_accounts :: nat
  sv_dispatches :: nat
  sv_order_calls :: nat
  sv_cancel_calls :: nat

definition new_supervisor :: "(account_ref \<times> 'w) list \<Rightarrow> (account_ref \<times> 'w) list res" where
  "new_supervisor ws = (let d = foldl (\<lambda>d (t, k). dict_put t k d) [] ws in
     if length d \<noteq> length ws then Inl (ValueError ''duplicate broker account worker'') else Inr d)"

definition supervised_worker :: "account_ref \<Rightarrow> (account_ref \<times> 'w) list \<Rightarrow> 'w res" where
  "supervised_worker t d = (case map_of d t of None \<Rightarrow> Inl (LookupError ''unknown broker account worker'') | Some k \<Rightarrow> Inr k)"

definition supervisor_snapshot :: "worker_status list \<Rightarrow> supervisor_status" where
  "supervisor_snapshot accounts = (let ready = length (filter (\<lambda>s. ws_state s = ReadyReadOnly) accounts) in
     \<lparr> sv_ready = (accounts \<noteq> [] \<and> ready = length accounts), sv_ordering = list_ex ws_ordering accounts,
       sv_locked = (ready \<noteq> length accounts), sv_ready_accounts = ready, sv_locked_accounts = length accounts - ready,
       sv_dispatches = sum_list (map ws_dispatches accounts), sv_order_calls = sum_list (map ws_order_calls accounts),
       sv_cancel_calls = sum_list (map ws_cancel_calls accounts) \<rparr>)"

section \<open>What the runtime promises\<close>

text \<open>The manager of the runtime submits only under an open lock of its account.\<close>

lemma recovery_gate_open: "ag_ordering (recovery_gate t now tb) = Inr () \<Longrightarrow> lock_ready tb (broker_name t, account_id t)"
  by (auto simp: recovery_gate_def assert_ready_def recovery_state_of_def lock_ready_def recovery_ready_def Let_def
      split: prod.splits sum.splits option.splits if_splits)

lemma runtime_submits_under_open_lock:
  assumes "runtime_manager t g gates now tb = Inr m" "mw_submitted (snd (dispatch_once m t clk w)) \<noteq> mw_submitted w"
  shows "lock_ready tb (broker_name t, account_id t)"
proof -
  have "assert_admitted m t = Inr ()"
  proof (rule ccontr)
    assume "assert_admitted m t \<noteq> Inr ()"
    then obtain e where "assert_admitted m t = Inl e" by (cases "assert_admitted m t") auto
    then have "dispatch_once m t clk w = (Inl e, w)" by (simp add: dispatch_once_def dispatch_begin_def)
    with assms(2) show False by simp
  qed
  with assms(1) have "ag_ordering (recovery_gate t now tb) = Inr ()"
    by (auto simp: runtime_manager_def composite_gate_def assert_admitted_def split: sum.splits)
  then show ?thesis by (rule recovery_gate_open)
qed

text \<open>The runtime of an account is for exactly one broker.\<close>

lemma runtime_account_exact: "runtime_account bn acc port = Inr t \<Longrightarrow>
    bp_broker_name port = broker_name t \<and> broker_name t \<noteq> ''disabled'' \<and> account_id t = strip acc"
  by (auto simp: runtime_account_def Let_def mk_account_ref_def strip_lower strip_idem lower_idem split: if_splits)

text \<open>A failure, a lost or an unmatched callback stops the dispatch until a reconciliation is ready.\<close>

lemma locked_turn_sends_nothing: "xw_status (xr_worker w) \<noteq> Ready \<Longrightarrow> execution_turn c m clk now w = w"
  by (simp add: execution_turn_def)

lemma failure_locks: "xw_status (record_failure c e k) = Locked" "xw_status (lock_for_unmatched k) = Locked"
  "fst (enqueue_callback c ev k) = False \<Longrightarrow> xw_status (snd (enqueue_callback c ev k)) = Locked"
  by (auto simp: record_failure_def lock_for_unmatched_def enqueue_callback_def split: sum.splits if_splits)

lemma reconciled_ready: "xw_status (xr_worker (execution_reconcile c src began clk ended now w)) = Ready \<Longrightarrow>
    \<exists>rp r. reconcile_account (xc_recon c) src began clk ended (xr_recon w) = (Inr rp, r) \<and> recovery_ready (rp_state rp)"
  by (auto simp: execution_reconcile_def Let_def record_failure_def record_reconciliation_def recovery_ready_def
      split: prod.splits sum.splits)

text \<open>The queue of callbacks keeps its bound.\<close>

lemma queue_bounded: "int (length (xw_queue k)) \<le> se_queue (xc_settings c)
    \<Longrightarrow> int (length (xw_queue (snd (enqueue_callback c e k)))) \<le> se_queue (xc_settings c)"
  by (auto simp: enqueue_callback_def record_failure_def split: sum.splits)

text \<open>The supervisor is ready exactly when it has workers and all are ready.\<close>

lemma supervisor_ready: "sv_ready (supervisor_snapshot ss) \<longleftrightarrow> ss \<noteq> [] \<and> (\<forall>s \<in> set ss. ws_state s = ReadyReadOnly)"
  by (auto simp: supervisor_snapshot_def Let_def filter_id_conv dest: length_filter_less split: if_splits)

end
