(* ===== verification/Execution_Targets.thy ===== *)
theory Execution_Targets
  imports Order_Manager Broker_Events
begin

text \<open>
  Execution targets (\<open>broker/execution_targets.py\<close>, \<open>execution_target_repository.py\<close>): the accounts that
  users own, their table, the adoption of a legacy account, and the resolution of an owned target to the
  account it routes to.  SHA-256 is an argument.
\<close>

section \<open>Targets\<close>

datatype target_status = TargetActive | TargetDisabled | TargetLocked

definition target_status_value :: "target_status \<Rightarrow> string" where
  "target_status_value s = (case s of TargetActive \<Rightarrow> ''active'' | TargetDisabled \<Rightarrow> ''disabled'' | TargetLocked \<Rightarrow> ''locked'')"

definition mask_account_id :: "string \<Rightarrow> string res" where
  "mask_account_id acc = (let a = strip acc in if a = [] then Inl (ValueError ''account_id is required'')
     else Inr (''****'' @ drop (length a - 4) a))"

record execution_target =
  et_id :: string
  et_owner :: string
  et_broker :: string
  et_account :: string
  et_masked :: string
  et_secret :: string
  et_status :: target_status
  et_created_at :: pytime
  et_updated_at :: pytime
  et_connection :: "string option"
  et_display :: "string option"
  et_metadata :: "(string \<times> payload) list"

definition alphanumeric :: "char \<Rightarrow> bool" where
  "alphanumeric c = (let n = (of_char c :: nat) in (48 \<le> n \<and> n \<le> 57) \<or> (65 \<le> n \<and> n \<le> 90) \<or> (97 \<le> n \<and> n \<le> 122))"

text \<open>The regular expression \<open>^exec_[A-Za-z0-9]{16,64}$\<close>, matched in full.\<close>

definition opaque_id :: "string \<Rightarrow> bool" where
  "opaque_id s \<longleftrightarrow> take 5 s = ''exec_'' \<and> list_all alphanumeric (drop 5 s) \<and> 16 \<le> length (drop 5 s) \<and> length (drop 5 s) \<le> 64"

definition is_aware :: "pytime \<Rightarrow> bool" where
  "is_aware t = (case t of Aware _ \<Rightarrow> True | Naive _ \<Rightarrow> False)"

definition target_post_init :: "execution_target \<Rightarrow> execution_target res" where
  "target_post_init t =
     (let i = strip (et_id t); owner = strip (et_owner t); broker = lower (strip (et_broker t)); account = strip (et_account t);
          secret = strip (et_secret t) in
      first_error
        [(\<not> opaque_id i, ValueError ''target_id must be an opaque exec_ identifier''),
         (owner = [], ValueError ''owner_user_id is required''),
         (broker = [], ValueError ''broker_name is required''),
         (account = [], ValueError ''account_id is required''),
         (secret = [], ValueError ''secret_ref is required''),
         (Inr (et_masked t) \<noteq> mask_account_id account, ValueError ''masked_account_id does not match account_id''),
         (\<not> is_aware (et_created_at t) \<or> \<not> is_aware (et_updated_at t),
           ValueError ''execution target timestamps must be timezone-aware'')]
        (t\<lparr> et_id := i, et_owner := owner, et_broker := broker, et_account := account, et_secret := secret \<rparr>))"

definition target_account :: "execution_target \<Rightarrow> account_ref res" where
  "target_account t = mk_account_ref (et_broker t) (et_account t)"

definition target_public :: "execution_target \<Rightarrow> (string \<times> string) list" where
  "target_public t = [(''target_id'', et_id t), (''broker_name'', et_broker t), (''masked_account_id'', et_masked t),
     (''status'', target_status_value (et_status t))]"

section \<open>The table\<close>

type_synonym target_table = "execution_target list"

definition target_of_stored :: "execution_target option \<Rightarrow> execution_target option res" where
  "target_of_stored r = (case r of None \<Rightarrow> Inr None
     | Some t \<Rightarrow> (case target_post_init t of Inl e \<Rightarrow> Inl e | Inr t' \<Rightarrow> Inr (Some t')))"

definition create_target :: "execution_target \<Rightarrow> (target_table, execution_target) prog" where
  "create_target t rows =
     (if \<exists>r \<in> set rows. et_id r = et_id t \<or> et_broker r = et_broker t \<and> et_account r = et_account t
      then (Inl (ValueError ''duplicate execution target identity or broker account''), rows)
      else (Inr t, rows @ [t]))"

definition get_target :: "string \<Rightarrow> target_table \<Rightarrow> execution_target option res" where
  "get_target i rows = target_of_stored (find (\<lambda>r. et_id r = i) rows)"

definition get_owned_target :: "string \<Rightarrow> string \<Rightarrow> target_table \<Rightarrow> execution_target option res" where
  "get_owned_target owner i rows = target_of_stored (find (\<lambda>r. et_owner r = owner \<and> et_id r = i) rows)"

definition pytime_key :: "pytime \<Rightarrow> instant" where
  "pytime_key t = (case t of Aware i \<Rightarrow> i | Naive i \<Rightarrow> i)"

definition targets_where :: "(execution_target \<Rightarrow> bool) \<Rightarrow> target_table \<Rightarrow> execution_target list res" where
  "targets_where p rows = mapM target_post_init (sort_key (\<lambda>r. pytime_key (et_created_at r)) (sort_key et_id (filter p rows)))"

definition owner_targets :: "string \<Rightarrow> target_table \<Rightarrow> execution_target list res" where
  "owner_targets owner rows = targets_where (\<lambda>r. et_owner r = owner) rows"

definition active_targets :: "target_table \<Rightarrow> execution_target list res" where
  "active_targets rows = targets_where (\<lambda>r. et_status r = TargetActive) rows"

definition all_targets :: "target_table \<Rightarrow> execution_target list res" where
  "all_targets rows = targets_where (\<lambda>_. True) rows"

definition target_by_account :: "account_ref \<Rightarrow> target_table \<Rightarrow> execution_target option res" where
  "target_by_account a rows = target_of_stored (find (\<lambda>r. et_broker r = broker_name a \<and> et_account r = account_id a) rows)"

definition update_target_status :: "string \<Rightarrow> target_status \<Rightarrow> instant \<Rightarrow> (target_table, execution_target) prog" where
  "update_target_status i st now rows =
     (let rows' = tbl_update (\<lambda>r. et_id r = i) (\<lambda>r. r\<lparr> et_status := st, et_updated_at := Aware now \<rparr>) rows in
      if find (\<lambda>r. et_id r = i) rows = None then (Inl (KeyError ''unknown execution target''), rows')
      else (case get_target i rows' of Inl e \<Rightarrow> (Inl e, rows')
        | Inr None \<Rightarrow> (Inl (KeyError ''unknown execution target''), rows')
        | Inr (Some t) \<Rightarrow> (Inr t, rows')))"

definition target_exists :: "string \<Rightarrow> target_table \<Rightarrow> bool res" where
  "target_exists i rows = (case get_target i rows of Inl e \<Rightarrow> Inl e | Inr r \<Rightarrow> Inr (r \<noteq> None))"

section \<open>The legacy account\<close>

record connection_settings =
  cn_account :: "account_ref option"
  cn_secret :: string
  cn_connection :: "string option"

definition legacy_target_id :: "(string \<Rightarrow> string) \<Rightarrow> string \<Rightarrow> account_ref \<Rightarrow> string" where
  "legacy_target_id sha owner a = ''exec_'' @ take 32 (sha (''execution-target-v1|'' @ owner @ ''|'' @ broker_name a @ ''|'' @ account_id a))"

definition adopt_account :: "(string \<Rightarrow> string) \<Rightarrow> string \<Rightarrow> account_ref \<Rightarrow> connection_settings \<Rightarrow> instant
    \<Rightarrow> (target_table, execution_target) prog" where
  "adopt_account sha owner a cn now rows = (case target_by_account a rows of
       Inl e \<Rightarrow> (Inl e, rows)
     | Inr (Some t) \<Rightarrow> if et_owner t \<noteq> owner then (Inl (PermissionError ''legacy execution target owner mismatch''), rows) else (Inr t, rows)
     | Inr None \<Rightarrow> (case mask_account_id (account_id a) of Inl e \<Rightarrow> (Inl e, rows)
       | Inr masked \<Rightarrow> (case target_post_init \<lparr> et_id = legacy_target_id sha owner a, et_owner = owner, et_broker = broker_name a,
            et_account = account_id a, et_masked = masked, et_secret = cn_secret cn, et_status = TargetActive,
            et_created_at = Aware now, et_updated_at = Aware now, et_connection = cn_connection cn, et_display = None,
            et_metadata = [(''source'', PayText ''legacy_environment_bootstrap'')] \<rparr> of
           Inl e \<Rightarrow> (Inl e, rows) | Inr t \<Rightarrow> create_target t rows)))"

definition bootstrap_legacy_target :: "(string \<Rightarrow> string) \<Rightarrow> string list \<Rightarrow> connection_settings \<Rightarrow> instant
    \<Rightarrow> (target_table, execution_target) prog" where
  "bootstrap_legacy_target sha owner_ids cn now rows =
     (case dedup (filter (\<lambda>x. x \<noteq> []) (map strip owner_ids)) of
        [owner] \<Rightarrow> (case cn_account cn of
            Some a \<Rightarrow> if broker_name a = ''disabled'' then (Inl (ValueError ''legacy execution target requires an exact broker account''), rows)
              else adopt_account sha owner a cn now rows
          | None \<Rightarrow> (Inl (ValueError ''legacy execution target requires an exact broker account''), rows))
      | _ \<Rightarrow> (Inl (ValueError ''legacy execution target requires exactly one owner''), rows))"

section \<open>Resolution\<close>

definition resolve_owned_target :: "broker_registry \<Rightarrow> string \<Rightarrow> string \<Rightarrow> target_table \<Rightarrow> account_ref res" where
  "resolve_owned_target g owner i rows = (case get_owned_target owner i rows of
       Inl e \<Rightarrow> Inl e
     | Inr None \<Rightarrow> Inl (KeyError ''unknown owned execution target'')
     | Inr (Some t) \<Rightarrow>
        if et_status t \<noteq> TargetActive then Inl (RuntimeError (''execution target is '' @ target_status_value (et_status t)))
        else (case target_account t of Inl e \<Rightarrow> Inl e
          | Inr a \<Rightarrow> (case registration a g of Inl e \<Rightarrow> Inl e
            | Inr r \<Rightarrow> if rg_account_ref r \<noteq> a then Inl (RuntimeError ''broker execution target mismatch'')
                else if rg_state r \<noteq> RtReady then Inl (RuntimeError (''broker execution target is '' @ runtime_value (rg_state r)))
                else Inr a)))"

definition catalog_resolve :: "string \<Rightarrow> string \<Rightarrow> target_table \<Rightarrow> account_ref res" where
  "catalog_resolve i owner rows = (case get_owned_target owner i rows of
       Inl e \<Rightarrow> Inl e
     | Inr (Some t) \<Rightarrow> if et_status t \<noteq> TargetActive then Inl (KeyError ''unknown owned execution target'') else target_account t
     | Inr None \<Rightarrow> Inl (KeyError ''unknown owned execution target''))"

definition catalog_targets :: "string \<Rightarrow> target_table \<Rightarrow> account_ref list res" where
  "catalog_targets owner rows = (case owner_targets owner rows of Inl e \<Rightarrow> Inl e
     | Inr ts \<Rightarrow> mapM target_account (filter (\<lambda>t. et_status t = TargetActive) ts))"

definition catalog_public :: "string \<Rightarrow> target_table \<Rightarrow> (string \<times> string) list list res" where
  "catalog_public owner rows = (case owner_targets owner rows of Inl e \<Rightarrow> Inl e
     | Inr ts \<Rightarrow> Inr (map target_public (filter (\<lambda>t. et_status t = TargetActive) ts)))"

section \<open>Every account has one owner\<close>

datatype target_op =
    CreateTarget execution_target
  | UpdateTarget string target_status instant
  | BootstrapTarget "string \<Rightarrow> string" "string list" connection_settings instant

fun target_step :: "target_table \<Rightarrow> target_op \<Rightarrow> target_table" where
  "target_step rows (CreateTarget t) = (case target_post_init t of Inl _ \<Rightarrow> rows | Inr t' \<Rightarrow> snd (create_target t' rows))"
| "target_step rows (UpdateTarget i st now) = snd (update_target_status i st now rows)"
| "target_step rows (BootstrapTarget sha owner_ids cn now) = snd (bootstrap_legacy_target sha owner_ids cn now rows)"

definition route :: "execution_target \<Rightarrow> string \<times> string" where
  "route t = (et_broker t, et_account t)"

definition targets_ok :: "target_table \<Rightarrow> bool" where
  "targets_ok rows \<longleftrightarrow> distinct (map et_id rows) \<and> distinct (map route rows)
     \<and> (\<forall>t \<in> set rows. target_post_init t = Inr t)"

text \<open>A row keeps its owner and account.\<close>

definition same_rights :: "target_table \<Rightarrow> target_table \<Rightarrow> bool" where
  "same_rights rows rows' \<longleftrightarrow> (\<forall>t \<in> set rows. \<exists>t' \<in> set rows'. et_id t' = et_id t \<and> et_owner t' = et_owner t \<and> route t' = route t)"

lemma target_post_init_fixed: "target_post_init t = Inr t' \<Longrightarrow> target_post_init t' = Inr t'"
  by (auto simp: target_post_init_def Let_def first_error_Inr strip_idem strip_lower lower_idem)

lemma create_target_step:
  "create_target t rows = (r, rows') \<Longrightarrow> rows' = rows \<or> rows' = rows @ [t] \<and> et_id t \<notin> et_id ` set rows \<and> route t \<notin> route ` set rows"
  by (auto simp: create_target_def route_def split: if_splits)

lemma update_target_rows: "snd (update_target_status i st now rows)
    = tbl_update (\<lambda>r. et_id r = i) (\<lambda>r. r\<lparr> et_status := st, et_updated_at := Aware now \<rparr>) rows"
  by (auto simp: update_target_status_def Let_def split: sum.split option.split)

lemma bootstrap_step:
  assumes "bootstrap_legacy_target sha owner_ids cn now rows = (r, rows')"
  shows "rows' = rows \<or> (\<exists>t. target_post_init t = Inr t \<and> rows' = rows @ [t] \<and> et_id t \<notin> et_id ` set rows \<and> route t \<notin> route ` set rows)"
  using assms
  by (auto simp: bootstrap_legacy_target_def adopt_account_def split: list.splits option.splits sum.splits if_splits
      dest!: create_target_step intro: target_post_init_fixed)

lemma target_step_cases:
  "target_step rows x = rows
   \<or> (\<exists>t. target_post_init t = Inr t \<and> target_step rows x = rows @ [t] \<and> et_id t \<notin> et_id ` set rows \<and> route t \<notin> route ` set rows)
   \<or> (\<exists>i st now. target_step rows x = tbl_update (\<lambda>r. et_id r = i) (\<lambda>r. r\<lparr> et_status := st, et_updated_at := Aware now \<rparr>) rows)"
proof (cases x)
  case (CreateTarget t)
  show ?thesis
  proof (cases "target_post_init t")
    case (Inr t')
    with CreateTarget create_target_step [of t' rows] target_post_init_fixed [OF Inr] show ?thesis
      by (cases "create_target t' rows") auto
  qed (simp add: CreateTarget)
next
  case (UpdateTarget i st now)
  then show ?thesis by (auto simp: update_target_rows)
next
  case (BootstrapTarget sha owner_ids cn now)
  then show ?thesis using bootstrap_step [of sha owner_ids cn now rows]
    by (cases "bootstrap_legacy_target sha owner_ids cn now rows") auto
qed

lemma updated_target_ok: "target_post_init t = Inr t \<Longrightarrow>
    target_post_init (t\<lparr> et_status := st, et_updated_at := Aware now \<rparr>) = Inr (t\<lparr> et_status := st, et_updated_at := Aware now \<rparr>)"
  by (cases t) (auto simp: target_post_init_def Let_def first_error_Inr is_aware_def)

interpretation targets: step_monotone target_step targets_ok same_rights
proof
  fix rows x assume ok: "targets_ok rows"
  from target_step_cases [of rows x] show "targets_ok (target_step rows x)"
  proof (elim disjE exE conjE)
    fix i st now
    assume u: "target_step rows x = tbl_update (\<lambda>r. et_id r = i) (\<lambda>r. r\<lparr> et_status := st, et_updated_at := Aware now \<rparr>) rows"
    have "map et_id (target_step rows x) = map et_id rows" "map route (target_step rows x) = map route rows"
      unfolding u by (simp_all add: tbl_update_key route_def)
    with ok show ?thesis unfolding targets_ok_def by (auto simp: u ball_tbl_update updated_target_ok)
  qed (use ok in \<open>auto simp: targets_ok_def\<close>)
  from target_step_cases [of rows x] show "same_rights rows (target_step rows x)"
  proof (elim disjE exE conjE)
    fix i st now
    assume u: "target_step rows x = tbl_update (\<lambda>r. et_id r = i) (\<lambda>r. r\<lparr> et_status := st, et_updated_at := Aware now \<rparr>) rows"
    show ?thesis unfolding same_rights_def
    proof
      fix t assume "t \<in> set rows"
      then have "(if et_id t = i then t\<lparr> et_status := st, et_updated_at := Aware now \<rparr> else t) \<in> set (target_step rows x)"
        by (auto simp: u set_tbl_update)
      then show "\<exists>t' \<in> set (target_step rows x). et_id t' = et_id t \<and> et_owner t' = et_owner t \<and> route t' = route t"
        by (rule rev_bexI) (simp add: route_def)
    qed
  qed (auto simp: same_rights_def)
qed (auto simp: same_rights_def, metis)

lemma target_account_route: "target_post_init t = Inr t \<Longrightarrow> target_account t = Inr a \<Longrightarrow> route t = (broker_name a, account_id a)"
  by (cases t) (auto simp: target_post_init_def Let_def first_error_Inr target_account_def mk_account_ref_def route_def split: if_splits)

lemma owned_row: "targets_ok rows \<Longrightarrow> get_owned_target owner i rows = Inr (Some t) \<Longrightarrow>
    t \<in> set rows \<and> et_owner t = owner \<and> et_id t = i \<and> target_post_init t = Inr t"
  by (auto simp: get_owned_target_def target_of_stored_def targets_ok_def split: option.splits sum.splits dest!: find_SomeD)

lemma resolved_row:
  assumes "targets_ok rows" "resolve_owned_target g owner i rows = Inr a"
  shows "\<exists>t \<in> set rows. et_owner t = owner \<and> et_id t = i \<and> et_status t = TargetActive \<and> route t = (broker_name a, account_id a)
    \<and> (\<exists>r. registration a g = Inr r \<and> rg_account_ref r = a \<and> rg_state r = RtReady)"
proof -
  obtain t where t: "get_owned_target owner i rows = Inr (Some t)" "et_status t = TargetActive" "target_account t = Inr a"
      "\<exists>r. registration a g = Inr r \<and> rg_account_ref r = a \<and> rg_state r = RtReady"
    using assms(2) by (auto simp: resolve_owned_target_def split: sum.splits option.splits if_splits)
  with owned_row [OF assms(1) t(1)] target_account_route [of t a] show ?thesis by blast
qed

text \<open>An account that a target of a user resolves to is resolved by no other user and no other target, then
  or after any operations.\<close>

lemma account_has_one_owner:
  assumes "targets_ok rows" "resolve_owned_target g owner i rows = Inr a"
    and "resolve_owned_target g' owner' i' (run target_step rows ops) = Inr a"
  shows "owner' = owner \<and> i' = i"
proof -
  let ?rows = "run target_step rows ops"
  have ok: "targets_ok ?rows" using assms(1) by (rule targets.run_inv)
  obtain t where t: "t \<in> set rows" "et_owner t = owner" "et_id t = i" "route t = (broker_name a, account_id a)"
    using resolved_row [OF assms(1,2)] by blast
  obtain u where u: "u \<in> set ?rows" "et_owner u = owner'" "et_id u = i'" "route u = (broker_name a, account_id a)"
    using resolved_row [OF ok assms(3)] by blast
  obtain v where v: "v \<in> set ?rows" "et_id v = i" "et_owner v = owner" "route v = route t"
    using targets.run_rel [OF assms(1), of ops] t(1-3) by (auto simp: same_rights_def)
  have "u = v" using ok u v(1,4) t(4) by (auto simp: targets_ok_def dest: distinct_key_inj)
  with u v show ?thesis by simp
qed

end
