(* ===== verification/Backtest_Engine.thy ===== *)
theory Backtest_Engine
  imports Market_Sessions
begin

text \<open>
  The bar-by-bar backtest of one stock: the configuration (\<open>config.py\<close>), the costs of Taiwan stocks
  (\<open>costs.py\<close>), the checks of the bar table (\<open>data.py\<close>), the engine (\<open>engine.py\<close>) and its performance
  figures (\<open>metrics.py\<close>).

  A data frame is the list of its column names and of its rows; a missing cell is \<open>None\<close>.  Timestamps
  are Taipei times, as \<open>load_bars\<close> makes them.  A strategy is the pair of its methods, functions of the
  bars of a day to values by row number (\<open>reindex\<close> fills the rows that have none).  The square root,
  which only the Sharpe ratio uses, is the argument \<open>sqrt_of\<close>.
\<close>

section \<open>Configuration\<close>

record cost_config =
  cc_commission_rate :: rat
  cc_commission_discount :: rat
  cc_min_commission :: rat
  cc_sell_tax_rate :: rat
  cc_slippage_bps :: rat
  cc_round_cost_to_ntd :: bool

definition cost_config_error :: "cost_config \<Rightarrow> unit res" where
  "cost_config_error c = first_error
     [(cc_commission_rate c < 0, ValueError ''commission_rate must not be negative''),
      (cc_commission_discount c < 0, ValueError ''commission_discount must not be negative''),
      (cc_min_commission c < 0, ValueError ''min_commission must not be negative''),
      (cc_sell_tax_rate c < 0, ValueError ''sell_tax_rate must not be negative''),
      (cc_slippage_bps c < 0, ValueError ''slippage_bps must not be negative'')] ()"

record backtest_config =
  bc_initial_capital :: rat
  bc_quantity :: int
  bc_stop_loss_pct :: rat
  bc_take_profit_pct :: rat
  bc_force_exit_time :: int
  bc_max_trades_per_day :: int
  bc_allow_short :: bool

definition backtest_config_error :: "backtest_config \<Rightarrow> unit res" where
  "backtest_config_error c = first_error
     [(bc_initial_capital c \<le> 0, ValueError ''initial_capital must be greater than 0''),
      (bc_quantity c \<le> 0, ValueError ''quantity must be greater than 0''),
      (\<not> (0 < bc_stop_loss_pct c \<and> bc_stop_loss_pct c < 1), ValueError ''stop_loss_pct must be between 0 and 1''),
      (\<not> (0 < bc_take_profit_pct c \<and> bc_take_profit_pct c < 1), ValueError ''take_profit_pct must be between 0 and 1''),
      (bc_max_trades_per_day c \<le> 0, ValueError ''max_trades_per_day must be greater than 0'')] ()"

definition default_cost_config :: cost_config where
  "default_cost_config = \<lparr> cc_commission_rate = 1425 / 1000000, cc_commission_discount = 1, cc_min_commission = 20,
     cc_sell_tax_rate = 15 / 10000, cc_slippage_bps = 2, cc_round_cost_to_ntd = True \<rparr>"

definition default_backtest_config :: backtest_config where
  "default_backtest_config = \<lparr> bc_initial_capital = 1000000, bc_quantity = 1000, bc_stop_loss_pct = 6 / 1000,
     bc_take_profit_pct = 12 / 1000, bc_force_exit_time = clock_time 13 20, bc_max_trades_per_day = 1,
     bc_allow_short = False \<rparr>"

section \<open>Costs\<close>

datatype deal_side = DealBuy | DealSell

record order_cost =
  oc_notional :: rat
  oc_commission :: rat
  oc_tax :: rat

definition cost_total :: "order_cost \<Rightarrow> rat" where
  "cost_total c = oc_commission c + oc_tax c"

definition cost_fill_price :: "cost_config \<Rightarrow> rat \<Rightarrow> deal_side \<Rightarrow> rat" where
  "cost_fill_price c raw side =
     (let fraction = cc_slippage_bps c / 10000 in
      raw * (if side = DealBuy then 1 + fraction else 1 - fraction))"

definition order_cost_of :: "cost_config \<Rightarrow> rat \<Rightarrow> int \<Rightarrow> deal_side \<Rightarrow> order_cost" where
  "order_cost_of c price quantity side =
     (let notional = price * of_int quantity;
          raw = notional * cc_commission_rate c * cc_commission_discount c;
          commission = (if 0 < raw then max (cc_min_commission c) raw else raw);
          tax = (if side = DealSell then notional * cc_sell_tax_rate c else 0);
          rounded = (\<lambda>x. if cc_round_cost_to_ntd c then of_int \<lfloor>x + 1 / 10 ^ 12\<rfloor> else x) in
      \<lparr> oc_notional = notional, oc_commission = rounded commission, oc_tax = rounded tax \<rparr>)"

section \<open>Bars\<close>

record frame_row =
  fr_time :: "instant option"
  fr_symbol :: "string option"
  fr_open :: "rat option"
  fr_high :: "rat option"
  fr_low :: "rat option"
  fr_close :: "rat option"
  fr_volume :: "rat option"

record bar_frame =
  bf_columns :: "string list"
  bf_rows :: "frame_row list"

record day_bar =
  db_time :: instant
  db_symbol :: string
  db_open :: rat
  db_high :: rat
  db_low :: rat
  db_close :: rat
  db_volume :: rat

definition required_columns :: "string list" where
  "required_columns = [''timestamp'', ''symbol'', ''open'', ''high'', ''low'', ''close'', ''volume'']"

definition empty_cells :: "frame_row \<Rightarrow> string list" where
  "empty_cells r =
     [''timestamp''. fr_time r = None] @ [''symbol''. fr_symbol r = None] @ [''open''. fr_open r = None]
     @ [''high''. fr_high r = None] @ [''low''. fr_low r = None] @ [''close''. fr_close r = None]
     @ [''volume''. fr_volume r = None]"

text \<open>A row without empty cells, as the later code reads it.\<close>

definition complete_bar :: "frame_row \<Rightarrow> day_bar" where
  "complete_bar r = \<lparr> db_time = the (fr_time r), db_symbol = the (fr_symbol r), db_open = the (fr_open r),
     db_high = the (fr_high r), db_low = the (fr_low r), db_close = the (fr_close r), db_volume = the (fr_volume r) \<rparr>"

definition validate_bars :: "bar_frame \<Rightarrow> unit res" where
  "validate_bars f =
     (let missing = sort (filter (\<lambda>c. c \<notin> set (bf_columns f)) required_columns);
          bad = filter (\<lambda>c. \<exists>r \<in> set (bf_rows f). c \<in> set (empty_cells r)) (bf_columns f);
          bs = map complete_bar (bf_rows f) in
      if missing \<noteq> [] then Inl (ValueError (''missing columns: '' @ join '', '' missing))
      else if bf_rows f = [] then Inl (ValueError ''no bars'')
      else if \<exists>r \<in> set (bf_rows f). empty_cells r \<noteq> []
      then Inl (ValueError (''empty cells: '' @ join '', '' bad))
      else first_error
        [(\<exists>b \<in> set bs. db_open b \<le> 0 \<or> db_high b \<le> 0 \<or> db_low b \<le> 0 \<or> db_close b \<le> 0,
          ValueError ''OHLC prices must be greater than 0''),
         (\<exists>b \<in> set bs. db_volume b < 0, ValueError ''volume must not be negative''),
         (\<exists>b \<in> set bs. db_high b < max (db_open b) (max (db_close b) (db_low b)),
          ValueError ''high is below another price of the bar''),
         (\<exists>b \<in> set bs. min (db_open b) (min (db_close b) (db_high b)) < db_low b,
          ValueError ''low is above another price of the bar''),
         (\<not> distinct (map (\<lambda>b. (db_time b, db_symbol b)) bs), ValueError ''timestamp + symbol must be unique'')] ())"

definition regular_session_bars :: "day_bar list \<Rightarrow> day_bar list res" where
  "regular_session_bars bs =
     (let kept = filter (\<lambda>b. clock_time 9 0 \<le> taipei_clock (db_time b) \<and> taipei_clock (db_time b) \<le> clock_time 13 30) bs in
      if kept = [] then Inl (ValueError ''no bars of the regular session 09:00-13:30'') else Inr kept)"

section \<open>Trades and positions\<close>

datatype position_way = LongWay | ShortWay

record day_trade =
  dt_symbol :: string
  dt_direction :: position_way
  dt_entry_time :: instant
  dt_exit_time :: instant
  dt_quantity :: int
  dt_entry_price :: rat
  dt_exit_price :: rat
  dt_gross_pnl :: rat
  dt_commission :: rat
  dt_tax :: rat
  dt_total_cost :: rat
  dt_net_pnl :: rat
  dt_return_pct :: rat
  dt_holding_minutes :: rat
  dt_mfe :: rat
  dt_mae :: rat
  dt_exit_reason :: string

text \<open>The variables of an open position; while \<open>position\<close> is 0 the code reads none of them.\<close>

record held_position =
  hp_way :: position_way
  hp_price :: rat
  hp_time :: instant
  hp_cost :: order_cost
  hp_stop :: rat
  hp_target :: rat
  hp_mfe :: rat
  hp_mae :: rat

definition entry_deal :: "position_way \<Rightarrow> deal_side" where
  "entry_deal w = (case w of LongWay \<Rightarrow> DealBuy | ShortWay \<Rightarrow> DealSell)"

definition exit_deal :: "position_way \<Rightarrow> deal_side" where
  "exit_deal w = (case w of LongWay \<Rightarrow> DealSell | ShortWay \<Rightarrow> DealBuy)"

definition exit_decision :: "held_position \<Rightarrow> day_bar \<Rightarrow> (rat \<times> string) option" where
  "exit_decision h b =
     (case hp_way h of
        LongWay \<Rightarrow>
          if db_low b \<le> hp_stop h then Some (min (db_open b) (hp_stop h), ''stop_loss'')
          else if hp_target h \<le> db_high b then Some (max (db_open b) (hp_target h), ''take_profit'')
          else None
      | ShortWay \<Rightarrow>
          if hp_stop h \<le> db_high b then Some (max (db_open b) (hp_stop h), ''stop_loss'')
          else if db_low b \<le> hp_target h then Some (min (db_open b) (hp_target h), ''take_profit'')
          else None)"

definition update_excursions :: "day_bar \<Rightarrow> held_position \<Rightarrow> held_position" where
  "update_excursions b h =
     (let favorable = (case hp_way h of LongWay \<Rightarrow> db_high b - hp_price h | ShortWay \<Rightarrow> hp_price h - db_low b);
          adverse = (case hp_way h of LongWay \<Rightarrow> db_low b - hp_price h | ShortWay \<Rightarrow> hp_price h - db_high b) in
      h\<lparr>hp_mfe := max (hp_mfe h) favorable, hp_mae := min (hp_mae h) adverse\<rparr>)"

definition close_trade :: "backtest_config \<Rightarrow> cost_config \<Rightarrow> held_position \<Rightarrow> day_bar \<Rightarrow> rat \<Rightarrow> string \<Rightarrow> day_trade res" where
  "close_trade c cc h b raw reason =
     (let exit_price = cost_fill_price cc raw (exit_deal (hp_way h));
          exit_cost = order_cost_of cc exit_price (bc_quantity c) (exit_deal (hp_way h));
          multiplier = (case hp_way h of LongWay \<Rightarrow> 1 | ShortWay \<Rightarrow> - 1);
          gross = (exit_price - hp_price h) * of_int (bc_quantity c) * multiplier;
          commission = oc_commission (hp_cost h) + oc_commission exit_cost;
          tax = oc_tax (hp_cost h) + oc_tax exit_cost;
          cost = commission + tax;
          net = gross - cost;
          capital = hp_price h * of_int (bc_quantity c) in
      if capital = 0 then Inl (ZeroDivisionError ''float division by zero'')
      else Inr \<lparr> dt_symbol = db_symbol b, dt_direction = hp_way h, dt_entry_time = hp_time h, dt_exit_time = db_time b,
        dt_quantity = bc_quantity c, dt_entry_price = hp_price h, dt_exit_price = exit_price, dt_gross_pnl = gross,
        dt_commission = commission, dt_tax = tax, dt_total_cost = cost, dt_net_pnl = net,
        dt_return_pct = net / capital * 100, dt_holding_minutes = total_seconds (db_time b - hp_time h) / 60,
        dt_mfe = hp_mfe h * of_int (bc_quantity c), dt_mae = hp_mae h * of_int (bc_quantity c),
        dt_exit_reason = reason \<rparr>)"

section \<open>One day\<close>

record entry_strategy =
  es_entries :: "day_bar list \<Rightarrow> nat \<Rightarrow> int option"
  es_exits :: "(day_bar list \<Rightarrow> nat \<Rightarrow> (bool \<times> bool) option) option"

record day_state =
  ds_trades :: "day_trade list"
  ds_pending :: int
  ds_exit :: bool
  ds_held :: "held_position option"

definition new_day :: day_state where
  "new_day = \<lparr> ds_trades = [], ds_pending = 0, ds_exit = False, ds_held = None \<rparr>"

definition entry_signal :: "entry_strategy \<Rightarrow> day_bar list \<Rightarrow> nat \<Rightarrow> int" where
  "entry_signal st bars i = (case es_entries st bars i of None \<Rightarrow> 0 | Some v \<Rightarrow> v)"

definition exit_signal :: "entry_strategy \<Rightarrow> day_bar list \<Rightarrow> position_way \<Rightarrow> nat \<Rightarrow> bool" where
  "exit_signal st bars w i =
     (case es_exits st of None \<Rightarrow> False
      | Some f \<Rightarrow> (case f bars i of None \<Rightarrow> False
          | Some (long, short) \<Rightarrow> (case w of LongWay \<Rightarrow> long | ShortWay \<Rightarrow> short)))"

definition net_sum :: "day_trade list \<Rightarrow> rat" where
  "net_sum ts = sum_list (map dt_net_pnl ts)"

definition leave_held :: "day_trade \<Rightarrow> day_state \<Rightarrow> day_state" where
  "leave_held t s = s\<lparr>ds_trades := ds_trades s @ [t], ds_held := None, ds_exit := False\<rparr>"

definition strategy_exit :: "backtest_config \<Rightarrow> cost_config \<Rightarrow> day_bar \<Rightarrow> day_state \<Rightarrow> day_state res" where
  "strategy_exit c cc b s =
     (case ds_held s of
        None \<Rightarrow> Inr s
      | Some h \<Rightarrow> if \<not> ds_exit s then Inr s
          else res_then (close_trade c cc h b (db_open b) ''mean_reversion'') (\<lambda>t. Inr (leave_held t s)))"

definition held_from :: "backtest_config \<Rightarrow> position_way \<Rightarrow> rat \<Rightarrow> order_cost \<Rightarrow> instant \<Rightarrow> held_position" where
  "held_from c w p cost now =
     \<lparr> hp_way = w, hp_price = p, hp_time = now, hp_cost = cost,
       hp_stop = p * (case w of LongWay \<Rightarrow> 1 - bc_stop_loss_pct c | ShortWay \<Rightarrow> 1 + bc_stop_loss_pct c),
       hp_target = p * (case w of LongWay \<Rightarrow> 1 + bc_take_profit_pct c | ShortWay \<Rightarrow> 1 - bc_take_profit_pct c),
       hp_mfe = 0, hp_mae = 0 \<rparr>"

definition pending_entry :: "backtest_config \<Rightarrow> cost_config \<Rightarrow> rat \<Rightarrow> day_bar \<Rightarrow> day_state \<Rightarrow> day_state" where
  "pending_entry c cc realized b s =
     (if ds_held s = None \<and> ds_pending s \<noteq> 0 \<and> taipei_clock (db_time b) < bc_force_exit_time c
         \<and> int (length (ds_trades s)) < bc_max_trades_per_day c
      then if ds_pending s = - 1 \<and> \<not> bc_allow_short c then s\<lparr>ds_pending := 0\<rparr>
        else let w = (if ds_pending s = 1 then LongWay else ShortWay);
                 p = cost_fill_price cc (db_open b) (entry_deal w);
                 cost = order_cost_of cc p (bc_quantity c) (entry_deal w);
                 available = bc_initial_capital c + realized + net_sum (ds_trades s);
                 required = oc_notional cost + cost_total cost in
             if ds_pending s = - 1 \<or> required \<le> available
             then s\<lparr>ds_held := Some (held_from c w p cost (db_time b)), ds_pending := 0\<rparr>
             else s\<lparr>ds_pending := 0\<rparr>
      else s)"

definition guard_position :: "backtest_config \<Rightarrow> cost_config \<Rightarrow> day_bar \<Rightarrow> day_state \<Rightarrow> day_state res" where
  "guard_position c cc b s =
     (case ds_held s of
        None \<Rightarrow> Inr s
      | Some h \<Rightarrow>
          let forced = bc_force_exit_time c \<le> taipei_clock (db_time b);
              h' = (if forced then h else update_excursions b h);
              decision = (if forced then Some (db_open b, ''force_exit'') else exit_decision h' b) in
          (case decision of
             None \<Rightarrow> Inr (s\<lparr>ds_held := Some h'\<rparr>)
           | Some (raw, reason) \<Rightarrow> res_then (close_trade c cc h' b raw reason) (\<lambda>t. Inr (leave_held t s))))"

definition signal_exit :: "entry_strategy \<Rightarrow> day_bar list \<Rightarrow> nat \<Rightarrow> day_state \<Rightarrow> day_state" where
  "signal_exit st bars i s =
     (case ds_held s of None \<Rightarrow> s | Some h \<Rightarrow> s\<lparr>ds_exit := exit_signal st bars (hp_way h) i\<rparr>)"

definition signal_entry :: "backtest_config \<Rightarrow> entry_strategy \<Rightarrow> day_bar list \<Rightarrow> nat \<Rightarrow> day_bar \<Rightarrow> day_state \<Rightarrow> day_state" where
  "signal_entry c st bars i b s =
     (if ds_held s = None \<and> ds_pending s = 0 \<and> int (length (ds_trades s)) < bc_max_trades_per_day c
         \<and> entry_signal st bars i \<in> {- 1, 1} \<and> taipei_clock (db_time b) < bc_force_exit_time c
      then s\<lparr>ds_pending := entry_signal st bars i\<rparr> else s)"

definition day_step :: "backtest_config \<Rightarrow> cost_config \<Rightarrow> entry_strategy \<Rightarrow> rat \<Rightarrow> day_bar list \<Rightarrow> nat \<times> day_bar
    \<Rightarrow> day_state \<Rightarrow> day_state res" where
  "day_step c cc st realized bars x s0 =
     (case x of (i, b) \<Rightarrow>
        res_then (strategy_exit c cc b s0) (\<lambda>s1.
        res_then (guard_position c cc b (pending_entry c cc realized b s1)) (\<lambda>s2.
          Inr (signal_entry c st bars i b (signal_exit st bars i s2)))))"

definition day_loop :: "backtest_config \<Rightarrow> cost_config \<Rightarrow> entry_strategy \<Rightarrow> rat \<Rightarrow> day_bar list \<Rightarrow> day_state res" where
  "day_loop c cc st realized bars = foldM (day_step c cc st realized bars) (zip [0..<length bars] bars) new_day"

definition run_day :: "backtest_config \<Rightarrow> cost_config \<Rightarrow> entry_strategy \<Rightarrow> rat \<Rightarrow> day_bar list \<Rightarrow> day_trade list res" where
  "run_day c cc st realized bars =
     res_then (day_loop c cc st realized bars) (\<lambda>s.
       (case ds_held s of
          None \<Rightarrow> Inr (ds_trades s)
        | Some h \<Rightarrow> res_then (close_trade c cc h (last bars) (db_close (last bars)) ''end_of_data'') (\<lambda>t.
            Inr (ds_trades s @ [t]))))"

section \<open>Performance\<close>

record equity_point =
  ep_time :: instant
  ep_equity :: rat
  ep_net :: rat
  ep_peak :: rat
  ep_drawdown :: rat
  ep_drawdown_pct :: rat

text \<open>The row of a running equity and the peak before it.\<close>

definition equity_row :: "instant \<Rightarrow> rat \<Rightarrow> rat \<Rightarrow> rat \<Rightarrow> equity_point" where
  "equity_row now equity net peak =
     \<lparr> ep_time = now, ep_equity = equity, ep_net = net, ep_peak = peak, ep_drawdown = equity - peak,
       ep_drawdown_pct = (equity - peak) / peak * 100 \<rparr>"

fun equity_rows :: "rat \<Rightarrow> rat \<Rightarrow> day_trade list \<Rightarrow> equity_point list" where
  "equity_rows running peak [] = []"
| "equity_rows running peak (t # ts) =
     (let e = running + dt_net_pnl t; p = max peak e in
      equity_row (dt_exit_time t) e (dt_net_pnl t) p # equity_rows e p ts)"

definition build_equity_curve :: "day_trade list \<Rightarrow> rat \<Rightarrow> instant \<Rightarrow> equity_point list" where
  "build_equity_curve ts capital start = equity_row start capital 0 capital # equity_rows capital capital ts"

record backtest_summary =
  su_initial_capital :: rat
  su_ending_equity :: rat
  su_trades :: int
  su_win_rate_pct :: rat
  su_net_profit :: rat
  su_return_pct :: rat
  su_gross_profit :: rat
  su_gross_loss :: rat
  su_profit_factor :: "rat option"
  su_avg_trade :: rat
  su_avg_holding_minutes :: rat
  su_total_cost :: rat
  su_max_drawdown :: rat
  su_max_drawdown_pct :: rat
  su_daily_sharpe :: "rat option"

definition average :: "rat list \<Rightarrow> rat" where
  "average xs = sum_list xs / of_nat (length xs)"

definition sample_variance :: "rat list \<Rightarrow> rat" where
  "sample_variance xs = sum_list (map (\<lambda>x. (x - average xs) ^ 2) xs) / (of_nat (length xs) - 1)"

definition days_of :: "('t \<Rightarrow> instant) \<Rightarrow> 't list \<Rightarrow> date list" where
  "days_of f xs = sort (remdups (map (\<lambda>x. taipei_date (f x)) xs))"

definition daily_pnl :: "day_trade list \<Rightarrow> rat list" where
  "daily_pnl ts = map (\<lambda>d. net_sum (filter (\<lambda>t. taipei_date (dt_exit_time t) = d) ts)) (days_of dt_exit_time ts)"

definition daily_sharpe :: "(rat \<Rightarrow> rat) \<Rightarrow> rat \<Rightarrow> day_trade list \<Rightarrow> rat option" where
  "daily_sharpe sqrt_of capital ts =
     (let pnl = daily_pnl ts; returns = map (\<lambda>x. x / capital) pnl in
      if 2 \<le> length pnl \<and> 0 < sqrt_of (sample_variance pnl)
      then Some (average returns / sqrt_of (sample_variance returns) * sqrt_of 252) else None)"

definition calculate_summary :: "(rat \<Rightarrow> rat) \<Rightarrow> day_trade list \<Rightarrow> equity_point list \<Rightarrow> rat \<Rightarrow> backtest_summary" where
  "calculate_summary sqrt_of ts equity capital =
     (if ts = [] then
        \<lparr> su_initial_capital = capital, su_ending_equity = capital, su_trades = 0, su_win_rate_pct = 0, su_net_profit = 0,
          su_return_pct = 0, su_gross_profit = 0, su_gross_loss = 0, su_profit_factor = None, su_avg_trade = 0,
          su_avg_holding_minutes = 0, su_total_cost = 0, su_max_drawdown = 0, su_max_drawdown_pct = 0, su_daily_sharpe = None \<rparr>
      else
        let wins = filter (\<lambda>x. 0 < x) (map dt_net_pnl ts);
            losses = filter (\<lambda>x. x < 0) (map dt_net_pnl ts);
            gross_profit = sum_list wins; gross_loss = sum_list losses;
            ending = ep_equity (last equity) in
        \<lparr> su_initial_capital = capital, su_ending_equity = ending, su_trades = int (length ts),
          su_win_rate_pct = of_nat (length wins) / of_nat (length ts) * 100, su_net_profit = net_sum ts,
          su_return_pct = (ending / capital - 1) * 100, su_gross_profit = gross_profit, su_gross_loss = gross_loss,
          su_profit_factor = (if gross_loss < 0 then Some (gross_profit / \<bar>gross_loss\<bar>) else None),
          su_avg_trade = average (map dt_net_pnl ts), su_avg_holding_minutes = average (map dt_holding_minutes ts),
          su_total_cost = sum_list (map dt_total_cost ts),
          su_max_drawdown = \<bar>Min (set (map ep_drawdown equity))\<bar>,
          su_max_drawdown_pct = \<bar>Min (set (map ep_drawdown_pct equity))\<bar>,
          su_daily_sharpe = daily_sharpe sqrt_of capital ts \<rparr>)"

section \<open>A run\<close>

record backtest_result =
  br_trades :: "day_trade list"
  br_equity :: "equity_point list"
  br_summary :: backtest_summary

definition add_day :: "backtest_config \<Rightarrow> cost_config \<Rightarrow> entry_strategy \<Rightarrow> day_bar list \<Rightarrow> date \<Rightarrow> day_trade list \<times> rat
    \<Rightarrow> (day_trade list \<times> rat) res" where
  "add_day c cc st bars d acc =
     (case acc of (trades, realized) \<Rightarrow>
        res_then (run_day c cc st realized (filter (\<lambda>b. taipei_date (db_time b) = d) bars)) (\<lambda>day_trades.
          Inr (trades @ day_trades, realized + net_sum day_trades)))"

definition run_backtest :: "(rat \<Rightarrow> rat) \<Rightarrow> backtest_config \<Rightarrow> cost_config \<Rightarrow> entry_strategy \<Rightarrow> bar_frame \<Rightarrow> backtest_result res" where
  "run_backtest sqrt_of c cc st f =
     res_then (validate_bars f) (\<lambda>_.
     res_then (regular_session_bars (map complete_bar (bf_rows f))) (\<lambda>kept.
     let bars = sort_key db_time kept in
     if length (remdups (map db_symbol bars)) \<noteq> 1 then Inl (ValueError ''one symbol at a time'')
     else res_then (foldM (add_day c cc st bars) (days_of db_time bars) ([], 0)) (\<lambda>(trades, realized).
       let equity = build_equity_curve trades (bc_initial_capital c) (db_time (hd bars)) in
       Inr \<lparr> br_trades = trades, br_equity = equity,
             br_summary = calculate_summary sqrt_of trades equity (bc_initial_capital c) \<rparr>)))"

end
