(* ===== verification/Backtest_Safety.thy ===== *)
theory Backtest_Safety
  imports Backtest_Engine
begin

text \<open>
  What a backtest guarantees: its trades follow the configuration and never overlap, each long entry was
  paid for by the equity of its time, and the performance figures are those of the trades.
\<close>

section \<open>Specifications\<close>

text \<open>A trade of the configured size, entered before the forced exit and closed on the same day, whose
  profit is its price difference less its costs.\<close>

definition sound_trade :: "backtest_config \<Rightarrow> day_trade \<Rightarrow> bool" where
  "sound_trade c t \<longleftrightarrow>
     dt_quantity t = bc_quantity c
     \<and> dt_gross_pnl t = (case dt_direction t of LongWay \<Rightarrow> dt_exit_price t - dt_entry_price t
         | ShortWay \<Rightarrow> dt_entry_price t - dt_exit_price t) * of_int (bc_quantity c)
     \<and> dt_total_cost t = dt_commission t + dt_tax t \<and> dt_net_pnl t = dt_gross_pnl t - dt_total_cost t
     \<and> dt_entry_time t \<le> dt_exit_time t \<and> taipei_date (dt_entry_time t) = taipei_date (dt_exit_time t)
     \<and> taipei_clock (dt_entry_time t) < bc_force_exit_time c
     \<and> (dt_direction t = ShortWay \<longrightarrow> bc_allow_short c)"

definition payable :: "backtest_config \<Rightarrow> cost_config \<Rightarrow> rat \<Rightarrow> position_way \<Rightarrow> rat \<Rightarrow> bool" where
  "payable c cc before w p \<longleftrightarrow> (w = LongWay \<longrightarrow>
     oc_notional (order_cost_of cc p (bc_quantity c) DealBuy) + cost_total (order_cost_of cc p (bc_quantity c) DealBuy)
       \<le> bc_initial_capital c + before)"

text \<open>Each long entry costs at most the capital and the profit of the trades before it.\<close>

fun longs_funded :: "backtest_config \<Rightarrow> cost_config \<Rightarrow> rat \<Rightarrow> day_trade list \<Rightarrow> bool" where
  "longs_funded c cc before [] = True"
| "longs_funded c cc before (t # ts) =
     (payable c cc before (dt_direction t) (dt_entry_price t) \<and> longs_funded c cc (before + dt_net_pnl t) ts)"

definition apart :: "day_trade \<Rightarrow> day_trade \<Rightarrow> bool" where
  "apart a b \<longleftrightarrow> dt_exit_time a \<le> dt_entry_time b"

lemma net_sum_simps [simp]: "net_sum [] = 0" "net_sum (t # ts) = dt_net_pnl t + net_sum ts"
  "net_sum (ts @ us) = net_sum ts + net_sum us"
  by (simp_all add: net_sum_def)

lemma funded_append: "longs_funded c cc before (ts @ us) \<longleftrightarrow> longs_funded c cc before ts \<and> longs_funded c cc (before + net_sum ts) us"
  by (induction ts arbitrary: before) (auto simp: add.assoc)

lemma longs_funded_nth:
  "longs_funded c cc before ts \<Longrightarrow> i < length ts \<Longrightarrow>
   payable c cc (before + net_sum (take i ts)) (dt_direction (ts ! i)) (dt_entry_price (ts ! i))"
proof (induction ts arbitrary: before i)
  case (Cons t ts)
  show ?case
  proof (cases i)
    case (Suc n)
    then show ?thesis using Cons.IH [of "before + dt_net_pnl t" n] Cons.prems by (simp add: add.assoc)
  qed (use Cons.prems in simp)
qed simp

section \<open>One day\<close>

definition held_ok :: "backtest_config \<Rightarrow> cost_config \<Rightarrow> rat \<Rightarrow> date \<Rightarrow> instant \<Rightarrow> held_position \<Rightarrow> bool" where
  "held_ok c cc budget d now h \<longleftrightarrow>
     (hp_way h = ShortWay \<longrightarrow> bc_allow_short c) \<and> taipei_clock (hp_time h) < bc_force_exit_time c
     \<and> taipei_date (hp_time h) = d \<and> hp_time h \<le> now \<and> payable c cc budget (hp_way h) (hp_price h)"

definition day_inv :: "backtest_config \<Rightarrow> cost_config \<Rightarrow> rat \<Rightarrow> date \<Rightarrow> instant \<Rightarrow> day_state \<Rightarrow> bool" where
  "day_inv c cc realized d now s \<longleftrightarrow>
     longs_funded c cc realized (ds_trades s) \<and> sorted_wrt apart (ds_trades s)
     \<and> (\<forall>t \<in> set (ds_trades s). sound_trade c t \<and> taipei_date (dt_entry_time t) = d \<and> dt_exit_time t \<le> now)
     \<and> (case ds_held s of
          None \<Rightarrow> int (length (ds_trades s)) \<le> bc_max_trades_per_day c
        | Some h \<Rightarrow> int (length (ds_trades s)) < bc_max_trades_per_day c
            \<and> held_ok c cc (realized + net_sum (ds_trades s)) d now h
            \<and> (\<forall>t \<in> set (ds_trades s). dt_exit_time t \<le> hp_time h))
     \<and> ds_pending s \<in> {- 1, 0, 1}"

lemma day_inv_later: "day_inv c cc r d now s \<Longrightarrow> now \<le> now' \<Longrightarrow> day_inv c cc r d now' s"
  by (force simp: day_inv_def held_ok_def split: option.splits)

text \<open>Closing what is held, whatever the bar made of its excursions.\<close>

lemma close_trade_sound:
  assumes "close_trade c cc h b raw reason = Inr t" and "held_ok c cc budget d now h"
    and "now \<le> db_time b" and "taipei_date (db_time b) = d"
  shows "sound_trade c t \<and> taipei_date (dt_entry_time t) = d \<and> dt_exit_time t = db_time b
    \<and> dt_entry_time t = hp_time h \<and> payable c cc budget (dt_direction t) (dt_entry_price t)"
  using assms
  by (auto simp: close_trade_def Let_def sound_trade_def held_ok_def algebra_simps
      split: if_splits position_way.splits)

lemma leave_held_inv:
  assumes "day_inv c cc r d now s" and "ds_held s = Some h" and "close_trade c cc h' b raw reason = Inr t"
    and "hp_way h' = hp_way h" "hp_price h' = hp_price h" "hp_time h' = hp_time h"
    and "now \<le> db_time b" and "taipei_date (db_time b) = d"
  shows "day_inv c cc r d (db_time b) (leave_held t s)"
proof -
  have h: "held_ok c cc (r + net_sum (ds_trades s)) d now h"
    and spaced: "\<forall>t \<in> set (ds_trades s). dt_exit_time t \<le> hp_time h"
    and len: "int (length (ds_trades s)) < bc_max_trades_per_day c"
    using assms(1,2) by (simp_all add: day_inv_def)
  then have "held_ok c cc (r + net_sum (ds_trades s)) d now h'" using assms(4-6) by (simp add: held_ok_def)
  note t = close_trade_sound [OF assms(3) this assms(7,8)]
  have "\<forall>u \<in> set (ds_trades s). dt_exit_time u \<le> db_time b"
    using assms(1,7) by (auto simp: day_inv_def intro: order_trans)
  moreover have "taipei_date (hp_time h) = d" using h by (simp add: held_ok_def)
  ultimately show ?thesis using assms(1,6) t spaced len
    by (simp add: day_inv_def leave_held_def funded_append sorted_wrt_append apart_def)
qed

lemma strategy_exit_inv:
  assumes "strategy_exit c cc b s = Inr s'" and "day_inv c cc r d now s"
    and "now \<le> db_time b" and "taipei_date (db_time b) = d"
  shows "day_inv c cc r d (db_time b) s'"
proof (cases "ds_held s")
  case (Some h)
  show ?thesis
  proof (cases "ds_exit s")
    case True
    then obtain t where "close_trade c cc h b (db_open b) ''mean_reversion'' = Inr t" "s' = leave_held t s"
      using assms(1) Some by (auto simp: strategy_exit_def res_then_Inr)
    with leave_held_inv [OF assms(2) Some _ refl refl refl assms(3,4)] show ?thesis by simp
  qed (use assms Some in \<open>auto simp: strategy_exit_def intro: day_inv_later\<close>)
qed (use assms in \<open>auto simp: strategy_exit_def intro: day_inv_later\<close>)

lemma pending_entry_inv:
  assumes "day_inv c cc r d (db_time b) s" and "taipei_date (db_time b) = d"
  shows "day_inv c cc r d (db_time b) (pending_entry c cc r b s)"
  using assms
  by (auto simp: pending_entry_def Let_def day_inv_def held_ok_def held_from_def payable_def entry_deal_def algebra_simps)

lemma update_excursions_keeps [simp]:
  "hp_way (update_excursions b h) = hp_way h" "hp_price (update_excursions b h) = hp_price h"
  "hp_time (update_excursions b h) = hp_time h"
  by (simp_all add: update_excursions_def Let_def)

lemma guard_position_inv:
  assumes "guard_position c cc b s = Inr s'" and "day_inv c cc r d (db_time b) s" and "taipei_date (db_time b) = d"
  shows "day_inv c cc r d (db_time b) s'"
proof (cases "ds_held s")
  case (Some h)
  define h' where "h' = (if bc_force_exit_time c \<le> taipei_clock (db_time b) then h else update_excursions b h)"
  have h': "hp_way h' = hp_way h" "hp_price h' = hp_price h" "hp_time h' = hp_time h" by (simp_all add: h'_def)
  from assms(1) Some consider "s' = s\<lparr>ds_held := Some h'\<rparr>"
    | raw reason t where "close_trade c cc h' b raw reason = Inr t" "s' = leave_held t s"
    by (auto simp: guard_position_def Let_def h'_def res_then_Inr split: if_splits option.splits)
  then show ?thesis
  proof cases
    case 1
    then show ?thesis using assms(2) Some h' by (simp add: day_inv_def held_ok_def)
  next
    case 2
    then show ?thesis using leave_held_inv [OF assms(2) Some _ h' order_refl assms(3)] by simp
  qed
qed (use assms in \<open>simp add: guard_position_def\<close>)

lemma notes_inv:
  "day_inv c cc r d now s \<Longrightarrow> day_inv c cc r d now (signal_entry c st bars i b (signal_exit st bars i s))"
  by (cases "ds_held s") (auto simp: day_inv_def signal_entry_def signal_exit_def)

lemma day_step_inv:
  assumes "day_step c cc st r bars (i, b) s = Inr s'" and "day_inv c cc r d now s"
    and "now \<le> db_time b" and "taipei_date (db_time b) = d"
  shows "day_inv c cc r d (db_time b) s'"
proof -
  from assms(1) obtain s1 s2 where s: "strategy_exit c cc b s = Inr s1"
    "guard_position c cc b (pending_entry c cc r b s1) = Inr s2" "s' = signal_entry c st bars i b (signal_exit st bars i s2)"
    by (auto simp: day_step_def res_then_Inr)
  from strategy_exit_inv [OF s(1) assms(2-4)] have "day_inv c cc r d (db_time b) (pending_entry c cc r b s1)"
    by (rule pending_entry_inv) (rule assms(4))
  from guard_position_inv [OF s(2) this assms(4)] show ?thesis unfolding s(3) by (rule notes_inv)
qed

lemma day_fold_inv:
  "foldM (day_step c cc st r bars) xs s = Inr s' \<Longrightarrow> day_inv c cc r d now s \<Longrightarrow>
   sorted (map (\<lambda>x. db_time (snd x)) xs) \<Longrightarrow> \<forall>x \<in> set xs. taipei_date (db_time (snd x)) = d \<and> now \<le> db_time (snd x) \<Longrightarrow>
   day_inv c cc r d (if xs = [] then now else db_time (snd (last xs))) s'"
proof (induction xs arbitrary: s now)
  case (Cons x xs)
  obtain i b where x: "x = (i, b)" by fastforce
  from Cons.prems(1) obtain t where t: "day_step c cc st r bars x s = Inr t" "foldM (day_step c cc st r bars) xs t = Inr s'"
    by (auto split: sum.splits)
  have "day_inv c cc r d (db_time b) t" using day_step_inv [of c cc st r bars i b s t d now] t(1) Cons.prems x by simp
  from Cons.IH [OF t(2) this] Cons.prems x show ?case by (auto split: if_splits)
qed simp

lemma run_day_sound:
  assumes "run_day c cc st r bars = Inr ts" and "sorted (map db_time bars)"
    and "\<forall>b \<in> set bars. taipei_date (db_time b) = d" and "0 < bc_max_trades_per_day c"
  shows "longs_funded c cc r ts \<and> sorted_wrt apart ts \<and> int (length ts) \<le> bc_max_trades_per_day c
    \<and> (\<forall>t \<in> set ts. sound_trade c t \<and> taipei_date (dt_entry_time t) = d)"
proof -
  let ?xs = "zip [0..<length bars] bars"
  define now where "now = (if bars = [] then 0 else db_time (hd bars))"
  from assms(1) obtain s where s: "foldM (day_step c cc st r bars) ?xs new_day = Inr s"
    and ts: "(case ds_held s of None \<Rightarrow> Inr (ds_trades s)
        | Some h \<Rightarrow> res_then (close_trade c cc h (last bars) (db_close (last bars)) ''end_of_data'') (\<lambda>t. Inr (ds_trades s @ [t])))
       = Inr ts" by (auto simp: run_day_def day_loop_def res_then_Inr)
  have snd_xs: "map snd ?xs = bars" by simp
  have sorted_xs: "sorted (map (\<lambda>x. db_time (snd x)) ?xs)" 
  proof -
    have "map (\<lambda>x. db_time (snd x)) ?xs = map db_time (map snd ?xs)" unfolding map_map comp_def ..
    then show ?thesis using assms(2) snd_xs by simp
  qed
  have "\<forall>x \<in> set ?xs. snd x \<in> set bars" by (auto dest: set_zip_rightD)
  moreover have "\<forall>b \<in> set bars. now \<le> db_time b" using assms(2) by (cases bars) (auto simp: now_def)
  ultimately have all: "\<forall>x \<in> set ?xs. taipei_date (db_time (snd x)) = d \<and> now \<le> db_time (snd x)" using assms(3) by blast
  have "day_inv c cc r d now new_day" using assms(4) by (simp add: day_inv_def new_day_def)
  from day_fold_inv [OF s this sorted_xs all] have inv: "day_inv c cc r d (if ?xs = [] then now else db_time (snd (last ?xs))) s" .
  show ?thesis
  proof (cases "ds_held s")
    case (Some h)
    have "bars \<noteq> []" using s Some by (auto simp: new_day_def)
    then have "last bars \<in> set bars" "snd (last ?xs) = last bars" "?xs \<noteq> []"
      by (simp, metis last_map snd_xs map_is_Nil_conv, simp)
    moreover obtain t where t: "close_trade c cc h (last bars) (db_close (last bars)) ''end_of_data'' = Inr t" "ts = ds_trades s @ [t]"
      using ts Some by (auto simp: res_then_Inr)
    ultimately have "day_inv c cc r d (db_time (last bars)) (leave_held t s)"
      using leave_held_inv [OF inv Some t(1) refl refl refl] assms(3) by simp
    then show ?thesis using t(2) by (simp add: day_inv_def leave_held_def)
  qed (use inv ts in \<open>simp add: day_inv_def\<close>)
qed

section \<open>A run\<close>

lemma earlier_day: "taipei_date a < taipei_date b \<Longrightarrow> a \<le> b"
proof -
  assume "taipei_date a < taipei_date b"
  moreover have "b \<le> a \<Longrightarrow> taipei_date b \<le> taipei_date a" by (simp add: taipei_date_def seconds_def zdiv_mono1)
  ultimately show "a \<le> b" by fastforce
qed

definition run_inv :: "backtest_config \<Rightarrow> cost_config \<Rightarrow> day_trade list \<times> rat \<Rightarrow> bool" where
  "run_inv c cc acc \<longleftrightarrow> snd acc = net_sum (fst acc) \<and> longs_funded c cc 0 (fst acc) \<and> sorted_wrt apart (fst acc)
     \<and> (\<forall>t \<in> set (fst acc). sound_trade c t)
     \<and> (\<forall>d. int (length (filter (\<lambda>t. taipei_date (dt_entry_time t) = d) (fst acc))) \<le> bc_max_trades_per_day c)"

lemma add_day_inv:
  assumes "add_day c cc st bars d acc = Inr acc'" and "run_inv c cc acc"
    and "sorted (map db_time bars)" and "0 < bc_max_trades_per_day c"
    and "\<forall>t \<in> set (fst acc). taipei_date (dt_entry_time t) < d"
  shows "run_inv c cc acc' \<and> (\<forall>t \<in> set (fst acc'). taipei_date (dt_entry_time t) \<le> d)"
proof -
  let ?day = "filter (\<lambda>b. taipei_date (db_time b) = d) bars"
  from assms(1) obtain ts where ts: "run_day c cc st (snd acc) ?day = Inr ts"
    and acc': "acc' = (fst acc @ ts, snd acc + net_sum ts)"
    by (cases acc) (auto simp: add_day_def res_then_Inr)
  have "sorted (map db_time ?day)" using assms(3) by (rule sorted_filter)
  from run_day_sound [OF ts this _ assms(4), of d]
  have day: "longs_funded c cc (snd acc) ts" "sorted_wrt apart ts" "int (length ts) \<le> bc_max_trades_per_day c"
    "\<forall>t \<in> set ts. sound_trade c t \<and> taipei_date (dt_entry_time t) = d" by auto
  have "int (length (filter (\<lambda>t. taipei_date (dt_entry_time t) = e) (fst acc'))) \<le> bc_max_trades_per_day c" for e
  proof (cases "e = d")
    case True
    then have "filter (\<lambda>t. taipei_date (dt_entry_time t) = e) (fst acc) = []" "filter (\<lambda>t. taipei_date (dt_entry_time t) = e) ts = ts"
      using assms(5) day(4) by (auto simp: filter_empty_conv filter_id_conv)
    then show ?thesis using day(3) acc' by simp
  next
    case False
    then have "filter (\<lambda>t. taipei_date (dt_entry_time t) = e) ts = []" using day(4) by (auto simp: filter_empty_conv)
    then show ?thesis using assms(2) acc' by (simp add: run_inv_def)
  qed
  moreover have "apart t u" if "t \<in> set (fst acc)" "u \<in> set ts" for t u
  proof -
    have "taipei_date (dt_exit_time t) < taipei_date (dt_entry_time u)"
      using that assms(2,5) day(4) by (auto simp: run_inv_def sound_trade_def)
    then show ?thesis by (simp add: apart_def earlier_day)
  qed
  ultimately show ?thesis using assms(2,5) day acc'
    by (auto simp: run_inv_def funded_append sorted_wrt_append dest: order_less_imp_le)
qed

lemma run_days_inv:
  "foldM (add_day c cc st bars) ds acc = Inr acc' \<Longrightarrow> sorted_wrt (<) ds \<Longrightarrow> run_inv c cc acc \<Longrightarrow>
   sorted (map db_time bars) \<Longrightarrow> 0 < bc_max_trades_per_day c \<Longrightarrow>
   \<forall>t \<in> set (fst acc). \<forall>d \<in> set ds. taipei_date (dt_entry_time t) < d \<Longrightarrow> run_inv c cc acc'"
proof (induction ds arbitrary: acc)
  case (Cons d ds)
  from Cons.prems(1) obtain mid where mid: "add_day c cc st bars d acc = Inr mid" "foldM (add_day c cc st bars) ds mid = Inr acc'"
    by (auto split: sum.splits)
  from add_day_inv [OF mid(1) Cons.prems(3-5)] Cons.prems(6)
  have "run_inv c cc mid" "\<forall>t \<in> set (fst mid). taipei_date (dt_entry_time t) \<le> d" by simp_all
  with Cons.IH [OF mid(2)] Cons.prems(2,4,5) show ?case by (auto intro: le_less_trans)
qed simp

lemma run_backtest_Inr:
  assumes "run_backtest sqrt_of c cc st f = Inr r"
  shows "\<exists>bars x. sorted (map db_time bars)
    \<and> foldM (add_day c cc st bars) (days_of db_time bars) ([], 0) = Inr (br_trades r, x)
    \<and> br_equity r = build_equity_curve (br_trades r) (bc_initial_capital c) (db_time (hd bars))
    \<and> br_summary r = calculate_summary sqrt_of (br_trades r) (br_equity r) (bc_initial_capital c)"
proof -
  from assms obtain kept x where "foldM (add_day c cc st (sort_key db_time kept)) (days_of db_time (sort_key db_time kept)) ([], 0)
        = Inr (br_trades r, x)"
    "br_equity r = build_equity_curve (br_trades r) (bc_initial_capital c) (db_time (hd (sort_key db_time kept)))"
    "br_summary r = calculate_summary sqrt_of (br_trades r) (br_equity r) (bc_initial_capital c)"
    by (auto simp: run_backtest_def res_then_Inr Let_def split: if_splits)
  moreover have "sorted (map db_time (sort_key db_time kept))" by simp
  ultimately show ?thesis by blast
qed

lemma days_of_strict: "sorted_wrt (<) (days_of f xs)"
  by (simp add: days_of_def strict_sorted_iff)

lemma config_positive:
  "backtest_config_error c = Inr () \<Longrightarrow> 0 < bc_initial_capital c \<and> 0 < bc_quantity c \<and> 0 < bc_max_trades_per_day c"
  by (auto simp: backtest_config_error_def first_error_Inr)


text \<open>A pending short is opened whatever the equity is.\<close>

lemma short_opened_whatever_equity:
  assumes "ds_held s = None" "ds_pending s = - 1" "bc_allow_short c"
    and "taipei_clock (db_time b) < bc_force_exit_time c" "int (length (ds_trades s)) < bc_max_trades_per_day c"
  shows "\<exists>h. ds_held (pending_entry c cc realized b s) = Some h \<and> hp_way h = ShortWay
    \<and> hp_price h = cost_fill_price cc (db_open b) DealSell"
  using assms by (simp add: pending_entry_def Let_def held_from_def entry_deal_def)

section \<open>Performance\<close>

text \<open>The rows of the equity curve: the capital and the profit so far, the highest equity so far, and the
  fall from it.\<close>

lemma equity_rows_length [simp]: "length (equity_rows e p ts) = length ts"
  by (induction ts arbitrary: e p) (simp_all add: Let_def)

lemma equity_rows_nth:
  assumes "j < length ts"
  shows "ep_equity (equity_rows e p ts ! j) = e + net_sum (take (Suc j) ts)
    \<and> ep_drawdown (equity_rows e p ts ! j) = ep_equity (equity_rows e p ts ! j) - ep_peak (equity_rows e p ts ! j)
    \<and> p \<le> ep_peak (equity_rows e p ts ! j)
    \<and> (\<forall>i \<le> j. ep_equity (equity_rows e p ts ! i) \<le> ep_peak (equity_rows e p ts ! j))
    \<and> (ep_peak (equity_rows e p ts ! j) = p
       \<or> (\<exists>i \<le> j. ep_peak (equity_rows e p ts ! j) = ep_equity (equity_rows e p ts ! i)))"
  using assms
proof (induction ts arbitrary: e p j)
  case (Cons t ts)
  let ?e = "e + dt_net_pnl t" and ?p = "max p (e + dt_net_pnl t)"
  have rows: "equity_rows e p (t # ts) = equity_row (dt_exit_time t) ?e (dt_net_pnl t) ?p # equity_rows ?e ?p ts"
    by (simp add: Let_def)
  show ?case
  proof (cases j)
    case (Suc k)
    then have k: "k < length ts" using Cons.prems by simp
    note ih = Cons.IH [OF k, of ?e ?p]
    have all: "(\<forall>i \<le> Suc k. Q i) \<longleftrightarrow> Q 0 \<and> (\<forall>i \<le> k. Q (Suc i))" for Q :: "nat \<Rightarrow> bool"
      by (metis Suc_le_mono le0 old.nat.exhaust)
    have ex: "(\<exists>i \<le> Suc k. Q i) \<longleftrightarrow> Q 0 \<or> (\<exists>i \<le> k. Q (Suc i))" for Q :: "nat \<Rightarrow> bool"
      by (metis Suc_le_mono le0 old.nat.exhaust)
    from ih show ?thesis unfolding rows Suc all ex
      by (auto simp: equity_row_def max_def split: if_splits)
  next
    case 0
    show ?thesis unfolding rows 0 by (auto simp: equity_row_def max_def)
  qed
qed simp

lemma equity_curve_nth:
  fixes ts capital start
  defines "curve \<equiv> build_equity_curve ts capital start"
  assumes "j < length curve"
  shows "ep_equity (curve ! j) = capital + net_sum (take j ts)"
    and "ep_drawdown (curve ! j) = ep_equity (curve ! j) - ep_peak (curve ! j)"
    and "\<forall>i \<le> j. ep_equity (curve ! i) \<le> ep_peak (curve ! j)"
    and "\<exists>i \<le> j. ep_peak (curve ! j) = ep_equity (curve ! i)"
proof -
  have curve: "curve = equity_row start capital 0 capital # equity_rows capital capital ts"
    by (simp add: curve_def build_equity_curve_def)
  have "ep_equity (curve ! j) = capital + net_sum (take j ts)
    \<and> ep_drawdown (curve ! j) = ep_equity (curve ! j) - ep_peak (curve ! j)
    \<and> (\<forall>i \<le> j. ep_equity (curve ! i) \<le> ep_peak (curve ! j))
    \<and> (\<exists>i \<le> j. ep_peak (curve ! j) = ep_equity (curve ! i))"
  proof (cases j)
    case (Suc k)
    then have k: "k < length ts" using assms(2) by (simp add: curve)
    have all: "(\<forall>i \<le> Suc k. Q i) \<longleftrightarrow> Q 0 \<and> (\<forall>i \<le> k. Q (Suc i))" for Q :: "nat \<Rightarrow> bool"
      by (metis Suc_le_mono le0 old.nat.exhaust)
    have ex: "(\<exists>i \<le> Suc k. Q i) \<longleftrightarrow> Q 0 \<or> (\<exists>i \<le> k. Q (Suc i))" for Q :: "nat \<Rightarrow> bool"
      by (metis Suc_le_mono le0 old.nat.exhaust)
    from equity_rows_nth [OF k, of capital capital] show ?thesis unfolding curve Suc all ex
      by (auto simp: equity_row_def)
  qed (simp add: curve equity_row_def)
  then show "ep_equity (curve ! j) = capital + net_sum (take j ts)"
    "ep_drawdown (curve ! j) = ep_equity (curve ! j) - ep_peak (curve ! j)"
    "\<forall>i \<le> j. ep_equity (curve ! i) \<le> ep_peak (curve ! j)"
    "\<exists>i \<le> j. ep_peak (curve ! j) = ep_equity (curve ! i)" by blast+
qed

text \<open>The largest fall of a list of values from an earlier one.\<close>

definition largest_fall :: "rat list \<Rightarrow> rat \<Rightarrow> bool" where
  "largest_fall xs m \<longleftrightarrow> (\<forall>j < length xs. \<forall>i \<le> j. xs ! i - xs ! j \<le> m) \<and> (\<exists>j < length xs. \<exists>i \<le> j. m = xs ! i - xs ! j)"

lemma drawdown_is_largest_fall:
  fixes ts capital start
  defines "curve \<equiv> build_equity_curve ts capital start"
  shows "largest_fall (map ep_equity curve) \<bar>Min (set (map ep_drawdown curve))\<bar>"
proof -
  let ?m = "Min (set (map ep_drawdown curve))"
  have ne: "set (map ep_drawdown curve) \<noteq> {}" by (simp add: curve_def build_equity_curve_def)
  have draw: "ep_drawdown (curve ! j) = ep_equity (curve ! j) - ep_peak (curve ! j)"
    and peak: "\<forall>i \<le> j. ep_equity (curve ! i) \<le> ep_peak (curve ! j)"
    and reached: "\<exists>i \<le> j. ep_peak (curve ! j) = ep_equity (curve ! i)" if "j < length curve" for j
    using equity_curve_nth(2-4) [OF that [unfolded curve_def]] unfolding curve_def by blast+
  have min: "?m \<le> ep_drawdown (curve ! j)" if "j < length curve" for j using that by simp
  have "?m \<in> set (map ep_drawdown curve)" by (rule Min_in [OF _ ne]) simp
  then obtain k where k: "k < length curve" "?m = ep_drawdown (curve ! k)" by (metis in_set_conv_nth length_map nth_map)
  obtain i where i: "i \<le> k" "ep_peak (curve ! k) = ep_equity (curve ! i)" using reached [OF k(1)] by blast
  have m: "?m = ep_equity (curve ! k) - ep_equity (curve ! i)" using draw [OF k(1)] k(2) i(2) by linarith
  have "ep_equity (curve ! k) \<le> ep_peak (curve ! k)" using peak [OF k(1)] by blast
  then have abs: "\<bar>?m\<bar> = ep_equity (curve ! i) - ep_equity (curve ! k)" using m i(2) by linarith
  have fall: "ep_equity (curve ! l) - ep_equity (curve ! j) \<le> \<bar>?m\<bar>" if "j < length curve" "l \<le> j" for l j
  proof -
    have "ep_equity (curve ! l) \<le> ep_peak (curve ! j)" using peak [OF that(1)] that(2) by blast
    then show ?thesis using min [OF that(1)] draw [OF that(1)] by linarith
  qed
  have "\<bar>?m\<bar> = map ep_equity curve ! i - map ep_equity curve ! k" using k(1) i(1) abs by simp
  then have "\<exists>j < length (map ep_equity curve). \<exists>i \<le> j. \<bar>?m\<bar> = map ep_equity curve ! i - map ep_equity curve ! j"
    using k(1) i(1) by (intro exI [of _ k] conjI exI [of _ i]) simp_all
  moreover have "map ep_equity curve ! l - map ep_equity curve ! j \<le> \<bar>?m\<bar>" if "j < length (map ep_equity curve)" "l \<le> j" for l j
    using fall that by simp
  ultimately show ?thesis unfolding largest_fall_def by blast
qed

lemma build_equity_curve_equities:
  "map ep_equity (build_equity_curve ts capital start) = map (\<lambda>n. capital + net_sum (take n ts)) [0..<Suc (length ts)]"
proof (rule nth_equalityI)
  let ?c = "build_equity_curve ts capital start"
  have len: "length ?c = Suc (length ts)" by (simp add: build_equity_curve_def)
  then show "length (map ep_equity ?c) = length (map (\<lambda>n. capital + net_sum (take n ts)) [0..<Suc (length ts)])" by simp
  fix i
  assume "i < length (map ep_equity ?c)"
  then have i: "i < length ?c" by simp
  then have "i < Suc (length ts)" using len by simp
  then have "map (\<lambda>n. capital + net_sum (take n ts)) [0..<Suc (length ts)] ! i = capital + net_sum (take i ts)"
    by (simp del: upt_Suc)
  then show "map ep_equity ?c ! i = map (\<lambda>n. capital + net_sum (take n ts)) [0..<Suc (length ts)] ! i"
    using i by (simp only: nth_map equity_curve_nth(1))
qed

text \<open>C24. The figures of a backtest are those of its trades: the equity curve adds up their profits, the
  ending equity is the capital and the net profit, which is gross profit and gross loss, and the maximal
  drawdown is the largest fall of the equity from an earlier value.\<close>

theorem backtest_figures:
  assumes "run_backtest sqrt_of c cc st f = Inr r"
  shows "map ep_equity (br_equity r)
      = map (\<lambda>n. bc_initial_capital c + net_sum (take n (br_trades r))) [0..<Suc (length (br_trades r))]
    \<and> su_ending_equity (br_summary r) = bc_initial_capital c + net_sum (br_trades r)
    \<and> su_net_profit (br_summary r) = su_gross_profit (br_summary r) + su_gross_loss (br_summary r)
    \<and> su_ending_equity (br_summary r) = bc_initial_capital c + su_net_profit (br_summary r)
    \<and> largest_fall (map ep_equity (br_equity r)) (su_max_drawdown (br_summary r))"
proof -
  let ?ts = "br_trades r" and ?k = "bc_initial_capital c"
  from run_backtest_Inr [OF assms] obtain start where e: "br_equity r = build_equity_curve ?ts ?k start"
    and s: "br_summary r = calculate_summary sqrt_of ?ts (br_equity r) ?k" by metis
  have eq: "map ep_equity (br_equity r) = map (\<lambda>n. ?k + net_sum (take n ?ts)) [0..<Suc (length ?ts)]"
    unfolding e by (rule build_equity_curve_equities)
  have "br_equity r \<noteq> []" by (simp add: e build_equity_curve_def)
  then have "ep_equity (last (br_equity r)) = last (map ep_equity (br_equity r))" by (simp add: last_map)
  then have ending: "ep_equity (last (br_equity r)) = ?k + net_sum ?ts" unfolding eq by simp
  have split: "sum_list (filter (\<lambda>x. 0 < x) xs) + sum_list (filter (\<lambda>x. x < 0) xs) = sum_list xs" for xs :: "rat list"
    by (induction xs) (auto simp: algebra_simps not_less)
  have fall: "largest_fall (map ep_equity (br_equity r)) \<bar>Min (set (map ep_drawdown (br_equity r)))\<bar>"
    unfolding e by (rule drawdown_is_largest_fall)
  show ?thesis
  proof (cases "?ts = []")
    case True
    then have "br_equity r = [equity_row start ?k 0 ?k]" by (simp add: e build_equity_curve_def)
    then show ?thesis using eq True by (simp add: s calculate_summary_def largest_fall_def)
  next
    case False
    then show ?thesis using eq ending fall split [of "map dt_net_pnl ?ts"]
      by (simp add: s calculate_summary_def Let_def net_sum_def)
  qed
qed

section \<open>An instance\<close>

text \<open>Two days of 09:01, 09:02 and 13:20 Taipei time; a strategy that buys at the second bar of each day.\<close>

definition sample_frame_row :: "int \<Rightarrow> int \<Rightarrow> int \<Rightarrow> rat \<Rightarrow> frame_row" where
  "sample_frame_row d hh mm p = \<lparr> fr_time = Some (seconds ((d * 24 + hh - 8) * 3600 + mm * 60)), fr_symbol = Some ''2330'',
     fr_open = Some p, fr_high = Some (p + 1 / 10), fr_low = Some (p - 1 / 10), fr_close = Some p, fr_volume = Some 1 \<rparr>"

definition sample_frame :: bar_frame where
  "sample_frame = \<lparr> bf_columns = required_columns, bf_rows =
     [sample_frame_row 1 9 1 100, sample_frame_row 1 9 2 100, sample_frame_row 1 13 20 101,
      sample_frame_row 2 9 1 101, sample_frame_row 2 9 2 101, sample_frame_row 2 9 3 90, sample_frame_row 2 13 20 90] \<rparr>"

definition sample_buyer :: entry_strategy where
  "sample_buyer = \<lparr> es_entries = (\<lambda>_ i. if i = 0 then Some 1 else None), es_exits = None \<rparr>"

definition sample_run :: "backtest_result res" where
  "sample_run = run_backtest (\<lambda>x. x) default_backtest_config default_cost_config sample_buyer sample_frame"

definition run_view :: "backtest_result res \<Rightarrow> ((position_way \<times> string) list \<times> bool) option" where
  "run_view q = (case q of Inl _ \<Rightarrow> None
     | Inr r \<Rightarrow> Some (map (\<lambda>t. (dt_direction t, dt_exit_reason t)) (br_trades r), 0 < su_max_drawdown (br_summary r)))"

lemma sample_run_viewed: "run_view sample_run = Some ([(LongWay, ''force_exit''), (LongWay, ''stop_loss'')], True)"
  by code_simp

lemma sample_run_Inr: "\<exists>r. sample_run = Inr r \<and> map (\<lambda>t. (dt_direction t, dt_exit_reason t)) (br_trades r) = [(LongWay, ''force_exit''), (LongWay, ''stop_loss'')]
    \<and> 0 < su_max_drawdown (br_summary r)"
  using sample_run_viewed unfolding run_view_def by (auto split: sum.splits)


lemma backtest_figures_witness:
  "\<exists>r. sample_run = Inr r \<and> 0 < su_max_drawdown (br_summary r) \<and> largest_fall (map ep_equity (br_equity r)) (su_max_drawdown (br_summary r))"
proof -
  obtain r :: backtest_result where r: "sample_run = Inr r" "0 < su_max_drawdown (br_summary r)" using sample_run_Inr by metis
  then show ?thesis using backtest_figures [OF r(1) [unfolded sample_run_def]] by blast
qed

end
