(* ===== verification/Paper_Store.thy ===== *)
theory Paper_Store
  imports Account_Risk "HOL-Library.Product_Lexorder"
begin

text \<open>
  The paper account's event store (\<open>paper/repository.py\<close>): the append-only events, the request keys, the
  operator controls, and the query projections that are kept in step with the events.

  A payload is the event it encodes, or a text that is no JSON object.  The texts of times stand for the
  times; \<open>isoformat(timespec="milliseconds")\<close> is the time cut to the millisecond.  Tables without deleted
  rows number their rows from 1, so the next \<open>AUTOINCREMENT\<close> value is one more than their length.  The
  timings that \<open>_record_write\<close> collects are not kept, its count of writes is.
\<close>

section \<open>Rows\<close>

datatype stored_payload = Stored domain_event | NotObject

record paper_event_row =
  pr_seq :: nat
  pr_event_id :: string
  pr_owner :: string
  pr_kind :: string
  pr_occurred :: instant
  pr_payload :: stored_payload
  pr_recorded :: instant

record key_row =
  kr_owner :: string
  kr_key :: string
  kr_order :: string

datatype control_action = KillActivated | KillReset | OtherControl string

record control_row =
  cr_seq :: nat
  cr_owner :: string
  cr_action :: control_action
  cr_reason :: string
  cr_occurred :: instant
  cr_recorded :: instant

text \<open>The JSON snapshot of an order.\<close>

record order_view =
  ov_order_id :: string
  ov_client :: "string option"
  ov_submitted :: instant
  ov_strategy :: string
  ov_version :: int
  ov_symbol :: string
  ov_contract :: string
  ov_side :: order_side
  ov_quantity :: int
  ov_reduce_only :: bool
  ov_reference_price :: price
  ov_stop_loss_price :: "price option"
  ov_stop_loss_pct :: "rat option"
  ov_take_profit_pct :: "rat option"
  ov_snapshot :: strategy_snapshot
  ov_status :: sim_status
  ov_lifecycle :: broker_order_status
  ov_reason :: string
  ov_approved :: int
  ov_fill_id :: "string option"
  ov_timing :: execution_timing
  ov_source :: order_source
  ov_runtime :: "string option"
  ov_decision :: "string option"

record order_view_row =
  vr_owner :: string
  vr_order :: string
  vr_client :: "string option"
  vr_seq :: nat
  vr_view :: order_view

record fill_view_row =
  fv_owner :: string
  fv_fill :: string
  fv_order :: string
  fv_seq :: nat
  fv_payload :: fill_event

record position_view =
  pv_owner :: string
  pv_event :: position_event
  pv_opened :: "instant option"

record position_view_row =
  pw_key :: pos_key
  pw_seq :: nat
  pw_quantity :: int
  pw_view :: position_view

record paper_store =
  pst_events :: "paper_event_row list"
  pst_keys :: "key_row list"
  pst_controls :: "control_row list"
  pst_order_views :: "order_view_row list"
  pst_fill_views :: "fill_view_row list"
  pst_position_views :: "position_view_row list"
  pst_last_sequence :: nat
  pst_writes :: nat

definition empty_paper_store :: paper_store where
  "empty_paper_store = \<lparr> pst_events = [], pst_keys = [], pst_controls = [], pst_order_views = [], pst_fill_views = [],
     pst_position_views = [], pst_last_sequence = 0, pst_writes = 0 \<rparr>"

section \<open>Projections\<close>

definition to_millis :: "instant \<Rightarrow> instant" where
  "to_millis t = t - t mod 1000"

definition paper_lifecycle :: "sim_status \<Rightarrow> broker_order_status" where
  "paper_lifecycle s = (case canonical_paper_status (sim_status_value s) of Inr x \<Rightarrow> x | Inl _ \<Rightarrow> CREATED)"

definition submitted_view :: "order_intent \<Rightarrow> order_view" where
  "submitted_view o' = \<lparr> ov_order_id = oi_order_id o', ov_client = oi_client_order_id o',
     ov_submitted = to_millis (em_at (oi_meta o')), ov_strategy = oi_strategy o', ov_version = oi_version o',
     ov_symbol = oi_symbol o', ov_contract = oi_contract o', ov_side = oi_side o', ov_quantity = oi_quantity o',
     ov_reduce_only = oi_reduce_only o', ov_reference_price = oi_reference_price o',
     ov_stop_loss_price = oi_stop_loss_price o', ov_stop_loss_pct = oi_stop_loss_pct o',
     ov_take_profit_pct = oi_take_profit_pct o', ov_snapshot = oi_snapshot o', ov_status = PendingRisk,
     ov_lifecycle = paper_lifecycle PendingRisk, ov_reason = ''awaiting_risk'', ov_approved = 0, ov_fill_id = None,
     ov_timing = oi_timing o', ov_source = oi_source o', ov_runtime = oi_runtime o', ov_decision = oi_decision o' \<rparr>"

definition view_status :: "sim_status \<Rightarrow> string \<Rightarrow> order_view \<Rightarrow> order_view" where
  "view_status st reason v = v\<lparr>ov_status := st, ov_lifecycle := paper_lifecycle st, ov_reason := reason\<rparr>"

text \<open>\<open>INSERT \<dots> ON CONFLICT \<dots> DO UPDATE\<close>: the row with the key is rewritten, or a new one appended.\<close>

definition upsert :: "('r \<Rightarrow> bool) \<Rightarrow> ('r \<Rightarrow> 'r) \<Rightarrow> 'r \<Rightarrow> 'r list \<Rightarrow> 'r list" where
  "upsert p f r rs = (if \<exists>x \<in> set rs. p x then tbl_update p f rs else rs @ [r])"

definition is_order_row :: "string \<Rightarrow> string \<Rightarrow> order_view_row \<Rightarrow> bool" where
  "is_order_row owner i r \<longleftrightarrow> vr_owner r = owner \<and> vr_order r = i"

definition store_order :: "string \<Rightarrow> string \<Rightarrow> paper_store \<Rightarrow> order_view option" where
  "store_order owner i s = map_option vr_view (List.find (is_order_row owner i) (pst_order_views s))"

definition update_order_view :: "string \<Rightarrow> string \<Rightarrow> nat \<Rightarrow> order_view \<Rightarrow> paper_store \<Rightarrow> paper_store" where
  "update_order_view owner i n v s =
     s\<lparr>pst_order_views := tbl_update (is_order_row owner i) (\<lambda>r. r\<lparr>vr_seq := n, vr_view := v\<rparr>) (pst_order_views s)\<rparr>"

text \<open>Read, change and write back the snapshot of an order, when there is one.\<close>

definition change_order_view :: "string \<Rightarrow> string \<Rightarrow> nat \<Rightarrow> (order_view \<Rightarrow> order_view) \<Rightarrow> paper_store \<Rightarrow> paper_store" where
  "change_order_view owner i n f s =
     (case store_order owner i s of None \<Rightarrow> s | Some v \<Rightarrow> update_order_view owner i n (f v) s)"

definition project_intent :: "nat \<Rightarrow> string \<Rightarrow> order_intent \<Rightarrow> paper_store \<Rightarrow> paper_store" where
  "project_intent n owner o' s = s\<lparr>pst_order_views := upsert (is_order_row owner (oi_order_id o'))
     (\<lambda>r. r\<lparr>vr_client := oi_client_order_id o', vr_seq := n, vr_view := submitted_view o'\<rparr>)
     \<lparr> vr_owner = owner, vr_order = oi_order_id o', vr_client = oi_client_order_id o', vr_seq = n,
       vr_view = submitted_view o' \<rparr> (pst_order_views s)\<rparr>"

definition project_fill :: "nat \<Rightarrow> string \<Rightarrow> fill_event \<Rightarrow> paper_store \<Rightarrow> paper_store" where
  "project_fill n owner f s =
     change_order_view owner (fe_order_id f) n
       (\<lambda>v. (view_status SimFilled ''simulated_fill'' v)\<lparr>ov_fill_id := Some (fe_fill_id f)\<rparr>)
       (s\<lparr>pst_fill_views := upsert (\<lambda>r. fv_owner r = owner \<and> fv_fill r = fe_fill_id f)
          (\<lambda>r. r\<lparr>fv_order := fe_order_id f, fv_seq := n, fv_payload := f\<rparr>)
          \<lparr> fv_owner = owner, fv_fill = fe_fill_id f, fv_order = fe_order_id f, fv_seq = n, fv_payload = f \<rparr>
          (pst_fill_views s)\<rparr>)"

definition position_row_key :: "string \<Rightarrow> position_event \<Rightarrow> pos_key" where
  "position_row_key owner p = \<lparr> pk_owner = owner, pk_strategy = pe_strategy p, pk_version = pe_version p,
     pk_symbol = pe_symbol p, pk_contract = pe_contract p \<rparr>"

definition opened_at :: "position_view option \<Rightarrow> position_event \<Rightarrow> instant option" where
  "opened_at previous p =
     (let old = (case previous of None \<Rightarrow> 0 | Some v \<Rightarrow> pe_quantity (pv_event v)) in
      if pe_quantity p \<noteq> 0 \<and> old \<noteq> 0 \<and> (0 < pe_quantity p \<longleftrightarrow> 0 < old)
      then (case previous of None \<Rightarrow> None | Some v \<Rightarrow> pv_opened v)
      else if pe_quantity p \<noteq> 0 then Some (to_millis (em_at (pe_meta p))) else None)"

definition project_position :: "nat \<Rightarrow> string \<Rightarrow> position_event \<Rightarrow> paper_store \<Rightarrow> paper_store" where
  "project_position n owner p s =
     (let k = position_row_key owner p;
          previous = map_option pw_view (List.find (\<lambda>r. pw_key r = k) (pst_position_views s));
          v = \<lparr> pv_owner = owner, pv_event = p, pv_opened = opened_at previous p \<rparr> in
      s\<lparr>pst_position_views := upsert (\<lambda>r. pw_key r = k)
          (\<lambda>r. r\<lparr>pw_seq := n, pw_quantity := pe_quantity p, pw_view := v\<rparr>)
          \<lparr> pw_key = k, pw_seq = n, pw_quantity = pe_quantity p, pw_view = v \<rparr> (pst_position_views s)\<rparr>)"

definition project_event :: "nat \<Rightarrow> string \<Rightarrow> domain_event \<Rightarrow> paper_store \<Rightarrow> paper_store" where
  "project_event n owner e s =
     (case e of
        EvOrder o' \<Rightarrow> project_intent n owner o' s
      | EvRisk d \<Rightarrow> change_order_view owner (rd_order_id d) n
          (\<lambda>v. (view_status (if rd_approved d then SimApproved else SimRejected) (rd_reason d) v)
             \<lparr>ov_approved := rd_approved_quantity d\<rparr>) s
      | EvStatus st \<Rightarrow> change_order_view owner (os_order_id st) n (view_status SimRejected (os_reason st)) s
      | EvFill f \<Rightarrow> project_fill n owner f s
      | EvPosition p \<Rightarrow> project_position n owner p s
      | _ \<Rightarrow> s)"

text \<open>A payload that cannot be read is passed over.\<close>

definition project_row :: "paper_event_row \<Rightarrow> paper_store \<Rightarrow> paper_store" where
  "project_row r s =
     (case pr_payload r of Stored e \<Rightarrow> project_event (pr_seq r) (pr_owner r) e s | NotObject \<Rightarrow> s)"

definition sync_read_models :: "paper_store \<Rightarrow> paper_store" where
  "sync_read_models s =
     (let rows = filter (\<lambda>r. pst_last_sequence s < pr_seq r) (pst_events s) in
      (fold project_row rows s)\<lparr>pst_last_sequence := (if rows = [] then pst_last_sequence s else pr_seq (last rows))\<rparr>)"

section \<open>Writes\<close>

definition is_key_row :: "string \<Rightarrow> string \<Rightarrow> key_row \<Rightarrow> bool" where
  "is_key_row owner k r \<longleftrightarrow> kr_owner r = owner \<and> kr_key r = k"

definition order_for_key :: "string \<Rightarrow> string \<Rightarrow> paper_store \<Rightarrow> string option" where
  "order_for_key owner k s = map_option kr_order (List.find (is_key_row owner k) (pst_keys s))"

definition record_write :: "paper_store \<Rightarrow> paper_store" where
  "record_write s = s\<lparr>pst_writes := pst_writes s + 1\<rparr>"

definition reserve_key :: "string \<Rightarrow> string \<Rightarrow> string \<Rightarrow> paper_store \<Rightarrow> string \<times> paper_store" where
  "reserve_key owner k i s =
     (let s1 = (if \<exists>r \<in> set (pst_keys s). is_key_row owner k r then s
                else s\<lparr>pst_keys := pst_keys s @ [\<lparr> kr_owner = owner, kr_key = k, kr_order = i \<rparr>]\<rparr>) in
      (the (order_for_key owner k s1), record_write s1))"

text \<open>\<open>INSERT OR IGNORE\<close> on the unique event identifier.\<close>

definition insert_event :: "domain_event \<times> instant \<Rightarrow> paper_store \<Rightarrow> paper_store" where
  "insert_event x s =
     (let e = fst x in
      if \<exists>r \<in> set (pst_events s). pr_event_id r = event_id_of e then s
      else s\<lparr>pst_events := pst_events s @ [\<lparr> pr_seq = Suc (length (pst_events s)), pr_event_id = event_id_of e,
             pr_owner = the (em_owner (event_meta_of e)), pr_kind = kind_value (event_kind_of e),
             pr_occurred = event_at e, pr_payload = Stored e, pr_recorded = snd x \<rparr>]\<rparr>)"

definition owned_event :: "domain_event \<Rightarrow> bool" where
  "owned_event e \<longleftrightarrow> truthy (em_owner (event_meta_of e))"

text \<open>The second component of an event is the reading of the clock its row records.\<close>

definition append_events :: "(domain_event \<times> instant) list \<Rightarrow> paper_store \<Rightarrow> paper_store" where
  "append_events es s =
     (let rows = filter (\<lambda>x. owned_event (fst x)) es in
      if rows = [] then s else record_write (sync_read_models (fold insert_event rows s)))"

definition append_control :: "string \<Rightarrow> control_action \<Rightarrow> string \<Rightarrow> instant \<Rightarrow> instant \<Rightarrow> paper_store \<Rightarrow> paper_store" where
  "append_control owner action reason occurred now s =
     record_write (s\<lparr>pst_controls := pst_controls s @ [\<lparr> cr_seq = Suc (length (pst_controls s)), cr_owner = owner,
       cr_action = action, cr_reason = reason, cr_occurred = occurred, cr_recorded = now \<rparr>]\<rparr>)"

text \<open>Opening the file: the tables exist or are created, and the projections catch up.\<close>

definition open_paper_store :: "paper_store \<Rightarrow> paper_store" where
  "open_paper_store s = (sync_read_models s)\<lparr>pst_writes := 0\<rparr>"

section \<open>Queries\<close>

definition newest_first :: "('r \<Rightarrow> nat) \<Rightarrow> 'r list \<Rightarrow> 'r list" where
  "newest_first k rs = rev (sort_key k (rev rs))"

definition store_events :: "string \<Rightarrow> nat \<Rightarrow> paper_store \<Rightarrow> (nat \<times> stored_payload) list" where
  "store_events owner n s = map (\<lambda>r. (pr_seq r, pr_payload r))
     (take n (newest_first pr_seq (filter (\<lambda>r. pr_owner r = owner) (pst_events s))))"

datatype recovery_record = EventRecord paper_event_row | ControlRecord control_row

definition recovery_key :: "recovery_record \<Rightarrow> instant \<times> nat \<times> nat" where
  "recovery_key r = (case r of ControlRecord c \<Rightarrow> (cr_recorded c, 0, cr_seq c) | EventRecord e \<Rightarrow> (pr_recorded e, 1, pr_seq e))"

text \<open>\<open>ORDER BY recorded_at, record_type, sequence\<close>: \<open>'control'\<close> is before \<open>'event'\<close>.\<close>

definition recovery_records :: "paper_store \<Rightarrow> recovery_record list" where
  "recovery_records s = sort_key recovery_key (map EventRecord (pst_events s) @ map ControlRecord (pst_controls s))"

definition dangling_idempotency :: "paper_store \<Rightarrow> key_row list" where
  "dangling_idempotency s = filter (\<lambda>k. \<not> (\<exists>r \<in> set (pst_events s). pr_owner r = kr_owner k \<and> pr_event_id r = kr_order k
     \<and> pr_kind r = ''order_intent'')) (pst_keys s)"

definition order_for_client_id :: "string \<Rightarrow> string \<Rightarrow> paper_store \<Rightarrow> order_view option" where
  "order_for_client_id owner c s =
     map_option vr_view (List.find (\<lambda>r. vr_owner r = owner \<and> vr_client r = Some c) (pst_order_views s))"

definition store_orders :: "string \<Rightarrow> paper_store \<Rightarrow> order_view list" where
  "store_orders owner s = map vr_view (newest_first vr_seq (filter (\<lambda>r. vr_owner r = owner) (pst_order_views s)))"

definition strategy_auto_orders :: "paper_store \<Rightarrow> (string \<times> order_view) list" where
  "strategy_auto_orders s = map (\<lambda>r. (vr_owner r, vr_view r))
     (sort_key vr_seq (filter (\<lambda>r. ov_source (vr_view r) = StrategyAuto) (pst_order_views s)))"

definition store_fill :: "string \<Rightarrow> string \<Rightarrow> paper_store \<Rightarrow> fill_event option" where
  "store_fill owner i s = map_option fv_payload (List.find (\<lambda>r. fv_owner r = owner \<and> fv_fill r = i) (pst_fill_views s))"

definition store_fills :: "string \<Rightarrow> nat \<Rightarrow> paper_store \<Rightarrow> fill_event list" where
  "store_fills owner n s = map fv_payload (take n (newest_first fv_seq (filter (\<lambda>r. fv_owner r = owner) (pst_fill_views s))))"

definition store_positions :: "string \<Rightarrow> paper_store \<Rightarrow> position_view list" where
  "store_positions owner s = filter (\<lambda>v. pe_quantity (pv_event v) \<noteq> 0)
     (map pw_view (newest_first pw_seq (filter (\<lambda>r. pk_owner (pw_key r) = owner) (pst_position_views s))))"

definition strategy_auto_positions :: "paper_store \<Rightarrow> (string \<times> position_view) list" where
  "strategy_auto_positions s = map (\<lambda>r. (pk_owner (pw_key r), pw_view r))
     (sort_key pw_seq (filter (\<lambda>r. pw_quantity r \<noteq> 0 \<and> pe_source (pv_event (pw_view r)) = StrategyAuto) (pst_position_views s)))"

definition store_controls :: "string \<Rightarrow> nat \<Rightarrow> paper_store \<Rightarrow> control_row list" where
  "store_controls owner n s = take n (newest_first cr_seq (filter (\<lambda>r. cr_owner r = owner) (pst_controls s)))"

record paper_stats =
  sts_events :: nat
  sts_owners :: nat
  sts_controls :: nat
  sts_orders :: nat
  sts_fills :: nat
  sts_open_positions :: nat
  sts_gap_rejected :: nat
  sts_last_auto :: "instant option"
  sts_writes :: nat

definition paper_stats_of :: "paper_store \<Rightarrow> paper_stats" where
  "paper_stats_of s =
     (let auto = filter (\<lambda>r. ov_source (vr_view r) = StrategyAuto) (pst_order_views s) in
      \<lparr> sts_events = length (pst_events s), sts_owners = length (remdups (map pr_owner (pst_events s))),
        sts_controls = length (pst_controls s), sts_orders = length (pst_order_views s), sts_fills = length (pst_fill_views s),
        sts_open_positions = length (filter (\<lambda>r. pw_quantity r \<noteq> 0) (pst_position_views s)),
        sts_gap_rejected = length (filter (\<lambda>r. ov_reason (vr_view r) = ''gap_risk_exceeded'') auto),
        sts_last_auto = (if auto = [] then None else Some (Max (set (map (\<lambda>r. ov_submitted (vr_view r)) auto)))),
        sts_writes = pst_writes s \<rparr>)"

end
