(* ===== verification/Paper_Service.thy ===== *)
theory Paper_Service
  imports Paper_Store Market_Bars
begin

text \<open>
  The paper trading service (\<open>paper/service.py\<close>): orders with request keys, closed bars, kill switches,
  and the recovery of the account from its recorded events when the service starts.

  The service owns an event engine with the execution pipeline behind the account gate, and the event
  store.  The clock readings of one call are one instant \<open>now\<close>; the durations it measures are not kept.
  The guard that \<open>set_auto_entry_guard\<close> installs is an argument of the installation, and \<open>iso_of\<close> is the
  text of a bar's time.
\<close>

section \<open>Commands\<close>

record paper_command =
  po_strategy :: string
  po_version :: int
  po_side :: order_side
  po_quantity :: int
  po_stop_loss_price :: "price option"
  po_reduce_only :: bool
  po_reason :: string
  po_timing :: execution_timing
  po_source :: order_source
  po_runtime :: "string option"
  po_decision :: "string option"
  po_reference_price :: "price option"
  po_stop_loss_pct :: "rat option"
  po_take_profit_pct :: "rat option"
  po_snapshot :: strategy_snapshot
  po_correlation :: "string option"
  po_causation :: "string option"

definition check_command :: "paper_command \<Rightarrow> paper_command res" where
  "check_command c = first_error
     [(po_strategy c = [], ValueError ''strategy_id is required''),
      (po_version c < 1 \<or> po_quantity c < 1, ValueError ''strategy_version and quantity must be positive''),
      (po_source c = StrategyAuto \<and> \<not> (truthy (po_runtime c) \<and> truthy (po_decision c)),
         ValueError ''strategy_auto orders require runtime_id and decision_id''),
      (po_timing c = BarTrigger \<and> \<not> (po_source c = StrategyAuto \<and> po_reduce_only c),
         ValueError ''bar_trigger execution is reserved for strategy_auto reduce-only orders'')] c"

section \<open>The engine\<close>

type_synonym paper_engine = "account_gate exec_world engine"

definition entry_prefill_risk :: "hashing \<Rightarrow> (order_intent \<Rightarrow> string option) \<Rightarrow> ledger \<Rightarrow> account_gate prefill" where
  "entry_prefill_risk h guard l o' = recheck_before_fill h l (guard o') o'"

definition paper_exec_config :: "hashing \<Rightarrow> exec_config" where
  "paper_exec_config h = \<lparr> xc_hashing = h, xc_default_quantity = 1, xc_timing = CurrentClose \<rparr>"

definition install_paper :: "hashing \<Rightarrow> (order_intent \<Rightarrow> string option) \<Rightarrow> paper_engine \<Rightarrow> paper_engine" where
  "install_paper h guard = install_pipeline (paper_exec_config h) (account_gate_ops h) (Some (entry_prefill_risk h guard))"

definition new_paper_world :: "hashing \<Rightarrow> account_gate exec_world res" where
  "new_paper_world h = new_exec_world default_futures_costs (paper_exec_config h) False
     (new_account_gate default_account_limits default_futures_costs [])"

section \<open>Reading events back\<close>

definition falsy_none :: "string option \<Rightarrow> string option" where
  "falsy_none x = (if truthy x then x else None)"

definition restore_meta :: "event_meta \<Rightarrow> event_meta res" where
  "restore_meta m = check_meta (m\<lparr>em_correlation := falsy_none (em_correlation m),
     em_causation := falsy_none (em_causation m), em_owner := falsy_none (em_owner m)\<rparr>)"

definition restore_fill :: "fill_event \<Rightarrow> fill_event res" where
  "restore_fill f = res_then (restore_meta (fe_meta f)) (\<lambda>m.
     check_fill (f\<lparr>fe_meta := m, fe_runtime := falsy_none (fe_runtime f), fe_decision := falsy_none (fe_decision f)\<rparr>))"

definition restore_order :: "order_intent \<Rightarrow> order_intent res" where
  "restore_order o' = res_then (restore_meta (oi_meta o')) (\<lambda>m.
     check_order (o'\<lparr>oi_meta := m, oi_client_order_id := falsy_none (oi_client_order_id o'),
       oi_runtime := falsy_none (oi_runtime o'), oi_decision := falsy_none (oi_decision o')\<rparr>))"

section \<open>Recovery\<close>

record recovery_progress =
  rv_world :: "account_gate exec_world"
  rv_intents :: "(string \<times> (string \<times> order_intent) list) list"
  rv_decisions :: "((string \<times> string) \<times> risk_decision) list"
  rv_fills :: "(string \<times> string) list"
  rv_terminal :: "(string \<times> string) list"
  rv_positions :: "(pos_key \<times> position_event) list"
  rv_issues :: "(string \<times> string list) list"
  rv_restored_fills :: nat

definition start_recovery :: "account_gate exec_world \<Rightarrow> recovery_progress" where
  "start_recovery w = \<lparr> rv_world = w, rv_intents = [], rv_decisions = [], rv_fills = [], rv_terminal = [],
     rv_positions = [], rv_issues = [], rv_restored_fills = 0 \<rparr>"

definition issues_of :: "string \<Rightarrow> recovery_progress \<Rightarrow> string list" where
  "issues_of owner p = (case map_of (rv_issues p) owner of None \<Rightarrow> [] | Some cs \<Rightarrow> cs)"

definition note_issue :: "string \<Rightarrow> string \<Rightarrow> recovery_progress \<Rightarrow> recovery_progress" where
  "note_issue owner code p = p\<lparr>rv_issues := dict_put owner
     (if code \<in> set (issues_of owner p) then issues_of owner p else issues_of owner p @ [code]) (rv_issues p)\<rparr>"

definition intents_of :: "string \<Rightarrow> recovery_progress \<Rightarrow> (string \<times> order_intent) list" where
  "intents_of owner p = (case map_of (rv_intents p) owner of None \<Rightarrow> [] | Some os \<Rightarrow> os)"

definition has_intent :: "string \<Rightarrow> string \<Rightarrow> recovery_progress \<Rightarrow> bool" where
  "has_intent owner i p \<longleftrightarrow> i \<in> fst ` set (intents_of owner p)"

definition put_ledger :: "ledger \<Rightarrow> recovery_progress \<Rightarrow> recovery_progress" where
  "put_ledger l p = p\<lparr>rv_world := (rv_world p)\<lparr>xw_ledger := l\<rparr>\<rparr>"

definition put_gate :: "account_gate \<Rightarrow> recovery_progress \<Rightarrow> recovery_progress" where
  "put_gate g p = p\<lparr>rv_world := (rv_world p)\<lparr>xw_gate := g\<rparr>\<rparr>"

definition put_broker :: "sim_broker \<Rightarrow> recovery_progress \<Rightarrow> recovery_progress" where
  "put_broker b p = p\<lparr>rv_world := (rv_world p)\<lparr>xw_broker := b\<rparr>\<rparr>"

definition recover_control :: "control_row \<Rightarrow> recovery_progress \<Rightarrow> recovery_progress" where
  "recover_control c p =
     (let owner = cr_owner c; g = xw_gate (rv_world p);
          outcome = (\<lambda>x. case x of (Inl _, g') \<Rightarrow> note_issue owner ''invalid_control_record'' (put_gate g' p)
             | (Inr (), g') \<Rightarrow> put_gate g' p) in
      (case cr_action c of
         KillActivated \<Rightarrow> outcome (activate_kill_switch owner (cr_reason c) (cr_occurred c) True g)
       | KillReset \<Rightarrow> outcome (reset_kill_switch owner (cr_reason c) (cr_occurred c) g)
       | OtherControl _ \<Rightarrow> note_issue owner ''unknown_control_action'' p))"

text \<open>A fill that is read back is booked, and only then shown to the gate.  A fill booked before leaves
  both alone (\<open>on_fill\<close> returns \<open>None\<close>), and counts as the fill of its order.\<close>

definition book_fill :: "hashing \<Rightarrow> string \<Rightarrow> fill_event \<Rightarrow> recovery_progress \<Rightarrow> recovery_progress" where
  "book_fill h owner f p =
     (let count_fill = (\<lambda>q. q\<lparr>rv_fills := (owner, fe_order_id f) # rv_fills q\<rparr>) in
      case ledger_on_fill h (EvFill f) (xw_ledger (rv_world p)) of
        (Inl _, l) \<Rightarrow> note_issue owner ''invalid_fill_event'' (put_ledger l p)
      | (Inr [], l) \<Rightarrow> count_fill (put_ledger l p)
      | (Inr (e # es), l) \<Rightarrow>
          (case account_on_fill l (EvFill f) (xw_gate (rv_world p)) of
             (Inl _, g) \<Rightarrow> note_issue owner ''invalid_fill_event'' (put_gate g (put_ledger l p))
           | (Inr _, g) \<Rightarrow> count_fill ((put_gate g (put_ledger l p))\<lparr>rv_restored_fills := rv_restored_fills p + 1\<rparr>)))"

definition recover_fill :: "hashing \<Rightarrow> string \<Rightarrow> fill_event \<Rightarrow> recovery_progress \<Rightarrow> recovery_progress" where
  "recover_fill h owner f p0 =
     (let p = (if has_intent owner (fe_order_id f) p0 then p0 else note_issue owner ''fill_without_order'' p0) in
      case restore_fill f of
        Inl _ \<Rightarrow> note_issue owner ''invalid_fill_event'' p
      | Inr f' \<Rightarrow> if em_owner (fe_meta f') \<noteq> Some owner then note_issue owner ''event_owner_mismatch'' p
          else book_fill h owner f' p)"

definition recover_event :: "hashing \<Rightarrow> string \<Rightarrow> domain_event \<Rightarrow> recovery_progress \<Rightarrow> recovery_progress" where
  "recover_event h owner e p =
     (case e of
        EvOrder o' \<Rightarrow> p\<lparr>rv_intents := dict_put owner (dict_put (oi_order_id o') o' (intents_of owner p)) (rv_intents p)\<rparr>
      | EvRisk d \<Rightarrow> p\<lparr>rv_decisions := dict_put (owner, rd_order_id d) d (rv_decisions p)\<rparr>
      | EvStatus s \<Rightarrow>
          (if has_intent owner (os_order_id s) p then p else note_issue owner ''order_status_without_order'' p)
            \<lparr>rv_terminal := (owner, os_order_id s) # rv_terminal p\<rparr>
      | EvFill f \<Rightarrow> recover_fill h owner f p
      | EvPosition q \<Rightarrow> p\<lparr>rv_positions := dict_put (position_row_key owner q) q (rv_positions p)\<rparr>
      | _ \<Rightarrow> p)"

definition recover_record :: "hashing \<Rightarrow> recovery_record \<Rightarrow> recovery_progress \<Rightarrow> recovery_progress" where
  "recover_record h r p =
     (case r of
        ControlRecord c \<Rightarrow> recover_control c p
      | EventRecord x \<Rightarrow> (case pr_payload x of
            NotObject \<Rightarrow> note_issue (pr_owner x) ''invalid_event_payload'' p
          | Stored e \<Rightarrow> recover_event h (pr_owner x) e p))"

text \<open>An approved order that waits for the next bar goes back to the simulator with its reservation.\<close>

definition restore_pending :: "string \<Rightarrow> order_intent \<Rightarrow> risk_decision \<Rightarrow> recovery_progress \<Rightarrow> recovery_progress" where
  "restore_pending owner o0 d p =
     (case restore_order o0 of
        Inl _ \<Rightarrow> note_issue owner ''invalid_pending_order'' p
      | Inr o' \<Rightarrow>
          (case sim_on_order (EvOrder o') (xw_broker (rv_world p)) of
             (Inl _, b) \<Rightarrow> note_issue owner ''invalid_pending_order'' (put_broker b p)
           | (Inr _, b) \<Rightarrow>
               let r = the (order_of b (oi_order_id o'));
                   r1 = r\<lparr>or_status := SimApproved, or_approved := rd_approved_quantity d, or_reason := rd_reason d\<rparr> in
               (case restore_meta (rd_meta d) of
                  Inl _ \<Rightarrow> note_issue owner ''invalid_pending_order'' (put_broker (put_order (oi_order_id o') r1 b) p)
                | Inr m \<Rightarrow>
                    let p1 = put_broker (put_order (oi_order_id o') (r1\<lparr>or_risk_id := Some (em_id m)\<rparr>) b) p in
                    (case restore_reservation o' (rd_approved_quantity d) (xw_gate (rv_world p1)) of
                       (Inl _, g) \<Rightarrow> note_issue owner ''invalid_pending_order'' (put_gate g p1)
                     | (Inr _, g) \<Rightarrow> put_gate g p1))))"

definition recover_order :: "string \<Rightarrow> string \<times> order_intent \<Rightarrow> recovery_progress \<Rightarrow> recovery_progress" where
  "recover_order owner x p =
     (case map_of (rv_decisions p) (owner, fst x) of
        None \<Rightarrow> note_issue owner ''order_without_risk_decision'' p
      | Some d \<Rightarrow>
          if rd_approved d \<and> (owner, fst x) \<notin> set (rv_fills p) \<and> (owner, fst x) \<notin> set (rv_terminal p)
          then (case oi_timing (snd x) of
                  CurrentClose \<Rightarrow> note_issue owner ''approved_order_without_fill'' p
                | NextBarOpen \<Rightarrow> restore_pending owner (snd x) d p
                | _ \<Rightarrow> p)
          else p)"

definition recover_owner_orders :: "string \<times> (string \<times> order_intent) list \<Rightarrow> recovery_progress \<Rightarrow> recovery_progress" where
  "recover_owner_orders x p = fold (recover_order (fst x)) (snd x) p"

text \<open>\<open>math.isclose\<close> with its default relative and the given absolute tolerance.\<close>

definition values_close :: "rat \<Rightarrow> rat \<Rightarrow> bool" where
  "values_close a b \<longleftrightarrow> \<bar>a - b\<bar> \<le> max (1 / 10 ^ 9 * max \<bar>a\<bar> \<bar>b\<bar>) (1 / 1000)"

definition compare_position :: "pos_key \<Rightarrow> recovery_progress \<Rightarrow> recovery_progress" where
  "compare_position k p =
     (let snap = map_of (rv_positions p) k;
          st = map_of (open_positions (xw_ledger (rv_world p))) k;
          expected = (case snap of None \<Rightarrow> 0 | Some q \<Rightarrow> pe_quantity q);
          actual = (case st of None \<Rightarrow> 0 | Some x \<Rightarrow> ps_quantity x) in
      if expected \<noteq> actual then note_issue (pk_owner k) ''position_quantity_mismatch'' p
      else (case (snap, st) of
              (Some q, Some x) \<Rightarrow>
                if actual = 0 then p
                else if \<not> (values_close (pe_average_price q) (ps_average_price x)
                     \<and> values_close (pe_realized_pnl q) (ps_realized_pnl x)
                     \<and> values_close (pe_total_cost q) (ps_total_cost x))
                then note_issue (pk_owner k) ''position_value_mismatch'' p else p
            | _ \<Rightarrow> p))"

definition recovery_keys :: "recovery_progress \<Rightarrow> pos_key list" where
  "recovery_keys p = dedup (map fst (rv_positions p) @ map fst (open_positions (xw_ledger (rv_world p))))"

definition block_owner :: "instant \<Rightarrow> string \<Rightarrow> account_gate \<Rightarrow> account_gate" where
  "block_owner now owner g = snd (activate_kill_switch owner ''recovery_inconsistent'' now True g)"

record recovery_report =
  rr_at :: instant
  rr_orders :: nat
  rr_fills :: nat
  rr_positions :: nat
  rr_issues :: "(string \<times> string list) list"

definition recovery_checks :: "hashing \<Rightarrow> paper_store \<Rightarrow> account_gate exec_world \<Rightarrow> recovery_progress" where
  "recovery_checks h s w =
     (let p1 = fold (recover_record h) (recovery_records s) (start_recovery w);
          p2 = fold (\<lambda>k. note_issue (kr_owner k) ''dangling_idempotency_key'') (dangling_idempotency s) p1;
          p3 = fold recover_owner_orders (rv_intents p2) p2 in
      fold compare_position (recovery_keys p3) p3)"

definition paper_recover :: "hashing \<Rightarrow> instant \<Rightarrow> paper_store \<Rightarrow> account_gate exec_world \<Rightarrow> recovery_report \<times> account_gate exec_world" where
  "paper_recover h now s w =
     (let p = recovery_checks h s w;
          g = fold (block_owner now) (map fst (rv_issues p)) (xw_gate (rv_world p)) in
      (\<lparr> rr_at = now, rr_orders = sum_list (map (\<lambda>x. length (snd x)) (rv_intents p)), rr_fills = rv_restored_fills p,
         rr_positions = length (open_positions (xw_ledger (rv_world p))), rr_issues = rv_issues p \<rparr>,
       (rv_world p)\<lparr>xw_gate := g\<rparr>))"

section \<open>The service\<close>

record paper_service =
  sv_engine :: paper_engine
  sv_store :: paper_store
  sv_recovery :: recovery_report
  sv_started :: instant
  sv_submissions :: nat
  sv_filled :: nat
  sv_rejected :: nat
  sv_blocked :: nat
  sv_last_submission :: "instant option"
  sv_last_auto :: "instant option"

definition open_paper_service :: "hashing \<Rightarrow> (order_intent \<Rightarrow> string option) \<Rightarrow> instant \<Rightarrow> paper_store \<Rightarrow> paper_service res" where
  "open_paper_service h guard now file =
     (let s = open_paper_store file in
      res_then (new_paper_world h) (\<lambda>w0.
        let (report, w) = paper_recover h now s w0 in
        res_then (new_engine None 1000000 w) (\<lambda>e.
          Inr \<lparr> sv_engine = install_paper h guard e, sv_store = s, sv_recovery = report, sv_started = now,
            sv_submissions = 0, sv_filled = 0, sv_rejected = 0, sv_blocked = 0, sv_last_submission = None,
            sv_last_auto = None \<rparr>)))"

definition in_engine :: "(paper_engine, 'a) prog \<Rightarrow> (paper_service, 'a) prog" where
  "in_engine m s = (case m (sv_engine s) of (r, e) \<Rightarrow> (r, s\<lparr>sv_engine := e\<rparr>))"

definition in_world :: "(account_gate exec_world, 'a) prog \<Rightarrow> (paper_service, 'a) prog" where
  "in_world m = in_engine (\<lambda>e. case m (en_world e) of (r, w) \<Rightarrow> (r, e\<lparr>en_world := w\<rparr>))"

definition service_broker :: "paper_service \<Rightarrow> sim_broker" where
  "service_broker s = xw_broker (en_world (sv_engine s))"

text \<open>\<open>_run\<close>: the processed events are recorded when the run returns.\<close>

definition service_run :: "instant \<Rightarrow> (paper_service, unit) prog" where
  "service_run now = and_then (in_engine engine_run_all) (\<lambda>r s.
     (Inr (), s\<lparr>sv_store := append_events (map (\<lambda>x. (pr_event x, now)) (er_processed r)) (sv_store s)\<rparr>))"

definition record_view :: "order_record \<Rightarrow> order_view" where
  "record_view r = (view_status (or_status r) (or_reason r) (submitted_view (or_intent r)))
     \<lparr>ov_approved := or_approved r, ov_fill_id := or_fill_id r\<rparr>"

definition track_submission :: "instant \<Rightarrow> order_view \<Rightarrow> (paper_service, order_view) prog" where
  "track_submission now v s = (Inr v, s\<lparr>sv_submissions := sv_submissions s + 1, sv_last_submission := Some now,
     sv_filled := sv_filled s + (if ov_status v = SimFilled then 1 else 0),
     sv_rejected := sv_rejected s + (if ov_status v = SimRejected then 1 else 0)\<rparr>)"

definition same_request :: "order_view \<Rightarrow> paper_command \<Rightarrow> bool" where
  "same_request v c \<longleftrightarrow> ov_strategy v = po_strategy c \<and> ov_version v = po_version c \<and> ov_side v = po_side c
     \<and> ov_quantity v = po_quantity c \<and> ov_reduce_only v = po_reduce_only c
     \<and> ov_stop_loss_price v = po_stop_loss_price c \<and> ov_timing v = po_timing c \<and> ov_source v = po_source c
     \<and> ov_runtime v = po_runtime c \<and> ov_decision v = po_decision c \<and> ov_stop_loss_pct v = po_stop_loss_pct c
     \<and> ov_take_profit_pct v = po_take_profit_pct c \<and> ov_snapshot v = po_snapshot c"

text \<open>The answer to a request whose key was used before.\<close>

definition known_order :: "string \<Rightarrow> string \<Rightarrow> paper_service \<Rightarrow> order_view option" where
  "known_order owner i s = (case order_of (service_broker s) i of
       Some r \<Rightarrow> Some (record_view r) | None \<Rightarrow> store_order owner i (sv_store s))"

definition replay_order :: "instant \<Rightarrow> string \<Rightarrow> string \<Rightarrow> paper_command \<Rightarrow> (paper_service, order_view \<times> bool) prog" where
  "replay_order now owner i c s =
     (case known_order owner i s of
        None \<Rightarrow> (Inl (RuntimeError ''paper idempotency record has no matching order''), s)
      | Some v \<Rightarrow>
          if \<not> same_request v c
          then (Inl (ValueError ''Idempotency-Key was already used for a different paper order''), s)
          else and_then (track_submission now v) (\<lambda>v. give (v, False)) s)"

definition allow_user :: "auth_user \<Rightarrow> (paper_service, unit) prog" where
  "allow_user u = in_world (\<lambda>w. (Inr (), w\<lparr>xw_gate := (xw_gate w)\<lparr>ag_access := set_user u (ag_access (xw_gate w))\<rparr>\<rparr>))"

definition command_order :: "hashing \<Rightarrow> auth_user \<Rightarrow> paper_command \<Rightarrow> string \<Rightarrow> kbar \<Rightarrow> instant \<Rightarrow> order_intent res" where
  "command_order h u c k bar t =
     res_then (create_meta h KOrderIntent t
         (if po_source c = StrategyAuto then ''strategy_auto_controller'' else ''paper_api'') (au_id u @ '':'' @ k)
         (po_correlation c) (po_causation c) (Some (au_id u))) (\<lambda>m. check_order
       \<lparr> oi_meta = m, oi_order_id = em_id m, oi_strategy = po_strategy c, oi_version = po_version c,
         oi_symbol = kb_symbol bar, oi_contract = kb_contract bar, oi_side = po_side c, oi_quantity = po_quantity c,
         oi_purpose = (if po_reduce_only c then Exit else Entry), oi_timing = po_timing c,
         oi_reduce_only = po_reduce_only c, oi_reason = po_reason c,
         oi_reference_price = (case po_reference_price c of Some p \<Rightarrow> p | None \<Rightarrow> kb_close bar),
         oi_stop_loss_price = po_stop_loss_price c, oi_stop_loss_pct = po_stop_loss_pct c,
         oi_take_profit_pct = po_take_profit_pct c, oi_snapshot = po_snapshot c,
         oi_trading_date = Some (kb_trading_date bar), oi_client_order_id = Some k, oi_source = po_source c,
         oi_runtime = po_runtime c, oi_decision = po_decision c \<rparr>)"

definition reserve_request :: "string \<Rightarrow> string \<Rightarrow> string \<Rightarrow> (paper_service, string) prog" where
  "reserve_request owner k i s = (let (j, st) = reserve_key owner k i (sv_store s) in (Inr j, s\<lparr>sv_store := st\<rparr>))"

definition note_price :: "kbar \<Rightarrow> (paper_service, unit) prog" where
  "note_price bar = in_world (in_broker (update_market_price (kb_symbol bar) (kb_contract bar) (kb_close bar)))"

definition submitted_record :: "string \<Rightarrow> (paper_service, order_view) prog" where
  "submitted_record i s = (case order_of (service_broker s) i of
       None \<Rightarrow> (Inl (KeyError i), s) | Some r \<Rightarrow> (Inr (record_view r), s))"

definition note_auto :: "paper_command \<Rightarrow> instant \<Rightarrow> (paper_service, unit) prog" where
  "note_auto c t s = (Inr (), if po_source c = StrategyAuto then s\<lparr>sv_last_auto := Some t\<rparr> else s)"

definition execute_order :: "instant \<Rightarrow> instant \<Rightarrow> paper_command \<Rightarrow> kbar \<Rightarrow> order_intent \<Rightarrow> (paper_service, order_view \<times> bool) prog" where
  "execute_order now t c bar o' =
     and_then (note_price bar) (\<lambda>_.
     and_then (in_engine (publish (EvOrder o'))) (\<lambda>_.
     and_then (service_run now) (\<lambda>_.
     and_then (submitted_record (oi_order_id o')) (\<lambda>v.
     and_then (note_auto c t) (\<lambda>_.
     and_then (track_submission now v) (\<lambda>v. give (v, True)))))))"

definition submit_new :: "hashing \<Rightarrow> instant \<Rightarrow> instant \<Rightarrow> auth_user \<Rightarrow> paper_command \<Rightarrow> string \<Rightarrow> kbar
    \<Rightarrow> (paper_service, order_view \<times> bool) prog" where
  "submit_new h now t u c k bar =
     and_then (allow_user u) (\<lambda>_.
     and_then (lift_res (command_order h u c k bar t)) (\<lambda>o'.
     and_then (reserve_request (au_id u) k (oi_order_id o')) (\<lambda>j.
       if j \<noteq> oi_order_id o' then replay_order now (au_id u) j c else execute_order now t c bar o')))"

definition submit_paper :: "hashing \<Rightarrow> instant \<Rightarrow> auth_user \<Rightarrow> paper_command \<Rightarrow> string \<Rightarrow> kbar \<Rightarrow> instant option
    \<Rightarrow> (paper_service, order_view \<times> bool) prog" where
  "submit_paper h now u c key bar occurred s =
     (let k = strip key in
      if k = [] \<or> 128 < length k then (Inl (ValueError ''Idempotency-Key must contain 1 to 128 characters''), s)
      else if truthy (order_for_key (au_id u) k (sv_store s))
      then replay_order now (au_id u) (the (order_for_key (au_id u) k (sv_store s))) c s
      else submit_new h now (case occurred of Some t \<Rightarrow> t | None \<Rightarrow> now) u c k bar s)"

definition request_command :: "broker_order_request \<Rightarrow> paper_command" where
  "request_command r = \<lparr> po_strategy = req_strategy_id r, po_version = req_strategy_version r, po_side = req_side r,
     po_quantity = req_quantity r, po_stop_loss_price = req_risk_stop_price r, po_reduce_only = req_reduce_only r,
     po_reason = req_reason r, po_timing = CurrentClose, po_source = ManualOrder, po_runtime = None, po_decision = None,
     po_reference_price = None, po_stop_loss_pct = None, po_take_profit_pct = None, po_snapshot = None,
     po_correlation = None, po_causation = None \<rparr>"

definition submit_request :: "hashing \<Rightarrow> instant \<Rightarrow> auth_user \<Rightarrow> broker_order_request \<Rightarrow> kbar \<Rightarrow> instant option
    \<Rightarrow> (paper_service, order_view \<times> bool) prog" where
  "submit_request h now u r bar occurred =
     and_then (lift_res (first_error
       [(req_mode r \<noteq> Paper, ValueError ''PaperTradingService only accepts paper orders''),
        (req_owner_id r \<noteq> au_id u, ValueError ''paper order owner does not match authenticated user''),
        (req_symbol r \<noteq> kb_symbol bar \<or> req_contract r \<noteq> kb_contract bar,
           ValueError ''paper order contract does not match server market data''),
        (req_order_type r \<noteq> Market, ValueError ''Paper Trading currently supports market orders only''),
        ((case req_reference_price r of None \<Rightarrow> False | Some p \<Rightarrow> p \<noteq> kb_close bar),
           ValueError ''paper reference price must be server-derived'')] ())) (\<lambda>_.
     and_then (lift_res (check_command (request_command r))) (\<lambda>c.
       submit_paper h now u c (req_client_order_id r) bar occurred))"

definition paper_bar_event :: "hashing \<Rightarrow> (instant \<Rightarrow> string) \<Rightarrow> kbar \<Rightarrow> bar_event res" where
  "paper_bar_event h iso_of bar =
     res_then (create_meta h KBarClosed (kb_received_time bar) ''paper_live_bars''
         (kb_contract bar @ '':1m:'' @ iso_of (kb_time bar)) None None None) (\<lambda>m. check_bar
       \<lparr> be_meta = m, be_symbol = kb_symbol bar, be_contract = kb_contract bar, be_timeframe = ''1m'',
         be_open = kb_open bar, be_high = kb_high bar, be_low = kb_low bar, be_close = kb_close bar,
         be_volume = kb_volume bar, be_session = kb_session bar, be_trading_date = kb_trading_date bar \<rparr>)"

definition paper_on_bar :: "hashing \<Rightarrow> (instant \<Rightarrow> string) \<Rightarrow> instant \<Rightarrow> kbar \<Rightarrow> (paper_service, unit) prog" where
  "paper_on_bar h iso_of now bar s =
     (if kb_status bar \<noteq> ClosedBar then (Inr (), s)
      else and_then (note_price bar) (\<lambda>_ s1.
        if (case en_clock (sv_engine s1) of None \<Rightarrow> False | Some t \<Rightarrow> kb_received_time bar < t) then (Inr (), s1)
        else and_then (lift_res (paper_bar_event h iso_of bar)) (\<lambda>b.
             and_then (in_engine (publish (EvBar b))) (\<lambda>_. service_run now)) s1) s)"

text \<open>Recovered entries of automatic runtimes that are no longer there are rejected, not backfilled.\<close>

definition auto_entry :: "string list \<Rightarrow> order_record \<Rightarrow> bool" where
  "auto_entry runtimes r \<longleftrightarrow> or_status r \<in> {PendingRisk, SimApproved} \<and> oi_source (or_intent r) = StrategyAuto
     \<and> \<not> oi_reduce_only (or_intent r)
     \<and> (case oi_runtime (or_intent r) of None \<Rightarrow> False | Some x \<Rightarrow> x \<in> set runtimes)"

definition reject_auto :: "hashing \<Rightarrow> instant \<Rightarrow> string list \<Rightarrow> string \<Rightarrow> string \<times> order_record \<Rightarrow> order_view list
    \<Rightarrow> (paper_service, order_view list) prog" where
  "reject_auto h now runtimes reason x done_views s =
     (let r = mark_rejected reason (snd x); o' = or_intent r in
      if \<not> auto_entry runtimes (snd x) then (Inr done_views, s)
      else and_then (in_world (in_broker (\<lambda>b. (Inr (), put_order (fst x) r b)))) (\<lambda>_.
        and_then (lift_res (res_then (create_meta h KOrderStatus now ''paper_recovery'' (oi_order_id o' @ '':'' @ reason)
            (em_correlation (oi_meta o')) (Some (em_id (oi_meta o'))) (em_owner (oi_meta o'))) (\<lambda>m.
          check_order_status \<lparr> os_meta = m, os_order_id = oi_order_id o', os_reason = reason \<rparr>))) (\<lambda>st.
        and_then (in_engine (publish (EvStatus st))) (\<lambda>_. give (done_views @ [record_view r])))) s)"

definition reject_pending_auto_entries :: "hashing \<Rightarrow> instant \<Rightarrow> string list \<Rightarrow> string \<Rightarrow> (paper_service, order_view list) prog" where
  "reject_pending_auto_entries h now runtimes reason s =
     and_then (fold_prog (reject_auto h now runtimes reason) (sb_orders (service_broker s)) []) (\<lambda>vs.
       if vs = [] then give vs else and_then (service_run now) (\<lambda>_. give vs)) s"

definition service_kill_switch :: "string \<Rightarrow> string \<Rightarrow> instant \<Rightarrow> (paper_service, unit) prog" where
  "service_kill_switch owner reason now =
     and_then (in_world (in_gate (activate_kill_switch owner reason now True))) (\<lambda>_ s.
       (Inr (), s\<lparr>sv_store := append_control owner KillActivated reason now now (sv_store s)\<rparr>))"

definition service_reset :: "string \<Rightarrow> string \<Rightarrow> instant \<Rightarrow> (paper_service, unit) prog" where
  "service_reset owner reason now =
     and_then (in_world (in_gate (reset_kill_switch owner reason now))) (\<lambda>_ s.
       (Inr (), s\<lparr>sv_store := append_control owner KillReset reason now now (sv_store s)\<rparr>))"

definition record_market_block :: "(paper_service, unit) prog" where
  "record_market_block s = (Inr (), s\<lparr>sv_blocked := sv_blocked s + 1\<rparr>)"

record account_view =
  av_snapshot :: account_snapshot
  av_limits :: account_limits
  av_degraded :: bool
  av_issues :: "string list"
  av_recovered :: instant

definition account_of :: "string \<Rightarrow> (paper_service, account_view) prog" where
  "account_of owner s =
     (let w = en_world (sv_engine s); (snap, g) = snapshot_account (xw_ledger w) owner (xw_gate w);
          issues = (case map_of (rr_issues (sv_recovery s)) owner of None \<Rightarrow> [] | Some cs \<Rightarrow> cs) in
      (Inr \<lparr> av_snapshot = snap, av_limits = ag_limits g, av_degraded = (issues \<noteq> []), av_issues = issues,
             av_recovered = to_millis (rr_at (sv_recovery s)) \<rparr>,
       s\<lparr>sv_engine := (sv_engine s)\<lparr>en_world := w\<lparr>xw_gate := g\<rparr>\<rparr>\<rparr>))"

record service_health =
  sh_healthy :: bool
  sh_restored :: "nat \<times> nat \<times> nat"
  sh_inconsistent :: nat
  sh_issue_count :: nat
  sh_submissions :: nat
  sh_filled :: nat
  sh_rejected :: nat
  sh_blocked :: nat
  sh_requests :: nat
  sh_kill_switches :: "nat \<times> nat \<times> nat \<times> nat"
  sh_last_auto :: "instant option"
  sh_stats :: paper_stats

definition service_health_of :: "paper_service \<Rightarrow> service_health" where
  "service_health_of s =
     (let st = paper_stats_of (sv_store s); r = sv_recovery s in
      \<lparr> sh_healthy = (rr_issues r = []), sh_restored = (rr_orders r, rr_fills r, rr_positions r),
        sh_inconsistent = length (rr_issues r), sh_issue_count = sum_list (map (\<lambda>x. length (snd x)) (rr_issues r)),
        sh_submissions = sv_submissions s, sh_filled = sv_filled s, sh_rejected = sv_rejected s,
        sh_blocked = sv_blocked s, sh_requests = sv_submissions s + sv_blocked s,
        sh_kill_switches = kill_switch_summary (xw_gate (en_world (sv_engine s))),
        sh_last_auto = (case sts_last_auto st of Some t \<Rightarrow> Some t | None \<Rightarrow> map_option to_millis (sv_last_auto s)),
        sh_stats = st \<rparr>)"

section \<open>The broker adapter\<close>

text \<open>\<open>PaperBrokerAdapter\<close> (\<open>paper/broker.py\<close>): the broker port over the service for one user and bar.\<close>

definition adapter_enabled :: "auth_user \<Rightarrow> bool" where
  "adapter_enabled u \<longleftrightarrow> au_status u = AccActive \<and> au_mode u = ModePaper \<and> ''orders.paper'' \<in> set (au_permissions u)"

definition adapter_order :: "auth_user \<Rightarrow> paper_service \<Rightarrow> broker_order_request \<Rightarrow> order_view \<Rightarrow> broker_order res" where
  "adapter_order u s r v =
     res_then (canonical_paper_status (sim_status_value (ov_status v))) (\<lambda>status.
       let fill = (case ov_fill_id v of None \<Rightarrow> None | Some i \<Rightarrow> store_fill (au_id u) i (sv_store s));
           filled = (case fill of Some f \<Rightarrow> if status = FILLED then Some f else None | None \<Rightarrow> None);
           r1 = (if 0 < ov_approved v then r\<lparr>req_quantity := ov_approved v\<rparr> else r) in
       res_then (request_post_init r1) (\<lambda>r2. order_post_init
         \<lparr> bo_request = r2, bo_status = status,
           bo_updated_at = (case fill of Some f \<Rightarrow> em_at (fe_meta f) | None \<Rightarrow> ov_submitted v),
           bo_broker_order_id = Some (ov_order_id v),
           bo_filled_quantity = (case filled of Some f \<Rightarrow> fe_quantity f | None \<Rightarrow> 0),
           bo_average_fill_price = map_option fe_price filled, bo_status_reason = Some (ov_reason v) \<rparr>))"

definition adapter_submit :: "hashing \<Rightarrow> instant \<Rightarrow> auth_user \<Rightarrow> kbar \<Rightarrow> broker_order_request \<Rightarrow> (paper_service, broker_order) prog" where
  "adapter_submit h now u bar r = and_then (submit_request h now u r bar None) (\<lambda>(v, _) s. (adapter_order u s r v, s))"

definition adapter_cancel :: "broker_order \<Rightarrow> (paper_service, broker_order) prog" where
  "adapter_cancel b s = (if status_terminal (bo_status b) then (Inr b, s)
     else (Inl (RuntimeError ''Paper Trading does not support pending order cancellation''), s))"

definition adapter_refresh :: "auth_user \<Rightarrow> broker_order \<Rightarrow> paper_service \<Rightarrow> broker_order res" where
  "adapter_refresh u b s =
     (case order_for_client_id (au_id u) (req_client_order_id (bo_request b)) (sv_store s) of
        None \<Rightarrow> Inr b | Some v \<Rightarrow> adapter_order u s (bo_request b) v)"

end
