(* ===== verification/Paper_Contract.thy ===== *)
theory Paper_Contract
  imports Paper_Service Account_Risk_Safety
begin

text \<open>
  The handlers of the paper pipeline as a contract: which events they may put out and what they keep of
  the world; and the ledger of an engine as the fold of the fills it has processed.
\<close>

section \<open>Acceptable events and worlds\<close>

text \<open>A fill as the simulator builds it.\<close>

definition good_fill :: "fill_event \<Rightarrow> bool" where
  "good_fill f \<longleftrightarrow> check_fill f = Inr f \<and> em_id (fe_meta f) \<noteq> [] \<and> em_source (fe_meta f) \<noteq> []
     \<and> truthy (em_owner (fe_meta f))"

text \<open>An order has an owner, and its request key, when it has one, is recorded in \<open>K\<close> for it.\<close>

type_synonym request_keys = "(string \<times> string \<times> string) set"

definition keyed_events :: "request_keys \<Rightarrow> domain_event set" where
  "keyed_events K = {e. \<forall>o'. e = EvOrder o' \<longrightarrow> truthy (em_owner (oi_meta o'))
     \<and> (\<forall>k. oi_client_order_id o' = Some k \<longrightarrow> (the (em_owner (oi_meta o')), k, oi_order_id o') \<in> K)}"

definition paper_event_ok :: "request_keys \<Rightarrow> domain_event \<Rightarrow> bool" where
  "paper_event_ok K e \<longleftrightarrow> e \<in> keyed_events K \<and> (case e of EvRisk d \<Rightarrow> check_risk_decision d = Inr d | EvFill f \<Rightarrow> good_fill f | _ \<Rightarrow> True)"

definition paper_world_ok :: "request_keys \<Rightarrow> 'g exec_world \<Rightarrow> bool" where
  "paper_world_ok K w \<longleftrightarrow> orders_ok (keyed_events K) (xw_broker w) \<and> (\<forall>x \<in> set (lg_positions (xw_ledger w)). pk_owner (fst x) \<noteq> [])"

lemma event_ok_simps [simp]:
  "paper_event_ok K (EvStatus s)" "paper_event_ok K (EvPosition p)" "paper_event_ok K (EvBar b)"
  "paper_event_ok K (EvRisk d) \<longleftrightarrow> check_risk_decision d = Inr d" "paper_event_ok K (EvFill f) \<longleftrightarrow> good_fill f"
  by (auto simp: paper_event_ok_def keyed_events_def)

lemma event_ok_order: "truthy (em_owner (oi_meta o')) \<Longrightarrow> oi_client_order_id o' = None \<Longrightarrow> paper_event_ok K (EvOrder o')"
  by (simp add: paper_event_ok_def keyed_events_def)

lemma keyed_events_owner: "EvOrder o' \<in> keyed_events K \<Longrightarrow> truthy (em_owner (oi_meta o'))"
  by (simp add: keyed_events_def)

lemma keyed_events_mono: "K \<subseteq> K' \<Longrightarrow> keyed_events K \<subseteq> keyed_events K'"
  by (auto simp: keyed_events_def)

lemma event_ok_mono: "K \<subseteq> K' \<Longrightarrow> paper_event_ok K e \<Longrightarrow> paper_event_ok K' e"
  using keyed_events_mono by (auto simp: paper_event_ok_def)

lemma orders_ok_mono: "E \<subseteq> E' \<Longrightarrow> orders_ok E b \<Longrightarrow> orders_ok E' b"
  by (fastforce simp: orders_ok_def record_ok_def approval_in_def)

lemma world_ok_mono: "K \<subseteq> K' \<Longrightarrow> paper_world_ok K w \<Longrightarrow> paper_world_ok K' w"
  using orders_ok_mono [OF keyed_events_mono] by (auto simp: paper_world_ok_def)

section \<open>The simulator\<close>

lemma build_fill_good:
  assumes "build_fill h c r raw t cause q = Inr f" and "truthy (em_owner (oi_meta (or_intent r)))"
  shows "good_fill f"
proof -
  note own = build_fill_Inr(7) [OF assms(1)]
  from assms(1) obtain m x where m: "create_meta h KFill t ''simulated_broker'' (oi_order_id (or_intent r) @ '':full'')
        (em_correlation (oi_meta (or_intent r))) (Some (event_id_of cause)) (em_owner (oi_meta (or_intent r))) = Inr m"
    and x: "check_fill x = Inr f" "fe_meta x = m"
    by (auto simp: build_fill_def Let_def split: sum.splits prod.splits)
  have "x = f" using check_fill_Inr [OF x(1)] by simp
  moreover have "em_id m \<noteq> []" "em_source m \<noteq> []" using create_meta_Inr [OF m] by auto
  ultimately show ?thesis using x own assms(2) by (simp add: good_fill_def)
qed

lemma fill_order_good:
  assumes "fill_order h i r raw t cause q b = (Inr ev, b')" and "truthy (em_owner (oi_meta (or_intent r)))"
  shows "paper_event_ok K ev"
  using assms build_fill_good [of h "sb_costs b" r raw t cause q] by (auto simp: fill_order_def split: sum.splits)

lemma reject_order_ok: "reject_order h i r cause reason b = (Inr ev, b') \<Longrightarrow> paper_event_ok K ev"
  by (auto simp: reject_order_def split: sum.splits)

lemma broker_owner: "orders_ok (keyed_events K) b \<Longrightarrow> order_of b i = Some r \<Longrightarrow> truthy (em_owner (oi_meta (or_intent r)))"
  using orders_ok_lookup [of "keyed_events K" b i r] keyed_events_owner by (auto simp: record_ok_def)

lemma sim_on_risk_emits:
  assumes "sim_on_risk h lg (EvRisk d) b = (Inr es, b')" and "orders_ok (keyed_events K) b" and "x \<in> set es"
  shows "paper_event_ok K x"
proof (cases "order_of b (rd_order_id d)")
  case (Some r)
  have own: "truthy (em_owner (oi_meta (or_intent (approve_record d r))))"
    using broker_owner [OF assms(2) Some] by (simp add: approve_record_def)
  from assms(1,3) Some obtain m b1 where m: "and_then m (\<lambda>ev. give [ev]) b1 = (Inr es, b')"
    "m = reject_order h (rd_order_id d) (approve_record d r) (EvRisk d) ''reduce_only_position_unavailable''
     \<or> (\<exists>p q. m = fill_order h (rd_order_id d) (approve_record d r) p (event_at (EvRisk d)) (EvRisk d) q)"
    unfolding sim_on_risk_def Let_def by (auto split: if_splits sum.splits)
  then obtain ev where "m b1 = (Inr ev, b')" "es = [ev]" by (auto simp: and_then_Inr)
  with m(2) assms(3) show ?thesis using reject_order_ok fill_order_good [OF _ own] by auto
qed (use assms in \<open>simp add: sim_on_risk_def\<close>)

lemma risk_decision_checked: "check_risk_decision x = Inr d \<Longrightarrow> check_risk_decision d = Inr d"
  using check_risk_decision_Inr by metis

lemma recheck_checked: "recheck_before_fill h l blocked o' fill t g = (Inr d, g') \<Longrightarrow> check_risk_decision d = Inr d"
  by (auto simp: recheck_before_fill_def Let_def split: sum.splits intro: risk_decision_checked)

definition checked_prefill :: "'g prefill option \<Rightarrow> bool" where
  "checked_prefill pf \<longleftrightarrow> (\<forall>f o' p t g d g'. pf = Some f \<longrightarrow> f o' p t g = (Inr d, g') \<longrightarrow> check_risk_decision d = Inr d)"

lemma checked_prefillD: "checked_prefill (Some f) \<Longrightarrow> f o' p t g = (Inr d, g') \<Longrightarrow> check_risk_decision d = Inr d"
  unfolding checked_prefill_def by blast

lemma check_entry_emits:
  assumes "check_entry h pf bar i r p s = (Inr (r1, chk), s')" and "checked_prefill pf"
    and "\<forall>x \<in> set (bp_emitted p). paper_event_ok K x"
  shows "(case chk of GoOn c p1 \<Rightarrow> \<forall>x \<in> set (bp_emitted p1). paper_event_ok K x | Stopped p1 \<Rightarrow> \<forall>x \<in> set (bp_emitted p1). paper_event_ok K x)
    \<and> or_intent r1 = or_intent r"
proof (cases "oi_reduce_only (or_intent r) \<or> oi_source (or_intent r) \<noteq> StrategyAuto")
  case True
  then show ?thesis using assms by (auto simp: check_entry_def Let_def)
next
  case False
  show ?thesis
  proof (cases pf)
    case None
    then show ?thesis using assms False reject_order_ok
      by (auto simp: check_entry_def Let_def and_then_Inr on_broker_eq)
  next
    case (Some f)
    from assms(1) False Some obtain d g where f: "f (or_intent r) (be_open bar + fc_slippage_points (sb_costs (fst s))
          * of_int (side_sign (oi_side (or_intent r)))) (em_at (be_meta bar)) (snd s) = (Inr d, g)"
      by (auto simp: check_entry_def Let_def on_gate_def split: prod.splits sum.splits)
    have "check_risk_decision d = Inr d" by (rule checked_prefillD [OF assms(2) [unfolded Some] f])
    with assms(1,3) False Some f reject_order_ok show ?thesis
      by (auto simp: check_entry_def Let_def on_gate_def and_then_Inr on_broker_eq split: if_splits)
  qed
qed

lemma bar_one_out:
  assumes "bar_one h lg pf bar i p s = (Inr p', s')" and "orders_ok (keyed_events K) (fst s)" and "checked_prefill pf"
    and "\<forall>x \<in> set (bp_emitted p). paper_event_ok K x"
  shows "\<forall>x \<in> set (bp_emitted p'). paper_event_ok K x"
proof (cases "order_of (fst s) i")
  case (Some r)
  note own = broker_owner [OF assms(2) Some]
  from assms(1) Some show ?thesis
  proof (cases rule: bar_one_cases)
    case 1
    then show ?thesis using assms(4) by simp
  next
    case (2 chk t)
    then obtain r1 p1 where "chk = Inr (r1, Stopped p1)" "p' = p1" by auto
    then show ?thesis using check_entry_emits [OF _ assms(3,4)] 2(2) by fastforce
  next
    case (3 t r1 c p1 q p2 m v)
    have p1: "\<forall>x \<in> set (bp_emitted p1). paper_event_ok K x" "or_intent r1 = or_intent r"
      using check_entry_emits [OF 3(2) assms(3,4)] by simp_all
    have p2: "bp_emitted p2 = bp_emitted p1"
      using 3(3) by (auto simp: bar_quantity_def Let_def split: if_splits sum.splits)
    from 3(5) obtain ev where ev: "v = Inr ev" "bp_emitted p' = bp_emitted p2 @ [ev]" by (cases v) auto
    have "truthy (em_owner (oi_meta (or_intent r1)))" using own p1(2) by simp
    then have "paper_event_ok K ev" using 3(4,5) ev(1) reject_order_ok fill_order_good by blast
    then show ?thesis using ev(2) p1(1) p2 by simp
  qed
qed (use assms in \<open>simp add: bar_one_def\<close>)

lemma roll_one_out: "roll_one h bar x acc b = (Inr acc', b') \<Longrightarrow> \<forall>y \<in> set acc. paper_event_ok K y \<Longrightarrow>
    \<forall>y \<in> set acc'. paper_event_ok K y"
  using reject_order_ok by (auto simp: roll_one_def and_then_Inr split: if_splits)

lemma session_one_out: "session_one h se x acc b = (Inr acc', b') \<Longrightarrow> \<forall>y \<in> set acc. paper_event_ok K y \<Longrightarrow>
    \<forall>y \<in> set acc'. paper_event_ok K y"
  using reject_order_ok by (auto simp: session_one_def and_then_Inr split: if_splits)

lemma sim_on_bar_emits:
  assumes "sim_on_bar h lg pf (EvBar bar) s = (Inr es, s')" and "orders_ok (keyed_events K) (fst s)" and "checked_prefill pf"
  shows "\<forall>x \<in> set es. paper_event_ok K x"
  using assms(1)
proof (cases rule: sim_on_bar_cases)
  case (2 rolled b2 r s2)
  let ?b1 = "(fst s)\<lparr>sb_last_close := dict_put (be_symbol bar, be_contract bar) (be_close bar) (sb_last_close (fst s))\<rparr>"
  have ok1: "orders_ok (keyed_events K) ?b1" using assms(2) by (simp add: orders_ok_def)
  have rolled: "\<forall>x \<in> set rolled. paper_event_ok K x"
    by (rule fold_prog_Inr_inv [where J = "\<lambda>acc b. \<forall>x \<in> set acc. paper_event_ok K x", OF roll_one_out 2(1)]) auto
  have ok2: "orders_ok (keyed_events K) b2" by (rule emits_ok_orders [OF roll_all_emits [OF 2(1) ok1] ok1])
  from 2(3) obtain p where p: "r = Inr p" "es = bp_emitted p" by (cases r) auto
  have "reserved_nonneg p \<and> orders_ok (keyed_events K) (fst s2) \<and> (\<forall>x \<in> set (bp_emitted p). paper_event_ok K x)"
  proof (rule fold_prog_Inr_inv [where J = "\<lambda>p s. reserved_nonneg p \<and> orders_ok (keyed_events K) (fst s)
        \<and> (\<forall>x \<in> set (bp_emitted p). paper_event_ok K x)", OF _ 2(2) [unfolded p(1)]])
    fix i p s p' s'
    assume J: "reserved_nonneg p \<and> orders_ok (keyed_events K) (fst s) \<and> (\<forall>x \<in> set (bp_emitted p). paper_event_ok K x)"
      and r: "bar_one h lg pf bar i p s = (Inr p', s')"
    then show "reserved_nonneg p' \<and> orders_ok (keyed_events K) (fst s') \<and> (\<forall>x \<in> set (bp_emitted p'). paper_event_ok K x)"
      using bar_one_emits [of p "keyed_events K" s, OF _ r] bar_one_out [OF r _ assms(3)] by auto
  qed (use rolled ok2 in \<open>simp add: reserved_nonneg_def\<close>)
  then show ?thesis using p(2) by simp
qed simp

lemma sim_on_session_emits:
  assumes "sim_on_session h (EvSession se) b = (Inr es, b')" and "x \<in> set es"
  shows "paper_event_ok K x"
proof -
  have "\<forall>x \<in> set es. paper_event_ok K x" if "fold_prog (session_one h se) (sb_orders b) [] b = (Inr es, b')"
    by (rule fold_prog_Inr_inv [where J = "\<lambda>acc b. \<forall>x \<in> set acc. paper_event_ok K x", OF session_one_out that]) auto
  then show ?thesis using assms by (auto simp: sim_on_session_def split: if_splits)
qed

section \<open>The other handlers\<close>

lemma liquidator_emits:
  assumes "liquidator_intents h b states cause reason pending = (Inr es, pending')" and "x \<in> set es"
    and "\<forall>p \<in> set states. pk_owner (fst p) \<noteq> []"
  shows "paper_event_ok K x"
proof -
  have one: "\<forall>y \<in> set acc'. paper_event_ok K y"
    if "p \<in> set states" "liquidate_one h b cause reason p acc s = (Inr acc', s')" "\<forall>y \<in> set acc. paper_event_ok K y" for p acc s acc' s'
  proof -
    have "paper_event_ok K (EvOrder o')" if "liquidation_intent h p cause reason = Inr o'" for o'
      using that assms(3) \<open>p \<in> set states\<close>
      by (intro event_ok_order) (auto simp: liquidation_intent_def Let_def split: sum.splits dest!: create_meta_Inr check_order_Inr)
    then show ?thesis using that by (auto simp: liquidate_one_def split: if_splits sum.splits)
  qed
  have "\<forall>y \<in> set es. paper_event_ok K y"
    by (rule fold_prog_Inr_inv [where J = "\<lambda>acc s. \<forall>y \<in> set acc. paper_event_ok K y", OF one assms(1) [unfolded liquidator_intents_def]]) auto
  then show ?thesis using assms(2) by blast
qed

lemma router_emits:
  assumes "router_on_signal c l e = Inr es" and "x \<in> set es"
  shows "paper_event_ok K x"
proof -
  have ok: "paper_event_ok K (EvOrder o')" if "router_order c (the own) s side n red = Inr o'" "truthy own" for own s side n red o'
    using that by (intro event_ok_order) (auto simp: router_order_def truthy_def split: sum.splits dest!: create_meta_Inr check_order_Inr)
  show ?thesis using assms
    by (auto simp: router_on_signal_def execution_owner_def split: domain_event.splits sum.splits signal_action.splits
        option.splits if_splits intro: ok)
qed

lemma ledger_on_fill_emits: "ledger_on_fill h (EvFill f) l = (Inr es, l') \<Longrightarrow> x \<in> set es \<Longrightarrow> paper_event_ok K x"
  by (auto simp: ledger_on_fill_def Let_def split: if_splits sum.splits prod.splits)

lemma mark_emits: "mark_to_market h e l = (Inr es, l') \<Longrightarrow> x \<in> set es \<Longrightarrow> paper_event_ok K x"
  by (auto simp: mark_to_market_def split: domain_event.splits sum.splits)

lemma owners_after_fill:
  assumes "\<forall>x \<in> set (lg_positions l). pk_owner (fst x) \<noteq> []"
  shows "\<forall>x \<in> set (lg_positions (snd (ledger_on_fill h (EvFill f) l))). pk_owner (fst x) \<noteq> []"
proof -
  have put: "\<forall>x \<in> set (dict_put k v (lg_positions l)). pk_owner (fst x) \<noteq> []" if "pk_owner k \<noteq> []" for k and v :: pos_state
    using assms that set_dict_put_subset [of k v "lg_positions l"] by auto
  have "truthy (fill_owner f) \<Longrightarrow> pk_owner (ledger_fill_key (the (fill_owner f)) f) \<noteq> []"
    by (cases "fill_owner f") (simp_all add: ledger_fill_key_def)
  then show ?thesis unfolding ledger_on_fill_state
    using put assms by (auto simp: ledger_apply_def Let_def split: prod.splits)
qed

lemma account_on_order_emits: "account_on_order h l (EvOrder o') g = (Inr es, g') \<Longrightarrow> x \<in> set es \<Longrightarrow> paper_event_ok K x"
  using account_on_order_decides [of h l o' g es g'] account_decision_Inr by fastforce

lemma account_quiet:
  "account_on_status e g = (Inr es, g') \<Longrightarrow> es = []" "account_on_session e g = (Inr es, g') \<Longrightarrow> es = []"
  "account_on_fill l e g = (Inr es, g') \<Longrightarrow> es = []"
  by (auto simp: account_on_status_def account_on_session_def account_on_fill_def Let_def and_then_Inr
      split: domain_event.splits sum.splits if_splits)

section \<open>The contract\<close>

abbreviation paper_handlers :: "hashing \<Rightarrow> (order_intent \<Rightarrow> string option) \<Rightarrow> event_kind \<Rightarrow> account_gate exec_world handler list" where
  "paper_handlers h guard \<equiv> pipeline_handlers (paper_exec_config h) (account_gate_ops h) (Some (entry_prefill_risk h guard))"

lemma in_parts:
  "in_broker m w = (r, w') \<longleftrightarrow> (\<exists>b. m (xw_broker w) = (r, b) \<and> w' = w\<lparr>xw_broker := b\<rparr>)"
  "in_ledger m' w = (r', w') \<longleftrightarrow> (\<exists>l. m' (xw_ledger w) = (r', l) \<and> w' = w\<lparr>xw_ledger := l\<rparr>)"
  "in_liquidator m'' w = (r'', w') \<longleftrightarrow> (\<exists>p. m'' (xw_pending w) = (r'', p) \<and> w' = w\<lparr>xw_pending := p\<rparr>)"
  "in_gate n w = (q, w') \<longleftrightarrow> (\<exists>g. n (xw_gate w) = (q, g) \<and> w' = w\<lparr>xw_gate := g\<rparr>)"
  "in_broker_gate n' w = (q', w') \<longleftrightarrow> (\<exists>b g. n' (xw_broker w, xw_gate w) = (q', (b, g)) \<and> w' = w\<lparr>xw_broker := b, xw_gate := g\<rparr>)"
  by (auto simp: in_broker_def in_ledger_def in_liquidator_def in_gate_def in_broker_gate_def split: prod.splits)

lemma world_ok_update [simp]:
  "paper_world_ok K (w\<lparr>xw_pending := p\<rparr>) = paper_world_ok K w" "paper_world_ok K (w\<lparr>xw_gate := g\<rparr>) = paper_world_ok K w"
  by (simp_all add: paper_world_ok_def)

lemma world_ok_broker: "paper_world_ok K w \<Longrightarrow> orders_ok (keyed_events K) b \<Longrightarrow> paper_world_ok K (w\<lparr>xw_broker := b\<rparr>)"
  by (simp add: paper_world_ok_def)

lemma world_ok_effect: "paper_world_ok K w \<Longrightarrow> sim_effect (keyed_events K) (xw_broker w) es b \<Longrightarrow> paper_world_ok K (w\<lparr>xw_broker := b\<rparr>)"
  by (simp add: paper_world_ok_def sim_effect_def)

lemma order_handlers:
  assumes "paper_event_ok K (EvOrder o')" and "paper_world_ok K w"
  shows "in_broker (sim_on_order (EvOrder o')) w = (r, w') \<Longrightarrow> paper_world_ok K w' \<and> (\<forall>es. r = Inr es \<longrightarrow> (\<forall>x \<in> set es. paper_event_ok K x))"
    and "in_gate (account_on_order h l (EvOrder o')) w = (r, w') \<Longrightarrow> paper_world_ok K w' \<and> (\<forall>es. r = Inr es \<longrightarrow> (\<forall>x \<in> set es. paper_event_ok K x))"
proof -
  assume a: "in_broker (sim_on_order (EvOrder o')) w = (r, w')"
  then obtain b where b: "sim_on_order (EvOrder o') (xw_broker w) = (r, b)" "w' = w\<lparr>xw_broker := b\<rparr>" by (auto simp: in_parts)
  have "EvOrder o' \<in> keyed_events K" using assms(1) by (simp add: paper_event_ok_def)
  note eff = sim_on_order_effect [OF b(1) this]
  have "es = []" if "r = Inr es" for es
    using b(1) that by (auto simp: sim_on_order_def split: sum.splits if_splits)
  then show "paper_world_ok K w' \<and> (\<forall>es. r = Inr es \<longrightarrow> (\<forall>x \<in> set es. paper_event_ok K x))"
    using world_ok_effect [OF assms(2) eff] b(2) by auto
next
  assume "in_gate (account_on_order h l (EvOrder o')) w = (r, w')"
  then show "paper_world_ok K w' \<and> (\<forall>es. r = Inr es \<longrightarrow> (\<forall>x \<in> set es. paper_event_ok K x))"
    using assms(2) account_on_order_emits by (auto simp: in_parts)
qed

lemma risk_handler:
  assumes "paper_event_ok K (EvRisk d)" and "paper_world_ok K w"
    and "in_broker (sim_on_risk h lg (EvRisk d)) w = (r, w')"
  shows "paper_world_ok K w' \<and> (\<forall>es. r = Inr es \<longrightarrow> (\<forall>x \<in> set es. paper_event_ok K x))"
proof -
  obtain b where b: "sim_on_risk h lg (EvRisk d) (xw_broker w) = (r, b)" "w' = w\<lparr>xw_broker := b\<rparr>"
    using assms(3) by (auto simp: in_parts)
  have "EvRisk d \<in> keyed_events K" "check_risk_decision d = Inr d" using assms(1) by (simp_all add: keyed_events_def)
  then have "sim_effect (keyed_events K) (xw_broker w) (emitted r) b" using sim_on_risk_effect [OF b(1)] by auto
  from world_ok_effect [OF assms(2) this] b sim_on_risk_emits assms(2) show ?thesis by (auto simp: paper_world_ok_def)
qed

lemma bar_handlers:
  assumes "paper_world_ok K w"
  shows "sim_handler_bar h (Some (entry_prefill_risk h guard)) (EvBar bar) w = (r, w') \<Longrightarrow>
      paper_world_ok K w' \<and> (\<forall>es. r = Inr es \<longrightarrow> (\<forall>x \<in> set es. paper_event_ok K x))"
    and "mark_after_bar h (EvBar bar) w = (r, w') \<Longrightarrow> paper_world_ok K w' \<and> (\<forall>es. r = Inr es \<longrightarrow> (\<forall>x \<in> set es. paper_event_ok K x))"
    and "in_liquidator (liquidator_on_bar h (xw_ledger w) (xw_broker w) (EvBar bar)) w = (r, w') \<Longrightarrow>
      paper_world_ok K w' \<and> (\<forall>es. r = Inr es \<longrightarrow> (\<forall>x \<in> set es. paper_event_ok K x))"
proof -
  let ?pf = "Some (entry_prefill_risk h guard (xw_ledger w))"
  assume "sim_handler_bar h (Some (entry_prefill_risk h guard)) (EvBar bar) w = (r, w')"
  then obtain b g where b: "sim_on_bar h (Some (xw_ledger w)) ?pf (EvBar bar) (xw_broker w, xw_gate w) = (r, (b, g))"
    "w' = w\<lparr>xw_broker := b, xw_gate := g\<rparr>" by (auto simp: sim_handler_bar_def in_parts)
  have "checked_prefill ?pf" using recheck_checked by (auto simp: checked_prefill_def entry_prefill_risk_def)
  then have "\<forall>es. r = Inr es \<longrightarrow> (\<forall>x \<in> set es. paper_event_ok K x)"
    using sim_on_bar_emits [of h _ ?pf bar "(xw_broker w, xw_gate w)" _ _ K] b(1) assms by (auto simp: paper_world_ok_def)
  moreover have "sim_effect (keyed_events K) (xw_broker w) (emitted r) b"
    using sim_on_bar_effect [OF b(1), of "keyed_events K"] by simp
  ultimately show "paper_world_ok K w' \<and> (\<forall>es. r = Inr es \<longrightarrow> (\<forall>x \<in> set es. paper_event_ok K x))"
    using world_ok_effect [OF assms] b(2) by simp
next
  assume "mark_after_bar h (EvBar bar) w = (r, w')"
  moreover have "l' = l" if "mark_to_market h (EvBar bar) l = (q, l')" for l l' q
    using that by (auto simp: mark_to_market_def split: sum.splits)
  ultimately show "paper_world_ok K w' \<and> (\<forall>es. r = Inr es \<longrightarrow> (\<forall>x \<in> set es. paper_event_ok K x))"
    using assms mark_emits by (fastforce simp: mark_after_bar_def in_parts split: if_splits)
next
  assume "in_liquidator (liquidator_on_bar h (xw_ledger w) (xw_broker w) (EvBar bar)) w = (r, w')"
  moreover have "\<forall>p \<in> set (open_positions (xw_ledger w)). pk_owner (fst p) \<noteq> []"
    using assms by (simp add: paper_world_ok_def open_positions_def)
  ultimately show "paper_world_ok K w' \<and> (\<forall>es. r = Inr es \<longrightarrow> (\<forall>x \<in> set es. paper_event_ok K x))"
    using assms by (auto simp: in_parts liquidator_on_bar_def elim!: liquidator_emits)
qed

lemma session_handlers:
  assumes "paper_world_ok K w"
  shows "in_broker (sim_on_session h (EvSession se)) w = (r, w') \<Longrightarrow>
      paper_world_ok K w' \<and> (\<forall>es. r = Inr es \<longrightarrow> (\<forall>x \<in> set es. paper_event_ok K x))"
    and "in_liquidator (liquidator_on_session h (xw_ledger w) (xw_broker w) (EvSession se)) w = (r, w') \<Longrightarrow>
      paper_world_ok K w' \<and> (\<forall>es. r = Inr es \<longrightarrow> (\<forall>x \<in> set es. paper_event_ok K x))"
proof -
  assume "in_broker (sim_on_session h (EvSession se)) w = (r, w')"
  then obtain b where b: "sim_on_session h (EvSession se) (xw_broker w) = (r, b)" "w' = w\<lparr>xw_broker := b\<rparr>"
    by (auto simp: in_parts)
  show "paper_world_ok K w' \<and> (\<forall>es. r = Inr es \<longrightarrow> (\<forall>x \<in> set es. paper_event_ok K x))"
    using world_ok_effect [OF assms sim_on_session_effect [OF b(1)]] b sim_on_session_emits by auto
next
  assume "in_liquidator (liquidator_on_session h (xw_ledger w) (xw_broker w) (EvSession se)) w = (r, w')"
  moreover have "\<forall>p \<in> set (open_positions (xw_ledger w)). pk_owner (fst p) \<noteq> []"
    using assms by (simp add: paper_world_ok_def open_positions_def)
  ultimately show "paper_world_ok K w' \<and> (\<forall>es. r = Inr es \<longrightarrow> (\<forall>x \<in> set es. paper_event_ok K x))"
    using assms by (auto simp: in_parts liquidator_on_session_def elim!: liquidator_emits split: if_splits)
qed

lemma fill_handlers:
  assumes "paper_world_ok K w"
  shows "in_ledger (ledger_on_fill h (EvFill f)) w = (r, w') \<Longrightarrow>
      paper_world_ok K w' \<and> (\<forall>es. r = Inr es \<longrightarrow> (\<forall>x \<in> set es. paper_event_ok K x))"
    and "in_liquidator (liquidator_on_fill e) w = (r, w') \<Longrightarrow>
      paper_world_ok K w' \<and> (\<forall>es. r = Inr es \<longrightarrow> (\<forall>x \<in> set es. paper_event_ok K x))"
    and "in_gate (account_on_fill l e) w = (r, w') \<Longrightarrow>
      paper_world_ok K w' \<and> (\<forall>es. r = Inr es \<longrightarrow> (\<forall>x \<in> set es. paper_event_ok K x))"
proof -
  assume "in_ledger (ledger_on_fill h (EvFill f)) w = (r, w')"
  then obtain l where l: "ledger_on_fill h (EvFill f) (xw_ledger w) = (r, l)" "w' = w\<lparr>xw_ledger := l\<rparr>"
    by (auto simp: in_parts)
  have "\<forall>x \<in> set (lg_positions l). pk_owner (fst x) \<noteq> []"
    using owners_after_fill [of "xw_ledger w" h f] l(1) assms by (simp add: paper_world_ok_def)
  then show "paper_world_ok K w' \<and> (\<forall>es. r = Inr es \<longrightarrow> (\<forall>x \<in> set es. paper_event_ok K x))"
    using assms l ledger_on_fill_emits by (auto simp: paper_world_ok_def)
next
  assume "in_liquidator (liquidator_on_fill e) w = (r, w')"
  then show "paper_world_ok K w' \<and> (\<forall>es. r = Inr es \<longrightarrow> (\<forall>x \<in> set es. paper_event_ok K x))"
    using assms by (auto simp: in_parts liquidator_on_fill_def split: domain_event.splits if_splits)
next
  assume "in_gate (account_on_fill l e) w = (r, w')"
  then show "paper_world_ok K w' \<and> (\<forall>es. r = Inr es \<longrightarrow> (\<forall>x \<in> set es. paper_event_ok K x))"
    using assms account_quiet(3) by (fastforce simp: in_parts)
qed

lemma paper_handlers_keep:
  assumes "f \<in> set (paper_handlers h guard (event_kind_of e))" and "paper_event_ok K e" and "paper_world_ok K w"
    and "f e w = (r, w')"
  shows "paper_world_ok K w' \<and> (\<forall>es. r = Inr es \<longrightarrow> (\<forall>x \<in> set es. paper_event_ok K x))"
proof (cases e)
  case (EvSignal s)
  with assms have "w' = w" "r = router_on_signal (paper_exec_config h) (xw_ledger w) e" by (auto simp: pipeline_handlers_def Let_def)
  with assms(3) router_emits show ?thesis by metis
next
  case (EvOrder o')
  with assms(1,4) consider "in_broker (sim_on_order (EvOrder o')) w = (r, w')"
    | "in_gate (account_on_order h (xw_ledger w) (EvOrder o')) w = (r, w')"
    by (auto simp: pipeline_handlers_def Let_def account_gate_ops_def)
  then show ?thesis using order_handlers [OF assms(2) [unfolded EvOrder] assms(3)] by cases blast+
next
  case (EvRisk d)
  with assms(1,4) have "in_broker (sim_on_risk (xc_hashing (paper_exec_config h)) (Some (xw_ledger w)) (EvRisk d)) w = (r, w')"
    by (auto simp: pipeline_handlers_def Let_def)
  then show ?thesis using risk_handler [OF assms(2) [unfolded EvRisk] assms(3)] by blast
next
  case (EvBar bar)
  with assms(1,4) consider "sim_handler_bar h (Some (entry_prefill_risk h guard)) (EvBar bar) w = (r, w')"
    | "mark_after_bar h (EvBar bar) w = (r, w')"
    | "in_liquidator (liquidator_on_bar h (xw_ledger w) (xw_broker w) (EvBar bar)) w = (r, w')"
    by (auto simp: pipeline_handlers_def Let_def paper_exec_config_def)
  then show ?thesis using bar_handlers [OF assms(3)] by cases blast+
next
  case (EvSession s)
  with assms(1,4) consider "in_broker (sim_on_session h (EvSession s)) w = (r, w')"
    | "in_liquidator (liquidator_on_session h (xw_ledger w) (xw_broker w) (EvSession s)) w = (r, w')"
    | "in_gate (account_on_session (EvSession s)) w = (r, w')"
    by (auto simp: pipeline_handlers_def Let_def paper_exec_config_def account_gate_ops_def)
  then show ?thesis
  proof cases
    case 3
    then show ?thesis using assms(3) account_quiet(2) by (fastforce simp: in_parts)
  qed (use session_handlers [OF assms(3)] in blast)+
next
  case (EvFill f)
  with assms(1,4) consider "in_ledger (ledger_on_fill h (EvFill f)) w = (r, w')" | "in_liquidator (liquidator_on_fill e) w = (r, w')"
    | "in_gate (account_on_fill (xw_ledger w) e) w = (r, w')"
    by (auto simp: pipeline_handlers_def Let_def paper_exec_config_def account_gate_ops_def)
  then show ?thesis using fill_handlers [OF assms(3)] by cases blast+
next
  case (EvStatus s)
  with assms(1,4) have "in_gate (account_on_status e) w = (r, w')"
    by (auto simp: pipeline_handlers_def Let_def account_gate_ops_def)
  then show ?thesis using assms(3) account_quiet(1) by (fastforce simp: in_parts)
qed (use assms in \<open>simp_all add: pipeline_handlers_def Let_def\<close>)

interpretation paper: handler_contract "paper_handlers h guard" "paper_world_ok K" "paper_event_ok K" for h guard K
  by unfold_locales (use paper_handlers_keep in blast)+

section \<open>The ledger is the fold of the processed fills\<close>

definition booked :: "hashing \<Rightarrow> domain_event \<Rightarrow> ledger \<Rightarrow> ledger" where
  "booked h e l = (case e of EvFill f \<Rightarrow> ledger_step h l f | _ \<Rightarrow> l)"

abbreviation engine_ledger :: "'g exec_world engine \<Rightarrow> ledger" where
  "engine_ledger s \<equiv> xw_ledger (en_world s)"

lemma publish_world: "en_world (snd (publish e s)) = en_world s"
  using publish_frame [of e s "fst (publish e s)" "snd (publish e s)"] by simp

lemma emit_all_world:
  assumes "fold_prog (emit_one c) es u s = (r, s')"
  shows "en_world s' = en_world s"
proof (rule fold_prog_rel [where rel = "\<lambda>s s'. en_world s' = en_world s", OF _ _ _ assms])
  fix x b s r s'
  assume "emit_one c x b s = (r, s')"
  then show "en_world s' = en_world s"
    by (auto simp: emit_one_def and_then_def split: if_splits prod.splits sum.splits dest: publish_frame)
qed auto

lemma call_handler_world: "call_handler e f u s = (r, s') \<Longrightarrow> en_world s' = snd (f e (en_world s))"
  by (auto simp: call_handler_def split: prod.splits sum.splits dest: emit_all_world)

lemma quiet_handlers:
  assumes "fold_prog (call_handler e) hs u s = (r, s')" and "\<And>f w. f \<in> set hs \<Longrightarrow> xw_ledger (snd (f e w)) = xw_ledger w"
  shows "engine_ledger s' = engine_ledger s"
proof (rule fold_prog_rel [where rel = "\<lambda>s s'. engine_ledger s' = engine_ledger s", OF _ _ _ assms(1)])
  fix f b s r s'
  assume "f \<in> set hs" "call_handler e f b s = (r, s')"
  then show "engine_ledger s' = engine_ledger s" using call_handler_world assms(2) by metis
qed auto

lemma in_part_ledger:
  "xw_ledger (snd (in_broker m w)) = xw_ledger w" "xw_ledger (snd (in_liquidator m' w)) = xw_ledger w"
  "xw_ledger (snd (in_gate n w)) = xw_ledger w" "xw_ledger (snd (in_broker_gate n' w)) = xw_ledger w"
  by (simp_all add: in_broker_def in_liquidator_def in_gate_def in_broker_gate_def split: prod.splits)

lemma mark_ledger: "xw_ledger (snd (mark_after_bar h e w)) = xw_ledger w"
  by (auto simp: mark_after_bar_def in_ledger_def mark_to_market_def split: domain_event.splits sum.splits prod.splits)

lemma handlers_book:
  assumes "fold_prog (call_handler e) (pipeline_handlers c gate pf (event_kind_of e)) () s = (r, s')"
  shows "engine_ledger s' = booked (xc_hashing c) e (engine_ledger s)"
proof (cases "\<exists>f. e = EvFill f")
  case False
  have quiet: "xw_ledger (snd (f e w)) = xw_ledger w" if "f \<in> set (pipeline_handlers c gate pf (event_kind_of e))" for f w
    using that False
    by (cases e; cases "go_on_order_status gate"; cases "go_on_session gate")
      (auto simp: pipeline_handlers_def Let_def in_part_ledger mark_ledger sim_handler_bar_def)
  have "engine_ledger s' = engine_ledger s" by (rule quiet_handlers [OF assms]) (rule quiet)
  then show ?thesis using False by (auto simp: booked_def split: domain_event.splits)
next
  case True
  then obtain f where e: "e = EvFill f" by blast
  let ?f1 = "\<lambda>e. in_ledger (ledger_on_fill (xc_hashing c) e)"
  let ?rest = "(\<lambda>e. in_liquidator (liquidator_on_fill e)) # optional_list (go_on_fill gate)"
  have hs: "pipeline_handlers c gate pf (event_kind_of e) = ?f1 # ?rest" by (simp add: e pipeline_handlers_def Let_def)
  obtain q t where q: "call_handler e ?f1 () s = (q, t)" by fastforce
  have t: "engine_ledger t = booked (xc_hashing c) e (engine_ledger s)"
    using call_handler_world [OF q] by (auto simp: e in_ledger_def booked_def ledger_step_def split: prod.splits)
  have quiet: "xw_ledger (snd (g e w)) = xw_ledger w" if "g \<in> set ?rest" for g w
    using that by (cases "go_on_fill gate") (auto simp: in_part_ledger)
  show ?thesis
  proof (cases q)
    case (Inl err)
    then show ?thesis using assms q t unfolding hs by simp
  next
    case (Inr u)
    then have "fold_prog (call_handler e) ?rest () t = (r, s')" using assms q unfolding hs by simp
    then have "engine_ledger s' = engine_ledger t" by (rule quiet_handlers) (rule quiet)
    then show ?thesis using t by simp
  qed
qed

definition ledger_matches :: "hashing \<Rightarrow> ledger \<Rightarrow> 'g exec_world engine \<Rightarrow> bool" where
  "ledger_matches h l0 s \<longleftrightarrow> engine_ledger s = fold (booked h) (history_events s) l0"

lemma matches_turn:
  assumes "ledger_matches h l0 s" and "xc_hashing c = h"
    and "fold_prog (call_handler (entry_event x)) (pipeline_handlers c gate pf (event_kind_of (entry_event x))) () (popped x q s) = (r, s')"
  shows "ledger_matches h l0 s'"
  using assms(1) handlers_book [OF assms(3)] handlers_frame [OF assms(3)] assms(2)
  by (simp add: ledger_matches_def handling_frame_def history_events_def history_popped)

lemma matches_loop:
  "engine_wf s \<Longrightarrow> en_handlers s = pipeline_handlers c gate pf \<Longrightarrow> xc_hashing c = h \<Longrightarrow> ledger_matches h l0 s \<Longrightarrow>
   ledger_matches h l0 (snd (engine_loop acc s))"
proof (induction acc s rule: engine_loop_induct)
  case (raise acc s x q err s')
  show ?case unfolding snd_conv by (rule matches_turn [OF raise.prems(3,2) raise(4) [unfolded raise.prems(1)]])
next
  case (turn acc s x q s' r)
  have "en_handlers s' = pipeline_handlers c gate pf"
    using handlers_frame [OF turn(4)] turn.prems(1) by (simp add: handling_frame_def)
  then show ?case using turn.IH turn.prems matches_turn [OF turn.prems(3,2) turn(4) [unfolded turn.prems(1)]] by blast
qed auto

lemma matches_publish: "ledger_matches h l0 s \<Longrightarrow> publish e s = (r, s') \<Longrightarrow> ledger_matches h l0 s'"
  using publish_frame [of e s r s'] by (simp add: ledger_matches_def history_events_def)

end
