(* ===== verification/Paper_Safety.thy ===== *)
theory Paper_Safety
  imports Paper_Contract "HOL-Library.Sublist"
begin

text \<open>
  What the paper service guarantees over every sequence of its operations: a request key belongs to one
  order; and a restart rebuilds the books of the account from the recorded events, and blocks every owner
  whose records it finds inconsistent.
\<close>

section \<open>Operations\<close>

datatype paper_op =
    SubmitOp auth_user paper_command string kbar "instant option"
  | RequestOp auth_user broker_order_request kbar "instant option"
  | BarOp kbar
  | RejectAutoOp "string list" string
  | KillOp string string
  | ResetOp string string
  | BlockOp
  | AccountOp string

definition ignore_value :: "('s, 'a) prog \<Rightarrow> ('s, unit) prog" where
  "ignore_value m = and_then m (\<lambda>_. give ())"

definition paper_do :: "hashing \<Rightarrow> (instant \<Rightarrow> string) \<Rightarrow> instant \<times> paper_op \<Rightarrow> (paper_service, unit) prog" where
  "paper_do h iso_of x = (case x of (now, a) \<Rightarrow> (case a of
       SubmitOp u c key bar t \<Rightarrow> ignore_value (submit_paper h now u c key bar t)
     | RequestOp u r bar t \<Rightarrow> ignore_value (submit_request h now u r bar t)
     | BarOp bar \<Rightarrow> paper_on_bar h iso_of now bar
     | RejectAutoOp runtimes reason \<Rightarrow> ignore_value (reject_pending_auto_entries h now runtimes reason)
     | KillOp owner reason \<Rightarrow> service_kill_switch owner reason now
     | ResetOp owner reason \<Rightarrow> service_reset owner reason now
     | BlockOp \<Rightarrow> record_market_block
     | AccountOp owner \<Rightarrow> ignore_value (account_of owner)))"

text \<open>A call whose exception reaches the caller has left its changes behind.\<close>

definition paper_step :: "hashing \<Rightarrow> (instant \<Rightarrow> string) \<Rightarrow> paper_service \<Rightarrow> instant \<times> paper_op \<Rightarrow> paper_service" where
  "paper_step h iso_of s x = snd (paper_do h iso_of x s)"

text \<open>Users of the service are authenticated: they have an identifier.\<close>

definition authenticated :: "instant \<times> paper_op \<Rightarrow> bool" where
  "authenticated x = (case snd x of SubmitOp u _ _ _ _ \<Rightarrow> au_id u \<noteq> [] | RequestOp u _ _ _ \<Rightarrow> au_id u \<noteq> [] | _ \<Rightarrow> True)"

section \<open>The invariant\<close>

abbreviation history_of :: "paper_service \<Rightarrow> domain_event list" where
  "history_of s \<equiv> history_events (sv_engine s)"

definition keys_of :: "paper_service \<Rightarrow> request_keys" where
  "keys_of s = (\<lambda>r. (kr_owner r, kr_key r, kr_order r)) ` set (pst_keys (sv_store s))"

definition keys_unique :: "paper_service \<Rightarrow> bool" where
  "keys_unique s \<longleftrightarrow> distinct (map (\<lambda>r. (kr_owner r, kr_key r)) (pst_keys (sv_store s)))"

definition service_inv :: "hashing \<Rightarrow> (order_intent \<Rightarrow> string option) \<Rightarrow> ledger \<Rightarrow> paper_service \<Rightarrow> bool" where
  "service_inv h guard l0 s \<longleftrightarrow> engine_wf (sv_engine s) \<and> paper.keeps h guard (keys_of s) (sv_engine s)
     \<and> ledger_matches h l0 (sv_engine s) \<and> keys_unique s"

text \<open>The recorded events are the owned events of the history, in order.\<close>

definition row_of :: "paper_event_row \<Rightarrow> string \<times> string \<times> stored_payload" where
  "row_of r = (pr_event_id r, pr_owner r, pr_payload r)"

definition logged_row :: "domain_event \<Rightarrow> string \<times> string \<times> stored_payload" where
  "logged_row e = (event_id_of e, the (em_owner (event_meta_of e)), Stored e)"

definition rows_ordered :: "instant \<Rightarrow> paper_event_row list \<Rightarrow> bool" where
  "rows_ordered now rs \<longleftrightarrow> map pr_seq rs = [1..<Suc (length rs)] \<and> sorted (map pr_recorded rs) \<and> (\<forall>r \<in> set rs. pr_recorded r \<le> now)"

definition logged :: "instant \<Rightarrow> paper_service \<Rightarrow> bool" where
  "logged now s \<longleftrightarrow> map row_of (pst_events (sv_store s)) = map logged_row (filter owned_event (history_of s))
     \<and> rows_ordered now (pst_events (sv_store s))"

lemma rows_later: "rows_ordered now rs \<Longrightarrow> now \<le> now' \<Longrightarrow> rows_ordered now' rs"
  by (auto simp: rows_ordered_def)

lemma logged_later: "logged now s \<Longrightarrow> now \<le> now' \<Longrightarrow> logged now' s"
  by (auto simp: logged_def intro: rows_later)

section \<open>Programs that keep it\<close>

text \<open>A program that needs the request keys \<open>P\<close>: it forgets no key and no history, keeps the invariant,
  and keeps the record complete unless it raises with the history changed.\<close>

definition sound :: "hashing \<Rightarrow> (order_intent \<Rightarrow> string option) \<Rightarrow> ledger \<Rightarrow> instant \<Rightarrow> request_keys \<Rightarrow> (paper_service, 'a) prog \<Rightarrow> bool" where
  "sound h guard l0 now P p \<longleftrightarrow> (\<forall>s r s'. p s = (r, s') \<and> P \<subseteq> keys_of s \<and> service_inv h guard l0 s \<longrightarrow>
     keys_of s \<subseteq> keys_of s' \<and> service_inv h guard l0 s' \<and> prefix (history_of s) (history_of s')
     \<and> (logged now s \<and> (is_ok r \<or> history_of s' = history_of s) \<longrightarrow> logged now s'))"

lemma soundI:
  assumes "\<And>s r s'. p s = (r, s') \<Longrightarrow> P \<subseteq> keys_of s \<Longrightarrow> service_inv h guard l0 s \<Longrightarrow>
      keys_of s \<subseteq> keys_of s' \<and> service_inv h guard l0 s' \<and> prefix (history_of s) (history_of s')"
    and "\<And>s r s'. p s = (r, s') \<Longrightarrow> P \<subseteq> keys_of s \<Longrightarrow> service_inv h guard l0 s \<Longrightarrow> logged now s \<Longrightarrow>
      is_ok r \<or> history_of s' = history_of s \<Longrightarrow> logged now s'"
  shows "sound h guard l0 now P p"
  unfolding sound_def using assms by blast

lemma soundD:
  assumes "sound h guard l0 now P p" and "p s = (r, s')" and "P \<subseteq> keys_of s" and "service_inv h guard l0 s"
  shows "keys_of s \<subseteq> keys_of s'" and "service_inv h guard l0 s'" and "prefix (history_of s) (history_of s')"
    and "logged now s \<Longrightarrow> is_ok r \<or> history_of s' = history_of s \<Longrightarrow> logged now s'"
  using assms unfolding sound_def by blast+

lemma sound_pure: "sound h guard l0 now P (give x)" "sound h guard l0 now P (fail e)" "sound h guard l0 now P (lift_res q)"
  by (auto simp: sound_def)

text \<open>Sequences; what comes second may need the keys that the first has recorded.\<close>

lemma sound_then_keys:
  assumes f: "sound h guard l0 now P f" and g: "\<And>s x t. f s = (Inr x, t) \<Longrightarrow> sound h guard l0 now (Q x) (g x)"
    and Q: "\<And>s x t. f s = (Inr x, t) \<Longrightarrow> P \<subseteq> keys_of s \<Longrightarrow> service_inv h guard l0 s \<Longrightarrow> Q x \<subseteq> keys_of t"
  shows "sound h guard l0 now P (and_then f g)"
proof (rule soundI)
  fix s r s'
  assume a: "and_then f g s = (r, s')" and P: "P \<subseteq> keys_of s" and inv: "service_inv h guard l0 s"
  obtain q t where q: "f s = (q, t)" by fastforce
  note t = soundD [OF f q P inv]
  have two: "(\<exists>e. q = Inl e \<and> r = Inl e \<and> s' = t) \<or> (\<exists>x. q = Inr x \<and> g x t = (r, s'))"
    using a q by (cases q) (auto simp: and_then_def)
  have go: "keys_of t \<subseteq> keys_of s' \<and> service_inv h guard l0 s' \<and> prefix (history_of t) (history_of s')"
    and go_log: "logged now t \<Longrightarrow> is_ok r \<or> history_of s' = history_of t \<Longrightarrow> logged now s'"
    if x: "q = Inr x" "g x t = (r, s')" for x
    using soundD [OF g [OF q [unfolded x(1)]] x(2) Q [OF q [unfolded x(1)] P inv] t(2)] by simp_all
  from two t(1-3) go show "keys_of s \<subseteq> keys_of s' \<and> service_inv h guard l0 s' \<and> prefix (history_of s) (history_of s')"
    by (elim disjE exE conjE) (auto intro: prefix_order.trans dest: subset_trans)
  assume log: "logged now s" and ok: "is_ok r \<or> history_of s' = history_of s"
  from two show "logged now s'"
  proof (elim disjE exE conjE)
    fix x assume x: "q = Inr x" "g x t = (r, s')"
    have "is_ok r \<or> history_of s' = history_of t" using ok t(3) go [OF x] by (metis prefix_order.antisym)
    then show ?thesis using go_log [OF x] t(4) [OF log] x(1) by simp
  next
    fix e assume e: "q = Inl e" "r = Inl e" "s' = t"
    then show ?thesis using t(4) [OF log] ok by simp
  qed
qed

lemma sound_then:
  assumes "sound h guard l0 now P f" and "\<And>s x t. f s = (Inr x, t) \<Longrightarrow> sound h guard l0 now P (g x)"
  shows "sound h guard l0 now P (and_then f g)"
  by (rule sound_then_keys [where Q = "\<lambda>_. P", OF assms]) (use soundD(1) [OF assms(1)] in blast)+

lemma sound_by_state:
  assumes "\<And>s. P \<subseteq> keys_of s \<Longrightarrow> service_inv h guard l0 s \<Longrightarrow> \<exists>q. sound h guard l0 now (keys_of s) q \<and> p s = q s"
  shows "sound h guard l0 now P p"
proof (rule soundI)
  fix s r s'
  assume a: "p s = (r, s')" "P \<subseteq> keys_of s" "service_inv h guard l0 s"
  obtain q where q: "sound h guard l0 now (keys_of s) q" "q s = (r, s')" using assms [OF a(2,3)] a(1) by auto
  note D = soundD [OF q subset_refl a(3)]
  show "keys_of s \<subseteq> keys_of s' \<and> service_inv h guard l0 s' \<and> prefix (history_of s) (history_of s')" using D(1-3) by simp
  show "logged now s'" if "logged now s" "is_ok r \<or> history_of s' = history_of s" using D(4) that .
qed

lemma sound_if:
  assumes "sound h guard l0 now P p" and "sound h guard l0 now P q"
  shows "sound h guard l0 now P (\<lambda>s. if c s then p s else q s)"
  using assms unfolding sound_def by (metis (no_types, lifting))

lemma sound_mono: "sound h guard l0 now P p \<Longrightarrow> P \<subseteq> P' \<Longrightarrow> sound h guard l0 now P' p"
  unfolding sound_def by blast

lemma sound_fold:
  assumes "\<And>x b. x \<in> set xs \<Longrightarrow> sound h guard l0 now P (f x b)"
  shows "sound h guard l0 now P (fold_prog f xs b)"
  using assms
proof (induction xs arbitrary: b)
  case (Cons x xs)
  have "fold_prog f (x # xs) b = and_then (f x b) (\<lambda>b'. fold_prog f xs b')"
    by (auto simp: and_then_def fun_eq_iff split: prod.split sum.split)
  moreover have "sound h guard l0 now P (and_then (f x b) (\<lambda>b'. fold_prog f xs b'))"
    by (rule sound_then) (use Cons in auto)
  ultimately show ?case by simp
next
  case Nil
  have "fold_prog f [] b = give b" by (auto simp: fun_eq_iff)
  then show ?case using sound_pure(1) by metis
qed

section \<open>The elementary steps\<close>

lemma keeps_keys:
  fixes e :: paper_engine
  assumes "K \<subseteq> K'" and "paper.keeps h guard K e"
  shows "paper.keeps h guard K' e"
  using assms(2) event_ok_mono [OF assms(1)] world_ok_mono [OF assms(1), of "en_world e"] by (simp add: paper.keeps_def)

text \<open>Changes of the service that are outside the engine, the keys and the events.\<close>

lemma sound_update:
  assumes "\<And>s r s'. p s = (r, s') \<Longrightarrow> sv_engine s' = sv_engine s \<and> pst_keys (sv_store s') = pst_keys (sv_store s)
      \<and> pst_events (sv_store s') = pst_events (sv_store s)"
  shows "sound h guard l0 now P p"
proof (rule soundI)
  fix s r s'
  assume a: "p s = (r, s')"
  note [simp] = assms [OF a]
  show "keys_of s \<subseteq> keys_of s' \<and> service_inv h guard l0 s' \<and> prefix (history_of s) (history_of s')" if "service_inv h guard l0 s"
    using that by (simp add: service_inv_def keys_of_def keys_unique_def)
  show "logged now s'" if "logged now s" using that by (simp add: logged_def)
qed

text \<open>Changes of the engine alone, which leave its history and its ledger.\<close>

lemma sound_engine:
  assumes "\<And>s r e. m s = (r, e) \<Longrightarrow> history_events e = history_events s \<and> engine_ledger e = engine_ledger s"
    and "\<And>s r e. m s = (r, e) \<Longrightarrow> engine_wf s \<Longrightarrow> engine_wf e"
    and "\<And>s r e K. m s = (r, e) \<Longrightarrow> P \<subseteq> K \<Longrightarrow> paper.keeps h guard K s \<Longrightarrow> paper.keeps h guard K e"
  shows "sound h guard l0 now P (in_engine m)"
proof (rule soundI)
  fix s r s'
  assume "in_engine m s = (r, s')"
  then obtain e where e: "m (sv_engine s) = (r, e)" "s' = s\<lparr>sv_engine := e\<rparr>" by (auto simp: in_engine_def split: prod.splits)
  note hist = assms(1) [OF e(1)]
  show "keys_of s \<subseteq> keys_of s' \<and> service_inv h guard l0 s' \<and> prefix (history_of s) (history_of s')"
    if "P \<subseteq> keys_of s" "service_inv h guard l0 s"
    using that hist e(2) assms(2) [OF e(1)] assms(3) [OF e(1)]
    by (simp add: service_inv_def keys_of_def keys_unique_def ledger_matches_def)
  show "logged now s'" if "logged now s" using that hist e(2) by (simp add: logged_def)
qed

lemma sound_world:
  assumes "\<And>w r w' K. m w = (r, w') \<Longrightarrow> P \<subseteq> K \<Longrightarrow> xw_ledger w' = xw_ledger w \<and> (paper_world_ok K w \<longrightarrow> paper_world_ok K w')"
  shows "sound h guard l0 now P (in_world m)"
  unfolding in_world_def
  by (rule sound_engine)
    (auto simp: history_events_def engine_wf_def paper.keeps_def split: prod.splits dest: assms)

lemma sound_publish:
  assumes "paper_event_ok P e"
  shows "sound h guard l0 now P (in_engine (publish e))"
proof (rule sound_engine)
  fix s t :: paper_engine and r
  assume p: "publish e s = (r, t)"
  show "history_events t = history_events s \<and> engine_ledger t = engine_ledger s"
    using publish_frame [OF p] by (simp add: history_events_def)
  show "engine_wf t" if "engine_wf s" using publish_wf [OF p that] .
  show "paper.keeps h guard K t" if "P \<subseteq> K" "paper.keeps h guard K s" for K
    using paper.keeps_publish [OF p that(2) event_ok_mono [OF that(1) assms]] .
qed

lemma insert_events:
  assumes "distinct (map (\<lambda>x. event_id_of (fst x)) xs)"
    and "\<forall>x \<in> set xs. \<forall>r \<in> set (pst_events s). pr_event_id r \<noteq> event_id_of (fst x)"
    and "\<forall>x \<in> set xs. snd x = now" and "rows_ordered now (pst_events s)"
  shows "map row_of (pst_events (fold insert_event xs s)) = map row_of (pst_events s) @ map (\<lambda>x. logged_row (fst x)) xs
    \<and> rows_ordered now (pst_events (fold insert_event xs s)) \<and> pst_keys (fold insert_event xs s) = pst_keys s"
  using assms
proof (induction xs arbitrary: s)
  case (Cons x xs)
  let ?t = "insert_event x s"
  let ?r = "\<lparr> pr_seq = Suc (length (pst_events s)), pr_event_id = event_id_of (fst x),
     pr_owner = the (em_owner (event_meta_of (fst x))), pr_kind = kind_value (event_kind_of (fst x)),
     pr_occurred = event_at (fst x), pr_payload = Stored (fst x), pr_recorded = snd x \<rparr>"
  have new: "pst_events ?t = pst_events s @ [?r]" "pst_keys ?t = pst_keys s"
    using Cons.prems(2) by (auto simp: insert_event_def Let_def)
  have "rows_ordered now (pst_events ?t)"
    using Cons.prems(3,4) by (auto simp: new rows_ordered_def sorted_append)
  moreover have "\<forall>y \<in> set xs. \<forall>r \<in> set (pst_events ?t). pr_event_id r \<noteq> event_id_of (fst y)"
    using Cons.prems(1,2) by (auto simp: new image_iff)
  ultimately have ih: "map row_of (pst_events (fold insert_event xs ?t)) = map row_of (pst_events ?t) @ map (\<lambda>x. logged_row (fst x)) xs
      \<and> rows_ordered now (pst_events (fold insert_event xs ?t)) \<and> pst_keys (fold insert_event xs ?t) = pst_keys ?t"
    using Cons.prems(1,3) by (intro Cons.IH) auto
  have "row_of ?r = logged_row (fst x)" by (simp add: row_of_def logged_row_def)
  then show ?case using ih by (simp add: new)
qed simp

lemma insert_events_keys [simp]: "pst_keys (fold insert_event xs s) = pst_keys s"
proof (induction xs arbitrary: s)
  case (Cons x xs)
  have "pst_keys (insert_event x s) = pst_keys s" by (simp add: insert_event_def Let_def)
  then show ?case using Cons by simp
qed simp

lemma project_row_keeps [simp]: "pst_events (project_row r s) = pst_events s" "pst_keys (project_row r s) = pst_keys s"
  by (auto simp: project_row_def project_event_def project_intent_def project_fill_def project_position_def
      change_order_view_def update_order_view_def Let_def split: stored_payload.splits domain_event.splits option.splits)

lemma sync_keeps [simp]: "pst_events (sync_read_models s) = pst_events s" "pst_keys (sync_read_models s) = pst_keys s"
proof -
  have "pst_events (fold project_row rs t) = pst_events t \<and> pst_keys (fold project_row rs t) = pst_keys t" for rs t
    by (induction rs arbitrary: t) simp_all
  then show "pst_events (sync_read_models s) = pst_events s" "pst_keys (sync_read_models s) = pst_keys s"
    by (simp_all add: sync_read_models_def Let_def)
qed

lemma append_keys [simp]: "pst_keys (append_events es s) = pst_keys s"
  by (simp add: append_events_def record_write_def Let_def)

lemma append_new_events:
  assumes "distinct (map event_id_of (old @ new))" and "map row_of (pst_events s) = map logged_row (filter owned_event old)"
    and "rows_ordered now (pst_events s)"
  shows "map row_of (pst_events (append_events (map (\<lambda>e. (e, now)) new) s)) = map logged_row (filter owned_event (old @ new))
    \<and> rows_ordered now (pst_events (append_events (map (\<lambda>e. (e, now)) new) s))"
proof -
  let ?xs = "filter (\<lambda>x. owned_event (fst x)) (map (\<lambda>e. (e, now)) new)"
  have xs: "?xs = map (\<lambda>e. (e, now)) (filter owned_event new)" by (simp add: filter_map comp_def)
  have "distinct (map event_id_of (filter owned_event new))" using assms(1) by (simp add: distinct_map_filter)
  then have d: "distinct (map (\<lambda>x. event_id_of (fst x)) ?xs)" unfolding xs by (simp add: comp_def)
  have "pr_event_id ` set (pst_events s) = fst ` set (map row_of (pst_events s))" by (auto simp: row_of_def image_iff)
  also have "\<dots> \<subseteq> event_id_of ` set old" unfolding assms(2) by (auto simp: logged_row_def)
  finally have ids: "pr_event_id ` set (pst_events s) \<subseteq> event_id_of ` set old" .
  have fresh: "\<forall>x \<in> set ?xs. \<forall>r \<in> set (pst_events s). pr_event_id r \<noteq> event_id_of (fst x)"
  proof (intro ballI notI)
    fix x r
    assume "x \<in> set ?xs" and r: "r \<in> set (pst_events s)" and eq: "pr_event_id r = event_id_of (fst x)"
    then have "event_id_of (fst x) \<in> event_id_of ` set new" by auto
    moreover have "event_id_of (fst x) \<in> event_id_of ` set old" using ids r eq by (metis image_eqI subsetD)
    ultimately show False using assms(1) by auto
  qed
  have "\<forall>x \<in> set ?xs. snd x = now" by auto
  from insert_events [OF d fresh this assms(3)] show ?thesis
    using assms(2,3) by (auto simp: append_events_def Let_def record_write_def xs comp_def)
qed

lemma history_grows: "engine_wf s \<Longrightarrow> prefix (history_events s) (history_events (snd (engine_loop acc s)))"
proof (induction acc s rule: engine_loop_induct)
  case (raise acc s x q err s')
  show ?case using handlers_frame [OF raise(4)] by (simp add: handling_frame_def history_events_def history_popped)
next
  case (turn acc s x q s' r)
  have "prefix (history_events s) (history_events s')"
    using handlers_frame [OF turn(4)] by (simp add: handling_frame_def history_events_def history_popped)
  then show ?case using turn.IH by (rule prefix_order.trans)
qed auto

lemma sound_run: "sound h guard l0 now P (service_run now)"
proof (rule soundI)
  fix s r s'
  assume a: "service_run now s = (r, s')"
  let ?e = "sv_engine s"
  obtain q e where l: "engine_loop [] ?e = (q, e)" by fastforce
  have run: "engine_run_all ?e = (map_sum id (\<lambda>pes. \<lparr> er_processed = pes, er_duplicates = en_duplicates e \<rparr>) q, e)"
    using l by (cases q) (simp_all add: engine_run_all_def)
  have two: "(\<exists>err. q = Inl err \<and> r = Inl err \<and> s' = s\<lparr>sv_engine := e\<rparr>)
    \<or> (\<exists>pes. q = Inr pes \<and> s' = s\<lparr>sv_engine := e, sv_store := append_events (map (\<lambda>x. (pr_event x, now)) pes) (sv_store s)\<rparr>)"
    using a run by (cases q) (auto simp: service_run_def in_engine_def and_then_def)
  have eng: "sv_engine s' = e" "pst_keys (sv_store s') = pst_keys (sv_store s)" using two by auto
  have keys: "keys_of s' = keys_of s" "keys_unique s' = keys_unique s" using eng(2) by (simp_all add: keys_of_def keys_unique_def)
  assume "service_inv h guard l0 s"
  then have wf: "engine_wf ?e" and k: "paper.keeps h guard (keys_of s) ?e" and m: "ledger_matches h l0 ?e" and u: "keys_unique s"
    by (simp_all add: service_inv_def)
  have e: "e = snd (engine_loop [] ?e)" using l by simp
  have hs: "en_handlers ?e = paper_handlers h guard" using k by (simp only: paper.keeps_def)
  have hc: "xc_hashing (paper_exec_config h) = h" by (simp add: paper_exec_config_def)
  have "ledger_matches h l0 e" unfolding e by (rule matches_loop [OF wf hs hc m])
  moreover have wf': "engine_wf e" using engine_loop_wf [OF wf, of "[]"] e by simp
  moreover have "paper.keeps h guard (keys_of s) e" using paper.keeps_loop [OF wf k, of "[]"] e by simp
  moreover have "prefix (history_events ?e) (history_events e)" unfolding e by (rule history_grows [OF wf])
  ultimately show "keys_of s \<subseteq> keys_of s' \<and> service_inv h guard l0 s' \<and> prefix (history_of s) (history_of s')"
    using u eng(1) keys by (simp add: service_inv_def)
  assume log: "logged now s" and ok: "is_ok r \<or> history_of s' = history_of s"
  from two show "logged now s'"
  proof (elim disjE exE conjE)
    fix err assume "r = Inl err" "s' = s\<lparr>sv_engine := e\<rparr>"
    then show ?thesis using log ok by (simp add: logged_def)
  next
    fix pes assume q: "q = Inr pes"
      and s': "s' = s\<lparr>sv_engine := e, sv_store := append_events (map (\<lambda>x. (pr_event x, now)) pes) (sv_store s)\<rparr>"
    have "en_history e = en_history ?e @ pes" using engine_loop_returns [OF wf l [unfolded q]] by auto
    then have hist: "history_events e = history_events ?e @ map pr_event pes" by (simp add: history_events_def)
    have "distinct (map event_id_of (history_events e))" using engine_wf_history [OF wf'] by simp
    then have d: "distinct (map event_id_of (history_events ?e @ map pr_event pes))" by (simp only: hist)
    have pes: "map (\<lambda>x. (pr_event x, now)) pes = map (\<lambda>e. (e, now)) (map pr_event pes)" by simp
    have "history_of s' = history_of s @ map pr_event pes" by (simp add: s' hist)
    moreover have "sv_store s' = append_events (map (\<lambda>e. (e, now)) (map pr_event pes)) (sv_store s)" by (simp add: s' pes)
    ultimately show ?thesis using append_new_events [OF d, of "sv_store s" now] log by (simp only: logged_def)
  qed
qed

section \<open>Every operation\<close>

text \<open>Reserving a key: the key belongs afterwards to the order that is returned.\<close>

lemma reserve_request_returns:
  assumes "reserve_request owner k i s = (Inr j, t)"
  shows "(owner, k, j) \<in> keys_of t \<and> keys_of s \<subseteq> keys_of t \<and> (keys_unique s \<longrightarrow> keys_unique t)
    \<and> sv_engine t = sv_engine s \<and> pst_events (sv_store t) = pst_events (sv_store s)"
proof (cases "\<exists>r \<in> set (pst_keys (sv_store s)). is_key_row owner k r")
  case True
  then obtain r where r: "List.find (is_key_row owner k) (pst_keys (sv_store s)) = Some r"
    by (cases "List.find (is_key_row owner k) (pst_keys (sv_store s))") (auto simp: find_None_iff)
  note m = find_SomeD [OF r]
  then have "(owner, k, kr_order r) \<in> keys_of s" by (force simp: keys_of_def is_key_row_def)
  then show ?thesis using assms True r
    by (auto simp: reserve_request_def reserve_key_def order_for_key_def record_write_def keys_of_def keys_unique_def Let_def)
next
  case False
  let ?n = "\<lparr> kr_owner = owner, kr_key = k, kr_order = i \<rparr>"
  have "List.find (is_key_row owner k) (pst_keys (sv_store s) @ [?n]) = Some ?n"
  proof -
    have "List.find (is_key_row owner k) (pst_keys (sv_store s)) = None" using False by (simp add: find_None_iff)
    moreover have "is_key_row owner k ?n" by (simp add: is_key_row_def)
    ultimately show ?thesis by (simp add: find_append)
  qed
  then show ?thesis using assms False
    by (auto simp: reserve_request_def reserve_key_def order_for_key_def record_write_def keys_of_def keys_unique_def
        is_key_row_def Let_def)
qed

lemma sound_reserve: "sound h guard l0 now P (reserve_request owner k i)"
proof (rule soundI)
  fix s r s'
  assume a: "reserve_request owner k i s = (r, s')" and "service_inv h guard l0 s"
  moreover from a obtain j where "r = Inr j" by (auto simp: reserve_request_def split: prod.splits)
  moreover note keeps_keys [of "keys_of s" "keys_of s'" h guard "sv_engine s"]
  ultimately show "keys_of s \<subseteq> keys_of s' \<and> service_inv h guard l0 s' \<and> prefix (history_of s) (history_of s')"
    using reserve_request_returns [of owner k i s j s'] by (simp add: service_inv_def)
  show "logged now s'" if "logged now s"
    using that reserve_request_returns [of owner k i s j s'] a \<open>r = Inr j\<close> by (simp add: logged_def)
qed

lemma sound_price: "sound h guard l0 now P (note_price bar)"
  unfolding note_price_def
  by (rule sound_world)
    (auto simp: in_parts update_market_price_def paper_world_ok_def orders_ok_def split: if_splits)

lemma sound_allow: "sound h guard l0 now P (allow_user u)"
  unfolding allow_user_def by (rule sound_world) (auto simp: paper_world_ok_def)

lemma sound_track: "sound h guard l0 now P (track_submission now' v)"
  by (rule sound_update) (auto simp: track_submission_def)

lemma sound_replay: "sound h guard l0 now P (replay_order now' owner i c)"
  by (rule sound_update)
    (auto simp: replay_order_def track_submission_def and_then_def give_def split: option.splits if_splits)

lemma sound_record: "sound h guard l0 now P (submitted_record i)"
  by (rule sound_update) (auto simp: submitted_record_def split: option.splits)

lemma sound_note_auto: "sound h guard l0 now P (note_auto c t)"
  by (rule sound_update) (auto simp: note_auto_def)

lemma sound_execute: "paper_event_ok P (EvOrder o') \<Longrightarrow> sound h guard l0 now P (execute_order now t c bar o')"
  unfolding execute_order_def
  by (intro sound_then sound_price sound_publish sound_run sound_record sound_note_auto sound_track sound_pure)

lemma command_order_Inr:
  assumes "command_order h u c k bar t = Inr o'"
  shows "em_owner (oi_meta o') = Some (au_id u) \<and> oi_client_order_id o' = Some k \<and> oi_order_id o' \<noteq> []"
  using assms by (auto simp: command_order_def res_then_Inr dest!: create_meta_Inr check_order_Inr)

lemma sound_submit_new:
  assumes "au_id u \<noteq> []"
  shows "sound h guard l0 now P (submit_new h now t u c k bar)"
  unfolding submit_new_def
proof (rule sound_then [OF sound_allow], rule sound_then [OF sound_pure(3)])
  fix o' and s' t2 :: paper_service
  assume "lift_res (command_order h u c k bar t) s' = (Inr o', t2)"
  then have o': "em_owner (oi_meta o') = Some (au_id u)" "oi_client_order_id o' = Some k"
    using command_order_Inr by (auto simp: lift_res_def)
  show "sound h guard l0 now P (and_then (reserve_request (au_id u) k (oi_order_id o'))
      (\<lambda>j. if j \<noteq> oi_order_id o' then replay_order now (au_id u) j c else execute_order now t c bar o'))"
  proof (rule sound_then_keys [where Q = "\<lambda>j. {(au_id u, k, j)}"])
    show "{(au_id u, k, j)} \<subseteq> keys_of t" if "reserve_request (au_id u) k (oi_order_id o') s = (Inr j, t)" for s t j
      using reserve_request_returns [OF that] by simp
    show "sound h guard l0 now {(au_id u, k, j)}
        (if j \<noteq> oi_order_id o' then replay_order now (au_id u) j c else execute_order now t c bar o')" for j
    proof (cases "j = oi_order_id o'")
      case True
      then have "paper_event_ok {(au_id u, k, j)} (EvOrder o')"
        using o' assms by (simp add: paper_event_ok_def keyed_events_def)
      then show ?thesis using True sound_execute by simp
    qed (simp add: sound_replay)
  qed (rule sound_reserve)
qed

lemma sound_submit: "au_id u \<noteq> [] \<Longrightarrow> sound h guard l0 now P (submit_paper h now u c key bar t)"
proof (rule sound_by_state)
  fix s :: paper_service
  assume u: "au_id u \<noteq> []"
  let ?k = "strip key"
  consider "?k = [] \<or> 128 < length ?k" | "\<not> (?k = [] \<or> 128 < length ?k)" "truthy (order_for_key (au_id u) ?k (sv_store s))"
    | "\<not> (?k = [] \<or> 128 < length ?k)" "\<not> truthy (order_for_key (au_id u) ?k (sv_store s))" by blast
  then show "\<exists>q. sound h guard l0 now (keys_of s) q \<and> submit_paper h now u c key bar t s = q s"
  proof cases
    case 1
    then show ?thesis by (intro exI [of _ "fail (ValueError ''Idempotency-Key must contain 1 to 128 characters'')"])
      (simp add: submit_paper_def fail_def sound_pure)
  next
    case 2
    then show ?thesis by (intro exI conjI) (rule sound_replay, simp add: submit_paper_def Let_def)
  next
    case 3
    then show ?thesis by (intro exI conjI) (rule sound_submit_new [OF u], simp add: submit_paper_def Let_def)
  qed
qed

lemma sound_request: "au_id u \<noteq> [] \<Longrightarrow> sound h guard l0 now P (submit_request h now u r bar t)"
  unfolding submit_request_def
  by (rule sound_then [OF sound_pure(3)], rule sound_then [OF sound_pure(3)], rule sound_submit)

lemma sound_bar: "sound h guard l0 now P (paper_on_bar h iso_of now bar)"
proof (rule sound_by_state)
  fix s :: paper_service
  let ?late = "\<lambda>s1. case en_clock (sv_engine s1) of None \<Rightarrow> False | Some t \<Rightarrow> kb_received_time bar < t"
  let ?go = "and_then (lift_res (paper_bar_event h iso_of bar)) (\<lambda>b. and_then (in_engine (publish (EvBar b))) (\<lambda>_. service_run now))"
  let ?rest = "\<lambda>_ s1. if ?late s1 then (Inr (), s1) else ?go s1"
  have "sound h guard l0 now P (?rest u)" for P u
  proof -
    have "sound h guard l0 now P ?go"
      by (rule sound_then [OF sound_pure(3)], rule sound_then [OF sound_publish sound_run]) simp
    from sound_if [OF sound_pure(1) this] show ?thesis unfolding give_def .
  qed
  then have all: "sound h guard l0 now (keys_of s) (and_then (note_price bar) ?rest)" by (rule sound_then [OF sound_price])
  show "\<exists>q. sound h guard l0 now (keys_of s) q \<and> paper_on_bar h iso_of now bar s = q s"
  proof (cases "kb_status bar = ClosedBar")
    case True
    then show ?thesis using all by (intro exI conjI) (assumption, simp add: paper_on_bar_def)
  next
    case False
    then show ?thesis by (intro exI [of _ "give ()"]) (simp add: paper_on_bar_def give_def sound_pure)
  qed
qed

lemma sound_put_order:
  assumes "record_ok (keyed_events P) i r"
  shows "sound h guard l0 now P (in_world (in_broker (\<lambda>b. (Inr (), put_order i r b))))"
proof (rule sound_world)
  fix w w' :: "account_gate exec_world" and q K
  assume "in_broker (\<lambda>b. (Inr (), put_order i r b)) w = (q, w')" and K: "P \<subseteq> K"
  then have w': "w' = w\<lparr>xw_broker := put_order i r (xw_broker w)\<rparr>" by (auto simp: in_broker_def)
  have "record_ok (keyed_events K) i r" using assms keyed_events_mono [OF K] by (auto simp: record_ok_def approval_in_def)
  then show "xw_ledger w' = xw_ledger w \<and> (paper_world_ok K w \<longrightarrow> paper_world_ok K w')"
    unfolding w' using orders_ok_put by (auto simp: paper_world_ok_def)
qed

lemma sound_reject_auto:
  assumes "record_ok (keyed_events P) (fst x) (snd x)"
  shows "sound h guard l0 now P (reject_auto h now' runtimes reason x vs)"
proof (cases "auto_entry runtimes (snd x)")
  case True
  let ?r = "mark_rejected reason (snd x)"
  let ?o = "or_intent ?r"
  let ?m = "res_then (create_meta h KOrderStatus now' ''paper_recovery'' (oi_order_id ?o @ '':'' @ reason)
      (em_correlation (oi_meta ?o)) (Some (em_id (oi_meta ?o))) (em_owner (oi_meta ?o)))
      (\<lambda>m. check_order_status \<lparr> os_meta = m, os_order_id = oi_order_id ?o, os_reason = reason \<rparr>)"
  have m: "reject_auto h now' runtimes reason x vs = and_then (in_world (in_broker (\<lambda>b. (Inr (), put_order (fst x) ?r b))))
      (\<lambda>_. and_then (lift_res ?m) (\<lambda>st. and_then (in_engine (publish (EvStatus st))) (\<lambda>_. give (vs @ [record_view ?r]))))"
    by (rule ext) (simp only: reject_auto_def Let_def True simp_thms if_False)
  show ?thesis unfolding m
    by (rule sound_then [OF sound_put_order [OF record_ok_reject [OF assms]]], rule sound_then [OF sound_pure(3)],
        rule sound_then [OF sound_publish sound_pure(1)]) simp
next
  case False
  then have "reject_auto h now' runtimes reason x vs = give vs" by (auto simp: reject_auto_def give_def Let_def fun_eq_iff)
  then show ?thesis using sound_pure(1) by simp
qed

lemma sound_reject_pending: "sound h guard l0 now P (reject_pending_auto_entries h now runtimes reason)"
proof (rule sound_by_state)
  fix s :: paper_service
  assume inv: "service_inv h guard l0 s"
  let ?q = "and_then (fold_prog (reject_auto h now runtimes reason) (sb_orders (service_broker s)) [])
      (\<lambda>vs. if vs = [] then give vs else and_then (service_run now) (\<lambda>_. give vs))"
  have "orders_ok (keyed_events (keys_of s)) (service_broker s)"
    using inv by (simp add: service_inv_def paper.keeps_def paper_world_ok_def service_broker_def)
  then have ok: "record_ok (keyed_events (keys_of s)) (fst x) (snd x)" if "x \<in> set (sb_orders (service_broker s))" for x
    using that by (auto simp: orders_ok_def)
  have rest: "sound h guard l0 now (keys_of s) (if vs = [] then give vs else and_then (service_run now) (\<lambda>_. give vs))" for vs
    by (cases "vs = []") (simp_all add: sound_pure sound_then [OF sound_run])
  have "sound h guard l0 now (keys_of s) ?q" by (rule sound_then [OF sound_fold rest]) (rule sound_reject_auto [OF ok])
  then show "\<exists>q. sound h guard l0 now (keys_of s) q \<and> reject_pending_auto_entries h now runtimes reason s = q s"
    by (intro exI conjI) (assumption, simp add: reject_pending_auto_entries_def)
qed

lemma sound_gate:
  "sound h guard l0 now P (in_world (in_gate m))"
  by (rule sound_world) (auto simp: in_parts)

lemma sound_control: "sound h guard l0 now P (\<lambda>s. (Inr x, s\<lparr>sv_store := append_control owner a reason t t' (sv_store s)\<rparr>))"
  by (rule sound_update) (auto simp: append_control_def record_write_def)

lemma sound_account: "sound h guard l0 now P (account_of owner)"
proof (rule sound_by_state)
  fix s :: paper_service
  define q :: "(paper_service, account_view) prog" where
    "q = in_world (\<lambda>w. case snapshot_account (xw_ledger w) owner (xw_gate w) of (snap, g) \<Rightarrow>
       (fst (account_of owner s), w\<lparr>xw_gate := g\<rparr>))"
  have "sound h guard l0 now (keys_of s) q" unfolding q_def
    by (rule sound_world) (auto split: prod.splits)
  moreover have "account_of owner s = q s"
    by (simp add: account_of_def q_def in_world_def in_engine_def Let_def split: prod.split)
  ultimately show "\<exists>q. sound h guard l0 now (keys_of s) q \<and> account_of owner s = q s" by blast
qed

lemma sound_ignore: "sound h guard l0 now P m \<Longrightarrow> sound h guard l0 now P (ignore_value m)"
  unfolding ignore_value_def by (rule sound_then [OF _ sound_pure(1)])

lemma sound_do:
  assumes "authenticated x"
  shows "sound h guard l0 (fst x) {} (paper_do h iso_of x)"
proof -
  obtain now a where x: "x = (now, a)" by fastforce
  show ?thesis
  proof (cases a)
    case (KillOp owner reason)
    then show ?thesis using sound_then [OF sound_gate sound_control] by (simp add: x paper_do_def service_kill_switch_def)
  next
    case (ResetOp owner reason)
    then show ?thesis using sound_then [OF sound_gate sound_control] by (simp add: x paper_do_def service_reset_def)
  next
    case BlockOp
    have "sound h guard l0 now {} record_market_block" by (rule sound_update) (auto simp: record_market_block_def)
    then show ?thesis by (simp add: x paper_do_def BlockOp)
  qed (use assms in \<open>auto simp: x paper_do_def authenticated_def
      intro!: sound_ignore sound_submit sound_request sound_bar sound_reject_pending sound_account\<close>)
qed

end
