(* ===== verification/Paper_Restart.thy ===== *)
theory Paper_Restart
  imports Paper_Safety
begin

text \<open>
  Opening the service on a recorded store: the ledger that recovery builds from the recorded fills, and
  what recovery says about the accounts it finds inconsistent.
\<close>

section \<open>Fills read back\<close>

text \<open>A payload does not distinguish an empty text from none (\<open>or None\<close>).\<close>

definition read_meta :: "event_meta \<Rightarrow> event_meta" where
  "read_meta m = m\<lparr>em_correlation := falsy_none (em_correlation m), em_causation := falsy_none (em_causation m),
     em_owner := falsy_none (em_owner m)\<rparr>"

definition read_fill :: "fill_event \<Rightarrow> fill_event" where
  "read_fill f = f\<lparr>fe_meta := read_meta (fe_meta f), fe_runtime := falsy_none (fe_runtime f),
     fe_decision := falsy_none (fe_decision f)\<rparr>"

definition read_state :: "pos_state \<Rightarrow> pos_state" where
  "read_state st = st\<lparr>ps_runtime := falsy_none (ps_runtime st), ps_decision := falsy_none (ps_decision st)\<rparr>"

definition read_ledger :: "ledger \<Rightarrow> ledger" where
  "read_ledger l = l\<lparr>lg_positions := map (map_prod id read_state) (lg_positions l)\<rparr>"

lemma good_fill_restores: "good_fill f \<Longrightarrow> restore_fill f = Inr (read_fill f) \<and> em_owner (fe_meta (read_fill f)) = em_owner (fe_meta f)"
  by (auto simp: good_fill_def restore_fill_def restore_meta_def res_then_Inr check_meta_def first_error_Inr check_fill_def
      read_fill_def read_meta_def falsy_none_def)

lemma read_state_simps [simp]:
  "ps_quantity (read_state st) = ps_quantity st" "ps_average_price (read_state st) = ps_average_price st"
  "read_state new_pos_state = new_pos_state"
  by (simp_all add: read_state_def new_pos_state_def falsy_none_def)

lemma read_fill_simps [simp]:
  "fe_fill_id (read_fill f) = fe_fill_id f" "signed_fill (read_fill f) = signed_fill f" "fe_price (read_fill f) = fe_price f"
  "ledger_fill_key owner (read_fill f) = ledger_fill_key owner f" "fill_cost (read_fill f) = fill_cost f"
  "em_at (fe_meta (read_fill f)) = em_at (fe_meta f)"
  by (simp_all add: read_fill_def read_meta_def signed_fill_def ledger_fill_key_def fill_cost_def)

lemma apply_fill_read:
  "apply_fill m k (read_fill f) (read_state st) = (case apply_fill m k f st of (st', tr) \<Rightarrow> (read_state st', tr))"
proof -
  have adopt: "adopt_fill (read_fill f) (read_state st) = read_state (adopt_fill f st)"
    by (simp add: adopt_fill_def read_state_def read_fill_def falsy_none_def)
  have cost: "(read_state st1)\<lparr>ps_total_cost := ps_total_cost (read_state st1) + c\<rparr> = read_state (st1\<lparr>ps_total_cost := ps_total_cost st1 + c\<rparr>)"
    for st1 c by (simp add: read_state_def)
  have inc: "increase_position (read_fill f) (read_state st1) = read_state (increase_position f st1)" for st1
    by (simp add: increase_position_def Let_def) (simp add: read_state_def read_fill_def)
  have trade: "closing_trade m k (read_fill f) (read_state st1) = closing_trade m k f st1" for st1
    by (cases "ps_opened_at st1") (simp_all add: closing_trade_def Let_def read_state_def, simp_all add: read_fill_def read_meta_def)
  have red: "reduce_position tr (read_fill f) (read_state st1) = read_state (reduce_position tr f st1)" for tr st1
    by (simp add: reduce_position_def Let_def) (simp add: read_state_def read_fill_def)
  show ?thesis by (simp add: apply_fill_def Let_def adopt cost inc trade red)
qed

lemma position_read: "ledger_position_at (read_ledger l) k = read_state (ledger_position_at l k)"
proof -
  have "map_of (map (map_prod id read_state) ps) k = map_option read_state (map_of ps k)" for ps
    by (induction ps) auto
  then show ?thesis by (simp add: ledger_position_at_def ledger_state_def read_ledger_def split: option.split)
qed

lemma dict_put_read: "dict_put k (read_state v) (map (map_prod id read_state) ps) = map (map_prod id read_state) (dict_put k v ps)"
  by (induction k v ps rule: dict_put.induct) auto

lemma ledger_step_read:
  assumes "truthy (fill_owner f)"
  shows "ledger_step h (read_ledger l) (read_fill f) = read_ledger (ledger_step h l f)"
proof -
  have own: "fill_owner (read_fill f) = fill_owner f"
    using assms by (simp add: fill_owner_def read_fill_def read_meta_def falsy_none_def)
  let ?k = "ledger_fill_key (the (fill_owner f)) f"
  obtain st tr where ap: "apply_fill (lg_multiplier l) ?k f (ledger_position_at l ?k) = (st, tr)" by fastforce
  have m: "lg_multiplier (read_ledger l) = lg_multiplier l" by (simp add: read_ledger_def)
  have "ledger_apply (read_fill f) (read_ledger l) = read_ledger (ledger_apply f l)"
    by (simp add: ledger_apply_def own m position_read apply_fill_read ap) (simp add: read_ledger_def dict_put_read)
  then show ?thesis using assms by (simp add: ledger_step_def ledger_on_fill_state own) (simp add: read_ledger_def)
qed

section \<open>The ledger that recovery builds\<close>

abbreviation recovered_ledger :: "recovery_progress \<Rightarrow> ledger" where
  "recovered_ledger p \<equiv> xw_ledger (rv_world p)"

lemma put_simps [simp]:
  "recovered_ledger (put_gate g p) = recovered_ledger p" "recovered_ledger (put_broker b p) = recovered_ledger p"
  "recovered_ledger (put_ledger l p) = l" "rv_world (note_issue owner code p) = rv_world p"
  by (simp_all add: put_gate_def put_broker_def put_ledger_def note_issue_def)

lemma recover_control_ledger [simp]: "recovered_ledger (recover_control c p) = recovered_ledger p"
  by (cases "cr_action c") (auto simp: recover_control_def Let_def split: prod.splits sum.splits unit.splits)

lemma book_fill_ledger: "recovered_ledger (book_fill h owner f p) = ledger_step h (recovered_ledger p) f"
  by (simp add: book_fill_def Let_def ledger_step_def split: prod.split sum.split list.split)

text \<open>The event a row records, if it can be read.\<close>

definition good_row :: "paper_event_row \<Rightarrow> bool" where
  "good_row r \<longleftrightarrow> (\<exists>e. pr_payload r = Stored e \<and> em_owner (event_meta_of e) = Some (pr_owner r)
     \<and> (\<forall>f. e = EvFill f \<longrightarrow> good_fill f))"

definition row_booked :: "hashing \<Rightarrow> paper_event_row \<Rightarrow> ledger \<Rightarrow> ledger" where
  "row_booked h r l = (case pr_payload r of Stored (EvFill f) \<Rightarrow> ledger_step h l (read_fill f) | _ \<Rightarrow> l)"

lemma recover_fill_ledger:
  assumes "good_fill f" and "em_owner (fe_meta f) = Some owner"
  shows "recovered_ledger (recover_fill h owner f p) = ledger_step h (recovered_ledger p) (read_fill f)"
  using good_fill_restores [OF assms(1)] assms(2) by (simp add: recover_fill_def Let_def book_fill_ledger)

lemma recover_row_ledger:
  assumes "good_row r"
  shows "recovered_ledger (recover_record h (EventRecord r) p) = row_booked h r (recovered_ledger p)"
proof -
  obtain e where e: "pr_payload r = Stored e" "em_owner (event_meta_of e) = Some (pr_owner r)"
    "\<forall>f. e = EvFill f \<longrightarrow> good_fill f" using assms by (auto simp: good_row_def)
  then show ?thesis
    by (cases e) (auto simp: recover_record_def recover_event_def row_booked_def recover_fill_ledger)
qed

primrec event_rows :: "recovery_record list \<Rightarrow> paper_event_row list" where
  "event_rows [] = []"
| "event_rows (x # xs) = (case x of EventRecord r \<Rightarrow> r # event_rows xs | ControlRecord _ \<Rightarrow> event_rows xs)"

lemma recover_records_ledger:
  "\<forall>r \<in> set (event_rows xs). good_row r \<Longrightarrow>
   recovered_ledger (fold (recover_record h) xs p) = fold (row_booked h) (event_rows xs) (recovered_ledger p)"
proof (induction xs arbitrary: p)
  case (Cons x xs)
  show ?case
  proof (cases x)
    case (EventRecord r)
    then show ?thesis using Cons recover_row_ledger [of r h p] by simp
  next
    case (ControlRecord c)
    then show ?thesis using Cons by (simp add: recover_record_def)
  qed
qed simp

lemma event_rows_filter: "event_rows xs = event_rows (filter (\<lambda>x. case x of EventRecord _ \<Rightarrow> True | _ \<Rightarrow> False) xs)"
  by (induction xs) (auto split: recovery_record.splits)

text \<open>Controls do not disturb the order of the events.\<close>

lemma event_rows_recovery:
  assumes "rows_ordered now (pst_events s)"
  shows "event_rows (recovery_records s) = pst_events s"
proof -
  let ?ev = "\<lambda>x. case x of EventRecord _ \<Rightarrow> True | ControlRecord _ \<Rightarrow> False"
  have "filter ?ev (map ControlRecord cs) = []" for cs by (induction cs) auto
  moreover have "filter ?ev (map EventRecord rs) = map EventRecord rs" for rs by (induction rs) auto
  ultimately have only: "filter ?ev (recovery_records s) = sort_key recovery_key (map EventRecord (pst_events s))"
    by (simp add: recovery_records_def filter_sort)
  have "sorted (map recovery_key (map EventRecord (pst_events s)))"
  proof -
    let ?rs = "pst_events s"
    have seq: "pr_seq (?rs ! i) = Suc i" if "i < length ?rs" for i
    proof -
      have "map pr_seq ?rs ! i = [1..<Suc (length ?rs)] ! i" using assms by (simp only: rows_ordered_def)
      then show ?thesis using that by (simp del: upt_Suc)
    qed
    have rec: "pr_recorded (?rs ! i) \<le> pr_recorded (?rs ! j)" if "i \<le> j" "j < length ?rs" for i j
      using assms sorted_nth_mono [of "map pr_recorded ?rs" i j] that by (simp add: rows_ordered_def)
    show ?thesis unfolding sorted_iff_nth_mono
    proof (intro allI impI)
      fix i j
      assume "i \<le> j" and "j < length (map recovery_key (map EventRecord ?rs))"
      then have "i < length ?rs" "j < length ?rs" "i \<le> j" by simp_all
      then show "map recovery_key (map EventRecord ?rs) ! i \<le> map recovery_key (map EventRecord ?rs) ! j"
        using rec [of i j] seq [of i] seq [of j] by (simp add: recovery_key_def less_eq_prod_def)
    qed
  qed
  then have "filter ?ev (recovery_records s) = map EventRecord (pst_events s)"
    unfolding only by (rule sort_key_id_if_sorted)
  moreover have "event_rows (map EventRecord rs) = rs" for rs by (induction rs) auto
  ultimately show ?thesis using event_rows_filter by metis
qed

lemma note_issues_world: "rv_world (fold (\<lambda>x. note_issue (f x) (g x)) xs p) = rv_world p"
  by (induction xs arbitrary: p) auto

lemma recover_order_ledger [simp]: "recovered_ledger (recover_order owner x p) = recovered_ledger p"
  by (auto simp: recover_order_def restore_pending_def Let_def split: option.split execution_timing.split sum.split prod.split)

lemma fold_ledger: "(\<And>x p. recovered_ledger (f x p) = recovered_ledger p) \<Longrightarrow> recovered_ledger (fold f xs p) = recovered_ledger p"
  by (induction xs arbitrary: p) auto

lemma compare_position_world [simp]: "rv_world (compare_position k p) = rv_world p"
  by (simp add: compare_position_def Let_def split: option.split)

lemma recovery_ledger:
  assumes "rows_ordered now (pst_events s)" and "\<forall>r \<in> set (pst_events s). good_row r"
  shows "xw_ledger (snd (paper_recover h t s w)) = fold (row_booked h) (pst_events s) (xw_ledger w)"
proof -
  have owners: "recovered_ledger (recover_owner_orders x p) = recovered_ledger p" for x p
    unfolding recover_owner_orders_def by (rule fold_ledger) simp
  have "recovered_ledger (recovery_checks h s w) = recovered_ledger (fold (recover_record h) (recovery_records s) (start_recovery w))"
    by (simp add: recovery_checks_def Let_def fold_ledger owners note_issues_world)
  also have "\<dots> = fold (row_booked h) (pst_events s) (xw_ledger w)"
    using assms recover_records_ledger [of "recovery_records s" h "start_recovery w"] event_rows_recovery [OF assms(1)]
    by (simp add: start_recovery_def)
  finally show ?thesis by (simp add: paper_recover_def Let_def)
qed

section \<open>A service from an empty store\<close>

definition served :: "hashing \<Rightarrow> (instant \<Rightarrow> string) \<Rightarrow> (instant \<times> paper_op) list \<Rightarrow> paper_service \<Rightarrow> paper_service" where
  "served h iso_of ops s = fold (\<lambda>x s. paper_step h iso_of s x) ops s"

text \<open>A quiet history: no call raises after it has changed the history of the engine, and the clock does
  not go back.\<close>

fun quiet :: "hashing \<Rightarrow> (instant \<Rightarrow> string) \<Rightarrow> instant \<Rightarrow> paper_service \<Rightarrow> (instant \<times> paper_op) list \<Rightarrow> bool" where
  "quiet h iso_of t s [] = True"
| "quiet h iso_of t s (x # xs) = (case paper_do h iso_of x s of (r, s') \<Rightarrow>
     t \<le> fst x \<and> (is_ok r \<or> history_of s' = history_of s) \<and> quiet h iso_of (fst x) s' xs)"

definition starting_ledger :: ledger where
  "starting_ledger = \<lparr> lg_multiplier = 10, lg_positions = [], lg_seen_fills = [], lg_trades = [] \<rparr>"

definition starting_world :: "account_gate exec_world" where
  "starting_world = \<lparr> xw_ledger = starting_ledger, xw_broker = new_sim_broker default_futures_costs False, xw_pending = [],
     xw_gate = new_account_gate default_account_limits default_futures_costs [] \<rparr>"

text \<open>The service on an open store, after recovery; its engine starts afresh.\<close>

definition service_on :: "(event_kind \<Rightarrow> account_gate exec_world handler list) \<Rightarrow> instant \<Rightarrow> paper_store
    \<Rightarrow> recovery_report \<times> account_gate exec_world \<Rightarrow> paper_service" where
  "service_on hs now s x =
     \<lparr> sv_engine = \<lparr> en_clock = None, en_max_events = 1000000, en_handlers = hs, en_queue = [], en_next_seq = 0,
         en_processed = [], en_queued = [], en_duplicates = [], en_history = [], en_world = snd x \<rparr>,
       sv_store = s, sv_recovery = fst x, sv_started = now, sv_submissions = 0, sv_filled = 0, sv_rejected = 0,
       sv_blocked = 0, sv_last_submission = None, sv_last_auto = None \<rparr>"

lemma new_paper_world_Inr: "new_paper_world h = Inr starting_world"
proof -
  have "new_ledger (fc_multiplier default_futures_costs) = Inr starting_ledger"
    by (simp add: new_ledger_def default_futures_costs_def starting_ledger_def first_error.simps)
  then show ?thesis by (simp add: new_paper_world_def new_exec_world_def paper_exec_config_def starting_world_def)
qed

lemma install_paper_handlers:
  assumes "en_handlers e = (\<lambda>_. [])"
  shows "install_paper h guard e = e\<lparr>en_handlers := paper_handlers h guard\<rparr>"
proof -
  obtain hs where hs: "install_paper h guard e = e\<lparr>en_handlers := hs\<rparr>" using install_frame unfolding install_paper_def by blast
  moreover have "en_handlers (install_paper h guard e) = paper_handlers h guard"
    unfolding install_paper_def by (rule install_handlers [OF assms])
  ultimately show ?thesis by simp
qed

lemma open_paper_service_eq: "open_paper_service h guard now file =
    Inr (service_on (paper_handlers h guard) now (open_paper_store file) (paper_recover h now (open_paper_store file) starting_world))"
  by (simp add: open_paper_service_def Let_def new_paper_world_Inr res_then_def new_engine_def first_error.simps
      install_paper_handlers service_on_def split: prod.split)

lemma recover_empty: "paper_recover h now (open_paper_store empty_paper_store) starting_world =
    (\<lparr> rr_at = now, rr_orders = 0, rr_fills = 0, rr_positions = 0, rr_issues = [] \<rparr>, starting_world)"
proof -
  have "open_paper_store empty_paper_store = empty_paper_store"
    by (simp add: open_paper_store_def sync_read_models_def empty_paper_store_def)
  then show ?thesis
    by (simp add: paper_recover_def recovery_checks_def recovery_records_def dangling_idempotency_def Let_def
        empty_paper_store_def start_recovery_def recovery_keys_def open_positions_def starting_world_def starting_ledger_def dedup_def)
qed

lemma fresh_service:
  assumes "open_paper_service h guard t0 empty_paper_store = Inr s"
  shows "service_inv h guard starting_ledger s \<and> logged t s \<and> keys_of s = {}"
proof -
  have s: "s = service_on (paper_handlers h guard) t0 (open_paper_store empty_paper_store)
      (paper_recover h t0 (open_paper_store empty_paper_store) starting_world)"
    using assms by (simp add: open_paper_service_eq)
  have tables: "pst_keys (sv_store s) = []" "pst_events (sv_store s) = []"
    by (simp_all add: s service_on_def open_paper_store_def) (simp_all add: empty_paper_store_def)
  have e: "sv_engine s = \<lparr> en_clock = None, en_max_events = 1000000, en_handlers = paper_handlers h guard, en_queue = [],
      en_next_seq = 0, en_processed = [], en_queued = [], en_duplicates = [], en_history = [], en_world = starting_world \<rparr>"
    by (simp add: s service_on_def recover_empty)
  have "paper_world_ok {} starting_world"
    by (simp add: paper_world_ok_def orders_ok_def new_sim_broker_def starting_ledger_def starting_world_def)
  moreover have "engine_wf (sv_engine s)"
    by (simp add: e engine_wf_def queue_wf_def history_wf_def entries_sorted_def history_events_def)
  moreover have "engine_ledger (sv_engine s) = starting_ledger" by (simp add: e starting_world_def)
  ultimately show ?thesis
    by (simp add: service_inv_def paper.keeps_def keys_of_def keys_unique_def ledger_matches_def logged_def rows_ordered_def
        history_events_def tables e)
qed

lemma step_sound:
  assumes "authenticated x" and "service_inv h guard l0 s"
  shows "service_inv h guard l0 (paper_step h iso_of s x)"
    and "logged (fst x) s \<Longrightarrow> is_ok (fst (paper_do h iso_of x s)) \<or> history_of (paper_step h iso_of s x) = history_of s \<Longrightarrow>
      logged (fst x) (paper_step h iso_of s x)"
  using soundD [OF sound_do [OF assms(1)], of _ _ s "fst (paper_do h iso_of x s)" "snd (paper_do h iso_of x s)"] assms(2)
  by (simp_all add: paper_step_def)

lemma served_inv:
  "\<forall>x \<in> set ops. authenticated x \<Longrightarrow> service_inv h guard l0 s \<Longrightarrow> service_inv h guard l0 (served h iso_of ops s)"
  by (induction ops arbitrary: s) (auto simp: served_def step_sound)

lemma served_logged:
  "\<forall>x \<in> set ops. authenticated x \<Longrightarrow> quiet h iso_of t s ops \<Longrightarrow> service_inv h guard l0 s \<Longrightarrow> logged t s \<Longrightarrow>
   \<exists>t'. logged t' (served h iso_of ops s)"
proof (induction ops arbitrary: t s)
  case (Cons x ops)
  have "logged (fst x) (paper_step h iso_of s x)"
    using Cons.prems step_sound(2) [of x h guard l0 s iso_of] logged_later [of t s "fst x"]
    by (simp add: paper_step_def split: prod.splits)
  then show ?case using Cons.IH [of "fst x" "paper_step h iso_of s x"] Cons.prems step_sound(1) [of x h guard l0 s iso_of]
    by (simp add: served_def paper_step_def split: prod.splits)
qed (auto simp: served_def)

lemma key_found:
  assumes "distinct (map (\<lambda>r. (kr_owner r, kr_key r)) (pst_keys st))"
    and "(owner, k, i) \<in> (\<lambda>r. (kr_owner r, kr_key r, kr_order r)) ` set (pst_keys st)"
  shows "order_for_key owner k st = Some i"
proof -
  obtain r where r: "r \<in> set (pst_keys st)" "is_key_row owner k r" "kr_order r = i" using assms(2) by (auto simp: is_key_row_def)
  then obtain q where q: "List.find (is_key_row owner k) (pst_keys st) = Some q"
    by (cases "List.find (is_key_row owner k) (pst_keys st)") (auto simp: find_None_iff)
  have "q = r" using find_SomeD [OF q] r assms(1) by (auto simp: distinct_map is_key_row_def dest!: inj_onD)
  then show ?thesis using q r(3) by (simp add: order_for_key_def)
qed

section \<open>Request keys\<close>

text \<open>C7. One order per request key: whatever users submit, however often and with whatever failures, and
  whatever bars, controls and rejections come between, two orders of the simulator with the same owner and
  the same request key are the same order, and it is the order the store names for the key.\<close>

theorem one_order_per_key:
  assumes "open_paper_service h guard t0 empty_paper_store = Inr s0" and "\<forall>x \<in> set ops. authenticated x"
    and "s = served h iso_of ops s0"
    and "order_of (service_broker s) i = Some r" and "oi_client_order_id (or_intent r) = Some k"
    and "order_of (service_broker s) j = Some q" and "oi_client_order_id (or_intent q) = Some k"
    and "em_owner (oi_meta (or_intent r)) = em_owner (oi_meta (or_intent q))"
  shows "i = j \<and> order_for_key (the (em_owner (oi_meta (or_intent r)))) k (sv_store s) = Some i"
proof -
  have inv: "service_inv h guard starting_ledger s"
    using served_inv [OF assms(2)] fresh_service [OF assms(1)] assms(3) by blast
  then have ok: "orders_ok (keyed_events (keys_of s)) (service_broker s)"
    by (simp add: service_inv_def paper.keeps_def paper_world_ok_def service_broker_def)
  let ?o = "the (em_owner (oi_meta (or_intent r)))"
  have at: "(?o, k, i) \<in> keys_of s" "(?o, k, j) \<in> keys_of s"
    using orders_ok_lookup [OF ok assms(4)] orders_ok_lookup [OF ok assms(6)] assms(5,7,8)
    by (auto simp: record_ok_def keyed_events_def)
  have u: "distinct (map (\<lambda>r. (kr_owner r, kr_key r)) (pst_keys (sv_store s)))"
    using inv by (simp add: service_inv_def keys_unique_def)
  note at [unfolded keys_of_def, THEN key_found [OF u]]
  then show ?thesis by simp
qed

section \<open>Restart\<close>

lemma good_event: "service_inv h guard l0 s \<Longrightarrow> EvFill f \<in> set (history_of s) \<Longrightarrow> good_fill f"
  by (auto simp: service_inv_def paper.keeps_def dest!: bspec)

lemma logged_good:
  assumes "service_inv h guard l0 s" and "logged now s"
  shows "\<forall>r \<in> set (pst_events (sv_store s)). good_row r"
proof
  fix r
  assume "r \<in> set (pst_events (sv_store s))"
  then have "row_of r \<in> set (map logged_row (filter owned_event (history_of s)))"
    using assms(2) by (metis (no_types, lifting) image_eqI list.set_map logged_def)
  then obtain e where e: "e \<in> set (history_of s)" "owned_event e" "row_of r = logged_row e" by auto
  then show "good_row r"
    using good_event [OF assms(1)] by (auto simp: good_row_def row_of_def logged_row_def owned_event_def truthy_def split: option.splits)
qed

text \<open>Booking the recorded rows is booking the history, read back.\<close>

definition payload_booked :: "hashing \<Rightarrow> string \<times> string \<times> stored_payload \<Rightarrow> ledger \<Rightarrow> ledger" where
  "payload_booked h x l = (case snd (snd x) of Stored (EvFill f) \<Rightarrow> ledger_step h l (read_fill f) | _ \<Rightarrow> l)"

lemma row_booked_payload: "row_booked h r = payload_booked h (row_of r)"
  by (simp add: fun_eq_iff row_booked_def payload_booked_def row_of_def)

lemma history_booked:
  "\<forall>f. EvFill f \<in> set es \<longrightarrow> good_fill f \<Longrightarrow>
   fold (payload_booked h) (map logged_row (filter owned_event es)) (read_ledger l) = read_ledger (fold (booked h) es l)"
proof (induction es arbitrary: l)
  case (Cons e es)
  have "fold (payload_booked h) (map logged_row (filter owned_event [e])) (read_ledger l) = read_ledger (booked h e l)"
    using Cons.prems by (cases e) (auto simp: payload_booked_def logged_row_def booked_def ledger_step_read good_fill_def
        fill_owner_def owned_event_def)
  then show ?case using Cons by (cases "owned_event e") simp_all
qed simp

lemma rows_rebuild:
  assumes "service_inv h guard starting_ledger s" and "logged now s"
  shows "fold (row_booked h) (pst_events (sv_store s)) starting_ledger = read_ledger (engine_ledger (sv_engine s))"
proof -
  have "fold (row_booked h) rs l = fold (payload_booked h) (map row_of rs) l" for rs l
  proof -
    have "row_booked h = payload_booked h \<circ> row_of" by (rule ext) (simp add: row_booked_payload)
    then show ?thesis by (simp only: fold_map)
  qed
  moreover have "read_ledger starting_ledger = starting_ledger" by (simp add: read_ledger_def starting_ledger_def)
  ultimately have "fold (row_booked h) (pst_events (sv_store s)) starting_ledger
      = fold (payload_booked h) (map logged_row (filter owned_event (history_of s))) (read_ledger starting_ledger)"
    using assms(2) by (simp add: logged_def)
  also have "\<dots> = read_ledger (fold (booked h) (history_of s) starting_ledger)"
    by (rule history_booked) (use good_event [OF assms(1)] in blast)
  finally show ?thesis using assms(1) by (simp add: service_inv_def ledger_matches_def)
qed

text \<open>C4. A restart loses nothing of the account: after a quiet history of a service that started on an
  empty store, a new service on what was recorded holds the same positions, realised trades and seen fills
  as the one that stopped (with empty identifiers read as none).\<close>

theorem restart_rebuilds_ledger:
  assumes "open_paper_service h guard t0 empty_paper_store = Inr s0" and "\<forall>x \<in> set ops. authenticated x"
    and "quiet h iso_of t0 s0 ops" and "s = served h iso_of ops s0"
  shows "\<exists>s'. open_paper_service h guard' t (sv_store s) = Inr s'
    \<and> engine_ledger (sv_engine s') = read_ledger (engine_ledger (sv_engine s))"
proof -
  note s0 = fresh_service [OF assms(1)]
  have inv: "service_inv h guard starting_ledger s" using served_inv [OF assms(2)] s0 assms(4) by blast
  obtain now where log: "logged now s" using served_logged [OF assms(2,3)] s0 assms(4) by blast
  have rows: "\<forall>r \<in> set (pst_events (sv_store s)). good_row r" by (rule logged_good [OF inv log])
  have "open_paper_store (sv_store s) = (sync_read_models (sv_store s))\<lparr>pst_writes := 0\<rparr>" by (simp add: open_paper_store_def)
  then have ev: "pst_events (open_paper_store (sv_store s)) = pst_events (sv_store s)" by simp
  have "xw_ledger (snd (paper_recover h t (open_paper_store (sv_store s)) starting_world)) =
      fold (row_booked h) (pst_events (sv_store s)) starting_ledger"
    using recovery_ledger [of now "open_paper_store (sv_store s)" h t starting_world] log rows
    by (simp add: ev logged_def starting_world_def)
  also have "\<dots> = read_ledger (engine_ledger (sv_engine s))" by (rule rows_rebuild [OF inv log])
  finally show ?thesis by (simp add: open_paper_service_eq service_on_def)
qed

end
