(* ===== verification/Paper_Recovery.thy ===== *)
theory Paper_Recovery
  imports Paper_Restart
begin

text \<open>What recovery says of the accounts: an owner with an inconsistent record is blocked, and the records of
  the others agree with the ledger that recovery built.\<close>

section \<open>Issues\<close>

definition flagged :: "string \<Rightarrow> recovery_progress \<Rightarrow> bool" where
  "flagged owner p \<longleftrightarrow> owner \<in> fst ` set (rv_issues p)"

lemma flagged_note [simp]: "flagged owner (note_issue x code p) \<longleftrightarrow> owner = x \<or> flagged owner p"
  by (auto simp: flagged_def note_issue_def keys_dict_put)

lemma flagged_put [simp]: "flagged owner (put_gate g p) = flagged owner p" "flagged owner (put_broker b p) = flagged owner p"
  "flagged owner (put_ledger l p) = flagged owner p"
  by (simp_all add: flagged_def put_gate_def put_broker_def put_ledger_def)

lemma positions_put [simp]: "rv_positions (put_gate g p) = rv_positions p" "rv_positions (put_broker b p) = rv_positions p"
  "rv_positions (put_ledger l p) = rv_positions p" "rv_positions (note_issue x code p) = rv_positions p"
  by (simp_all add: put_gate_def put_broker_def put_ledger_def note_issue_def)

text \<open>The last position that the store records under a key.\<close>

definition recorded_position :: "pos_key \<Rightarrow> recovery_record \<Rightarrow> position_event option" where
  "recorded_position k r = (case r of ControlRecord _ \<Rightarrow> None
     | EventRecord x \<Rightarrow> (case pr_payload x of
          Stored (EvPosition q) \<Rightarrow> if position_row_key (pr_owner x) q = k then Some q else None
        | _ \<Rightarrow> None))"

definition later_position :: "pos_key \<Rightarrow> recovery_record \<Rightarrow> position_event option \<Rightarrow> position_event option" where
  "later_position k r a = (case recorded_position k r of None \<Rightarrow> a | Some q \<Rightarrow> Some q)"

definition last_recorded :: "paper_store \<Rightarrow> pos_key \<Rightarrow> position_event option" where
  "last_recorded s k = fold (later_position k) (recovery_records s) None"

definition quantity_at :: "ledger \<Rightarrow> pos_key \<Rightarrow> int" where
  "quantity_at l k = (case map_of (open_positions l) k of None \<Rightarrow> 0 | Some st \<Rightarrow> ps_quantity st)"

definition recorded_quantity :: "paper_store \<Rightarrow> pos_key \<Rightarrow> int" where
  "recorded_quantity s k = (case last_recorded s k of None \<Rightarrow> 0 | Some q \<Rightarrow> pe_quantity q)"

lemma recover_control_frame:
  "rv_positions (recover_control c p) = rv_positions p" "flagged owner p \<Longrightarrow> flagged owner (recover_control c p)"
  by (cases "cr_action c"; auto simp: recover_control_def Let_def split: prod.splits sum.splits unit.splits)+

lemma flagged_fills [simp]: "flagged owner (p\<lparr>rv_fills := x\<rparr>) = flagged owner p"
  "flagged owner (p\<lparr>rv_restored_fills := n\<rparr>) = flagged owner p" "flagged owner (p\<lparr>rv_intents := y\<rparr>) = flagged owner p"
  "flagged owner (p\<lparr>rv_decisions := d\<rparr>) = flagged owner p" "flagged owner (p\<lparr>rv_terminal := z\<rparr>) = flagged owner p"
  "flagged owner (p\<lparr>rv_positions := ps\<rparr>) = flagged owner p"
  by (simp_all add: flagged_def)

lemma recover_fill_frame:
  "rv_positions (recover_fill h x f p) = rv_positions p \<and> (flagged owner p \<longrightarrow> flagged owner (recover_fill h x f p))"
  by (auto simp: recover_fill_def book_fill_def Let_def split: sum.splits prod.splits list.splits)

lemma recover_record_frame:
  "map_of (rv_positions (recover_record h r p)) k = later_position k r (map_of (rv_positions p) k)
   \<and> (flagged owner p \<longrightarrow> flagged owner (recover_record h r p))"
proof (cases r)
  case (ControlRecord c)
  then show ?thesis using recover_control_frame by (simp add: recover_record_def later_position_def recorded_position_def)
next
  case (EventRecord x)
  show ?thesis
  proof (cases "pr_payload x")
    case NotObject
    then show ?thesis by (simp add: EventRecord recover_record_def later_position_def recorded_position_def)
  next
    case (Stored e)
    then show ?thesis
      by (cases e) (use recover_fill_frame in \<open>auto simp: EventRecord recover_record_def later_position_def
        recorded_position_def recover_event_def Let_def\<close>)
  qed
qed

lemma recover_records_positions:
  "map_of (rv_positions (fold (recover_record h) rs p)) k = fold (later_position k) rs (map_of (rv_positions p) k)"
  by (induction rs arbitrary: p) (simp_all add: recover_record_frame)

lemma fold_flagged: "(\<And>x p. flagged owner p \<Longrightarrow> flagged owner (f x p)) \<Longrightarrow> flagged owner p \<Longrightarrow> flagged owner (fold f xs p)"
  by (induction xs arbitrary: p) auto

lemma fold_flags:
  assumes "x \<in> set xs" and "\<And>p. flagged owner (f x p)" and "\<And>y p. flagged owner p \<Longrightarrow> flagged owner (f y p)"
  shows "flagged owner (fold f xs p)"
proof -
  obtain ys zs where xs: "xs = ys @ x # zs" using assms(1) by (auto simp: in_set_conv_decomp)
  show ?thesis unfolding xs by (simp add: fold_flagged [where f = f, OF assms(3) assms(2)])
qed

lemma fold_positions: "(\<And>x p. rv_positions (f x p) = rv_positions p) \<Longrightarrow> rv_positions (fold f xs p) = rv_positions p"
  by (induction xs arbitrary: p) auto

lemma recover_order_frame:
  "rv_positions (recover_order owner x p) = rv_positions p" "flagged y p \<Longrightarrow> flagged y (recover_order owner x p)"
  by (auto simp: recover_order_def restore_pending_def Let_def split: option.split execution_timing.split sum.split prod.split)

lemma recover_owner_frame:
  "rv_positions (recover_owner_orders x p) = rv_positions p" "flagged y p \<Longrightarrow> flagged y (recover_owner_orders x p)"
  unfolding recover_owner_orders_def
  by (rule fold_positions, rule recover_order_frame) (rule fold_flagged, rule recover_order_frame)

lemma compare_position_frame:
  "rv_positions (compare_position k p) = rv_positions p" "flagged y p \<Longrightarrow> flagged y (compare_position k p)"
  by (auto simp: compare_position_def Let_def split: option.split)

lemma compare_flags:
  assumes "(case map_of (rv_positions p) k of None \<Rightarrow> 0 | Some q \<Rightarrow> pe_quantity q) \<noteq> quantity_at (recovered_ledger p) k"
  shows "flagged (pk_owner k) (compare_position k p)"
  using assms by (simp add: compare_position_def Let_def quantity_at_def)

lemma compares_flag:
  assumes "k \<in> set ks"
    and "(case map_of (rv_positions p) k of None \<Rightarrow> 0 | Some q \<Rightarrow> pe_quantity q) \<noteq> quantity_at (recovered_ledger p) k"
  shows "flagged (pk_owner k) (fold compare_position ks p)"
  using assms
proof (induction ks arbitrary: p)
  case (Cons x ks)
  show ?case
  proof (cases "x = k")
    case True
    then show ?thesis using Cons.prems(2) by (simp add: fold_flagged compare_position_frame compare_flags)
  next
    case False
    then show ?thesis using Cons by (simp add: compare_position_frame)
  qed
qed simp

section \<open>Blocked owners\<close>

lemma block_owners:
  "owner \<in> set os \<Longrightarrow> ac_kill (account_at (fold (block_owner now) os g) owner) \<and> ac_manual (account_at (fold (block_owner now) os g) owner)"
proof (induction os rule: rev_induct)
  case (snoc x os)
  let ?g = "fold (block_owner now) os g"
  have "account_at (block_owner now x ?g) owner = (if owner = x
      then (account_at ?g x)\<lparr>ac_kill := True, ac_kill_reason := Some ''recovery_inconsistent'', ac_manual := True\<rparr> else account_at ?g owner)"
    by (simp add: block_owner_def activate_kill_switch_def log_control_def put_account_def account_at_def)
  then show ?case using snoc by auto
qed simp

text \<open>An owner whom recovery does not flag: the three kinds of records agree.\<close>

lemma unflagged:
  assumes "\<not> flagged owner (recovery_checks h s w)"
  shows "(\<forall>k. pk_owner k = owner \<longrightarrow> recorded_quantity s k = quantity_at (recovered_ledger (recovery_checks h s w)) k)
    \<and> (\<forall>r \<in> set (dangling_idempotency s). kr_owner r \<noteq> owner)
    \<and> (\<forall>r \<in> set (pst_events s). pr_owner r = owner \<longrightarrow> pr_payload r \<noteq> NotObject)"
proof -
  let ?p1 = "fold (recover_record h) (recovery_records s) (start_recovery w)"
  let ?p2 = "fold (\<lambda>k. note_issue (kr_owner k) ''dangling_idempotency_key'') (dangling_idempotency s) ?p1"
  let ?p3 = "fold recover_owner_orders (rv_intents ?p2) ?p2"
  let ?p = "fold compare_position (recovery_keys ?p3) ?p3"
  have p: "recovery_checks h s w = ?p" by (simp add: recovery_checks_def Let_def)
  have n3: "\<not> flagged owner ?p3" using assms fold_flagged [where f = compare_position, OF compare_position_frame(2)]
    unfolding p by blast
  have n2: "\<not> flagged owner ?p2" using n3 fold_flagged [where f = recover_owner_orders, OF recover_owner_frame(2)] by blast
  have "flagged owner ?p1 \<Longrightarrow> flagged owner ?p2" by (rule fold_flagged) simp_all
  then have n1: "\<not> flagged owner ?p1" using n2 by blast
  have "rv_positions ?p2 = rv_positions ?p1" by (rule fold_positions) simp
  then have pos: "map_of (rv_positions ?p3) k = last_recorded s k" for k
    using fold_positions [where f = recover_owner_orders, OF recover_owner_frame(1)]
    by (simp add: recover_records_positions start_recovery_def last_recorded_def)
  have world: "rv_world ?p = rv_world ?p3"
  proof -
    have "rv_world (fold compare_position ks q) = rv_world q" for ks q by (induction ks arbitrary: q) simp_all
    then show ?thesis .
  qed
  have "recorded_quantity s k = quantity_at (recovered_ledger ?p) k" if own: "pk_owner k = owner" for k
  proof (cases "k \<in> set (recovery_keys ?p3)")
    case True
    have "\<not> flagged (pk_owner k) ?p" using assms unfolding own p .
    then have "(case map_of (rv_positions ?p3) k of None \<Rightarrow> 0 | Some q \<Rightarrow> pe_quantity q) = quantity_at (recovered_ledger ?p3) k"
      using compares_flag [OF True] by blast
    then show ?thesis by (simp only: pos world recorded_quantity_def)
  next
    case False
    then have "map_of (rv_positions ?p3) k = None" "map_of (open_positions (recovered_ledger ?p3)) k = None"
      by (auto simp: recovery_keys_def map_of_eq_None_iff)
    then show ?thesis by (simp add: recorded_quantity_def quantity_at_def world pos)
  qed
  moreover have "kr_owner r \<noteq> owner" if r: "r \<in> set (dangling_idempotency s)" for r
  proof
    assume "kr_owner r = owner"
    then have "flagged owner ?p2"
      by (intro fold_flags [where f = "\<lambda>k. note_issue (kr_owner k) ''dangling_idempotency_key''", OF r]) simp_all
    then show False using n2 by blast
  qed
  moreover have "pr_payload r \<noteq> NotObject" if r: "r \<in> set (pst_events s)" "pr_owner r = owner" for r
  proof
    assume "pr_payload r = NotObject"
    moreover have "EventRecord r \<in> set (recovery_records s)" using r(1) by (simp add: recovery_records_def)
    ultimately have "flagged owner ?p1"
      using r(2) recover_record_frame
      by (intro fold_flags [where f = "recover_record h" and x = "EventRecord r"]) (simp_all add: recover_record_def)
    then show False using n1 by blast
  qed
  ultimately show ?thesis unfolding p by blast
qed


end
