(* ===== verification/Paper_Instance.thy ===== *)
theory Paper_Instance
  imports Paper_Recovery
begin

section \<open>An instance\<close>

definition sample_trader :: auth_user where
  "sample_trader = \<lparr> au_id = ''a'', au_email = [], au_role = Trader, au_status = AccActive, au_mode = ModePaper,
     au_permissions = [''orders.paper''], au_subject = None, au_registered = True \<rparr>"

definition paper_bar :: "instant \<Rightarrow> price \<Rightarrow> kbar" where
  "paper_bar t p = \<lparr> kb_symbol = ''TMF'', kb_contract = ''C'', kb_time = t, kb_open = p, kb_high = p, kb_low = p, kb_close = p,
     kb_volume = 1, kb_status = ClosedBar, kb_session = DayBar, kb_trading_date = 0, kb_first_tick_time = t,
     kb_last_tick_time = t, kb_exchange_time = t, kb_received_time = t, kb_latency_ms = 0, kb_no_trade = False \<rparr>"

definition sample_command :: "order_side \<Rightarrow> int \<Rightarrow> bool \<Rightarrow> paper_command" where
  "sample_command d n exits = \<lparr> po_strategy = ''s'', po_version = 1, po_side = d, po_quantity = n,
     po_stop_loss_price = Some 90, po_reduce_only = exits, po_reason = ''r'', po_timing = CurrentClose, po_source = ManualOrder,
     po_runtime = Some [], po_decision = None, po_reference_price = None, po_stop_loss_pct = None,
     po_take_profit_pct = None, po_snapshot = None, po_correlation = None, po_causation = None \<rparr>"

definition sample_ops :: "(instant \<times> paper_op) list" where
  "sample_ops =
     [(10, SubmitOp sample_trader (sample_command Buy 1 False) ''k'' (paper_bar 10 100) None),
      (20, SubmitOp sample_trader (sample_command Buy 1 False) ''k'' (paper_bar 20 100) None)]"

text \<open>Short identifiers: the first letter of the kind and the time.\<close>

definition short_id :: "string \<Rightarrow> string" where
  "short_id s = take 1 s @ takeWhile (\<lambda>c. c \<noteq> CHR ''|'') (drop 1 (dropWhile (\<lambda>c. c \<noteq> CHR ''|'') s))"

definition short_hashing :: hashing where
  "short_hashing = sample_hashing\<lparr>sha256_hex := short_id\<rparr>"

text \<open>The handlers of the instance under a name of their own, so that evaluation looks at them only when they are called.\<close>

definition sample_handlers :: "event_kind \<Rightarrow> account_gate exec_world handler list" where
  "sample_handlers k = paper_handlers short_hashing (\<lambda>_. None) k"

definition sample_opened :: "instant \<Rightarrow> paper_store \<Rightarrow> paper_service" where
  "sample_opened now file = service_on sample_handlers now (open_paper_store file)
     (paper_recover short_hashing now (open_paper_store file) starting_world)"

lemma sample_opens: "open_paper_service short_hashing (\<lambda>_. None) now file = Inr (sample_opened now file)"
proof -
  have "sample_handlers = paper_handlers short_hashing (\<lambda>_. None)" by (rule ext) (rule sample_handlers_def)
  then show ?thesis by (simp add: open_paper_service_eq sample_opened_def)
qed

definition sample_end :: paper_service where
  "sample_end = served short_hashing show_int sample_ops (sample_opened 0 empty_paper_store)"

lemma sample_known: "\<forall>x \<in> set sample_ops. authenticated x"
  by code_simp

text \<open>A store with a reserved key whose order was never recorded.\<close>

definition stranded :: "paper_service \<Rightarrow> paper_store" where
  "stranded s = snd (reserve_key ''b'' ''z'' ''lost'' (sv_store s))"

definition paper_key :: pos_key where
  "paper_key = \<lparr> pk_owner = ''a'', pk_strategy = ''s'', pk_version = 1, pk_symbol = ''TMF'', pk_contract = ''C'' \<rparr>"

definition sample_view where
  "sample_view s = (map_option (\<lambda>r. (oi_client_order_id (or_intent r), em_owner (oi_meta (or_intent r)))) (order_of (service_broker s) ''o10''),
     map (ps_quantity \<circ> snd) (lg_positions (engine_ledger (sv_engine s))),
     recorded_quantity (sv_store (sample_opened 50 (stranded s))) paper_key,
     map (map_of (rr_issues (sv_recovery (sample_opened 50 (stranded s))))) [''a'', ''b''])"

lemma sample_viewed: "sample_view sample_end = (Some (Some ''k'', Some ''a''), [1], 1, [None, Some [''dangling_idempotency_key'']])"
  by code_simp

lemma one_order_per_key_witness: "order_for_key ''a'' ''k'' (sv_store sample_end) = Some ''o10''"
proof -
  obtain r where r: "order_of (service_broker sample_end) ''o10'' = Some r" "oi_client_order_id (or_intent r) = Some ''k''"
    "em_owner (oi_meta (or_intent r)) = Some ''a''"
    using sample_viewed by (auto simp: sample_view_def)
  show ?thesis using one_order_per_key [OF sample_opens sample_known sample_end_def r(1,2,1,2)] r(3) by simp
qed

lemma restart_rebuilds_ledger_witness:
  "map (ps_quantity \<circ> snd) (lg_positions (engine_ledger (sv_engine sample_end))) = [1]
   \<and> (\<exists>s'. open_paper_service short_hashing (\<lambda>_. None) 50 (sv_store sample_end) = Inr s'
     \<and> engine_ledger (sv_engine s') = read_ledger (engine_ledger (sv_engine sample_end)))"
proof -
  have q: "quiet short_hashing show_int 0 (sample_opened 0 empty_paper_store) sample_ops" by code_simp
  show ?thesis using sample_viewed restart_rebuilds_ledger [OF sample_opens sample_known q sample_end_def, of "\<lambda>_. None" 50]
    by (simp add: sample_view_def)
qed


text \<open>An order whose time is before the clock of the engine is refused by \<open>publish\<close> after its key was
  reserved: the key never gets an order, no retry is answered, and the next start blocks the account.\<close>

definition late_ops :: "(instant \<times> paper_op) list" where
  "late_ops = [(30, BarOp (paper_bar 30 102)),
     (31, SubmitOp sample_trader (sample_command Buy 1 False) ''k'' (paper_bar 30 102) (Some 20))]"

definition late_view where
  "late_view s = (order_for_key ''a'' ''k'' (sv_store s),
     fst (submit_paper short_hashing 40 sample_trader (sample_command Buy 1 False) ''k'' (paper_bar 40 102) None s),
     rr_issues (sv_recovery (sample_opened 50 (sv_store s))))"

lemma late_submission_strands_key:
  "late_view (served short_hashing show_int late_ops (sample_opened 0 empty_paper_store))
   = (Some ''o20'', Inl (RuntimeError ''paper idempotency record has no matching order''), [(''a'', [''dangling_idempotency_key''])])"
  by code_simp

text \<open>\<open>recovery_records\<close> orders by the wall clock: after the clock was set back, the events are not in the
  order in which they were written.\<close>

lemma recovery_order_follows_clock:
  "map (\<lambda>r. case r of EventRecord x \<Rightarrow> pr_seq x | ControlRecord c \<Rightarrow> 0)
     (recovery_records (append_events [(EvFill (sample_fill ''2'' Sell 1 100), 10)] (append_events [(EvFill (sample_fill ''1'' Buy 1 100), 20)] empty_paper_store)))
   = [2, 1]"
  by code_simp

end
