(* ===== verification/Rate_Limit.thy ===== *)
theory Rate_Limit
  imports Prelude
begin

text \<open>
  The sliding-window rate limiter of the HTTP interface (\<open>live/rate_limit.py\<close>).

  The ordered dictionary of the windows is an association list from the least to the most recently used
  key.  The clock is an argument of every check.
\<close>

section \<open>The limiter\<close>

record rate_rule =
  rq_limit :: int
  rq_window :: int

definition check_rate_rule :: "rate_rule \<Rightarrow> rate_rule res" where
  "check_rate_rule r = first_error
     [(rq_limit r \<le> 0, ValueError ''rate limit must be positive''),
      (rq_window r \<le> 0, ValueError ''rate limit window must be positive'')] r"

record rate_decision =
  rq_allowed :: bool
  rq_of :: int
  rq_remaining :: int
  rq_retry_after :: int
  rq_reset_after :: int

type_synonym rate_key = "string \<times> string"

record rate_limiter =
  rq_rules :: "(string \<times> rate_rule) list"
  rq_max_keys :: int
  rq_windows :: "(rate_key \<times> rat list) list"
  rq_accepted :: "(string \<times> nat) list"
  rq_rejected :: "(string \<times> nat) list"

definition new_rate_limiter :: "(string \<times> rate_rule) list \<Rightarrow> int \<Rightarrow> rate_limiter res" where
  "new_rate_limiter rules n = first_error [(n \<le> 0, ValueError ''max_keys must be positive'')]
     \<lparr> rq_rules = rules, rq_max_keys = n, rq_windows = [], rq_accepted = map (\<lambda>x. (fst x, 0)) rules,
       rq_rejected = map (\<lambda>x. (fst x, 0)) rules \<rparr>"

text \<open>\<open>_evict_if_full\<close>: the least recently used keys go while there is no room for one more.\<close>

definition evict_if_full :: "int \<Rightarrow> (rate_key \<times> rat list) list \<Rightarrow> (rate_key \<times> rat list) list" where
  "evict_if_full n ws = drop (length ws + 1 - nat n) ws"

definition count_scope :: "string \<Rightarrow> (string \<times> nat) list \<Rightarrow> (string \<times> nat) list" where
  "count_scope scope c = map (\<lambda>x. if fst x = scope then (fst x, snd x + 1) else x) c"

text \<open>The events of a key that are still in its window, and the windows without the key.\<close>

definition events_in_window :: "rat \<Rightarrow> rate_key \<Rightarrow> rate_limiter \<Rightarrow> rat list" where
  "events_in_window cutoff k l =
     dropWhile (\<lambda>e. e \<le> cutoff) (case map_of (rq_windows l) k of None \<Rightarrow> [] | Some es \<Rightarrow> es)"

definition other_windows :: "rate_key \<Rightarrow> rate_limiter \<Rightarrow> (rate_key \<times> rat list) list" where
  "other_windows k l = (case map_of (rq_windows l) k of
       None \<Rightarrow> evict_if_full (rq_max_keys l) (rq_windows l)
     | Some _ \<Rightarrow> filter (\<lambda>x. fst x \<noteq> k) (rq_windows l))"

definition seconds_left :: "rat list \<Rightarrow> rate_rule \<Rightarrow> rat \<Rightarrow> int" where
  "seconds_left es r now = max 1 \<lceil>hd es + of_int (rq_window r) - now\<rceil>"

definition rate_check :: "string \<Rightarrow> string \<Rightarrow> rat \<Rightarrow> (rate_limiter, rate_decision) prog" where
  "rate_check scope actor now l =
     (case map_of (rq_rules l) scope of
        None \<Rightarrow> (Inl (KeyError scope), l)
      | Some r \<Rightarrow>
          let k = (scope, actor);
              events = events_in_window (now - of_int (rq_window r)) k l;
              others = other_windows k l in
          if rq_limit r \<le> int (length events)
          then (Inr \<lparr> rq_allowed = False, rq_of = rq_limit r, rq_remaining = 0,
                  rq_retry_after = seconds_left events r now, rq_reset_after = seconds_left events r now \<rparr>,
                l\<lparr>rq_windows := others @ [(k, events)], rq_rejected := count_scope scope (rq_rejected l)\<rparr>)
          else let es = events @ [now] in
               (Inr \<lparr> rq_allowed = True, rq_of = rq_limit r, rq_remaining = rq_limit r - int (length es),
                  rq_retry_after = 0, rq_reset_after = seconds_left es r now \<rparr>,
                l\<lparr>rq_windows := others @ [(k, es)], rq_accepted := count_scope scope (rq_accepted l)\<rparr>))"

record rate_stats =
  rqs_active :: nat
  rqs_max_keys :: int
  rqs_scopes :: "(string \<times> rate_rule \<times> nat option \<times> nat option) list"

definition rate_stats_of :: "rate_limiter \<Rightarrow> rate_stats" where
  "rate_stats_of l = \<lparr> rqs_active = length (rq_windows l), rqs_max_keys = rq_max_keys l,
     rqs_scopes = map (\<lambda>x. (fst x, snd x, map_of (rq_accepted l) (fst x), map_of (rq_rejected l) (fst x))) (rq_rules l) \<rparr>"

section \<open>The limit holds\<close>

type_synonym rate_request = "rat \<times> string \<times> string"

definition rate_step :: "rate_limiter \<Rightarrow> rate_request \<Rightarrow> rate_limiter" where
  "rate_step l x = (case x of (now, scope, actor) \<Rightarrow> snd (rate_check scope actor now l))"

text \<open>When the requests of a key were accepted.\<close>

fun accepted_times :: "rate_limiter \<Rightarrow> rate_key \<Rightarrow> rate_request list \<Rightarrow> rat list" where
  "accepted_times l k [] = []"
| "accepted_times l k ((now, scope, actor) # xs) =
     (case fst (rate_check scope actor now l) of
        Inr d \<Rightarrow> if (scope, actor) = k \<and> rq_allowed d then [now] else []
      | Inl _ \<Rightarrow> []) @ accepted_times (rate_step l (now, scope, actor)) k xs"

definition in_span :: "rat \<Rightarrow> int \<Rightarrow> rat list \<Rightarrow> rat list" where
  "in_span t w us = filter (\<lambda>u. t - of_int w < u \<and> u \<le> t) us"

text \<open>The window of a key holds the accepted times after some past cutoff; the accepted times respect the limit.\<close>

definition key_inv :: "rate_rule \<Rightarrow> rate_key \<Rightarrow> rat list \<Rightarrow> rat \<Rightarrow> rate_limiter \<Rightarrow> bool" where
  "key_inv r k us now l \<longleftrightarrow> sorted us \<and> (\<forall>u \<in> set us. u \<le> now)
     \<and> (\<forall>t. int (length (in_span t (rq_window r) us)) \<le> rq_limit r)
     \<and> (case map_of (rq_windows l) k of
          None \<Rightarrow> us = []
        | Some es \<Rightarrow> \<exists>cut. cut \<le> now - of_int (rq_window r) \<and> es = filter (\<lambda>u. cut < u) us)"

definition limiter_inv :: "rate_key set \<Rightarrow> rate_limiter \<Rightarrow> bool" where
  "limiter_inv K l \<longleftrightarrow> distinct (map fst (rq_windows l)) \<and> fst ` set (rq_windows l) \<subseteq> K \<and> 0 < rq_max_keys l"

lemma drop_until: "sorted us \<Longrightarrow> dropWhile (\<lambda>e. e \<le> c) (filter (\<lambda>u. d < u) us) = filter (\<lambda>u. max c d < u) (us :: rat list)"
proof (induction us)
  case (Cons a us)
  show ?case
  proof (cases "d < a \<and> c < a")
    case True
    then have "filter (\<lambda>u. d < u) us = us" "filter (\<lambda>u. max c d < u) us = us"
      using Cons.prems by (auto simp: filter_id_conv)
    then show ?thesis using True by simp
  next
    case False
    then show ?thesis using Cons by (auto simp: not_less)
  qed
qed simp

lemma no_eviction:
  assumes "limiter_inv K l" and "finite K" and "int (card K) \<le> rq_max_keys l" and "k \<in> K"
  shows "map_of (other_windows k l) x = (if x = k then None else map_of (rq_windows l) x)"
proof (cases "map_of (rq_windows l) k")
  case None
  then have "fst ` set (rq_windows l) \<subseteq> K - {k}" using assms(1) by (auto simp: limiter_inv_def map_of_eq_None_iff)
  then have "card (fst ` set (rq_windows l)) \<le> card (K - {k})" using assms(2) by (simp add: card_mono)
  moreover have "card (fst ` set (rq_windows l)) = length (rq_windows l)"
    using assms(1) distinct_card [of "map fst (rq_windows l)"] by (simp add: limiter_inv_def)
  moreover have "card (K - {k}) < card K" by (rule card_Diff1_less [OF assms(2,4)])
  ultimately have "evict_if_full (rq_max_keys l) (rq_windows l) = rq_windows l"
    using assms(3) by (simp add: evict_if_full_def)
  then show ?thesis using None by (simp add: other_windows_def)
next
  case (Some es)
  have "map_of (filter (\<lambda>x. fst x \<noteq> k) ws) x = (if x = k then None else map_of ws x)" for ws :: "(rate_key \<times> rat list) list"
    by (induction ws) auto
  then show ?thesis using Some by (simp add: other_windows_def)
qed

lemma other_windows_keys:
  "distinct (map fst (rq_windows l)) \<Longrightarrow> distinct (map fst (other_windows k l)) \<and> fst ` set (other_windows k l) \<subseteq> fst ` set (rq_windows l) - {k}"
proof (cases "map_of (rq_windows l) k")
  case None
  assume d: "distinct (map fst (rq_windows l))"
  have "fst ` set (drop n ws) \<subseteq> fst ` set ws" "distinct (map fst ws) \<Longrightarrow> distinct (map fst (drop n ws))"
    for n and ws :: "(rate_key \<times> rat list) list"
    using set_drop_subset [of n ws] by (auto simp: drop_map [symmetric])
  moreover have "k \<notin> fst ` set (rq_windows l)" using None by (simp add: map_of_eq_None_iff)
  ultimately show ?thesis using d None unfolding other_windows_def evict_if_full_def by (simp only: option.case) blast
next
  case (Some es)
  assume "distinct (map fst (rq_windows l))"
  then show ?thesis using Some by (auto simp: other_windows_def distinct_map_filter)
qed

lemma rate_step_windows:
  assumes "rate_step l (now, scope, actor) = l'"
  shows "l' = l \<or> (\<exists>r. map_of (rq_rules l) scope = Some r \<and> (\<exists>es. rq_windows l' = other_windows (scope, actor) l @ [((scope, actor), es)]))"
  using assms by (auto simp: rate_step_def rate_check_def Let_def split: option.splits if_splits)

lemma limiter_inv_step:
  assumes "limiter_inv K l" and "(scope, actor) \<in> K"
  shows "limiter_inv K (rate_step l (now, scope, actor)) \<and> rq_rules (rate_step l (now, scope, actor)) = rq_rules l
    \<and> rq_max_keys (rate_step l (now, scope, actor)) = rq_max_keys l"
proof -
  have keys: "distinct (map fst (other_windows (scope, actor) l))" "fst ` set (other_windows (scope, actor) l) \<subseteq> fst ` set (rq_windows l) - {(scope, actor)}"
    using other_windows_keys [of l "(scope, actor)"] assms(1) by (simp_all add: limiter_inv_def)
  have "rq_rules (rate_step l (now, scope, actor)) = rq_rules l \<and> rq_max_keys (rate_step l (now, scope, actor)) = rq_max_keys l"
    by (auto simp: rate_step_def rate_check_def Let_def split: option.splits)
  moreover from rate_step_windows [OF refl, of l now scope actor] have "limiter_inv K (rate_step l (now, scope, actor))"
  proof (elim disjE exE conjE)
    fix r es
    assume "rq_windows (rate_step l (now, scope, actor)) = other_windows (scope, actor) l @ [((scope, actor), es)]"
    then show ?thesis using keys assms calculation by (auto simp: limiter_inv_def)
  qed (use assms in simp)
  ultimately show ?thesis by blast
qed

text \<open>A check of the key itself.\<close>

lemma own_check:
  assumes inv: "key_inv r (scope, actor) us now0 l" and r: "map_of (rq_rules l) scope = Some r" and w: "0 < rq_window r"
    and now: "now0 \<le> now" and q: "rate_check scope actor now l = (q, l')"
    and keep: "\<And>x. map_of (other_windows (scope, actor) l) x = (if x = (scope, actor) then None else map_of (rq_windows l) x)"
  shows "\<exists>d. q = Inr d \<and> key_inv r (scope, actor) (us @ (if rq_allowed d then [now] else [])) now l'"
proof -
  let ?k = "(scope, actor)" and ?w = "of_int (rq_window r) :: rat"
  let ?es = "events_in_window (now - ?w) ?k l"
  have us: "sorted us" "\<forall>u \<in> set us. u \<le> now0" "\<And>t. int (length (in_span t (rq_window r) us)) \<le> rq_limit r"
    using inv by (simp_all add: key_inv_def)
  have old: "\<forall>u \<in> set us. u \<le> now" using us(2) now by (meson order_trans)
  have es: "?es = filter (\<lambda>u. now - ?w < u) us"
  proof (cases "map_of (rq_windows l) ?k")
    case None
    then show ?thesis using inv by (simp add: events_in_window_def key_inv_def)
  next
    case (Some ws)
    then obtain cut where cut: "cut \<le> now0 - ?w" "ws = filter (\<lambda>u. cut < u) us" using inv by (auto simp: key_inv_def)
    then have "max (now - ?w) cut = now - ?w" using now by simp
    then show ?thesis using drop_until [OF us(1), of "now - ?w" cut] Some cut(2) by (simp add: events_in_window_def)
  qed
  show ?thesis
  proof (cases "rq_limit r \<le> int (length ?es)")
    case True
    then have q': "\<exists>d. q = Inr d \<and> \<not> rq_allowed d" "rq_windows l' = other_windows ?k l @ [(?k, ?es)]"
      using q by (auto simp: rate_check_def r Let_def)
    then have "map_of (rq_windows l') ?k = Some ?es" using keep [of ?k] by (simp add: map_add_def)
    then have "key_inv r ?k us now l'" using us old es by (auto simp: key_inv_def)
    then show ?thesis using q'(1) by auto
  next
    case False
    then have q': "\<exists>d. q = Inr d \<and> rq_allowed d" "rq_windows l' = other_windows ?k l @ [(?k, ?es @ [now])]"
      using q by (auto simp: rate_check_def r Let_def)
    then have win: "map_of (rq_windows l') ?k = Some (?es @ [now])" using keep [of ?k] by (simp add: map_add_def)
    have "int (length (in_span t (rq_window r) (us @ [now]))) \<le> rq_limit r" for t
    proof (cases "now \<le> t")
      case True
      have "in_span t (rq_window r) us = filter (\<lambda>u. t - ?w < u \<and> u \<le> t) (filter (\<lambda>u. now - ?w < u) us)"
        unfolding in_span_def filter_filter using True by (intro filter_cong) auto
      then have "length (in_span t (rq_window r) us) \<le> length ?es" unfolding es using length_filter_le by metis
      moreover have "length (in_span t (rq_window r) (us @ [now])) \<le> length (in_span t (rq_window r) us) + 1" by (simp add: in_span_def)
      ultimately show ?thesis using \<open>\<not> rq_limit r \<le> int (length ?es)\<close> by linarith
    next
      case False
      then have "in_span t (rq_window r) (us @ [now]) = in_span t (rq_window r) us" by (simp add: in_span_def)
      then show ?thesis using us(3) by simp
    qed
    moreover have "?es @ [now] = filter (\<lambda>u. now - ?w < u) (us @ [now])" using w by (simp add: es)
    ultimately have "key_inv r ?k (us @ [now]) now l'" using us(1) old win
      by (auto simp: key_inv_def sorted_append intro: exI [of _ "now - ?w"])
    then show ?thesis using q'(1) by auto
  qed
qed

lemma other_check:
  assumes "key_inv r k us now0 l" and "now0 \<le> now" and "(scope, actor) \<noteq> k"
    and keep: "\<And>x. map_of (other_windows (scope, actor) l) x = (if x = (scope, actor) then None else map_of (rq_windows l) x)"
  shows "key_inv r k us now (rate_step l (now, scope, actor))"
proof -
  have "map_of (rq_windows (rate_step l (now, scope, actor))) k = map_of (rq_windows l) k"
    using rate_step_windows [OF refl, of l now scope actor] keep [of k] assms(3)
    by (auto simp: map_add_def split: option.splits)
  moreover have "cut \<le> now0 - x \<Longrightarrow> cut \<le> now - x" for cut x :: rat using assms(2) by linarith
  moreover have "\<forall>u \<in> set us. u \<le> now" using assms(1,2) by (auto simp: key_inv_def intro: order_trans)
  ultimately show ?thesis using assms(1) unfolding key_inv_def by (cases "map_of (rq_windows l) k") fastforce+
qed

lemma accepted_within:
  assumes "finite K" and "int (card K) \<le> rq_max_keys l" and "k \<in> K" and "map_of (rq_rules l) (fst k) = Some r" and "0 < rq_window r"
    and "limiter_inv K l" and "key_inv r k us now0 l" and "sorted_wrt (\<le>) (now0 # map fst xs)" and "snd ` set xs \<subseteq> K"
  shows "int (length (in_span t (rq_window r) (us @ accepted_times l k xs))) \<le> rq_limit r"
  using assms(2,4,6-9)
proof (induction xs arbitrary: l us now0)
  case Nil
  then show ?case by (simp add: key_inv_def)
next
  case (Cons x xs)
  obtain now scope actor where x: "x = (now, scope, actor)" by (cases x) auto
  let ?l = "rate_step l x"
  have mem: "(scope, actor) \<in> K" "now0 \<le> now" using Cons.prems by (auto simp: x)
  note keep = no_eviction [OF Cons.prems(3) assms(1) Cons.prems(1) mem(1)]
  have li: "limiter_inv K ?l" "rq_rules ?l = rq_rules l" "rq_max_keys ?l = rq_max_keys l"
    using limiter_inv_step [OF Cons.prems(3) mem(1), of now] by (simp_all add: x)
  obtain new where new: "accepted_times l k (x # xs) = new @ accepted_times ?l k xs" "key_inv r k (us @ new) now ?l"
  proof (cases "(scope, actor) = k")
    case True
    obtain q l' where q: "rate_check scope actor now l = (q, l')" by fastforce
    have "map_of (rq_rules l) scope = Some r" using True Cons.prems(2) by auto
    from own_check [OF _ this assms(5) mem(2) q keep] Cons.prems(4) True obtain d
      where d: "q = Inr d" "key_inv r k (us @ (if rq_allowed d then [now] else [])) now l'" by auto
    have "?l = l'" by (simp add: x rate_step_def q)
    moreover have "accepted_times l k (x # xs) = (if rq_allowed d then [now] else []) @ accepted_times ?l k xs"
      unfolding True [symmetric] by (simp add: x q d(1))
    ultimately show ?thesis using that d(2) True by blast
  next
    case False
    then have "accepted_times l k (x # xs) = [] @ accepted_times ?l k xs" by (auto simp: x split: sum.split)
    moreover have "key_inv r k (us @ []) now ?l" using other_check [OF Cons.prems(4) mem(2) False keep] by (simp add: x)
    ultimately show ?thesis by (rule that)
  qed
  have "sorted_wrt (\<le>) (now # map fst xs)" using Cons.prems(5) by (simp add: x)
  then have "int (length (in_span t (rq_window r) ((us @ new) @ accepted_times ?l k xs))) \<le> rq_limit r"
    using Cons.IH [OF _ _ li(1) new(2)] Cons.prems(1,2,6) li(2,3) by simp
  then show ?case by (simp add: new(1))
qed

lemma room_kept:
  assumes "int (length (rq_windows m)) \<le> n" and "rq_max_keys m = n" and "0 < n"
  shows "int (length (rq_windows (rate_step m (now, scope, actor)))) \<le> n"
proof -
  have "int (length (other_windows (scope, actor) m)) < n"
  proof (cases "map_of (rq_windows m) (scope, actor)")
    case None
    then show ?thesis using assms by (simp add: other_windows_def evict_if_full_def)
  next
    case (Some es)
    have "((scope, actor), es) \<in> set (rq_windows m)" using Some by (rule map_of_SomeD)
    then have "length (filter (\<lambda>x. fst x \<noteq> (scope, actor)) (rq_windows m)) < length (rq_windows m)"
      by (rule length_filter_less) simp
    then show ?thesis using Some assms by (simp add: other_windows_def)
  qed
  then show ?thesis using rate_step_windows [OF refl, of m now scope actor] assms(1) by auto
qed

text \<open>C17. The rate limit holds: whatever requests come, in no time window of a rule's length are more than
  the rule's limit accepted of one actor, as long as no more actors come than the limiter remembers; and it
  never remembers more than it may.\<close>

theorem rate_limit_holds:
  assumes "new_rate_limiter rules n = Inr l" and "map_of rules scope = Some r" and "check_rate_rule r = Inr r"
    and "sorted (map fst xs)"
  shows "(int (card (snd ` set xs)) \<le> n \<longrightarrow> int (length (in_span t (rq_window r) (accepted_times l (scope, actor) xs))) \<le> rq_limit r)
    \<and> int (length (rq_windows (run rate_step l xs))) \<le> n"
proof
  let ?K = "snd ` set xs"
  have n: "0 < n" and l: "rq_rules l = rules" "rq_max_keys l = n" "rq_windows l = []"
    using assms(1) by (auto simp: new_rate_limiter_def first_error_Inr)
  have w: "0 < rq_window r" "0 < rq_limit r" using assms(3) by (auto simp: check_rate_rule_def first_error_Inr)
  have start: "limiter_inv ?K l" using n l by (simp add: limiter_inv_def)
  have none: "accepted_times m k ys = []" if "k \<notin> snd ` set ys" for m k ys
    using that by (induction ys arbitrary: m) (auto split: sum.split)
  show "int (card ?K) \<le> n \<longrightarrow> int (length (in_span t (rq_window r) (accepted_times l (scope, actor) xs))) \<le> rq_limit r"
  proof
    assume card: "int (card ?K) \<le> n"
    show "int (length (in_span t (rq_window r) (accepted_times l (scope, actor) xs))) \<le> rq_limit r"
    proof (cases "(scope, actor) \<in> ?K")
      case True
      then obtain x ys where xs: "xs = x # ys" by (cases xs) auto
      have "key_inv r (scope, actor) [] (fst x) l" using w l by (simp add: key_inv_def in_span_def)
      moreover have "sorted_wrt (\<le>) (fst x # map fst xs)" using assms(4) by (simp add: xs)
      ultimately show ?thesis
        using accepted_within [OF _ _ True _ w(1) start, where us = "[]" and xs = xs and t = t] card l assms(2) by simp
    next
      case False
      then show ?thesis using none w by (simp add: in_span_def)
    qed
  qed
  have "int (length (rq_windows (run rate_step m ys))) \<le> n \<and> rq_max_keys m = n" if "int (length (rq_windows m)) \<le> n" "rq_max_keys m = n" for m ys
    using that
  proof (induction ys arbitrary: m)
    case (Cons y ys)
    obtain now s a where y: "y = (now, s, a)" by (cases y) auto
    have "int (length (rq_windows (rate_step m y))) \<le> n" using room_kept Cons.prems n unfolding y by blast
    moreover have "rq_max_keys (rate_step m y) = n"
      using Cons.prems by (auto simp: y rate_step_def rate_check_def Let_def split: option.splits)
    ultimately show ?case using Cons.IH Cons.prems by simp
  qed simp
  then show "int (length (rq_windows (run rate_step l xs))) \<le> n" using l n by simp
qed

definition sample_rules :: "(string \<times> rate_rule) list" where
  "sample_rules = [(''login'', \<lparr> rq_limit = 2, rq_window = 10 \<rparr>)]"

definition sample_requests :: "rate_request list" where
  "sample_requests = [(0, ''login'', ''a''), (1, ''login'', ''a''), (2, ''login'', ''a''), (3, ''login'', ''b''), (11, ''login'', ''a'')]"

lemma rate_limit_holds_witness:
  "\<exists>l. new_rate_limiter sample_rules 2 = Inr l \<and> accepted_times l (''login'', ''a'') sample_requests = [0, 1, 11]
     \<and> length (in_span 5 10 (accepted_times l (''login'', ''a'') sample_requests)) \<le> 2"
proof -
  obtain l where l: "new_rate_limiter sample_rules 2 = Inr l" by (simp add: new_rate_limiter_def first_error.simps)
  have "card (snd ` set sample_requests) = 2" by code_simp
  then have c: "int (card (snd ` set sample_requests)) \<le> 2" by simp
  have r: "map_of sample_rules ''login'' = Some \<lparr> rq_limit = 2, rq_window = 10 \<rparr>" by code_simp
  have ok: "check_rate_rule \<lparr> rq_limit = 2, rq_window = 10 \<rparr> = Inr \<lparr> rq_limit = 2, rq_window = 10 \<rparr>" by code_simp
  have s: "sorted (map fst sample_requests)" by code_simp
  have "accepted_times (\<lparr> rq_rules = sample_rules, rq_max_keys = 2, rq_windows = [], rq_accepted = [(''login'', 0)],
     rq_rejected = [(''login'', 0)] \<rparr>) (''login'', ''a'') sample_requests = [0, 1, 11]" by code_simp
  moreover have "l = \<lparr> rq_rules = sample_rules, rq_max_keys = 2, rq_windows = [], rq_accepted = [(''login'', 0)],
     rq_rejected = [(''login'', 0)] \<rparr>"
    using l by (auto simp: new_rate_limiter_def first_error_Inr sample_rules_def)
  ultimately show ?thesis using rate_limit_holds [OF l r ok s, where actor = "''a''" and t = 5] c l by simp
qed

end
