(* ===== verification/Spec2Isabelle.thy ===== *)
theory Spec2Isabelle
  imports Guardian Live_Deployment Outbox_Roundtrip Account_Risk_Safety Strategy_Causality Strategy_Parameters
    Composite_Safety Auth_Safety Execution_Worker Execution_Targets
    Backtest_Safety Paper_Instance Rate_Limit
begin

text \<open>
  A model of the trading core of \<open>src/tw_quant\<close>, a system for Taiwan index futures: market data to
  bars, bars to signals, signals to orders of a paper simulation or of a live broker, with the stores,
  gates and services that keep a live account safe.  Every definition is translated from the Python
  source; each theory names the files it models, each definition the function by its own name.

  \<^bold>\<open>Parts and how they interact.\<close>

  \<^item> Live orders (\<open>broker/\<close>).  A request (\<open>Broker_Models\<close>: \<open>models.py\<close>, \<open>identity.py\<close>, \<open>routing.py\<close>,
    \<open>capabilities.py\<close>, \<open>safety.py\<close>) is reserved in the SQLite store (\<open>Live_Outbox\<close>: \<open>repository.py\<close>) with an
    outbox row; the order manager (\<open>Order_Manager\<close>: \<open>manager.py\<close>, \<open>registry.py\<close>, gates of \<open>ports.py\<close>) claims
    it, asks the gate of its account, calls the broker and writes the outcome back by the transition
    table (\<open>Order_Lifecycle\<close>: \<open>lifecycle.py\<close>).
  \<^item> Broker truth.  Snapshots (\<open>Broker_Snapshot\<close>, \<open>Reconciliation\<close>: \<open>reconciliation.py\<close>, \<open>truth.py\<close>) are
    compared with the store; the account is ready only by the recovery lock (\<open>Recovery_Lock\<close>:
    \<open>recovery.py\<close>); fills are projected to positions (\<open>Live_Positions\<close>).
  \<^item> Live admission.  Quotes (\<open>Market_Quotes\<close>: \<open>market/quotes.py\<close>, \<open>quote_store.py\<close>), the risk evaluation of
    a candidate (\<open>Live_Risk\<close>: \<open>execution/live_models.py\<close>, \<open>risk/live.py\<close>), the order it becomes (\<open>Live_Policy\<close>:
    \<open>execution/live_policy.py\<close>), the canary limits, ARM sessions and gate (\<open>Canary\<close>: \<open>broker/canary.py\<close>,
    \<open>canary_repository.py\<close>, \<open>execution/canary.py\<close>).
  \<^item> Protection.  The guardian (\<open>Guardian_Store\<close>, \<open>Guardian\<close>: \<open>broker/guardian_models.py\<close>,
    \<open>guardian_repository.py\<close>, \<open>execution/guardian.py\<close>) rebuilds managed positions from truth and requests
    reduce-only exits, through the manager again.
  \<^item> Workers.  Broker callbacks are recorded and matched with broker truth (\<open>Broker_Events\<close>: \<open>broker/events.py\<close>,
    \<open>audit.py\<close>, \<open>callback_consumer.py\<close>); the worker of an account schedules start, reconnects,
    reconciliations, callbacks, heartbeats, the canary dispatch and the guardian (\<open>Account_Worker\<close>,
    \<open>Worker_Safety\<close>: \<open>broker/worker.py\<close>); \<open>Execution_Worker\<close> has the persistent runtime and the supervisor of
    the same file, \<open>Execution_Targets\<close> the accounts users own and what they resolve to
    (\<open>broker/execution_targets.py\<close>, \<open>execution_target_repository.py\<close>).
  \<^item> Simulation.  Typed events (\<open>Events\<close>: \<open>events/models.py\<close>) run through the event engine (\<open>Event_Engine\<close>:
    \<open>events/engine.py\<close>, \<open>clock.py\<close>); the pipeline (\<open>Exec_Pipeline\<close>: \<open>execution/pipeline.py\<close>,
    \<open>signal_router.py\<close>, \<open>risk_gates.py\<close>, \<open>liquidator.py\<close>) connects router, gate, simulated broker
    (\<open>Sim_Broker\<close>: \<open>execution/simulated_broker.py\<close>) and ledger (\<open>Paper_Ledger\<close>:
    \<open>execution/position_ledger.py\<close>, \<open>futures_costs.py\<close>, \<open>risk/engine.py\<close>); the account gate of paper trading is
    \<open>Account_Risk\<close> (\<open>risk/account.py\<close>, \<open>auth/models.py\<close>).
  \<^item> Paper trading.  The service (\<open>Paper_Service\<close>: \<open>paper/service.py\<close>, \<open>broker.py\<close>) runs that pipeline behind
    the account gate, reserves the key of each request, records the processed events in its store
    (\<open>Paper_Store\<close>: \<open>paper/repository.py\<close>), and rebuilds the account from them when it starts.
    \<open>Paper_Contract\<close> says which events its handlers put out, \<open>Paper_Safety\<close> that every call keeps the
    invariant, \<open>Paper_Restart\<close> and \<open>Paper_Recovery\<close> what a start finds, \<open>Paper_Instance\<close> is a run.
  \<^item> Stock backtest (\<open>Backtest_Engine\<close>, \<open>Backtest_Safety\<close>: \<open>config.py\<close>, \<open>costs.py\<close>, \<open>data.py\<close>, \<open>engine.py\<close>,
    \<open>metrics.py\<close>): bars of one stock, day by day, to trades, equity and figures.
  \<^item> The rate limiter of the HTTP interface (\<open>Rate_Limit\<close>: \<open>live/rate_limit.py\<close>).
  \<^item> Market data and strategies.  Sessions and trading dates (\<open>Market_Sessions\<close>: \<open>market/sessions.py\<close>),
    ticks, minute bars and longer time frames (\<open>Market_Bars\<close>: \<open>market/models.py\<close>, \<open>timeframes.py\<close>,
    \<open>live/aggregator.py\<close>), column arithmetic (\<open>Bar_Series\<close>), Dow channels (\<open>Dow_Channel\<close>:
    \<open>strategy/linear_channel.py\<close>), the rules of the fourteen strategies (\<open>Strategy_Signals\<close>:
    \<open>strategy/definitions.py\<close>, \<open>engine.py\<close>), their parameters (\<open>Strategy_Parameters\<close>:
    \<open>strategy/parameters.py\<close>) and the fills of their intents (\<open>Signal_Simulator\<close>:
    \<open>execution/simulator.py\<close>, \<open>policy.py\<close>); strategies composed of rules and of one another
    (\<open>Composite_Strategy\<close>, \<open>Composite_Run\<close>, \<open>Composite_Safety\<close>: \<open>strategy/composite.py\<close>).
  \<^item> Accounts (\<open>Auth_Store\<close>, \<open>Auth_Safety\<close>: \<open>auth/repository.py\<close>, \<open>service.py\<close>, \<open>permissions.py\<close>): users bound to
    verified identities, requests for access, the audit log, and the permission check of a request.

  \<^bold>\<open>How the code is rendered.\<close>  A dataclass is a record, an enum a datatype, a raised exception a value of
  \<open>err\<close> in a result \<open>'a res\<close>; an operation that changes state is a function \<open>('s, 'a) prog\<close> from the state
  to the result and the state it leaves, so what was committed before an exception stays.  A table is
  the list of its rows in insertion order, with the primary and unique keys checked where the
  statements check them.  Datetimes are microseconds, dates day numbers, floats exact rationals,
  Python integers \<open>int\<close>.  Operations that await a broker are split at the await, so that crashes and
  interleavings at that point are runs of the model.

  \<^bold>\<open>Parameters.\<close>  Code that is not in the repository is an argument: the broker port (what submit, cancel
  and refresh answer or raise), the snapshot source, SHA-256 ids and printed floats (the record
  \<open>hashing\<close> of \<open>Events\<close>, function arguments elsewhere), and the window statistics of pandas (the record
  \<open>pandas\<close> of \<open>Bar_Series\<close>); what is relied on of pandas is \<open>pandas_causal\<close>: the statistics of a row read
  the rows up to it.  \<open>sample_pandas\<close> is an instance, used by the witnesses.

  \<^bold>\<open>What is shown.\<close>  Orders: one key per account (C1), legal lives of an order (C2), at most one
  submission and one cancel over any run of the store and of the manager, restarts and crashes
  included (C3, C12, \<open>cancel_submitted_at_most_once\<close>), the store's invariant and restart (C5, C6), claims
  (\<open>claim_oldest_of_target\<close>), idempotence (\<open>reserve_idempotent\<close>), what was reserved is what is read and sent (C39), no submission without admission, failed calls end UNKNOWN
  and blocked (C13, C14).  Truth: positions project fills (C9), the lock opens only on a clean
  completion of its own generation (C10, \<open>stale_completion_rejected\<close>), an issue-free reconciliation is agreement of the books
  (C15, C16).  Admission: quotes (\<open>quote_stores_agree_on_latest\<close>), live limits (C18, C19), bounded slippage (C20), emergency exits
  (\<open>emergency_exit_reduces\<close>), ARM sessions and the canary gate (C22, C23), and what a whole deployment behind canary gates
  sends (C40, below).  Protection: C25, C27, C28, with the lemmas \<open>guardian_store_well_formed\<close> and
  \<open>open_position_sum_and_average\<close>.  Workers: an
  account worker fails closed over every interleaving of its tasks (C21), the runtime submits only
  under an open lock (\<open>runtime_submits_under_open_lock\<close>), an account has one owner
  (\<open>account_has_one_owner\<close>).  Simulation: the event order and its termination (C29 to
  C32), the ledger as cash flow (C33), fills (C34, C35), gates (C36, C37).  Paper trading: a restart rebuilds the ledger
  (C4), a request key has one order (C7), recovery fails closed (C11).  Backtest: its figures (C24) and
  its trades (C26).  The rate limit holds (C17).  Strategies: no look-ahead
  (C38); lemmas of the components show that aggregation keeps volumes (\<open>minute_bars_conserve_volume\<close>,
  \<open>aggregate_bars_volume\<close>), that the trading day is the next one of the calendar
  (\<open>next_trading_day_least\<close>), that signals alternate between entry and exit
  (\<open>simulated_positions_alternate\<close>, \<open>composite_signals_closed\<close>), that validated parameters are inside
  their bounds (\<open>validated_fits\<close>), that accepted composites are bounded and not cyclic
  (\<open>validated_composite\<close>, \<open>dependencies_accepted\<close>).  Accounts: a permitted request belongs to the one account
  bound to its identity (C8).

  \<^bold>\<open>Interfaces.\<close>  Locales state what several components share, each interpreted on the definitions of the
  model: invariants and monotone relations over runs and the queue that hands a key out once
  (\<open>Prelude\<close>, for the two outboxes), the store of quotes (\<open>Market_Quotes\<close>), the priority queue of the event
  engine (\<open>Event_Engine\<close>), the relations a program keeps (\<open>Worker_Safety\<close>), what the handlers of an
  engine keep (\<open>Event_Order\<close>, for the paper pipeline in \<open>Paper_Contract\<close>), the risk gate of the pipeline (\<open>Exec_Pipeline\<close>, for the research, disabled and
  account gates).

  \<^bold>\<open>Loops and fuel.\<close>  Loops over lists are structural.  \<open>trading_day_from\<close> and \<open>gap_bars\<close> terminate by
  measures (the days up to the last holiday and weekend; the minutes left).  The event loop
  \<open>run\<close> of the engine carries the source's own \<open>max_events\<close> as its bound; C32 gives a bound that is enough.

  \<^bold>\<open>Findings.\<close>  Lemmas exhibit seven places where the code does not do what it means to:
  \<open>immediate_exits_overshoot\<close> (two immediate reduce-only exits flip a position),
  \<open>manual_kill_switch_lifted\<close> (a manual kill switch is lifted by the next day), \<open>friday_night_split\<close> (one
  night session has two trading dates), \<open>failed_creation_leaves_user\<close> (a refused account is stored),
  \<open>every_dispatch_locks\<close> (a canary worker locks its account after each order it dispatches),
  \<open>late_submission_strands_key\<close> (a refused paper order keeps its key, which blocks the account at the next
  start), \<open>recovery_order_follows_clock\<close> (the replay order of the paper store is that of the wall clock).

  \<^bold>\<open>Not modelled.\<close>  Adapters of the Shioaji library, the HTTP routes, settings, secrets and command
  lines (they parse, forward and call libraries); charts, reports and display text; the storage of
  history and runtime state (\<open>live/storage.py\<close>); the services that schedule these components for the
  HTTP interface (\<open>live/application\<close>, \<open>execution_service\<close>), whose state is in the components they call;
  shadow runs, and the runners that feed historical bars to the modelled strategies and pipeline.
\<close>

section \<open>A live deployment\<close>

text \<open>C40. What the live execution service sends.  It has one account, one registered port, and the
  gates the runtime composes: the recovery lock, the account's safety policy, and the canary gate or
  (where no canary is configured) the locked gate.  Over any run of its order manager from an empty
  store (creations, dispatches stopped anywhere, cancels, reconciliations, restarts), every order
  submitted goes to the account and resolves to its port; it is for one contract, from a known source,
  of the allowed owner, symbol and contract; and at the step that sent it live trading was enabled and
  confirmed, the recovery lock open, the broker connected, no order of the account UNKNOWN, and either
  the guardian reduced with it, or no kill switch blocked it and its ARM was running in the ARM table
  for its owner, the account and the target.  No client order is submitted twice, all orders are of one
  owner and one contract, and without a canary configuration nothing is sent.\<close>

theorem canary_deployment_orders:
  assumes "\<And>c. ld_canary d = Some c \<Longrightarrow> canary_config_post_init c = Inr c"
    and "sent = mw_submitted (run (deployed_step d) empty_world ops)"
  shows "(\<forall>ro \<in> set sent. \<exists>c ys rd x zs m w. ops = ys @ (rd, x) # zs \<and> w = run (deployed_step d) empty_world ys
        \<and> ld_canary d = Some c \<and> narrow_order d c ro \<and> admitted_order d rd (mw_repo w) c ro
        \<and> deployed_manager d rd (mw_repo w) = Inr m \<and> resolve (ro_target ro) (om_registry m) = Inr (ld_port d))
    \<and> distinct (map sent_id sent)
    \<and> (\<forall>ro \<in> set sent. \<forall>ro' \<in> set sent.
         req_owner_id (bo_request (ro_order ro)) = req_owner_id (bo_request (ro_order ro'))
         \<and> req_contract (bo_request (ro_order ro)) = req_contract (bo_request (ro_order ro')))"
proof -
  have "\<forall>c. ld_canary d = Some c \<longrightarrow> canary_config_post_init c = Inr c" using assms(1) by blast
  note each = deployed_sent [OF this]
  have d: "distinct (map sent_id sent)"
  proof -
    obtain xs where "run (deployed_step d) empty_world ops = run manager_step empty_world xs"
      using deployed_run by blast
    then show ?thesis unfolding assms(2) using times_sent_distinct [OF conjunct1 [OF sent_at_most_once]] by simp
  qed
  have one: "one_member (cc_owners c) \<and> one_member (cc_contracts c)" if "ld_canary d = Some c" "cc_enabled c" for c
    using assms(1) [OF that(1)] that(2) by (auto simp: canary_config_post_init_def first_error_Inr)
  have "req_owner_id (bo_request (ro_order ro)) = req_owner_id (bo_request (ro_order ro'))
      \<and> req_contract (bo_request (ro_order ro)) = req_contract (bo_request (ro_order ro'))"
    if mem: "ro \<in> set sent" "ro' \<in> set sent" for ro ro'
  proof -
    obtain c where "ld_canary d = Some c" "cc_enabled c" "narrow_order d c ro"
      using each [of ro ops] mem(1) unfolding assms(2) by blast
    moreover obtain c' where "ld_canary d = Some c'" "narrow_order d c' ro'"
      using each [of ro' ops] mem(2) unfolding assms(2) by blast
    ultimately show ?thesis using one [of c] by (auto simp: narrow_order_def Let_def intro: one_member_eq)
  qed
  moreover have "\<forall>ro \<in> set sent. \<exists>c ys rd x zs m w. ops = ys @ (rd, x) # zs \<and> w = run (deployed_step d) empty_world ys
        \<and> ld_canary d = Some c \<and> narrow_order d c ro \<and> admitted_order d rd (mw_repo w) c ro
        \<and> deployed_manager d rd (mw_repo w) = Inr m \<and> resolve (ro_target ro) (om_registry m) = Inr (ld_port d)"
    using each unfolding assms(2) by blast
  ultimately show ?thesis using d by blast
qed

definition deployment1 :: live_deployment where
  "deployment1 = \<lparr>ld_account = t1, ld_port = flaky_port, ld_capabilities = [], ld_connected_client = True,
     ld_trading_enabled = True, ld_confirmation = LIVE_TRADING_CONFIRMATION, ld_target_id = ''live-1'',
     ld_canary = Some canary_cfg1\<rparr>"

definition readings1 :: gate_readings where
  "readings1 = \<lparr>rd_now = 200, rd_recovery = Inr (), rd_connected = True, rd_ca_ready = True,
     rd_kill_switches = (\<lambda>_. []), rd_position = (\<lambda>_. Some 0),
     rd_arms = armed_store\<lparr>cs_arms := [arm1\<lparr>as_target_id := Some ''live-1''\<rparr>]\<rparr>\<rparr>"

definition deployment_run1 :: "(gate_readings \<times> manager_op) list" where
  "deployment_run1 = [(readings1, Create manager1 canary_rq1 200), (readings1, DispatchOnce manager1 t1 (\<lambda>i. 201 + int i)),
     (readings1, DispatchOnce manager1 t1 (\<lambda>i. 301 + int i))]"

theorem canary_deployment_orders_witness:
  "\<exists>ro. mw_submitted (run (deployed_step deployment1) empty_world deployment_run1) = [ro]
    \<and> narrow_order deployment1 canary_cfg1 ro"
proof -
  have c: "canary_config_post_init c = Inr c" if "ld_canary deployment1 = Some c" for c
  proof -
    have "c = canary_cfg1" using that by (simp add: deployment1_def)
    moreover have "canary_config_post_init canary_cfg1 = Inr canary_cfg1" by code_simp
    ultimately show ?thesis by simp
  qed
  have "length (mw_submitted (run (deployed_step deployment1) empty_world deployment_run1)) = 1" by code_simp
  then obtain ro where ro: "mw_submitted (run (deployed_step deployment1) empty_world deployment_run1) = [ro]"
    by (auto simp: length_Suc_conv)
  have "ld_canary deployment1 = Some canary_cfg1" by (simp add: deployment1_def)
  with canary_deployment_orders [where d = deployment1 and ops = deployment_run1, OF c refl] ro show ?thesis by auto
qed

end
